(* ===== verification/Regex.thy ===== *)
theory Regex
  imports JsBase
begin

text \<open>
  Regular expressions of the source, as terms matched by derivatives, with their language as the
  specification. \<open>rx_full\<close> is a test anchored at both ends (\<open>/^r$/.test(s)\<close>), \<open>rx_test\<close> an
  unanchored one, \<open>rx_prefix\<close> one anchored at the start. \<open>rx_longest\<close> is the longest match at
  the head of a string and \<open>rx_replace_all\<close> the global replacement by leftmost longest matches,
  which is what the greedy patterns of the source compute.
\<close>

section \<open>Expressions, language, derivatives\<close>

datatype rx =
    RNone
  | RNil
  | RChr "char \<Rightarrow> bool"
  | RSeq rx rx
  | RAlt rx rx
  | RStar rx

inductive_set star_lang :: "string set \<Rightarrow> string set" for L where
  star_nil: "[] \<in> star_lang L"
| star_step: "a \<in> L \<Longrightarrow> b \<in> star_lang L \<Longrightarrow> a @ b \<in> star_lang L"

fun lang :: "rx \<Rightarrow> string set" where
  "lang RNone = {}"
| "lang RNil = {[]}"
| "lang (RChr p) = {[c] | c. p c}"
| "lang (RSeq r t) = {a @ b | a b. a \<in> lang r \<and> b \<in> lang t}"
| "lang (RAlt r t) = lang r \<union> lang t"
| "lang (RStar r) = star_lang (lang r)"

fun nullable :: "rx \<Rightarrow> bool" where
  "nullable RNone = False"
| "nullable RNil = True"
| "nullable (RChr p) = False"
| "nullable (RSeq r t) = (nullable r \<and> nullable t)"
| "nullable (RAlt r t) = (nullable r \<or> nullable t)"
| "nullable (RStar r) = True"

text \<open>Simplifying constructors keep the derivatives small.\<close>

fun mk_seq :: "rx \<Rightarrow> rx \<Rightarrow> rx" where
  "mk_seq RNone t = RNone"
| "mk_seq RNil t = t"
| "mk_seq r t = (case t of RNone \<Rightarrow> RNone | _ \<Rightarrow> RSeq r t)"

fun mk_alt :: "rx \<Rightarrow> rx \<Rightarrow> rx" where
  "mk_alt RNone t = t"
| "mk_alt r t = (case t of RNone \<Rightarrow> r | _ \<Rightarrow> RAlt r t)"

fun deriv :: "char \<Rightarrow> rx \<Rightarrow> rx" where
  "deriv c RNone = RNone"
| "deriv c RNil = RNone"
| "deriv c (RChr p) = (if p c then RNil else RNone)"
| "deriv c (RSeq r t) =
     (if nullable r then mk_alt (mk_seq (deriv c r) t) (deriv c t) else mk_seq (deriv c r) t)"
| "deriv c (RAlt r t) = mk_alt (deriv c r) (deriv c t)"
| "deriv c (RStar r) = mk_seq (deriv c r) (RStar r)"

fun rx_full :: "rx \<Rightarrow> string \<Rightarrow> bool" where
  "rx_full r [] = nullable r"
| "rx_full r (c # cs) = rx_full (deriv c r) cs"

lemma lang_mk_seq [simp]: "lang (mk_seq r t) = {a @ b | a b. a \<in> lang r \<and> b \<in> lang t}"
  by (cases r; cases t) auto

lemma lang_mk_alt [simp]: "lang (mk_alt r t) = lang r \<union> lang t"
  by (cases r; cases t) auto

lemma nullable_iff: "nullable r \<longleftrightarrow> [] \<in> lang r"
  by (induction r) (auto intro: star_lang.star_nil)

lemma star_lang_Cons:
  "c # s \<in> star_lang L \<longleftrightarrow> (\<exists>a b. c # a \<in> L \<and> b \<in> star_lang L \<and> s = a @ b)"
proof
  have "w \<in> star_lang L \<Longrightarrow> w = c # s \<Longrightarrow> \<exists>a b. c # a \<in> L \<and> b \<in> star_lang L \<and> s = a @ b" for w
    by (induction arbitrary: s rule: star_lang.induct) (auto simp: Cons_eq_append_conv append_eq_Cons_conv)
  then show "c # s \<in> star_lang L \<Longrightarrow> \<exists>a b. c # a \<in> L \<and> b \<in> star_lang L \<and> s = a @ b" by blast
qed (auto intro: star_lang.star_step [of "c # _", simplified])

lemma lang_deriv: "lang (deriv c r) = {s. c # s \<in> lang r}"
proof (induction r)
  case (RSeq r t)
  then show ?case
    by (auto simp: nullable_iff Cons_eq_append_conv)
next
  case (RStar r)
  then show ?case by (auto simp: star_lang_Cons)
qed auto

theorem rx_full_iff: "rx_full r s \<longleftrightarrow> s \<in> lang r"
  by (induction s arbitrary: r) (auto simp: nullable_iff lang_deriv)

section \<open>Derived forms\<close>

fun rx_lit :: "string \<Rightarrow> rx" where
  "rx_lit [] = RNil"
| "rx_lit (c # cs) = RSeq (RChr ((=) c)) (rx_lit cs)"

text \<open>A literal under the \<open>i\<close> flag. Character classes are named predicates, so that evaluation
  meets them applied to a character only.\<close>

definition same_lower :: "char \<Rightarrow> char \<Rightarrow> bool" where
  "same_lower c d \<longleftrightarrow> lower_char d = lower_char c"

definition any_char :: "char \<Rightarrow> bool" where
  "any_char c \<longleftrightarrow> True"

definition dot_char :: "char \<Rightarrow> bool" where
  "dot_char c \<longleftrightarrow> code_of c \<noteq> 10 \<and> code_of c \<noteq> 13"

definition not_ws :: "char \<Rightarrow> bool" where
  "not_ws c \<longleftrightarrow> \<not> is_ws c"

lemmas [js_eval] = same_lower_def any_char_def dot_char_def not_ws_def

fun rx_ilit :: "string \<Rightarrow> rx" where
  "rx_ilit [] = RNil"
| "rx_ilit (c # cs) = RSeq (RChr (same_lower c)) (rx_ilit cs)"

definition rx_plus :: "rx \<Rightarrow> rx" where
  "rx_plus r = RSeq r (RStar r)"

definition rx_opt :: "rx \<Rightarrow> rx" where
  "rx_opt r = RAlt RNil r"

fun rx_times :: "nat \<Rightarrow> rx \<Rightarrow> rx" where
  "rx_times 0 r = RNil"
| "rx_times (Suc n) r = RSeq r (rx_times n r)"

text \<open>\<open>r{0,n}\<close>\<close>

fun rx_upto :: "nat \<Rightarrow> rx \<Rightarrow> rx" where
  "rx_upto 0 r = RNil"
| "rx_upto (Suc n) r = RAlt RNil (RSeq r (rx_upto n r))"

fun rx_alts :: "rx list \<Rightarrow> rx" where
  "rx_alts [] = RNone"
| "rx_alts [r] = r"
| "rx_alts (r # s # rs) = RAlt r (rx_alts (s # rs))"

fun rx_seqs :: "rx list \<Rightarrow> rx" where
  "rx_seqs [] = RNil"
| "rx_seqs [r] = r"
| "rx_seqs (r # s # rs) = RSeq r (rx_seqs (s # rs))"

definition rx_any :: rx where
  "rx_any = RChr any_char"

text \<open>The dot: any character but a line terminator.\<close>

definition rx_dot :: rx where
  "rx_dot = RChr dot_char"

definition rx_prefix :: "rx \<Rightarrow> string \<Rightarrow> bool" where
  "rx_prefix r s = rx_full (RSeq r (RStar rx_any)) s"

definition rx_test :: "rx \<Rightarrow> string \<Rightarrow> bool" where
  "rx_test r s = rx_full (RSeq (RStar rx_any) (RSeq r (RStar rx_any))) s"

lemma lang_seq_chr: "lang (RSeq (RChr p) t) = {c # s | c s. p c \<and> s \<in> lang t}"
proof (rule set_eqI)
  fix w show "w \<in> lang (RSeq (RChr p) t) \<longleftrightarrow> w \<in> {c # s | c s. p c \<and> s \<in> lang t}"
    by (cases w) (auto, metis append_Cons append_Nil)
qed

lemma lang_rx_lit [simp]: "lang (rx_lit s) = {s}"
  by (induction s) auto

lemma lang_rx_ilit: "lang (rx_ilit s) = {t. toLowerCase t = toLowerCase s}"
proof (induction s)
  case (Cons c cs)
  have "(\<exists>a t. u = a # t \<and> same_lower c a \<and> toLowerCase t = toLowerCase cs) \<longleftrightarrow>
      toLowerCase u = toLowerCase (c # cs)" for u
    by (cases u) (auto simp: toLowerCase_def same_lower_def)
  with Cons show ?case by (simp add: lang_seq_chr del: lang.simps(4))
qed simp

lemma lang_star_chr: "star_lang {[c] | c. p c} = {s. list_all p s}"
proof (intro set_eqI iffI; clarsimp)
  fix s assume "s \<in> star_lang {[c] | c. p c}"
  then show "list_all p s" by (induction) auto
next
  fix s assume "list_all p s"
  then show "s \<in> star_lang {[c] | c. p c}"
  proof (induction s)
    case (Cons c s)
    then show ?case using star_lang.star_step [of "[c]" "{[c] | c. p c}" s] by auto
  qed (auto intro: star_lang.star_nil)
qed

lemma lang_star_any [simp]: "lang (RStar rx_any) = UNIV"
proof -
  have "list_all any_char s" for s by (simp add: list_all_iff any_char_def)
  then show ?thesis using lang_star_chr [of any_char] by (simp add: rx_any_def)
qed

lemma lang_plus_chr: "lang (rx_plus (RChr p)) = {s. s \<noteq> [] \<and> list_all p s}"
proof -
  have "(\<exists>c t. s = c # t \<and> p c \<and> list_all p t) \<longleftrightarrow> s \<noteq> [] \<and> list_all p s" for s
    by (cases s) auto
  then show ?thesis by (simp add: rx_plus_def lang_seq_chr lang_star_chr del: lang.simps(4))
qed

lemma lang_upto_chr: "lang (rx_upto n (RChr p)) = {s. list_all p s \<and> length s \<le> n}"
proof (induction n)
  case (Suc n)
  have "s = [] \<or> (\<exists>c t. s = c # t \<and> p c \<and> list_all p t \<and> length t \<le> n) \<longleftrightarrow>
      list_all p s \<and> length s \<le> Suc n" for s
    by (cases s) auto
  with Suc show ?case by (auto simp: lang_seq_chr simp del: lang.simps(4))
qed auto

lemma lang_times_chr: "lang (rx_times n (RChr p)) = {s. list_all p s \<and> length s = n}"
proof (induction n)
  case (Suc n)
  have "(\<exists>c t. s = c # t \<and> p c \<and> list_all p t \<and> length t = n) \<longleftrightarrow>
      list_all p s \<and> length s = Suc n" for s
    by (cases s) auto
  with Suc show ?case by (simp add: lang_seq_chr del: lang.simps(4))
qed auto

lemma lang_alts: "lang (rx_alts rs) = (\<Union>r\<in>set rs. lang r)"
  by (induction rs rule: rx_alts.induct) auto

theorem rx_test_iff: "rx_test r s \<longleftrightarrow> (\<exists>a m b. s = a @ m @ b \<and> m \<in> lang r)"
  by (auto simp: rx_test_def rx_full_iff simp del: lang.simps(6))

theorem rx_prefix_iff: "rx_prefix r s \<longleftrightarrow> (\<exists>m b. s = m @ b \<and> m \<in> lang r)"
  by (auto simp: rx_prefix_def rx_full_iff simp del: lang.simps(6))

lemma rx_test_lit: "rx_test (rx_lit p) s \<longleftrightarrow> (\<exists>a b. s = a @ p @ b)"
  by (simp add: rx_test_iff)

lemma rx_test_chr: "rx_test (RChr p) s \<longleftrightarrow> (\<exists>c \<in> set s. p c)"
proof
  assume "rx_test (RChr p) s"
  then show "\<exists>c \<in> set s. p c" unfolding rx_test_iff by auto
next
  assume "\<exists>c \<in> set s. p c"
  then obtain c a b where "p c" "s = a @ [c] @ b" by (metis append_Cons append_Nil split_list)
  then have "s = a @ [c] @ b \<and> [c] \<in> lang (RChr p)" by simp
  then show "rx_test (RChr p) s" unfolding rx_test_iff by blast
qed

section \<open>Longest match and global replacement\<close>

fun longest_from :: "nat \<Rightarrow> nat option \<Rightarrow> rx \<Rightarrow> string \<Rightarrow> nat option" where
  "longest_from n best r s =
     (let best' = (if nullable r then Some n else best)
      in case s of [] \<Rightarrow> best' | c # cs \<Rightarrow> longest_from (Suc n) best' (deriv c r) cs)"

declare longest_from.simps [simp del]

definition rx_longest :: "rx \<Rightarrow> string \<Rightarrow> nat option" where
  "rx_longest r s = longest_from 0 None r s"

lemma longest_from_simps [simp]:
  "longest_from n best r [] = (if nullable r then Some n else best)"
  "longest_from n best r (c # cs) = longest_from (Suc n) (if nullable r then Some n else best) (deriv c r) cs"
  by (simp_all add: longest_from.simps)

lemma longest_from_Some:
  "longest_from n best r s = Some k \<Longrightarrow>
     best = Some k \<or> (n \<le> k \<and> k - n \<le> length s \<and> take (k - n) s \<in> lang r)"
proof (induction s arbitrary: n best r)
  case Nil
  then show ?case by (auto simp: nullable_iff split: if_splits)
next
  case (Cons c cs)
  from Cons.IH [of "Suc n" "if nullable r then Some n else best" "deriv c r"] Cons.prems
  consider "(if nullable r then Some n else best) = Some k"
    | "Suc n \<le> k" "k - Suc n \<le> length cs" "c # take (k - Suc n) cs \<in> lang r"
    by (auto simp: lang_deriv)
  then show ?case
  proof cases
    case 1
    then show ?thesis by (auto simp: nullable_iff split: if_splits)
  next
    case 2
    then have "k - n = Suc (k - Suc n)" by simp
    with 2 show ?thesis by simp
  qed
qed

lemma longest_from_greatest:
  "m \<le> length s \<Longrightarrow> take m s \<in> lang r \<Longrightarrow> \<exists>k. longest_from n best r s = Some k \<and> n + m \<le> k"
proof (induction s arbitrary: n best r m)
  case Nil
  then show ?case by (simp add: nullable_iff)
next
  case (Cons c cs)
  have later: "\<exists>k. longest_from p (Some q) t u = Some k \<and> q \<le> k" if "q \<le> p" for p q t u
    using that
  proof (induction u arbitrary: p q t)
    case (Cons d ds)
    show ?case
    proof (cases "nullable t")
      case True
      with Cons.IH [of p "Suc p" "deriv d t"] Cons.prems show ?thesis by auto
    next
      case False
      with Cons.IH [of q "Suc p" "deriv d t"] Cons.prems show ?thesis by simp
    qed
  qed simp
  show ?case
  proof (cases m)
    case 0
    with Cons.prems have "nullable r" by (simp add: nullable_iff)
    with 0 show ?thesis using later [of n "Suc n" "deriv c r" cs] by simp
  next
    case (Suc m')
    with Cons.prems have "m' \<le> length cs" "take m' cs \<in> lang (deriv c r)" by (auto simp: lang_deriv)
    from Cons.IH [OF this] Suc show ?thesis by force
  qed
qed

theorem rx_longest_sound: "rx_longest r s = Some k \<Longrightarrow> k \<le> length s \<and> take k s \<in> lang r"
  unfolding rx_longest_def using longest_from_Some [of 0 None r s k] by auto

theorem rx_longest_complete:
  "m \<le> length s \<Longrightarrow> take m s \<in> lang r \<Longrightarrow> \<exists>k. rx_longest r s = Some k \<and> m \<le> k"
  unfolding rx_longest_def using longest_from_greatest [of m s r 0 None] by auto

lemma rx_longest_None: "rx_longest r s = None \<longleftrightarrow> (\<forall>m\<le>length s. take m s \<notin> lang r)"
  by (metis not_None_eq option.distinct(1) rx_longest_complete rx_longest_sound)

text \<open>\<open>s.replace(/r/g, t)\<close> for a pattern that matches no empty string.\<close>

function rx_replace_all :: "rx \<Rightarrow> string \<Rightarrow> string \<Rightarrow> string" where
  "rx_replace_all r t [] = []"
| "rx_replace_all r t (c # cs) =
     (case rx_longest r (c # cs) of
        Some (Suc k) \<Rightarrow> t @ rx_replace_all r t (drop k cs)
      | _ \<Rightarrow> c # rx_replace_all r t cs)"
  by pat_completeness auto
termination
  by (relation "measure (\<lambda>(r, t, s). length s)") auto

lemma rx_replace_all_no_match: "\<not> rx_test r s \<Longrightarrow> rx_replace_all r t s = s"
proof (induction s)
  case (Cons c cs)
  have "\<not> rx_test r cs" using Cons.prems unfolding rx_test_iff by (metis append_Cons)
  moreover have "rx_longest r (c # cs) = None"
  proof (rule ccontr)
    assume "rx_longest r (c # cs) \<noteq> None"
    then obtain k where "take k (c # cs) \<in> lang r" using rx_longest_sound by blast
    then have "rx_test r (c # cs)"
      unfolding rx_test_iff by (metis append_Nil append_take_drop_id)
    with Cons.prems show False ..
  qed
  ultimately show ?case using Cons.IH by simp
qed simp

end
