(* ===== verification/Json.thy ===== *)
theory Json
  imports JsBase
begin

text \<open>
  \<open>JSON.stringify\<close> and \<open>JSON.parse\<close>. A number is \<open>JInt\<close> when its value is an integer (the only
  numbers the source computes with) and \<open>JFrac\<close> with its text otherwise; the rounding of integers
  beyond 2^53 is not modelled. An object is the list of its properties in order; parsing keeps the
  last value of a repeated key at the key's first position, as assignment to a JavaScript object
  does (the re-ordering of integer-like keys is not modelled). The parser takes fuel; twice the
  length of the text is always enough (\<open>json_roundtrip\<close> for printed values).
\<close>

datatype json =
    JNull
  | JBool bool
  | JInt int
  | JFrac string
  | JStr string
  | JArr "json list"
  | JObj "(string \<times> json) list"

section \<open>Printing\<close>

definition DQ :: char where "DQ = CHR 0x22"
definition BS :: char where "BS = CHR 0x5C"

definition hex_digit :: "nat \<Rightarrow> char" where
  "hex_digit n = (if n < 10 then char_of (48 + n) else char_of (87 + n))"

definition esc_char :: "char \<Rightarrow> string" where
  "esc_char c =
     (if c = DQ then [BS, DQ] else if c = BS then [BS, BS]
      else if code_of c = 8 then [BS, CHR ''b''] else if code_of c = 9 then [BS, CHR ''t'']
      else if code_of c = 10 then [BS, CHR ''n''] else if code_of c = 12 then [BS, CHR ''f'']
      else if code_of c = 13 then [BS, CHR ''r'']
      else if code_of c < 32 then
        [BS, CHR ''u'', CHR ''0'', CHR ''0'', hex_digit (code_of c div 16), hex_digit (code_of c mod 16)]
      else [c])"

definition quote_str :: "string \<Rightarrow> string" where
  "quote_str s = DQ # concat (map esc_char s) @ [DQ]"

fun stringify :: "json \<Rightarrow> string" where
  "stringify JNull = ''null''"
| "stringify (JBool b) = (if b then ''true'' else ''false'')"
| "stringify (JInt i) = show_int i"
| "stringify (JFrac t) = t"
| "stringify (JStr s) = quote_str s"
| "stringify (JArr xs) = CHR ''['' # join '','' (map stringify xs) @ '']''"
| "stringify (JObj kvs) =
     CHR ''{'' # join '','' (map (\<lambda>kv. quote_str (fst kv) @ CHR '':'' # stringify (snd kv)) kvs) @ ''}''"

section \<open>Parsing\<close>

definition json_ws :: "char \<Rightarrow> bool" where
  "json_ws c \<longleftrightarrow> code_of c \<in> {9, 10, 13, 32}"

definition skip_ws :: "string \<Rightarrow> string" where
  "skip_ws s = dropWhile json_ws s"

definition hex_val :: "char \<Rightarrow> nat option" where
  "hex_val c =
     (let n = code_of c in
      if 48 \<le> n \<and> n \<le> 57 then Some (n - 48)
      else if 97 \<le> n \<and> n \<le> 102 then Some (n - 87)
      else if 65 \<le> n \<and> n \<le> 70 then Some (n - 55) else None)"

definition hex4 :: "char \<Rightarrow> char \<Rightarrow> char \<Rightarrow> char \<Rightarrow> char option" where
  "hex4 a b c d =
     (case (hex_val a, hex_val b, hex_val c, hex_val d) of
        (Some w, Some x, Some y, Some z) \<Rightarrow>
          let n = ((w * 16 + x) * 16 + y) * 16 + z in if n < 256 then Some (char_of n) else Some (CHR ''?'')
      | _ \<Rightarrow> None)"

definition unesc :: "char \<Rightarrow> char option" where
  "unesc d =
     (if d = DQ \<or> d = BS \<or> d = CHR ''/'' then Some d
      else if d = CHR ''b'' then Some (CHR 0x08) else if d = CHR ''t'' then Some (CHR 0x09)
      else if d = CHR ''n'' then Some (CHR 0x0A) else if d = CHR ''f'' then Some (CHR 0x0C)
      else if d = CHR ''r'' then Some (CHR 0x0D) else None)"

fun pstr :: "string \<Rightarrow> (string \<times> string) option" where
  "pstr [] = None"
| "pstr (c # cs) =
     (if c = DQ then Some ([], cs)
      else if c = BS then
        (case cs of
           [] \<Rightarrow> None
         | d # ds \<Rightarrow>
             (case unesc d of
                Some e \<Rightarrow> map_option (apfst ((#) e)) (pstr ds)
              | None \<Rightarrow>
                  if d = CHR ''u'' then
                    (case ds of
                       w # x # y # z # r \<Rightarrow>
                         (case hex4 w x y z of Some e \<Rightarrow> map_option (apfst ((#) e)) (pstr r) | None \<Rightarrow> None)
                     | _ \<Rightarrow> None)
                  else None))
      else if code_of c < 32 then None
      else map_option (apfst ((#) c)) (pstr cs))"

definition mk_num :: "bool \<Rightarrow> string \<Rightarrow> string \<Rightarrow> int \<Rightarrow> string \<Rightarrow> json" where
  "mk_num neg ds fs e lexeme =
     (let m = read_nat (ds @ fs); k = e - int (length fs); sg = (if neg then -1 else 1)
      in if 0 \<le> k then JInt (sg * int (m * 10 ^ nat k))
         else if 10 ^ nat (- k) dvd m then JInt (sg * int (m div 10 ^ nat (- k)))
         else JFrac lexeme)"

definition pexp :: "string \<Rightarrow> (int \<times> string) option" where
  "pexp s =
     (case s of
        c # cs \<Rightarrow>
          if c = CHR ''e'' \<or> c = CHR ''E'' then
            (let sgn = (case cs of d # ds \<Rightarrow> d = CHR ''-'' | [] \<Rightarrow> False);
                 t = (case cs of d # ds \<Rightarrow> if d = CHR ''-'' \<or> d = CHR ''+'' then ds else cs | [] \<Rightarrow> []);
                 xs = takeWhile is_digit t
             in if xs = [] then None
                else Some ((if sgn then - 1 else 1) * int (read_nat xs), dropWhile is_digit t))
          else Some (0, s)
      | [] \<Rightarrow> Some (0, s))"

definition pfrac :: "string \<Rightarrow> (string \<times> string) option" where
  "pfrac r =
     (case r of
        c # cs \<Rightarrow>
          if c = CHR ''.'' then
            (if takeWhile is_digit cs = [] then None
             else Some (takeWhile is_digit cs, dropWhile is_digit cs))
          else Some ([], r)
      | [] \<Rightarrow> Some ([], r))"

definition pnum_unsigned :: "bool \<Rightarrow> string \<Rightarrow> string \<Rightarrow> (json \<times> string) option" where
  "pnum_unsigned neg s t =
     (let ds = takeWhile is_digit t
      in if ds = [] \<or> (hd ds = CHR ''0'' \<and> tl ds \<noteq> []) then None
         else
           (case pfrac (dropWhile is_digit t) of
              None \<Rightarrow> None
            | Some (fs, r) \<Rightarrow>
                (case pexp r of
                   None \<Rightarrow> None
                 | Some (e, q) \<Rightarrow> Some (mk_num neg ds fs e (take (length s - length q) s), q))))"

definition pnum :: "string \<Rightarrow> (json \<times> string) option" where
  "pnum s =
     (case s of
        c # cs \<Rightarrow> if c = CHR ''-'' then pnum_unsigned True s cs else pnum_unsigned False s s
      | [] \<Rightarrow> None)"

definition obj_norm :: "(string \<times> json) list \<Rightarrow> (string \<times> json) list" where
  "obj_norm kvs = foldl (\<lambda>m kv. AList.update (fst kv) (snd kv) m) [] kvs"

fun pval :: "nat \<Rightarrow> string \<Rightarrow> (json \<times> string) option"
  and parr :: "nat \<Rightarrow> string \<Rightarrow> (json list \<times> string) option"
  and pobj :: "nat \<Rightarrow> string \<Rightarrow> ((string \<times> json) list \<times> string) option" where
  "pval 0 s = None"
| "pval (Suc n) s =
     (case skip_ws s of
        [] \<Rightarrow> None
      | c # cs \<Rightarrow>
          if c = CHR ''{'' then
            (if starts_with ''}'' (skip_ws cs) then Some (JObj [], tl (skip_ws cs))
             else map_option (apfst (\<lambda>kvs. JObj (obj_norm kvs))) (pobj n cs))
          else if c = CHR ''['' then
            (if starts_with '']'' (skip_ws cs) then Some (JArr [], tl (skip_ws cs))
             else map_option (apfst JArr) (parr n cs))
          else if c = DQ then map_option (apfst JStr) (pstr cs)
          else if starts_with ''null'' (c # cs) then Some (JNull, drop 3 cs)
          else if starts_with ''true'' (c # cs) then Some (JBool True, drop 3 cs)
          else if starts_with ''false'' (c # cs) then Some (JBool False, drop 4 cs)
          else pnum (c # cs))"
| "parr 0 s = None"
| "parr (Suc n) s =
     (case pval n s of
        None \<Rightarrow> None
      | Some (v, r) \<Rightarrow>
          (case skip_ws r of
             [] \<Rightarrow> None
           | c # r' \<Rightarrow>
               if c = CHR '','' then map_option (apfst ((#) v)) (parr n r')
               else if c = CHR '']'' then Some ([v], r') else None))"
| "pobj 0 s = None"
| "pobj (Suc n) s =
     (case skip_ws s of
        [] \<Rightarrow> None
      | c # cs \<Rightarrow>
          if c \<noteq> DQ then None
          else
            (case pstr cs of
               None \<Rightarrow> None
             | Some (k, r) \<Rightarrow>
                 (case skip_ws r of
                    [] \<Rightarrow> None
                  | d # r' \<Rightarrow>
                      if d \<noteq> CHR '':'' then None
                      else
                        (case pval n r' of
                           None \<Rightarrow> None
                         | Some (v, q) \<Rightarrow>
                             (case skip_ws q of
                                [] \<Rightarrow> None
                              | e # q' \<Rightarrow>
                                  if e = CHR '','' then map_option (apfst ((#) (k, v))) (pobj n q')
                                  else if e = CHR ''}'' then Some ([(k, v)], q') else None)))))"

definition json_parse :: "string \<Rightarrow> json option" where
  "json_parse s =
     (case pval (2 * length s + 2) s of
        Some (v, r) \<Rightarrow> if skip_ws r = [] then Some v else None
      | None \<Rightarrow> None)"

section \<open>Number coercion\<close>

text \<open>
  \<open>Number(s)\<close>: \<open>Some (m, k)\<close> is the finite value \<open>m / 10 ^ k\<close>, \<^const>\<open>None\<close> is \<open>NaN\<close> (the text \<open>Infinity\<close>
  is not a finite number and is \<^const>\<open>None\<close> too).
\<close>

definition num_decimal :: "string \<Rightarrow> (int \<times> nat) option" where
  "num_decimal t =
     (let ds = takeWhile is_digit t; r = dropWhile is_digit t;
          fs = (if starts_with ''.'' r then takeWhile is_digit (tl r) else []);
          q = (if starts_with ''.'' r then dropWhile is_digit (tl r) else r)
      in if ds = [] \<and> fs = [] then None
         else
           (case pexp q of
              Some (e, []) \<Rightarrow>
                let m = int (read_nat (ds @ fs)); k = int (length fs) - e
                in if k \<le> 0 then Some (m * 10 ^ nat (- k), 0) else Some (m, nat k)
            | _ \<Rightarrow> None))"

definition num_radix :: "nat \<Rightarrow> string \<Rightarrow> (int \<times> nat) option" where
  "num_radix b t =
     (if t \<noteq> [] \<and> list_all (\<lambda>c. case hex_val c of Some d \<Rightarrow> d < b | None \<Rightarrow> False) t
      then Some (int (foldl (\<lambda>n c. n * b + nullish (hex_val c) 0) 0 t), 0) else None)"

definition js_number :: "string \<Rightarrow> (int \<times> nat) option" where
  "js_number s =
     (let t = trim s in
      if t = [] then Some (0, 0)
      else if starts_with ''0x'' t \<or> starts_with ''0X'' t then num_radix 16 (drop 2 t)
      else if starts_with ''0o'' t \<or> starts_with ''0O'' t then num_radix 8 (drop 2 t)
      else if starts_with ''0b'' t \<or> starts_with ''0B'' t then num_radix 2 (drop 2 t)
      else if starts_with ''-'' t then map_option (\<lambda>(m, k). (- m, k)) (num_decimal (tl t))
      else if starts_with ''+'' t then num_decimal (tl t)
      else num_decimal t)"

definition num_to_int :: "int \<times> nat \<Rightarrow> int option" where
  "num_to_int n = (case n of (m, k) \<Rightarrow> if 10 ^ k dvd m then Some (m div 10 ^ k) else None)"

lemmas [js_eval] = DQ_def BS_def hex_digit_def esc_char_def quote_str_def json_ws_def skip_ws_def hex_val_def
  hex4_def unesc_def mk_num_def pexp_def pfrac_def pnum_unsigned_def pnum_def obj_norm_def json_parse_def
  num_decimal_def num_radix_def js_number_def num_to_int_def Let_def

section \<open>Property access\<close>

text \<open>\<open>v.k\<close> for an object value; \<^const>\<open>None\<close> is \<open>undefined\<close> (also for a value that is not an object).\<close>

fun jfield :: "string \<Rightarrow> json \<Rightarrow> json option" where
  "jfield k (JObj kvs) = map_of kvs k"
| "jfield k _ = None"

fun jstring :: "json option \<Rightarrow> string option" where
  "jstring (Some (JStr s)) = Some s"
| "jstring _ = None"

fun jint :: "json option \<Rightarrow> int option" where
  "jint (Some (JInt i)) = Some i"
| "jint _ = None"

fun is_obj :: "json \<Rightarrow> bool" where
  "is_obj (JObj _) = True"
| "is_obj _ = False"

text \<open>Truthiness of a property value.\<close>

fun jtruthy :: "json option \<Rightarrow> bool" where
  "jtruthy None = False"
| "jtruthy (Some JNull) = False"
| "jtruthy (Some (JBool b)) = b"
| "jtruthy (Some (JInt i)) = (i \<noteq> 0)"
| "jtruthy (Some (JStr s)) = (s \<noteq> [])"
| "jtruthy (Some _) = True"

text \<open>\<open>String(v)\<close>; a number that is not an integer keeps its source text.\<close>

fun js_to_string :: "json \<Rightarrow> string" where
  "js_to_string JNull = ''null''"
| "js_to_string (JBool b) = (if b then ''true'' else ''false'')"
| "js_to_string (JInt i) = show_int i"
| "js_to_string (JFrac t) = t"
| "js_to_string (JStr s) = s"
| "js_to_string (JArr xs) = join '','' (map (\<lambda>x. if x = JNull then [] else js_to_string x) xs)"
| "js_to_string (JObj _) = ''[object Object]''"

definition js_undef_string :: "json option \<Rightarrow> string" where
  "js_undef_string v = (case v of None \<Rightarrow> ''undefined'' | Some j \<Rightarrow> js_to_string j)"

section \<open>Round trip\<close>

lemma code_of_DQ [simp]: "code_of DQ = 34" and code_of_BS [simp]: "code_of BS = 92"
  by (simp_all add: DQ_def BS_def code_of_def)

lemma DQ_BS [simp]: "DQ \<noteq> BS" "BS \<noteq> DQ"
  using code_of_DQ code_of_BS by fastforce+

lemma chr_code: "code_of c = n \<Longrightarrow> c = char_of n"
  by auto

lemma hex_val_digit [simp]: "n < 16 \<Longrightarrow> hex_val (hex_digit n) = Some n"
  by (auto simp: hex_val_def hex_digit_def Let_def)

lemma unesc_simps [simp]:
  "unesc DQ = Some DQ" "unesc BS = Some BS" "unesc (CHR ''b'') = Some (CHR 0x08)"
  "unesc (CHR ''t'') = Some (CHR 0x09)" "unesc (CHR ''n'') = Some (CHR 0x0A)"
  "unesc (CHR ''f'') = Some (CHR 0x0C)" "unesc (CHR ''r'') = Some (CHR 0x0D)"
  "unesc (CHR ''u'') = None"
  by (simp_all add: unesc_def DQ_def BS_def)

lemma hex4_code:
  "code_of c < 32 \<Longrightarrow>
     hex4 (CHR ''0'') (CHR ''0'') (hex_digit (code_of c div 16)) (hex_digit (code_of c mod 16)) = Some c"
proof -
  assume c: "code_of c < 32"
  have "hex_val (CHR ''0'') = Some 0" by (simp add: hex_val_def code_of_def)
  moreover have "code_of c div 16 < 16" by (rule less_mult_imp_div_less) simp
  ultimately show ?thesis by (simp add: hex4_def Let_def)
qed

lemma pstr_esc: "pstr (esc_char c @ t) = map_option (apfst ((#) c)) (pstr t)"
proof -
  consider "c = DQ" | "c = BS" | "code_of c \<in> {8, 9, 10, 12, 13}"
    | "c \<noteq> DQ" "c \<noteq> BS" "code_of c < 32" "code_of c \<notin> {8, 9, 10, 12, 13}"
    | "c \<noteq> DQ" "c \<noteq> BS" "\<not> code_of c < 32" by blast
  then show ?thesis
  proof cases
    case 3
    then have c: "c \<in> {CHR 0x08, CHR 0x09, CHR 0x0A, CHR 0x0C, CHR 0x0D}"
      by (auto dest!: chr_code simp: char_of_def bit_iff_odd)
    then show ?thesis by (auto simp: esc_char_def DQ_def BS_def code_of_def)
  next
    case 4
    then show ?thesis by (simp add: esc_char_def hex4_code)
  next
    case 5
    then have "code_of c \<notin> {8, 9, 10, 12, 13}" by auto
    with 5 show ?thesis by (simp add: esc_char_def)
  qed (simp_all add: esc_char_def)
qed

lemma pstr_quote: "pstr (concat (map esc_char s) @ DQ # rest) = Some (s, rest)"
  by (induction s) (simp_all add: pstr_esc)

definition sep_ok :: "string \<Rightarrow> bool" where
  "sep_ok rest \<longleftrightarrow> rest = [] \<or> hd rest \<in> {CHR '','', CHR '']'', CHR ''}''}"

lemma sep_ok_simps [simp]:
  "sep_ok []" "sep_ok (CHR '','' # r)" "sep_ok (CHR '']'' # r)" "sep_ok (CHR ''}'' # r)"
  by (simp_all add: sep_ok_def)

lemma sep_ok_takeWhile:
  "sep_ok rest \<Longrightarrow> list_all is_digit ds \<Longrightarrow>
     takeWhile is_digit (ds @ rest) = ds \<and> dropWhile is_digit (ds @ rest) = rest"
  by (induction ds) (auto simp: sep_ok_def is_digit_def code_of_def neq_Nil_conv takeWhile_eq_Nil_iff
      dropWhile_eq_self_iff)

lemma sep_ok_num_tail: "sep_ok rest \<Longrightarrow> pfrac rest = Some ([], rest)" "sep_ok rest \<Longrightarrow> pexp rest = Some (0, rest)"
  by (cases rest; auto simp: sep_ok_def pexp_def pfrac_def)+

lemma show_nat_lead: "\<not> (hd (show_nat n) = CHR ''0'' \<and> tl (show_nat n) \<noteq> [])"
  using show_nat_hd [of n] by (cases "n = 0") (auto simp: show_nat_0)

lemma digits_no_minus: "list_all is_digit ds \<Longrightarrow> ds \<noteq> [] \<Longrightarrow> \<exists>c cs. ds = c # cs \<and> c \<noteq> CHR ''-''"
  by (cases ds) (auto simp: is_digit_def code_of_def)

lemma pnum_unsigned_show:
  "sep_ok rest \<Longrightarrow>
     pnum_unsigned neg s (show_nat n @ rest) = Some (JInt ((if neg then -1 else 1) * int n), rest)"
  using sep_ok_takeWhile [of rest "show_nat n"] show_nat_digits [of n] show_nat_lead [of n]
  by (simp add: pnum_unsigned_def sep_ok_num_tail mk_num_def Let_def)

lemma pnum_show_int: "sep_ok rest \<Longrightarrow> pnum (show_int i @ rest) = Some (JInt i, rest)"
proof -
  assume sep: "sep_ok rest"
  obtain c cs where c: "show_nat (nat \<bar>i\<bar>) = c # cs" "c \<noteq> CHR ''-''"
    using digits_no_minus [OF show_nat_digits] show_nat_ne by blast
  show ?thesis
  proof (cases "i < 0")
    case True
    then show ?thesis using sep by (simp add: pnum_def show_int_def pnum_unsigned_show)
  next
    case False
    then have "pnum (show_int i @ rest) = pnum_unsigned False (show_int i @ rest) (show_nat (nat i) @ rest)"
      using c by (simp add: pnum_def show_int_def)
    with False sep show ?thesis by (simp add: pnum_unsigned_show)
  qed
qed

fun wf_json :: "json \<Rightarrow> bool" where
  "wf_json (JFrac _) = False"
| "wf_json (JArr xs) = list_all wf_json xs"
| "wf_json (JObj kvs) = (distinct (map fst kvs) \<and> list_all (\<lambda>kv. wf_json (snd kv)) kvs)"
| "wf_json _ = True"

lemma obj_norm_distinct: "distinct (map fst kvs) \<Longrightarrow> obj_norm kvs = kvs"
proof -
  have "distinct (map fst (m @ kvs)) \<Longrightarrow>
      foldl (\<lambda>m kv. AList.update (fst kv) (snd kv) m) m kvs = m @ kvs" for m
  proof (induction kvs arbitrary: m)
    case (Cons kv kvs)
    have "fst kv \<notin> fst ` set m" using Cons.prems by auto
    then have "AList.update (fst kv) (snd kv) m = m @ [kv]" by (induction m) auto
    with Cons show ?case by simp
  qed simp
  from this [of "[]"] show "distinct (map fst kvs) \<Longrightarrow> obj_norm kvs = kvs" by (simp add: obj_norm_def)
qed

lemma skip_ws_id: "s \<noteq> [] \<Longrightarrow> \<not> json_ws (hd s) \<Longrightarrow> skip_ws s = s"
  by (cases s) (auto simp: skip_ws_def)

lemma skip_ws_simps [simp]:
  "skip_ws [] = []" "skip_ws (CHR '','' # r) = CHR '','' # r" "skip_ws (CHR '']'' # r) = CHR '']'' # r"
  "skip_ws (CHR ''}'' # r) = CHR ''}'' # r" "skip_ws (CHR '':'' # r) = CHR '':'' # r"
  "skip_ws (CHR ''['' # r) = CHR ''['' # r" "skip_ws (CHR ''{'' # r) = CHR ''{'' # r"
  "skip_ws (DQ # r) = DQ # r" "skip_ws (CHR ''n'' # r) = CHR ''n'' # r"
  "skip_ws (CHR ''t'' # r) = CHR ''t'' # r" "skip_ws (CHR ''f'' # r) = CHR ''f'' # r"
  by (simp_all add: skip_ws_def json_ws_def code_of_def DQ_def)

lemma DQ_neq [simp]: "DQ \<noteq> CHR ''{''" "DQ \<noteq> CHR ''[''" "CHR ''{'' \<noteq> DQ" "CHR ''['' \<noteq> DQ"
  "DQ \<noteq> CHR '']''" "DQ \<noteq> CHR ''}''" "CHR '']'' \<noteq> DQ" "CHR ''}'' \<noteq> DQ"
  "CHR ''n'' \<noteq> DQ" "CHR ''t'' \<noteq> DQ" "CHR ''f'' \<noteq> DQ"
  by (simp_all add: DQ_def)

text \<open>The first character of a printed value decides the branch of the parser.\<close>

lemma show_int_hd: "\<exists>c cs. show_int i = c # cs \<and> (c = CHR ''-'' \<or> is_digit c)"
  using show_nat_digits [of "nat (- i)"] show_nat_digits [of "nat i"] show_nat_ne [of "nat (- i)"]
    show_nat_ne [of "nat i"]
  by (cases "show_nat (nat i)") (auto simp: show_int_def)

lemma pval_int: "sep_ok rest \<Longrightarrow> pval (Suc n) (show_int i @ rest) = Some (JInt i, rest)"
proof -
  assume sep: "sep_ok rest"
  obtain c cs where c: "show_int i = c # cs" "c = CHR ''-'' \<or> is_digit c" using show_int_hd by blast
  then have "code_of c \<in> {45} \<union> {48..57}" by (auto simp: is_digit_def code_of_def)
  then have "\<not> json_ws c" "c \<noteq> CHR ''{''" "c \<noteq> CHR ''[''" "c \<noteq> DQ" "c \<noteq> CHR ''n''" "c \<noteq> CHR ''t''" "c \<noteq> CHR ''f''"
    by (auto simp: json_ws_def code_of_def DQ_def)
  with c show ?thesis using pnum_show_int [OF sep, of i] by (simp add: skip_ws_def)
qed

lemma stringify_hd: "wf_json v \<Longrightarrow> \<exists>c cs. stringify v = c # cs \<and> \<not> json_ws c \<and> c \<noteq> CHR '']''"
proof (cases v)
  case (JInt i)
  obtain c cs where "show_int i = c # cs" "c = CHR ''-'' \<or> is_digit c" using show_int_hd by blast
  with JInt show ?thesis by (auto simp: is_digit_def code_of_def json_ws_def)
qed (auto simp: quote_str_def json_ws_def code_of_def DQ_def)

lemma skip_ws_stringify: "wf_json v \<Longrightarrow> skip_ws (stringify v @ r) = stringify v @ r"
  using stringify_hd [of v] by (auto simp: skip_ws_def)

lemma stringify_not_close: "wf_json v \<Longrightarrow> \<not> starts_with '']'' (stringify v @ r)"
  using stringify_hd [of v] by auto

definition pval_ok :: "json \<Rightarrow> bool" where
  "pval_ok v \<longleftrightarrow> (\<forall>n rest. 2 * length (stringify v) \<le> n \<longrightarrow> sep_ok rest \<longrightarrow>
     pval n (stringify v @ rest) = Some (v, rest))"

lemma stringify_ne: "wf_json v \<Longrightarrow> 0 < length (stringify v)"
  using stringify_hd [of v] by auto

lemma parr_stringify:
  "xs \<noteq> [] \<Longrightarrow> list_all wf_json xs \<Longrightarrow> list_all pval_ok xs \<Longrightarrow>
     2 * length (join '','' (map stringify xs)) + 1 \<le> n \<Longrightarrow>
     parr n (join '','' (map stringify xs) @ CHR '']'' # rest) = Some (xs, rest)"
proof (induction xs arbitrary: n)
  case (Cons x xs)
  then obtain m where n: "n = Suc m" by (cases n) auto
  show ?case
  proof (cases xs)
    case Nil
    with Cons.prems n have "pval m (stringify x @ CHR '']'' # rest) = Some (x, CHR '']'' # rest)"
      by (simp add: pval_ok_def)
    with Nil n show ?thesis by simp
  next
    case (Cons y ys)
    let ?tail = "join '','' (map stringify xs) @ CHR '']'' # rest"
    have "parr m ?tail = Some (xs, rest)"
      using Cons.prems n Cons by (intro Cons.IH) auto
    moreover have "pval m (stringify x @ CHR '','' # ?tail) = Some (x, CHR '','' # ?tail)"
      using Cons.prems n Cons by (simp add: pval_ok_def)
    ultimately show ?thesis using n Cons by simp
  qed
qed simp

abbreviation member_text :: "string \<times> json \<Rightarrow> string" where
  "member_text kv \<equiv> quote_str (fst kv) @ CHR '':'' # stringify (snd kv)"

lemma pobj_stringify:
  "kvs \<noteq> [] \<Longrightarrow> list_all (\<lambda>kv. pval_ok (snd kv)) kvs \<Longrightarrow>
     2 * length (join '','' (map member_text kvs)) + 1 \<le> n \<Longrightarrow>
     pobj n (join '','' (map member_text kvs) @ CHR ''}'' # rest) = Some (kvs, rest)"
proof (induction kvs arbitrary: n)
  case (Cons kv kvs)
  obtain k v where kv: "kv = (k, v)" by (cases kv)
  from Cons.prems obtain m where n: "n = Suc m" by (cases n) auto
  have q: "pstr (concat (map esc_char k) @ DQ # t) = Some (k, t)" for t by (rule pstr_quote)
  show ?case
  proof (cases kvs)
    case Nil
    with Cons.prems n kv have "pval m (stringify v @ CHR ''}'' # rest) = Some (v, CHR ''}'' # rest)"
      by (simp add: pval_ok_def)
    with Nil n kv q show ?thesis by (simp add: quote_str_def)
  next
    case (Cons y ys)
    let ?tail = "join '','' (map member_text kvs) @ CHR ''}'' # rest"
    have "pobj m ?tail = Some (kvs, rest)"
      using Cons.prems n Cons kv by (intro Cons.IH) auto
    moreover have "pval m (stringify v @ CHR '','' # ?tail) = Some (v, CHR '','' # ?tail)"
      using Cons.prems n Cons kv by (simp add: pval_ok_def)
    ultimately show ?thesis using n Cons kv q by (simp add: quote_str_def)
  qed
qed simp

lemma pval_stringify: "wf_json v \<Longrightarrow> pval_ok v"
proof (induction v)
  case (JArr xs)
  show ?case unfolding pval_ok_def
  proof (intro allI impI)
    fix n rest assume n: "2 * length (stringify (JArr xs)) \<le> n" and sep: "sep_ok rest"
    then obtain m where m: "n = Suc m" by (cases n) auto
    show "pval n (stringify (JArr xs) @ rest) = Some (JArr xs, rest)"
    proof (cases xs)
      case Nil
      with m show ?thesis by simp
    next
      case (Cons x ys)
      have "list_all wf_json xs" using JArr.prems by simp
      moreover have "list_all pval_ok xs" using JArr by (auto simp: list_all_iff)
      moreover have "2 * length (join '','' (map stringify xs)) + 1 \<le> m" using n m by simp
      ultimately have "parr m (join '','' (map stringify xs) @ CHR '']'' # rest) = Some (xs, rest)"
        using Cons by (intro parr_stringify) auto
      moreover have "\<not> starts_with '']'' (skip_ws (join '','' (map stringify xs) @ CHR '']'' # rest))"
        using Cons JArr.prems stringify_hd [of x]
        by (cases ys) (auto simp: skip_ws_def)
      ultimately show ?thesis using m by simp
    qed
  qed
next
  case (JObj kvs)
  show ?case unfolding pval_ok_def
  proof (intro allI impI)
    fix n rest assume n: "2 * length (stringify (JObj kvs)) \<le> n" and sep: "sep_ok rest"
    then obtain m where m: "n = Suc m" by (cases n) auto
    have norm: "obj_norm kvs = kvs" using JObj.prems by (simp add: obj_norm_distinct)
    show "pval n (stringify (JObj kvs) @ rest) = Some (JObj kvs, rest)"
    proof (cases kvs)
      case Nil
      with m show ?thesis by simp
    next
      case (Cons x ys)
      have "list_all (\<lambda>kv. pval_ok (snd kv)) kvs"
        using JObj by (auto simp: list_all_iff)
      moreover have "2 * length (join '','' (map member_text kvs)) + 1 \<le> m" using n m by simp
      ultimately have "pobj m (join '','' (map member_text kvs) @ CHR ''}'' # rest) = Some (kvs, rest)"
        using Cons by (intro pobj_stringify) auto
      moreover have "\<not> starts_with ''}'' (skip_ws (join '','' (map member_text kvs) @ CHR ''}'' # rest))"
        using Cons by (cases ys) (auto simp: quote_str_def)
      ultimately show ?thesis using m norm by simp
    qed
  qed
next
  case (JInt i)
  show ?case unfolding pval_ok_def
  proof (intro allI impI)
    fix n rest assume n: "2 * length (stringify (JInt i)) \<le> n" and sep: "sep_ok rest"
    then obtain m where "n = Suc m" using stringify_ne [of "JInt i"] by (cases n) auto
    with sep show "pval n (stringify (JInt i) @ rest) = Some (JInt i, rest)"
      by (simp add: pval_int del: pval.simps)
  qed
next
  case (JStr s)
  show ?case unfolding pval_ok_def
  proof (intro allI impI)
    fix n rest assume n: "2 * length (stringify (JStr s)) \<le> n" and "sep_ok rest"
    then obtain m where "n = Suc m" by (cases n) (auto simp: quote_str_def)
    then show "pval n (stringify (JStr s) @ rest) = Some (JStr s, rest)"
      by (simp add: quote_str_def pstr_quote)
  qed
qed (auto simp: pval_ok_def eval_nat_numeral dest!: Suc_le_D)

theorem json_roundtrip: "wf_json v \<Longrightarrow> json_parse (stringify v) = Some v"
proof -
  assume "wf_json v"
  then have "pval (2 * length (stringify v) + 2) (stringify v @ []) = Some (v, [])"
    using pval_stringify [of v] unfolding pval_ok_def by (metis le_add1 sep_ok_simps(1))
  then show ?thesis by (simp add: json_parse_def)
qed

end
