(* ===== verification/Bytes.thy ===== *)
theory Bytes
  imports JsBase
begin

text \<open>
  \<open>Buffer\<close>: UTF-8 and base64url. A byte sequence is a \<^typ>\<open>string\<close> too, one \<^typ>\<open>char\<close> per
  byte. UTF-8 is exact on the strings of the model (code units below 256); a byte sequence that
  is not the UTF-8 of such a string decodes to a text with the replacement \<open>?\<close> in it.
\<close>

section \<open>UTF-8\<close>

definition utf8_char :: "char \<Rightarrow> string" where
  "utf8_char c = (if code_of c < 128 then [c]
                  else [char_of (192 + code_of c div 64), char_of (128 + code_of c mod 64)])"

definition utf8 :: "string \<Rightarrow> string" where
  "utf8 s = concat (map utf8_char s)"

fun utf8_decode :: "string \<Rightarrow> string" where
  "utf8_decode [] = []"
| "utf8_decode (b # bs) =
     (if code_of b < 128 then b # utf8_decode bs
      else (case bs of
              [] \<Rightarrow> [CHR ''?'']
            | d # ds \<Rightarrow>
                if code_of b \<in> {194, 195} \<and> 128 \<le> code_of d \<and> code_of d < 192
                then char_of ((code_of b - 192) * 64 + (code_of d - 128)) # utf8_decode ds
                else CHR ''?'' # utf8_decode bs))"

definition byteLength :: "string \<Rightarrow> nat" where
  "byteLength s = length (utf8 s)"

lemma utf8_Nil [simp]: "utf8 [] = []"
  and utf8_Cons [simp]: "utf8 (c # s) = utf8_char c @ utf8 s"
  and utf8_append [simp]: "utf8 (s @ t) = utf8 s @ utf8 t"
  by (simp_all add: utf8_def)

lemma utf8_decode_char: "utf8_decode (utf8_char c @ bs) = c # utf8_decode bs"
proof (cases "code_of c < 128")
  case False
  let ?n = "code_of c"
  have n: "128 \<le> ?n" "?n < 256" using False by auto
  have "2 \<le> ?n div 64" using div_le_mono [OF n(1), of 64] by simp
  moreover have "?n div 64 < 4" by (rule less_mult_imp_div_less) (simp add: n)
  ultimately have hi: "?n div 64 = 2 \<or> ?n div 64 = 3" by linarith
  then have b: "code_of (char_of (192 + ?n div 64)) = 192 + ?n div 64"
    and d: "code_of (char_of (128 + ?n mod 64)) = 128 + ?n mod 64"
    by (auto intro!: code_of_char_of)
  have "char_of (?n div 64 * 64 + ?n mod 64) = c" by (simp add: div_mult_mod_eq)
  with False n hi b d show ?thesis by (auto simp: utf8_char_def)
qed (simp add: utf8_char_def)

theorem utf8_roundtrip: "utf8_decode (utf8 s) = s"
  by (induction s) (simp_all add: utf8_decode_char)

lemma utf8_inj: "utf8 s = utf8 t \<longleftrightarrow> s = t"
  by (metis utf8_roundtrip)

lemma utf8_ascii: "list_all (\<lambda>c. code_of c < 128) s \<Longrightarrow> utf8 s = s"
  by (induction s) (auto simp: utf8_char_def)

lemma length_utf8_ge: "length s \<le> byteLength s"
  by (induction s) (auto simp: byteLength_def utf8_char_def)

section \<open>base64url without padding\<close>

definition b64_alphabet :: string where
  "b64_alphabet = ''ABCDEFGHIJKLMNOPQRSTUVWXYZabcdefghijklmnopqrstuvwxyz0123456789-_''"

definition b64_chr :: "nat \<Rightarrow> char" where
  "b64_chr n =
     (if n < 26 then char_of (65 + n)
      else if n < 52 then char_of (71 + n)
      else if n < 62 then char_of (n - 4)
      else if n = 62 then CHR ''-'' else CHR ''_'')"

text \<open>Node's decoder reads both alphabets and skips everything else up to the padding.\<close>

definition b64_val :: "char \<Rightarrow> nat option" where
  "b64_val c =
     (let n = code_of c in
      if 65 \<le> n \<and> n \<le> 90 then Some (n - 65)
      else if 97 \<le> n \<and> n \<le> 122 then Some (n - 71)
      else if 48 \<le> n \<and> n \<le> 57 then Some (n + 4)
      else if n = 45 \<or> n = 43 then Some 62
      else if n = 95 \<or> n = 47 then Some 63
      else None)"

fun b64_encode :: "string \<Rightarrow> string" where
  "b64_encode [] = []"
| "b64_encode [a] = [b64_chr (code_of a div 4), b64_chr (code_of a mod 4 * 16)]"
| "b64_encode [a, b] =
     [b64_chr (code_of a div 4), b64_chr (code_of a mod 4 * 16 + code_of b div 16),
      b64_chr (code_of b mod 16 * 4)]"
| "b64_encode (a # b # c # r) =
     b64_chr (code_of a div 4) # b64_chr (code_of a mod 4 * 16 + code_of b div 16)
     # b64_chr (code_of b mod 16 * 4 + code_of c div 64) # b64_chr (code_of c mod 64) # b64_encode r"

fun b64_join :: "nat list \<Rightarrow> string" where
  "b64_join (w # x # y # z # r) =
     char_of (w * 4 + x div 16) # char_of (x mod 16 * 16 + y div 4) # char_of (y mod 4 * 64 + z) # b64_join r"
| "b64_join [w, x, y] = [char_of (w * 4 + x div 16), char_of (x mod 16 * 16 + y div 4)]"
| "b64_join [w, x] = [char_of (w * 4 + x div 16)]"
| "b64_join _ = []"

fun b64_vals :: "string \<Rightarrow> nat list" where
  "b64_vals [] = []"
| "b64_vals (c # cs) = (case b64_val c of None \<Rightarrow> b64_vals cs | Some n \<Rightarrow> n # b64_vals cs)"

definition b64_decode :: "string \<Rightarrow> string" where
  "b64_decode s = b64_join (b64_vals (takeWhile (\<lambda>c. c \<noteq> CHR ''='') s))"

lemma code_of_b64_chr:
  "n < 64 \<Longrightarrow> code_of (b64_chr n) =
     (if n < 26 then 65 + n else if n < 52 then 71 + n else if n < 62 then n - 4
      else if n = 62 then 45 else 95)"
  by (auto simp: b64_chr_def) (simp_all add: code_of_def)

lemma b64_val_chr [simp]: "n < 64 \<Longrightarrow> b64_val (b64_chr n) = Some n"
  by (auto simp: b64_val_def code_of_b64_chr Let_def)

lemma b64_chr_neq: "n < 64 \<Longrightarrow> b64_chr n \<notin> {CHR ''='', CHR ''+'', CHR ''/'', CHR ''.''}"
proof -
  assume "n < 64"
  then have "code_of (b64_chr n) \<notin> {61, 43, 47, 46}" by (auto simp: code_of_b64_chr)
  moreover have "code_of (CHR ''='') = 61" "code_of (CHR ''+'') = 43"
    "code_of (CHR ''/'') = 47" "code_of (CHR ''.'') = 46" by (simp_all add: code_of_def)
  ultimately show ?thesis by force
qed

lemma code_of_bound: "code_of c \<le> 255"
  using code_of_less [of c] by linarith

lemma sextet_quot [simp]:
  "code_of a div 4 < 64" "code_of b div 16 < 16" "code_of c div 64 < 4"
  by (rule less_mult_imp_div_less, simp)+

lemma sextets [simp]:
  "code_of a mod 4 * 16 < 64" "code_of a mod 4 * 16 + code_of b div 16 < 64"
  "code_of b mod 16 * 4 < 64" "code_of b mod 16 * 4 + code_of c div 64 < 64"
proof -
  have "code_of a mod 4 < 4" "code_of b mod 16 < 16" by simp_all
  then show "code_of a mod 4 * 16 < 64" "code_of b mod 16 * 4 < 64" by linarith+
  have "code_of b div 16 < 16" "code_of c div 64 < 4" by simp_all
  then show "code_of a mod 4 * 16 + code_of b div 16 < 64"
    "code_of b mod 16 * 4 + code_of c div 64 < 64"
    using \<open>code_of a mod 4 < 4\<close> \<open>code_of b mod 16 < 16\<close> by linarith+
qed

lemma octets [simp]:
  "code_of b div 16 div 16 = 0" "code_of b div 16 mod 16 = code_of b div 16"
  "code_of c div 64 div 4 = 0" "code_of c div 64 mod 4 = code_of c div 64"
  by simp_all

definition b64_safe :: "char \<Rightarrow> bool" where
  "b64_safe c \<longleftrightarrow> c \<notin> {CHR ''='', CHR ''+'', CHR ''/'', CHR ''.''} \<and> code_of c < 128"

lemma b64_safe_chr [simp]: "n < 64 \<Longrightarrow> b64_safe (b64_chr n)"
  using b64_chr_neq [of n] by (auto simp: b64_safe_def code_of_b64_chr)

lemma b64_encode_safe: "list_all b64_safe (b64_encode s)"
  by (induction s rule: b64_encode.induct) simp_all

lemma b64_encode_no: "CHR ''='' \<notin> set (b64_encode s)" "CHR ''+'' \<notin> set (b64_encode s)"
  "CHR ''/'' \<notin> set (b64_encode s)" "CHR ''.'' \<notin> set (b64_encode s)"
  using b64_encode_safe [of s] by (auto simp: list_all_iff b64_safe_def)

lemma b64_join_vals: "b64_join (b64_vals (b64_encode s)) = s"
  by (induction s rule: b64_encode.induct) simp_all

theorem b64_roundtrip: "b64_decode (b64_encode s) = s"
proof -
  have "takeWhile (\<lambda>c. c \<noteq> CHR ''='') (b64_encode s) = b64_encode s"
    using b64_encode_no(1) [of s] by (subst takeWhile_eq_all_conv) auto
  then show ?thesis by (simp only: b64_decode_def b64_join_vals)
qed

lemma b64_encode_Nil_iff [simp]: "b64_encode s = [] \<longleftrightarrow> s = []"
  by (cases s rule: b64_encode.cases) auto

lemma b64_encode_inj: "b64_encode s = b64_encode t \<longleftrightarrow> s = t"
  by (metis b64_roundtrip)

lemma b64_encode_ascii: "c \<in> set (b64_encode s) \<Longrightarrow> code_of c < 128"
  using b64_encode_safe [of s] by (auto simp: list_all_iff b64_safe_def)

lemma length_b64_encode: "3 * length (b64_encode s) \<le> 4 * length s + 4"
  by (induction s rule: b64_encode.induct) auto

end
