(* ===== verification/AdapterTypes.thy ===== *)
theory AdapterTypes
  imports Regex Json Bytes
begin

text \<open>
  The chat-platform abstraction of the access agent (\<open>services/access-agent/src/adapters/types.ts\<close>)
  and the error values its modules throw. A field that TypeScript marks optional or nullable is an
  \<open>option\<close>; the opaque \<open>raw\<close> of a conversation is a string; the \<open>ctx\<close> of a click is a value of
  \<open>ClickContext\<close>, one constructor per adapter.
\<close>

datatype Platform = Slack | Teams | Gchat | Cli

fun platform_name :: "Platform \<Rightarrow> string" where
  "platform_name Slack = ''slack''"
| "platform_name Teams = ''teams''"
| "platform_name Gchat = ''gchat''"
| "platform_name Cli = ''cli''"

lemma platform_name_inject [simp]: "platform_name p = platform_name q \<longleftrightarrow> p = q"
  by (cases p; cases q) auto

record ChatUser =
  cu_platform :: Platform
  cu_platformUserId :: string
  cu_displayName :: string
  cu_email :: "string option"
  cu_emailVerified :: bool
  cu_tenantId :: "string option"

record ConversationRef =
  cr_platform :: Platform
  cr_channelId :: string
  cr_threadId :: "string option"
  cr_raw :: "string option"

record IncomingMessage =
  im_id :: string
  im_user :: ChatUser
  im_conversation :: ConversationRef
  im_text :: string
  im_isDirectMessage :: bool
  im_mentionedBot :: bool

datatype ButtonId = Approve | Deny | Details

fun button_name :: "ButtonId \<Rightarrow> string" where
  "button_name Approve = ''approve''"
| "button_name Deny = ''deny''"
| "button_name Details = ''details''"

definition button_of :: "string \<Rightarrow> ButtonId option" where
  "button_of s = (if s = ''approve'' then Some Approve else if s = ''deny'' then Some Deny
                  else if s = ''details'' then Some Details else None)"

lemma button_of_name [simp]: "button_of (button_name b) = Some b"
  by (cases b) (simp_all add: button_of_def)

datatype ButtonStyle = Primary | Danger

record CardButton =
  cb_id :: ButtonId
  cb_label :: string
  cb_style :: "ButtonStyle option"

datatype RequestStatus = Pending | Approved | Denied | Expired

fun status_name :: "RequestStatus \<Rightarrow> string" where
  "status_name Pending = ''pending''"
| "status_name Approved = ''approved''"
| "status_name Denied = ''denied''"
| "status_name Expired = ''expired''"

record RequestCard =
  rc_requestId :: string
  rc_title :: string
  rc_fields :: "(string \<times> string) list"
  rc_buttons :: "CardButton list"
  rc_status :: RequestStatus
  rc_footer :: "string option"
  rc_nonce :: string

record PostedMessageRef =
  pm_conversation :: ConversationRef
  pm_messageId :: string

text \<open>The verified sender of a Google Chat event (\<open>adapters/gchat/index.ts\<close>).\<close>

record GchatSender =
  gs_name :: "string option"
  gs_displayName :: "string option"
  gs_email :: "string option"
  gs_type :: "string option"

datatype ClickContext =
    CtxNone
  | CtxSlack bool
  | CtxGchat GchatSender
  | CtxTeams string

record ButtonClick =
  bc_user :: ChatUser
  bc_button :: ButtonId
  bc_requestId :: string
  bc_nonce :: string
  bc_message :: PostedMessageRef
  bc_reason :: "string option"
  bc_ctx :: ClickContext

text \<open>Where a card goes: an adapter channel or a user's email.\<close>

datatype CardTarget = ToChannel string | ToUser string

datatype HttpMethod = GET | POST

record HttpRoute =
  hr_method :: HttpMethod
  hr_path :: string

datatype HeaderValue = HStr string | HArr "string list"

type_synonym Headers = "string \<Rightarrow> HeaderValue option"

definition header_first :: "HeaderValue option \<Rightarrow> string option" where
  "header_first v =
     (case v of None \<Rightarrow> None | Some (HStr s) \<Rightarrow> Some s
      | Some (HArr []) \<Rightarrow> None | Some (HArr (x # _)) \<Rightarrow> Some x)"

text \<open>The errors thrown across module boundaries, with the user-facing \<open>message\<close>.\<close>

datatype js_error =
    PlainError string
  | BrokerError int string string
  | IdentityError string
  | SlackIdentityError string
  | AssertionError string
  | ConfigError string

fun err_message :: "js_error \<Rightarrow> string" where
  "err_message (PlainError m) = m"
| "err_message (BrokerError _ _ m) = m"
| "err_message (IdentityError m) = m"
| "err_message (SlackIdentityError m) = m"
| "err_message (AssertionError m) = m"
| "err_message (ConfigError m) = m"

section \<open>Plain text\<close>

text \<open>
  \<open>toPlainText\<close>: \<open>/\*\*(.*?)\*\*/g\<close> and then the backtick pattern, each replaced by its group. The
  lazy group ends at the first closing mark; the dot stops at a line terminator.
\<close>

fun until_bold :: "string \<Rightarrow> (string \<times> string) option" where
  "until_bold [] = None"
| "until_bold (c # cs) =
     (if c = CHR ''*'' \<and> starts_with ''*'' cs then Some ([], tl cs)
      else if code_of c = 10 \<or> code_of c = 13 then None
      else map_option (apfst ((#) c)) (until_bold cs))"

fun until_tick :: "string \<Rightarrow> (string \<times> string) option" where
  "until_tick [] = None"
| "until_tick (c # cs) =
     (if code_of c = 96 then Some ([], cs) else map_option (apfst ((#) c)) (until_tick cs))"

lemma until_bold_shorter: "until_bold s = Some (a, r) \<Longrightarrow> length r < length s"
  by (induction s arbitrary: a r) (auto split: if_splits simp: less_Suc_eq_le)

lemma until_tick_shorter: "until_tick s = Some (a, r) \<Longrightarrow> length r < length s"
  by (induction s arbitrary: a r) (auto split: if_splits simp: less_Suc_eq)

function strip_bold :: "string \<Rightarrow> string" where
  "strip_bold [] = []"
| "strip_bold (c # cs) =
     (if c = CHR ''*'' \<and> starts_with ''*'' cs then
        (case until_bold (tl cs) of
           Some (a, r) \<Rightarrow> a @ strip_bold r
         | None \<Rightarrow> c # strip_bold cs)
      else c # strip_bold cs)"
  by pat_completeness auto
termination
  by (relation "measure length") (auto dest!: until_bold_shorter simp: less_Suc_eq)

function strip_ticks :: "string \<Rightarrow> string" where
  "strip_ticks [] = []"
| "strip_ticks (c # cs) =
     (if code_of c = 96 then
        (case until_tick cs of Some (a, r) \<Rightarrow> a @ strip_ticks r | None \<Rightarrow> c # strip_ticks cs)
      else c # strip_ticks cs)"
  by pat_completeness auto
termination
  by (relation "measure length") (auto dest!: until_tick_shorter)

definition toPlainText :: "string \<Rightarrow> string" where
  "toPlainText md = strip_ticks (strip_bold md)"

end
