(* ===== verification/Assertion.thy ===== *)
theory Assertion
  imports AdapterTypes
begin

text \<open>
  Signed identity assertions (\<open>services/access-agent/src/identity/assertion.ts\<close>): the payload, its
  wire form \<open>b64url(JSON) "." b64url(HMAC)\<close>, minting and verification. The HMAC-SHA256 of
  \<open>node:crypto\<close> is the parameter \<open>hmac\<close>, from key bytes and message bytes to digest bytes. The
  clock (milliseconds) and the random \<open>jti\<close> are arguments, as in \<open>MintOptions\<close>.
\<close>

type_synonym hmac = "string \<Rightarrow> string \<Rightarrow> string"

definition ASSERTION_HEADER :: string where
  "ASSERTION_HEADER = ''X-Teleport-Assertion''"

definition ASSERTION_TTL_SECONDS :: int where "ASSERTION_TTL_SECONDS = 45"
definition ASSERTION_MAX_TTL_SECONDS :: int where "ASSERTION_MAX_TTL_SECONDS = 60"
definition MIN_SIGNING_KEY_BYTES :: nat where "MIN_SIGNING_KEY_BYTES = 32"
definition MAX_ASSERTION_BYTES :: nat where "MAX_ASSERTION_BYTES = 8 * 1024"
definition MAX_SUB_LENGTH :: nat where "MAX_SUB_LENGTH = 255"

lemmas assertion_consts = ASSERTION_TTL_SECONDS_def ASSERTION_MAX_TTL_SECONDS_def
  MIN_SIGNING_KEY_BYTES_def MAX_ASSERTION_BYTES_def MAX_SUB_LENGTH_def

datatype AssertionAudience = AudMcp | AudBroker

fun audience_name :: "AssertionAudience \<Rightarrow> string" where
  "audience_name AudMcp = ''mcp''"
| "audience_name AudBroker = ''broker''"

lemma audience_name_inject [simp]: "audience_name a = audience_name b \<longleftrightarrow> a = b"
  by (cases a; cases b) auto

record Principal =
  pr_teleportUser :: string
  pr_email :: "string option"
  pr_platform :: Platform
  pr_platformUserId :: string

record AssertionPayload =
  py_sub :: string
  py_email :: string
  py_platform :: Platform
  py_platform_user_id :: string
  py_aud :: AssertionAudience
  py_iat :: int
  py_exp :: int
  py_jti :: string

definition payload_json :: "AssertionPayload \<Rightarrow> json" where
  "payload_json p = JObj
     [(''sub'', JStr (py_sub p)), (''email'', JStr (py_email p)),
      (''platform'', JStr (platform_name (py_platform p))),
      (''platform_user_id'', JStr (py_platform_user_id p)),
      (''aud'', JStr (audience_name (py_aud p))), (''iat'', JInt (py_iat p)),
      (''exp'', JInt (py_exp p)), (''jti'', JStr (py_jti p))]"

definition b64url :: "string \<Rightarrow> string" where
  "b64url data = b64_encode (utf8 data)"

definition assertSigningKey :: "string \<Rightarrow> js_error + unit" where
  "assertSigningKey key =
     (if byteLength key < MIN_SIGNING_KEY_BYTES
      then Inl (PlainError ''IDENTITY_SIGNING_KEY must be at least 32 bytes'') else Inr ())"

definition ws_or_cntrl :: "char \<Rightarrow> bool" where
  "ws_or_cntrl c \<longleftrightarrow> is_ws c \<or> is_cntrl c"

definition sub_forbidden :: rx where
  "sub_forbidden = RChr ws_or_cntrl"

definition validSubject :: "string \<Rightarrow> bool" where
  "validSubject sub \<longleftrightarrow> 0 < length sub \<and> length sub \<le> MAX_SUB_LENGTH \<and> \<not> rx_test sub_forbidden sub"

definition validSubject_json :: "json option \<Rightarrow> bool" where
  "validSubject_json v = (case jstring v of None \<Rightarrow> False | Some s \<Rightarrow> validSubject s)"

definition buildPayload :: "Principal \<Rightarrow> AssertionAudience \<Rightarrow> int \<Rightarrow> string \<Rightarrow> js_error + AssertionPayload" where
  "buildPayload p aud nowMs jti =
     (if \<not> validSubject (pr_teleportUser p)
      then Inl (PlainError ''cannot mint an assertion: Teleport username must be 1-255 characters without whitespace or control characters'')
      else
        let iat = nowMs div 1000 in
        Inr \<lparr>py_sub = pr_teleportUser p, py_email = nullish (pr_email p) '''',
             py_platform = pr_platform p, py_platform_user_id = pr_platformUserId p, py_aud = aud,
             py_iat = iat, py_exp = iat + ASSERTION_TTL_SECONDS, py_jti = jti\<rparr>)"

definition sign :: "hmac \<Rightarrow> string \<Rightarrow> string \<Rightarrow> string" where
  "sign hmac key encodedPayload = b64_encode (hmac (utf8 key) (utf8 encodedPayload))"

definition mintAssertion ::
  "hmac \<Rightarrow> string \<Rightarrow> Principal \<Rightarrow> AssertionAudience \<Rightarrow> int \<Rightarrow> string \<Rightarrow> js_error + string" where
  "mintAssertion hmac key p aud nowMs jti =
     (case assertSigningKey key of
        Inl e \<Rightarrow> Inl e
      | Inr _ \<Rightarrow>
          (case buildPayload p aud nowMs jti of
             Inl e \<Rightarrow> Inl e
           | Inr payload \<Rightarrow>
               let encoded = b64url (stringify (payload_json payload))
               in Inr (encoded @ ''.'' @ sign hmac key encoded)))"

definition hex_i_char :: "char \<Rightarrow> bool" where
  "hex_i_char c \<longleftrightarrow> is_hex_lower (lower_char c)"

definition hex_i :: rx where
  "hex_i = RChr hex_i_char"

definition uuid_rx :: rx where
  "uuid_rx = rx_seqs [rx_times 8 hex_i, rx_lit ''-'', rx_times 4 hex_i, rx_lit ''-'',
     rx_times 4 hex_i, rx_lit ''-'', rx_times 4 hex_i, rx_lit ''-'', rx_times 12 hex_i]"

definition not_b64url_char :: "char \<Rightarrow> bool" where
  "not_b64url_char c \<longleftrightarrow> c \<in> {CHR ''+'', CHR ''/'', CHR ''=''}"

definition not_b64url :: rx where
  "not_b64url = RChr not_b64url_char"

text \<open>The claim checks on the decoded payload, in the source's order.\<close>

definition check_claims :: "AssertionAudience \<Rightarrow> int \<Rightarrow> json \<Rightarrow> js_error + json" where
  "check_claims aud nowMs payload =
     (if payload = JNull then Inl (PlainError ''TypeError'')
      else if \<not> validSubject_json (jfield ''sub'' payload)
      then Inl (AssertionError ''assertion sub is missing or malformed'')
      else if jfield ''aud'' payload \<noteq> Some (JStr (audience_name aud))
      then Inl (AssertionError (''assertion audience '' @ js_undef_string (jfield ''aud'' payload) @ '' is not '' @ audience_name aud))
      else
        let now = nowMs div 1000 in
        (case (jint (jfield ''iat'' payload), jint (jfield ''exp'' payload)) of
           (Some iat, Some exp) \<Rightarrow>
             if exp \<le> iat then Inl (AssertionError ''assertion exp must be after iat'')
             else if exp - iat > ASSERTION_MAX_TTL_SECONDS then Inl (AssertionError ''assertion lifetime too long'')
             else if exp \<le> now then Inl (AssertionError ''assertion expired'')
             else if iat > now + 30 then Inl (AssertionError ''assertion issued in the future'')
             else
               (case jstring (jfield ''jti'' payload) of
                  Some jti \<Rightarrow>
                    if rx_full uuid_rx jti then Inr payload
                    else Inl (AssertionError ''assertion jti is not a UUID'')
                | None \<Rightarrow> Inl (AssertionError ''assertion jti is not a UUID''))
         | _ \<Rightarrow> Inl (AssertionError ''assertion has no iat/exp'')))"

definition verifyAssertion ::
  "hmac \<Rightarrow> string \<Rightarrow> string \<Rightarrow> AssertionAudience \<Rightarrow> int \<Rightarrow> js_error + json" where
  "verifyAssertion hmac key header aud nowMs =
     (if byteLength header > MAX_ASSERTION_BYTES then Inl (AssertionError ''assertion too large'')
      else
        case split_on (CHR ''.'') header of
          [encoded, sig] \<Rightarrow>
            if encoded = [] \<or> sig = [] then Inl (AssertionError ''malformed assertion'')
            else if rx_test not_b64url header
            then Inl (AssertionError ''assertion is not base64url without padding'')
            else
              let expected = utf8 (sign hmac key encoded); given = utf8 sig in
              if length expected \<noteq> length given \<or> expected \<noteq> given
              then Inl (AssertionError ''bad assertion signature'')
              else
                (case json_parse (utf8_decode (b64_decode encoded)) of
                   None \<Rightarrow> Inl (AssertionError ''malformed assertion payload'')
                 | Some payload \<Rightarrow> check_claims aud nowMs payload)
        | _ \<Rightarrow> Inl (AssertionError ''malformed assertion''))"

section \<open>Lemmas\<close>

lemma validSubject_chars:
  "validSubject s \<longleftrightarrow> s \<noteq> [] \<and> length s \<le> 255 \<and> list_all (\<lambda>c. \<not> is_ws c \<and> \<not> is_cntrl c) s"
  by (auto simp: validSubject_def MAX_SUB_LENGTH_def list_all_iff sub_forbidden_def rx_test_chr ws_or_cntrl_def)

lemma not_b64url_iff: "rx_test not_b64url s \<longleftrightarrow> (\<exists>c \<in> set s. c \<in> {CHR ''+'', CHR ''/'', CHR ''=''})"
  by (simp add: not_b64url_def rx_test_chr not_b64url_char_def)

lemma payload_json_wf: "wf_json (payload_json p)"
  by (simp add: payload_json_def)

lemma b64url_json_roundtrip:
  "json_parse (utf8_decode (b64_decode (b64url (stringify (payload_json p))))) = Some (payload_json p)"
  by (simp add: b64url_def b64_roundtrip utf8_roundtrip json_roundtrip payload_json_wf)

lemma b64url_no_dot: "CHR ''.'' \<notin> set (b64url s)"
  by (simp add: b64url_def b64_encode_no)

lemma sign_no_dot: "CHR ''.'' \<notin> set (sign hmac key e)"
  by (simp add: sign_def b64_encode_no)

lemma split_header: "split_on (CHR ''.'') (b64url s @ ''.'' @ sign hmac key e) = [b64url s, sign hmac key e]"
  using split_on_append [OF b64url_no_dot, of s "sign hmac key e"]
  by (simp add: split_on_no_sep sign_no_dot)

lemma header_b64url: "\<not> rx_test not_b64url (b64url s @ ''.'' @ sign hmac key e)"
  unfolding not_b64url_iff using b64_encode_no [of "utf8 s"] b64_encode_no [of "hmac (utf8 key) (utf8 e)"]
  by (auto simp: b64url_def sign_def)

lemma mintAssertion_Inr:
  "mintAssertion hmac key p aud nowMs jti = Inr h \<Longrightarrow>
     \<exists>pl. buildPayload p aud nowMs jti = Inr pl \<and> MIN_SIGNING_KEY_BYTES \<le> byteLength key \<and>
       h = b64url (stringify (payload_json pl)) @ ''.'' @ sign hmac key (b64url (stringify (payload_json pl)))"
  by (auto simp: mintAssertion_def assertSigningKey_def Let_def split: sum.splits if_splits)

text \<open>Verification of a minted header comes down to the claim checks on the minted payload.\<close>

lemma verify_minted:
  assumes "buildPayload p aud nowMs jti = Inr pl"
    and "h = b64url (stringify (payload_json pl)) @ ''.'' @ sign hmac key (b64url (stringify (payload_json pl)))"
    and "byteLength h \<le> MAX_ASSERTION_BYTES" and "\<And>k m. hmac k m \<noteq> []"
  shows "verifyAssertion hmac key h aud' nowMs' = check_claims aud' nowMs' (payload_json pl)"
proof -
  have ne: "b64url (stringify (payload_json pl)) \<noteq> []"
    using stringify_ne [OF payload_json_wf, of pl] length_utf8_ge [of "stringify (payload_json pl)"]
    by (auto simp: b64url_def byteLength_def)
  have "sign hmac key (b64url (stringify (payload_json pl))) \<noteq> []" using assms(4) by (simp add: sign_def)
  with ne assms(2,3) split_header header_b64url show ?thesis
    by (simp add: verifyAssertion_def b64url_json_roundtrip Let_def not_less)
qed

lemma buildPayload_Inr:
  "buildPayload p aud nowMs jti = Inr pl \<Longrightarrow>
     validSubject (pr_teleportUser p) \<and>
     pl = \<lparr>py_sub = pr_teleportUser p, py_email = nullish (pr_email p) '''',
             py_platform = pr_platform p, py_platform_user_id = pr_platformUserId p, py_aud = aud,
             py_iat = nowMs div 1000, py_exp = nowMs div 1000 + 45, py_jti = jti\<rparr>"
  by (auto simp: buildPayload_def Let_def ASSERTION_TTL_SECONDS_def split: if_splits)

lemma check_claims_minted:
  assumes "buildPayload p aud nowMs jti = Inr pl"
  shows "check_claims aud' nowMs' (payload_json pl) =
    (if aud' \<noteq> aud then Inl (AssertionError (''assertion audience '' @ audience_name aud @ '' is not '' @ audience_name aud'))
     else if nowMs div 1000 + 45 \<le> nowMs' div 1000 then Inl (AssertionError ''assertion expired'')
     else if nowMs div 1000 > nowMs' div 1000 + 30 then Inl (AssertionError ''assertion issued in the future'')
     else if rx_full uuid_rx jti then Inr (payload_json pl)
     else Inl (AssertionError ''assertion jti is not a UUID''))"
  using buildPayload_Inr [OF assms]
  by (auto simp: check_claims_def payload_json_def validSubject_json_def Let_def assertion_consts js_undef_string_def)

lemma check_claims_Inr:
  assumes "check_claims aud nowMs v = Inr w"
  shows "w = v \<and> validSubject_json (jfield ''sub'' v) \<and> jfield ''aud'' v = Some (JStr (audience_name aud)) \<and>
    (\<exists>iat exp. jfield ''iat'' v = Some (JInt iat) \<and> jfield ''exp'' v = Some (JInt exp) \<and> iat < exp \<and>
       exp - iat \<le> 60 \<and> nowMs div 1000 < exp \<and> iat \<le> nowMs div 1000 + 30)"
proof -
  have ji: "jint x = Some i \<Longrightarrow> x = Some (JInt i)" for x i by (cases x rule: jint.cases) auto
  show ?thesis using assms
    by (auto simp: check_claims_def Let_def assertion_consts split: if_splits option.splits dest!: ji)
qed

section \<open>Properties\<close>

text \<open>C6. Round trip: an assertion minted with a valid key for a principal is accepted by the verifier
  for the same audience and key at any time from 30 s before to 45 s (exclusive) after it was issued,
  and yields exactly the minted payload.\<close>

theorem mint_verify_roundtrip:
  assumes "mintAssertion hmac key p aud nowMs jti = Inr h"
    and "\<And>k m. hmac k m \<noteq> []" and "byteLength h \<le> MAX_ASSERTION_BYTES" and "rx_full uuid_rx jti"
    and "nowMs div 1000 \<le> nowMs' div 1000 + 30" and "nowMs' div 1000 < nowMs div 1000 + 45"
  shows "\<exists>pl. buildPayload p aud nowMs jti = Inr pl \<and> verifyAssertion hmac key h aud nowMs' = Inr (payload_json pl)"
proof -
  from mintAssertion_Inr [OF assms(1)] obtain pl where pl: "buildPayload p aud nowMs jti = Inr pl"
    and h: "h = b64url (stringify (payload_json pl)) @ ''.'' @ sign hmac key (b64url (stringify (payload_json pl)))"
    by blast
  from verify_minted [OF pl h assms(3,2)] check_claims_minted [OF pl] assms(4-6) pl
  show ?thesis by simp
qed

text \<open>C7. Soundness: whatever header the verifier accepts is a payload with the HMAC of exactly that
  payload under the key; its subject is well formed, its audience is the verifier's own, it is unexpired,
  lives at most 60 s and was issued at most 30 s in the future.\<close>

theorem verify_sound:
  assumes "verifyAssertion hmac key h aud nowMs = Inr v"
  shows "\<exists>enc iat exp. h = enc @ ''.'' @ sign hmac key enc \<and>
    json_parse (utf8_decode (b64_decode enc)) = Some v \<and>
    validSubject_json (jfield ''sub'' v) \<and> jfield ''aud'' v = Some (JStr (audience_name aud)) \<and>
    jfield ''iat'' v = Some (JInt iat) \<and> jfield ''exp'' v = Some (JInt exp) \<and>
    nowMs div 1000 < exp \<and> exp - iat \<le> 60 \<and> iat \<le> nowMs div 1000 + 30"
proof -
  from assms obtain enc sig where sp: "split_on (CHR ''.'') h = [enc, sig]"
    by (auto simp: verifyAssertion_def split: if_splits list.splits)
  with assms have sig: "sig = sign hmac key enc"
    and c: "\<exists>w. json_parse (utf8_decode (b64_decode enc)) = Some w \<and> check_claims aud nowMs w = Inr v"
    by (auto simp: verifyAssertion_def Let_def utf8_inj split: if_splits option.splits)
  from sp have "h = enc @ ''.'' @ sig" using join_split_on [of "CHR ''.''" h] by simp
  with sig c check_claims_Inr show ?thesis by blast
qed

text \<open>A minted assertion is worthless elsewhere: at the other audience, or 45 s after it was issued,
  the verifier throws.\<close>

theorem minted_confined:
  assumes "mintAssertion hmac key p aud nowMs jti = Inr h"
    and "\<And>k m. hmac k m \<noteq> []" and "byteLength h \<le> MAX_ASSERTION_BYTES"
    and "aud' \<noteq> aud \<or> nowMs div 1000 + 45 \<le> nowMs' div 1000"
  shows "\<exists>e. verifyAssertion hmac key h aud' nowMs' = Inl (AssertionError e)"
proof -
  from mintAssertion_Inr [OF assms(1)] obtain pl where pl: "buildPayload p aud nowMs jti = Inr pl"
    and h: "h = b64url (stringify (payload_json pl)) @ ''.'' @ sign hmac key (b64url (stringify (payload_json pl)))"
    by blast
  from verify_minted [OF pl h assms(3,2)] check_claims_minted [OF pl] assms(4)
  show ?thesis by auto
qed

section \<open>Witnesses\<close>

text \<open>A concrete key, principal and MAC (a function of both arguments) for the witnesses.\<close>

definition ex_hmac :: hmac where
  "ex_hmac k m = CHR ''s'' # take 8 (rev m) @ take 8 k"

definition ex_key :: string where
  "ex_key = ''0123456789abcdef0123456789abcdef''"

definition ex_jti :: string where
  "ex_jti = ''0b54f09a-1c8e-4c13-9d5b-5d5f7e2b0a11''"

definition ex_principal :: Principal where
  "ex_principal = \<lparr>pr_teleportUser = ''alice'', pr_email = Some ''alice@example.com'',
     pr_platform = Slack, pr_platformUserId = ''U1''\<rparr>"

lemma ex_hmac_ne: "ex_hmac k m \<noteq> []"
  by (simp add: ex_hmac_def)

lemma ex_jti_uuid: "rx_full uuid_rx ex_jti"
  by code_simp

lemma ex_mint_short:
  "case mintAssertion ex_hmac ex_key ex_principal AudMcp 5000 ex_jti of
     Inr h \<Rightarrow> byteLength h \<le> 400 | Inl _ \<Rightarrow> False"
  by code_simp

lemma ex_mint:
  "\<exists>h. mintAssertion ex_hmac ex_key ex_principal AudMcp 5000 ex_jti = Inr h \<and> byteLength h \<le> MAX_ASSERTION_BYTES"
  using ex_mint_short by (auto simp: MAX_ASSERTION_BYTES_def split: sum.splits)

theorem mint_verify_roundtrip_witness:
  "\<exists>h pl. mintAssertion ex_hmac ex_key ex_principal AudMcp 5000 ex_jti = Inr h \<and>
     verifyAssertion ex_hmac ex_key h AudMcp 6000 = Inr (payload_json pl)"
proof -
  obtain h where h: "mintAssertion ex_hmac ex_key ex_principal AudMcp 5000 ex_jti = Inr h"
    "byteLength h \<le> MAX_ASSERTION_BYTES" using ex_mint by blast
  from mint_verify_roundtrip [OF h(1) ex_hmac_ne h(2) ex_jti_uuid, of 6000] h(1) show ?thesis by auto
qed

theorem verify_sound_witness:
  "\<exists>h v enc. verifyAssertion ex_hmac ex_key h AudMcp 6000 = Inr v \<and> h = enc @ ''.'' @ sign ex_hmac ex_key enc"
proof -
  obtain h pl where h: "mintAssertion ex_hmac ex_key ex_principal AudMcp 5000 ex_jti = Inr h"
    "byteLength h \<le> MAX_ASSERTION_BYTES" using ex_mint by blast
  from mintAssertion_Inr [OF h(1)] obtain pl where pl: "buildPayload ex_principal AudMcp 5000 ex_jti = Inr pl"
    and hh: "h = b64url (stringify (payload_json pl)) @ ''.'' @ sign ex_hmac ex_key (b64url (stringify (payload_json pl)))"
    by blast
  have "verifyAssertion ex_hmac ex_key h AudMcp 6000 = Inr (payload_json pl)"
    using verify_minted [OF pl hh h(2) ex_hmac_ne] check_claims_minted [OF pl] ex_jti_uuid by simp
  from this verify_sound [OF this] show ?thesis by blast
qed

theorem minted_confined_witness:
  "\<exists>h e. mintAssertion ex_hmac ex_key ex_principal AudMcp 5000 ex_jti = Inr h \<and>
     verifyAssertion ex_hmac ex_key h AudBroker 6000 = Inl (AssertionError e)"
proof -
  obtain h where h: "mintAssertion ex_hmac ex_key ex_principal AudMcp 5000 ex_jti = Inr h"
    "byteLength h \<le> MAX_ASSERTION_BYTES" using ex_mint by blast
  have "AudBroker \<noteq> AudMcp \<or> (5000::int) div 1000 + 45 \<le> 6000 div 1000" by simp
  from minted_confined [OF h(1) ex_hmac_ne h(2) this] h(1) show ?thesis by blast
qed

end
