(* ===== verification/AgentConfig.thy ===== *)
theory AgentConfig
  imports Assertion
begin

text \<open>
  Runtime configuration of the access agent (\<open>services/access-agent/src/config/schema.ts\<close>): the
  environment is a map from variable names to strings; \<open>resolveSecretFiles\<close> reads the \<open>_FILE\<close>
  indirections through the argument \<open>readFile\<close>; \<open>parse_config\<close> is the zod schema, every field with
  its default and its checks, collecting one issue per bad field (the wording of zod's own issues is
  not modelled, only the field they are about); \<open>loadConfig\<close> adds the rules across
  fields. The URL syntax check of zod is the parameter \<open>is_url\<close>.
\<close>

datatype AuthMode = AuthApiKey | AuthSubscription
datatype Effort = EffortLow | EffortMedium | EffortHigh | EffortXhigh | EffortMax
datatype IdentityStrategy = EmailAsUsername | EmailLocalPart | GithubLogin | TraitLookup
datatype GchatMode = GchatHttp | GchatPubsub
datatype SessionBackend = SessionMemory | SessionFile

record Config =
  CLAUDE_AUTH_MODE :: AuthMode
  ANTHROPIC_API_KEY :: "string option"
  CLAUDE_MODEL :: string
  CLAUDE_EFFORT :: Effort
  CLAUDE_CODE_OAUTH_TOKEN :: "string option"
  CLAUDE_ALLOW_LOCAL_LOGIN :: bool
  CLAUDE_CODE_PATH :: string
  CLAUDE_STATE_DIR :: string
  CLAUDE_TURN_TIMEOUT_MS :: int
  MCP_URL :: string
  MCP_SHARED_TOKEN :: string
  BROKER_URL :: string
  BROKER_API_TOKEN :: string
  BROKER_WEBHOOK_SECRET :: string
  IDENTITY_SIGNING_KEY :: string
  IDENTITY_STRATEGY :: IdentityStrategy
  IDENTITY_MAP_FILE :: "string option"
  ALLOWED_EMAIL_DOMAINS :: string
  APPROVER_EMAILS :: string
  APPROVER_TELEPORT_ROLES :: string
  ADAPTERS :: string
  PORT :: int
  PUBLIC_PORT :: "int option"
  PUBLIC_URL :: "string option"
  SLACK_BOT_TOKEN :: "string option"
  SLACK_APP_TOKEN :: "string option"
  SLACK_ALLOWED_TEAM_IDS :: string
  TEAMS_APP_ID :: "string option"
  TEAMS_APP_PASSWORD :: "string option"
  TEAMS_TENANT_ID :: "string option"
  GCHAT_PROJECT_NUMBER :: "string option"
  GCHAT_SERVICE_ACCOUNT_JSON :: "string option"
  GCHAT_MODE :: GchatMode
  GCHAT_PUBSUB_SUBSCRIPTION :: "string option"
  SESSION_BACKEND :: SessionBackend
  SESSION_FILE :: string
  SESSION_MAX_TURNS :: int
  LOG_LEVEL :: string
  LOG_PRETTY :: bool

type_synonym Env = "string \<rightharpoonup> string"
type_synonym Issue = "string \<times> string"

definition csv :: "string \<Rightarrow> string list" where
  "csv s = filter (\<lambda>x. x \<noteq> []) (map trim (split_on (CHR '','') s))"

section \<open>Secret files\<close>

definition SECRET_ENV_VARS :: "string list" where
  "SECRET_ENV_VARS =
     [''SLACK_BOT_TOKEN'', ''SLACK_APP_TOKEN'', ''TEAMS_APP_PASSWORD'', ''GCHAT_SERVICE_ACCOUNT_JSON'',
      ''ANTHROPIC_API_KEY'', ''CLAUDE_CODE_OAUTH_TOKEN'', ''MCP_SHARED_TOKEN'', ''BROKER_API_TOKEN'',
      ''BROKER_WEBHOOK_SECRET'', ''IDENTITY_SIGNING_KEY'']"

definition GUESSING_STRATEGIES :: "IdentityStrategy list" where
  "GUESSING_STRATEGIES = [EmailLocalPart, EmailAsUsername]"

definition file_var :: "string \<Rightarrow> string" where
  "file_var name = name @ ''_FILE''"

fun resolve_secrets ::
  "(string \<Rightarrow> string + string) \<Rightarrow> Env \<Rightarrow> string list \<Rightarrow> Env \<Rightarrow> js_error + Env" where
  "resolve_secrets readFile env [] out = Inr out"
| "resolve_secrets readFile env (name # names) out =
     (if \<not> truthy (env (file_var name)) then resolve_secrets readFile env names out
      else
        let file = nullish (env (file_var name)) '''' in
        (case readFile file of
           Inl m \<Rightarrow> Inl (ConfigError (''invalid access-agent configuration: cannot read '' @ file_var name
                                      @ '' ('' @ file @ ''): '' @ m))
         | Inr contents \<Rightarrow>
             let value = trim contents in
             if value = [] then
               Inl (ConfigError (''invalid access-agent configuration: '' @ file_var name @ '' ('' @ file @ '') is empty''))
             else resolve_secrets readFile env names
                    ((out(name \<mapsto> value))(file_var name := None))))"

definition resolveSecretFiles :: "(string \<Rightarrow> string + string) \<Rightarrow> Env \<Rightarrow> js_error + Env" where
  "resolveSecretFiles readFile env = resolve_secrets readFile env SECRET_ENV_VARS env"

section \<open>The schema\<close>

definition z_str :: "string \<Rightarrow> Env \<Rightarrow> string \<Rightarrow> string" where
  "z_str d env k = nullish (env k) d"

definition z_bool :: "Env \<Rightarrow> string \<Rightarrow> bool" where
  "z_bool env k \<longleftrightarrow> env k = Some ''1'' \<or> env k = Some ''true''"

definition z_enum :: "(string \<times> 'a) list \<Rightarrow> 'a \<Rightarrow> Env \<Rightarrow> string \<Rightarrow> Issue list \<times> 'a" where
  "z_enum tbl d env k =
     (case env k of
        None \<Rightarrow> ([], d)
      | Some s \<Rightarrow> (case map_of tbl s of Some v \<Rightarrow> ([], v) | None \<Rightarrow> ([(k, ''invalid option'')], d)))"

definition MAX_SAFE_INTEGER :: int where
  "MAX_SAFE_INTEGER = 9007199254740991"

text \<open>\<open>z.coerce.number().int()\<close> with the extra range check \<open>p\<close>.\<close>

definition z_int :: "(int \<Rightarrow> bool) \<Rightarrow> int \<Rightarrow> Env \<Rightarrow> string \<Rightarrow> Issue list \<times> int" where
  "z_int p d env k =
     (case env k of
        None \<Rightarrow> ([], d)
      | Some s \<Rightarrow>
          (case js_number s of
             None \<Rightarrow> ([(k, ''expected number, received NaN'')], d)
           | Some n \<Rightarrow>
               (case num_to_int n of
                  None \<Rightarrow> ([(k, ''expected int'')], d)
                | Some i \<Rightarrow> if \<bar>i\<bar> \<le> MAX_SAFE_INTEGER \<and> p i then ([], i) else ([(k, ''out of range'')], d))))"

definition port_ok :: "int \<Rightarrow> bool" where
  "port_ok i \<longleftrightarrow> 0 < i \<and> i \<le> 65535"

definition z_opt_port :: "Env \<Rightarrow> string \<Rightarrow> Issue list \<times> int option" where
  "z_opt_port env k =
     (case env k of None \<Rightarrow> ([], None)
      | Some _ \<Rightarrow> (case z_int port_ok 0 env k of (is, i) \<Rightarrow> (is, Some i)))"

definition z_url :: "(string \<Rightarrow> bool) \<Rightarrow> string \<Rightarrow> Env \<Rightarrow> string \<Rightarrow> Issue list \<times> string" where
  "z_url is_url d env k =
     (case env k of None \<Rightarrow> ([], d)
      | Some s \<Rightarrow> if is_url s then ([], s) else ([(k, ''Invalid URL'')], s))"

definition z_min :: "nat \<Rightarrow> string \<Rightarrow> Env \<Rightarrow> string \<Rightarrow> Issue list \<times> string" where
  "z_min n msg env k =
     (case env k of None \<Rightarrow> ([(k, ''expected string, received undefined'')], [])
      | Some s \<Rightarrow> if n \<le> length s then ([], s) else ([(k, msg)], s))"

definition auth_modes :: "(string \<times> AuthMode) list" where
  "auth_modes = [(''api-key'', AuthApiKey), (''subscription'', AuthSubscription)]"

definition efforts :: "(string \<times> Effort) list" where
  "efforts = [(''low'', EffortLow), (''medium'', EffortMedium), (''high'', EffortHigh),
              (''xhigh'', EffortXhigh), (''max'', EffortMax)]"

definition strategies :: "(string \<times> IdentityStrategy) list" where
  "strategies = [(''email-as-username'', EmailAsUsername), (''email-local-part'', EmailLocalPart),
                 (''github-login'', GithubLogin), (''trait-lookup'', TraitLookup)]"

fun strategy_name :: "IdentityStrategy \<Rightarrow> string" where
  "strategy_name EmailAsUsername = ''email-as-username''"
| "strategy_name EmailLocalPart = ''email-local-part''"
| "strategy_name GithubLogin = ''github-login''"
| "strategy_name TraitLookup = ''trait-lookup''"

lemma strategies_name: "map_of strategies (strategy_name i) = Some i"
  by (cases i) (simp_all add: strategies_def)

definition parse_config :: "(string \<Rightarrow> bool) \<Rightarrow> Env \<Rightarrow> Issue list \<times> Config" where
  "parse_config is_url env =
     (let auth = z_enum auth_modes AuthApiKey env ''CLAUDE_AUTH_MODE'';
          eff = z_enum efforts EffortMedium env ''CLAUDE_EFFORT'';
          tmo = z_int (\<lambda>_. True) 300000 env ''CLAUDE_TURN_TIMEOUT_MS'';
          mcp = z_url is_url ''http://teleport-mcp.teleport-access.svc.cluster.local:8080/mcp'' env ''MCP_URL'';
          tok = z_min 1 ''too small'' env ''MCP_SHARED_TOKEN'';
          bro = z_url is_url ''http://access-broker.teleport-access.svc.cluster.local:8081'' env ''BROKER_URL'';
          key = z_min MIN_SIGNING_KEY_BYTES ''IDENTITY_SIGNING_KEY must be at least 32 bytes'' env ''IDENTITY_SIGNING_KEY'';
          str = z_enum strategies TraitLookup env ''IDENTITY_STRATEGY'';
          prt = z_int port_ok 8082 env ''PORT'';
          pub = z_opt_port env ''PUBLIC_PORT'';
          gmo = z_enum [(''http'', GchatHttp), (''pubsub'', GchatPubsub)] GchatHttp env ''GCHAT_MODE'';
          ses = z_enum [(''memory'', SessionMemory), (''file'', SessionFile)] SessionMemory env ''SESSION_BACKEND'';
          mxt = z_int (\<lambda>_. True) 40 env ''SESSION_MAX_TURNS''
      in (fst auth @ fst eff @ fst tmo @ fst mcp @ fst tok @ fst bro @ fst key @ fst str @ fst prt
          @ fst pub @ fst gmo @ fst ses @ fst mxt,
          \<lparr>CLAUDE_AUTH_MODE = snd auth,
           ANTHROPIC_API_KEY = env ''ANTHROPIC_API_KEY'',
           CLAUDE_MODEL = z_str ''claude-opus-5'' env ''CLAUDE_MODEL'',
           CLAUDE_EFFORT = snd eff,
           CLAUDE_CODE_OAUTH_TOKEN = env ''CLAUDE_CODE_OAUTH_TOKEN'',
           CLAUDE_ALLOW_LOCAL_LOGIN = z_bool env ''CLAUDE_ALLOW_LOCAL_LOGIN'',
           CLAUDE_CODE_PATH = z_str ''claude'' env ''CLAUDE_CODE_PATH'',
           CLAUDE_STATE_DIR = z_str ''/var/lib/access-agent/claude'' env ''CLAUDE_STATE_DIR'',
           CLAUDE_TURN_TIMEOUT_MS = snd tmo,
           MCP_URL = snd mcp,
           MCP_SHARED_TOKEN = snd tok,
           BROKER_URL = snd bro,
           BROKER_API_TOKEN = z_str '''' env ''BROKER_API_TOKEN'',
           BROKER_WEBHOOK_SECRET = z_str '''' env ''BROKER_WEBHOOK_SECRET'',
           IDENTITY_SIGNING_KEY = snd key,
           IDENTITY_STRATEGY = snd str,
           IDENTITY_MAP_FILE = env ''IDENTITY_MAP_FILE'',
           ALLOWED_EMAIL_DOMAINS = z_str '''' env ''ALLOWED_EMAIL_DOMAINS'',
           APPROVER_EMAILS = z_str '''' env ''APPROVER_EMAILS'',
           APPROVER_TELEPORT_ROLES = z_str ''approver'' env ''APPROVER_TELEPORT_ROLES'',
           ADAPTERS = z_str ''cli'' env ''ADAPTERS'',
           PORT = snd prt,
           PUBLIC_PORT = snd pub,
           PUBLIC_URL = env ''PUBLIC_URL'',
           SLACK_BOT_TOKEN = env ''SLACK_BOT_TOKEN'',
           SLACK_APP_TOKEN = env ''SLACK_APP_TOKEN'',
           SLACK_ALLOWED_TEAM_IDS = z_str '''' env ''SLACK_ALLOWED_TEAM_IDS'',
           TEAMS_APP_ID = env ''TEAMS_APP_ID'',
           TEAMS_APP_PASSWORD = env ''TEAMS_APP_PASSWORD'',
           TEAMS_TENANT_ID = env ''TEAMS_TENANT_ID'',
           GCHAT_PROJECT_NUMBER = env ''GCHAT_PROJECT_NUMBER'',
           GCHAT_SERVICE_ACCOUNT_JSON = env ''GCHAT_SERVICE_ACCOUNT_JSON'',
           GCHAT_MODE = snd gmo,
           GCHAT_PUBSUB_SUBSCRIPTION = env ''GCHAT_PUBSUB_SUBSCRIPTION'',
           SESSION_BACKEND = snd ses,
           SESSION_FILE = z_str ''/var/lib/access-agent/sessions.json'' env ''SESSION_FILE'',
           SESSION_MAX_TURNS = snd mxt,
           LOG_LEVEL = z_str ''info'' env ''LOG_LEVEL'',
           LOG_PRETTY = z_bool env ''LOG_PRETTY''\<rparr>))"

section \<open>Loading\<close>

definition config_error :: "string \<Rightarrow> js_error + 'a" where
  "config_error what = Inl (ConfigError (''invalid access-agent configuration: '' @ what))"

definition chat_adapters :: "Config \<Rightarrow> string list" where
  "chat_adapters c = filter (\<lambda>a. a \<noteq> ''cli'') (csv (ADAPTERS c))"

text \<open>The rules across fields, as the list of (condition, message) the source checks in order.\<close>

definition config_needs :: "Config \<Rightarrow> (bool \<times> string) list" where
  "config_needs c =
     (let adapters = csv (ADAPTERS c) in
      map (\<lambda>a. (a \<in> set [''cli'', ''slack'', ''teams'', ''gchat''], ''unknown adapter '' @ a)) adapters
      @ (if PUBLIC_PORT c \<noteq> None
         then [(PUBLIC_PORT c \<noteq> Some (PORT c),
                ''PUBLIC_PORT must differ from PORT (the public listener must not expose the internal routes)'')] else [])
      @ (if CLAUDE_AUTH_MODE c = AuthApiKey
         then [(truthy (ANTHROPIC_API_KEY c), ''ANTHROPIC_API_KEY is required when CLAUDE_AUTH_MODE=api-key'')]
         else [(truthy (CLAUDE_CODE_OAUTH_TOKEN c) \<or> CLAUDE_ALLOW_LOCAL_LOGIN c,
                ''CLAUDE_AUTH_MODE=subscription needs CLAUDE_CODE_OAUTH_TOKEN (from `claude setup-token`) or CLAUDE_ALLOW_LOCAL_LOGIN=true'')])
      @ (if chat_adapters c \<noteq> []
         then [(csv (ALLOWED_EMAIL_DOMAINS c) \<noteq> [],
                ''ALLOWED_EMAIL_DOMAINS must list at least one domain when a chat adapter is enabled ('' @ join '','' (chat_adapters c) @ '')''),
               (IDENTITY_STRATEGY c \<notin> set GUESSING_STRATEGIES,
                ''IDENTITY_STRATEGY='' @ strategy_name (IDENTITY_STRATEGY c) @ '' derives Teleport usernames from email text and is not allowed with chat adapters; use trait-lookup or github-login with IDENTITY_MAP_FILE'')] else [])
      @ (if ''slack'' \<in> set adapters
         then [(truthy (SLACK_BOT_TOKEN c), ''SLACK_BOT_TOKEN is required for the slack adapter''),
               (truthy (SLACK_APP_TOKEN c), ''SLACK_APP_TOKEN is required for the slack adapter (Socket Mode)''),
               (csv (SLACK_ALLOWED_TEAM_IDS c) \<noteq> [], ''SLACK_ALLOWED_TEAM_IDS must list at least one workspace id for the slack adapter'')] else [])
      @ (if ''teams'' \<in> set adapters
         then [(truthy (TEAMS_APP_ID c) \<and> truthy (TEAMS_APP_PASSWORD c) \<and> truthy (TEAMS_TENANT_ID c),
                ''TEAMS_APP_ID, TEAMS_APP_PASSWORD and TEAMS_TENANT_ID are required for the teams adapter'')] else [])
      @ (if ''gchat'' \<in> set adapters
         then [(truthy (GCHAT_PROJECT_NUMBER c) \<and> truthy (GCHAT_SERVICE_ACCOUNT_JSON c),
                ''GCHAT_PROJECT_NUMBER and GCHAT_SERVICE_ACCOUNT_JSON are required for the gchat adapter'')] else []))"

fun check_needs :: "(bool \<times> string) list \<Rightarrow> 'a \<Rightarrow> js_error + 'a" where
  "check_needs [] v = Inr v"
| "check_needs ((ok, what) # rest) v = (if ok then check_needs rest v else config_error what)"

definition loadConfig ::
  "(string \<Rightarrow> bool) \<Rightarrow> (string \<Rightarrow> string + string) \<Rightarrow> Env \<Rightarrow> js_error + Config" where
  "loadConfig is_url readFile rawEnv =
     (case resolveSecretFiles readFile rawEnv of
        Inl e \<Rightarrow> Inl e
      | Inr env \<Rightarrow>
          (case parse_config is_url env of
             ([], c) \<Rightarrow> check_needs (config_needs c) c
           | (iss, _) \<Rightarrow> Inl (ConfigError (''invalid access-agent configuration:'' @ [CHR 0x0A]
                 @ join [CHR 0x0A] (map (\<lambda>i. ''  - '' @ fst i @ '': '' @ snd i) iss)))))"

section \<open>Lemmas\<close>

lemma csv_nonempty: "x \<in> set (csv s) \<Longrightarrow> x \<noteq> []"
  by (simp add: csv_def)

lemma csv_no_comma: "x \<in> set (csv s) \<Longrightarrow> CHR '','' \<notin> set x"
  unfolding csv_def using split_on_pieces set_trim by fastforce

lemma check_needs_Inr: "check_needs ns v = Inr w \<longleftrightarrow> w = v \<and> list_all fst ns"
  by (induction ns v rule: check_needs.induct) (auto simp: config_error_def)

lemma check_needs_Inl: "check_needs ns v = Inl e \<Longrightarrow> \<exists>m. e = ConfigError m"
  by (induction ns v rule: check_needs.induct) (auto simp: config_error_def split: if_splits)

lemma z_int_ok: "z_int p d env k = ([], i) \<Longrightarrow> p d \<Longrightarrow> p i"
  by (auto simp: z_int_def split: option.splits if_splits)

lemma z_min_ok: "z_min n m env k = ([], s) \<Longrightarrow> n \<le> length s"
  by (auto simp: z_min_def split: option.splits if_splits)

lemma z_opt_port_ok: "z_opt_port env k = ([], Some p) \<Longrightarrow> port_ok p"
  by (auto simp: z_opt_port_def z_int_def split: option.splits if_splits prod.splits)

lemma list_all_if_nil: "list_all P (if b then xs else []) \<longleftrightarrow> (b \<longrightarrow> list_all P xs)"
  by simp

lemma loadConfig_Inr:
  assumes "loadConfig is_url readFile rawEnv = Inr c"
  shows "\<exists>env. resolveSecretFiles readFile rawEnv = Inr env \<and> parse_config is_url env = ([], c) \<and>
    list_all fst (config_needs c)"
proof -
  from assms obtain env iss d where e: "resolveSecretFiles readFile rawEnv = Inr env"
    and p: "parse_config is_url env = (iss, d)"
    by (auto simp: loadConfig_def split: sum.splits prod.splits)
  with assms show ?thesis
    by (cases iss) (auto simp: loadConfig_def check_needs_Inr)
qed

lemma parse_config_ok:
  assumes "parse_config is_url env = ([], c)"
  shows "port_ok (PORT c) \<and> (\<forall>p. PUBLIC_PORT c = Some p \<longrightarrow> port_ok p) \<and> 32 \<le> length (IDENTITY_SIGNING_KEY c) \<and>
    MCP_SHARED_TOKEN c \<noteq> []"
proof -
  let ?port = "z_int port_ok 8082 env ''PORT''" and ?pub = "z_opt_port env ''PUBLIC_PORT''"
  let ?key = "z_min MIN_SIGNING_KEY_BYTES ''IDENTITY_SIGNING_KEY must be at least 32 bytes'' env ''IDENTITY_SIGNING_KEY''"
  let ?tok = "z_min 1 ''too small'' env ''MCP_SHARED_TOKEN''"
  have e: "fst ?port = []" "fst ?pub = []" "fst ?key = []" "fst ?tok = []"
    and c: "PORT c = snd ?port" "PUBLIC_PORT c = snd ?pub" "IDENTITY_SIGNING_KEY c = snd ?key" "MCP_SHARED_TOKEN c = snd ?tok"
    using assms by (auto simp: parse_config_def Let_def)
  have "port_ok (PORT c)"
    using z_int_ok [of port_ok 8082 env "''PORT''" "PORT c"] e(1) c(1)
    by (simp add: prod_eq_iff port_ok_def [of 8082])
  moreover have "\<forall>p. PUBLIC_PORT c = Some p \<longrightarrow> port_ok p"
    using z_opt_port_ok [of env "''PUBLIC_PORT''"] e(2) c(2) by (metis prod.collapse)
  moreover have "32 \<le> length (IDENTITY_SIGNING_KEY c)"
    using z_min_ok [of MIN_SIGNING_KEY_BYTES _ env "''IDENTITY_SIGNING_KEY''"] e(3) c(3)
    by (metis MIN_SIGNING_KEY_BYTES_def prod.collapse)
  moreover have "1 \<le> length (MCP_SHARED_TOKEN c)"
    using z_min_ok [of 1 _ env "''MCP_SHARED_TOKEN''"] e(4) c(4) by (metis prod.collapse)
  ultimately show ?thesis by auto
qed

text \<open>A signing key the configuration accepts is one \<open>assertSigningKey\<close> accepts.\<close>

lemma config_key_ok:
  "parse_config is_url env = ([], c) \<Longrightarrow> assertSigningKey (IDENTITY_SIGNING_KEY c) = Inr ()"
  using parse_config_ok [of is_url env c] length_utf8_ge [of "IDENTITY_SIGNING_KEY c"]
  by (auto simp: assertSigningKey_def MIN_SIGNING_KEY_BYTES_def)

lemma loadConfig_key_ok:
  "loadConfig is_url readFile rawEnv = Inr c \<Longrightarrow> assertSigningKey (IDENTITY_SIGNING_KEY c) = Inr ()"
  using loadConfig_Inr config_key_ok by blast

text \<open>What a loaded configuration says about its chat adapters.\<close>

lemma loadConfig_chat:
  assumes "loadConfig is_url readFile rawEnv = Inr c" and "chat_adapters c \<noteq> []"
  shows "csv (ALLOWED_EMAIL_DOMAINS c) \<noteq> [] \<and> IDENTITY_STRATEGY c \<in> {GithubLogin, TraitLookup}"
proof -
  from loadConfig_Inr [OF assms(1)] have "list_all fst (config_needs c)" by blast
  with assms(2) show ?thesis
    by (cases "IDENTITY_STRATEGY c") (auto simp: config_needs_def Let_def GUESSING_STRATEGIES_def list_all_if_nil)
qed

section \<open>Properties\<close>

text \<open>C25. Fail closed: a configuration that loads enables only known adapters; with any chat adapter it has
  a non-empty domain allow-list and a strategy that never derives a username from the email text; Slack
  needs both tokens and a workspace list, Teams and Google Chat their credentials; the public and the
  internal port are valid and differ.\<close>

theorem loadConfig_fails_closed:
  assumes "loadConfig is_url readFile rawEnv = Inr c"
  shows "set (csv (ADAPTERS c)) \<subseteq> {''cli'', ''slack'', ''teams'', ''gchat''} \<and>
    (chat_adapters c \<noteq> [] \<longrightarrow> csv (ALLOWED_EMAIL_DOMAINS c) \<noteq> [] \<and>
       IDENTITY_STRATEGY c \<notin> {EmailLocalPart, EmailAsUsername}) \<and>
    (''slack'' \<in> set (csv (ADAPTERS c)) \<longrightarrow> truthy (SLACK_BOT_TOKEN c) \<and> truthy (SLACK_APP_TOKEN c) \<and>
       csv (SLACK_ALLOWED_TEAM_IDS c) \<noteq> []) \<and>
    (''teams'' \<in> set (csv (ADAPTERS c)) \<longrightarrow> truthy (TEAMS_APP_ID c) \<and> truthy (TEAMS_APP_PASSWORD c) \<and> truthy (TEAMS_TENANT_ID c)) \<and>
    (''gchat'' \<in> set (csv (ADAPTERS c)) \<longrightarrow> truthy (GCHAT_PROJECT_NUMBER c) \<and> truthy (GCHAT_SERVICE_ACCOUNT_JSON c)) \<and>
    PUBLIC_PORT c \<noteq> Some (PORT c) \<and> port_ok (PORT c)"
proof -
  from loadConfig_Inr [OF assms] obtain env where
    p: "parse_config is_url env = ([], c)" and n: "list_all fst (config_needs c)" by blast
  from n have "list_all fst (map (\<lambda>a. (a \<in> set [''cli'', ''slack'', ''teams'', ''gchat''], ''unknown adapter '' @ a)) (csv (ADAPTERS c)))"
    by (simp add: config_needs_def Let_def list_all_if_nil)
  then have a: "set (csv (ADAPTERS c)) \<subseteq> {''cli'', ''slack'', ''teams'', ''gchat''}"
    by (auto simp: list_all_iff)
  have s: "''slack'' \<in> set (csv (ADAPTERS c)) \<longrightarrow> truthy (SLACK_BOT_TOKEN c) \<and> truthy (SLACK_APP_TOKEN c) \<and>
       csv (SLACK_ALLOWED_TEAM_IDS c) \<noteq> []" using n by (simp add: config_needs_def Let_def list_all_if_nil)
  have t: "''teams'' \<in> set (csv (ADAPTERS c)) \<longrightarrow> truthy (TEAMS_APP_ID c) \<and> truthy (TEAMS_APP_PASSWORD c) \<and> truthy (TEAMS_TENANT_ID c)"
    using n by (simp add: config_needs_def Let_def list_all_if_nil)
  have g: "''gchat'' \<in> set (csv (ADAPTERS c)) \<longrightarrow> truthy (GCHAT_PROJECT_NUMBER c) \<and> truthy (GCHAT_SERVICE_ACCOUNT_JSON c)"
    using n by (simp add: config_needs_def Let_def list_all_if_nil)
  have d: "PUBLIC_PORT c \<noteq> Some (PORT c)" using n by (auto simp: config_needs_def Let_def list_all_if_nil)
  from a s t g d loadConfig_chat [OF assms] parse_config_ok [OF p] show ?thesis by auto
qed

definition ex_env :: Env where
  "ex_env = [''MCP_SHARED_TOKEN'' \<mapsto> ''t'', ''IDENTITY_SIGNING_KEY'' \<mapsto> ex_key, ''ANTHROPIC_API_KEY'' \<mapsto> ''k'',
     ''ADAPTERS'' \<mapsto> ''slack'', ''ALLOWED_EMAIL_DOMAINS'' \<mapsto> ''example.com'', ''SLACK_BOT_TOKEN'' \<mapsto> ''x'',
     ''SLACK_APP_TOKEN'' \<mapsto> ''y'', ''SLACK_ALLOWED_TEAM_IDS'' \<mapsto> ''T1'']"

lemma ex_env_secrets: "resolveSecretFiles readFile ex_env = Inr ex_env"
  by (simp add: resolveSecretFiles_def SECRET_ENV_VARS_def ex_env_def file_var_def)

definition ex_config :: Config where
  "ex_config = snd (parse_config (\<lambda>_. True) ex_env)"

lemma ex_config_parse: "parse_config (\<lambda>_. True) ex_env = ([], ex_config)"
  by (simp add: ex_config_def parse_config_def Let_def ex_env_def z_enum_def z_int_def z_url_def z_min_def
      z_opt_port_def ex_key_def MIN_SIGNING_KEY_BYTES_def)

lemma ex_config_fields:
  "ADAPTERS ex_config = ''slack''" "PUBLIC_PORT ex_config = None" "CLAUDE_AUTH_MODE ex_config = AuthApiKey"
  "ANTHROPIC_API_KEY ex_config = Some ''k''" "ALLOWED_EMAIL_DOMAINS ex_config = ''example.com''"
  "IDENTITY_STRATEGY ex_config = TraitLookup" "SLACK_BOT_TOKEN ex_config = Some ''x''"
  "SLACK_APP_TOKEN ex_config = Some ''y''" "SLACK_ALLOWED_TEAM_IDS ex_config = ''T1''"
  by (simp_all add: ex_config_def parse_config_def Let_def ex_env_def z_enum_def z_str_def z_opt_port_def)

lemma ex_csv: "csv ''slack'' = [''slack'']" "csv ''example.com'' = [''example.com'']" "csv ''T1'' = [''T1'']"
  by code_simp+

lemma ex_loadConfig: "loadConfig (\<lambda>_. True) readFile ex_env = Inr ex_config"
  by (simp add: loadConfig_def ex_env_secrets ex_config_parse check_needs_Inr config_needs_def Let_def
      chat_adapters_def ex_config_fields ex_csv GUESSING_STRATEGIES_def)

theorem loadConfig_fails_closed_witness:
  "loadConfig (\<lambda>_. True) Inr ex_env = Inr ex_config \<and> csv (ALLOWED_EMAIL_DOMAINS ex_config) \<noteq> [] \<and>
     truthy (SLACK_BOT_TOKEN ex_config)"
  using ex_loadConfig [of Inr] loadConfig_fails_closed [OF ex_loadConfig [of Inr]]
  by (simp add: chat_adapters_def ex_config_fields ex_csv)

lemma resolve_secrets_frame:
  "resolve_secrets readFile env names out = Inr out' \<Longrightarrow> (\<forall>n \<in> set names. k \<noteq> n \<and> k \<noteq> file_var n) \<Longrightarrow> out' k = out k"
  by (induction readFile env names out rule: resolve_secrets.induct)
     (auto simp: Let_def split: if_splits sum.splits)

lemma resolve_secrets_sets:
  "resolve_secrets readFile env names out = Inr out' \<Longrightarrow> distinct names \<Longrightarrow>
     (\<forall>m \<in> set names. \<forall>n \<in> set names. m \<noteq> file_var n) \<Longrightarrow> name \<in> set names \<Longrightarrow> env (file_var name) = Some file \<Longrightarrow> file \<noteq> [] \<Longrightarrow>
     \<exists>c. readFile file = Inr c \<and> trim c \<noteq> [] \<and> out' name = Some (trim c) \<and> out' (file_var name) = None"
proof (induction readFile env names out rule: resolve_secrets.induct)
  case (2 readFile env n names out)
  show ?case
  proof (cases "n = name")
    case True
    with 2(3,7,8) obtain c where c: "readFile file = Inr c" "trim c \<noteq> []"
      and r: "resolve_secrets readFile env names ((out(name \<mapsto> trim c))(file_var name := None)) = Inr out'"
      by (auto simp: Let_def split: if_splits sum.splits)
    have nin: "name \<notin> set names" using 2(4) True by simp
    have fr1: "\<forall>m \<in> set names. name \<noteq> m \<and> name \<noteq> file_var m" using nin 2(5) True by auto
    have fr2: "\<forall>m \<in> set names. file_var name \<noteq> m \<and> file_var name \<noteq> file_var m"
      using nin 2(5) True by (auto simp: file_var_def)
    from resolve_secrets_frame [OF r fr1] resolve_secrets_frame [OF r fr2] c show ?thesis
      by (auto simp: file_var_def)
  next
    case False
    with "2.prems"(4) have nm: "name \<in> set names" by simp
    show ?thesis
    proof (cases "truthy (env (file_var n))")
      case True
      with 2(3) obtain c where c: "readFile (nullish (env (file_var n)) '''') = Inr c" "trim c \<noteq> []"
        and r: "resolve_secrets readFile env names ((out(n \<mapsto> trim c))(file_var n := None)) = Inr out'"
        by (auto simp: Let_def split: if_splits sum.splits)
      show ?thesis
        by (rule "2.IH"(2) [OF _ refl c(1) refl c(2) r]) (use True 2(4,5,7,8) nm in auto)
    next
      case f: False
      with 2(1) 2(3-8) nm show ?thesis by auto
    qed
  qed
qed simp

text \<open>Secret files: when every readable \<open>NAME_FILE\<close> indirection resolves, the result has the trimmed,
  non-empty file contents as \<open>NAME\<close> and no longer the \<open>NAME_FILE\<close> variable, for every secret that was
  given as a file, and leaves every other variable as it was.\<close>

theorem resolveSecretFiles_correct:
  assumes "resolveSecretFiles readFile env = Inr out"
  shows "(\<forall>name \<in> set SECRET_ENV_VARS. \<forall>file. env (file_var name) = Some file \<longrightarrow> file \<noteq> [] \<longrightarrow>
           (\<exists>c. readFile file = Inr c \<and> trim c \<noteq> [] \<and> out name = Some (trim c) \<and> out (file_var name) = None)) \<and>
         (\<forall>k. (\<forall>n \<in> set SECRET_ENV_VARS. k \<noteq> n \<and> k \<noteq> file_var n) \<longrightarrow> out k = env k)"
proof -
  have d: "distinct SECRET_ENV_VARS" by (simp add: SECRET_ENV_VARS_def)
  have f: "\<forall>m \<in> set SECRET_ENV_VARS. \<forall>n \<in> set SECRET_ENV_VARS. m \<noteq> file_var n"
    by (simp add: SECRET_ENV_VARS_def file_var_def)
  show ?thesis
    using resolve_secrets_sets [OF assms [unfolded resolveSecretFiles_def] d f]
      resolve_secrets_frame [OF assms [unfolded resolveSecretFiles_def]] by blast
qed

theorem resolveSecretFiles_correct_witness:
  "\<exists>out. resolveSecretFiles (\<lambda>_. Inr '' s3cret '') [''MCP_SHARED_TOKEN_FILE'' \<mapsto> ''/run/t''] = Inr out \<and>
     out ''MCP_SHARED_TOKEN'' = Some ''s3cret'' \<and> out ''MCP_SHARED_TOKEN_FILE'' = None"
proof -
  let ?env = "[''MCP_SHARED_TOKEN_FILE'' \<mapsto> ''/run/t''] :: Env"
  have t: "trim '' s3cret '' = ''s3cret''" by code_simp
  obtain out where r: "resolveSecretFiles (\<lambda>_. Inr '' s3cret '') ?env = Inr out"
    by (simp add: resolveSecretFiles_def SECRET_ENV_VARS_def file_var_def t)
  have "''MCP_SHARED_TOKEN'' \<in> set SECRET_ENV_VARS" by (simp add: SECRET_ENV_VARS_def)
  with resolveSecretFiles_correct [OF r] r show ?thesis
    by (auto simp: file_var_def t SECRET_ENV_VARS_def)
qed

end
