(* ===== verification/Effects.thy ===== *)
theory Effects
  imports JsBase
begin

text \<open>
  Asynchronous code with exceptions, as a function of the state: \<open>Inl e\<close> is a rejected promise
  (or a thrown error), \<open>Inr v\<close> a value; the state is returned in both cases, so effects that
  happened before a throw are kept. A call to something outside the program (an HTTP peer, a chat
  platform, the file system) is \<open>perform\<close>: it appends the call to the history \<open>calls\<close> and takes
  its outcome from an oracle, a function of the history, so a statement for every oracle covers
  every behaviour of the outside.
\<close>

section \<open>Combinators\<close>

type_synonym ('s, 'e, 'a) eff = "'s \<Rightarrow> ('e + 'a) \<times> 's"

definition retE :: "'a \<Rightarrow> ('s, 'e, 'a) eff" where
  "retE v = (\<lambda>s. (Inr v, s))"

definition throwE :: "'e \<Rightarrow> ('s, 'e, 'a) eff" where
  "throwE e = (\<lambda>s. (Inl e, s))"

definition bindE :: "('s, 'e, 'a) eff \<Rightarrow> ('a \<Rightarrow> ('s, 'e, 'b) eff) \<Rightarrow> ('s, 'e, 'b) eff" where
  "bindE m f = (\<lambda>s. case m s of (Inl e, s') \<Rightarrow> (Inl e, s') | (Inr v, s') \<Rightarrow> f v s')"

definition thenE :: "('s, 'e, 'a) eff \<Rightarrow> ('s, 'e, 'b) eff \<Rightarrow> ('s, 'e, 'b) eff" where
  "thenE m k = bindE m (\<lambda>_. k)"

definition catchE :: "('s, 'e, 'a) eff \<Rightarrow> ('e \<Rightarrow> ('s, 'f, 'a) eff) \<Rightarrow> ('s, 'f, 'a) eff" where
  "catchE m h = (\<lambda>s. case m s of (Inl e, s') \<Rightarrow> h e s' | (Inr v, s') \<Rightarrow> (Inr v, s'))"

text \<open>\<open>try { m } finally { k }\<close>: the cleanup runs on both paths; an error of the cleanup replaces the outcome.\<close>

definition finallyE :: "('s, 'e, 'a) eff \<Rightarrow> ('s, 'e, unit) eff \<Rightarrow> ('s, 'e, 'a) eff" where
  "finallyE m k = (\<lambda>s. case m s of (r, s') \<Rightarrow>
     (case k s' of (Inl e, s'') \<Rightarrow> (Inl e, s'') | (Inr _, s'') \<Rightarrow> (r, s'')))"

definition modifyE :: "('s \<Rightarrow> 's) \<Rightarrow> ('s, 'e, unit) eff" where
  "modifyE f = (\<lambda>s. (Inr (), f s))"

definition getE :: "('s \<Rightarrow> 'a) \<Rightarrow> ('s, 'e, 'a) eff" where
  "getE f = (\<lambda>s. (Inr (f s), s))"

definition liftE :: "'e + 'a \<Rightarrow> ('s, 'e, 'a) eff" where
  "liftE r = (\<lambda>s. (r, s))"

definition whenE :: "bool \<Rightarrow> ('s, 'e, unit) eff \<Rightarrow> ('s, 'e, unit) eff" where
  "whenE b m = (if b then m else retE ())"

fun forE :: "'a list \<Rightarrow> ('a \<Rightarrow> ('s, 'e, unit) eff) \<Rightarrow> ('s, 'e, unit) eff" where
  "forE [] f = retE ()"
| "forE (x # xs) f = thenE (f x) (forE xs f)"

text \<open>A loop that collects the values its body returns, in order.\<close>

fun mapE :: "'a list \<Rightarrow> ('a \<Rightarrow> ('s, 'e, 'b) eff) \<Rightarrow> ('s, 'e, 'b list) eff" where
  "mapE [] f = retE []"
| "mapE (x # xs) f = bindE (f x) (\<lambda>y. bindE (mapE xs f) (\<lambda>ys. retE (y # ys)))"

lemmas eff_defs = retE_def throwE_def bindE_def thenE_def catchE_def finallyE_def modifyE_def
  getE_def liftE_def whenE_def

lemma bindE_retE [simp]: "bindE (retE v) f = f v"
  and bindE_throwE [simp]: "bindE (throwE e) f = throwE e"
  and catchE_retE [simp]: "catchE (retE v) h = retE v"
  and catchE_throwE [simp]: "catchE (throwE e) h = h e"
  by (simp_all add: eff_defs)

lemma bindE_assoc: "bindE (bindE m f) g = bindE m (\<lambda>v. bindE (f v) g)"
  by (rule ext) (simp add: bindE_def split: prod.split sum.split)

section \<open>The history of outside calls\<close>

record ('c, 's) world =
  calls :: "'c list"
  loc :: 's

definition perform :: "'c \<Rightarrow> ('c list \<Rightarrow> 'e + 'a) \<Rightarrow> (('c, 's) world, 'e, 'a) eff" where
  "perform c ans = (\<lambda>w. (ans (calls w), w\<lparr>calls := calls w @ [c]\<rparr>))"

definition read_clock :: "('c list \<Rightarrow> 'a) \<Rightarrow> (('c, 's) world, 'e, 'a) eff" where
  "read_clock f = (\<lambda>w. (Inr (f (calls w)), w))"

definition upd_loc :: "('s \<Rightarrow> 's) \<Rightarrow> (('c, 's) world, 'e, unit) eff" where
  "upd_loc f = modifyE (\<lambda>w. w\<lparr>loc := f (loc w)\<rparr>)"

section \<open>Invariants through the combinators\<close>

text \<open>\<open>keeps I m\<close>: from a state satisfying \<open>I\<close>, the computation ends in one, thrown or not.\<close>

definition keeps :: "('s \<Rightarrow> bool) \<Rightarrow> ('s, 'e, 'a) eff \<Rightarrow> bool" where
  "keeps I m \<longleftrightarrow> (\<forall>s. I s \<longrightarrow> I (snd (m s)))"

lemma keepsI: "(\<And>s. I s \<Longrightarrow> I (snd (m s))) \<Longrightarrow> keeps I m"
  by (simp add: keeps_def)

lemma keepsD: "keeps I m \<Longrightarrow> I s \<Longrightarrow> I (snd (m s))"
  by (simp add: keeps_def)

lemma keeps_retE [keeps_intros]: "keeps I (retE v)"
  and keeps_throwE [keeps_intros]: "keeps I (throwE e)"
  and keeps_getE [keeps_intros]: "keeps I (getE f)"
  and keeps_liftE [keeps_intros]: "keeps I (liftE r)"
  and keeps_read_clock [keeps_intros]: "keeps J (read_clock g)"
  by (simp_all add: keeps_def eff_defs read_clock_def)

lemma keeps_bindE [keeps_intros]:
  "keeps I m \<Longrightarrow> (\<And>v. keeps I (f v)) \<Longrightarrow> keeps I (bindE m f)"
  unfolding keeps_def bindE_def by (auto split: prod.split sum.split)

lemma keeps_thenE [keeps_intros]: "keeps I m \<Longrightarrow> keeps I k \<Longrightarrow> keeps I (thenE m k)"
  unfolding thenE_def by (rule keeps_bindE)

lemma keeps_catchE [keeps_intros]:
  "keeps I m \<Longrightarrow> (\<And>e. keeps I (h e)) \<Longrightarrow> keeps I (catchE m h)"
  unfolding keeps_def catchE_def by (auto split: prod.split sum.split)

lemma keeps_finallyE [keeps_intros]: "keeps I m \<Longrightarrow> keeps I k \<Longrightarrow> keeps I (finallyE m k)"
  unfolding keeps_def finallyE_def by (auto split: prod.split sum.split)

lemma keeps_whenE [keeps_intros]: "(b \<Longrightarrow> keeps I m) \<Longrightarrow> keeps I (whenE b m)"
  by (simp add: whenE_def keeps_retE)

lemma keeps_forE [keeps_intros]: "(\<And>x. x \<in> set xs \<Longrightarrow> keeps I (f x)) \<Longrightarrow> keeps I (forE xs f)"
  by (induction xs) (auto intro: keeps_retE keeps_thenE)

lemma keeps_mapE [keeps_intros]: "(\<And>x. x \<in> set xs \<Longrightarrow> keeps I (f x)) \<Longrightarrow> keeps I (mapE xs f)"
  by (induction xs) (auto intro!: keeps_retE keeps_bindE)

lemma keeps_modifyE: "(\<And>s. I s \<Longrightarrow> I (f s)) \<Longrightarrow> keeps I (modifyE f)"
  by (simp add: keeps_def modifyE_def)

lemma keeps_upd_loc: "(\<And>w. I w \<Longrightarrow> I (w\<lparr>loc := f (loc w)\<rparr>)) \<Longrightarrow> keeps I (upd_loc f)"
  by (simp add: upd_loc_def keeps_modifyE)

lemma keeps_perform: "(\<And>w. I w \<Longrightarrow> I (w\<lparr>calls := calls w @ [c]\<rparr>)) \<Longrightarrow> keeps I (perform c ans)"
  by (simp add: keeps_def perform_def)

text \<open>An invariant on the calls alone: every recorded call satisfies \<open>P\<close>.\<close>

definition calls_ok :: "('c \<Rightarrow> bool) \<Rightarrow> ('c, 's) world \<Rightarrow> bool" where
  "calls_ok P w \<longleftrightarrow> list_all P (calls w)"

lemma calls_ok_perform [keeps_intros]: "P c \<Longrightarrow> keeps (calls_ok P) (perform c ans)"
  by (rule keeps_perform) (simp add: calls_ok_def)

lemma calls_ok_upd_loc [keeps_intros]: "keeps (calls_ok P) (upd_loc f)"
  by (rule keeps_upd_loc) (simp add: calls_ok_def)

section \<open>Outcomes\<close>

text \<open>\<open>ensures P m Q\<close>: from \<open>P\<close>, a returned value and its state satisfy \<open>Q\<close> (a throw satisfies it too).\<close>

definition ensures :: "('s \<Rightarrow> bool) \<Rightarrow> ('s, 'e, 'a) eff \<Rightarrow> ('a \<Rightarrow> 's \<Rightarrow> bool) \<Rightarrow> bool" where
  "ensures P m Q \<longleftrightarrow> (\<forall>s. P s \<longrightarrow> (case m s of (Inl _, _) \<Rightarrow> True | (Inr v, s') \<Rightarrow> Q v s'))"

lemma ensures_bindE:
  "ensures P m R \<Longrightarrow> (\<And>v. ensures (R v) (f v) Q) \<Longrightarrow> ensures P (bindE m f) Q"
  unfolding ensures_def bindE_def by (auto split: prod.split sum.split) fastforce+

lemma ensures_retE: "(\<And>s. P s \<Longrightarrow> Q v s) \<Longrightarrow> ensures P (retE v) Q"
  and ensures_throwE: "ensures P (throwE e) Q"
  by (simp_all add: ensures_def eff_defs)

section \<open>A component's state inside a larger one\<close>

definition zoomE :: "('b \<Rightarrow> 'a) \<Rightarrow> ('a \<Rightarrow> 'b \<Rightarrow> 'b) \<Rightarrow> (('c, 'a) world, 'e, 'v) eff \<Rightarrow> (('c, 'b) world, 'e, 'v) eff" where
  "zoomE g p m = (\<lambda>w. case m \<lparr>calls = calls w, loc = g (loc w)\<rparr> of
     (r, w') \<Rightarrow> (r, \<lparr>calls = calls w', loc = p (loc w') (loc w)\<rparr>))"

lemma keeps_zoomE [keeps_intros]: "keeps (calls_ok P) m \<Longrightarrow> keeps (calls_ok P) (zoomE g p m)"
  by (auto simp: keeps_def zoomE_def calls_ok_def split: prod.splits) (metis select_convs(1) snd_conv)

section \<open>Histories only grow\<close>

text \<open>\<open>appends P m\<close>: the computation only appends to the history, and only calls that satisfy \<open>P\<close>.\<close>

definition appends :: "('c \<Rightarrow> bool) \<Rightarrow> (('c, 's) world, 'e, 'a) eff \<Rightarrow> bool" where
  "appends P m \<longleftrightarrow> (\<forall>w. \<exists>cs. calls (snd (m w)) = calls w @ cs \<and> list_all P cs)"

lemma appendsD: "appends P m \<Longrightarrow> \<exists>cs. calls (snd (m w)) = calls w @ cs \<and> list_all P cs"
  by (simp add: appends_def)

lemma appends_mono: "appends P m \<Longrightarrow> (\<And>c. P c \<Longrightarrow> Q c) \<Longrightarrow> appends Q m"
  unfolding appends_def by (metis list.pred_mono_strong)

lemma appends_retE [appends_intros]: "appends P (retE v)"
  and appends_throwE [appends_intros]: "appends P (throwE e)"
  and appends_getE [appends_intros]: "appends P (getE f)"
  and appends_liftE [appends_intros]: "appends P (liftE r)"
  and appends_read_clock [appends_intros]: "appends P (read_clock g)"
  and appends_upd_loc [appends_intros]: "appends P (upd_loc h)"
  by (simp_all add: appends_def eff_defs read_clock_def upd_loc_def)

lemma appends_perform [appends_intros]: "P c \<Longrightarrow> appends P (perform c ans)"
  by (simp add: appends_def perform_def)

lemma appends_seq:
  assumes "appends P m" and "\<And>r w. m w = (r, w') \<Longrightarrow> \<exists>cs. calls w'' = calls w' @ cs \<and> list_all P cs"
    and "m w = (r, w')"
  shows "\<exists>cs. calls w'' = calls w @ cs \<and> list_all P cs"
proof -
  from appendsD [OF assms(1), of w] assms(3) obtain cs where "calls w' = calls w @ cs" "list_all P cs" by auto
  moreover from assms(2) [OF assms(3)] obtain ds where "calls w'' = calls w' @ ds" "list_all P ds" by auto
  ultimately show ?thesis by (intro exI [of _ "cs @ ds"]) simp
qed

lemma appends_bindE [appends_intros]:
  assumes "appends P m" and "\<And>v. appends P (f v)"
  shows "appends P (bindE m f)"
  unfolding appends_def
proof
  fix w
  obtain r w' where m: "m w = (r, w')" by force
  show "\<exists>cs. calls (snd (bindE m f w)) = calls w @ cs \<and> list_all P cs"
  proof (cases r)
    case (Inl e)
    then show ?thesis using appendsD [OF assms(1), of w] m by (simp add: bindE_def)
  next
    case (Inr v)
    then show ?thesis using appends_seq [OF assms(1) _ m, of "snd (f v w')"] appendsD [OF assms(2), of v w'] m
      by (simp add: bindE_def)
  qed
qed

lemma appends_thenE [appends_intros]: "appends P m \<Longrightarrow> appends P k \<Longrightarrow> appends P (thenE m k)"
  unfolding thenE_def by (rule appends_bindE)

lemma appends_catchE [appends_intros]:
  assumes "appends P m" and "\<And>e. appends P (h e)"
  shows "appends P (catchE m h)"
  unfolding appends_def
proof
  fix w
  obtain r w' where m: "m w = (r, w')" by force
  show "\<exists>cs. calls (snd (catchE m h w)) = calls w @ cs \<and> list_all P cs"
  proof (cases r)
    case (Inr v)
    then show ?thesis using appendsD [OF assms(1), of w] m by (simp add: catchE_def)
  next
    case (Inl e)
    then show ?thesis using appends_seq [OF assms(1) _ m, of "snd (h e w')"] appendsD [OF assms(2), of e w'] m
      by (simp add: catchE_def)
  qed
qed

text \<open>What runs after \<open>m\<close>, in its continuation or in its handler, comes after the calls of \<open>m\<close>.\<close>

lemma appends_after:
  assumes "\<And>v. appends P (f v)" and "\<And>e. appends P (h e)"
  shows "\<exists>es. calls (snd (catchE (bindE m f) h w)) = calls (snd (m w)) @ es \<and> list_all P es"
proof -
  obtain r w1 where m: "m w = (r, w1)" by force
  show ?thesis
  proof (cases r)
    case (Inl e)
    then show ?thesis using appendsD [OF assms(2) [of e], where w = w1] m by (simp add: catchE_def bindE_def)
  next
    case (Inr v)
    have "catchE (bindE m f) h w = catchE (f v) h w1" using m Inr by (simp add: catchE_def bindE_def)
    then show ?thesis using appendsD [OF appends_catchE [OF assms(1) [of v] assms(2)], where w = w1] m by simp
  qed
qed

lemma appends_finallyE [appends_intros]:
  assumes "appends P m" and "appends P k"
  shows "appends P (finallyE m k)"
  unfolding appends_def
proof
  fix w
  obtain r w' where m: "m w = (r, w')" by force
  have "calls (snd (finallyE m k w)) = calls (snd (k w'))"
    by (simp add: finallyE_def m split: prod.split sum.split)
  then show "\<exists>cs. calls (snd (finallyE m k w)) = calls w @ cs \<and> list_all P cs"
    using appends_seq [OF assms(1) _ m, of "snd (k w')"] appendsD [OF assms(2), of w'] by simp
qed

lemma appends_whenE [appends_intros]: "(b \<Longrightarrow> appends P m) \<Longrightarrow> appends P (whenE b m)"
  by (simp add: whenE_def appends_retE)

lemma appends_forE [appends_intros]: "(\<And>x. x \<in> set xs \<Longrightarrow> appends P (f x)) \<Longrightarrow> appends P (forE xs f)"
  by (induction xs) (auto intro: appends_retE appends_thenE)

lemma appends_mapE [appends_intros]: "(\<And>x. x \<in> set xs \<Longrightarrow> appends P (f x)) \<Longrightarrow> appends P (mapE xs f)"
  by (induction xs) (auto intro!: appends_retE appends_bindE)

lemma appends_zoomE [appends_intros]:
  assumes "appends P m"
  shows "appends P (zoomE g p m)"
  unfolding appends_def
proof
  fix w
  show "\<exists>cs. calls (snd (zoomE g p m w)) = calls w @ cs \<and> list_all P cs"
    using appendsD [OF assms, of "\<lparr>calls = calls w, loc = g (loc w)\<rparr>"]
    by (cases "m \<lparr>calls = calls w, loc = g (loc w)\<rparr>") (simp add: zoomE_def)
qed

section \<open>State no call touches\<close>

text \<open>\<open>frames f m\<close>: the computation leaves the component \<open>f\<close> of the local state as it is.\<close>

definition frames :: "('s \<Rightarrow> 'v) \<Rightarrow> (('c, 's) world, 'e, 'a) eff \<Rightarrow> bool" where
  "frames f m \<longleftrightarrow> (\<forall>w. f (loc (snd (m w))) = f (loc w))"

lemma framesD: "frames f m \<Longrightarrow> f (loc (snd (m w))) = f (loc w)"
  by (simp add: frames_def)

lemma frames_iff: "frames f m \<longleftrightarrow> (\<forall>v. keeps (\<lambda>w. f (loc w) = v) m)"
  by (auto simp: frames_def keeps_def)

lemma frames_perform [keeps_intros]: "frames f (perform c ans)"
  by (simp add: frames_def perform_def)

lemma frames_retE [keeps_intros]: "frames f (retE v)"
  and frames_throwE [keeps_intros]: "frames f (throwE e)"
  and frames_getE [keeps_intros]: "frames f (getE g)"
  and frames_liftE [keeps_intros]: "frames f (liftE r)"
  and frames_read_clock [keeps_intros]: "frames f (read_clock h)"
  by (simp_all add: frames_def eff_defs read_clock_def)

lemma frames_bindE [keeps_intros]: "frames f m \<Longrightarrow> (\<And>v. frames f (k v)) \<Longrightarrow> frames f (bindE m k)"
  unfolding frames_iff by (auto intro: keeps_bindE)

lemma frames_thenE [keeps_intros]: "frames f m \<Longrightarrow> frames f k \<Longrightarrow> frames f (thenE m k)"
  unfolding frames_iff by (auto intro: keeps_thenE)

lemma frames_catchE [keeps_intros]: "frames f m \<Longrightarrow> (\<And>e. frames f (h e)) \<Longrightarrow> frames f (catchE m h)"
  unfolding frames_iff by (auto intro: keeps_catchE)

lemma frames_whenE [keeps_intros]: "frames f m \<Longrightarrow> frames f (whenE b m)"
  unfolding frames_iff by (auto intro: keeps_whenE)

lemma frames_forE [keeps_intros]: "(\<And>x. frames f (h x)) \<Longrightarrow> frames f (forE xs h)"
  unfolding frames_iff by (auto intro: keeps_forE)

lemma frames_zoomE [keeps_intros]: "(\<And>a b. f (p a b) = f b) \<Longrightarrow> frames f (zoomE g p m)"
  by (simp add: frames_def zoomE_def split: prod.split)

end
