(* ===== verification/Identity.thy ===== *)
theory Identity
  imports AgentConfig Effects
begin

text \<open>
  Chat identity to Teleport username (\<open>services/access-agent/src/identity/resolver.ts\<close> and
  \<open>approver.ts\<close>). The broker calls they make are arguments: computations of the surrounding
  state, absent (\<^const>\<open>None\<close>) when the class was built without a broker. The identity map is the
  file the configuration names, parsed; the source casts it to an object with string values, so the
  model reads its string entries.
\<close>

section \<open>The resolver\<close>

record IdentityResolver =
  ir_cfg :: Config
  ir_allowedDomains :: "string list"
  ir_map :: json

definition new_IdentityResolver ::
  "(string \<Rightarrow> bool) \<Rightarrow> (string \<Rightarrow> string) \<Rightarrow> Config \<Rightarrow> js_error + IdentityResolver" where
  "new_IdentityResolver existsSync readFileSync cfg =
     (let allowed = map toLowerCase (csv (ALLOWED_EMAIL_DOMAINS cfg)) in
      case IDENTITY_MAP_FILE cfg of
        Some f \<Rightarrow>
          if f \<noteq> [] \<and> existsSync f then
            (case json_parse (readFileSync f) of
               None \<Rightarrow> Inl (PlainError ''SyntaxError'')
             | Some m \<Rightarrow> Inr \<lparr>ir_cfg = cfg, ir_allowedDomains = allowed, ir_map = m\<rparr>)
          else Inr \<lparr>ir_cfg = cfg, ir_allowedDomains = allowed, ir_map = JObj []\<rparr>
      | None \<Rightarrow> Inr \<lparr>ir_cfg = cfg, ir_allowedDomains = allowed, ir_map = JObj []\<rparr>)"

text \<open>\<open>email.split("@")[1] ?? ""\<close>\<close>

definition email_domain :: "string \<Rightarrow> string" where
  "email_domain email = (case split_on (CHR ''@'') email of _ # d # _ \<Rightarrow> d | _ \<Rightarrow> '''')"

definition mapped_user :: "IdentityResolver \<Rightarrow> string \<Rightarrow> string option" where
  "mapped_user r email = jstring (jfield email (ir_map r))"

definition resolve ::
  "(string \<Rightarrow> ('s, js_error, string option) eff) option \<Rightarrow> IdentityResolver \<Rightarrow> ChatUser \<Rightarrow>
     ('s, js_error, Principal) eff" where
  "resolve userByEmail r user =
     (let base = (\<lambda>u em. \<lparr>pr_teleportUser = u, pr_email = em, pr_platform = cu_platform user,
                          pr_platformUserId = cu_platformUserId user\<rparr>)
      in
      if cu_platform user = Cli then retE (base (cu_platformUserId user) (cu_email user))
      else if \<not> truthy (cu_email user) \<or> \<not> cu_emailVerified user then
        throwE (IdentityError ''your chat account has no verified email address, so I cannot map you to a Teleport user'')
      else
        let email = toLowerCase (nullish (cu_email user) '''');
            domain = email_domain email
        in
        if ir_allowedDomains r = [] \<or> domain = [] \<or> domain \<notin> set (ir_allowedDomains r) then
          throwE (IdentityError (''email domain '' @ str_or domain ''(none)'' @ '' is not allowed to use this assistant''))
        else if truthy (mapped_user r email) then retE (base (nullish (mapped_user r email) '''') (Some email))
        else
          case IDENTITY_STRATEGY (ir_cfg r) of
            EmailAsUsername \<Rightarrow> retE (base email (Some email))
          | EmailLocalPart \<Rightarrow> retE (base (hd (split_on (CHR ''@'') email)) (Some email))
          | GithubLogin \<Rightarrow>
              throwE (IdentityError (''no GitHub login mapped for '' @ email @ ''; ask an administrator to add you to the identity map''))
          | TraitLookup \<Rightarrow>
              (case userByEmail of
                 None \<Rightarrow> throwE (IdentityError ''identity lookup is not configured'')
               | Some lookup \<Rightarrow>
                   bindE (lookup email) (\<lambda>u.
                     if truthy u then retE (base (nullish u '''') (Some email))
                     else throwE (IdentityError (''no Teleport user carries the email trait '' @ email)))))"

section \<open>The identity interface\<close>

text \<open>
  What the clients of the resolver rely on: a principal stands for the chat account it was resolved
  from, and for no other.
\<close>

locale identity_service =
  fixes res :: "ChatUser \<Rightarrow> ('s, js_error, Principal) eff"
  assumes binds: "res u s = (Inr p, s') \<Longrightarrow>
    pr_platform p = cu_platform u \<and> pr_platformUserId p = cu_platformUserId u"
begin

lemma same_principal_same_account:
  "res u s = (Inr p, s') \<Longrightarrow> res v t = (Inr p, t') \<Longrightarrow>
     cu_platform u = cu_platform v \<and> cu_platformUserId u = cu_platformUserId v"
  using binds by metis

text \<open>An assertion minted for a resolved user names the account it was resolved from.\<close>

lemma minted_names_account:
  assumes "res u s = (Inr p, s')" and "buildPayload p aud nowMs jti = Inr pl"
  shows "py_platform pl = cu_platform u \<and> py_platform_user_id pl = cu_platformUserId u"
  using binds [OF assms(1)] assms(2) by (auto simp: buildPayload_def Let_def split: if_splits)

end

lemma resolve_cases:
  assumes "resolve lookup r u s = (Inr p, s')"
  shows "pr_platform p = cu_platform u \<and> pr_platformUserId p = cu_platformUserId u \<and>
    (if cu_platform u = Cli then pr_teleportUser p = cu_platformUserId u \<and> pr_email p = cu_email u
     else \<exists>e. cu_email u = Some e \<and> e \<noteq> [] \<and> cu_emailVerified u \<and> pr_email p = Some (toLowerCase e) \<and>
       email_domain (toLowerCase e) \<noteq> [] \<and> email_domain (toLowerCase e) \<in> set (ir_allowedDomains r) \<and>
       (mapped_user r (toLowerCase e) = Some (pr_teleportUser p) \<and> pr_teleportUser p \<noteq> []
        \<or> IDENTITY_STRATEGY (ir_cfg r) = EmailAsUsername \<and> pr_teleportUser p = toLowerCase e
        \<or> IDENTITY_STRATEGY (ir_cfg r) = EmailLocalPart \<and> pr_teleportUser p = hd (split_on (CHR ''@'') (toLowerCase e))
        \<or> IDENTITY_STRATEGY (ir_cfg r) = TraitLookup \<and> pr_teleportUser p \<noteq> [] \<and>
            (\<exists>f. lookup = Some f \<and> f (toLowerCase e) s = (Inr (Some (pr_teleportUser p)), s'))))"
  using assms
  by (auto simp: resolve_def Let_def eff_defs elim!: truthyE
      split: if_splits IdentityStrategy.splits option.splits prod.splits sum.splits)

interpretation ident: identity_service "resolve lookup r" for lookup :: "(string \<Rightarrow> ('s, js_error, string option) eff) option" and r
  by unfold_locales (drule resolve_cases, simp)

lemma appends_resolve [appends_intros]:
  "(\<And>f e. lookup = Some f \<Longrightarrow> appends P (f e)) \<Longrightarrow> appends P (resolve lookup r u)"
  unfolding resolve_def Let_def
  by (auto intro!: appends_intros split: IdentityStrategy.splits option.splits)

lemma frames_resolve [keeps_intros]:
  "(\<And>f e. lookup = Some f \<Longrightarrow> frames g (f e)) \<Longrightarrow> frames g (resolve lookup r u)"
  unfolding resolve_def Let_def
  by (auto intro!: keeps_intros split: IdentityStrategy.splits option.splits)

section \<open>The approver hint\<close>

record ApproverCache =
  ac_at :: int
  ac_ok :: bool

record ApproverCheck =
  ap_emails :: "string list"
  ap_roles :: "string list"

definition new_ApproverCheck :: "Config \<Rightarrow> ApproverCheck" where
  "new_ApproverCheck cfg = \<lparr>ap_emails = map toLowerCase (csv (APPROVER_EMAILS cfg)),
                            ap_roles = csv (APPROVER_TELEPORT_ROLES cfg)\<rparr>"

definition APPROVER_CACHE_MS :: int where "APPROVER_CACHE_MS = 60000"

definition listed_approver :: "ApproverCheck \<Rightarrow> Principal \<Rightarrow> bool" where
  "listed_approver ac p \<longleftrightarrow> truthy (pr_email p) \<and> toLowerCase (nullish (pr_email p) '''') \<in> set (ap_emails ac)"

definition fresh_entry :: "int \<Rightarrow> ApproverCache option \<Rightarrow> ApproverCache option" where
  "fresh_entry t c = (case c of Some e \<Rightarrow> if t - ac_at e < APPROVER_CACHE_MS then Some e else None | None \<Rightarrow> None)"

text \<open>
  \<open>isApprover\<close> over a state that holds the cache; \<open>now\<close> reads the clock and \<open>userRoles\<close> asks the
  broker, whose failure counts as no roles. A broker answer whose \<open>roles\<close> is not a list
  (\<^const>\<open>None\<close>) makes \<open>roles.some\<close> throw.
\<close>

definition isApprover ::
  "(string \<Rightarrow> (('c, (string, ApproverCache) jsmap) world, js_error, string list option) eff) option \<Rightarrow>
   ('c list \<Rightarrow> int) \<Rightarrow> ApproverCheck \<Rightarrow> Principal \<Rightarrow>
   (('c, (string, ApproverCache) jsmap) world, js_error, bool) eff" where
  "isApprover userRoles now ac p =
     (if listed_approver ac p then retE True
      else
        bindE (getE (\<lambda>w. map_of (loc w) (pr_teleportUser p))) (\<lambda>c.
        bindE (read_clock now) (\<lambda>t.
        case fresh_entry t c of
          Some e \<Rightarrow> retE (ac_ok e)
        | None \<Rightarrow>
          bindE (case userRoles of
                   None \<Rightarrow> retE False
                 | Some ask \<Rightarrow>
                     bindE (catchE (ask (pr_teleportUser p)) (\<lambda>_. retE (Some [])))
                       (\<lambda>rs. case rs of
                          None \<Rightarrow> throwE (PlainError ''TypeError'')
                        | Some roles \<Rightarrow> retE (list_ex (\<lambda>r. r \<in> set (ap_roles ac)) roles)))
            (\<lambda>ok.
          bindE (read_clock now) (\<lambda>t'.
          thenE (upd_loc (AList.update (pr_teleportUser p) \<lparr>ac_at = t', ac_ok = ok\<rparr>))
            (retE ok))))))"

lemma appends_isApprover [appends_intros]:
  "(\<And>f u. ask = Some f \<Longrightarrow> appends P (f u)) \<Longrightarrow> appends P (isApprover ask now ac p)"
  unfolding isApprover_def
  by (auto intro!: appends_intros split: option.splits)

section \<open>Properties\<close>

text \<open>C4. No guessed identities: with a configuration that loads and enables a chat adapter, a chat user is
  resolved only with a verified email whose domain is on the allow-list, and the Teleport username is the
  identity map's entry for that email or the broker's answer for it; never a text derived from the email.\<close>

theorem resolve_never_guesses:
  assumes "loadConfig is_url readFile env = Inr cfg" and "chat_adapters cfg \<noteq> []"
    and "new_IdentityResolver exists read cfg = Inr r" and "cu_platform u \<noteq> Cli"
    and "resolve lookup r u s = (Inr p, s')"
  shows "\<exists>e. cu_email u = Some e \<and> cu_emailVerified u \<and> pr_email p = Some (toLowerCase e) \<and>
    pr_platform p = cu_platform u \<and> pr_platformUserId p = cu_platformUserId u \<and>
    email_domain (toLowerCase e) \<in> set (map toLowerCase (csv (ALLOWED_EMAIL_DOMAINS cfg))) \<and>
    (mapped_user r (toLowerCase e) = Some (pr_teleportUser p) \<or>
     IDENTITY_STRATEGY cfg = TraitLookup \<and>
       (\<exists>f. lookup = Some f \<and> f (toLowerCase e) s = (Inr (Some (pr_teleportUser p)), s')))"
proof -
  from assms(3) have r: "ir_cfg r = cfg" "ir_allowedDomains r = map toLowerCase (csv (ALLOWED_EMAIL_DOMAINS cfg))"
    by (auto simp: new_IdentityResolver_def Let_def split: option.splits if_splits)
  from loadConfig_chat [OF assms(1,2)] resolve_cases [OF assms(5)] assms(4) r show ?thesis by auto
qed

definition ex_user :: ChatUser where
  "ex_user = \<lparr>cu_platform = Slack, cu_platformUserId = ''U1'', cu_displayName = ''A'',
     cu_email = Some ''Al@Example.com'', cu_emailVerified = True, cu_tenantId = None\<rparr>"

lemma ex_user_email: "toLowerCase ''Al@Example.com'' = ''al@example.com''" "email_domain ''al@example.com'' = ''example.com''"
  by code_simp+

lemma ex_resolve:
  assumes "new_IdentityResolver (\<lambda>_. False) (\<lambda>_. []) ex_config = Inr r"
  shows "resolve (Some (\<lambda>_. retE (Some ''alice''))) r ex_user s =
    (Inr \<lparr>pr_teleportUser = ''alice'', pr_email = Some ''al@example.com'', pr_platform = Slack,
          pr_platformUserId = ''U1''\<rparr>, s)"
proof -
  have l: "toLowerCase ''example.com'' = ''example.com''" by code_simp
  from assms have r: "ir_cfg r = ex_config" "ir_allowedDomains r = [''example.com'']" "ir_map r = JObj []"
    by (auto simp: new_IdentityResolver_def Let_def ex_config_fields ex_csv l split: option.splits)
  show ?thesis
    by (simp add: resolve_def Let_def ex_user_def ex_user_email r mapped_user_def ex_config_fields eff_defs)
qed

theorem resolve_never_guesses_witness:
  "\<exists>r p. new_IdentityResolver (\<lambda>_. False) (\<lambda>_. []) ex_config = Inr r \<and>
     resolve (Some (\<lambda>_. retE (Some ''alice''))) r ex_user () = (Inr p, ()) \<and> pr_email p = Some ''al@example.com''"
proof -
  obtain r where r: "new_IdentityResolver (\<lambda>_. False) (\<lambda>_. []) ex_config = Inr r"
    by (cases "IDENTITY_MAP_FILE ex_config") (auto simp: new_IdentityResolver_def Let_def)
  have a: "chat_adapters ex_config \<noteq> []" by (simp add: chat_adapters_def ex_config_fields ex_csv)
  have u: "cu_platform ex_user \<noteq> Cli" by (simp add: ex_user_def)
  from resolve_never_guesses [OF ex_loadConfig [of Inr] a r u ex_resolve [OF r]] r ex_resolve [OF r, of "()"] show ?thesis
    by (auto simp: ex_user_def ex_user_email)
qed

text \<open>The approver hint says yes exactly for a listed email, for a fresh positive cache entry, or, with
  no fresh entry, when the broker reports an approver role now; a failing broker call is a no, and the only
  failure is a broker answer without a list of roles.\<close>

theorem isApprover_sound:
  "(fst (isApprover ask now ac p w) = Inr True \<longleftrightarrow>
      listed_approver ac p \<or>
      (case fresh_entry (now (calls w)) (map_of (loc w) (pr_teleportUser p)) of
         Some e \<Rightarrow> ac_ok e
       | None \<Rightarrow> (\<exists>f roles. ask = Some f \<and> fst (f (pr_teleportUser p) w) = Inr (Some roles) \<and>
                   set roles \<inter> set (ap_roles ac) \<noteq> {}))) \<and>
   ((\<exists>e. fst (isApprover ask now ac p w) = Inl e) \<longleftrightarrow>
      \<not> listed_approver ac p \<and> fresh_entry (now (calls w)) (map_of (loc w) (pr_teleportUser p)) = None \<and>
      (\<exists>f. ask = Some f \<and> fst (f (pr_teleportUser p) w) = Inr None))"
  by (auto simp: isApprover_def eff_defs read_clock_def upd_loc_def list_ex_iff
      split: option.splits prod.splits sum.splits)

text \<open>The domain that is checked is the piece after the first \<open>@\<close>: an address with two of them is checked
  by the middle piece.\<close>

theorem email_domain_second_piece:
  assumes "CHR ''@'' \<notin> set a" and "CHR ''@'' \<notin> set d"
  shows "email_domain (a @ ''@'' @ d @ ''@'' @ evil) = d"
  using split_on_append [OF assms(1), of "d @ ''@'' @ evil"] split_on_append [OF assms(2), of evil]
  by (simp add: email_domain_def)

end
