(* ===== verification/BrokerClient.thy ===== *)
theory BrokerClient
  imports Identity
begin

text \<open>
  The access broker's HTTP API as the agent calls it (\<open>services/access-agent/src/broker/client.ts\<close>).
  \<open>fetch\<close> is an outside call: \<open>tag\<close> says how a request is recorded in the history, the oracle
  \<open>fetch\<close> gives the response (status and body text) or the rejection. The clock and the random \<open>jti\<close>
  of a minted assertion are read from the history too. Response bodies are JSON values, which the
  source casts to its interfaces.
\<close>

section \<open>Requests and responses\<close>

record FetchRequest =
  fq_method :: string
  fq_url :: string
  fq_headers :: "(string \<times> string) list"
  fq_body :: "string option"

record FetchResponse =
  fr_status :: int
  fr_statusText :: string
  fr_text :: string

definition res_ok :: "FetchResponse \<Rightarrow> bool" where
  "res_ok r \<longleftrightarrow> 200 \<le> fr_status r \<and> fr_status r \<le> 299"

definition uri_unreserved :: "char \<Rightarrow> bool" where
  "uri_unreserved c \<longleftrightarrow> is_alnum c \<or> c \<in> set ''-_.!~*()'' \<or> code_of c = 39"

definition upper_hex :: "nat \<Rightarrow> char" where
  "upper_hex n = (if n < 10 then char_of (48 + n) else char_of (55 + n))"

definition percent :: "char \<Rightarrow> string" where
  "percent b = [CHR ''%'', upper_hex (code_of b div 16), upper_hex (code_of b mod 16)]"

definition encodeURIComponent :: "string \<Rightarrow> string" where
  "encodeURIComponent s =
     concat (map (\<lambda>c. if uri_unreserved c then [c] else concat (map percent (utf8_char c))) s)"

text \<open>\<open>v ?? d\<close> for a JSON property: absent and \<open>null\<close> give the default.\<close>

definition jnullish :: "json option \<Rightarrow> json \<Rightarrow> json" where
  "jnullish v d = (case v of None \<Rightarrow> d | Some JNull \<Rightarrow> d | Some j \<Rightarrow> j)"

section \<open>The client\<close>

record BrokerClient =
  bk_baseUrl :: string
  bk_token :: string
  bk_signingKey :: string

definition new_BrokerClient :: "string \<Rightarrow> string \<Rightarrow> string \<Rightarrow> js_error + BrokerClient" where
  "new_BrokerClient baseUrl token signingKey =
     (case assertSigningKey signingKey of
        Inl e \<Rightarrow> Inl e
      | Inr _ \<Rightarrow> Inr \<lparr>bk_baseUrl = baseUrl, bk_token = token, bk_signingKey = signingKey\<rparr>)"

text \<open>What the response means: the parsed body, or the error the call throws.\<close>

definition read_response :: "FetchResponse \<Rightarrow> js_error + json" where
  "read_response res =
     (let parsed = (if fr_text res = [] then Some (JObj []) else json_parse (fr_text res)) in
      if parsed = None \<and> res_ok res then
        Inl (BrokerError (fr_status res) ''bad_response'' ''broker returned a non-JSON body'')
      else
        let json = nullish parsed (JObj []) in
        if \<not> res_ok res then
          (if json = JNull then Inl (PlainError ''TypeError'')
           else Inl (BrokerError (fr_status res)
             (js_to_string (jnullish (jfield ''code'' json) (JStr ''error'')))
             (js_to_string (jnullish (jfield ''error'' json) (JStr (fr_statusText res))))))
        else Inr json)"

definition broker_request ::
  "BrokerClient \<Rightarrow> string \<Rightarrow> string \<Rightarrow> json option \<Rightarrow> (string \<times> string) list \<Rightarrow> FetchRequest" where
  "broker_request b method path body extraHeaders =
     \<lparr>fq_method = method, fq_url = bk_baseUrl b @ path,
      fq_headers = foldl (\<lambda>m kv. AList.update (fst kv) (snd kv) m)
        [(''Authorization'', ''Bearer '' @ bk_token b), (''Content-Type'', ''application/json'')] extraHeaders,
      fq_body = map_option stringify body\<rparr>"

definition broker_call ::
  "(FetchRequest \<Rightarrow> 'c) \<Rightarrow> (FetchRequest \<Rightarrow> 'c list \<Rightarrow> js_error + FetchResponse) \<Rightarrow> BrokerClient \<Rightarrow>
   string \<Rightarrow> string \<Rightarrow> json option \<Rightarrow> (string \<times> string) list \<Rightarrow> (('c, 's) world, js_error, json) eff" where
  "broker_call tag fetch b method path body extraHeaders =
     (let rq = broker_request b method path body extraHeaders in
      bindE (perform (tag rq) (fetch rq)) (\<lambda>res. liftE (read_response res)))"

datatype Decision = DApprove | DDeny

fun decision_path :: "Decision \<Rightarrow> string" where
  "decision_path DApprove = ''approve''"
| "decision_path DDeny = ''deny''"

text \<open>The outside the client runs in: recording, responses, clock and random ids.\<close>

record 'c broker_env =
  be_inj :: "FetchRequest \<Rightarrow> 'c"
  be_fetch :: "FetchRequest \<Rightarrow> 'c list \<Rightarrow> js_error + FetchResponse"
  be_now :: "'c list \<Rightarrow> int"
  be_uuid :: "'c list \<Rightarrow> string"
  be_hmac :: hmac

definition decide ::
  "'c broker_env \<Rightarrow> BrokerClient \<Rightarrow> Decision \<Rightarrow> string \<Rightarrow> Principal \<Rightarrow> string \<Rightarrow> (('c, 's) world, js_error, json) eff" where
  "decide e b action i approver reason =
     bindE (read_clock (be_now e)) (\<lambda>nowMs.
     bindE (read_clock (be_uuid e)) (\<lambda>jti.
     bindE (liftE (mintAssertion (be_hmac e) (bk_signingKey b) approver AudBroker nowMs jti)) (\<lambda>assertion.
       broker_call (be_inj e) (be_fetch e) b ''POST''
         (''/v1/requests/'' @ encodeURIComponent i @ ''/'' @ decision_path action)
         (Some (JObj [(''reason'', JStr reason)])) [(ASSERTION_HEADER, assertion)])))"

definition approve ::
  "'c broker_env \<Rightarrow> BrokerClient \<Rightarrow> string \<Rightarrow> Principal \<Rightarrow> string \<Rightarrow> (('c, 's) world, js_error, json) eff" where
  "approve e b i approver reason = decide e b DApprove i approver reason"

definition deny ::
  "'c broker_env \<Rightarrow> BrokerClient \<Rightarrow> string \<Rightarrow> Principal \<Rightarrow> string \<Rightarrow> (('c, 's) world, js_error, json) eff" where
  "deny e b i approver reason = decide e b DDeny i approver reason"

definition broker_get :: "'c broker_env \<Rightarrow> BrokerClient \<Rightarrow> string \<Rightarrow> (('c, 's) world, js_error, json) eff" where
  "broker_get e b path = broker_call (be_inj e) (be_fetch e) b ''GET'' path None []"

definition health :: "'c broker_env \<Rightarrow> BrokerClient \<Rightarrow> (('c, 's) world, js_error, json) eff" where
  "health e b = broker_get e b ''/healthz''"

definition listRequests :: "'c broker_env \<Rightarrow> BrokerClient \<Rightarrow> string \<Rightarrow> (('c, 's) world, js_error, json) eff" where
  "listRequests e b st = broker_get e b (''/v1/requests?state='' @ encodeURIComponent st)"

definition getRequest :: "'c broker_env \<Rightarrow> BrokerClient \<Rightarrow> string \<Rightarrow> (('c, 's) world, js_error, json) eff" where
  "getRequest e b i = broker_get e b (''/v1/requests/'' @ encodeURIComponent i)"

definition userByEmail ::
  "'c broker_env \<Rightarrow> BrokerClient \<Rightarrow> string \<Rightarrow> (('c, 's) world, js_error, string option) eff" where
  "userByEmail e b email =
     bindE (broker_get e b (''/v1/users/by-email?email='' @ encodeURIComponent email)) (\<lambda>r.
       if r = JNull then throwE (PlainError ''TypeError'') else retE (jstring (jfield ''user'' r)))"

fun jstring_list :: "json option \<Rightarrow> string list option" where
  "jstring_list (Some (JArr xs)) = Some (map (\<lambda>x. nullish (jstring (Some x)) '''') xs)"
| "jstring_list _ = None"

definition userRoles ::
  "'c broker_env \<Rightarrow> BrokerClient \<Rightarrow> string \<Rightarrow> (('c, 's) world, js_error, string list option) eff" where
  "userRoles e b user =
     bindE (broker_get e b (''/v1/users/'' @ encodeURIComponent user @ ''/roles'')) (\<lambda>r.
       if r = JNull then throwE (PlainError ''TypeError'') else retE (jstring_list (jfield ''roles'' r)))"

section \<open>Lemmas\<close>

lemma code_of_upper_hex: "n < 16 \<Longrightarrow> code_of (upper_hex n) = (if n < 10 then 48 + n else 55 + n)"
  by (auto simp: upper_hex_def)

lemma unreserved_upper_hex: "n < 16 \<Longrightarrow> uri_unreserved (upper_hex n)"
  by (auto simp: uri_unreserved_def is_alnum_def is_alpha_def is_digit_def is_lower_az_def is_upper_az_def code_of_upper_hex)

text \<open>An encoded component holds unreserved characters and percent signs only: it cannot leave its path segment
  or query value.\<close>

lemma encodeURIComponent_safe:
  "c \<in> set (encodeURIComponent s) \<Longrightarrow> c = CHR ''%'' \<or> uri_unreserved c"
proof -
  have q: "code_of b div 16 < 16" "code_of b mod 16 < 16" for b
    using code_of_less [of b] by (simp_all add: less_mult_imp_div_less)
  show "c \<in> set (encodeURIComponent s) \<Longrightarrow> c = CHR ''%'' \<or> uri_unreserved c"
    by (auto simp: encodeURIComponent_def percent_def unreserved_upper_hex q split: if_splits)
qed

lemma encodeURIComponent_id: "list_all uri_unreserved s \<Longrightarrow> encodeURIComponent s = s"
  by (induction s) (auto simp: encodeURIComponent_def)

lemma fold_update_header [simp]:
  "map_of (foldl (\<lambda>m kv. AList.update (fst kv) (snd kv) m) m [(k, v)]) k = Some v"
  by (simp add: update_conv')

text \<open>A decision posts once, or (when nothing can be minted) not at all.\<close>

lemma decide_calls:
  "calls (snd (decide e b action i p reason w)) =
     (case mintAssertion (be_hmac e) (bk_signingKey b) p AudBroker (be_now e (calls w)) (be_uuid e (calls w)) of
        Inl _ \<Rightarrow> calls w
      | Inr h \<Rightarrow> calls w @ [be_inj e (broker_request b ''POST''
          (''/v1/requests/'' @ encodeURIComponent i @ ''/'' @ decision_path action)
          (Some (JObj [(''reason'', JStr reason)])) [(ASSERTION_HEADER, h)])])"
  by (auto simp: decide_def broker_call_def eff_defs perform_def read_clock_def Let_def split: sum.splits)

text \<open>What the client appends to the history, and that it has no local state.\<close>

lemma appends_broker_get [appends_intros]:
  "(\<And>rq. fq_method rq = ''GET'' \<Longrightarrow> P (be_inj e rq)) \<Longrightarrow> appends P (broker_get e b pa)"
  unfolding broker_get_def broker_call_def Let_def by (intro appends_intros) (simp add: broker_request_def)

lemma appends_userByEmail [appends_intros]:
  "(\<And>rq. fq_method rq = ''GET'' \<Longrightarrow> P (be_inj e rq)) \<Longrightarrow> appends P (userByEmail e b em)"
  unfolding userByEmail_def by (auto intro!: appends_intros)

lemma appends_userRoles [appends_intros]:
  "(\<And>rq. fq_method rq = ''GET'' \<Longrightarrow> P (be_inj e rq)) \<Longrightarrow> appends P (userRoles e b u)"
  unfolding userRoles_def by (auto intro!: appends_intros)

lemma appends_decide:
  "(\<And>h now jti rq. mintAssertion (be_hmac e) (bk_signingKey b) p AudBroker now jti = Inr h \<Longrightarrow>
      map_of (fq_headers rq) ASSERTION_HEADER = Some h \<Longrightarrow> P (be_inj e rq)) \<Longrightarrow>
   appends P (decide e b action i p reason)"
  by (auto simp: appends_def decide_calls broker_request_def update_conv' split: sum.split)

lemma frames_broker_get [keeps_intros]: "frames f (broker_get e b pa)"
  unfolding broker_get_def broker_call_def Let_def by (intro keeps_intros)

lemma frames_userByEmail [keeps_intros]: "frames f (userByEmail e b em)"
  unfolding userByEmail_def by (auto intro!: keeps_intros)

lemma frames_userRoles [keeps_intros]: "frames f (userRoles e b u)"
  unfolding userRoles_def by (auto intro!: keeps_intros)

lemma frames_decide [keeps_intros]: "frames f (decide e b action i p reason)"
  unfolding decide_def broker_call_def Let_def by (intro keeps_intros)

lemma read_response_ok: "read_response r = Inr j \<Longrightarrow> res_ok r"
  by (auto simp: read_response_def Let_def split: if_splits option.splits)

section \<open>Properties\<close>

text \<open>C8. An approval or denial names the approver only in a signed assertion for the broker: the single
  request it sends has the reason alone as its body and an \<open>X-Teleport-Assertion\<close> header, fresh for this call,
  minted for the approver with audience "broker"; nothing is sent for a principal that cannot be signed for,
  and no path segment other than the encoded request id comes from the caller.\<close>

theorem decide_signed:
  assumes "w' = snd (decide e b action i p reason w)" and "calls w' \<noteq> calls w"
  shows "\<exists>h rq. calls w' = calls w @ [be_inj e rq] \<and>
    mintAssertion (be_hmac e) (bk_signingKey b) p AudBroker (be_now e (calls w)) (be_uuid e (calls w)) = Inr h \<and>
    validSubject (pr_teleportUser p) \<and>
    fq_method rq = ''POST'' \<and> map_of (fq_headers rq) ASSERTION_HEADER = Some h \<and>
    fq_body rq = Some (stringify (JObj [(''reason'', JStr reason)])) \<and>
    (\<exists>seg. fq_url rq = bk_baseUrl b @ ''/v1/requests/'' @ seg @ ''/'' @ decision_path action \<and> CHR ''/'' \<notin> set seg)"
proof -
  have s: "CHR ''/'' \<notin> set (encodeURIComponent i)"
    using encodeURIComponent_safe [of "CHR ''/''" i]
    by (auto simp: uri_unreserved_def is_alnum_def is_alpha_def is_digit_def is_lower_az_def is_upper_az_def code_of_def)
  show ?thesis
  proof (cases "mintAssertion (be_hmac e) (bk_signingKey b) p AudBroker (be_now e (calls w)) (be_uuid e (calls w))")
    case (Inl x)
    with assms decide_calls [of e b action i p reason w] show ?thesis by simp
  next
    case (Inr h)
    then have v: "validSubject (pr_teleportUser p)"
      by (auto simp: mintAssertion_def buildPayload_def split: sum.splits if_splits)
    have f: "fq_url (broker_request b m pa bo hs) = bk_baseUrl b @ pa" "fq_method (broker_request b m pa bo hs) = m"
      "fq_body (broker_request b m pa bo hs) = map_option stringify bo"
      "map_of (fq_headers (broker_request b m pa bo [(k, h)])) k = Some h" for m pa bo hs k
      by (simp_all add: broker_request_def update_conv')
    from Inr assms decide_calls [of e b action i p reason w] v s show ?thesis
      by (intro exI [of _ h] exI) (auto simp: f)
  qed
qed

definition ex_env_b :: "FetchRequest broker_env" where
  "ex_env_b = \<lparr>be_inj = id, be_fetch = (\<lambda>_ _. Inr \<lparr>fr_status = 200, fr_statusText = ''OK'', fr_text = ''{}''\<rparr>),
     be_now = (\<lambda>_. 5000), be_uuid = (\<lambda>_. ex_jti), be_hmac = ex_hmac\<rparr>"

definition ex_broker :: BrokerClient where
  "ex_broker = \<lparr>bk_baseUrl = ''http://b'', bk_token = ''t'', bk_signingKey = ex_key\<rparr>"

theorem decide_signed_witness:
  "\<exists>w' rq. w' = snd (decide ex_env_b ex_broker DApprove ''r/1'' ex_principal ''ok'' \<lparr>calls = [], loc = ()\<rparr>) \<and>
     calls w' = [rq] \<and> fq_method rq = ''POST'' \<and> fq_body rq = Some (stringify (JObj [(''reason'', JStr ''ok'')]))"
proof -
  let ?w = "\<lparr>calls = [], loc = ()\<rparr> :: (FetchRequest, unit) world"
  let ?d = "snd (decide ex_env_b ex_broker DApprove ''r/1'' ex_principal ''ok'' ?w)"
  obtain h where "mintAssertion ex_hmac ex_key ex_principal AudBroker 5000 ex_jti = Inr h"
    by (auto simp: mintAssertion_def assertSigningKey_def buildPayload_def ex_key_def ex_principal_def Let_def
        validSubject_chars byteLength_def utf8_def utf8_char_def is_ws_def is_cntrl_def code_of_def MIN_SIGNING_KEY_BYTES_def)
  then have "calls ?d \<noteq> calls ?w"
    using decide_calls [of ex_env_b ex_broker DApprove "''r/1''" ex_principal "''ok''" ?w]
    by (simp add: ex_env_b_def ex_broker_def)
  from decide_signed [OF refl this] show ?thesis by (auto simp: ex_env_b_def)
qed

end
