(* ===== verification/Webhook.thy ===== *)
theory Webhook
  imports BrokerClient
begin

text \<open>
  Authentication of broker webhook calls (\<open>services/access-agent/src/broker/webhook.ts\<close>): the MAC over
  timestamp and body, the time window, and the event-id dedupe, whose state is the \<open>seen\<close> map. The
  interval that prunes \<open>seen\<close> is \<open>prune_seen\<close>; \<open>wh_run\<close> interleaves it with verifications over a clock
  that never goes back. A timestamp is an exact decimal \<open>m / 10^k\<close> where the source has a double.
\<close>

type_synonym Seen = "(string, int) jsmap"

definition WINDOW_MS :: int where "WINDOW_MS = 5 * 60 * 1000"

record WebhookVerifier =
  wv_secret :: string
  wv_windowMs :: int
  wv_seen :: Seen

definition new_WebhookVerifier :: "string \<Rightarrow> WebhookVerifier" where
  "new_WebhookVerifier secret = \<lparr>wv_secret = secret, wv_windowMs = WINDOW_MS, wv_seen = []\<rparr>"

definition prune_seen :: "int \<Rightarrow> WebhookVerifier \<Rightarrow> WebhookVerifier" where
  "prune_seen now v =
     (let cutoff = now - wv_windowMs v * 2 in
      v\<lparr>wv_seen := filter (\<lambda>kt. \<not> snd kt < cutoff) (wv_seen v)\<rparr>)"

definition hex_of_bytes :: "string \<Rightarrow> string" where
  "hex_of_bytes bs = concat (map (\<lambda>b. [hex_digit (code_of b div 16), hex_digit (code_of b mod 16)]) bs)"

definition webhook_sign :: "hmac \<Rightarrow> string \<Rightarrow> string \<Rightarrow> string \<Rightarrow> string" where
  "webhook_sign hmac secret timestamp body =
     ''sha256='' @ hex_of_bytes (hmac (utf8 secret) (utf8 (timestamp @ ''.'' @ body)))"

definition header_get :: "Headers \<Rightarrow> string \<Rightarrow> string option" where
  "header_get headers k =
     header_first (case headers k of Some v \<Rightarrow> Some v | None \<Rightarrow> headers (toLowerCase k))"

text \<open>\<open>Math.abs(now - t) > window\<close> for \<open>t = m / 10^k\<close> scaled to milliseconds; \<^const>\<open>None\<close> is \<open>NaN\<close>.\<close>

definition in_window :: "int \<Rightarrow> int \<Rightarrow> string \<Rightarrow> bool" where
  "in_window now windowMs ts =
     (case js_number ts of
        None \<Rightarrow> False
      | Some (m, k) \<Rightarrow>
          let scale = (if length ts \<le> 10 then 1000 else 1) in
          \<bar>now * 10 ^ k - m * scale\<bar> \<le> windowMs * 10 ^ k)"

definition verify :: "hmac \<Rightarrow> int \<Rightarrow> Headers \<Rightarrow> string \<Rightarrow> WebhookVerifier \<Rightarrow> string option \<times> WebhookVerifier" where
  "verify hmac now headers rawBody v =
     (if wv_secret v = [] then (Some ''webhook secret not configured'', v)
      else
        case (header_get headers ''X-Broker-Event-Id'', header_get headers ''X-Broker-Timestamp'',
              header_get headers ''X-Broker-Signature'') of
          (Some i, Some ts, Some sig) \<Rightarrow>
            if i = [] \<or> ts = [] \<or> sig = [] then (Some ''missing webhook headers'', v)
            else if \<not> in_window now (wv_windowMs v) ts then (Some ''timestamp outside window'', v)
            else
              let expected = webhook_sign hmac (wv_secret v) ts rawBody;
                  a = utf8 expected; b = utf8 sig
              in
              if length a \<noteq> length b \<or> a \<noteq> b then (Some ''bad signature'', v)
              else if jm_has (wv_seen v) i then (Some ''duplicate event'', v)
              else (None, v\<lparr>wv_seen := AList.update i now (wv_seen v)\<rparr>)
        | _ \<Rightarrow> (Some ''missing webhook headers'', v))"

section \<open>Lemmas\<close>

lemma verify_ok_iff:
  "fst (verify hmac now h body v) = None \<longleftrightarrow>
     wv_secret v \<noteq> [] \<and>
     (\<exists>i ts. i \<noteq> [] \<and> ts \<noteq> [] \<and>
       header_get h ''X-Broker-Event-Id'' = Some i \<and> header_get h ''X-Broker-Timestamp'' = Some ts \<and>
       header_get h ''X-Broker-Signature'' = Some (webhook_sign hmac (wv_secret v) ts body) \<and>
       in_window now (wv_windowMs v) ts \<and> \<not> jm_has (wv_seen v) i)"
  by (auto simp: verify_def Let_def utf8_inj webhook_sign_def split: option.splits)

lemma verify_ok_seen:
  "fst (verify hmac now h body v) = None \<Longrightarrow> header_get h ''X-Broker-Event-Id'' = Some i \<Longrightarrow>
     snd (verify hmac now h body v) = v\<lparr>wv_seen := AList.update i now (wv_seen v)\<rparr>"
  by (auto simp: verify_def Let_def split: option.splits if_splits)

lemma verify_err_same: "fst (verify hmac now h body v) \<noteq> None \<Longrightarrow> snd (verify hmac now h body v) = v"
  by (auto simp: verify_def Let_def split: option.splits)

lemma verify_same [simp]:
  "wv_secret (snd (verify hmac now h body v)) = wv_secret v"
  "wv_windowMs (snd (verify hmac now h body v)) = wv_windowMs v"
  by (auto simp: verify_def Let_def split: option.splits)

lemma prune_same [simp]: "wv_secret (prune_seen now v) = wv_secret v" "wv_windowMs (prune_seen now v) = wv_windowMs v"
  by (simp_all add: prune_seen_def)

lemma map_of_filter_val:
  "distinct (map fst xs) \<Longrightarrow> map_of (filter (\<lambda>kt. P (snd kt)) xs) k =
     (case map_of xs k of Some t \<Rightarrow> if P t then Some t else None | None \<Rightarrow> None)"
  by (induction xs) (auto split: option.splits simp: map_of_eq_None_iff dest: map_of_SomeD)

text \<open>Two instants at which the same timestamp is in the window are at most two windows apart.\<close>

lemma in_window_close:
  assumes "in_window t1 w ts" and "in_window t2 w ts"
  shows "t2 - t1 \<le> 2 * w"
proof -
  from assms obtain m k where n: "js_number ts = Some (m, k)" by (auto simp: in_window_def split: option.splits)
  define p :: int where "p = 10 ^ k"
  define q where "q = m * (if length ts \<le> 10 then 1000 else 1)"
  have p: "0 < p" by (simp add: p_def)
  from assms n have a: "\<bar>t1 * p - q\<bar> \<le> w * p" and b: "\<bar>t2 * p - q\<bar> \<le> w * p"
    by (auto simp: in_window_def Let_def p_def q_def split: if_splits)
  then have "(t2 - t1) * p \<le> (2 * w) * p" by (simp add: algebra_simps)
  with p show ?thesis using mult_le_cancel_right_pos [of p] by blast
qed

section \<open>Runs\<close>

text \<open>
  \<open>wh_run hmac v0 v now log\<close>: starting from \<open>v0\<close>, the verifier can be in state \<open>v\<close> at time \<open>now\<close>
  having accepted the (event id, timestamp, acceptance time) of \<open>log\<close>.
\<close>

inductive wh_run :: "hmac \<Rightarrow> WebhookVerifier \<Rightarrow> WebhookVerifier \<Rightarrow> int \<Rightarrow> (string \<times> string \<times> int) list \<Rightarrow> bool"
  for hmac v0 where
  wh_init: "wv_seen v0 = [] \<Longrightarrow> wh_run hmac v0 v0 now []"
| wh_prune: "wh_run hmac v0 v t log \<Longrightarrow> t \<le> now \<Longrightarrow> wh_run hmac v0 (prune_seen now v) now log"
| wh_reject: "wh_run hmac v0 v t log \<Longrightarrow> t \<le> now \<Longrightarrow> verify hmac now h body v = (Some err, v') \<Longrightarrow>
    wh_run hmac v0 v' now log"
| wh_accept: "wh_run hmac v0 v t log \<Longrightarrow> t \<le> now \<Longrightarrow> verify hmac now h body v = (None, v') \<Longrightarrow>
    header_get h ''X-Broker-Event-Id'' = Some i \<Longrightarrow> header_get h ''X-Broker-Timestamp'' = Some ts \<Longrightarrow>
    wh_run hmac v0 v' now (log @ [(i, ts, now)])"

inductive_cases wh_run_initE: "wh_run hmac v0 v now []"

definition wh_entry_ok :: "WebhookVerifier \<Rightarrow> int \<Rightarrow> string \<times> string \<times> int \<Rightarrow> bool" where
  "wh_entry_ok v now e = (case e of (i, ts, t) \<Rightarrow>
     t \<le> now \<and> in_window t (wv_windowMs v) ts \<and>
     ((\<exists>t'. map_of (wv_seen v) i = Some t' \<and> t \<le> t') \<or> t + 2 * wv_windowMs v < now))"

lemma wh_run_inv:
  "wh_run hmac v0 v now log \<Longrightarrow>
     jm_wf (wv_seen v) \<and> (\<forall>i t. map_of (wv_seen v) i = Some t \<longrightarrow> t \<le> now) \<and> list_all (wh_entry_ok v now) log \<and>
     distinct (map (\<lambda>e. (fst e, fst (snd e))) log)"
proof (induction rule: wh_run.induct)
  case (wh_init now)
  then show ?case by (simp add: jm_wf_def)
next
  case (wh_prune v t log now)
  from wh_prune.IH have d: "distinct (map fst (wv_seen v))" by (simp add: jm_wf_def)
  have m: "map_of (wv_seen (prune_seen now v)) i =
      (case map_of (wv_seen v) i of Some t \<Rightarrow> if now - 2 * wv_windowMs v \<le> t then Some t else None | None \<Rightarrow> None)" for i
    using map_of_filter_val [OF d, of "\<lambda>t. \<not> t < now - wv_windowMs v * 2" i]
    by (simp add: prune_seen_def Let_def not_less mult.commute split: option.splits)
  have "jm_wf (wv_seen (prune_seen now v))"
    using d by (simp add: jm_wf_def prune_seen_def distinct_map_filter)
  moreover have "\<forall>i t. map_of (wv_seen (prune_seen now v)) i = Some t \<longrightarrow> t \<le> now"
    using wh_prune.IH wh_prune.hyps(2) by (auto simp: m split: option.splits if_splits intro: order_trans)
  moreover have "wh_entry_ok v t e \<Longrightarrow> wh_entry_ok (prune_seen now v) now e" for e
    using wh_prune.hyps(2) by (auto simp: wh_entry_ok_def m split: option.splits prod.splits)
  ultimately show ?case using wh_prune.IH by (auto simp: list_all_iff)
next
  case (wh_reject v t log now h body err v')
  then have "v' = v" using verify_err_same [of hmac now h body v] by simp
  moreover have "wh_entry_ok v t e \<Longrightarrow> wh_entry_ok v now e" for e
    using wh_reject.hyps(2) by (auto simp: wh_entry_ok_def)
  moreover have "\<forall>i t'. map_of (wv_seen v) i = Some t' \<longrightarrow> t' \<le> now"
    using wh_reject.IH wh_reject.hyps(2) by fastforce
  ultimately show ?case using wh_reject.IH by (auto simp: list_all_iff)
next
  case (wh_accept v t log now h body v' i ts)
  have acc: "fst (verify hmac now h body v) = None" using wh_accept.hyps(3) by simp
  have v': "v' = v\<lparr>wv_seen := AList.update i now (wv_seen v)\<rparr>"
    using verify_ok_seen [OF acc wh_accept.hyps(4)] wh_accept.hyps(3) by simp
  from acc wh_accept.hyps(4,5) have w: "in_window now (wv_windowMs v) ts" and nin: "map_of (wv_seen v) i = None"
    by (auto simp: verify_ok_iff)
  have old: "wh_entry_ok v t e \<Longrightarrow> wh_entry_ok v' now e" for e
    using wh_accept.hyps(2) by (fastforce simp: wh_entry_ok_def v' update_conv' split: prod.splits)
  have new: "wh_entry_ok v' now (i, ts, now)" using w by (simp add: wh_entry_ok_def v' update_conv')
  have fresh: "(i, ts) \<notin> set (map (\<lambda>e. (fst e, fst (snd e))) log)"
  proof
    assume "(i, ts) \<in> set (map (\<lambda>e. (fst e, fst (snd e))) log)"
    then obtain t1 where "(i, ts, t1) \<in> set log" by auto
    with wh_accept.IH have "wh_entry_ok v t (i, ts, t1)" by (auto simp: list_all_iff)
    with nin have "in_window t1 (wv_windowMs v) ts" "t1 + 2 * wv_windowMs v < t" by (auto simp: wh_entry_ok_def)
    with in_window_close [OF this(1) w] wh_accept.hyps(2) show False by simp
  qed
  have le: "\<forall>j t'. map_of (wv_seen v') j = Some t' \<longrightarrow> t' \<le> now"
  proof (intro allI impI)
    fix j t' assume "map_of (wv_seen v') j = Some t'"
    then have "t' = now \<or> map_of (wv_seen v) j = Some t'" by (auto simp: v' update_conv' split: if_splits)
    then show "t' \<le> now" using wh_accept.IH wh_accept.hyps(2) by (metis order.refl order_trans)
  qed
  have wf: "jm_wf (wv_seen v')" using wh_accept.IH by (simp add: v' jm.inv_put)
  from wh_accept.IH old new fresh le wf show ?case by (auto simp: list_all_iff)
qed

section \<open>Properties\<close>

text \<open>A webhook call is accepted exactly when the secret is configured, the three headers are present,
  the timestamp is inside the window, the signature is the MAC of timestamp and body under the secret, and
  its event id has not been seen; and only an accepted call changes the verifier.\<close>

theorem webhook_verify_correct:
  "(fst (verify hmac now h body v) = None \<longleftrightarrow>
     wv_secret v \<noteq> [] \<and>
     (\<exists>i ts. i \<noteq> [] \<and> ts \<noteq> [] \<and>
       header_get h ''X-Broker-Event-Id'' = Some i \<and> header_get h ''X-Broker-Timestamp'' = Some ts \<and>
       header_get h ''X-Broker-Signature'' = Some (webhook_sign hmac (wv_secret v) ts body) \<and>
       in_window now (wv_windowMs v) ts \<and> \<not> jm_has (wv_seen v) i)) \<and>
   snd (verify hmac now h body v) =
     (if fst (verify hmac now h body v) = None
      then v\<lparr>wv_seen := AList.update (nullish (header_get h ''X-Broker-Event-Id'') '''') now (wv_seen v)\<rparr> else v)"
proof -
  have "snd (verify hmac now h body v) =
      v\<lparr>wv_seen := AList.update (nullish (header_get h ''X-Broker-Event-Id'') '''') now (wv_seen v)\<rparr>"
    if "fst (verify hmac now h body v) = None"
    using that verify_ok_seen [OF that] by (auto simp: verify_ok_iff)
  then show ?thesis using verify_ok_iff [of hmac now h body v] verify_err_same [of hmac now h body v] by simp
qed

text \<open>C5. Replay protection: over any run of verifications and prunings with a clock that does not go back,
  no (event id, timestamp) pair is accepted twice; pruning never forgets an id whose signed timestamp could
  still pass.\<close>

theorem webhook_no_replay:
  assumes "wh_run hmac (new_WebhookVerifier secret) v now log"
  shows "distinct (map (\<lambda>e. (fst e, fst (snd e))) log)"
  using wh_run_inv [OF assms] by blast

definition ex_headers :: "string \<Rightarrow> Headers" where
  "ex_headers i = [''X-Broker-Event-Id'' \<mapsto> HStr i, ''X-Broker-Timestamp'' \<mapsto> HStr ''5'',
     ''X-Broker-Signature'' \<mapsto> HStr (webhook_sign ex_hmac ex_key ''5'' ''{}'')]"

lemma ex_in_window: "in_window 5000 WINDOW_MS ''5''"
proof -
  have "js_number ''5'' = Some (5, 0)" by code_simp
  then show ?thesis by (simp add: in_window_def WINDOW_MS_def)
qed

lemma ex_accept:
  assumes "i \<noteq> []" and "\<not> jm_has (wv_seen v) i" and "wv_secret v = ex_key" and "wv_windowMs v = WINDOW_MS"
  shows "verify ex_hmac 5000 (ex_headers i) ''{}'' v = (None, v\<lparr>wv_seen := AList.update i 5000 (wv_seen v)\<rparr>)"
proof -
  have "fst (verify ex_hmac 5000 (ex_headers i) ''{}'' v) = None"
    using assms ex_in_window by (auto simp: verify_ok_iff ex_headers_def header_get_def header_first_def ex_key_def)
  moreover from verify_ok_seen [OF this, of i] have "snd (verify ex_hmac 5000 (ex_headers i) ''{}'' v) = v\<lparr>wv_seen := AList.update i 5000 (wv_seen v)\<rparr>"
    by (simp add: ex_headers_def header_get_def header_first_def)
  ultimately show ?thesis by (simp add: prod_eq_iff)
qed

lemma ex_run:
  "\<exists>v. wh_run ex_hmac (new_WebhookVerifier ex_key) v 5000 [(''e1'', ''5'', 5000), (''e2'', ''5'', 5000)]"
proof -
  let ?v0 = "new_WebhookVerifier ex_key"
  let ?v1 = "?v0\<lparr>wv_seen := AList.update ''e1'' 5000 (wv_seen ?v0)\<rparr>"
  have h: "header_get (ex_headers i) ''X-Broker-Event-Id'' = Some i" "header_get (ex_headers i) ''X-Broker-Timestamp'' = Some ''5''" for i
    by (simp_all add: ex_headers_def header_get_def header_first_def)
  have r0: "wh_run ex_hmac ?v0 ?v0 5000 []" by (rule wh_init) (simp add: new_WebhookVerifier_def)
  have a1: "verify ex_hmac 5000 (ex_headers ''e1'') ''{}'' ?v0 = (None, ?v1)"
    by (rule ex_accept) (simp_all add: new_WebhookVerifier_def)
  have r1: "wh_run ex_hmac ?v0 ?v1 5000 [(''e1'', ''5'', 5000)]"
    using wh_accept [OF r0 _ a1 h] by simp
  have a2: "verify ex_hmac 5000 (ex_headers ''e2'') ''{}'' ?v1 = (None, ?v1\<lparr>wv_seen := AList.update ''e2'' 5000 (wv_seen ?v1)\<rparr>)"
    by (rule ex_accept) (simp_all add: new_WebhookVerifier_def)
  show ?thesis using wh_accept [OF r1 _ a2 h] by auto
qed

theorem webhook_no_replay_witness:
  "\<exists>v log. wh_run ex_hmac (new_WebhookVerifier ex_key) v 5000 log \<and> length log = 2 \<and>
     distinct (map (\<lambda>e. (fst e, fst (snd e))) log)"
proof -
  obtain v where r: "wh_run ex_hmac (new_WebhookVerifier ex_key) v 5000 [(''e1'', ''5'', 5000), (''e2'', ''5'', 5000)]"
    using ex_run by blast
  show ?thesis by (intro exI conjI) (rule r, simp, rule webhook_no_replay [OF r])
qed

text \<open>The MAC does not cover the event id: the same timestamp, body and signature pass again under another
  id that has not been seen, as long as the timestamp is in the window.\<close>

theorem webhook_id_not_signed:
  assumes "fst (verify hmac now h body v) = None" and "i' \<noteq> []" and "\<not> jm_has (wv_seen v') i'"
    and "wv_secret v' = wv_secret v" and "wv_windowMs v' = wv_windowMs v"
    and "header_get h ''X-Broker-Timestamp'' = Some ts" and "in_window now' (wv_windowMs v) ts"
  shows "fst (verify hmac now' (h(''X-Broker-Event-Id'' := Some (HStr i'))) body v') = None"
proof -
  let ?h' = "h(''X-Broker-Event-Id'' := Some (HStr i'))"
  have i: "toLowerCase ''X-Broker-Timestamp'' = ''x-broker-timestamp''" "toLowerCase ''X-Broker-Signature'' = ''x-broker-signature''"
    by code_simp+
  have "header_get ?h' ''X-Broker-Timestamp'' = header_get h ''X-Broker-Timestamp''"
    "header_get ?h' ''X-Broker-Signature'' = header_get h ''X-Broker-Signature''"
    "header_get ?h' ''X-Broker-Event-Id'' = Some i'"
    by (cases "h ''X-Broker-Timestamp''"; cases "h ''X-Broker-Signature''"; simp add: header_get_def header_first_def i)+
  with assms show ?thesis by (auto simp: verify_ok_iff)
qed

end
