(* ===== verification/Notifications.thy ===== *)
theory Notifications
  imports Webhook
begin

text \<open>
  The notification service (\<open>services/access-agent/src/notifications/service.ts\<close>): broker events become
  cards, button clicks become signed broker decisions. The state is the \<open>tracked\<close> map and the approver
  cache; calls to the chat adapters, to \<open>respond\<close> and to the broker are outside calls of type
  \<open>OutCall\<close>, with their outcomes in \<open>Outside\<close>. Log lines are not modelled. A request of an event or of
  a broker answer is cast from JSON by the source: a missing text field reads as the empty string, a
  missing id or role list makes the code that uses it throw.
\<close>

section \<open>Data\<close>

record BrokerRequest =
  br_id :: string
  br_user :: string
  br_roles :: "string list"
  br_resource_ids :: "string list option"
  br_reason :: string
  br_state :: string
  br_expires :: string
  br_access_expiry :: "string option"
  br_platform :: "string option"
  br_decision :: "(string \<times> string) option"

text \<open>The decision is its \<open>rule\<close> and \<open>action\<close>.\<close>

definition request_of_json :: "json \<Rightarrow> BrokerRequest option" where
  "request_of_json j =
     (case (jstring (jfield ''id'' j), jstring_list (jfield ''roles'' j)) of
        (Some i, Some rs) \<Rightarrow>
          Some \<lparr>br_id = i, br_user = nullish (jstring (jfield ''user'' j)) '''', br_roles = rs,
            br_resource_ids = jstring_list (jfield ''resource_ids'' j),
            br_reason = nullish (jstring (jfield ''reason'' j)) '''',
            br_state = nullish (jstring (jfield ''state'' j)) '''',
            br_expires = nullish (jstring (jfield ''expires'' j)) '''',
            br_access_expiry = jstring (jfield ''access_expiry'' j),
            br_platform = jstring (jfield ''platform'' j),
            br_decision = (case jfield ''decision'' j of
                Some (JObj d) \<Rightarrow> Some (nullish (jstring (map_of d ''rule'')) '''', nullish (jstring (map_of d ''action'')) '''')
              | _ \<Rightarrow> None)\<rparr>
      | _ \<Rightarrow> None)"

datatype EventType = PendingReview | Resolved

record Resolution =
  rs_state :: RequestStatus
  rs_by :: string
  rs_mode :: string
  rs_reason :: string

record BrokerEvent =
  ev_type :: EventType
  ev_request :: BrokerRequest
  ev_requester_email :: "string option"
  ev_channels :: "(string \<times> string) list"
  ev_mention_approvers :: bool
  ev_approver_emails :: "string list"
  ev_resolution :: "Resolution option"

record Tracked =
  tr_request :: BrokerRequest
  tr_nonce :: string
  tr_posts :: "PostedMessageRef list"

record NotifState =
  ns_tracked :: "(string, Tracked) jsmap"
  ns_cache :: "(string, ApproverCache) jsmap"

datatype OutCall =
    PostCard string CardTarget RequestCard
  | UpdateCard string PostedMessageRef RequestCard
  | ResolveUser string string ClickContext
  | BrokerHttp FetchRequest
  | Respond string bool

record Outside =
  o_post :: "string \<Rightarrow> CardTarget \<Rightarrow> RequestCard \<Rightarrow> OutCall list \<Rightarrow> js_error + PostedMessageRef option"
  o_update :: "string \<Rightarrow> PostedMessageRef \<Rightarrow> RequestCard \<Rightarrow> OutCall list \<Rightarrow> js_error + unit"
  o_resolveUser :: "string \<Rightarrow> string \<Rightarrow> ClickContext \<Rightarrow> OutCall list \<Rightarrow> js_error + ChatUser"
  o_respond :: "string \<Rightarrow> bool \<Rightarrow> OutCall list \<Rightarrow> js_error + unit"
  o_broker :: "OutCall broker_env"
  o_nonce :: "OutCall list \<Rightarrow> string"

record NotificationService =
  sv_adapters :: "string list"
  sv_broker :: BrokerClient
  sv_identity :: IdentityResolver
  sv_approvers :: ApproverCheck

type_synonym 'a notif = "((OutCall, NotifState) world, js_error, 'a) eff"

section \<open>Cards\<close>

text \<open>\<open>\<rightarrow>\<close> and the bullet, as their UTF-8 bytes.\<close>

definition ARROW :: string where "ARROW = [CHR 0xE2, CHR 0x86, CHR 0x92]"
definition BULLET :: string where "BULLET = [CHR 0xE2, CHR 0x80, CHR 0xA2]"

definition renderCard :: "BrokerRequest \<Rightarrow> string \<Rightarrow> RequestStatus \<Rightarrow> string option \<Rightarrow> RequestCard" where
  "renderCard r nonce status footer =
     \<lparr>rc_requestId = br_id r,
      rc_title = (if status = Pending then ''Access request '' @ take 8 (br_id r) @ '' needs approval''
                  else ''Access request '' @ take 8 (br_id r) @ '' '' @ status_name status),
      rc_fields =
        [(''Requester'', br_user r), (''Roles'', str_or (join '', '' (br_roles r)) ''(none)'')]
        @ (case br_resource_ids r of Some (x # xs) \<Rightarrow> [(''Resources'', join '', '' (x # xs))] | _ \<Rightarrow> [])
        @ [(''Reason'', str_or (br_reason r) ''(none given)''),
           (''Expires'', nullish (br_access_expiry r) (br_expires r))]
        @ (case br_decision r of Some (rule, action) \<Rightarrow> [(''Policy'', rule @ '' '' @ ARROW @ '' '' @ action)] | None \<Rightarrow> []),
      rc_buttons =
        (if status = Pending
         then [\<lparr>cb_id = Approve, cb_label = ''Approve'', cb_style = Some Primary\<rparr>,
               \<lparr>cb_id = Deny, cb_label = ''Deny'', cb_style = Some Danger\<rparr>,
               \<lparr>cb_id = Details, cb_label = ''Details'', cb_style = None\<rparr>]
         else []),
      rc_status = status, rc_footer = footer, rc_nonce = nonce\<rparr>"

definition ref_adapter :: "PostedMessageRef \<Rightarrow> string" where
  "ref_adapter ref = platform_name (cr_platform (pm_conversation ref))"

text \<open>Insertion into a \<open>Set\<close>, kept as a list in insertion order.\<close>

definition set_add :: "'a \<Rightarrow> 'a list \<Rightarrow> 'a list" where
  "set_add x xs = (if x \<in> set xs then xs else xs @ [x])"

definition origin_platform :: "NotificationService \<Rightarrow> BrokerRequest \<Rightarrow> string option" where
  "origin_platform sv r =
     (case br_platform r of Some p \<Rightarrow> if p \<noteq> [] \<and> p \<in> set (sv_adapters sv) then Some p else None | None \<Rightarrow> None)"

definition originAdapters :: "NotificationService \<Rightarrow> BrokerRequest \<Rightarrow> Tracked option \<Rightarrow> string list" where
  "originAdapters sv r t =
     (let names0 = (case origin_platform sv r of Some p \<Rightarrow> [p] | None \<Rightarrow> []);
          names = foldl (\<lambda>ns ref. set_add (ref_adapter ref) ns) names0
                    (case t of Some tr \<Rightarrow> tr_posts tr | None \<Rightarrow> [])
      in filter (\<lambda>n. n \<in> set (sv_adapters sv)) names)"

section \<open>Broker events\<close>

definition post_to :: "Outside \<Rightarrow> RequestCard \<Rightarrow> string \<Rightarrow> CardTarget \<Rightarrow> PostedMessageRef option notif" where
  "post_to out crd a tgt =
     catchE (perform (PostCard a tgt crd) (o_post out a tgt crd)) (\<lambda>_. retE None)"

definition post_dm :: "Outside \<Rightarrow> RequestCard \<Rightarrow> CardTarget \<Rightarrow> string \<Rightarrow> unit notif" where
  "post_dm out crd tgt a = bindE (post_to out crd a tgt) (\<lambda>_. retE ())"

definition keep_ref :: "PostedMessageRef option list \<Rightarrow> PostedMessageRef list" where
  "keep_ref refs = concat (map (\<lambda>r. case r of Some p \<Rightarrow> [p] | None \<Rightarrow> []) refs)"

text \<open>The posts of a pending event: its channels first, then the approvers one by one on every target adapter.\<close>

definition pending_targets :: "NotificationService \<Rightarrow> BrokerEvent \<Rightarrow> (string \<times> CardTarget) list" where
  "pending_targets sv ev =
     map (\<lambda>ch. (fst ch, ToChannel (snd ch))) (filter (\<lambda>ch. fst ch \<in> set (sv_adapters sv)) (ev_channels ev))
     @ (if ev_mention_approvers ev then
          let targets = (case origin_platform sv (ev_request ev) of Some p \<Rightarrow> [p] | None \<Rightarrow> sv_adapters sv)
          in concat (map (\<lambda>email. map (\<lambda>a. (a, ToUser email)) targets) (ev_approver_emails ev))
        else [])"

definition resolved_status :: "BrokerEvent \<Rightarrow> RequestStatus" where
  "resolved_status ev =
     (case ev_resolution ev of
        Some rs \<Rightarrow> rs_state rs
      | None \<Rightarrow> if br_state (ev_request ev) = ''APPROVED'' then Approved
                else if br_state (ev_request ev) = ''DENIED'' then Denied else Expired)"

definition resolved_footer :: "BrokerEvent \<Rightarrow> string option" where
  "resolved_footer ev =
     map_option (\<lambda>rs. status_name (resolved_status ev) @ '' by '' @ rs_by rs @ '' ('' @ rs_mode rs @ '')''
       @ (if rs_reason rs \<noteq> [] then '': '' @ rs_reason rs else '''')) (ev_resolution ev)"

definition update_ref :: "NotificationService \<Rightarrow> Outside \<Rightarrow> RequestCard \<Rightarrow> PostedMessageRef \<Rightarrow> unit notif" where
  "update_ref sv out crd ref =
     (let a = ref_adapter ref in
      whenE (a \<in> set (sv_adapters sv))
        (catchE (perform (UpdateCard a ref crd) (o_update out a ref crd)) (\<lambda>_. retE ())))"

definition track :: "string \<Rightarrow> Tracked \<Rightarrow> NotifState \<Rightarrow> NotifState" where
  "track i t s = s\<lparr>ns_tracked := AList.update i t (ns_tracked s)\<rparr>"

definition untrack :: "string \<Rightarrow> NotifState \<Rightarrow> NotifState" where
  "untrack i s = s\<lparr>ns_tracked := AList.delete i (ns_tracked s)\<rparr>"

definition tracked_of :: "string \<Rightarrow> (OutCall, NotifState) world \<Rightarrow> Tracked option" where
  "tracked_of i w = map_of (ns_tracked (loc w)) i"

definition handle_pending :: "NotificationService \<Rightarrow> Outside \<Rightarrow> BrokerEvent \<Rightarrow> unit notif" where
  "handle_pending sv out ev =
     (let r = ev_request ev in
      bindE (getE (tracked_of (br_id r))) (\<lambda>t.
      if t \<noteq> None then retE ()
      else
        bindE (read_clock (o_nonce out)) (\<lambda>nonce.
        let crd = renderCard r nonce Pending None in
        bindE (mapE (pending_targets sv ev) (\<lambda>at. post_to out crd (fst at) (snd at))) (\<lambda>refs.
        upd_loc (track (br_id r) \<lparr>tr_request = r, tr_nonce = nonce, tr_posts = keep_ref refs\<rparr>)))))"

definition handle_resolved :: "NotificationService \<Rightarrow> Outside \<Rightarrow> BrokerEvent \<Rightarrow> unit notif" where
  "handle_resolved sv out ev =
     (let r = ev_request ev; status = resolved_status ev; footer = resolved_footer ev in
      bindE (getE (tracked_of (br_id r))) (\<lambda>t.
      thenE
        (case t of
           Some tr \<Rightarrow>
             thenE (forE (tr_posts tr) (update_ref sv out (renderCard r (tr_nonce tr) status footer)))
               (upd_loc (untrack (br_id r)))
         | None \<Rightarrow> retE ())
        (case ev_requester_email ev of
           Some email \<Rightarrow>
             whenE (email \<noteq> [])
               (forE (originAdapters sv r t)
                  (post_dm out (renderCard r '''' status footer) (ToUser email)))
         | None \<Rightarrow> retE ())))"

definition handleEvent :: "NotificationService \<Rightarrow> Outside \<Rightarrow> BrokerEvent \<Rightarrow> unit notif" where
  "handleEvent sv out ev =
     (case ev_type ev of PendingReview \<Rightarrow> handle_pending sv out ev | Resolved \<Rightarrow> handle_resolved sv out ev)"

section \<open>Clicks\<close>

definition respond :: "Outside \<Rightarrow> string \<Rightarrow> bool \<Rightarrow> unit notif" where
  "respond out text eph = perform (Respond text eph) (o_respond out text eph)"

definition verifyClicker :: "NotificationService \<Rightarrow> Outside \<Rightarrow> ButtonClick \<Rightarrow> Principal notif" where
  "verifyClicker sv out c =
     (let a = platform_name (cu_platform (bc_user c)) in
      if a \<notin> set (sv_adapters sv) then throwE (PlainError ''unknown chat platform'')
      else
        bindE (perform (ResolveUser a (cu_platformUserId (bc_user c)) (bc_ctx c))
                 (o_resolveUser out a (cu_platformUserId (bc_user c)) (bc_ctx c)))
          (\<lambda>fresh. resolve (Some (userByEmail (o_broker out) (sv_broker sv))) (sv_identity sv) fresh))"

definition STALE :: string where
  "STALE = ''This button is stale. Use `make requests` or ask the assistant for the current state.''"

definition details_text :: "BrokerRequest \<Rightarrow> string" where
  "details_text r =
     (let line = (\<lambda>k v. CHR 0x0A # BULLET @ '' '' @ k @ '': '' @ v) in
      ''Request '' @ br_id r @ line ''requester'' (br_user r) @ line ''roles'' (join '', '' (br_roles r))
      @ line ''reason'' (br_reason r) @ line ''state'' (br_state r) @ line ''expires'' (br_expires r))"

definition isApprover_n :: "NotificationService \<Rightarrow> Outside \<Rightarrow> Principal \<Rightarrow> bool notif" where
  "isApprover_n sv out p =
     zoomE ns_cache (\<lambda>c s. s\<lparr>ns_cache := c\<rparr>)
       (isApprover (Some (userRoles (o_broker out) (sv_broker sv))) (be_now (o_broker out)) (sv_approvers sv) p)"

definition click_details :: "NotificationService \<Rightarrow> Outside \<Rightarrow> Tracked \<Rightarrow> Principal \<Rightarrow> unit notif" where
  "click_details sv out t p =
     (let r = tr_request t in
      bindE (if toLowerCase (pr_teleportUser p) = toLowerCase (br_user r) then retE True else isApprover_n sv out p)
        (\<lambda>allowed.
        if \<not> allowed then respond out ''Only the requester or an approver can view this request.'' True
        else respond out (details_text r) True))"

definition decision_reason :: "ButtonClick \<Rightarrow> Principal \<Rightarrow> string" where
  "decision_reason c p =
     str_or (case bc_reason c of Some s \<Rightarrow> trim s | None \<Rightarrow> '''')
       (button_name (bc_button c) @ ''d via '' @ platform_name (cu_platform (bc_user c)) @ '' by '' @ pr_teleportUser p)"

definition broker_error_text :: "string \<Rightarrow> string \<Rightarrow> string" where
  "broker_error_text code msg =
     (if code = ''self_approval'' then ''You cannot approve your own request.''
      else if code = ''not_approver'' then ''You are not an approver for this request.''
      else if code = ''not_pending'' then ''This request is no longer pending.'' else msg)"

text \<open>After a decision: the confirmation and the optimistic update of the cards.\<close>

definition after_decision ::
  "NotificationService \<Rightarrow> Outside \<Rightarrow> ButtonClick \<Rightarrow> Tracked \<Rightarrow> Principal \<Rightarrow> json \<Rightarrow> unit notif" where
  "after_decision sv out c t p answer =
     (let status = (if bc_button c = Approve then Approved else Denied) in
      case jstring (jfield ''id'' answer) of
        None \<Rightarrow> throwE (PlainError ''TypeError'')
      | Some rid \<Rightarrow>
          thenE (respond out ((if bc_button c = Approve then ''Approved'' else ''Denied'') @ '' request '' @ take 8 rid @ ''.'') True)
            (case request_of_json answer of
               None \<Rightarrow> throwE (PlainError ''TypeError'')
             | Some r \<Rightarrow>
                 forE (tr_posts t) (update_ref sv out
                   (renderCard r (tr_nonce t) status
                      (Some (status_name status @ '' by '' @ pr_teleportUser p @ '' (chat)''))))))"

definition click_decide ::
  "NotificationService \<Rightarrow> Outside \<Rightarrow> ButtonClick \<Rightarrow> Tracked \<Rightarrow> Principal \<Rightarrow> unit notif" where
  "click_decide sv out c t p =
     catchE
       (bindE (if bc_button c = Approve
               then approve (o_broker out) (sv_broker sv) (bc_requestId c) p (decision_reason c p)
               else deny (o_broker out) (sv_broker sv) (bc_requestId c) p (decision_reason c p))
          (after_decision sv out c t p))
       (\<lambda>e. case e of
          BrokerError _ code msg \<Rightarrow> respond out (broker_error_text code msg) True
        | _ \<Rightarrow> respond out ''Something went wrong talking to the access broker.'' True)"

text \<open>The identity step of a click; \<^const>\<open>None\<close> when the refusal has been answered.\<close>

definition click_principal :: "NotificationService \<Rightarrow> Outside \<Rightarrow> ButtonClick \<Rightarrow> Principal option notif" where
  "click_principal sv out c =
     catchE (bindE (verifyClicker sv out c) (\<lambda>p. retE (Some p)))
       (\<lambda>e. thenE (respond out (''Cannot map you to a Teleport user: '' @ err_message e) True) (retE None))"

definition live_click :: "Tracked option \<Rightarrow> ButtonClick \<Rightarrow> Tracked option" where
  "live_click t c =
     (case t of Some tr \<Rightarrow> if bc_nonce c = [] \<or> tr_nonce tr \<noteq> bc_nonce c then None else Some tr | None \<Rightarrow> None)"

definition onClick :: "NotificationService \<Rightarrow> Outside \<Rightarrow> ButtonClick \<Rightarrow> unit notif" where
  "onClick sv out c =
     bindE (getE (tracked_of (bc_requestId c))) (\<lambda>t0.
     case live_click t0 c of
       None \<Rightarrow> respond out STALE True
     | Some t \<Rightarrow>
         bindE (click_principal sv out c) (\<lambda>pr.
         case pr of
           None \<Rightarrow> retE ()
         | Some p \<Rightarrow> if bc_button c = Details then click_details sv out t p else click_decide sv out c t p))"

section \<open>What the operations do\<close>

lemma post_to_run:
  "post_to out crd a tgt w =
     (Inr (case o_post out a tgt crd (calls w) of Inl _ \<Rightarrow> None | Inr r \<Rightarrow> r), w\<lparr>calls := calls w @ [PostCard a tgt crd]\<rparr>)"
  by (simp add: post_to_def eff_defs perform_def split: sum.split)

lemma post_all_run:
  "\<exists>refs. mapE ts (\<lambda>at. post_to out crd (fst at) (snd at)) w =
     (Inr refs, w\<lparr>calls := calls w @ map (\<lambda>at. PostCard (fst at) (snd at) crd) ts\<rparr>) \<and> length refs = length ts"
proof (induction ts arbitrary: w)
  case Nil
  then show ?case by (simp add: retE_def)
next
  case (Cons at ts)
  from Cons [of "w\<lparr>calls := calls w @ [PostCard (fst at) (snd at) crd]\<rparr>"] show ?case
    by (auto simp: bindE_def post_to_run retE_def)
qed

lemma forE_post_run:
  "forE as (post_dm out crd tgt) w =
     (Inr (), w\<lparr>calls := calls w @ map (\<lambda>a. PostCard a tgt crd) as\<rparr>)"
  by (induction as arbitrary: w) (simp_all add: retE_def thenE_def bindE_def post_to_run post_dm_def)

lemma update_ref_run:
  "update_ref sv out crd ref w =
     (Inr (), w\<lparr>calls := calls w @ (if ref_adapter ref \<in> set (sv_adapters sv) then [UpdateCard (ref_adapter ref) ref crd] else [])\<rparr>)"
  by (simp add: update_ref_def Let_def eff_defs perform_def split: sum.split)

definition updates_for :: "NotificationService \<Rightarrow> PostedMessageRef list \<Rightarrow> RequestCard \<Rightarrow> OutCall list" where
  "updates_for sv refs crd =
     map (\<lambda>ref. UpdateCard (ref_adapter ref) ref crd) (filter (\<lambda>ref. ref_adapter ref \<in> set (sv_adapters sv)) refs)"

lemma forE_update_run:
  "forE refs (update_ref sv out crd) w = (Inr (), w\<lparr>calls := calls w @ updates_for sv refs crd\<rparr>)"
  by (induction refs arbitrary: w) (simp_all add: retE_def thenE_def bindE_def update_ref_run updates_for_def)

lemma handle_pending_known:
  "tracked_of (br_id (ev_request ev)) w = Some t \<Longrightarrow> handle_pending sv out ev w = (Inr (), w)"
  by (simp add: handle_pending_def Let_def eff_defs)

lemma handle_pending_new:
  assumes "tracked_of (br_id (ev_request ev)) w = None"
  shows "\<exists>posts. length posts \<le> length (pending_targets sv ev) \<and>
    handle_pending sv out ev w =
      (Inr (), w\<lparr>calls := calls w @ map (\<lambda>at. PostCard (fst at) (snd at)
                   (renderCard (ev_request ev) (o_nonce out (calls w)) Pending None)) (pending_targets sv ev),
                loc := track (br_id (ev_request ev))
                   \<lparr>tr_request = ev_request ev, tr_nonce = o_nonce out (calls w), tr_posts = posts\<rparr> (loc w)\<rparr>)"
proof -
  let ?crd = "renderCard (ev_request ev) (o_nonce out (calls w)) Pending None"
  obtain refs where r: "mapE (pending_targets sv ev) (\<lambda>at. post_to out ?crd (fst at) (snd at)) w =
     (Inr refs, w\<lparr>calls := calls w @ map (\<lambda>at. PostCard (fst at) (snd at) ?crd) (pending_targets sv ev)\<rparr>)"
    "length refs = length (pending_targets sv ev)"
    using post_all_run by blast
  have "length (keep_ref refs) \<le> length refs"
    by (induction refs) (auto simp: keep_ref_def split: option.split)
  with r assms show ?thesis
    by (intro exI [of _ "keep_ref refs"])
       (simp add: handle_pending_def Let_def bindE_def getE_def read_clock_def upd_loc_def modifyE_def)
qed

definition dms_for :: "NotificationService \<Rightarrow> BrokerEvent \<Rightarrow> Tracked option \<Rightarrow> OutCall list" where
  "dms_for sv ev t =
     (case ev_requester_email ev of
        Some email \<Rightarrow>
          if email = [] then []
          else map (\<lambda>a. PostCard a (ToUser email)
                      (renderCard (ev_request ev) '''' (resolved_status ev) (resolved_footer ev)))
                 (originAdapters sv (ev_request ev) t)
      | None \<Rightarrow> [])"

lemma handle_resolved_run:
  "handle_resolved sv out ev w =
     (case tracked_of (br_id (ev_request ev)) w of
        None \<Rightarrow> (Inr (), w\<lparr>calls := calls w @ dms_for sv ev None\<rparr>)
      | Some t \<Rightarrow>
          (Inr (), w\<lparr>calls := calls w
              @ updates_for sv (tr_posts t) (renderCard (ev_request ev) (tr_nonce t) (resolved_status ev) (resolved_footer ev))
              @ dms_for sv ev (Some t),
            loc := untrack (br_id (ev_request ev)) (loc w)\<rparr>))"
  by (simp add: handle_resolved_def Let_def eff_defs upd_loc_def forE_update_run forE_post_run dms_for_def
      split: option.split)

lemma originAdapters_sub:
  "a \<in> set (originAdapters sv r t) \<Longrightarrow>
     a \<in> set (sv_adapters sv) \<and> (br_platform r = Some a \<or> (\<exists>tr ref. t = Some tr \<and> ref \<in> set (tr_posts tr) \<and> a = ref_adapter ref))"
proof -
  have f: "set (foldl (\<lambda>ns ref. set_add (ref_adapter ref) ns) ns refs) = set ns \<union> ref_adapter ` set refs" for ns refs
    by (induction refs arbitrary: ns) (auto simp: set_add_def)
  show "a \<in> set (originAdapters sv r t) \<Longrightarrow> ?thesis"
    by (auto simp: originAdapters_def Let_def f origin_platform_def split: option.splits if_splits)
qed

lemma originAdapters_distinct: "distinct (originAdapters sv r t)"
proof -
  have "distinct ns \<Longrightarrow> distinct (foldl (\<lambda>ns ref. set_add (ref_adapter ref) ns) ns refs)" for ns refs
    by (induction refs arbitrary: ns) (auto simp: set_add_def)
  then show ?thesis by (simp add: originAdapters_def Let_def split: option.split)
qed

section \<open>What a click does\<close>

lemma onClick_cases:
  "onClick sv out c w =
     (case live_click (tracked_of (bc_requestId c) w) c of
        None \<Rightarrow> respond out STALE True w
      | Some t \<Rightarrow>
          (case click_principal sv out c w of
             (Inl e, w1) \<Rightarrow> (Inl e, w1)
           | (Inr None, w1) \<Rightarrow> (Inr (), w1)
           | (Inr (Some p), w1) \<Rightarrow>
               if bc_button c = Details then click_details sv out t p w1 else click_decide sv out c t p w1))"
  by (simp add: onClick_def bindE_def getE_def retE_def split: option.split prod.split sum.split)

lemma click_principal_Some:
  assumes "click_principal sv out c w = (Inr (Some p), w1)"
  shows "\<exists>fresh. platform_name (cu_platform (bc_user c)) \<in> set (sv_adapters sv) \<and>
    o_resolveUser out (platform_name (cu_platform (bc_user c))) (cu_platformUserId (bc_user c)) (bc_ctx c) (calls w) = Inr fresh \<and>
    resolve (Some (userByEmail (o_broker out) (sv_broker sv))) (sv_identity sv) fresh
      (w\<lparr>calls := calls w @ [ResolveUser (platform_name (cu_platform (bc_user c))) (cu_platformUserId (bc_user c)) (bc_ctx c)]\<rparr>)
      = (Inr p, w1)"
  using assms
  by (auto simp: click_principal_def verifyClicker_def Let_def eff_defs perform_def respond_def
      split: if_splits sum.splits prod.splits)

lemma live_click_iff:
  "live_click t0 c = Some t \<longleftrightarrow> t0 = Some t \<and> bc_nonce c \<noteq> [] \<and> tr_nonce t = bc_nonce c"
  by (auto simp: live_click_def split: option.split)

lemma appends_respond [appends_intros]: "P (Respond t e) \<Longrightarrow> appends P (respond out t e)"
  unfolding respond_def by (intro appends_intros)

lemma appends_update_ref [appends_intros]: "(\<And>a r. P (UpdateCard a r crd)) \<Longrightarrow> appends P (update_ref sv out crd ref)"
  unfolding update_ref_def Let_def by (intro appends_intros)

lemma frames_respond [keeps_intros]: "frames f (respond out t e)"
  unfolding respond_def by (intro keeps_intros)

lemma frames_update_ref [keeps_intros]: "frames f (update_ref sv out crd ref)"
  unfolding update_ref_def Let_def by (intro keeps_intros)

text \<open>The calls of a click, by what they may be: \<open>click_call post\<close> with \<open>post\<close> the broker requests allowed.\<close>

fun click_call :: "(FetchRequest \<Rightarrow> bool) \<Rightarrow> OutCall \<Rightarrow> bool" where
  "click_call post (BrokerHttp rq) \<longleftrightarrow> fq_method rq = ''GET'' \<or> post rq"
| "click_call post (Respond _ e) \<longleftrightarrow> e"
| "click_call post (PostCard _ _ _) \<longleftrightarrow> False"
| "click_call post (UpdateCard _ _ _) \<longleftrightarrow> True"
| "click_call post (ResolveUser _ _ _) \<longleftrightarrow> True"

definition no_post :: "FetchRequest \<Rightarrow> bool" where "no_post rq = False"

text \<open>A decision on the click's request, with its button and reason, signed for a principal.\<close>

definition button_decision :: "ButtonClick \<Rightarrow> Decision" where
  "button_decision c = (if bc_button c = Approve then DApprove else DDeny)"

definition signed_for :: "NotificationService \<Rightarrow> Outside \<Rightarrow> ButtonClick \<Rightarrow> Principal \<Rightarrow> FetchRequest \<Rightarrow> bool" where
  "signed_for sv out c p rq \<longleftrightarrow>
     (\<exists>h now jti. mintAssertion (be_hmac (o_broker out)) (bk_signingKey (sv_broker sv)) p AudBroker now jti = Inr h \<and>
        rq = broker_request (sv_broker sv) ''POST''
          (''/v1/requests/'' @ encodeURIComponent (bc_requestId c) @ ''/'' @ decision_path (button_decision c))
          (Some (JObj [(''reason'', JStr (decision_reason c p))])) [(ASSERTION_HEADER, h)])"

lemma appends_click_principal:
  assumes tag: "be_inj (o_broker out) = BrokerHttp"
  shows "appends (click_call post) (click_principal sv out c)"
  unfolding click_principal_def verifyClicker_def Let_def
  by (auto intro!: appends_intros simp: tag)

lemma appends_click_details:
  assumes tag: "be_inj (o_broker out) = BrokerHttp"
  shows "appends (click_call post) (click_details sv out t p)"
  unfolding click_details_def Let_def isApprover_n_def
  by (auto intro!: appends_intros simp: tag)

lemma appends_click_decide:
  assumes tag: "be_inj (o_broker out) = BrokerHttp"
  shows "appends (click_call (signed_for sv out c p)) (click_decide sv out c t p)"
proof -
  have d: "appends (click_call (signed_for sv out c p)) (decide (o_broker out) (sv_broker sv) (button_decision c) (bc_requestId c) p (decision_reason c p))"
    by (auto simp: appends_def decide_calls tag signed_for_def split: sum.split)
  have a: "appends (click_call (signed_for sv out c p)) (after_decision sv out c t p j)" for j
    unfolding after_decision_def Let_def by (auto intro!: appends_intros split: option.split)
  have b: "(if bc_button c = Approve then decide e b DApprove i p r else decide e b DDeny i p r) = decide e b (button_decision c) i p r" for e b i r
    by (simp add: button_decision_def)
  show ?thesis unfolding click_decide_def approve_def deny_def b
    by (auto intro!: appends_intros d a split: js_error.split)
qed

lemma click_call_mono: "click_call P x \<Longrightarrow> (\<And>rq. P rq \<Longrightarrow> Q rq) \<Longrightarrow> click_call Q x"
  by (cases x) auto

lemma appends_onClick:
  assumes tag: "be_inj (o_broker out) = BrokerHttp"
  shows "\<exists>cs. calls (snd (onClick sv out c w)) = calls w @ cs \<and> list_all (click_call (\<lambda>_. True)) cs"
proof -
  have p: "appends (click_call (\<lambda>_. True)) (click_decide sv out c t p)" for t p
    using appends_click_decide [OF tag] by (rule appends_mono) (auto intro: click_call_mono)
  have "appends (click_call (\<lambda>_. True)) (onClick sv out c)"
    unfolding onClick_def
    by (auto intro!: appends_intros p appends_click_details [OF tag] appends_click_principal [OF tag] split: option.split)
  then show ?thesis by (rule appendsD)
qed

lemma click_decide_after:
  "\<exists>es. calls (snd (click_decide sv out c t p w)) =
     calls (snd (decide (o_broker out) (sv_broker sv) (if bc_button c = Approve then DApprove else DDeny)
       (bc_requestId c) p (decision_reason c p) w)) @ es"
proof -
  have d: "(if bc_button c = Approve then approve (o_broker out) (sv_broker sv) (bc_requestId c) p (decision_reason c p)
      else deny (o_broker out) (sv_broker sv) (bc_requestId c) p (decision_reason c p)) =
    decide (o_broker out) (sv_broker sv) (if bc_button c = Approve then DApprove else DDeny)
       (bc_requestId c) p (decision_reason c p)"
    by (simp add: approve_def deny_def)
  have a: "appends (\<lambda>_. True) (after_decision sv out c t p j)" for j
    unfolding after_decision_def Let_def by (auto intro!: appends_intros split: option.split)
  have h: "appends (\<lambda>_. True) (case e of BrokerError _ code msg \<Rightarrow> respond out (broker_error_text code msg) True
      | _ \<Rightarrow> respond out ''Something went wrong talking to the access broker.'' True)" for e
    by (auto intro!: appends_intros split: js_error.split)
  show ?thesis unfolding click_decide_def d
    using appends_after [where P = "\<lambda>_. True" and f = "after_decision sv out c t p" and h = "\<lambda>e. case e of
        BrokerError _ code msg \<Rightarrow> respond out (broker_error_text code msg) True
      | _ \<Rightarrow> respond out ''Something went wrong talking to the access broker.'' True" and w = w, OF a h]
    by blast
qed

lemma frames_onClick: "frames ns_tracked (onClick sv out c)"
proof -
  have "frames ns_tracked (verifyClicker sv out c)"
    unfolding verifyClicker_def Let_def by (auto intro!: keeps_intros)
  moreover have "frames ns_tracked (click_details sv out t p)" for t p
    unfolding click_details_def Let_def isApprover_n_def by (auto intro!: keeps_intros)
  moreover have "frames ns_tracked (after_decision sv out c t p j)" for t p j
    unfolding after_decision_def Let_def by (auto intro!: keeps_intros split: option.split)
  ultimately show ?thesis
    unfolding onClick_def click_principal_def click_decide_def approve_def deny_def
    by (auto intro!: keeps_intros split: option.split js_error.split)
qed

text \<open>The principal of a click that sends something other than a lookup to the broker.\<close>

lemma onClick_post:
  assumes tag: "be_inj (o_broker out) = BrokerHttp"
    and w': "calls (snd (onClick sv out c w)) = calls w @ cs"
    and rq: "BrokerHttp rq \<in> set cs" "fq_method rq \<noteq> ''GET''"
  shows "\<exists>t p w1. live_click (tracked_of (bc_requestId c) w) c = Some t \<and> bc_button c \<noteq> Details \<and>
    click_principal sv out c w = (Inr (Some p), w1) \<and> signed_for sv out c p rq"
proof (cases "live_click (tracked_of (bc_requestId c) w) c")
  case None
  with w' rq show ?thesis by (auto simp: onClick_cases respond_def perform_def)
next
  case (Some t)
  obtain r w1 where pr: "click_principal sv out c w = (r, w1)" by force
  obtain ds where ds: "calls w1 = calls w @ ds" "list_all (click_call no_post) ds"
    using appendsD [OF appends_click_principal [OF tag, where post = no_post and sv = sv and c = c], where w = w] pr by auto
  have nd: "BrokerHttp rq \<notin> set ds" using ds(2) rq(2) by (auto simp: list_all_iff no_post_def)
  show ?thesis
  proof (cases "\<exists>p. r = Inr (Some p) \<and> bc_button c \<noteq> Details")
    case False
    have "\<exists>es. cs = ds @ es \<and> list_all (click_call no_post) es"
    proof (cases "\<exists>p. r = Inr (Some p)")
      case True
      then obtain p where p: "r = Inr (Some p)" "bc_button c = Details" using False by blast
      from appendsD [OF appends_click_details [OF tag, where post = no_post and sv = sv and t = t and p = p], where w = w1]
      show ?thesis using w' ds(1) Some pr p by (auto simp: onClick_cases)
    next
      case f: False
      with w' ds(1) Some pr show ?thesis
        by (cases r) (auto simp: onClick_cases split: option.splits)
    qed
    then have "BrokerHttp rq \<in> set ds" using rq by (fastforce simp: list_all_iff no_post_def)
    with nd show ?thesis by simp
  next
    case True
    then obtain p where p: "r = Inr (Some p)" "bc_button c \<noteq> Details" by blast
    from appendsD [OF appends_click_decide [OF tag, where sv = sv and t = t and p = p and c = c], where w = w1]
    obtain es where es: "calls (snd (click_decide sv out c t p w1)) = calls w1 @ es"
      "list_all (click_call (signed_for sv out c p)) es" by blast
    with w' ds(1) Some pr p have "cs = ds @ es" by (simp add: onClick_cases)
    with nd rq es(2) have "signed_for sv out c p rq" by (auto simp: list_all_iff)
    with Some pr p show ?thesis by blast
  qed
qed

text \<open>A live click of somebody who can be signed for posts a decision.\<close>

lemma click_posts:
  assumes tag: "be_inj (o_broker out) = BrokerHttp" and lc: "live_click (tracked_of (bc_requestId c) w) c = Some t"
    and pr: "click_principal sv out c w = (Inr (Some p), w2)" and b: "bc_button c \<noteq> Details"
    and mint: "\<And>now jti. \<exists>h. mintAssertion (be_hmac (o_broker out)) (bk_signingKey (sv_broker sv)) p AudBroker now jti = Inr h"
  shows "\<exists>cs rq. calls (snd (onClick sv out c w)) = calls w @ cs \<and> BrokerHttp rq \<in> set cs \<and> fq_method rq = ''POST''"
proof -
  let ?d = "decide (o_broker out) (sv_broker sv) (if bc_button c = Approve then DApprove else DDeny) (bc_requestId c) p (decision_reason c p)"
  obtain h where "mintAssertion (be_hmac (o_broker out)) (bk_signingKey (sv_broker sv)) p AudBroker
      (be_now (o_broker out) (calls w2)) (be_uuid (o_broker out) (calls w2)) = Inr h" using mint by blast
  then obtain rq where rq: "calls (snd (?d w2)) = calls w2 @ [BrokerHttp rq]" "fq_method rq = ''POST''"
    by (simp add: decide_calls tag broker_request_def)
  obtain ds where ds: "calls w2 = calls w @ ds"
    using appendsD [OF appends_click_principal [OF tag, where post = no_post and sv = sv and c = c], where w = w] pr by auto
  obtain es where "calls (snd (click_decide sv out c t p w2)) = calls (snd (?d w2)) @ es"
    using click_decide_after [of sv out c t p w2] by blast
  with rq ds have "calls (snd (click_decide sv out c t p w2)) = calls w @ ds @ [BrokerHttp rq] @ es" by simp
  moreover have "onClick sv out c w = click_decide sv out c t p w2" unfolding onClick_cases lc pr using b by simp
  ultimately show ?thesis using rq(2) by (intro exI [of _ "ds @ [BrokerHttp rq] @ es"] exI [of _ rq]) simp
qed

section \<open>Runs\<close>

text \<open>
  \<open>notif_run sv out i w\<close>: a state the service can reach by handling events and clicks one after the
  other, none of the events being the resolution of request \<open>i\<close>.
\<close>

inductive notif_run :: "NotificationService \<Rightarrow> Outside \<Rightarrow> string \<Rightarrow> (OutCall, NotifState) world \<Rightarrow> bool"
  for sv out i where
  nr_start: "notif_run sv out i \<lparr>calls = [], loc = \<lparr>ns_tracked = [], ns_cache = []\<rparr>\<rparr>"
| nr_event: "notif_run sv out i w \<Longrightarrow> ev_type ev = PendingReview \<or> br_id (ev_request ev) \<noteq> i \<Longrightarrow>
    notif_run sv out i (snd (handleEvent sv out ev w))"
| nr_click: "notif_run sv out i w \<Longrightarrow> notif_run sv out i (snd (onClick sv out c w))"

definition card_nonces_ok :: "string \<Rightarrow> (OutCall, NotifState) world \<Rightarrow> bool" where
  "card_nonces_ok i w \<longleftrightarrow>
     (\<forall>a tgt crd. PostCard a tgt crd \<in> set (calls w) \<longrightarrow> rc_requestId crd = i \<longrightarrow>
        (\<exists>t. tracked_of i w = Some t \<and> tr_nonce t = rc_nonce crd)) \<and>
     (\<forall>t. tracked_of i w = Some t \<longrightarrow> br_id (tr_request t) = i)"

lemma renderCard_simps [simp]:
  "rc_requestId (renderCard r n st f) = br_id r" "rc_nonce (renderCard r n st f) = n"
  by (simp_all add: renderCard_def)

lemma tracked_of_track [simp]:
  "tracked_of j (w\<lparr>calls := cs, loc := track i t (loc w)\<rparr>) = (if j = i then Some t else tracked_of j w)"
  by (simp add: tracked_of_def track_def update_conv')

lemma tracked_of_untrack [simp]:
  "tracked_of j (w\<lparr>calls := cs, loc := untrack i (loc w)\<rparr>) = (if j = i then None else tracked_of j w)"
  by (simp add: tracked_of_def untrack_def delete_conv')

lemma tracked_of_calls [simp]: "tracked_of j (w\<lparr>calls := cs\<rparr>) = tracked_of j w"
  by (simp add: tracked_of_def)

lemma card_nonces_pending:
  assumes "card_nonces_ok i w"
  shows "card_nonces_ok i (snd (handle_pending sv out ev w))"
proof (cases "tracked_of (br_id (ev_request ev)) w")
  case (Some t)
  then show ?thesis using assms handle_pending_known by simp
next
  case None
  from handle_pending_new [OF None, of sv out] assms None show ?thesis
    by (fastforce simp: card_nonces_ok_def)
qed

lemma card_nonces_resolved:
  assumes "card_nonces_ok i w" and "br_id (ev_request ev) \<noteq> i"
  shows "card_nonces_ok i (snd (handle_resolved sv out ev w))"
  using assms
  by (fastforce simp: card_nonces_ok_def handle_resolved_run updates_for_def dms_for_def split: option.split if_splits)

lemma card_nonces_click:
  assumes "be_inj (o_broker out) = BrokerHttp" and "card_nonces_ok i w"
  shows "card_nonces_ok i (snd (onClick sv out c w))"
proof -
  obtain cs where "calls (snd (onClick sv out c w)) = calls w @ cs" "list_all (click_call (\<lambda>_. True)) cs"
    using appends_onClick [OF assms(1)] by blast
  moreover have "tracked_of i (snd (onClick sv out c w)) = tracked_of i w"
    using framesD [OF frames_onClick, of sv out c w] by (simp add: tracked_of_def)
  ultimately show ?thesis using assms(2) by (fastforce simp: card_nonces_ok_def list_all_iff)
qed

lemma notif_run_nonces:
  assumes "be_inj (o_broker out) = BrokerHttp"
  shows "notif_run sv out i w \<Longrightarrow> card_nonces_ok i w"
proof (induction rule: notif_run.induct)
  case nr_start
  then show ?case by (simp add: card_nonces_ok_def tracked_of_def)
next
  case (nr_event w ev)
  then show ?case
    using card_nonces_pending card_nonces_resolved by (auto simp: handleEvent_def split: EventType.split)
next
  case (nr_click w c)
  then show ?case using card_nonces_click [OF assms] by blast
qed

section \<open>Properties\<close>

text \<open>A pending event for a request not yet tracked posts the pending card once to every configured
  target, in order, and tracks the request under the card's fresh nonce; for a tracked request (the broker
  re-sends events) it does nothing at all. No failure of a post escapes.\<close>

theorem pending_posts_once:
  assumes "ev_type ev = PendingReview"
  shows "(tracked_of (br_id (ev_request ev)) w \<noteq> None \<longrightarrow> handleEvent sv out ev w = (Inr (), w)) \<and>
    (tracked_of (br_id (ev_request ev)) w = None \<longrightarrow>
      (\<exists>posts w'. handleEvent sv out ev w = (Inr (), w') \<and>
        tracked_of (br_id (ev_request ev)) w' =
          Some \<lparr>tr_request = ev_request ev, tr_nonce = o_nonce out (calls w), tr_posts = posts\<rparr> \<and>
        calls w' = calls w @ map (\<lambda>at. PostCard (fst at) (snd at)
           (renderCard (ev_request ev) (o_nonce out (calls w)) Pending None)) (pending_targets sv ev) \<and>
        (\<forall>j. j \<noteq> br_id (ev_request ev) \<longrightarrow> tracked_of j w' = tracked_of j w)))"
  using assms handle_pending_known [of ev w] handle_pending_new [of ev w sv out]
  by (auto simp: handleEvent_def)

text \<open>A resolution updates exactly the tracked posts of its request (on the adapters still configured),
  stops tracking it, and sends the requester's direct message only to adapters the request came from: the
  platform the broker recorded or a platform its card was posted on, each once.\<close>

theorem resolved_closes:
  assumes "ev_type ev = Resolved"
  shows "\<exists>w' dms. handleEvent sv out ev w = (Inr (), w') \<and> tracked_of (br_id (ev_request ev)) w' = None \<and>
    calls w' = calls w @
      (case tracked_of (br_id (ev_request ev)) w of
         None \<Rightarrow> []
       | Some t \<Rightarrow> updates_for sv (tr_posts t)
                     (renderCard (ev_request ev) (tr_nonce t) (resolved_status ev) (resolved_footer ev))) @ dms \<and>
    (\<forall>d \<in> set dms. \<exists>a email crd. d = PostCard a (ToUser email) crd \<and> ev_requester_email ev = Some email \<and>
       a \<in> set (sv_adapters sv) \<and>
       (br_platform (ev_request ev) = Some a \<or>
        (\<exists>t ref. tracked_of (br_id (ev_request ev)) w = Some t \<and> ref \<in> set (tr_posts t) \<and> ref_adapter ref = a))) \<and>
    distinct dms"
proof -
  let ?t = "tracked_of (br_id (ev_request ev)) w"
  have dm: "\<exists>a email crd. d = PostCard a (ToUser email) crd \<and> ev_requester_email ev = Some email \<and>
       a \<in> set (sv_adapters sv) \<and>
       (br_platform (ev_request ev) = Some a \<or> (\<exists>t ref. ?t = Some t \<and> ref \<in> set (tr_posts t) \<and> ref_adapter ref = a))"
    if "d \<in> set (dms_for sv ev ?t)" for d
    using that originAdapters_sub [of _ sv "ev_request ev" ?t]
    by (fastforce simp: dms_for_def split: option.splits if_splits)
  have di: "distinct (dms_for sv ev ?t)"
    using originAdapters_distinct [of sv "ev_request ev" ?t]
    by (auto simp: dms_for_def distinct_map inj_on_def split: option.splits)
  show ?thesis
    by (intro exI [of _ "snd (handle_resolved sv out ev w)"] exI [of _ "dms_for sv ev ?t"])
       (use assms dm di in \<open>auto simp: handleEvent_def handle_resolved_run split: option.split\<close>)
qed

text \<open>C3. Whatever a click sends to the broker beyond lookups is the clicker's own decision: the request
  is tracked, the click carries its nonce, the chat platform resolved the clicker's own account freshly, the
  resolver mapped that account to a principal, and what is sent is the decision of the pressed button on the request of the card,
  with the reason given and an assertion minted for that principal.\<close>

theorem click_signed_for_clicker:
  assumes "be_inj (o_broker out) = BrokerHttp"
    and "calls (snd (onClick sv out c w)) = calls w @ cs"
    and "BrokerHttp rq \<in> set cs" and "fq_method rq \<noteq> ''GET''"
  shows "\<exists>t fresh p. \<exists>(s1 :: (OutCall, NotifState) world) s2. tracked_of (bc_requestId c) w = Some t \<and> bc_nonce c \<noteq> [] \<and> tr_nonce t = bc_nonce c \<and>
    bc_button c \<noteq> Details \<and>
    o_resolveUser out (platform_name (cu_platform (bc_user c))) (cu_platformUserId (bc_user c)) (bc_ctx c) (calls w) = Inr fresh \<and>
    resolve (Some (userByEmail (o_broker out) (sv_broker sv))) (sv_identity sv) fresh s1 = (Inr p, s2) \<and>
    pr_platform p = cu_platform fresh \<and> pr_platformUserId p = cu_platformUserId fresh \<and>
    signed_for sv out c p rq"
proof -
  obtain t p w1 where t: "live_click (tracked_of (bc_requestId c) w) c = Some t" and b: "bc_button c \<noteq> Details"
    and pr: "click_principal sv out c w = (Inr (Some p), w1)" and s: "signed_for sv out c p rq"
    using onClick_post [OF assms] by blast
  from click_principal_Some [OF pr] obtain fresh s1 where f:
    "o_resolveUser out (platform_name (cu_platform (bc_user c))) (cu_platformUserId (bc_user c)) (bc_ctx c) (calls w) = Inr fresh"
    "resolve (Some (userByEmail (o_broker out) (sv_broker sv))) (sv_identity sv) fresh s1 = (Inr p, w1)" by blast
  from t live_click_iff have l: "tracked_of (bc_requestId c) w = Some t" "bc_nonce c \<noteq> []" "tr_nonce t = bc_nonce c" by blast+
  show ?thesis
    by (intro exI [of _ t] exI [of _ fresh] exI [of _ p] exI [of _ s1] exI [of _ w1])
       (use l b f ident.binds [OF f(2)] s in simp)
qed

text \<open>Clicks are confined: a click never posts a card and never changes what is tracked, every answer to it
  is ephemeral, and a click on a request that is not tracked or with another nonce (so every click after the
  resolution) does nothing but answer that the button is stale.\<close>

theorem click_confined:
  assumes "be_inj (o_broker out) = BrokerHttp"
  shows "(\<exists>cs. calls (snd (onClick sv out c w)) = calls w @ cs \<and>
      (\<forall>x \<in> set cs. (\<forall>a tgt crd. x \<noteq> PostCard a tgt crd) \<and> (\<forall>text e. x = Respond text e \<longrightarrow> e))) \<and>
    (\<forall>i. tracked_of i (snd (onClick sv out c w)) = tracked_of i w) \<and>
    ((\<forall>t. tracked_of (bc_requestId c) w = Some t \<longrightarrow> bc_nonce c = [] \<or> tr_nonce t \<noteq> bc_nonce c) \<longrightarrow>
      calls (snd (onClick sv out c w)) = calls w @ [Respond STALE True])"
proof -
  have "live_click (tracked_of (bc_requestId c) w) c = None \<longrightarrow> calls (snd (onClick sv out c w)) = calls w @ [Respond STALE True]"
    by (simp add: onClick_cases respond_def perform_def)
  moreover have "(\<forall>t. tracked_of (bc_requestId c) w = Some t \<longrightarrow> bc_nonce c = [] \<or> tr_nonce t \<noteq> bc_nonce c) \<longrightarrow>
      live_click (tracked_of (bc_requestId c) w) c = None"
    by (cases "live_click (tracked_of (bc_requestId c) w) c") (auto simp: live_click_iff)
  moreover obtain cs where "calls (snd (onClick sv out c w)) = calls w @ cs" "list_all (click_call (\<lambda>_. True)) cs"
    using appends_onClick [OF assms] by blast
  ultimately show ?thesis
    using framesD [OF frames_onClick, of sv out c w] by (fastforce simp: tracked_of_def list_all_iff)
qed


section \<open>Witnesses\<close>

definition ex_out :: Outside where
  "ex_out = \<lparr>o_post = (\<lambda>_ _ _ _. Inr None), o_update = (\<lambda>_ _ _ _. Inr ()),
     o_resolveUser = (\<lambda>_ _ _ _. Inr ex_user), o_respond = (\<lambda>_ _ _. Inr ()),
     o_broker = \<lparr>be_inj = BrokerHttp,
       be_fetch = (\<lambda>_ _. Inr \<lparr>fr_status = 403, fr_statusText = ''Forbidden'', fr_text = ''''\<rparr>),
       be_now = (\<lambda>_. 5000), be_uuid = (\<lambda>_. ex_jti), be_hmac = ex_hmac\<rparr>,
     o_nonce = (\<lambda>_. ''n1'')\<rparr>"

definition ex_service :: NotificationService where
  "ex_service = \<lparr>sv_adapters = [''slack''], sv_broker = ex_broker,
     sv_identity = \<lparr>ir_cfg = ex_config, ir_allowedDomains = [''example.com''],
       ir_map = JObj [(''al@example.com'', JStr ''alice'')]\<rparr>,
     sv_approvers = \<lparr>ap_emails = [], ap_roles = [''approver'']\<rparr>\<rparr>"

definition ex_request :: BrokerRequest where
  "ex_request = \<lparr>br_id = ''r1'', br_user = ''bob'', br_roles = [''dba''], br_resource_ids = None, br_reason = ''fix'',
     br_state = ''PENDING'', br_expires = ''soon'', br_access_expiry = None, br_platform = None, br_decision = None\<rparr>"

definition ex_pending :: BrokerEvent where
  "ex_pending = \<lparr>ev_type = PendingReview, ev_request = ex_request, ev_requester_email = Some ''bob@example.com'',
     ev_channels = [(''slack'', ''C1''), (''teams'', ''x'')], ev_mention_approvers = False, ev_approver_emails = [],
     ev_resolution = None\<rparr>"

definition ex_click :: ButtonClick where
  "ex_click = \<lparr>bc_user = ex_user, bc_button = Approve, bc_requestId = ''r1'', bc_nonce = ''n1'',
     bc_message = \<lparr>pm_conversation = \<lparr>cr_platform = Slack, cr_channelId = ''C1'', cr_threadId = None, cr_raw = None\<rparr>,
       pm_messageId = ''m1''\<rparr>, bc_reason = None, bc_ctx = CtxNone\<rparr>"

abbreviation "ex_w0 \<equiv> \<lparr>calls = [], loc = \<lparr>ns_tracked = [], ns_cache = []\<rparr>\<rparr> :: (OutCall, NotifState) world"

definition ex_w1 :: "(OutCall, NotifState) world" where
  "ex_w1 = snd (handleEvent ex_service ex_out ex_pending ex_w0)"

lemma ex_w1: "tracked_of ''r1'' ex_w1 = Some \<lparr>tr_request = ex_request, tr_nonce = ''n1'', tr_posts = []\<rparr>"
  "calls ex_w1 = [PostCard ''slack'' (ToChannel ''C1'') (renderCard ex_request ''n1'' Pending None)]"
  by (simp_all add: ex_w1_def handleEvent_def ex_pending_def handle_pending_def Let_def bindE_def getE_def read_clock_def
      pending_targets_def ex_service_def post_to_run ex_out_def upd_loc_def modifyE_def retE_def keep_ref_def
      tracked_of_def track_def ex_request_def)

lemma ex_click_principal:
  "\<exists>w. click_principal ex_service ex_out ex_click ex_w1 =
     (Inr (Some \<lparr>pr_teleportUser = ''alice'', pr_email = Some ''al@example.com'', pr_platform = Slack, pr_platformUserId = ''U1''\<rparr>), w)"
  by (simp add: click_principal_def verifyClicker_def Let_def ex_click_def ex_user_def ex_service_def ex_out_def
      eff_defs perform_def resolve_def ex_user_email mapped_user_def)

lemma ex_mint_alice:
  "\<exists>h. mintAssertion ex_hmac ex_key \<lparr>pr_teleportUser = ''alice'', pr_email = Some ''al@example.com'',
     pr_platform = Slack, pr_platformUserId = ''U1''\<rparr> aud now jti = Inr h"
  by (auto simp: mintAssertion_def assertSigningKey_def buildPayload_def ex_key_def Let_def
      validSubject_chars byteLength_def utf8_def utf8_char_def is_ws_def is_cntrl_def code_of_def MIN_SIGNING_KEY_BYTES_def)

lemma ex_tag: "be_inj (o_broker ex_out) = BrokerHttp"
  by (simp add: ex_out_def)

lemma ex_env: "be_hmac (o_broker ex_out) = ex_hmac" "bk_signingKey (sv_broker ex_service) = ex_key"
  by (simp_all add: ex_out_def ex_service_def ex_broker_def)

lemma ex_click_posts:
  "\<exists>cs rq. calls (snd (onClick ex_service ex_out ex_click ex_w1)) = calls ex_w1 @ cs \<and> BrokerHttp rq \<in> set cs \<and>
     fq_method rq = ''POST''"
proof -
  have "\<exists>t. live_click (tracked_of (bc_requestId ex_click) ex_w1) ex_click = Some t" "bc_button ex_click \<noteq> Details"
    by (simp_all add: live_click_iff ex_click_def ex_w1)
  moreover have "\<exists>h. mintAssertion (be_hmac (o_broker ex_out)) (bk_signingKey (sv_broker ex_service))
      \<lparr>pr_teleportUser = ''alice'', pr_email = Some ''al@example.com'', pr_platform = Slack, pr_platformUserId = ''U1''\<rparr> AudBroker now jti = Inr h" for now jti
    using ex_mint_alice by (simp add: ex_env)
  ultimately show ?thesis using ex_click_principal click_posts [OF ex_tag] by blast
qed

theorem pending_posts_once_witness:
  "tracked_of ''r1'' ex_w0 = None \<and> (\<exists>w'. handleEvent ex_service ex_out ex_pending ex_w0 = (Inr (), w') \<and>
     calls w' = [PostCard ''slack'' (ToChannel ''C1'') (renderCard ex_request ''n1'' Pending None)])"
proof -
  have t: "ev_type ex_pending = PendingReview" and r: "ev_request ex_pending = ex_request" "br_id ex_request = ''r1''"
    by (simp_all add: ex_pending_def ex_request_def)
  have n: "tracked_of ''r1'' ex_w0 = None" by (simp add: tracked_of_def)
  have p: "pending_targets ex_service ex_pending = [(''slack'', ToChannel ''C1'')]" "o_nonce ex_out cs = ''n1''" for cs
    by (simp_all add: pending_targets_def ex_service_def ex_pending_def ex_out_def)
  from pending_posts_once [OF t, of ex_w0 ex_service ex_out] n show ?thesis by (auto simp: r p)
qed

definition ex_resolved :: BrokerEvent where
  "ex_resolved = ex_pending\<lparr>ev_type := Resolved, ev_resolution := Some \<lparr>rs_state = Approved, rs_by = ''alice'', rs_mode = ''chat'', rs_reason = ''''\<rparr>\<rparr>"

theorem resolved_closes_witness:
  "\<exists>w'. handleEvent ex_service ex_out ex_resolved ex_w1 = (Inr (), w') \<and> tracked_of ''r1'' w' = None"
proof -
  have t: "ev_type ex_resolved = Resolved" and r: "br_id (ev_request ex_resolved) = ''r1''"
    by (simp_all add: ex_resolved_def ex_pending_def ex_request_def)
  from resolved_closes [OF t, of ex_service ex_out ex_w1] show ?thesis by (auto simp: r)
qed

theorem click_signed_for_clicker_witness:
  "\<exists>rq p. fq_method rq = ''POST'' \<and> signed_for ex_service ex_out ex_click p rq \<and> pr_platformUserId p = ''U1''"
proof -
  obtain cs rq where c: "calls (snd (onClick ex_service ex_out ex_click ex_w1)) = calls ex_w1 @ cs"
    "BrokerHttp rq \<in> set cs" "fq_method rq = ''POST''" using ex_click_posts by blast
  then have g: "fq_method rq \<noteq> ''GET''" by simp
  from click_signed_for_clicker [OF ex_tag c(1,2) g] c(3) show ?thesis
    by (auto simp: ex_out_def ex_user_def)
qed

theorem click_confined_witness:
  "calls (snd (onClick ex_service ex_out (ex_click\<lparr>bc_nonce := ''old''\<rparr>) ex_w1)) = calls ex_w1 @ [Respond STALE True]"
  using click_confined [OF ex_tag, of ex_service "ex_click\<lparr>bc_nonce := ''old''\<rparr>" ex_w1]
  by (simp add: ex_click_def ex_w1)


text \<open>The default reason of a denial is built as the button's name and "d": it reads "denyd".\<close>

theorem deny_reason_text:
  assumes "bc_button c = Deny" and "bc_reason c = None"
  shows "decision_reason c p = ''denyd via '' @ platform_name (cu_platform (bc_user c)) @ '' by '' @ pr_teleportUser p"
  using assms by (simp add: decision_reason_def str_or_def)

end
