(* ===== verification/StreamJson.thy ===== *)
theory StreamJson
  imports Sessions
begin

text \<open>
  The parser of Claude Code's output stream (\<open>services/access-agent/src/agent/stream-json.ts\<close>). The state
  holds the buffer, the collected assistant text and the summary; the deltas handed to the \<open>onDelta\<close>
  callback are recorded in order. A line that is the JSON value \<open>null\<close> makes the source read a property
  of \<open>null\<close>: the line throws, and the lines after it stay in the buffer.
\<close>

record StreamSummary =
  sm_text :: string
  sm_sessionId :: "json option"
  sm_isError :: bool
  sm_subtype :: "json option"
  sm_stopReason :: "json option"
  sm_terminalReason :: "json option"
  sm_numTurns :: "json option"
  sm_costUsd :: "json option"
  sm_toolCalls :: "string list"
  sm_mcpServers :: "(string \<times> string) list"
  sm_complete :: bool

record Parser =
  sp_buffer :: string
  sp_assistantText :: "string list"
  sp_summary :: StreamSummary
  sp_deltas :: "string list"

definition new_parser :: Parser where
  "new_parser = \<lparr>sp_buffer = '''', sp_assistantText = [],
     sp_summary = \<lparr>sm_text = '''', sm_sessionId = None, sm_isError = False, sm_subtype = None, sm_stopReason = None,
       sm_terminalReason = None, sm_numTurns = None, sm_costUsd = None, sm_toolCalls = [], sm_mcpServers = [],
       sm_complete = False\<rparr>,
     sp_deltas = []\<rparr>"

text \<open>\<open>v?.k\<close>: absent and \<open>null\<close> give \<open>undefined\<close>.\<close>

definition jopt :: "string \<Rightarrow> json option \<Rightarrow> json option" where
  "jopt k v = (case v of None \<Rightarrow> None | Some j \<Rightarrow> jfield k j)"

definition is_jnumber :: "json option \<Rightarrow> bool" where
  "is_jnumber v = (case v of Some (JInt _) \<Rightarrow> True | Some (JFrac _) \<Rightarrow> True | _ \<Rightarrow> False)"

definition collected :: "Parser \<Rightarrow> string" where
  "collected p = trim (join [LF] (sp_assistantText p))"

definition mcp_server :: "json \<Rightarrow> string \<times> string" where
  "mcp_server m = (js_undef_string (jfield ''name'' m), js_undef_string (jfield ''status'' m))"

text \<open>One content block of an assistant message.\<close>

definition content_block :: "Parser \<Rightarrow> json \<Rightarrow> Parser" where
  "content_block p b =
     (case (jfield ''type'' b, jstring (jfield ''text'' b), jstring (jfield ''name'' b)) of
        (Some (JStr ty), txt, name) \<Rightarrow>
          if ty = ''text'' then (case txt of Some s \<Rightarrow> p\<lparr>sp_assistantText := sp_assistantText p @ [s]\<rparr> | None \<Rightarrow> p)
          else if ty = ''tool_use'' then
            (case name of
               Some n \<Rightarrow> p\<lparr>sp_summary := (sp_summary p)\<lparr>sm_toolCalls := sm_toolCalls (sp_summary p) @ [n]\<rparr>\<rparr>
             | None \<Rightarrow> p)
          else p
      | _ \<Rightarrow> p)"

definition on_system :: "Parser \<Rightarrow> json \<Rightarrow> js_error + Parser" where
  "on_system p d =
     (case (jfield ''subtype'' d, jfield ''mcp_servers'' d) of
        (Some (JStr sub), Some (JArr ms)) \<Rightarrow>
          if sub \<noteq> ''init'' then Inr p
          else if JNull \<in> set ms then Inl (PlainError ''TypeError'')
          else Inr (p\<lparr>sp_summary := (sp_summary p)\<lparr>sm_mcpServers := map mcp_server ms\<rparr>\<rparr>)
      | _ \<Rightarrow> Inr p)"

definition on_stream_event :: "Parser \<Rightarrow> json \<Rightarrow> Parser" where
  "on_stream_event p d =
     (let ev = jfield ''event'' d; delta = jopt ''delta'' ev in
      if jopt ''type'' ev = Some (JStr ''content_block_delta'') \<and> jopt ''type'' delta = Some (JStr ''text_delta'')
      then (case jstring (jopt ''text'' delta) of Some t \<Rightarrow> p\<lparr>sp_deltas := sp_deltas p @ [t]\<rparr> | None \<Rightarrow> p)
      else p)"

definition on_assistant :: "Parser \<Rightarrow> json \<Rightarrow> Parser" where
  "on_assistant p d =
     (let p1 = (case jopt ''content'' (jfield ''message'' d) of
                  Some (JArr bs) \<Rightarrow> foldl content_block p bs | _ \<Rightarrow> p)
      in if jtruthy (jfield ''is_api_error_message'' d)
         then p1\<lparr>sp_summary := (sp_summary p1)\<lparr>sm_isError := True\<rparr>\<rparr> else p1)"

definition on_result :: "Parser \<Rightarrow> json \<Rightarrow> Parser" where
  "on_result p d =
     p\<lparr>sp_summary := (sp_summary p)
        \<lparr>sm_complete := True, sm_isError := jtruthy (jfield ''is_error'' d), sm_subtype := jfield ''subtype'' d,
         sm_sessionId := jfield ''session_id'' d, sm_stopReason := jfield ''stop_reason'' d,
         sm_terminalReason := jfield ''terminal_reason'' d, sm_numTurns := jfield ''num_turns'' d,
         sm_costUsd := (if is_jnumber (jfield ''total_cost_usd'' d) then jfield ''total_cost_usd'' d else None),
         sm_text := (case jstring (jfield ''result'' d) of
             Some s \<Rightarrow> if s \<noteq> [] then s else collected p | None \<Rightarrow> collected p)\<rparr>\<rparr>"

definition parse_line :: "string \<Rightarrow> Parser \<Rightarrow> js_error + Parser" where
  "parse_line line p =
     (case json_parse line of
        None \<Rightarrow> Inr p
      | Some d \<Rightarrow>
          if d = JNull then Inl (PlainError ''TypeError'')
          else
            (case jfield ''type'' d of
               Some (JStr ty) \<Rightarrow>
                 if ty = ''system'' then on_system p d
                 else if ty = ''stream_event'' then Inr (on_stream_event p d)
                 else if ty = ''assistant'' then Inr (on_assistant p d)
                 else if ty = ''result'' then Inr (on_result p d)
                 else Inr p
             | _ \<Rightarrow> Inr p))"

text \<open>A trimmed line, when it is not empty.\<close>

definition do_line :: "string \<Rightarrow> Parser \<Rightarrow> js_error + Parser" where
  "do_line raw p = (let line = trim raw in if line = [] then Inr p else parse_line line p)"

text \<open>The first newline of the buffer.\<close>

definition cut_line :: "string \<Rightarrow> (string \<times> string) option" where
  "cut_line s = (if LF \<in> set s
     then Some (takeWhile (\<lambda>c. c \<noteq> LF) s, tl (dropWhile (\<lambda>c. c \<noteq> LF) s)) else None)"

lemma cut_line_shorter: "cut_line s = Some (a, b) \<Longrightarrow> length b < length s"
proof -
  assume "cut_line s = Some (a, b)"
  then have "LF \<in> set s" "b = tl (dropWhile (\<lambda>c. c \<noteq> LF) s)" by (auto simp: cut_line_def split: if_splits)
  then show ?thesis
    using length_dropWhile_le [of "\<lambda>c. c \<noteq> LF" s] dropWhile_eq_Nil_conv [of "\<lambda>c. c \<noteq> LF" s]
    by (cases "dropWhile (\<lambda>c. c \<noteq> LF) s") auto
qed

text \<open>The loop of \<open>feed\<close>: the error, if a line threw, and the parser with the rest still in its buffer.\<close>

function drain :: "Parser \<Rightarrow> (js_error + unit) \<times> Parser" where
  "drain p =
     (case cut_line (sp_buffer p) of
        None \<Rightarrow> (Inr (), p)
      | Some (line, rest) \<Rightarrow>
          (case do_line line (p\<lparr>sp_buffer := rest\<rparr>) of
             Inl e \<Rightarrow> (Inl e, p\<lparr>sp_buffer := rest\<rparr>)
           | Inr p' \<Rightarrow> drain (p'\<lparr>sp_buffer := rest\<rparr>)))"
  by pat_completeness auto
termination
  by (relation "measure (\<lambda>p. length (sp_buffer p))") (auto dest: cut_line_shorter)

declare drain.simps [simp del]

definition feed :: "string \<Rightarrow> Parser \<Rightarrow> (js_error + unit) \<times> Parser" where
  "feed chunk p = drain (p\<lparr>sp_buffer := sp_buffer p @ chunk\<rparr>)"

definition finish :: "Parser \<Rightarrow> js_error + Parser" where
  "finish p =
     (case do_line (sp_buffer p) (p\<lparr>sp_buffer := ''''\<rparr>) of
        Inl e \<Rightarrow> Inl e
      | Inr p' \<Rightarrow>
          if \<not> sm_complete (sp_summary p') \<and> sm_text (sp_summary p') = []
          then Inr (p'\<lparr>sp_summary := (sp_summary p')\<lparr>sm_text := collected p'\<rparr>\<rparr>) else Inr p')"

section \<open>Authentication failures\<close>

definition auth_failure_rx :: rx where
  "auth_failure_rx = rx_alts
     [rx_ilit ''not logged in'', rx_ilit ''please run /login'', rx_ilit ''authentication'',
      rx_seqs [rx_ilit ''invalid'', RStar rx_dot, rx_alts [rx_ilit ''token'', rx_ilit ''api key'']],
      rx_ilit ''unauthorized'', rx_ilit ''401'',
      rx_seqs [rx_ilit ''oauth token'', RStar rx_dot, rx_alts [rx_ilit ''expired'', rx_ilit ''revoked'']]]"

definition looksLikeAuthFailure :: "string \<Rightarrow> bool" where
  "looksLikeAuthFailure text = rx_test auth_failure_rx text"

section \<open>Lemmas\<close>

lemma content_block_buffer [simp]: "sp_buffer (content_block p b) = sp_buffer p"
  by (auto simp: content_block_def split: option.splits json.splits)

lemma foldl_content_buffer [simp]: "sp_buffer (foldl content_block p bs) = sp_buffer p"
  by (induction bs arbitrary: p) auto

lemma do_line_buffer: "do_line l p = Inr p' \<Longrightarrow> sp_buffer p' = sp_buffer p"
  by (auto simp: do_line_def parse_line_def on_system_def on_stream_event_def on_assistant_def on_result_def Let_def
      split: if_splits option.splits json.splits prod.splits)

lemma cut_line_append:
  "cut_line s = Some (a, b) \<Longrightarrow> cut_line (s @ t) = Some (a, b @ t)"
proof -
  assume c: "cut_line s = Some (a, b)"
  then have "LF \<in> set s" and a: "a = takeWhile (\<lambda>c. c \<noteq> LF) s" "b = tl (dropWhile (\<lambda>c. c \<noteq> LF) s)"
    by (auto simp: cut_line_def split: if_splits)
  moreover from this(1) have "dropWhile (\<lambda>c. c \<noteq> LF) s \<noteq> []" by (auto simp: dropWhile_eq_Nil_conv)
  ultimately show ?thesis by (auto simp: cut_line_def takeWhile_append dropWhile_append)
qed

lemma cut_line_None: "cut_line s = None \<longleftrightarrow> LF \<notin> set s"
  by (simp add: cut_line_def)

text \<open>A drained buffer holds no newline.\<close>

lemma drain_Inr_buffer: "drain p = (Inr (), p') \<Longrightarrow> LF \<notin> set (sp_buffer p')"
proof (induction p rule: drain.induct)
  case (1 p)
  show ?case
  proof (cases "cut_line (sp_buffer p)")
    case None
    with 1(2) show ?thesis by (simp add: drain.simps [of p] cut_line_None)
  next
    case (Some lr)
    obtain l r where lr: "lr = (l, r)" by force
    with Some 1(2) obtain q where q: "do_line l (p\<lparr>sp_buffer := r\<rparr>) = Inr q" "drain (q\<lparr>sp_buffer := r\<rparr>) = (Inr (), p')"
      by (auto simp: drain.simps [of p] split: sum.splits)
    from 1(1) [OF Some lr [symmetric] q(1) q(2)] show ?thesis .
  qed
qed

text \<open>The lines and the summary do not look at what is behind them in the buffer.\<close>

lemma content_block_rebuffer: "content_block (p\<lparr>sp_buffer := b\<rparr>) c = (content_block p c)\<lparr>sp_buffer := b\<rparr>"
  by (auto simp: content_block_def split: option.splits json.splits)

lemma foldl_content_rebuffer: "foldl content_block (p\<lparr>sp_buffer := b\<rparr>) cs = (foldl content_block p cs)\<lparr>sp_buffer := b\<rparr>"
  by (induction cs arbitrary: p) (simp_all add: content_block_rebuffer)

lemma do_line_rebuffer:
  "do_line l (p\<lparr>sp_buffer := b\<rparr>) = map_sum id (\<lambda>q. q\<lparr>sp_buffer := b\<rparr>) (do_line l p)"
  by (auto simp: do_line_def parse_line_def on_system_def on_stream_event_def on_assistant_def on_result_def Let_def
      collected_def foldl_content_rebuffer split: if_splits option.splits json.splits prod.splits)

lemma drain_append:
  "drain p = (Inr (), p') \<Longrightarrow> drain (p\<lparr>sp_buffer := sp_buffer p @ t\<rparr>) = drain (p'\<lparr>sp_buffer := sp_buffer p' @ t\<rparr>)"
proof (induction p rule: drain.induct)
  case (1 p)
  show ?case
  proof (cases "cut_line (sp_buffer p)")
    case None
    with 1(2) have "p' = p" by (simp add: drain.simps [of p])
    then show ?thesis by simp
  next
    case (Some lr)
    obtain l r where lr: "lr = (l, r)" by force
    with Some 1(2) obtain q where q: "do_line l (p\<lparr>sp_buffer := r\<rparr>) = Inr q" "drain (q\<lparr>sp_buffer := r\<rparr>) = (Inr (), p')"
      by (auto simp: drain.simps [of p] split: sum.splits)
    have q2: "do_line l (p\<lparr>sp_buffer := r @ t\<rparr>) = Inr (q\<lparr>sp_buffer := r @ t\<rparr>)"
      using q(1) do_line_rebuffer [where l = l and p = "p\<lparr>sp_buffer := r\<rparr>" and b = "r @ t"] by simp
    have c: "cut_line (sp_buffer p @ t) = Some (l, r @ t)"
      using cut_line_append [of "sp_buffer p" l r t] Some lr by simp
    have "drain (p\<lparr>sp_buffer := sp_buffer p @ t\<rparr>) = drain (q\<lparr>sp_buffer := r @ t\<rparr>)"
      by (subst drain.simps) (simp add: c q2)
    with 1(1) [OF Some lr [symmetric] q(1) q(2)] show ?thesis by simp
  qed
qed

section \<open>Properties\<close>

text \<open>C30. Chunks do not matter: where the first part of the output parses, feeding the output in two parts gives
  exactly what feeding it at once gives (deltas, summary and buffer), and no complete line is left waiting.\<close>

theorem feed_chunks:
  assumes "feed a p = (Inr (), p')"
  shows "feed (a @ b) p = feed b p' \<and> LF \<notin> set (sp_buffer p')"
  using drain_append [of "p\<lparr>sp_buffer := sp_buffer p @ a\<rparr>" p' b] drain_Inr_buffer assms by (auto simp: feed_def)

theorem feed_chunks_witness:
  "\<exists>p'. feed ''hi'' new_parser = (Inr (), p') \<and> feed ''hi there'' new_parser = feed '' there'' p'"
proof -
  have f: "feed ''hi'' new_parser = (Inr (), new_parser\<lparr>sp_buffer := ''hi''\<rparr>)"
    by (simp add: feed_def drain.simps cut_line_def LF_def new_parser_def)
  from f feed_chunks [OF f, of "'' there''"] show ?thesis by simp
qed

text \<open>A \<open>null\<close> line throws out of \<open>feed\<close>.\<close>

theorem feed_null_throws: "fst (feed (''null'' @ [LF]) new_parser) = Inl (PlainError ''TypeError'')"
  by code_simp
end
