(* ===== verification/McpClient.thy ===== *)
theory McpClient
  imports StreamJson
begin

text \<open>
  The MCP side of the agent (\<open>services/access-agent/src/mcp/client.ts\<close>, \<open>bridge.ts\<close> and
  \<open>assertion-proxy.ts\<close>): the fetch wrapper that signs every request, the pool of sessions, the input
  validation of the bridged tools and the loopback proxy. The MCP SDK (connecting, listing tools,
  terminating), the schema validator and the locale's string order are parameters; a client is the number
  of outside calls made when it was created. Header objects are lists with lower-case names, as in
  \<open>Headers\<close> and \<open>http\<close>.
\<close>

section \<open>Signed requests\<close>

type_synonym HttpHeaders = "(string, string) jsmap"

definition FORBIDDEN_HEADERS :: "string list" where
  "FORBIDDEN_HEADERS = [''x-teleport-user'', ''x-teleport-user-email'']"

definition ASSERTION_HEADER_LC :: string where
  "ASSERTION_HEADER_LC = ''x-teleport-assertion''"

lemma ASSERTION_HEADER_LC: "ASSERTION_HEADER_LC = toLowerCase ASSERTION_HEADER"
  by code_simp

text \<open>What one signed request needs besides its own headers.\<close>

record Signer =
  sg_hmac :: hmac
  sg_sharedToken :: string
  sg_signingKey :: string
  sg_principal :: Principal

definition asserting_headers :: "Signer \<Rightarrow> int \<Rightarrow> string \<Rightarrow> HttpHeaders \<Rightarrow> js_error + HttpHeaders" where
  "asserting_headers sg nowMs jti init =
     (let h1 = foldl (\<lambda>h k. AList.delete k h) init FORBIDDEN_HEADERS;
          h2 = AList.update ''authorization'' (''Bearer '' @ sg_sharedToken sg) h1
      in case mintAssertion (sg_hmac sg) (sg_signingKey sg) (sg_principal sg) AudMcp nowMs jti of
           Inl e \<Rightarrow> Inl e
         | Inr a \<Rightarrow> Inr (AList.update ASSERTION_HEADER_LC a h2))"

definition assertingFetch ::
  "(HttpHeaders \<Rightarrow> 'c) \<Rightarrow> (HttpHeaders \<Rightarrow> 'c list \<Rightarrow> js_error + 'r) \<Rightarrow> ('c list \<Rightarrow> int) \<Rightarrow> ('c list \<Rightarrow> string) \<Rightarrow>
   Signer \<Rightarrow> HttpHeaders \<Rightarrow> (('c, 's) world, js_error, 'r) eff" where
  "assertingFetch tag base now uuid sg init =
     bindE (read_clock now) (\<lambda>t. bindE (read_clock uuid) (\<lambda>jti.
       bindE (liftE (asserting_headers sg t jti init)) (\<lambda>h. perform (tag h) (base h))))"

section \<open>The session pool\<close>

record McpTool =
  mt_name :: string
  mt_inputSchema :: json

record Session =
  ss_client :: nat
  ss_principal :: Principal
  ss_lastUsed :: int

record Pool =
  pl_sessions :: "(string, Session) jsmap"
  pl_toolsCache :: "(int \<times> McpTool list) option"

datatype McpCall =
    McpConnect Principal
  | McpListTools nat
  | McpTerminate nat
  | McpClose nat

record McpOutside =
  mo_now :: "McpCall list \<Rightarrow> int"
  mo_connect :: "Principal \<Rightarrow> McpCall list \<Rightarrow> js_error + unit"
  mo_list :: "nat \<Rightarrow> McpCall list \<Rightarrow> js_error + McpTool list"
  mo_end :: "nat \<Rightarrow> McpCall list \<Rightarrow> js_error + unit"
  mo_le :: "string \<Rightarrow> string \<Rightarrow> bool"

type_synonym 'a pool = "((McpCall, Pool) world, js_error, 'a) eff"

definition sessionKeyFor :: "Principal \<Rightarrow> string" where
  "sessionKeyFor p = platform_name (pr_platform p) @ '':'' @ pr_platformUserId p @ '':'' @ pr_teleportUser p"

definition IDLE_MS :: int where "IDLE_MS = 15 * 60 * 1000"
definition TOOLS_CACHE_MS :: int where "TOOLS_CACHE_MS = 3600000"

definition put_session :: "string \<Rightarrow> Session \<Rightarrow> Pool \<Rightarrow> Pool" where
  "put_session k s pl = pl\<lparr>pl_sessions := AList.update k s (pl_sessions pl)\<rparr>"

definition pool_for :: "McpOutside \<Rightarrow> Principal \<Rightarrow> nat pool" where
  "pool_for o' p =
     (let key = sessionKeyFor p in
      bindE (getE (\<lambda>w. map_of (pl_sessions (loc w)) key)) (\<lambda>ex.
      case ex of
        Some s \<Rightarrow>
          bindE (read_clock (mo_now o')) (\<lambda>t.
            thenE (upd_loc (put_session key (s\<lparr>ss_lastUsed := t\<rparr>))) (retE (ss_client s)))
      | None \<Rightarrow>
          bindE (getE (\<lambda>w. length (calls w))) (\<lambda>client.
          thenE (perform (McpConnect p) (mo_connect o' p))
            (bindE (read_clock (mo_now o')) (\<lambda>t.
              thenE (upd_loc (put_session key \<lparr>ss_client = client, ss_principal = p, ss_lastUsed = t\<rparr>))
                (retE client))))))"

fun insort_le :: "(string \<Rightarrow> string \<Rightarrow> bool) \<Rightarrow> McpTool \<Rightarrow> McpTool list \<Rightarrow> McpTool list" where
  "insort_le le x [] = [x]"
| "insort_le le x (y # ys) = (if le (mt_name x) (mt_name y) then x # y # ys else y # insort_le le x ys)"

definition sort_tools :: "(string \<Rightarrow> string \<Rightarrow> bool) \<Rightarrow> McpTool list \<Rightarrow> McpTool list" where
  "sort_tools le ts = foldr (insort_le le) ts []"

definition identity_param_rx :: rx where
  "identity_param_rx = rx_alts [rx_ilit ''teleport_user'', rx_ilit ''username'', rx_ilit ''principal'']"

definition tool_props :: "McpTool \<Rightarrow> string list" where
  "tool_props t = map fst (nullish (object_entries (jnullish (jfield ''properties'' (mt_inputSchema t)) (JObj []))) [])"

definition identity_params :: "McpTool \<Rightarrow> string list" where
  "identity_params t = filter (rx_test identity_param_rx) (tool_props t)"

fun check_tools :: "McpTool list \<Rightarrow> js_error + unit" where
  "check_tools [] = Inr ()"
| "check_tools (t # ts) =
     (case identity_params t of
        k # _ \<Rightarrow> Inl (PlainError (''MCP tool '' @ mt_name t @ '' exposes identity parameter '' @ k))
      | [] \<Rightarrow> check_tools ts)"

definition pool_tools :: "McpOutside \<Rightarrow> Principal \<Rightarrow> McpTool list pool" where
  "pool_tools o' p =
     bindE (getE (\<lambda>w. pl_toolsCache (loc w))) (\<lambda>c.
     bindE (read_clock (mo_now o')) (\<lambda>t.
     case (case c of Some (at, ts) \<Rightarrow> if t - at < TOOLS_CACHE_MS then Some ts else None | None \<Rightarrow> None) of
       Some ts \<Rightarrow> retE ts
     | None \<Rightarrow>
         bindE (pool_for o' p) (\<lambda>client.
         bindE (perform (McpListTools client) (mo_list o' client)) (\<lambda>ts.
         let sorted = sort_tools (mo_le o') ts in
         thenE (liftE (check_tools sorted))
           (bindE (read_clock (mo_now o')) (\<lambda>t'.
              thenE (upd_loc (\<lambda>pl. pl\<lparr>pl_toolsCache := Some (t', sorted)\<rparr>)) (retE sorted)))))))"

definition pool_close :: "McpOutside \<Rightarrow> string \<Rightarrow> unit pool" where
  "pool_close o' key =
     bindE (getE (\<lambda>w. map_of (pl_sessions (loc w)) key)) (\<lambda>ex.
     case ex of
       None \<Rightarrow> retE ()
     | Some s \<Rightarrow>
         thenE (upd_loc (\<lambda>pl. pl\<lparr>pl_sessions := AList.delete key (pl_sessions pl)\<rparr>))
           (thenE (catchE (perform (McpTerminate (ss_client s)) (mo_end o' (ss_client s))) (\<lambda>_. retE ()))
             (catchE (perform (McpClose (ss_client s)) (mo_end o' (ss_client s))) (\<lambda>_. retE ()))))"

definition pool_closeAll :: "McpOutside \<Rightarrow> unit pool" where
  "pool_closeAll o' = bindE (getE (\<lambda>w. map fst (pl_sessions (loc w)))) (\<lambda>ks. forE ks (pool_close o'))"

definition pool_evict :: "McpOutside \<Rightarrow> unit pool" where
  "pool_evict o' =
     bindE (read_clock (mo_now o')) (\<lambda>now.
     bindE (getE (\<lambda>w. map fst (filter (\<lambda>ks. now - ss_lastUsed (snd ks) > IDLE_MS) (pl_sessions (loc w))))) (\<lambda>ks.
       forE ks (pool_close o')))"

section \<open>Bridged tools\<close>

text \<open>\<open>validate\<close> and \<open>errorsText\<close> are the compiled schema's, \<open>inner\<close> the SDK's tool.\<close>

definition bridged_run ::
  "(json \<Rightarrow> bool) \<Rightarrow> (json \<Rightarrow> string) \<Rightarrow> (json \<Rightarrow> ('s, 'e, string) eff) \<Rightarrow> json \<Rightarrow> ('s, 'e, string) eff" where
  "bridged_run validate errorsText inner args =
     (if \<not> validate args
      then retE (stringify (JObj [(''INVALID_INPUT'', JStr (errorsText args)), (''input'', args)]))
      else inner args)"

section \<open>The loopback proxy\<close>

definition STRIP_REQUEST_HEADERS :: "string list" where
  "STRIP_REQUEST_HEADERS =
     [''authorization'', ''host'', ''connection'', ''keep-alive'', ''proxy-authorization'', ''te'', ''trailer'',
      ''upgrade'', ''x-teleport-user'', ''x-teleport-user-email'', ASSERTION_HEADER_LC]"

definition STRIP_RESPONSE_HEADERS :: "string list" where
  "STRIP_RESPONSE_HEADERS = [''connection'', ''keep-alive'', ''transfer-encoding'']"

definition bearerMatches :: "string option \<Rightarrow> string \<Rightarrow> bool" where
  "bearerMatches header token =
     (case header of
        None \<Rightarrow> False
      | Some hdr \<Rightarrow>
          if hdr = [] then False
          else
            let h = trim hdr in
            if length h < 8 \<or> toLowerCase (take 7 h) \<noteq> ''bearer '' then False
            else
              let presented = trim (drop 7 h) in
              if presented = [] then False
              else length (utf8 presented) = length (utf8 token) \<and> utf8 presented = utf8 token)"

record ProxyOptions =
  po_signer :: Signer
  po_host :: string
  po_pathname :: string
  po_token :: string

definition keep_header :: "string list \<Rightarrow> string \<times> string \<Rightarrow> bool" where
  "keep_header strip kv \<longleftrightarrow> toLowerCase (fst kv) \<notin> set strip"

definition proxy_headers :: "ProxyOptions \<Rightarrow> int \<Rightarrow> string \<Rightarrow> HttpHeaders \<Rightarrow> js_error + HttpHeaders" where
  "proxy_headers po nowMs jti incoming =
     (let sg = po_signer po;
          h1 = filter (keep_header STRIP_REQUEST_HEADERS) incoming;
          h2 = AList.update ''authorization'' (''Bearer '' @ sg_sharedToken sg) (AList.update ''host'' (po_host po) h1)
      in case mintAssertion (sg_hmac sg) (sg_signingKey sg) (sg_principal sg) AudMcp nowMs jti of
           Inl e \<Rightarrow> Inl e
         | Inr a \<Rightarrow> Inr (AList.update ASSERTION_HEADER_LC a h2))"

datatype ProxyOutcome =
    Reject int string
  | Upstream string HttpHeaders
  | Crash js_error

text \<open>One request of the child: refused, or sent upstream with its method and the rewritten headers. A
  principal that cannot be signed for makes the request callback throw.\<close>

definition proxy_request :: "ProxyOptions \<Rightarrow> int \<Rightarrow> string \<Rightarrow> string \<Rightarrow> HttpHeaders \<Rightarrow> ProxyOutcome" where
  "proxy_request po nowMs jti meth incoming =
     (if \<not> bearerMatches (map_of incoming ''authorization'') (po_token po)
      then Reject 401 (stringify (JObj [(''error'', JStr ''unauthorized'')]))
      else
        (case proxy_headers po nowMs jti incoming of
           Inl e \<Rightarrow> Crash e
         | Inr h \<Rightarrow> Upstream meth h))"

text \<open>The answer the child sees: upstream's with its hop-by-hop headers removed, or 502.\<close>

definition proxy_response :: "(int option \<times> HttpHeaders \<times> string) option \<Rightarrow> int \<times> HttpHeaders \<times> string" where
  "proxy_response up =
     (case up of
        None \<Rightarrow> (502, [(''content-type'', ''application/json'')], stringify (JObj [(''error'', JStr ''upstream unavailable'')]))
      | Some (st, h, body) \<Rightarrow> (nullish st 502, filter (keep_header STRIP_RESPONSE_HEADERS) h, body))"

definition proxy_url :: "ProxyOptions \<Rightarrow> nat \<Rightarrow> string" where
  "proxy_url po port = ''http://127.0.0.1:'' @ show_nat port @ po_pathname po"

section \<open>Lemmas\<close>

lemma asserting_headers_Inr:
  assumes "asserting_headers sg t jti init = Inr h"
  shows "map_of h ''authorization'' = Some (''Bearer '' @ sg_sharedToken sg) \<and>
    (\<exists>a. mintAssertion (sg_hmac sg) (sg_signingKey sg) (sg_principal sg) AudMcp t jti = Inr a \<and> map_of h ASSERTION_HEADER_LC = Some a) \<and>
    (\<forall>k \<in> set FORBIDDEN_HEADERS. map_of h k = None)"
  using assms
  by (auto simp: asserting_headers_def Let_def FORBIDDEN_HEADERS_def ASSERTION_HEADER_LC_def update_conv' delete_conv'
      split: sum.splits)

text \<open>The sessions of a pool: each under its principal's key, its client connected for that principal.\<close>

definition pool_ok :: "(McpCall, Pool) world \<Rightarrow> bool" where
  "pool_ok w \<longleftrightarrow>
     (\<forall>k s. map_of (pl_sessions (loc w)) k = Some s \<longrightarrow>
        k = sessionKeyFor (ss_principal s) \<and> ss_client s < length (calls w) \<and>
        calls w ! ss_client s = McpConnect (ss_principal s)) \<and>
     (\<forall>at ts. pl_toolsCache (loc w) = Some (at, ts) \<longrightarrow> (\<forall>t \<in> set ts. identity_params t = []))"

lemma pool_ok_call: "pool_ok w \<Longrightarrow> pool_ok (w\<lparr>calls := calls w @ cs\<rparr>)"
  by (fastforce simp: pool_ok_def nth_append)

lemma pool_ok_perform: "keeps pool_ok (perform c ans)"
  by (rule keeps_perform) (rule pool_ok_call)

lemma pool_ok_del: "keeps pool_ok (upd_loc (\<lambda>pl. pl\<lparr>pl_sessions := AList.delete key (pl_sessions pl)\<rparr>))"
  by (rule keeps_upd_loc) (auto simp: pool_ok_def delete_conv')

lemma pool_ok_put:
  assumes "pool_ok w" and "ss_client s < length (calls w)" and "calls w ! ss_client s = McpConnect (ss_principal s)"
  shows "pool_ok (w\<lparr>loc := put_session (sessionKeyFor (ss_principal s)) s (loc w)\<rparr>)"
  using assms by (auto simp: pool_ok_def put_session_def update_conv' split: if_splits)

lemma pool_close_keeps: "keeps pool_ok (pool_close o' key)"
  unfolding pool_close_def by (auto intro!: keeps_intros pool_ok_perform pool_ok_del split: option.split)

lemma pool_evict_keeps: "keeps pool_ok (pool_evict o')" and pool_closeAll_keeps: "keeps pool_ok (pool_closeAll o')"
  unfolding pool_evict_def pool_closeAll_def by (auto intro!: keeps_intros pool_close_keeps)

text \<open>A pool lookup keeps the invariant and hands out a client that was connected for a principal with the same key.\<close>

lemma pool_for_spec:
  assumes "pool_ok w" and "pool_for o' p w = (r, w')"
  shows "pool_ok w' \<and>
    (\<forall>c. r = Inr c \<longrightarrow> c < length (calls w') \<and> (\<exists>q. calls w' ! c = McpConnect q \<and> sessionKeyFor q = sessionKeyFor p))"
proof (cases "map_of (pl_sessions (loc w)) (sessionKeyFor p)")
  case (Some s)
  with assms(1) have s: "sessionKeyFor p = sessionKeyFor (ss_principal s)" "ss_client s < length (calls w)"
    "calls w ! ss_client s = McpConnect (ss_principal s)" unfolding pool_ok_def by blast+
  let ?s = "s\<lparr>ss_lastUsed := mo_now o' (calls w)\<rparr>"
  have p: "pool_ok (w\<lparr>loc := put_session (sessionKeyFor p) ?s (loc w)\<rparr>)"
    using pool_ok_put [OF assms(1), of ?s] s by simp
  from Some assms(2) have "r = Inr (ss_client s)" "w' = w\<lparr>loc := put_session (sessionKeyFor p) ?s (loc w)\<rparr>"
    by (auto simp: pool_for_def Let_def eff_defs read_clock_def upd_loc_def)
  with p s show ?thesis by auto
next
  case None
  let ?w1 = "w\<lparr>calls := calls w @ [McpConnect p]\<rparr>"
  let ?s = "\<lparr>ss_client = length (calls w), ss_principal = p, ss_lastUsed = mo_now o' (calls w @ [McpConnect p])\<rparr>"
  have k: "pool_ok ?w1" using assms(1) by (rule pool_ok_call)
  have p: "pool_ok (?w1\<lparr>loc := put_session (sessionKeyFor p) ?s (loc ?w1)\<rparr>)"
    using pool_ok_put [OF k, of ?s] by simp
  show ?thesis
  proof (cases "mo_connect o' p (calls w)")
    case (Inl e)
    with None assms(2) k show ?thesis
      by (auto simp: pool_for_def Let_def eff_defs read_clock_def upd_loc_def perform_def)
  next
    case (Inr u)
    with None assms(2) have "r = Inr (length (calls w))" "w' = ?w1\<lparr>loc := put_session (sessionKeyFor p) ?s (loc ?w1)\<rparr>"
      by (auto simp: pool_for_def Let_def eff_defs read_clock_def upd_loc_def perform_def)
    with p show ?thesis by auto
  qed
qed

lemma check_tools_Inr: "check_tools ts = Inr () \<longleftrightarrow> (\<forall>t \<in> set ts. identity_params t = [])"
  by (induction ts) (auto split: list.split)

lemma pool_tools_spec:
  assumes "pool_ok w" and "pool_tools o' p w = (r, w')"
  shows "pool_ok w' \<and> (\<forall>ts. r = Inr ts \<longrightarrow> (\<forall>t \<in> set ts. identity_params t = []))"
proof (cases "\<exists>at ts. pl_toolsCache (loc w) = Some (at, ts) \<and> mo_now o' (calls w) - at < TOOLS_CACHE_MS")
  case True
  then obtain at ts where c: "pl_toolsCache (loc w) = Some (at, ts)" "mo_now o' (calls w) - at < TOOLS_CACHE_MS" by blast
  with assms(2) have "r = Inr ts" "w' = w" by (auto simp: pool_tools_def eff_defs read_clock_def)
  with assms(1) c show ?thesis by (auto simp: pool_ok_def)
next
  case False
  obtain r1 w1 where f: "pool_for o' p w = (r1, w1)" by force
  have k1: "pool_ok w1" using pool_for_spec [OF assms(1) f] by blast
  have miss: "(case pl_toolsCache (loc w) of Some (at, ts) \<Rightarrow> if mo_now o' (calls w) - at < TOOLS_CACHE_MS then Some ts else None
      | None \<Rightarrow> None) = None"
    using False by (auto split: option.split)
  show ?thesis
  proof (cases r1)
    case (Inl e)
    with assms(2) miss f k1 show ?thesis by (auto simp: pool_tools_def bindE_def getE_def read_clock_def)
  next
    case (Inr client)
    let ?w2 = "w1\<lparr>calls := calls w1 @ [McpListTools client]\<rparr>"
    have k2: "pool_ok ?w2" using k1 by (rule pool_ok_call)
    show ?thesis
    proof (cases "\<exists>ts. mo_list o' client (calls w1) = Inr ts \<and> check_tools (sort_tools (mo_le o') ts) = Inr ()")
      case True
      then obtain ts where ts: "mo_list o' client (calls w1) = Inr ts" "check_tools (sort_tools (mo_le o') ts) = Inr ()" by blast
      let ?st = "sort_tools (mo_le o') ts"
      have w': "w' = ?w2\<lparr>loc := (loc ?w2)\<lparr>pl_toolsCache := Some (mo_now o' (calls ?w2), ?st)\<rparr>\<rparr>" "r = Inr ?st"
        using assms(2) miss f Inr ts
        by (auto simp: pool_tools_def Let_def thenE_def bindE_def getE_def read_clock_def perform_def liftE_def upd_loc_def modifyE_def retE_def)
      with k2 ts(2) show ?thesis by (auto simp: check_tools_Inr pool_ok_def)
    next
      case f2: False
      then have "w' = ?w2 \<and> (\<exists>e. r = Inl e)"
        using assms(2) miss f Inr
        by (auto simp: pool_tools_def Let_def thenE_def bindE_def getE_def read_clock_def perform_def liftE_def
            split: sum.splits, metis)
      with k2 show ?thesis by auto
    qed
  qed
qed

text \<open>The runs of a pool.\<close>

inductive pool_run :: "McpOutside \<Rightarrow> (McpCall, Pool) world \<Rightarrow> bool" for o' where
  pr_new: "pool_run o' \<lparr>calls = [], loc = \<lparr>pl_sessions = [], pl_toolsCache = None\<rparr>\<rparr>"
| pr_for: "pool_run o' w \<Longrightarrow> pool_run o' (snd (pool_for o' p w))"
| pr_tools: "pool_run o' w \<Longrightarrow> pool_run o' (snd (pool_tools o' p w))"
| pr_close: "pool_run o' w \<Longrightarrow> pool_run o' (snd (pool_close o' key w))"
| pr_closeAll: "pool_run o' w \<Longrightarrow> pool_run o' (snd (pool_closeAll o' w))"
| pr_evict: "pool_run o' w \<Longrightarrow> pool_run o' (snd (pool_evict o' w))"

lemma pool_run_ok: "pool_run o' w \<Longrightarrow> pool_ok w"
proof (induction rule: pool_run.induct)
  case pr_new
  then show ?case by (simp add: pool_ok_def)
next
  case (pr_for w p)
  then show ?case using pool_for_spec [of w o' p] by (metis prod.collapse)
next
  case (pr_tools w p)
  then show ?case using pool_tools_spec [of w o' p] by (metis prod.collapse)
qed (auto intro: keepsD [OF pool_close_keeps] keepsD [OF pool_closeAll_keeps] keepsD [OF pool_evict_keeps])

text \<open>A pool key determines the chat account and the Teleport name when the names hold no colon.\<close>

lemma platform_no_colon: "CHR '':'' \<notin> set (platform_name p)"
  by (cases p) auto

lemma sessionKeyFor_inj:
  assumes "sessionKeyFor p = sessionKeyFor q" and "CHR '':'' \<notin> set (pr_teleportUser p)" and "CHR '':'' \<notin> set (pr_teleportUser q)"
  shows "pr_platform p = pr_platform q \<and> pr_platformUserId p = pr_platformUserId q \<and> pr_teleportUser p = pr_teleportUser q"
proof -
  let ?a = "\<lambda>p. platform_name (pr_platform p) @ CHR '':'' # pr_platformUserId p"
  have eq: "?a p @ CHR '':'' # pr_teleportUser p = ?a q @ CHR '':'' # pr_teleportUser q"
    using assms(1) by (simp add: sessionKeyFor_def)
  then have t: "pr_teleportUser p = pr_teleportUser q" using last_piece [OF eq assms(2,3)] by simp
  with eq have "?a p = ?a q" by simp
  moreover have "takeWhile (\<lambda>c. c \<noteq> CHR '':'') (?a r) = platform_name (pr_platform r)" for r
    using platform_no_colon [of "pr_platform r"] by (auto simp: takeWhile_append)
  ultimately have "platform_name (pr_platform p) = platform_name (pr_platform q)" by metis
  with \<open>?a p = ?a q\<close> t show ?thesis by simp
qed

lemma proxy_headers_Inr:
  assumes "proxy_headers po t jti inc = Inr h"
  shows "map_of h ''authorization'' = Some (''Bearer '' @ sg_sharedToken (po_signer po)) \<and>
    (\<exists>a. mintAssertion (sg_hmac (po_signer po)) (sg_signingKey (po_signer po)) (sg_principal (po_signer po)) AudMcp t jti = Inr a \<and>
       map_of h ASSERTION_HEADER_LC = Some a) \<and>
    (\<forall>k v. map_of h k = Some v \<longrightarrow> k = ''authorization'' \<or> k = ''host'' \<or> k = ASSERTION_HEADER_LC \<or>
       (k, v) \<in> set inc \<and> toLowerCase k \<notin> set STRIP_REQUEST_HEADERS)"
proof -
  have m: "map_of (filter (keep_header S) inc) k = Some v \<Longrightarrow> (k, v) \<in> set inc \<and> toLowerCase k \<notin> set S" for S k v
    by (auto dest!: map_of_SomeD simp: keep_header_def)
  show ?thesis using assms m
    by (auto simp: proxy_headers_def Let_def ASSERTION_HEADER_LC_def update_conv' split: sum.splits if_splits)
qed

section \<open>Properties\<close>

text \<open>Every request of an MCP session is signed: whatever headers the SDK passes in, the request sent carries
  the shared token and an assertion minted for the session's principal, and none of the legacy identity headers.\<close>

theorem assertingFetch_signed:
  assumes "calls (snd (assertingFetch tag base now uuid sg init w)) \<noteq> calls w"
  shows "\<exists>h a t jti. calls (snd (assertingFetch tag base now uuid sg init w)) = calls w @ [tag h] \<and>
    mintAssertion (sg_hmac sg) (sg_signingKey sg) (sg_principal sg) AudMcp t jti = Inr a \<and>
    map_of h ASSERTION_HEADER_LC = Some a \<and> map_of h ''authorization'' = Some (''Bearer '' @ sg_sharedToken sg) \<and>
    (\<forall>k \<in> set FORBIDDEN_HEADERS. map_of h k = None)"
proof (cases "asserting_headers sg (now (calls w)) (uuid (calls w)) init")
  case (Inl e)
  with assms show ?thesis by (simp add: assertingFetch_def bindE_def read_clock_def liftE_def)
next
  case (Inr h)
  then have "calls (snd (assertingFetch tag base now uuid sg init w)) = calls w @ [tag h]"
    by (simp add: assertingFetch_def bindE_def read_clock_def liftE_def perform_def split: sum.split)
  with asserting_headers_Inr [OF Inr] show ?thesis by blast
qed

definition ex_signer :: Signer where
  "ex_signer = \<lparr>sg_hmac = ex_hmac, sg_sharedToken = ''tok'', sg_signingKey = ex_key,
     sg_principal = \<lparr>pr_teleportUser = ''alice'', pr_email = Some ''al@example.com'', pr_platform = Slack, pr_platformUserId = ''U1''\<rparr>\<rparr>"

lemma ex_signer_mints: "\<exists>h. asserting_headers ex_signer t jti init = Inr h"
  using ex_mint_alice [of AudMcp t jti] by (auto simp: asserting_headers_def Let_def ex_signer_def)

theorem assertingFetch_signed_witness:
  "\<exists>h. calls (snd (assertingFetch id (\<lambda>_ _. Inr ()) (\<lambda>_. 5000) (\<lambda>_. ex_jti) ex_signer [(''x-teleport-user'', ''eve'')]
       \<lparr>calls = [], loc = ()\<rparr>)) = [h] \<and> map_of h ''x-teleport-user'' = None"
proof -
  obtain h where h: "asserting_headers ex_signer 5000 ex_jti [(''x-teleport-user'', ''eve'')] = Inr h"
    using ex_signer_mints by blast
  then have "calls (snd (assertingFetch id (\<lambda>_ _. Inr ()) (\<lambda>_. 5000) (\<lambda>_. ex_jti) ex_signer [(''x-teleport-user'', ''eve'')]
       (\<lparr>calls = [], loc = ()\<rparr> :: (HttpHeaders, unit) world))) \<noteq> calls (\<lparr>calls = [], loc = ()\<rparr> :: (HttpHeaders, unit) world)"
    by (simp add: assertingFetch_def bindE_def read_clock_def liftE_def perform_def)
  from assertingFetch_signed [OF this] show ?thesis by (auto simp: FORBIDDEN_HEADERS_def)
qed


definition ex_mcp :: McpOutside where
  "ex_mcp = \<lparr>mo_now = (\<lambda>_. 0), mo_connect = (\<lambda>_ _. Inr ()), mo_list = (\<lambda>_ _. Inr [\<lparr>mt_name = ''t'', mt_inputSchema = JObj []\<rparr>]),
     mo_end = (\<lambda>_ _. Inr ()), mo_le = (\<lambda>_ _. True)\<rparr>"

abbreviation "ex_pool0 \<equiv> \<lparr>calls = [], loc = \<lparr>pl_sessions = [], pl_toolsCache = None\<rparr>\<rparr> :: (McpCall, Pool) world"

lemma ex_pool_for: "\<exists>w'. pool_for ex_mcp ex_principal ex_pool0 = (Inr 0, w')"
  by (simp add: pool_for_def Let_def eff_defs read_clock_def upd_loc_def perform_def ex_mcp_def)


text \<open>No tool that the model is given has an identity parameter: over any run of the pool, whatever catalogue
  is returned (from the server or from the cache) has no property named after a user, username or principal.\<close>

theorem pool_tools_no_identity:
  assumes "pool_run o' w" and "pool_tools o' p w = (Inr ts, w')" and "t \<in> set ts" and "k \<in> set (tool_props t)"
  shows "\<not> rx_test identity_param_rx k"
proof -
  have "identity_params t = []" using pool_tools_spec [OF pool_run_ok [OF assms(1)] assms(2)] assms(3) by blast
  with assms(4) show ?thesis by (auto simp: identity_params_def filter_empty_conv)
qed

definition ex_tool :: McpTool where
  "ex_tool = \<lparr>mt_name = ''t'', mt_inputSchema = JObj [(''properties'', JObj [(''role'', JObj [])])]\<rparr>"

lemma ex_tool_props: "tool_props ex_tool = [''role'']" "identity_params ex_tool = []"
proof -
  show p: "tool_props ex_tool = [''role'']" by (simp add: tool_props_def ex_tool_def jnullish_def)
  have "\<not> rx_test identity_param_rx ''role''" by code_simp
  with p show "identity_params ex_tool = []" by (simp add: identity_params_def)
qed

theorem pool_tools_no_identity_witness:
  "\<exists>w'. pool_tools (ex_mcp\<lparr>mo_list := (\<lambda>_ _. Inr [ex_tool])\<rparr>) ex_principal ex_pool0 = (Inr [ex_tool], w') \<and>
     \<not> rx_test identity_param_rx ''role''"
proof -
  let ?o = "ex_mcp\<lparr>mo_list := (\<lambda>_ _. Inr [ex_tool])\<rparr>"
  obtain w' where t: "pool_tools ?o ex_principal ex_pool0 = (Inr [ex_tool], w')"
    by (simp add: pool_tools_def pool_for_def Let_def eff_defs read_clock_def upd_loc_def perform_def ex_mcp_def
        sort_tools_def put_session_def ex_tool_props)
  have m: "ex_tool \<in> set [ex_tool]" and r: "''role'' \<in> set (tool_props ex_tool)" by (simp_all add: ex_tool_props)
  from t pool_tools_no_identity [OF pr_new t m r] show ?thesis by blast
qed

text \<open>C24. The loopback proxy fixes the identity: it sends a request upstream only for a child that presented the
  single-use token, with the shared token and an assertion freshly minted for the turn's principal; every other
  header but the host comes unchanged from the child and is neither hop-by-hop nor identity-bearing.\<close>

theorem proxy_fixes_identity:
  assumes "proxy_request po t jti meth inc = Upstream m h"
  shows "m = meth \<and>
    (\<exists>hdr. map_of inc ''authorization'' = Some hdr \<and> trim (drop 7 (trim hdr)) = po_token po \<and> po_token po \<noteq> []) \<and>
    map_of h ''authorization'' = Some (''Bearer '' @ sg_sharedToken (po_signer po)) \<and>
    (\<exists>a. mintAssertion (sg_hmac (po_signer po)) (sg_signingKey (po_signer po)) (sg_principal (po_signer po)) AudMcp t jti = Inr a \<and>
       map_of h ASSERTION_HEADER_LC = Some a) \<and>
    (\<forall>k v. map_of h k = Some v \<longrightarrow> k = ''authorization'' \<or> k = ''host'' \<or> k = ASSERTION_HEADER_LC \<or>
       (k, v) \<in> set inc \<and> toLowerCase k \<notin> set STRIP_REQUEST_HEADERS)"
proof -
  from assms have b: "bearerMatches (map_of inc ''authorization'') (po_token po)"
    and h: "proxy_headers po t jti inc = Inr h" and m: "m = meth"
    by (auto simp: proxy_request_def split: if_splits sum.splits)
  from b have "\<exists>hdr. map_of inc ''authorization'' = Some hdr \<and> trim (drop 7 (trim hdr)) = po_token po \<and> po_token po \<noteq> []"
    by (auto simp: bearerMatches_def Let_def utf8_inj split: option.splits if_splits)
  with proxy_headers_Inr [OF h] m show ?thesis by blast
qed

theorem proxy_fixes_identity_witness:
  "\<exists>h. proxy_request \<lparr>po_signer = ex_signer, po_host = ''mcp:8080'', po_pathname = ''/mcp'', po_token = ''s3''\<rparr> 5000 ex_jti ''POST''
      [(''authorization'', ''Bearer s3''), (''x-teleport-user'', ''eve'')] = Upstream ''POST'' h \<and>
     map_of h ''authorization'' = Some ''Bearer tok''"
proof -
  let ?po = "\<lparr>po_signer = ex_signer, po_host = ''mcp:8080'', po_pathname = ''/mcp'', po_token = ''s3''\<rparr>"
  let ?inc = "[(''authorization'', ''Bearer s3''), (''x-teleport-user'', ''eve'')]"
  have b: "bearerMatches (map_of ?inc ''authorization'') ''s3''" by code_simp
  obtain a where "mintAssertion ex_hmac ex_key (sg_principal ex_signer) AudMcp 5000 ex_jti = Inr a"
    using ex_mint_alice [of AudMcp 5000 ex_jti] by (auto simp: ex_signer_def)
  then obtain h where "proxy_headers ?po 5000 ex_jti ?inc = Inr h"
    by (auto simp: proxy_headers_def Let_def ex_signer_def)
  then have r: "proxy_request ?po 5000 ex_jti ''POST'' ?inc = Upstream ''POST'' h"
    using b by (simp add: proxy_request_def)
  from r proxy_fixes_identity [OF r] show ?thesis by (auto simp: ex_signer_def)
qed

text \<open>A principal that cannot be signed for makes the request callback throw, after the token was checked.\<close>

theorem proxy_unsignable_crashes:
  assumes "bearerMatches (map_of inc ''authorization'') (po_token po)"
    and "\<not> validSubject (pr_teleportUser (sg_principal (po_signer po)))"
  shows "\<exists>e. proxy_request po t jti meth inc = Crash e"
  using assms by (auto simp: proxy_request_def proxy_headers_def mintAssertion_def buildPayload_def Let_def split: sum.split)

end
