(* ===== verification/ClaudeCode.thy ===== *)
theory ClaudeCode
  imports McpClient
begin

text \<open>
  The Claude Code backend (\<open>services/access-agent/src/agent/claude-code-backend.ts\<close> and \<open>backend.ts\<close>): one
  headless child process per turn. Outside are the proxy's listener, the file writes, the child process and
  the random ids. A child is the sequence of output chunks and of the time-out (if it fires) up to its
  \<open>close\<close> or \<open>error\<close> event, which a process always delivers. An exception in an output handler ends the
  source's process; the model ends the turn with it.
\<close>

section \<open>Data\<close>

record TurnInput =
  ti_sessionKey :: string
  ti_principal :: Principal
  ti_platform :: string
  ti_isApprover :: bool
  ti_text :: string

record TurnResult =
  tn_text :: string
  tn_stopReason :: json
  tn_sessionId :: "json option"
  tn_costUsd :: "json option"
  tn_resumeFailed :: bool

record ProbeResult =
  pb_ok :: bool
  pb_detail :: string

definition MCP_SERVER_NAME :: string where "MCP_SERVER_NAME = ''teleport''"

definition ENV_ALLOW_EXACT :: "string list" where
  "ENV_ALLOW_EXACT =
     [''PATH'', ''HOME'', ''USER'', ''LOGNAME'', ''SHELL'', ''TMPDIR'', ''TMP'', ''TEMP'',
      ''LANG'', ''LANGUAGE'', ''TERM'', ''COLORTERM'', ''TZ'',
      ''NODE_OPTIONS'', ''NODE_EXTRA_CA_CERTS'', ''SSL_CERT_FILE'', ''SSL_CERT_DIR'',
      ''HTTP_PROXY'', ''HTTPS_PROXY'', ''NO_PROXY'', ''http_proxy'', ''https_proxy'', ''no_proxy'']"

definition ENV_ALLOW_PREFIX :: "string list" where
  "ENV_ALLOW_PREFIX = [''LC_'', ''CLAUDE_'']"

definition ENV_DENY :: "string list" where
  "ENV_DENY = [''CLAUDE_SESSION_ID'', ''CLAUDE_PARENT_SESSION_ID'', ''CLAUDECODE'', ''CLAUDE_CODE_OAUTH_TOKEN'', ''CLAUDE_CONFIG_DIR'']"

section \<open>What the child gets\<close>

type_synonym EnvMap = "(string, string) jsmap"

definition inherits :: "string \<Rightarrow> bool" where
  "inherits k \<longleftrightarrow> k \<notin> set ENV_DENY \<and> (k \<in> set ENV_ALLOW_EXACT \<or> list_ex (\<lambda>p. starts_with p k) ENV_ALLOW_PREFIX)"

definition buildEnv :: "Config \<Rightarrow> EnvMap \<Rightarrow> string \<Rightarrow> EnvMap" where
  "buildEnv cfg baseEnv homedir =
     (let e0 = filter (\<lambda>kv. inherits (fst kv)) baseEnv;
          e1 = (if truthy (CLAUDE_CODE_OAUTH_TOKEN cfg)
                then AList.update ''CLAUDE_CODE_OAUTH_TOKEN'' (nullish (CLAUDE_CODE_OAUTH_TOKEN cfg) '''') e0 else e0);
          e2 = (if \<not> CLAUDE_ALLOW_LOCAL_LOGIN cfg then AList.update ''CLAUDE_CONFIG_DIR'' (CLAUDE_STATE_DIR cfg) e1 else e1);
          e3 = AList.update ''HOME'' (nullish (map_of e2 ''HOME'') homedir) e2
      in AList.update ''DISABLE_AUTOUPDATER'' ''1''
           (AList.update ''CLAUDE_CODE_DISABLE_NONESSENTIAL_TRAFFIC'' ''1''
             (AList.update ''DISABLE_TELEMETRY'' ''1'' e3)))"

definition buildArgs :: "Config \<Rightarrow> string \<Rightarrow> string \<Rightarrow> bool \<Rightarrow> string \<Rightarrow> string list" where
  "buildArgs cfg mcpConfigPath sessionId resume systemPrompt =
     [''-p'', ''--output-format'', ''stream-json'', ''--verbose'', ''--include-partial-messages'',
      ''--setting-sources'', '''', ''--strict-mcp-config'', ''--mcp-config'', mcpConfigPath, ''--tools'', '''',
      ''--allowedTools'', ''mcp__'' @ MCP_SERVER_NAME @ ''__*'', ''--permission-mode'', ''default'',
      ''--system-prompt'', systemPrompt, ''--model'', CLAUDE_MODEL cfg, ''--max-turns'', ''12'']
     @ [if resume then ''--resume'' else ''--session-id'', sessionId]"

definition mcp_config_json :: "string \<Rightarrow> string \<Rightarrow> string" where
  "mcp_config_json url token =
     stringify (JObj [(''mcpServers'', JObj [(MCP_SERVER_NAME,
       JObj [(''type'', JStr ''http''), (''url'', JStr url),
             (''headers'', JObj [(''Authorization'', JStr (''Bearer '' @ token))])])])])"

section \<open>The outside\<close>

datatype ChildEvent = Stdout string | Stderr string | TimedOut
datatype ChildEnd = Closed "int option" | ChildError string

datatype CcCall =
    MkStateDir string
  | StartProxy Principal
  | CloseProxy
  | WriteConfig string string
  | RemoveConfig string
  | SpawnChild string "string list" EnvMap
  | ChildStdin string
  | KillGroup

record CcOutside =
  co_mkdir :: "CcCall list \<Rightarrow> js_error + unit"
  co_proxy :: "CcCall list \<Rightarrow> js_error + string \<times> string"
  co_write :: "CcCall list \<Rightarrow> js_error + unit"
  co_spawn :: "CcCall list \<Rightarrow> js_error + ChildEvent list \<times> ChildEnd"
  co_uuid :: "CcCall list \<Rightarrow> string"
  co_nowIso :: "CcCall list \<Rightarrow> string"
  co_now :: "CcCall list \<Rightarrow> string"

record CcState =
  cc_stale :: bool
  cc_ids :: StoreState

record CcBackend =
  cb_cfg :: Config
  cb_store :: StoreCfg
  cb_baseEnv :: EnvMap
  cb_homedir :: string
  cb_tmpDir :: string

type_synonym 'a cc = "((CcCall, CcState) world, js_error, 'a) eff"

definition set_stale :: "bool \<Rightarrow> unit cc" where
  "set_stale b = upd_loc (\<lambda>s. s\<lparr>cc_stale := b\<rparr>)"

definition on_ids :: "(StoreState, js_error, 'a) eff \<Rightarrow> 'a cc" where
  "on_ids m = (\<lambda>w. case m (cc_ids (loc w)) of (r, s) \<Rightarrow> (r, w\<lparr>loc := (loc w)\<lparr>cc_ids := s\<rparr>\<rparr>))"

section \<open>One child process\<close>

text \<open>\<open>drive\<close>: the parser and the collected stderr after the child's events, and the number of time-outs.\<close>

fun drive_events :: "ChildEvent list \<Rightarrow> Parser \<Rightarrow> string \<Rightarrow> nat \<Rightarrow> (js_error + Parser \<times> string) \<times> nat" where
  "drive_events [] p err n = (Inr (p, err), n)"
| "drive_events (Stdout d # es) p err n =
     (case feed d p of (Inl e, _) \<Rightarrow> (Inl e, n) | (Inr _, p') \<Rightarrow> drive_events es p' err n)"
| "drive_events (Stderr d # es) p err n = drive_events es p (err @ d) n"
| "drive_events (TimedOut # es) p err n = drive_events es p err (Suc n)"

definition drive :: "string \<Rightarrow> ChildEvent list \<times> ChildEnd \<Rightarrow> (Parser \<times> string \<times> int option) cc" where
  "drive prompt child =
     thenE (perform (ChildStdin prompt) (\<lambda>_. Inr ()))
       (case drive_events (fst child) new_parser '''' 0 of
          (r, kills) \<Rightarrow>
            thenE (forE (replicate kills ()) (\<lambda>_. perform KillGroup (\<lambda>_. Inr ())))
              (case r of
                 Inl e \<Rightarrow> throwE e
               | Inr (p, err) \<Rightarrow>
                   (case snd child of ChildError m \<Rightarrow> throwE (PlainError m) | Closed code \<Rightarrow> retE (p, err, code))))"

definition resume_failed_rx :: rx where
  "resume_failed_rx = rx_alts
     [rx_ilit ''no conversation found'', rx_seqs [rx_ilit ''session'', RStar rx_dot, rx_ilit ''not found''],
      rx_ilit ''could not resume'']"

definition AUTH_TEXT :: string where
  "AUTH_TEXT = ''The assistant's Claude subscription login is not valid right now. An administrator needs to refresh it (make claude-token).''"

text \<open>The verdict on a finished child: the result and what it says about the login (\<^const>\<open>None\<close> leaves \<open>stale\<close>).\<close>

definition judge :: "bool \<Rightarrow> StreamSummary \<Rightarrow> string \<Rightarrow> int option \<Rightarrow> TurnResult \<times> bool option" where
  "judge resume summary stderr code =
     (let ok = (code = Some 0);
          text = str_or (sm_text summary) (if ok then ''(no response)'' else '''');
          failed = (sm_isError summary \<or> \<not> ok);
          out = sm_text summary @ [LF] @ stderr
      in
      if failed \<and> looksLikeAuthFailure out then
        (\<lparr>tn_text = AUTH_TEXT, tn_stopReason = JStr ''auth_error'', tn_sessionId = None, tn_costUsd = None, tn_resumeFailed = False\<rparr>,
         Some True)
      else if resume \<and> failed \<and> rx_test resume_failed_rx out then
        (\<lparr>tn_text = '''', tn_stopReason = JStr ''resume_failed'', tn_sessionId = None, tn_costUsd = None, tn_resumeFailed = True\<rparr>, None)
      else if failed then
        (\<lparr>tn_text = str_or text ''Something went wrong talking to Claude. Please try again.'',
          tn_stopReason = jnullish (sm_terminalReason summary) (JStr ''error''), tn_sessionId = sm_sessionId summary,
          tn_costUsd = None, tn_resumeFailed = False\<rparr>, None)
      else
        (\<lparr>tn_text = text, tn_stopReason = jnullish (sm_stopReason summary) (jnullish (sm_subtype summary) JNull),
          tn_sessionId = sm_sessionId summary, tn_costUsd = sm_costUsd summary, tn_resumeFailed = False\<rparr>, Some False))"

definition turn_prompt :: "TurnInput \<Rightarrow> string \<Rightarrow> string" where
  "turn_prompt inp nowIso =
     perTurnContext \<lparr>tc_teleportUser = pr_teleportUser (ti_principal inp), tc_email = pr_email (ti_principal inp),
       tc_platform = ti_platform inp, tc_isApprover = ti_isApprover inp, tc_nowIso = nowIso\<rparr> @ [LF, LF] @ ti_text inp"

definition config_file :: "CcBackend \<Rightarrow> string \<Rightarrow> string" where
  "config_file b uuid = cb_tmpDir b @ ''/mcp-'' @ uuid @ ''.json''"

text \<open>The part of \<open>once\<close> inside its \<open>try\<close>.\<close>

definition attempt :: "CcBackend \<Rightarrow> CcOutside \<Rightarrow> string \<Rightarrow> string \<Rightarrow> string \<Rightarrow> bool \<Rightarrow> TurnResult cc" where
  "attempt b o' mcpFile prompt sessionId resume =
     (let c = SpawnChild (CLAUDE_CODE_PATH (cb_cfg b)) (buildArgs (cb_cfg b) mcpFile sessionId resume STABLE_SYSTEM)
                (buildEnv (cb_cfg b) (cb_baseEnv b) (cb_homedir b)) in
      bindE (perform c (co_spawn o')) (\<lambda>child.
      bindE (drive prompt child) (\<lambda>(p, stderr, code).
      bindE (liftE (finish p)) (\<lambda>p'.
        case judge resume (sp_summary p') stderr code of
          (res, verdict) \<Rightarrow>
            thenE (case verdict of Some s \<Rightarrow> set_stale s | None \<Rightarrow> retE ()) (retE res)))))"

definition once :: "CcBackend \<Rightarrow> CcOutside \<Rightarrow> TurnInput \<Rightarrow> string \<Rightarrow> bool \<Rightarrow> TurnResult cc" where
  "once b o' inp sessionId resume =
     bindE (perform (StartProxy (ti_principal inp)) (co_proxy o')) (\<lambda>(url, token).
     bindE (read_clock (co_uuid o')) (\<lambda>u.
     let mcpFile = config_file b u in
     thenE (perform (WriteConfig mcpFile (mcp_config_json url token)) (co_write o'))
       (bindE (read_clock (co_nowIso o')) (\<lambda>nowIso.
          finallyE (attempt b o' mcpFile (turn_prompt inp nowIso) sessionId resume)
            (thenE (perform (RemoveConfig mcpFile) (\<lambda>_. Inr ())) (perform CloseProxy (\<lambda>_. Inr ())))))))"

definition cc_run :: "CcBackend \<Rightarrow> CcOutside \<Rightarrow> TurnInput \<Rightarrow> TurnResult cc" where
  "cc_run b o' inp =
     thenE (perform (MkStateDir (CLAUDE_STATE_DIR (cb_cfg b))) (co_mkdir o'))
       (bindE (getE (\<lambda>w. ids_get (ti_sessionKey inp) (cc_ids (loc w)))) (\<lambda>existing.
        bindE (read_clock (co_uuid o')) (\<lambda>u.
        bindE (once b o' inp (nullish existing u) (truthy existing)) (\<lambda>r1.
        bindE (if tn_resumeFailed r1 \<and> truthy existing then
                 bindE (read_clock (co_now o')) (\<lambda>now.
                 thenE (on_ids (ids_delete (cb_store b) now (ti_sessionKey inp)))
                   (bindE (read_clock (co_uuid o')) (\<lambda>u2. once b o' inp u2 False)))
               else retE r1)
          (\<lambda>r.
          bindE (read_clock (co_now o')) (\<lambda>now.
          thenE (whenE (jtruthy (tn_sessionId r))
                   (on_ids (ids_set (cb_store b) now (ti_sessionKey inp) (js_undef_string (tn_sessionId r)))))
            (retE r)))))))"

definition probe_input :: "string \<Rightarrow> TurnInput" where
  "probe_input u = \<lparr>ti_sessionKey = ''probe-'' @ u,
     ti_principal = \<lparr>pr_teleportUser = ''probe'', pr_email = None, pr_platform = Cli, pr_platformUserId = ''probe''\<rparr>,
     ti_platform = ''probe'', ti_isApprover = False, ti_text = ''Reply with exactly: ok''\<rparr>"

definition cc_probe :: "CcBackend \<Rightarrow> CcOutside \<Rightarrow> ProbeResult cc" where
  "cc_probe b o' =
     catchE
       (bindE (read_clock (co_uuid o')) (\<lambda>u.
        bindE (once b o' (probe_input u) u False) (\<lambda>r.
          if tn_stopReason r = JStr ''auth_error'' then retE \<lparr>pb_ok = False, pb_detail = ''claude subscription login rejected''\<rparr>
          else retE \<lparr>pb_ok = True, pb_detail = ''claude cli ok ('' @
                 (if truthy (CLAUDE_CODE_OAUTH_TOKEN (cb_cfg b)) then ''setup-token'' else ''local login'') @
                 '', model '' @ CLAUDE_MODEL (cb_cfg b) @ '')''\<rparr>)))
       (\<lambda>e. retE \<lparr>pb_ok = True, pb_detail = ''probe inconclusive ('' @ err_message e @ '')''\<rparr>)"

section \<open>Lemmas\<close>

lemma map_of_filter_key: "map_of (filter (\<lambda>kv. P (fst kv)) m) k = (if P k then map_of m k else None)"
  by (induction m) auto

lemma buildEnv_lookup:
  "map_of (buildEnv cfg base home) k =
     (if k \<in> {''DISABLE_AUTOUPDATER'', ''CLAUDE_CODE_DISABLE_NONESSENTIAL_TRAFFIC'', ''DISABLE_TELEMETRY''} then Some ''1''
      else if k = ''HOME'' then Some (nullish (map_of base ''HOME'') home)
      else if k = ''CLAUDE_CONFIG_DIR'' then (if CLAUDE_ALLOW_LOCAL_LOGIN cfg then None else Some (CLAUDE_STATE_DIR cfg))
      else if k = ''CLAUDE_CODE_OAUTH_TOKEN'' then
        (if truthy (CLAUDE_CODE_OAUTH_TOKEN cfg) then CLAUDE_CODE_OAUTH_TOKEN cfg else None)
      else if inherits k then map_of base k else None)"
proof -
  have i: "inherits ''HOME''" "\<not> inherits ''CLAUDE_CONFIG_DIR''" "\<not> inherits ''CLAUDE_CODE_OAUTH_TOKEN''"
    by code_simp+
  show ?thesis
    by (auto simp: buildEnv_def Let_def update_conv' map_of_filter_key i elim!: truthyE)
qed

definition is_spawn :: "CcCall \<Rightarrow> bool" where
  "is_spawn c = (case c of SpawnChild _ _ _ \<Rightarrow> True | _ \<Rightarrow> False)"

definition turn_args :: "CcBackend \<Rightarrow> string list \<Rightarrow> bool" where
  "turn_args b args \<longleftrightarrow> (\<exists>f sid res. args = buildArgs (cb_cfg b) f sid res STABLE_SYSTEM)"

lemma turn_args_build: "turn_args b (buildArgs (cb_cfg b) f sid res STABLE_SYSTEM)"
  unfolding turn_args_def by blast

definition turn_config :: "string \<Rightarrow> bool" where
  "turn_config txt \<longleftrightarrow> (\<exists>url token. txt = mcp_config_json url token)"

lemma turn_config_json: "turn_config (mcp_config_json url token)"
  unfolding turn_config_def by blast

text \<open>What a turn may do outside, for the backend and the turn's principal.\<close>

definition turn_call :: "CcBackend \<Rightarrow> Principal \<Rightarrow> CcCall \<Rightarrow> bool" where
  "turn_call b p c =
     (case c of
        SpawnChild cmd args env \<Rightarrow>
          cmd = CLAUDE_CODE_PATH (cb_cfg b) \<and> env = buildEnv (cb_cfg b) (cb_baseEnv b) (cb_homedir b) \<and> turn_args b args
      | StartProxy q \<Rightarrow> q = p
      | WriteConfig f txt \<Rightarrow> turn_config txt
      | _ \<Rightarrow> True)"

lemma appends_drive:
  assumes "\<And>s. P (ChildStdin s)" and "P KillGroup"
  shows "appends P (drive prompt child)"
  unfolding drive_def using assms
  by (auto intro!: appends_intros split: prod.split sum.split ChildEnd.split)

lemma appends_set_stale [appends_intros]: "appends P (set_stale b)"
  unfolding set_stale_def by (rule appends_upd_loc)

lemma appends_on_ids [appends_intros]: "appends P (on_ids m)"
  by (simp add: appends_def on_ids_def split: prod.split)

lemma appends_verdict:
  "appends P (thenE (case v of Some s \<Rightarrow> set_stale s | None \<Rightarrow> retE ()) (retE res))"
  by (cases v) (auto intro!: appends_intros)

lemma appends_attempt: "appends (turn_call b p) (attempt b o' f prompt sid res)"
  unfolding attempt_def Let_def
  by (auto intro!: appends_intros appends_drive appends_verdict simp: turn_call_def turn_args_build split: prod.split)

lemma appends_once:
  assumes "ti_principal inp = p"
  shows "appends (turn_call b p) (once b o' inp sid res)"
  unfolding once_def Let_def using assms
  by (auto intro!: appends_intros appends_attempt simp: turn_call_def turn_config_json split: prod.split)

text \<open>How often a computation spawns a child.\<close>

definition spawns :: "CcCall list \<Rightarrow> nat" where
  "spawns cs = length (filter is_spawn cs)"

lemma spawns_append [simp]: "spawns (a @ b) = spawns a + spawns b" and spawns_Nil [simp]: "spawns [] = 0"
  by (simp_all add: spawns_def)

definition not_spawn :: "CcCall \<Rightarrow> bool" where "not_spawn c \<longleftrightarrow> \<not> is_spawn c"

lemma spawns_not: "list_all not_spawn cs \<Longrightarrow> spawns cs = 0"
  by (induction cs) (auto simp: spawns_def not_spawn_def)

lemma attempt_spawns:
  "\<exists>cs. calls (snd (attempt b o' f pr sid res w)) = calls w @ cs \<and> spawns cs = 1"
proof -
  let ?c = "SpawnChild (CLAUDE_CODE_PATH (cb_cfg b)) (buildArgs (cb_cfg b) f sid res STABLE_SYSTEM)
                (buildEnv (cb_cfg b) (cb_baseEnv b) (cb_homedir b))"
  let ?w = "w\<lparr>calls := calls w @ [?c]\<rparr>"
  have s: "spawns [?c] = 1" by (simp add: spawns_def is_spawn_def)
  show ?thesis
  proof (cases "co_spawn o' (calls w)")
    case (Inl e)
    then have "calls (snd (attempt b o' f pr sid res w)) = calls w @ [?c]"
      by (simp add: attempt_def Let_def bindE_def perform_def)
    with s show ?thesis by blast
  next
    case (Inr child)
    let ?k = "bindE (drive pr child) (\<lambda>(p, stderr, code). bindE (liftE (finish p)) (\<lambda>p'.
        case judge res (sp_summary p') stderr code of
          (r, verdict) \<Rightarrow> thenE (case verdict of Some s \<Rightarrow> set_stale s | None \<Rightarrow> retE ()) (retE r))) :: TurnResult cc"
    have "appends not_spawn ?k"
      by (auto intro!: appends_intros appends_drive appends_verdict simp: not_spawn_def is_spawn_def split: prod.split)
    from appendsD [OF this, where w = ?w] obtain ds where
      "calls (snd (?k ?w)) = calls w @ [?c] @ ds" "spawns ds = 0" using spawns_not by auto
    moreover have "attempt b o' f pr sid res w = ?k ?w"
      using Inr by (simp add: attempt_def Let_def bindE_def perform_def)
    ultimately show ?thesis using s by (intro exI [of _ "[?c] @ ds"]) (simp only: append_assoc spawns_append, simp)
  qed
qed

lemma once_cases:
  "calls (snd (once b o' inp sid res w)) = calls w @ [StartProxy (ti_principal inp)] \<or>
   (\<exists>f txt. calls (snd (once b o' inp sid res w)) = calls w @ [StartProxy (ti_principal inp), WriteConfig f txt] \<and>
      (\<exists>e. co_write o' (calls w @ [StartProxy (ti_principal inp)]) = Inl e)) \<or>
   (\<exists>f txt cs. calls (snd (once b o' inp sid res w)) =
      calls w @ [StartProxy (ti_principal inp), WriteConfig f txt] @ cs @ [RemoveConfig f, CloseProxy] \<and> spawns cs = 1)"
proof (cases "co_proxy o' (calls w)")
  case (Inl e)
  then show ?thesis by (simp add: once_def bindE_def perform_def)
next
  case (Inr ut)
  obtain url token where ut: "ut = (url, token)" by force
  let ?w1 = "w\<lparr>calls := calls w @ [StartProxy (ti_principal inp)]\<rparr>"
  let ?f = "config_file b (co_uuid o' (calls ?w1))"
  let ?c = "WriteConfig ?f (mcp_config_json url token)"
  let ?w2 = "?w1\<lparr>calls := calls ?w1 @ [?c]\<rparr>"
  show ?thesis
  proof (cases "co_write o' (calls ?w1)")
    case (Inl e)
    with Inr ut show ?thesis
      by (auto simp: once_def Let_def thenE_def bindE_def perform_def read_clock_def)
  next
    case i2: (Inr u)
    let ?a = "attempt b o' ?f (turn_prompt inp (co_nowIso o' (calls ?w2))) sid res"
    obtain cs where cs: "calls (snd (?a ?w2)) = calls ?w2 @ cs" "spawns cs = 1" using attempt_spawns by blast
    have "once b o' inp sid res w =
        finallyE ?a (thenE (perform (RemoveConfig ?f) (\<lambda>_. Inr ())) (perform CloseProxy (\<lambda>_. Inr ()))) ?w2"
      using Inr ut i2 by (simp add: once_def Let_def thenE_def bindE_def perform_def read_clock_def)
    then have "calls (snd (once b o' inp sid res w)) = calls ?w2 @ cs @ [RemoveConfig ?f, CloseProxy]"
      using cs by (cases "?a ?w2") (simp add: finallyE_def thenE_def bindE_def perform_def)
    with cs(2) show ?thesis by auto
  qed
qed

text \<open>Bounds on the number of spawned children, through the combinators.\<close>

definition at_most :: "nat \<Rightarrow> ((CcCall, 's) world, 'e, 'a) eff \<Rightarrow> bool" where
  "at_most n m \<longleftrightarrow> (\<forall>w. spawns (calls (snd (m w))) \<le> spawns (calls w) + n)"

lemma at_most_once: "at_most 1 (once b o' inp sid res)"
  unfolding at_most_def
proof
  fix w
  show "spawns (calls (snd (once b o' inp sid res w))) \<le> spawns (calls w) + 1"
    using once_cases [of b o' inp sid res w] by (auto simp: spawns_def is_spawn_def)
qed

lemma at_most_none: "appends not_spawn m \<Longrightarrow> at_most 0 m"
  unfolding at_most_def appends_def using spawns_not by (metis add_0_right order_refl spawns_append)

lemma at_most_mono: "at_most n m \<Longrightarrow> n \<le> k \<Longrightarrow> at_most k m"
  unfolding at_most_def by (meson add_left_mono order_trans)

lemma at_most_bindE:
  assumes "at_most n m" and "\<And>v. at_most k (f v)"
  shows "at_most (n + k) (bindE m f)"
  unfolding at_most_def
proof
  fix w
  obtain r w1 where m: "m w = (r, w1)" by force
  then have n: "spawns (calls w1) \<le> spawns (calls w) + n" using assms(1) unfolding at_most_def by (metis snd_conv)
  show "spawns (calls (snd (bindE m f w))) \<le> spawns (calls w) + (n + k)"
  proof (cases r)
    case (Inl e)
    with m n show ?thesis by (simp add: bindE_def)
  next
    case (Inr v)
    have "spawns (calls (snd (f v w1))) \<le> spawns (calls w1) + k" using assms(2) unfolding at_most_def by blast
    with m n Inr show ?thesis by (simp add: bindE_def)
  qed
qed

lemma at_most_run: "at_most 2 (cc_run b o' inp)"
proof -
  have retry: "at_most 1 (if tn_resumeFailed r1 \<and> truthy ex then
        bindE (read_clock (co_now o')) (\<lambda>now. thenE (on_ids (ids_delete (cb_store b) now (ti_sessionKey inp)))
          (bindE (read_clock (co_uuid o')) (\<lambda>u2. once b o' inp u2 False)))
      else retE r1)" for ex r1
  proof -
    have "at_most (0 + (0 + (0 + 1))) (bindE (read_clock (co_now o')) (\<lambda>now.
        thenE (on_ids (ids_delete (cb_store b) now (ti_sessionKey inp)))
          (bindE (read_clock (co_uuid o')) (\<lambda>u2. once b o' inp u2 False))))"
      unfolding thenE_def by (intro at_most_bindE at_most_once at_most_none appends_intros)
    moreover have "at_most 1 (retE r1 :: TurnResult cc)" by (rule at_most_mono [OF at_most_none]) (auto intro: appends_intros)
    ultimately show ?thesis by simp
  qed
  have store: "at_most 0 (bindE (read_clock (co_now o')) (\<lambda>now.
      thenE (whenE (jtruthy (tn_sessionId r))
               (on_ids (ids_set (cb_store b) now (ti_sessionKey inp) (js_undef_string (tn_sessionId r)))))
        (retE r)))" for r
    by (intro at_most_none appends_intros)
  have "at_most (0 + (0 + (0 + (1 + (1 + 0))))) (cc_run b o' inp)"
    unfolding cc_run_def thenE_def [of "perform _ _"]
    by (intro at_most_bindE at_most_once retry store at_most_none appends_intros) (simp add: not_spawn_def is_spawn_def)
  then show ?thesis by (simp add: numeral_2_eq_2)
qed

section \<open>Properties\<close>

text \<open>The child's environment is confined: every variable is an allow-listed one of the parent with the
  parent's value, or one the backend sets itself; and of the agent's secrets only the Claude token can be there.\<close>

theorem buildEnv_confined:
  assumes "map_of (buildEnv cfg base home) k = Some v"
  shows "(inherits k \<and> map_of base k = Some v \<or> k = ''HOME'' \<and> v = home \<or>
      k = ''CLAUDE_CODE_OAUTH_TOKEN'' \<and> CLAUDE_CODE_OAUTH_TOKEN cfg = Some v \<or>
      k = ''CLAUDE_CONFIG_DIR'' \<and> \<not> CLAUDE_ALLOW_LOCAL_LOGIN cfg \<and> v = CLAUDE_STATE_DIR cfg \<or>
      k \<in> {''DISABLE_AUTOUPDATER'', ''CLAUDE_CODE_DISABLE_NONESSENTIAL_TRAFFIC'', ''DISABLE_TELEMETRY''} \<and> v = ''1'') \<and>
    (k \<in> set SECRET_ENV_VARS \<longrightarrow> k = ''CLAUDE_CODE_OAUTH_TOKEN'')"
proof -
  have h: "inherits ''HOME''" by code_simp
  have s: "list_all (\<lambda>k. k = ''CLAUDE_CODE_OAUTH_TOKEN'' \<or> \<not> inherits k) SECRET_ENV_VARS" by code_simp
  have n: "list_all (\<lambda>k. k \<notin> {''DISABLE_AUTOUPDATER'', ''CLAUDE_CODE_DISABLE_NONESSENTIAL_TRAFFIC'', ''DISABLE_TELEMETRY'',
     ''HOME'', ''CLAUDE_CONFIG_DIR''}) SECRET_ENV_VARS" by code_simp
  from assms h s n show ?thesis
    by (cases "map_of base ''HOME''") (auto simp: buildEnv_lookup list_all_iff split: if_splits)
qed

theorem buildEnv_confined_witness:
  "map_of (buildEnv ex_config [(''PATH'', ''/bin''), (''SLACK_BOT_TOKEN'', ''x'')] ''/root'') ''PATH'' = Some ''/bin'' \<and>
     inherits ''PATH''"
proof -
  have i: "inherits ''PATH''" by code_simp
  then have "map_of (buildEnv ex_config [(''PATH'', ''/bin''), (''SLACK_BOT_TOKEN'', ''x'')] ''/root'') ''PATH'' = Some ''/bin''"
    by (simp add: buildEnv_lookup)
  from buildEnv_confined [OF this] this i show ?thesis by simp
qed

lemma appends_cc_run: "appends (turn_call b (ti_principal inp)) (cc_run b o' inp)"
  unfolding cc_run_def by (auto intro!: appends_intros appends_once simp: turn_call_def)



definition ex_cc :: CcOutside where
  "ex_cc = \<lparr>co_mkdir = (\<lambda>_. Inr ()), co_proxy = (\<lambda>_. Inr (''http://127.0.0.1:1/mcp'', ''tok'')), co_write = (\<lambda>_. Inr ()),
     co_spawn = (\<lambda>_. Inl (PlainError ''ENOENT'')), co_uuid = (\<lambda>_. ex_jti), co_nowIso = (\<lambda>_. ''now''), co_now = (\<lambda>_. ''0'')\<rparr>"

definition ex_backend :: CcBackend where
  "ex_backend = \<lparr>cb_cfg = ex_config, cb_store = ex_store_cfg, cb_baseEnv = [], cb_homedir = ''/root'', cb_tmpDir = ''/tmp''\<rparr>"

abbreviation "ex_cc0 \<equiv> \<lparr>calls = [], loc = \<lparr>cc_stale = False, cc_ids = ex_store\<rparr>\<rparr> :: (CcCall, CcState) world"


text \<open>The probe never accuses on an outside failure: it always returns, and when the turn threw (the proxy, the
  file, the spawn, the output) it reports no failure.\<close>

theorem probe_never_throws:
  "\<exists>r w'. cc_probe b o' w = (Inr r, w') \<and>
     (\<not> pb_ok r \<longleftrightarrow> (\<exists>t. fst (once b o' (probe_input (co_uuid o' (calls w))) (co_uuid o' (calls w)) False w) = Inr t \<and>
        tn_stopReason t = JStr ''auth_error''))"
  by (auto simp: cc_probe_def catchE_def bindE_def read_clock_def retE_def split: prod.splits sum.splits)

text \<open>When writing the MCP configuration fails, the proxy that was started is never closed.\<close>

theorem once_leaks_proxy:
  assumes "co_proxy o' (calls w) = Inr ut" and "co_write o' (calls w @ [StartProxy (ti_principal inp)]) = Inl e"
  shows "\<exists>f txt. calls (snd (once b o' inp sid res w)) = calls w @ [StartProxy (ti_principal inp), WriteConfig f txt]"
  using assms by (auto simp: once_def Let_def thenE_def bindE_def perform_def read_clock_def split: prod.splits)

end
