(* ===== verification/ApiKey.thy ===== *)
theory ApiKey
  imports ClaudeCode
begin

text \<open>
  The API-key backend (\<open>services/access-agent/src/agent/api-key-backend.ts\<close>). The SDK's tool runner is
  outside: for the messages it is given it yields a sequence of assistant messages, may fail after them, has a
  final message (\<open>done\<close>) and may expose the parameters of its last request. The MCP pool is the argument
  \<open>toolsFor\<close>.
\<close>

record AssistantMsg =
  am_content :: "json list"
  am_stop :: "json option"

record RunnerResult =
  rr_msgs :: "AssistantMsg list"
  rr_error :: "js_error option"
  rr_done :: "js_error + AssistantMsg option"
  rr_params :: "json list option"

datatype ApiCall =
    RunTools "json list" "string list"
  | CountTokens string

datatype ApiFailure = AuthRejected string | OtherFailure string

record ApiOutside =
  ao_runner :: "json list \<Rightarrow> ApiCall list \<Rightarrow> RunnerResult"
  ao_count :: "ApiCall list \<Rightarrow> ApiFailure option"
  ao_nowIso :: "ApiCall list \<Rightarrow> string"
  ao_now :: "ApiCall list \<Rightarrow> string"

record ApiState =
  as_stale :: bool
  as_store :: StoreState

record ApiBackend =
  ab_cfg :: Config
  ab_store :: StoreCfg

type_synonym 'a api = "((ApiCall, ApiState) world, js_error, 'a) eff"

definition on_store :: "(StoreState, js_error, 'a) eff \<Rightarrow> 'a api" where
  "on_store m = (\<lambda>w. case m (as_store (loc w)) of (r, s) \<Rightarrow> (r, w\<lparr>loc := (loc w)\<lparr>as_store := s\<rparr>\<rparr>))"

definition mark :: "bool \<Rightarrow> unit api" where
  "mark b = upd_loc (\<lambda>s. s\<lparr>as_stale := b\<rparr>)"

definition api_probe :: "ApiBackend \<Rightarrow> ApiOutside \<Rightarrow> ProbeResult api" where
  "api_probe b o' =
     bindE (perform (CountTokens (CLAUDE_MODEL (ab_cfg b))) (\<lambda>cs. Inr (ao_count o' cs))) (\<lambda>r.
       case r of
         None \<Rightarrow> thenE (mark False) (retE \<lparr>pb_ok = True, pb_detail = ''api key accepted for '' @ CLAUDE_MODEL (ab_cfg b)\<rparr>)
       | Some (AuthRejected m) \<Rightarrow> thenE (mark True) (retE \<lparr>pb_ok = False, pb_detail = ''api key rejected: '' @ m\<rparr>)
       | Some (OtherFailure m) \<Rightarrow> retE \<lparr>pb_ok = True, pb_detail = ''probe inconclusive ('' @ m @ '')''\<rparr>)"

definition msg :: "string \<Rightarrow> json \<Rightarrow> json" where
  "msg role content = JObj [(''role'', JStr role), (''content'', content)]"

definition user_msg :: "TurnInput \<Rightarrow> json" where
  "user_msg inp = msg ''user'' (JStr (ti_text inp))"

definition context_msg :: "TurnInput \<Rightarrow> string \<Rightarrow> json" where
  "context_msg inp nowIso = msg ''system'' (JStr (perTurnContext
     \<lparr>tc_teleportUser = pr_teleportUser (ti_principal inp), tc_email = pr_email (ti_principal inp),
      tc_platform = ti_platform inp, tc_isApprover = ti_isApprover inp, tc_nowIso = nowIso\<rparr>))"

definition stops :: "AssistantMsg \<Rightarrow> bool" where
  "stops m \<longleftrightarrow> am_stop m = Some (JStr ''refusal'') \<or> am_stop m = Some (JStr ''max_tokens'')"

text \<open>The loop over the runner: the messages it takes and whether it was left by \<open>break\<close>.\<close>

fun take_msgs :: "AssistantMsg list \<Rightarrow> AssistantMsg list \<times> bool" where
  "take_msgs [] = ([], False)"
| "take_msgs (m # ms) = (if stops m then ([m], True) else apfst ((#) m) (take_msgs ms))"

definition text_of :: "AssistantMsg \<Rightarrow> string" where
  "text_of m = trim (join [LF]
     (concat (map (\<lambda>b. if jfield ''type'' b = Some (JStr ''text'')
                       then [nullish (jstring (jfield ''text'' b)) ''''] else []) (am_content m))))"

definition final_msg :: "RunnerResult \<Rightarrow> AssistantMsg list \<Rightarrow> AssistantMsg option" where
  "final_msg rr taken =
     (let lst = (if taken = [] then None else Some (last taken)) in
      case rr_done rr of Inl _ \<Rightarrow> lst | Inr None \<Rightarrow> lst | Inr (Some m) \<Rightarrow> Some m)"

definition reply_text :: "AssistantMsg option \<Rightarrow> string" where
  "reply_text fin =
     str_or (case fin of Some m \<Rightarrow> text_of m | None \<Rightarrow> '''')
       (case fin of
          Some m \<Rightarrow> if am_stop m = Some (JStr ''refusal'') then ''I can't help with that request.'' else ''(no response)''
        | None \<Rightarrow> ''(no response)'')"

text \<open>What is stored: the new part of the runner's parameters without system messages, or the turns seen.\<close>

definition to_persist :: "RunnerResult \<Rightarrow> nat \<Rightarrow> TurnInput \<Rightarrow> AssistantMsg list \<Rightarrow> json list" where
  "to_persist rr n inp taken =
     (case rr_params rr of
        Some ps \<Rightarrow> filter (\<lambda>m. jfield ''role'' m \<noteq> Some (JStr ''system'')) (drop n ps)
      | None \<Rightarrow> user_msg inp # map (\<lambda>m. msg ''assistant'' (JArr (am_content m))) taken)"

definition api_run ::
  "(Principal \<Rightarrow> McpTool list api) \<Rightarrow> ApiBackend \<Rightarrow> ApiOutside \<Rightarrow> TurnInput \<Rightarrow> TurnResult api" where
  "api_run toolsFor b o' inp =
     bindE (toolsFor (ti_principal inp)) (\<lambda>tools.
     bindE (\<lambda>w. (session_get (ti_sessionKey inp) (as_store (loc w)), w)) (\<lambda>history.
     bindE (read_clock (ao_nowIso o')) (\<lambda>nowIso.
     let messages = history @ [user_msg inp, context_msg inp nowIso] in
     bindE (perform (RunTools messages (map mt_name tools)) (\<lambda>cs. Inr (ao_runner o' messages cs))) (\<lambda>rr.
     let taken = fst (take_msgs (rr_msgs rr)); broke = snd (take_msgs (rr_msgs rr)) in
     if \<not> broke \<and> rr_error rr \<noteq> None then throwE (nullish (rr_error rr) (PlainError ''''))
     else
       let fin = final_msg rr taken in
       bindE (read_clock (ao_now o')) (\<lambda>now.
       thenE (on_store (session_append (ab_store b) now (ti_sessionKey inp) (to_persist rr (length history) inp taken)))
       (thenE (mark False)
         (retE \<lparr>tn_text = reply_text fin,
                tn_stopReason = jnullish (case fin of Some m \<Rightarrow> am_stop m | None \<Rightarrow> None) JNull,
                tn_sessionId = None, tn_costUsd = None, tn_resumeFailed = False\<rparr>)))))))"

section \<open>Lemmas\<close>

lemma reply_text_ne: "reply_text fin \<noteq> []"
  by (auto simp: reply_text_def str_or_def split: option.split)

lemma to_persist_no_system: "m \<in> set (to_persist rr n inp taken) \<Longrightarrow> jfield ''role'' m \<noteq> Some (JStr ''system'')"
  by (auto simp: to_persist_def user_msg_def msg_def split: option.splits)

lemma take_msgs_prefix: "prefix (fst (take_msgs ms)) ms"
  by (induction ms) auto

section \<open>Properties\<close>

text \<open>A turn through the API: the request is exactly the stored transcript followed by the user's message and
  the per-turn context, for the user's own tools; if the turn returns, its text is never empty and the user's
  transcript is the old one with this turn's messages (end segment, trimmed), none of them a system message, so the
  identity context is never stored; other transcripts are untouched.\<close>

theorem api_run_correct:
  assumes "toolsFor (ti_principal inp) w = (Inr tools, w1)"
    and "session_get (ti_sessionKey inp) (as_store (loc w1)) = Inr h"
    and "api_run toolsFor b o' inp w = (Inr r, w')"
  shows "\<exists>nowIso fresh t. calls w' = calls w1 @ [RunTools (h @ [user_msg inp, context_msg inp nowIso]) (map mt_name tools)] \<and>
    tn_text r \<noteq> [] \<and>
    session_get (ti_sessionKey inp) (as_store (loc w')) = Inr t \<and> suffix t (h @ fresh) \<and>
    (\<forall>m \<in> set fresh. jfield ''role'' m \<noteq> Some (JStr ''system'')) \<and>
    (\<forall>k. k \<noteq> ti_sessionKey inp \<longrightarrow> session_get k (as_store (loc w')) = session_get k (as_store (loc w1)))"
proof -
  let ?iso = "ao_nowIso o' (calls w1)"
  let ?ms = "h @ [user_msg inp, context_msg inp ?iso]"
  let ?w2 = "w1\<lparr>calls := calls w1 @ [RunTools ?ms (map mt_name tools)]\<rparr>"
  let ?rr = "ao_runner o' ?ms (calls w1)"
  let ?fresh = "to_persist ?rr (length h) inp (fst (take_msgs (rr_msgs ?rr)))"
  let ?app = "session_append (ab_store b) (ao_now o' (calls ?w2)) (ti_sessionKey inp) ?fresh (as_store (loc w1))"
  from assms have s: "as_store (loc w') = snd ?app" and c: "calls w' = calls ?w2" and r: "tn_text r \<noteq> []"
    by (auto simp: api_run_def Let_def bindE_def read_clock_def perform_def thenE_def on_store_def mark_def upd_loc_def
        modifyE_def retE_def throwE_def reply_text_ne split: if_splits prod.splits sum.splits)
  from sess.get_append_same [OF assms(2), of "ab_store b" "ao_now o' (calls ?w2)" ?fresh] obtain t where
    t: "session_get (ti_sessionKey inp) (as_store (loc w')) = Inr t" "suffix t (h @ ?fresh)" using s by auto
  have o: "k \<noteq> ti_sessionKey inp \<longrightarrow> session_get k (as_store (loc w')) = session_get k (as_store (loc w1))" for k
    using s sess.get_append_other by simp
  show ?thesis
    by (intro exI [of _ ?iso] exI [of _ ?fresh] exI [of _ t]) (use t o c r to_persist_no_system in auto)
qed

definition ex_api :: ApiOutside where
  "ex_api = \<lparr>ao_runner = (\<lambda>_ _. \<lparr>rr_msgs = [\<lparr>am_content = [JObj [(''type'', JStr ''text''), (''text'', JStr ''hi'')]], am_stop = Some (JStr ''end_turn'')\<rparr>],
        rr_error = None, rr_done = Inr None, rr_params = None\<rparr>),
     ao_count = (\<lambda>_. None), ao_nowIso = (\<lambda>_. ''now''), ao_now = (\<lambda>_. ''0'')\<rparr>"

definition ex_api_backend :: ApiBackend where
  "ex_api_backend = \<lparr>ab_cfg = ex_config, ab_store = ex_store_cfg\<rparr>"

definition ex_turn :: TurnInput where
  "ex_turn = \<lparr>ti_sessionKey = ''k'', ti_principal = ex_principal, ti_platform = ''slack'', ti_isApprover = False, ti_text = ''hello''\<rparr>"

abbreviation "ex_api0 \<equiv> \<lparr>calls = [], loc = \<lparr>as_stale = True, as_store = ex_store\<rparr>\<rparr> :: (ApiCall, ApiState) world"

theorem api_run_correct_witness:
  "\<exists>r w' t. api_run (\<lambda>_. retE []) ex_api_backend ex_api ex_turn ex_api0 = (Inr r, w') \<and> tn_text r \<noteq> [] \<and>
     session_get ''k'' (as_store (loc w')) = Inr t"
proof -
  have t: "(\<lambda>_. retE []) (ti_principal ex_turn) ex_api0 = (Inr [], ex_api0)" by (simp add: retE_def)
  have g: "session_get (ti_sessionKey ex_turn) (as_store (loc ex_api0)) = Inr [ex_msg ''user'' ''a'', ex_msg ''assistant'' ''b'']"
    by (simp add: session_get_def ex_store_def ex_turn_def)
  obtain r w' where a: "api_run (\<lambda>_. retE []) ex_api_backend ex_api ex_turn ex_api0 = (Inr r, w')"
    using g by (simp add: api_run_def Let_def bindE_def retE_def read_clock_def perform_def ex_api_def stops_def thenE_def
        on_store_def mark_def upd_loc_def modifyE_def session_append_def set_data_def persist_def ex_api_backend_def ex_store_cfg_def)
  from api_run_correct [OF t g a] a show ?thesis by (auto simp: ex_turn_def)
qed
end
