(* ===== verification/HttpApp.thy ===== *)
theory HttpApp
  imports ApiKey
begin

text \<open>
  The HTTP surfaces and the wiring (\<open>services/access-agent/src/http/server.ts\<close>, \<open>app.ts\<close>, \<open>index.ts\<close>,
  \<open>cli.ts\<close>, \<open>observability/logger.ts\<close>). The web framework routes a request to the handler registered for
  its method and path; the rate limiter, which only refuses requests, is not modelled. The message handler is a
  function of the operations it is wired to.
\<close>

section \<open>Bodies\<close>

datatype HttpSurface = SurfaceAll | SurfaceInternal | SurfacePublic

definition BODY_LIMIT :: nat where "BODY_LIMIT = 256 * 1024"

text \<open>\<open>{ __raw: raw, ...parsed }\<close>: a later key of the same name replaces the value.\<close>

definition with_raw :: "string \<Rightarrow> (string \<times> json) list \<Rightarrow> json" where
  "with_raw raw kvs = JObj (foldl (\<lambda>m kv. AList.update (fst kv) (snd kv) m) [(''__raw'', JStr raw)] kvs)"

definition parse_json_body :: "string \<Rightarrow> json option" where
  "parse_json_body raw =
     (if raw = [] then Some (with_raw raw [])
      else (case json_parse raw of Some (JObj kvs) \<Rightarrow> Some (with_raw raw kvs) | _ \<Rightarrow> None))"

text \<open>The signed text is put together by a template, where any value becomes a text.\<close>

definition body_raw :: "json \<Rightarrow> string" where
  "body_raw body = nullish (jstring (jfield ''__raw'' body)) ''''"

definition drop_raw :: "json \<Rightarrow> json" where
  "drop_raw body = (case body of JObj kvs \<Rightarrow> JObj (filter (\<lambda>kv. fst kv \<noteq> ''__raw'') kvs) | j \<Rightarrow> j)"

section \<open>Events\<close>

definition status_of :: "string \<Rightarrow> RequestStatus option" where
  "status_of s = (if s = ''pending'' then Some Pending else if s = ''approved'' then Some Approved
     else if s = ''denied'' then Some Denied else if s = ''expired'' then Some Expired else None)"

definition jtext :: "string \<Rightarrow> json \<Rightarrow> string" where
  "jtext k j = nullish (jstring (jfield k j)) ''''"

definition channels_of :: "json option \<Rightarrow> (string \<times> string) list" where
  "channels_of v = (case v of Some (JArr cs) \<Rightarrow> map (\<lambda>c. (jtext ''adapter'' c, jtext ''target'' c)) cs | _ \<Rightarrow> [])"

text \<open>The event a body is cast to; \<^const>\<open>None\<close> for a type the handler ignores.\<close>

definition event_of_json :: "json \<Rightarrow> BrokerEvent option" where
  "event_of_json j =
     (case (jstring (jfield ''type'' j), map_option request_of_json (jfield ''request'' j)) of
        (Some ty, Some (Some rq)) \<Rightarrow>
          if ty \<noteq> ''request.pending_review'' \<and> ty \<noteq> ''request.resolved'' then None
          else Some \<lparr>ev_type = (if ty = ''request.resolved'' then Resolved else PendingReview), ev_request = rq,
            ev_requester_email = jstring (jfield ''requester_email'' j),
            ev_channels = channels_of (jopt ''channels'' (jfield ''notify'' j)),
            ev_mention_approvers = jtruthy (jopt ''mention_approvers'' (jfield ''notify'' j)),
            ev_approver_emails = nullish (jstring_list (jfield ''approver_emails'' j)) [],
            ev_resolution = (case jfield ''resolution'' j of
                Some (JObj d) \<Rightarrow>
                  map_option (\<lambda>st. \<lparr>rs_state = st, rs_by = jtext ''by'' (JObj d), rs_mode = jtext ''mode'' (JObj d),
                    rs_reason = jtext ''reason'' (JObj d)\<rparr>) (status_of (jtext ''state'' (JObj d)))
              | _ \<Rightarrow> None)\<rparr>
      | _ \<Rightarrow> None)"

section \<open>The broker webhook route\<close>

text \<open>The status, the response and the verifier, and the event that is handed on.\<close>

definition broker_events ::
  "hmac \<Rightarrow> int \<Rightarrow> Headers \<Rightarrow> json \<Rightarrow> WebhookVerifier \<Rightarrow> int \<times> json \<times> json option \<times> WebhookVerifier" where
  "broker_events hmac now headers body v =
     (case verify hmac now headers (body_raw body) v of
        (Some err, v') \<Rightarrow> (401, JObj [(''error'', JStr err)], None, v')
      | (None, v') \<Rightarrow> (200, JObj [(''ok'', JBool True)], Some (drop_raw body), v'))"

definition post_event ::
  "hmac \<Rightarrow> int \<Rightarrow> Headers \<Rightarrow> string \<Rightarrow> WebhookVerifier \<Rightarrow> int \<times> json option \<times> WebhookVerifier" where
  "post_event hmac now headers raw v =
     (case parse_json_body raw of
        None \<Rightarrow> (400, None, v)
      | Some body \<Rightarrow> (case broker_events hmac now headers body v of (st, _, ev, v') \<Rightarrow> (st, ev, v')))"

definition readyz :: "js_error + bool \<Rightarrow> int \<times> string" where
  "readyz r = (case r of Inr True \<Rightarrow> (200, ''ready'') | _ \<Rightarrow> (503, ''not-ready''))"

section \<open>Surfaces\<close>

definition internal_routes :: "HttpRoute list" where
  "internal_routes = [\<lparr>hr_method = GET, hr_path = ''/readyz''\<rparr>, \<lparr>hr_method = POST, hr_path = ''/v1/broker/events''\<rparr>]"

definition server_routes :: "HttpSurface \<Rightarrow> HttpRoute list list \<Rightarrow> HttpRoute list" where
  "server_routes surface adapterRoutes =
     \<lparr>hr_method = GET, hr_path = ''/healthz''\<rparr>
     # (if surface \<noteq> SurfacePublic then internal_routes else [])
     @ (if surface \<noteq> SurfaceInternal then concat adapterRoutes else [])"

text \<open>The listeners \<open>index.ts\<close> opens.\<close>

definition listeners :: "Config \<Rightarrow> (HttpSurface \<times> int) list" where
  "listeners cfg =
     (case PUBLIC_PORT cfg of
        None \<Rightarrow> [(SurfaceAll, PORT cfg)]
      | Some p \<Rightarrow> [(SurfaceInternal, PORT cfg), (SurfacePublic, p)])"

text \<open>The adapters \<open>index.ts\<close> creates; an unknown name throws.\<close>

fun main_adapters :: "string list \<Rightarrow> js_error + Platform list" where
  "main_adapters [] = Inr []"
| "main_adapters (name # names) =
     (if name = ''cli'' then main_adapters names
      else
        (case (if name = ''slack'' then Some Slack else if name = ''teams'' then Some Teams
               else if name = ''gchat'' then Some Gchat else None) of
           None \<Rightarrow> Inl (PlainError (''unknown adapter '' @ name))
         | Some p \<Rightarrow> (case main_adapters names of Inl e \<Rightarrow> Inl e | Inr ps \<Rightarrow> Inr (p # ps))))"

section \<open>Wiring\<close>

datatype BackendKind = SubscriptionBackend "string option" | ApiBackendKind "string option" int

definition strip_json :: "string \<Rightarrow> string" where
  "strip_json f = (if ends_with ''.json'' f then take (length f - 5) f else f)"

definition choose_backend :: "Config \<Rightarrow> BackendKind" where
  "choose_backend cfg =
     (if CLAUDE_AUTH_MODE cfg = AuthSubscription then
        SubscriptionBackend (if SESSION_BACKEND cfg = SessionFile
          then Some (strip_json (SESSION_FILE cfg) @ ''-claude-sessions.json'') else None)
      else ApiBackendKind (if SESSION_BACKEND cfg = SessionFile then Some (SESSION_FILE cfg) else None) (SESSION_MAX_TURNS cfg))"

text \<open>The message handler over the operations it is wired to.\<close>

record 's app_ops =
  op_resolve :: "ChatUser \<Rightarrow> ('s, js_error, Principal) eff"
  op_isApprover :: "Principal \<Rightarrow> ('s, js_error, bool) eff"
  op_replyText :: "string \<Rightarrow> ('s, js_error, unit) eff"
  op_startStream :: "('s, js_error, unit) eff"
  op_run :: "TurnInput \<Rightarrow> ('s, js_error, TurnResult) eff"
  op_finish :: "string \<Rightarrow> ('s, js_error, unit) eff"

definition message_key :: "IncomingMessage \<Rightarrow> js_error + string" where
  "message_key m = sessionKey (platform_name (cr_platform (im_conversation m))) (cr_channelId (im_conversation m))
     (cr_threadId (im_conversation m)) (cu_platformUserId (im_user m))"

definition run_turn :: "'s app_ops \<Rightarrow> IncomingMessage \<Rightarrow> Principal \<Rightarrow> ('s, js_error, unit) eff" where
  "run_turn ops m p =
     bindE (op_isApprover ops p) (\<lambda>ok.
     bindE (liftE (message_key m)) (\<lambda>key.
     thenE (op_startStream ops)
       (bindE (op_run ops \<lparr>ti_sessionKey = key, ti_principal = p,
                 ti_platform = platform_name (cr_platform (im_conversation m)), ti_isApprover = ok, ti_text = im_text m\<rparr>)
          (\<lambda>r. op_finish ops (tn_text r)))))"

definition handleMessage :: "'s app_ops \<Rightarrow> IncomingMessage \<Rightarrow> ('s, js_error, unit) eff" where
  "handleMessage ops m =
     bindE (catchE (bindE (op_resolve ops (im_user m)) (\<lambda>p. retE (Some p)))
              (\<lambda>e. case e of
                 IdentityError why \<Rightarrow> thenE (op_replyText ops (''I can't act for you yet: '' @ why @ ''.'')) (retE None)
               | _ \<Rightarrow> throwE e))
       (\<lambda>pr. case pr of None \<Rightarrow> retE () | Some p \<Rightarrow> run_turn ops m p)"

text \<open>Readiness: a broker that answers and a login not known to be stale.\<close>

definition app_ready :: "js_error + json \<Rightarrow> bool \<Rightarrow> js_error + bool" where
  "app_ready hc stale = (case hc of Inl e \<Rightarrow> Inl e | Inr _ \<Rightarrow> Inr (\<not> stale))"

section \<open>The terminal entry point\<close>

definition cli_mode :: "Env \<Rightarrow> string" where
  "cli_mode env = nullish (env ''CLAUDE_AUTH_MODE'') (if truthy (env ''ANTHROPIC_API_KEY'') then ''api-key'' else ''subscription'')"

definition cli_env :: "Env \<Rightarrow> Env" where
  "cli_env env = env
     (''CLAUDE_AUTH_MODE'' \<mapsto> cli_mode env,
      ''CLAUDE_ALLOW_LOCAL_LOGIN'' \<mapsto> nullish (env ''CLAUDE_ALLOW_LOCAL_LOGIN'')
         (if cli_mode env = ''subscription'' \<and> \<not> truthy (env ''CLAUDE_CODE_OAUTH_TOKEN'') then ''true'' else ''false''),
      ''CLAUDE_STATE_DIR'' \<mapsto> nullish (env ''CLAUDE_STATE_DIR'') (nullish (env ''HOME'') ''undefined'' @ ''/.cache/k8s-teleport/claude''),
      ''MCP_URL'' \<mapsto> nullish (env ''MCP_URL'') ''http://localhost:8080/mcp'',
      ''BROKER_URL'' \<mapsto> nullish (env ''BROKER_URL'') ''http://localhost:8081'',
      ''ADAPTERS'' \<mapsto> ''cli'',
      ''LOG_LEVEL'' \<mapsto> nullish (env ''LOG_LEVEL'') ''warn'')"

fun cli_arg :: "string \<Rightarrow> string list \<Rightarrow> string option" where
  "cli_arg name [] = None"
| "cli_arg name (a # as) = (if a = name then (case as of [] \<Rightarrow> None | v # _ \<Rightarrow> Some v) else cli_arg name as)"

definition cli_as :: "string list \<Rightarrow> Env \<Rightarrow> string" where
  "cli_as argv env = nullish (cli_arg ''--as'' argv) (nullish (env ''TELEPORT_USER'') ''admin'')"

definition cli_identity :: "string list \<Rightarrow> Env \<Rightarrow> string \<times> string" where
  "cli_identity argv env =
     (let as' = cli_as argv env in
      (if CHR ''@'' \<in> set as' then hd (split_on (CHR ''@'') as') else as',
       nullish (cli_arg ''--email'' argv) (if CHR ''@'' \<in> set as' then as' else as' @ ''@example.com'')))"

definition script_lines :: "string \<Rightarrow> string list" where
  "script_lines txt = filter (\<lambda>l. trim l \<noteq> [] \<and> \<not> starts_with ''#'' l) (split_on LF txt)"

section \<open>Log redaction\<close>

definition REDACT_PATHS :: "string list" where
  "REDACT_PATHS =
     [''*.token'', ''*.*.token'', ''*.password'', ''*.secret'', ''*.MCP_SHARED_TOKEN'', ''*.BROKER_API_TOKEN'',
      ''*.BROKER_WEBHOOK_SECRET'', ''*.IDENTITY_SIGNING_KEY'', ''*.CLAUDE_CODE_OAUTH_TOKEN'', ''*.ANTHROPIC_API_KEY'',
      ''*.SLACK_BOT_TOKEN'', ''*.SLACK_APP_TOKEN'', ''*.TEAMS_APP_PASSWORD'', ''*.GCHAT_SERVICE_ACCOUNT_JSON'',
      ''*.headers.authorization'', ''*.headers['' @ [DQ] @ ''x-teleport-assertion'' @ [DQ] @ '']'',
      ''req.headers.authorization'', ''req.headers['' @ [DQ] @ ''x-teleport-assertion'' @ [DQ] @ '']'']"

section \<open>Lemmas\<close>

lemma foldl_update_lookup:
  "map_of (foldl (\<lambda>m kv. AList.update (fst kv) (snd kv) m) m kvs) k = (map_of m ++ map_of (rev kvs)) k"
  by (induction kvs arbitrary: m) (auto simp: update_conv' map_add_def split: option.split)

lemma with_raw_lookup:
  "jfield k (with_raw raw kvs) = (case map_of (rev kvs) k of Some v \<Rightarrow> Some v | None \<Rightarrow> if k = ''__raw'' then Some (JStr raw) else None)"
  by (auto simp: with_raw_def foldl_update_lookup map_add_def split: option.split)

lemma foldl_update_filter:
  "filter (\<lambda>kv. fst kv \<noteq> r) (foldl (\<lambda>m kv. AList.update (fst kv) (snd kv) m) m kvs) =
   foldl (\<lambda>m kv. AList.update (fst kv) (snd kv) m) (filter (\<lambda>kv. fst kv \<noteq> r) m) (filter (\<lambda>kv. fst kv \<noteq> r) kvs)"
proof -
  have u: "filter (\<lambda>kv. fst kv \<noteq> r) (AList.update k v m) =
      (if k = r then filter (\<lambda>kv. fst kv \<noteq> r) m else AList.update k v (filter (\<lambda>kv. fst kv \<noteq> r) m))" for k v m
    by (induction m) auto
  show ?thesis by (induction kvs arbitrary: m) (simp_all add: u)
qed

lemma foldl_update_fresh:
  "distinct (map fst (m @ kvs)) \<Longrightarrow> foldl (\<lambda>m kv. AList.update (fst kv) (snd kv) m) m kvs = m @ kvs"
proof (induction kvs arbitrary: m)
  case (Cons kv kvs)
  have "k \<notin> fst ` set m \<Longrightarrow> AList.update k v m = m @ [(k, v)]" for k v by (induction m) auto
  with Cons.prems have "AList.update (fst kv) (snd kv) m = m @ [kv]" by simp
  with Cons show ?case by simp
qed simp

lemma drop_with_raw:
  assumes "distinct (map fst kvs)"
  shows "drop_raw (with_raw raw kvs) = JObj (filter (\<lambda>kv. fst kv \<noteq> ''__raw'') kvs)"
proof -
  have "distinct (map fst (filter (\<lambda>kv. fst kv \<noteq> ''__raw'') kvs))" using assms by (simp add: distinct_map_filter)
  then show ?thesis
    using foldl_update_fresh [of "[]" "filter (\<lambda>kv. fst kv \<noteq> ''__raw'') kvs"]
    by (simp add: drop_raw_def with_raw_def foldl_update_filter)
qed

lemma post_event_Some:
  assumes "post_event hmac now h raw v = (st, Some ev, v')"
  shows "\<exists>body. parse_json_body raw = Some body \<and> fst (verify hmac now h (body_raw body) v) = None \<and>
    st = 200 \<and> ev = drop_raw body \<and> v' = snd (verify hmac now h (body_raw body) v)"
  using assms by (auto simp: post_event_def broker_events_def split: option.splits prod.splits)

lemma main_adapters_known:
  "set names \<subseteq> {''cli'', ''slack'', ''teams'', ''gchat''} \<Longrightarrow> \<exists>ps. main_adapters names = Inr ps \<and> Cli \<notin> set ps"
  by (induction names) auto

text \<open>A body without a member of its own named \<open>__raw\<close> is its text and its members.\<close>

lemma plain_body:
  assumes "parse_json_body raw = Some body" and "json_parse raw = Some (JObj kvs)"
    and "distinct (map fst kvs)" and "''__raw'' \<notin> fst ` set kvs"
  shows "body_raw body = raw \<and> drop_raw body = JObj kvs"
proof -
  have "raw \<noteq> []" using assms(2) by (auto simp: json_parse_def)
  with assms(1,2) have body: "body = with_raw raw kvs" by (simp add: parse_json_body_def)
  have "map_of (rev kvs) ''__raw'' = None" using assms(4) by (simp add: map_of_eq_None_iff)
  then have "body_raw body = raw" by (simp add: body body_raw_def js_undef_string_def with_raw_lookup)
  moreover have "filter (\<lambda>kv. fst kv \<noteq> ''__raw'') kvs = kvs" using assms(4) by (force simp: filter_id_conv)
  ultimately show ?thesis using drop_with_raw [OF assms(3), of raw] by (simp add: body)
qed

section \<open>Properties\<close>

text \<open>An event is handed on only from an authentic request: when the body is a JSON object without a member
  named \<open>__raw\<close>, the event that reaches the notification service is that object, and its exact text is what
  the broker signed, under a timestamp inside the window and an event id not seen before.\<close>

theorem event_authentic:
  assumes "post_event hmac now h raw v = (st, Some ev, v')"
    and "json_parse raw = Some (JObj kvs)" and "distinct (map fst kvs)" and "''__raw'' \<notin> fst ` set kvs"
  shows "ev = JObj kvs \<and> st = 200 \<and> wv_secret v \<noteq> [] \<and>
    (\<exists>i ts. header_get h ''X-Broker-Event-Id'' = Some i \<and> header_get h ''X-Broker-Timestamp'' = Some ts \<and>
       header_get h ''X-Broker-Signature'' = Some (webhook_sign hmac (wv_secret v) ts raw) \<and>
       in_window now (wv_windowMs v) ts \<and> \<not> jm_has (wv_seen v) i)"
proof -
  obtain body where b: "parse_json_body raw = Some body" "fst (verify hmac now h (body_raw body) v) = None" "st = 200" "ev = drop_raw body"
    using post_event_Some [OF assms(1)] by blast
  with plain_body [OF b(1) assms(2-4)] show ?thesis by (auto simp: verify_ok_iff)
qed

text \<open>The spread after \<open>__raw\<close> lets a member of that name replace the raw text: with the headers and the text of
  one authentic request, any other event passes.\<close>

theorem raw_member_forges_event:
  assumes "fst (verify hmac now h raw0 v) = None"
    and "wf_json (JObj ((''__raw'', JStr raw0) # kvs))"
  shows "\<exists>v'. post_event hmac now h (stringify (JObj ((''__raw'', JStr raw0) # kvs))) v = (200, Some (JObj kvs), v')"
proof -
  let ?kvs = "(''__raw'', JStr raw0) # kvs"
  let ?raw = "stringify (JObj ?kvs)"
  have d: "distinct (map fst ?kvs)" using assms(2) by simp
  have p: "parse_json_body ?raw = Some (with_raw ?raw ?kvs)"
    using json_roundtrip [OF assms(2)] by (simp add: parse_json_body_def)
  have "map_of (rev kvs) ''__raw'' = None" using d by (simp add: map_of_eq_None_iff)
  then have "map_of (rev ?kvs) ''__raw'' = Some (JStr raw0)" by (simp add: map_add_def)
  then have b: "body_raw (with_raw ?raw ?kvs) = raw0" by (simp add: body_raw_def js_undef_string_def with_raw_lookup)
  have "filter (\<lambda>kv. fst kv \<noteq> ''__raw'') ?kvs = kvs" using d by (force simp: filter_id_conv)
  then have "drop_raw (with_raw ?raw ?kvs) = JObj kvs" using drop_with_raw [OF d, of ?raw] by simp
  with p b assms(1) show ?thesis
    by (cases "verify hmac now h raw0 v") (auto simp: post_event_def broker_events_def)
qed

lemma ex_accept_event:
  "verify ex_hmac 5000 (ex_headers ''e1'') ''{}'' (new_WebhookVerifier ex_key) =
     (None, (new_WebhookVerifier ex_key)\<lparr>wv_seen := AList.update ''e1'' 5000 (wv_seen (new_WebhookVerifier ex_key))\<rparr>)"
  by (rule ex_accept) (simp_all add: new_WebhookVerifier_def)

theorem event_authentic_witness:
  "\<exists>v'. post_event ex_hmac 5000 (ex_headers ''e1'') ''{}'' (new_WebhookVerifier ex_key) = (200, Some (JObj []), v') \<and>
     wv_secret (new_WebhookVerifier ex_key) \<noteq> []"
proof -
  have j: "json_parse ''{}'' = Some (JObj [])" by code_simp
  have r: "with_raw ''{}'' [] = JObj [(''__raw'', JStr ''{}'')]" by (simp add: with_raw_def)
  obtain v' where p: "post_event ex_hmac 5000 (ex_headers ''e1'') ''{}'' (new_WebhookVerifier ex_key) = (200, Some (JObj []), v')"
    using ex_accept_event by (simp add: post_event_def parse_json_body_def j r broker_events_def body_raw_def js_undef_string_def drop_raw_def)
  from event_authentic [OF p j] p show ?thesis by simp
qed

text \<open>A configuration that loads can be started, and with a public port the surfaces are disjoint: the public
  listener, on another port, has the chat webhooks and the health check only; the broker webhook and the readiness
  probe are on the internal one only, which has no chat webhook.\<close>

theorem surfaces_disjoint:
  assumes "loadConfig is_url readFile env = Inr cfg" and "PUBLIC_PORT cfg = Some p"
  shows "listeners cfg = [(SurfaceInternal, PORT cfg), (SurfacePublic, p)] \<and> p \<noteq> PORT cfg \<and>
    set (server_routes SurfacePublic rs) = insert \<lparr>hr_method = GET, hr_path = ''/healthz''\<rparr> (set (concat rs)) \<and>
    set (server_routes SurfaceInternal rs) = insert \<lparr>hr_method = GET, hr_path = ''/healthz''\<rparr> (set internal_routes) \<and>
    (\<exists>ps. main_adapters (csv (ADAPTERS cfg)) = Inr ps \<and> Cli \<notin> set ps)"
proof -
  have n: "list_all fst (config_needs cfg)" using loadConfig_Inr [OF assms(1)] by blast
  then have "p \<noteq> PORT cfg" using assms(2) by (auto simp: config_needs_def Let_def list_all_if_nil)
  moreover from n have "list_all fst (map (\<lambda>a. (a \<in> set [''cli'', ''slack'', ''teams'', ''gchat''], ''unknown adapter '' @ a)) (csv (ADAPTERS cfg)))"
    by (simp add: config_needs_def Let_def list_all_if_nil)
  then have "set (csv (ADAPTERS cfg)) \<subseteq> {''cli'', ''slack'', ''teams'', ''gchat''}" by (auto simp: list_all_iff)
  ultimately show ?thesis
    using assms(2) main_adapters_known by (auto simp: listeners_def server_routes_def)
qed

lemma parse_config_public:
  assumes "env ''PUBLIC_PORT'' = None"
  shows "parse_config is_url (env(''PUBLIC_PORT'' \<mapsto> ''8083'')) =
    (fst (parse_config is_url env), (snd (parse_config is_url env))\<lparr>PUBLIC_PORT := Some 8083\<rparr>)"
proof -
  have j: "js_number ''8083'' = Some (8083, 0)" by (simp add: js_eval)
  have "z_opt_port (env(''PUBLIC_PORT'' \<mapsto> ''8083'')) ''PUBLIC_PORT'' = ([], Some 8083)" "z_opt_port env ''PUBLIC_PORT'' = ([], None)"
    using assms by (auto simp: z_opt_port_def z_int_def j num_to_int_def MAX_SAFE_INTEGER_def port_ok_def)
  then show ?thesis
    by (simp add: parse_config_def Let_def z_enum_def z_int_def z_url_def z_min_def z_str_def z_bool_def)
qed

lemma ex_load_public:
  "loadConfig (\<lambda>_. True) Inr (ex_env(''PUBLIC_PORT'' \<mapsto> ''8083'')) = Inr (ex_config\<lparr>PUBLIC_PORT := Some 8083\<rparr>)"
proof -
  have s: "resolveSecretFiles Inr (ex_env(''PUBLIC_PORT'' \<mapsto> ''8083'')) = Inr (ex_env(''PUBLIC_PORT'' \<mapsto> ''8083''))"
    by (simp add: resolveSecretFiles_def SECRET_ENV_VARS_def ex_env_def file_var_def)
  have n: "ex_env ''PUBLIC_PORT'' = None" by (simp add: ex_env_def)
  have "PORT ex_config = 8082" by (simp add: ex_config_def parse_config_def Let_def ex_env_def z_int_def)
  with s parse_config_public [where env = ex_env and is_url = "\<lambda>_. True", OF n] show ?thesis
    by (simp add: loadConfig_def ex_config_parse check_needs_Inr config_needs_def Let_def
        chat_adapters_def ex_config_fields ex_csv GUESSING_STRATEGIES_def)
qed

theorem surfaces_disjoint_witness:
  "listeners (ex_config\<lparr>PUBLIC_PORT := Some 8083\<rparr>) = [(SurfaceInternal, PORT ex_config), (SurfacePublic, 8083)] \<and>
     8083 \<noteq> PORT ex_config"
  using surfaces_disjoint [OF ex_load_public, of 8083 "[]"] by simp

text \<open>Every secret the configuration knows is redacted in log objects.\<close>

lemma secrets_redacted: "list_all (\<lambda>k. ''*.'' @ k \<in> set REDACT_PATHS) SECRET_ENV_VARS"
  by code_simp

definition silent :: "((TurnInput, 's) world, js_error, 'a) eff \<Rightarrow> bool" where
  "silent m \<longleftrightarrow> appends (\<lambda>_. False) m"

definition turn_of :: "IncomingMessage \<Rightarrow> TurnInput \<Rightarrow> bool" where
  "turn_of m inp \<longleftrightarrow>
     pr_platform (ti_principal inp) = cu_platform (im_user m) \<and>
     pr_platformUserId (ti_principal inp) = cu_platformUserId (im_user m) \<and> ti_text inp = im_text m \<and>
     message_key m = Inr (ti_sessionKey inp)"

lemma appends_nothing: "silent m \<Longrightarrow> m w = (r, w1) \<Longrightarrow> calls w1 = calls w"
  using appendsD [of "\<lambda>_. False" m w] by (auto simp: silent_def list_all_iff)

text \<open>The part of a turn after the resolution, on the history of runs.\<close>

lemma run_turn_calls:
  assumes "silent (op_isApprover ops p)" and "silent (op_startStream ops)" and "\<And>t. silent (op_finish ops t)"
    and "op_run ops = (\<lambda>inp. perform inp (ans inp))"
    and "pr_platform p = cu_platform (im_user m)" and "pr_platformUserId p = cu_platformUserId (im_user m)"
  shows "\<exists>cs. calls (snd (run_turn ops m p w)) = calls w @ cs \<and> length cs \<le> 1 \<and> list_all (\<lambda>inp. turn_of m inp \<and> ti_principal inp = p) cs"
proof -
  obtain r1 w1 where a: "op_isApprover ops p w = (r1, w1)" by force
  then have c1: "calls w1 = calls w" using appends_nothing assms(1) by blast
  obtain r2 w2 where s: "op_startStream ops w1 = (r2, w2)" by force
  then have c2: "calls w2 = calls w1" using appends_nothing assms(2) by blast
  show ?thesis
  proof (cases r1)
    case (Inl e)
    with a c1 show ?thesis by (simp add: run_turn_def bindE_def)
  next
    case ok: (Inr ok)
    show ?thesis
    proof (cases "message_key m")
      case (Inl e)
      with a c1 ok show ?thesis by (simp add: run_turn_def bindE_def liftE_def)
    next
      case key: (Inr key)
      show ?thesis
      proof (cases r2)
        case (Inl e)
        with a c1 c2 ok key s show ?thesis by (simp add: run_turn_def thenE_def bindE_def liftE_def)
      next
        case (Inr u)
        let ?inp = "\<lparr>ti_sessionKey = key, ti_principal = p, ti_platform = platform_name (cr_platform (im_conversation m)),
            ti_isApprover = ok, ti_text = im_text m\<rparr>"
        let ?w3 = "w2\<lparr>calls := calls w2 @ [?inp]\<rparr>"
        have t: "turn_of m ?inp" using assms(5,6) key by (simp add: turn_of_def)
        have e: "run_turn ops m p w = (case ans ?inp (calls w2) of Inl e \<Rightarrow> (Inl e, ?w3) | Inr r \<Rightarrow> op_finish ops (tn_text r) ?w3)"
          using a ok key s Inr by (simp add: run_turn_def thenE_def bindE_def liftE_def assms(4) perform_def split: sum.split)
        have "calls (snd (op_finish ops t ?w3)) = calls ?w3" for t
          using appends_nothing [OF assms(3) [of t]] by (metis prod.collapse)
        then have "calls (snd (run_turn ops m p w)) = calls w @ [?inp]"
          using e c1 c2 by (simp split: sum.split)
        with t show ?thesis by (intro exI [of _ "[?inp]"]) simp
      qed
    qed
  qed
qed

text \<open>A chat message runs at most one turn, and the turn belongs to its author: the principal is the one resolved
  for the author's account, the session key ends with the author's platform id, and the text is the message's; when
  the identity is refused nothing is run.\<close>

theorem message_turn_bound:
  assumes "op_resolve ops = resolve lookup ir" and "op_run ops = (\<lambda>inp. perform inp (ans inp))"
    and "\<And>u. silent (resolve lookup ir u :: ((TurnInput, 's) world, js_error, Principal) eff)" and "\<And>p. silent (op_isApprover ops p)"
    and "\<And>t. silent (op_replyText ops t)" and "silent (op_startStream ops)" and "\<And>t. silent (op_finish ops t)"
  shows "\<exists>cs. calls (snd (handleMessage ops m w)) = calls w @ cs \<and> length cs \<le> 1 \<and>
    list_all (\<lambda>inp. turn_of m inp \<and> fst (resolve lookup ir (im_user m) w) = Inr (ti_principal inp)) cs \<and>
    ((\<exists>why s. resolve lookup ir (im_user m) w = (Inl (IdentityError why), s)) \<longrightarrow> cs = [])"
proof -
  obtain r w1 where r: "resolve lookup ir (im_user m) w = (r, w1)" by force
  then have c: "calls w1 = calls w" using appends_nothing assms(3) by blast
  show ?thesis
  proof (cases r)
    case (Inr p)
    with ident.binds [of lookup ir "im_user m" w p w1] r have b:
      "pr_platform p = cu_platform (im_user m)" "pr_platformUserId p = cu_platformUserId (im_user m)" by auto
    have "handleMessage ops m w = run_turn ops m p w1"
      using r Inr by (simp add: handleMessage_def assms(1) bindE_def catchE_def retE_def)
    with run_turn_calls [OF assms(4) assms(6,7) assms(2) b, of w1] c r Inr show ?thesis by (auto simp: list_all_iff)
  next
    case (Inl e)
    have "calls (snd (op_replyText ops t w1)) = calls w1" for t
      using appends_nothing [OF assms(5) [of t]] by (metis prod.collapse)
    then have "calls (snd (handleMessage ops m w)) = calls w"
      using r Inl c by (cases e; cases "op_replyText ops (''I can't act for you yet: '' @ err_message e @ ''.'') w1")
        (auto simp: handleMessage_def assms(1) bindE_def catchE_def retE_def thenE_def throwE_def
          split: prod.split sum.split, (metis snd_conv)+)
    then show ?thesis by auto
  qed
qed

definition ex_ops :: "(TurnInput, unit) world app_ops" where
  "ex_ops = \<lparr>op_resolve = resolve None (sv_identity ex_service), op_isApprover = (\<lambda>_. retE False),
     op_replyText = (\<lambda>_. retE ()), op_startStream = retE (),
     op_run = (\<lambda>inp. perform inp ((\<lambda>_ _. Inr \<lparr>tn_text = ''hi'', tn_stopReason = JNull, tn_sessionId = None, tn_costUsd = None,
        tn_resumeFailed = False\<rparr>) inp)),
     op_finish = (\<lambda>_. retE ())\<rparr>"

definition ex_message :: IncomingMessage where
  "ex_message = \<lparr>im_id = ''m'', im_user = ex_user,
     im_conversation = \<lparr>cr_platform = Slack, cr_channelId = ''C1'', cr_threadId = None, cr_raw = None\<rparr>,
     im_text = ''hello'', im_isDirectMessage = True, im_mentionedBot = False\<rparr>"

lemma silent_ret: "silent (retE v)"
  by (simp add: silent_def appends_retE)

lemma silent_resolve: "silent (resolve None ir u :: ((TurnInput, 's) world, js_error, Principal) eff)"
  unfolding silent_def by (rule appends_resolve) simp

theorem message_turn_bound_witness:
  "\<exists>cs. calls (snd (handleMessage ex_ops ex_message \<lparr>calls = [], loc = ()\<rparr>)) = cs \<and> length cs \<le> 1 \<and>
     list_all (turn_of ex_message) cs"
proof -
  have o: "op_resolve ex_ops = resolve None (sv_identity ex_service)" by (simp add: ex_ops_def)
  have n: "op_run ex_ops = (\<lambda>inp. perform inp ((\<lambda>_ _. Inr \<lparr>tn_text = ''hi'', tn_stopReason = JNull, tn_sessionId = None,
      tn_costUsd = None, tn_resumeFailed = False\<rparr>) inp))" by (simp add: ex_ops_def)
  have s: "silent (op_isApprover ex_ops p)" "silent (op_replyText ex_ops t)" "silent (op_startStream ex_ops)" "silent (op_finish ex_ops t)" for p t
    by (simp_all add: ex_ops_def silent_ret)
  from message_turn_bound [OF o n silent_resolve s, of ex_message "\<lparr>calls = [], loc = ()\<rparr>"] show ?thesis
    by (auto simp: list_all_iff)
qed

end
