(* ===== verification/AdapterContract.thy ===== *)
theory AdapterContract
  imports AdapterTypes Effects
begin

text \<open>
  What the application relies on in an adapter's \<open>resolveUser\<close> (\<open>adapters/types.ts\<close>, \<open>ChatAdapter\<close>):
  the user it returns is the account that was asked for, on the adapter's own platform. The notification
  service and the identity resolver bind principals to exactly these two fields. Each adapter that keeps
  state interprets the locale with the invariant of its caches.
\<close>

locale user_directory =
  fixes resolveUser :: "string \<Rightarrow> ClickContext \<Rightarrow> (('c, 's) world, js_error, ChatUser) eff"
    and platform :: Platform
    and inv :: "'s \<Rightarrow> bool"
  assumes keeps_inv: "keeps (\<lambda>w. inv (loc w)) (resolveUser u c)"
    and asked: "inv (loc w) \<Longrightarrow> resolveUser u c w = (Inr v, w') \<Longrightarrow>
      cu_platform v = platform \<and> cu_platformUserId v = u"
begin

lemma inv_after: "inv (loc w) \<Longrightarrow> resolveUser u c w = (r, w') \<Longrightarrow> inv (loc w')"
  using keepsD [OF keeps_inv] by (metis snd_conv)

text \<open>Over any sequence of resolutions, each answer is the account asked for.\<close>

lemma all_asked:
  "inv (loc w) \<Longrightarrow> mapE us (\<lambda>u. resolveUser u c) w = (Inr vs, w') \<Longrightarrow>
   map cu_platformUserId vs = us \<and> list_all (\<lambda>v. cu_platform v = platform) vs"
proof (induction us arbitrary: w vs)
  case Nil
  then show ?case by (simp add: retE_def)
next
  case (Cons u us)
  obtain r w1 where 1: "resolveUser u c w = (r, w1)" by force
  with Cons.prems obtain v where v: "r = Inr v" by (cases r) (auto simp: bindE_def)
  obtain r2 w2 where 2: "mapE us (\<lambda>u. resolveUser u c) w1 = (r2, w2)" by force
  with Cons.prems 1 v obtain vs' where vs': "r2 = Inr vs'" "vs = v # vs'" "w2 = w'"
    by (cases r2) (auto simp: bindE_def retE_def)
  from Cons.IH [OF inv_after [OF Cons.prems(1) 1]] 2 vs'(1,3)
  have "map cu_platformUserId vs' = us \<and> list_all (\<lambda>v. cu_platform v = platform) vs'" by auto
  with asked [OF Cons.prems(1)] 1 v vs' show ?case by auto
qed

end

end
