(* ===== verification/SlackAdapter.thy ===== *)
theory SlackAdapter
  imports HttpApp AdapterContract
begin

text \<open>
  The Slack adapter (\<open>services/access-agent/src/adapters/slack/index.ts\<close>). Outside are the Slack Web API and
  the two registered handlers: a message or a click handed to the application is an outside call that carries
  it. The state is the user cache, the channel cache and the bot's id. The pages of \<open>conversations.list\<close> are a
  finite list, as Slack's pagination ends.
\<close>

section \<open>Vetting a user\<close>

record SlackUserInfo =
  su_id :: "string option"
  su_team_id :: "string option"
  su_name :: "string option"
  su_real_name :: "string option"
  su_deleted :: bool
  su_is_bot :: bool
  su_is_app_user :: bool
  su_is_restricted :: bool
  su_is_ultra_restricted :: bool
  su_is_stranger :: bool
  su_email :: "string option"

definition vetSlackUser :: "SlackUserInfo option \<Rightarrow> string \<Rightarrow> string list \<Rightarrow> js_error + ChatUser" where
  "vetSlackUser u' platformUserId allowedTeams =
     (case u' of
        None \<Rightarrow> Inl (SlackIdentityError ''Slack does not know this user'')
      | Some u \<Rightarrow>
          if allowedTeams = [] then Inl (SlackIdentityError ''no Slack workspace is allowed (SLACK_ALLOWED_TEAM_IDS)'')
          else if \<not> truthy (su_team_id u) \<or> nullish (su_team_id u) '''' \<notin> set allowedTeams then
            Inl (SlackIdentityError ''your Slack workspace is not allowed to use this assistant'')
          else if su_deleted u then Inl (SlackIdentityError ''this Slack account is deactivated'')
          else if su_is_bot u \<or> su_is_app_user u \<or> su_id u = Some ''USLACKBOT'' then
            Inl (SlackIdentityError ''bots cannot use this assistant'')
          else if su_is_stranger u then Inl (SlackIdentityError ''Slack Connect users cannot use this assistant'')
          else if su_is_restricted u \<or> su_is_ultra_restricted u then
            Inl (SlackIdentityError ''guest accounts cannot use this assistant'')
          else Inr \<lparr>cu_platform = Slack, cu_platformUserId = platformUserId,
                    cu_displayName = nullish (su_real_name u) (nullish (su_name u) platformUserId),
                    cu_email = su_email u, cu_emailVerified = truthy (su_email u), cu_tenantId = su_team_id u\<rparr>)"

section \<open>Button payloads\<close>

definition parseJsonObject :: "(json \<Rightarrow> bool) \<Rightarrow> string option \<Rightarrow> json option" where
  "parseJsonObject shape raw =
     (case raw of
        None \<Rightarrow> None
      | Some s \<Rightarrow>
          if s = [] then None
          else (case json_parse s of Some v \<Rightarrow> if is_obj v \<and> shape v then Some v else None | None \<Rightarrow> None))"

definition isButtonValue :: "json \<Rightarrow> bool" where
  "isButtonValue v \<longleftrightarrow> jstring (jfield ''requestId'' v) \<noteq> None \<and> jstring (jfield ''nonce'' v) \<noteq> None"

definition opt_string :: "json option \<Rightarrow> bool" where
  "opt_string v \<longleftrightarrow> v = None \<or> jstring v \<noteq> None"

definition isReasonMeta :: "json \<Rightarrow> bool" where
  "isReasonMeta v \<longleftrightarrow> isButtonValue v \<and>
     (jfield ''button'' v = Some (JStr ''approve'') \<or> jfield ''button'' v = Some (JStr ''deny'')) \<and>
     opt_string (jfield ''channel'' v) \<and> opt_string (jfield ''ts'' v)"

definition button_value :: "string \<Rightarrow> string \<Rightarrow> json" where
  "button_value requestId nonce = JObj [(''requestId'', JStr requestId), (''nonce'', JStr nonce)]"

definition opt_field :: "string \<Rightarrow> string option \<Rightarrow> (string \<times> json) list" where
  "opt_field k v = (case v of Some s \<Rightarrow> [(k, JStr s)] | None \<Rightarrow> [])"

definition reason_meta :: "string \<Rightarrow> string \<Rightarrow> ButtonId \<Rightarrow> string option \<Rightarrow> string option \<Rightarrow> json" where
  "reason_meta requestId nonce button channel ts =
     JObj ([(''requestId'', JStr requestId), (''nonce'', JStr nonce), (''button'', JStr (button_name button))]
       @ opt_field ''channel'' channel @ opt_field ''ts'' ts)"

section \<open>The outside\<close>

datatype SlCall =
    UsersInfo string
  | LookupByEmail string
  | ListChannels
  | SlackPost string "json"
  | SlackUpdate string string json
  | Say string string
  | OpenModal json
  | SlackEphemeral string string
  | HandMessage IncomingMessage
  | HandClick ButtonClick

record SlOutside =
  so_now :: "SlCall list \<Rightarrow> int"
  so_info :: "string \<Rightarrow> SlCall list \<Rightarrow> js_error + SlackUserInfo option"
  so_byEmail :: "string \<Rightarrow> SlCall list \<Rightarrow> js_error + string option"
  so_pages :: "SlCall list \<Rightarrow> js_error + (string \<times> string) list list"
  so_send :: "SlCall \<Rightarrow> SlCall list \<Rightarrow> js_error + string \<times> string"

record SlState =
  sl_botUserId :: string
  sl_userCache :: "(string, int \<times> ChatUser) jsmap"
  sl_channelIds :: "(string, string) jsmap"

record SlackCfg =
  sk_allowedTeams :: "string list"

type_synonym 'a sl = "((SlCall, SlState) world, js_error, 'a) eff"

definition new_SlackAdapter :: "Config \<Rightarrow> SlackCfg" where
  "new_SlackAdapter cfg = \<lparr>sk_allowedTeams = csv (SLACK_ALLOWED_TEAM_IDS cfg)\<rparr>"

definition USER_CACHE_MS :: int where "USER_CACHE_MS = 5 * 60000"

definition sl_send :: "SlOutside \<Rightarrow> SlCall \<Rightarrow> (string \<times> string) sl" where
  "sl_send o' c = perform c (so_send o' c)"

definition ctx_fresh :: "ClickContext \<Rightarrow> bool" where
  "ctx_fresh c \<longleftrightarrow> c = CtxSlack True"

definition slack_resolveUser :: "SlackCfg \<Rightarrow> SlOutside \<Rightarrow> string \<Rightarrow> ClickContext \<Rightarrow> ChatUser sl" where
  "slack_resolveUser cfg o' platformUserId ctx =
     bindE (getE (\<lambda>w. map_of (sl_userCache (loc w)) platformUserId)) (\<lambda>c.
     bindE (read_clock (so_now o')) (\<lambda>t.
     case (case c of Some (at, u) \<Rightarrow> if \<not> ctx_fresh ctx \<and> t - at < USER_CACHE_MS then Some u else None | None \<Rightarrow> None) of
       Some u \<Rightarrow> retE u
     | None \<Rightarrow>
         bindE (perform (UsersInfo platformUserId) (so_info o' platformUserId)) (\<lambda>r.
         bindE (liftE (vetSlackUser r platformUserId (sk_allowedTeams cfg))) (\<lambda>user.
         bindE (read_clock (so_now o')) (\<lambda>t'.
         thenE (upd_loc (\<lambda>s. s\<lparr>sl_userCache := AList.update platformUserId (t', user) (sl_userCache s)\<rparr>))
           (retE user))))))"

section \<open>Events\<close>

record SlackEvent =
  se_user :: "string option"
  se_text :: "string option"
  se_channel :: string
  se_ts :: string
  se_thread_ts :: "string option"
  se_channel_type :: "string option"
  se_team :: "string option"
  se_bot_id :: "string option"
  se_subtype :: "string option"

definition mention_of :: "string \<Rightarrow> string" where
  "mention_of botId = ''<@'' @ botId @ ''>''"

text \<open>\<open>replaceAll\<close> of a non-empty literal.\<close>

function replace_lit :: "string \<Rightarrow> string \<Rightarrow> string \<Rightarrow> string" where
  "replace_lit p r [] = []"
| "replace_lit p r (c # cs) =
     (if p \<noteq> [] \<and> starts_with p (c # cs) then r @ replace_lit p r (drop (length p - 1) cs)
      else c # replace_lit p r cs)"
  by pat_completeness auto
termination
  by (relation "measure (\<lambda>(_, _, s). length s)") auto

definition slack_incoming :: "SlackEvent \<Rightarrow> string \<Rightarrow> ChatUser \<Rightarrow> IncomingMessage" where
  "slack_incoming ev botId user =
     (let text = nullish (se_text ev) '''' in
      \<lparr>im_id = se_ts ev, im_user = user,
       im_conversation = \<lparr>cr_platform = Slack, cr_channelId = se_channel ev,
          cr_threadId = Some (nullish (se_thread_ts ev) (se_ts ev)), cr_raw = None\<rparr>,
       im_text = trim (replace_lit (mention_of botId) '''' text),
       im_isDirectMessage = (se_channel_type ev = Some ''im''),
       im_mentionedBot = str_includes (mention_of botId) text\<rparr>)"

text \<open>Tell the person why they are refused, ignoring a failure to do so, and go no further.\<close>

definition refuse_with :: "(string \<Rightarrow> unit sl) \<Rightarrow> string \<Rightarrow> ChatUser option sl" where
  "refuse_with respond' why =
     thenE (catchE (respond' (''I can't act for you: '' @ why @ ''.'')) (\<lambda>_. retE ())) (retE None)"

definition slack_handle :: "SlackCfg \<Rightarrow> SlOutside \<Rightarrow> SlackEvent \<Rightarrow> unit sl" where
  "slack_handle cfg o' ev =
     (if \<not> truthy (se_user ev) \<or> truthy (se_bot_id ev) \<or> truthy (se_subtype ev) then retE ()
      else if truthy (se_team ev) \<and> nullish (se_team ev) '''' \<notin> set (sk_allowedTeams cfg) then retE ()
      else
        let uid = nullish (se_user ev) ''''; thread = nullish (se_thread_ts ev) (se_ts ev) in
        bindE (catchE (bindE (slack_resolveUser cfg o' uid CtxNone) (\<lambda>u. retE (Some u)))
                 (\<lambda>e. case e of
                    SlackIdentityError why \<Rightarrow> refuse_with (\<lambda>t. bindE (sl_send o' (Say thread t)) (\<lambda>_. retE ())) why
                  | _ \<Rightarrow> throwE e))
          (\<lambda>mu. case mu of
             None \<Rightarrow> retE ()
           | Some user \<Rightarrow>
               bindE (getE (\<lambda>w. sl_botUserId (loc w))) (\<lambda>botId.
               bindE (sl_send o' (HandMessage (slack_incoming ev botId user))) (\<lambda>_. retE ()))))"

text \<open>Plain messages are only handled in direct messages; mentions anywhere.\<close>

definition slack_on_message :: "SlackCfg \<Rightarrow> SlOutside \<Rightarrow> SlackEvent \<Rightarrow> unit sl" where
  "slack_on_message cfg o' ev = whenE (se_channel_type ev = Some ''im'') (slack_handle cfg o' ev)"

section \<open>Clicks\<close>

definition slack_click ::
  "SlackCfg \<Rightarrow> SlOutside \<Rightarrow> string \<Rightarrow> ButtonId \<Rightarrow> string \<Rightarrow> string \<Rightarrow> string \<times> string \<Rightarrow> string option \<Rightarrow> (string \<Rightarrow> unit sl) \<Rightarrow> unit sl" where
  "slack_click cfg o' userId button requestId nonce chTs reason respond' =
     bindE (catchE (bindE (slack_resolveUser cfg o' userId (CtxSlack True)) (\<lambda>u. retE (Some u)))
              (\<lambda>e. case e of
                 SlackIdentityError why \<Rightarrow> refuse_with respond' why
               | _ \<Rightarrow> throwE e))
       (\<lambda>mu. case mu of
          None \<Rightarrow> retE ()
        | Some user \<Rightarrow>
            bindE (sl_send o' (HandClick
              \<lparr>bc_user = user, bc_button = button, bc_requestId = requestId, bc_nonce = nonce,
               bc_message = \<lparr>pm_conversation = \<lparr>cr_platform = Slack, cr_channelId = fst chTs, cr_threadId = None, cr_raw = None\<rparr>,
                  pm_messageId = snd chTs\<rparr>,
               bc_reason = reason, bc_ctx = CtxSlack True\<rparr>)) (\<lambda>_. retE ()))"

record SlackAction =
  sa_userId :: string
  sa_actionId :: string
  sa_value :: "string option"
  sa_channel :: "string option"
  sa_ts :: "string option"

definition action_button :: "string \<Rightarrow> ButtonId option" where
  "action_button aid = (if aid = ''access.approve'' then Some Approve else if aid = ''access.deny'' then Some Deny
     else if aid = ''access.details'' then Some Details else None)"

definition ephemeral_reply :: "SlOutside \<Rightarrow> string \<Rightarrow> string \<Rightarrow> unit sl" where
  "ephemeral_reply o' uid t = bindE (sl_send o' (SlackEphemeral uid t)) (\<lambda>_. retE ())"

definition slack_action :: "SlackCfg \<Rightarrow> SlOutside \<Rightarrow> SlackAction \<Rightarrow> unit sl" where
  "slack_action cfg o' a =
     (case action_button (sa_actionId a) of
        None \<Rightarrow> retE ()
      | Some button \<Rightarrow>
          (case parseJsonObject isButtonValue (sa_value a) of
             None \<Rightarrow> catchE (ephemeral_reply o' (sa_userId a) ''This button is malformed; ask the assistant for the current state.'') (\<lambda>_. retE ())
           | Some v \<Rightarrow>
               let requestId = jtext ''requestId'' v; nonce = jtext ''nonce'' v in
               if button = Details then
                 slack_click cfg o' (sa_userId a) button requestId nonce (nullish (sa_channel a) '''', nullish (sa_ts a) '''') None
                   (ephemeral_reply o' (sa_userId a))
               else
                 bindE (sl_send o' (OpenModal (reason_meta requestId nonce button (sa_channel a) (sa_ts a)))) (\<lambda>_. retE ())))"

record SlackView =
  sv_userId :: string
  sv_metadata :: "string option"
  sv_reason :: "string option"

definition slack_view :: "SlackCfg \<Rightarrow> SlOutside \<Rightarrow> SlackView \<Rightarrow> unit sl" where
  "slack_view cfg o' v =
     (case parseJsonObject isReasonMeta (sv_metadata v) of
        None \<Rightarrow> retE ()
      | Some meta \<Rightarrow>
          slack_click cfg o' (sv_userId v)
            (if jfield ''button'' meta = Some (JStr ''approve'') then Approve else Deny)
            (jtext ''requestId'' meta) (jtext ''nonce'' meta) (jtext ''channel'' meta, jtext ''ts'' meta)
            (Some (nullish (sv_reason v) ''''))
            (\<lambda>t. if jtext ''channel'' meta \<noteq> [] then catchE (ephemeral_reply o' (sv_userId v) t) (\<lambda>_. retE ()) else retE ()))"

section \<open>Cards\<close>

definition jblock :: "string \<Rightarrow> (string \<times> json) list \<Rightarrow> json" where
  "jblock ty kvs = JObj ((''type'', JStr ty) # kvs)"

definition plain_text :: "string \<Rightarrow> json" where
  "plain_text t = jblock ''plain_text'' [(''text'', JStr t)]"

definition style_name :: "ButtonStyle \<Rightarrow> string" where
  "style_name st = (case st of Primary \<Rightarrow> ''primary'' | Danger \<Rightarrow> ''danger'')"

definition status_emoji :: "RequestStatus \<Rightarrow> string" where
  "status_emoji st = (case st of Pending \<Rightarrow> '':hourglass_flowing_sand:'' | Approved \<Rightarrow> '':white_check_mark:''
     | Denied \<Rightarrow> '':no_entry:'' | Expired \<Rightarrow> '':alarm_clock:'')"

definition button_element :: "RequestCard \<Rightarrow> CardButton \<Rightarrow> json" where
  "button_element crd b = jblock ''button''
     ([(''text'', plain_text (cb_label b)), (''action_id'', JStr (''access.'' @ button_name (cb_id b))),
       (''value'', JStr (stringify (button_value (rc_requestId crd) (rc_nonce crd))))]
      @ (case cb_style b of Some st \<Rightarrow> [(''style'', JStr (style_name st))] | None \<Rightarrow> []))"

definition renderBlocks :: "RequestCard \<Rightarrow> json list" where
  "renderBlocks crd =
     [jblock ''header'' [(''text'', plain_text (take 150 (status_emoji (rc_status crd) @ '' '' @ rc_title crd)))],
      jblock ''section'' [(''fields'', JArr (map (\<lambda>kv. jblock ''mrkdwn''
          [(''text'', JStr (''*'' @ fst kv @ ''*'' @ [LF] @ snd kv))]) (take 10 (rc_fields crd))))]]
     @ (if rc_buttons crd \<noteq> [] then [jblock ''actions'' [(''elements'', JArr (map (button_element crd) (rc_buttons crd)))]] else [])
     @ (if truthy (rc_footer crd)
        then [jblock ''context'' [(''elements'', JArr [jblock ''mrkdwn'' [(''text'', JStr (nullish (rc_footer crd) ''''))]])]] else [])"

definition card_payload :: "RequestCard \<Rightarrow> json" where
  "card_payload crd = JObj [(''text'', JStr (rc_title crd)), (''blocks'', JArr (renderBlocks crd))]"

text \<open>The pages of channels up to the first that names the channel; its later entries win.\<close>

fun find_channel :: "string \<Rightarrow> (string \<times> string) list list \<Rightarrow> string option" where
  "find_channel name [] = None"
| "find_channel name (page # pages) =
     (case map_of (rev (filter (\<lambda>ch. snd ch \<noteq> []) page)) name of
        Some i \<Rightarrow> Some i | None \<Rightarrow> find_channel name pages)"

definition slack_channelId :: "SlOutside \<Rightarrow> string \<Rightarrow> string sl" where
  "slack_channelId o' name =
     bindE (getE (\<lambda>w. map_of (sl_channelIds (loc w)) name)) (\<lambda>c.
     if truthy c then retE (nullish c '''')
     else
       bindE (perform ListChannels (so_pages o')) (\<lambda>pages.
         case find_channel name pages of
           None \<Rightarrow> throwE (PlainError (''slack channel #'' @ name @ '' not found (is the bot invited?)''))
         | Some i \<Rightarrow> thenE (upd_loc (\<lambda>s. s\<lparr>sl_channelIds := AList.update name i (sl_channelIds s)\<rparr>)) (retE i)))"

definition slack_postCard :: "SlOutside \<Rightarrow> CardTarget \<Rightarrow> RequestCard \<Rightarrow> PostedMessageRef option sl" where
  "slack_postCard o' tgt crd =
     bindE (case tgt of
              ToChannel ch \<Rightarrow>
                if starts_with ''#'' ch then bindE (slack_channelId o' (tl ch)) (\<lambda>i. retE (Some i)) else retE (Some ch)
            | ToUser email \<Rightarrow>
                bindE (catchE (perform (LookupByEmail email) (so_byEmail o' email)) (\<lambda>_. retE None))
                  (\<lambda>i. retE (if truthy i then i else None)))
       (\<lambda>ch. case ch of
          None \<Rightarrow> retE None
        | Some channel \<Rightarrow>
            bindE (sl_send o' (SlackPost channel (card_payload crd))) (\<lambda>(c, ts).
              retE (Some \<lparr>pm_conversation = \<lparr>cr_platform = Slack, cr_channelId = c, cr_threadId = None, cr_raw = None\<rparr>,
                          pm_messageId = ts\<rparr>)))"

definition slack_updateCard :: "SlOutside \<Rightarrow> PostedMessageRef \<Rightarrow> RequestCard \<Rightarrow> unit sl" where
  "slack_updateCard o' ref crd =
     bindE (sl_send o' (SlackUpdate (cr_channelId (pm_conversation ref)) (pm_messageId ref) (card_payload crd))) (\<lambda>_. retE ())"

section \<open>Lemmas\<close>

text \<open>What an accepted Slack account is.\<close>

definition slack_vetted :: "string list \<Rightarrow> string \<Rightarrow> ChatUser \<Rightarrow> bool" where
  "slack_vetted teams uid u \<longleftrightarrow> cu_platform u = Slack \<and> cu_platformUserId u = uid \<and>
     (case cu_tenantId u of Some t \<Rightarrow> t \<noteq> [] \<and> t \<in> set teams | None \<Rightarrow> False) \<and>
     cu_emailVerified u = truthy (cu_email u)"

lemma vetSlackUser_Inr:
  "vetSlackUser r uid teams = Inr u \<Longrightarrow>
     \<exists>i. r = Some i \<and> slack_vetted teams uid u \<and> cu_email u = su_email i \<and> cu_tenantId u = su_team_id i \<and>
       \<not> (su_deleted i \<or> su_is_bot i \<or> su_is_app_user i \<or> su_id i = Some ''USLACKBOT'' \<or> su_is_stranger i \<or>
          su_is_restricted i \<or> su_is_ultra_restricted i)"
  by (auto simp: vetSlackUser_def slack_vetted_def truthy_def nullish_def split: option.splits if_splits)

lemma vetSlackUser_Inl: "vetSlackUser r uid teams = Inl e \<Longrightarrow> \<exists>why. e = SlackIdentityError why"
  by (auto simp: vetSlackUser_def split: option.splits if_splits)

definition sl_cache_ok :: "string list \<Rightarrow> SlState \<Rightarrow> bool" where
  "sl_cache_ok teams s \<longleftrightarrow> list_all (\<lambda>(k, _, u). slack_vetted teams k u) (sl_userCache s)"

lemma sl_cache_lookup: "sl_cache_ok teams s \<Longrightarrow> map_of (sl_userCache s) k = Some (at, u) \<Longrightarrow> slack_vetted teams k u"
  by (drule map_of_SomeD) (auto simp: sl_cache_ok_def list_all_iff)

lemma sl_cache_update:
  "sl_cache_ok teams s \<Longrightarrow> slack_vetted teams k u \<Longrightarrow>
   sl_cache_ok teams (s\<lparr>sl_userCache := AList.update k (t, u) (sl_userCache s)\<rparr>)"
proof -
  have "list_all P xs \<Longrightarrow> P (k, t, u) \<Longrightarrow> list_all P (AList.update k (t, u) xs)" for P xs
    by (induction xs) auto
  then show "sl_cache_ok teams s \<Longrightarrow> slack_vetted teams k u \<Longrightarrow> ?thesis" by (simp add: sl_cache_ok_def)
qed

text \<open>The outcome of a resolution, by the two ways it can go.\<close>

definition sl_cached :: "SlOutside \<Rightarrow> string \<Rightarrow> ClickContext \<Rightarrow> (SlCall, SlState) world \<Rightarrow> ChatUser option" where
  "sl_cached o' uid ctx w =
     (case map_of (sl_userCache (loc w)) uid of
        Some (at, u) \<Rightarrow> if \<not> ctx_fresh ctx \<and> so_now o' (calls w) - at < USER_CACHE_MS then Some u else None
      | None \<Rightarrow> None)"

lemma slack_resolve_cases:
  "slack_resolveUser cfg o' uid ctx w =
     (case sl_cached o' uid ctx w of
        Some u \<Rightarrow> (Inr u, w)
      | None \<Rightarrow>
          let w' = w\<lparr>calls := calls w @ [UsersInfo uid]\<rparr> in
          (case so_info o' uid (calls w) of
             Inl e \<Rightarrow> (Inl e, w')
           | Inr r \<Rightarrow>
               (case vetSlackUser r uid (sk_allowedTeams cfg) of
                  Inl e \<Rightarrow> (Inl e, w')
                | Inr u \<Rightarrow> (Inr u, w'\<lparr>loc := (loc w)\<lparr>sl_userCache :=
                    AList.update uid (so_now o' (calls w'), u) (sl_userCache (loc w))\<rparr>\<rparr>))))"
  unfolding slack_resolveUser_def sl_cached_def
  by (auto simp: bindE_def getE_def read_clock_def perform_def liftE_def thenE_def upd_loc_def modifyE_def retE_def Let_def
      split: option.split sum.split)

lemma sl_cached_fresh [simp]: "sl_cached o' uid (CtxSlack True) w = None"
  by (simp add: sl_cached_def ctx_fresh_def split: option.split)

interpretation slack_users: user_directory "slack_resolveUser cfg o'" Slack "sl_cache_ok (sk_allowedTeams cfg)" for cfg o'
proof unfold_locales
  fix u c
  show "keeps (\<lambda>w. sl_cache_ok (sk_allowedTeams cfg) (loc w)) (slack_resolveUser cfg o' u c)"
    by (rule keepsI) (auto simp: slack_resolve_cases Let_def intro!: sl_cache_update dest!: vetSlackUser_Inr
        split: option.split sum.split)
next
  fix u c v and w w' :: "(SlCall, SlState) world"
  assume "sl_cache_ok (sk_allowedTeams cfg) (loc w)" "slack_resolveUser cfg o' u c w = (Inr v, w')"
  then show "cu_platform v = Slack \<and> cu_platformUserId v = u"
    using sl_cache_lookup [of "sk_allowedTeams cfg" "loc w" u]
    by (auto simp: slack_resolve_cases Let_def sl_cached_def slack_vetted_def dest!: vetSlackUser_Inr
        split: option.splits sum.splits if_splits)
qed

section \<open>Properties\<close>

text \<open>A click on behalf of \<open>uid\<close> that starts with history \<open>h\<close>: the user it hands on is what Slack answered about \<open>uid\<close> at that moment.\<close>

definition fresh_click :: "SlackCfg \<Rightarrow> SlOutside \<Rightarrow> string \<Rightarrow> SlCall list \<Rightarrow> ButtonClick \<Rightarrow> bool" where
  "fresh_click cfg o' uid h k \<longleftrightarrow> bc_ctx k = CtxSlack True \<and>
     (case so_info o' uid h of
        Inr r \<Rightarrow> vetSlackUser r uid (sk_allowedTeams cfg) = Inr (bc_user k)
      | Inl _ \<Rightarrow> False)"

definition clicks_vetted :: "SlackCfg \<Rightarrow> SlOutside \<Rightarrow> string \<Rightarrow> SlCall list \<Rightarrow> SlCall list \<Rightarrow> bool" where
  "clicks_vetted cfg o' uid h cs \<longleftrightarrow>
     list_all (\<lambda>c. case c of HandClick k \<Rightarrow> hd cs = UsersInfo uid \<and> fresh_click cfg o' uid h k | HandMessage _ \<Rightarrow> False | _ \<Rightarrow> True) cs"

definition quiet :: "SlCall \<Rightarrow> bool" where
  "quiet c \<longleftrightarrow> (case c of HandClick _ \<Rightarrow> False | HandMessage _ \<Rightarrow> False | _ \<Rightarrow> True)"

lemma quiet_vetted: "list_all quiet cs \<Longrightarrow> clicks_vetted cfg o' uid h cs"
  by (auto simp: clicks_vetted_def quiet_def list_all_iff split: SlCall.splits)

lemma appends_sl_send: "P c \<Longrightarrow> appends P (sl_send o' c)"
  by (simp add: sl_send_def appends_perform)

lemma appends_ephemeral: "appends quiet (ephemeral_reply o' uid t)"
  unfolding ephemeral_reply_def by (rule appends_bindE appends_sl_send appends_retE | simp add: quiet_def)+

lemma refuse_with_quiet:
  assumes "\<And>t. appends quiet (respond' t)"
  shows "\<exists>w'. refuse_with respond' why w = (Inr None, w') \<and> (\<exists>ds. calls w' = calls w @ ds \<and> list_all quiet ds)"
proof -
  let ?t = "''I can't act for you: '' @ why @ ''.''"
  obtain ds where "calls (snd (respond' ?t w)) = calls w @ ds" "list_all quiet ds"
    using appendsD [OF assms [of ?t], where w = w] by blast
  then show ?thesis
    by (cases "respond' ?t w") (auto simp: refuse_with_def thenE_def bindE_def catchE_def retE_def split: sum.splits)
qed

lemma slack_click_vetted:
  assumes "\<And>t. appends quiet (respond' t)"
  shows "\<exists>cs. calls (snd (slack_click cfg o' uid b r n ct reason respond' w)) = calls w @ cs \<and> clicks_vetted cfg o' uid (calls w) cs"
proof -
  let ?w = "w\<lparr>calls := calls w @ [UsersInfo uid]\<rparr>"
  have refused: ?thesis if "slack_resolveUser cfg o' uid (CtxSlack True) w = (Inl e, ?w)" for e
  proof (cases "\<exists>why. e = SlackIdentityError why")
    case True
    then obtain why where e: "e = SlackIdentityError why" by blast
    obtain w' ds where ds: "refuse_with respond' why ?w = (Inr None, w')" "calls w' = calls ?w @ ds" "list_all quiet ds"
      using refuse_with_quiet [of respond' why ?w, OF assms] by blast
    then have "list_all quiet (UsersInfo uid # ds)" by (simp add: quiet_def)
    with ds that e show ?thesis
      by (intro exI [of _ "UsersInfo uid # ds"] conjI quiet_vetted) (simp_all add: slack_click_def bindE_def catchE_def retE_def)
  next
    case False
    with that show ?thesis
      by (intro exI [of _ "[UsersInfo uid]"])
        (cases e; simp add: slack_click_def bindE_def catchE_def throwE_def clicks_vetted_def)
  qed
  show ?thesis
  proof (cases "so_info o' uid (calls w)")
    case (Inl e)
    then show ?thesis by (intro refused [of e]) (simp add: slack_resolve_cases Let_def)
  next
    case info: (Inr i)
    show ?thesis
    proof (cases "vetSlackUser i uid (sk_allowedTeams cfg)")
      case (Inl e)
      with info show ?thesis by (intro refused [of e]) (simp add: slack_resolve_cases Let_def)
    next
      case (Inr u)
      with info show ?thesis
        by (auto simp: slack_click_def bindE_def catchE_def slack_resolve_cases Let_def retE_def sl_send_def perform_def
            clicks_vetted_def fresh_click_def split: sum.split)
    qed
  qed
qed

text \<open>A click, on a card's button or submitted through the reason modal, reaches the application only for the account
  that clicked, vetted with the answer \<open>users.info\<close> gave at the start of this very click: no cached identity is used.\<close>

theorem slack_clicks_fresh:
  "(\<exists>cs. calls (snd (slack_action cfg o' a w)) = calls w @ cs \<and> clicks_vetted cfg o' (sa_userId a) (calls w) cs) \<and>
   (\<exists>cs. calls (snd (slack_view cfg o' v w)) = calls w @ cs \<and> clicks_vetted cfg o' (sv_userId v) (calls w) cs)"
proof -
  have nothing: "\<exists>cs. calls w = calls w @ cs \<and> clicks_vetted cfg o' u (calls w) cs" for u
    by (simp add: clicks_vetted_def)
  have q: "\<exists>cs. calls (snd (m w)) = calls w @ cs \<and> clicks_vetted cfg o' u (calls w) cs" if "appends quiet m" for m :: "unit sl" and u
    using appendsD [OF that, where w = w] quiet_vetted by blast
  have m: "appends quiet (bindE (sl_send o' (OpenModal j)) (\<lambda>_. retE ()))" for j
    by (rule appends_bindE appends_sl_send appends_retE | simp add: quiet_def)+
  have e: "appends quiet (catchE (ephemeral_reply o' u t) (\<lambda>_. retE ()))" for u t
    by (rule appends_catchE appends_ephemeral appends_retE)+
  have v: "appends quiet (if b then catchE (ephemeral_reply o' u t) (\<lambda>_. retE ()) else retE ())" for b u t
    by (simp add: e appends_retE)
  have r: "retE () w = (Inr (), w)" "clicks_vetted cfg o' u h []" for u h
    by (simp_all add: retE_def clicks_vetted_def)
  show ?thesis
    unfolding slack_action_def slack_view_def Let_def
    by (intro conjI) (auto simp: r nothing intro: slack_click_vetted [OF appends_ephemeral] slack_click_vetted [OF v] q [OF m] q [OF e]
        split: option.split)
qed

lemma button_value_roundtrip:
  "parseJsonObject isButtonValue (Some (stringify (button_value r n))) = Some (button_value r n)"
proof -
  have "json_parse (stringify (button_value r n)) = Some (button_value r n)"
    by (rule json_roundtrip) (simp add: button_value_def)
  moreover have "stringify (button_value r n) \<noteq> []" using stringify_ne [of "button_value r n"] by (auto simp: button_value_def)
  ultimately show ?thesis by (simp add: parseJsonObject_def isButtonValue_def button_value_def)
qed

lemma reason_meta_roundtrip:
  "b \<noteq> Details \<Longrightarrow> parseJsonObject isReasonMeta (Some (stringify (reason_meta r n b ch ts))) = Some (reason_meta r n b ch ts)"
proof -
  assume b: "b \<noteq> Details"
  have wf: "wf_json (reason_meta r n b ch ts)" by (auto simp: reason_meta_def opt_field_def split: option.split)
  then have "stringify (reason_meta r n b ch ts) \<noteq> []" using stringify_ne by blast
  with json_roundtrip [OF wf] b show ?thesis
    by (cases b) (auto simp: parseJsonObject_def isReasonMeta_def isButtonValue_def opt_string_def reason_meta_def
        opt_field_def split: option.split)
qed

text \<open>The button of a card, and the modal it opens.\<close>

definition card_button :: "RequestCard \<Rightarrow> ButtonId \<Rightarrow> SlackAction \<Rightarrow> bool" where
  "card_button crd b a \<longleftrightarrow> sa_value a = Some (stringify (button_value (rc_requestId crd) (rc_nonce crd))) \<and>
     sa_actionId a = ''access.'' @ button_name b"

definition card_meta :: "RequestCard \<Rightarrow> ButtonId \<Rightarrow> SlackAction \<Rightarrow> json" where
  "card_meta crd b a = reason_meta (rc_requestId crd) (rc_nonce crd) b (sa_channel a) (sa_ts a)"

lemma slack_action_card:
  assumes "card_button crd b a"
  shows "slack_action cfg o' a =
    (if b = Details then
       slack_click cfg o' (sa_userId a) Details (rc_requestId crd) (rc_nonce crd) (nullish (sa_channel a) '''', nullish (sa_ts a) '''') None
         (ephemeral_reply o' (sa_userId a))
     else bindE (sl_send o' (OpenModal (card_meta crd b a))) (\<lambda>_. retE ()))"
proof -
  have ab: "action_button (sa_actionId a) = Some b" using assms by (cases b) (simp_all add: card_button_def action_button_def)
  have j: "jtext ''requestId'' (button_value r n) = r" "jtext ''nonce'' (button_value r n) = n" for r n
    by (simp_all add: button_value_def jtext_def)
  have "sa_value a = Some (stringify (button_value (rc_requestId crd) (rc_nonce crd)))" using assms by (simp add: card_button_def)
  then show ?thesis by (simp add: slack_action_def ab button_value_roundtrip j card_meta_def)
qed

lemma slack_view_card:
  assumes "b \<noteq> Details"
  shows "slack_view cfg o' \<lparr>sv_userId = uid, sv_metadata = Some (stringify (card_meta crd b a)), sv_reason = reason\<rparr> =
    slack_click cfg o' uid b (rc_requestId crd) (rc_nonce crd) (nullish (sa_channel a) '''', nullish (sa_ts a) '''') (Some (nullish reason ''''))
      (\<lambda>t. if nullish (sa_channel a) '''' \<noteq> [] then catchE (ephemeral_reply o' uid t) (\<lambda>_. retE ()) else retE ())"
proof -
  let ?m = "card_meta crd b a"
  have "jtext ''requestId'' ?m = rc_requestId crd" "jtext ''nonce'' ?m = rc_nonce crd"
    "jtext ''channel'' ?m = nullish (sa_channel a) ''''" "jtext ''ts'' ?m = nullish (sa_ts a) ''''"
    by (auto simp: card_meta_def reason_meta_def jtext_def opt_field_def nullish_def split: option.split)
  moreover have "(if jfield ''button'' ?m = Some (JStr ''approve'') then Approve else Deny) = b"
    using assms by (cases b) (simp_all add: card_meta_def reason_meta_def)
  moreover have "parseJsonObject isReasonMeta (Some (stringify ?m)) = Some ?m"
    using reason_meta_roundtrip [OF assms] by (simp add: card_meta_def)
  ultimately show ?thesis by (simp add: slack_view_def cong: if_cong)
qed

text \<open>An action of a posted card: one of the elements that \<open>renderBlocks\<close> put into it.\<close>

definition card_elements :: "json list \<Rightarrow> json list" where
  "card_elements blocks = concat (map (\<lambda>blk. case jfield ''elements'' blk of Some (JArr es) \<Rightarrow> es | _ \<Rightarrow> []) blocks)"

definition pressed :: "RequestCard \<Rightarrow> ButtonId \<Rightarrow> SlackAction \<Rightarrow> bool" where
  "pressed crd b a \<longleftrightarrow> sa_actionId a = ''access.'' @ button_name b \<and>
     (\<exists>e \<in> set (card_elements (renderBlocks crd)). jfield ''action_id'' e = Some (JStr (sa_actionId a)) \<and>
        jfield ''value'' e = map_option JStr (sa_value a))"

lemma pressed_card_button:
  assumes "pressed crd b a"
  shows "card_button crd b a \<and> (\<exists>cb \<in> set (rc_buttons crd). cb_id cb = b)"
proof -
  have "button_name x = button_name b \<longleftrightarrow> x = b" for x by (cases x; cases b) simp_all
  with assms show ?thesis
    by (cases "sa_value a") (auto simp: pressed_def card_button_def card_elements_def renderBlocks_def jblock_def button_element_def split: if_splits option.splits)
qed

text \<open>What a card carries is what a click hands on, for every id, nonce and message: a details button acts on the
  card's own request id and nonce; approve and deny open a modal whose submission acts on them too, with the button
  that was pressed, the card's message and the reason typed.\<close>

theorem slack_card_roundtrip:
  assumes "pressed crd b a"
  shows "if b = Details then
      slack_action cfg o' a = slack_click cfg o' (sa_userId a) Details (rc_requestId crd) (rc_nonce crd)
        (nullish (sa_channel a) '''', nullish (sa_ts a) '''') None (ephemeral_reply o' (sa_userId a))
    else \<exists>meta. slack_action cfg o' a = bindE (sl_send o' (OpenModal meta)) (\<lambda>_. retE ()) \<and>
      (\<exists>f. slack_view cfg o' \<lparr>sv_userId = uid, sv_metadata = Some (stringify meta), sv_reason = reason\<rparr> =
         slack_click cfg o' uid b (rc_requestId crd) (rc_nonce crd)
            (nullish (sa_channel a) '''', nullish (sa_ts a) '''') (Some (nullish reason '''')) f)"
proof (cases "b = Details")
  case False
  then have "slack_action cfg o' a = bindE (sl_send o' (OpenModal (card_meta crd b a))) (\<lambda>_. retE ())"
    by (simp add: slack_action_card [OF conjunct1 [OF pressed_card_button [OF assms]]])
  then show ?thesis using False
    by simp (intro exI [of _ "card_meta crd b a"] conjI refl exI, rule slack_view_card)
qed (simp add: slack_action_card [OF conjunct1 [OF pressed_card_button [OF assms]]])

definition ex_slack_card :: RequestCard where
  "ex_slack_card = \<lparr>rc_requestId = ''r1'', rc_title = ''Access request'', rc_fields = [], rc_buttons = [\<lparr>cb_id = Deny, cb_label = ''Deny'', cb_style = Some Danger\<rparr>], rc_status = Pending,
     rc_footer = None, rc_nonce = ''n1''\<rparr>"

definition ex_action :: SlackAction where
  "ex_action = \<lparr>sa_userId = ''U1'', sa_actionId = ''access.deny'',
     sa_value = Some (stringify (button_value (rc_requestId ex_slack_card) (rc_nonce ex_slack_card))),
     sa_channel = Some ''C1'', sa_ts = None\<rparr>"

definition ex_sl_out :: SlOutside where
  "ex_sl_out = \<lparr>so_now = (\<lambda>_. 0), so_info = (\<lambda>_ _. Inr None), so_byEmail = (\<lambda>_ _. Inr None), so_pages = (\<lambda>_. Inr []),
     so_send = (\<lambda>_ _. Inr ([], []))\<rparr>"

definition ex_sl_cfg :: SlackCfg where "ex_sl_cfg = \<lparr>sk_allowedTeams = [''T1'']\<rparr>"

definition ex_sl_event :: SlackEvent where
  "ex_sl_event = \<lparr>se_user = Some ''U1'', se_text = None, se_channel = ''C'', se_ts = ''1'', se_thread_ts = None, se_channel_type = None,
     se_team = None, se_bot_id = None, se_subtype = None\<rparr>"

lemma ex_pressed: "pressed ex_slack_card Deny ex_action"
  by (simp add: pressed_def card_elements_def renderBlocks_def jblock_def button_element_def ex_action_def ex_slack_card_def)

theorem slack_card_roundtrip_witness:
  "\<exists>meta. slack_action ex_sl_cfg ex_sl_out ex_action = bindE (sl_send ex_sl_out (OpenModal meta)) (\<lambda>_. retE ()) \<and>
     (\<exists>f. slack_view ex_sl_cfg ex_sl_out \<lparr>sv_userId = ''U2'', sv_metadata = Some (stringify meta), sv_reason = None\<rparr> =
        slack_click ex_sl_cfg ex_sl_out ''U2'' Deny ''r1'' ''n1'' (''C1'', '''') (Some '''') f)"
  using slack_card_roundtrip [of ex_slack_card Deny ex_action ex_sl_cfg ex_sl_out "''U2''" None]
  by (simp add: ex_pressed) (simp add: ex_action_def ex_slack_card_def)

text \<open>What is handed on for the event \<open>ev\<close>.\<close>

definition message_ok :: "string list \<Rightarrow> SlackEvent \<Rightarrow> SlCall \<Rightarrow> bool" where
  "message_ok teams ev c \<longleftrightarrow> (case c of
      HandMessage m \<Rightarrow> slack_vetted teams (nullish (se_user ev) '''') (im_user m) \<and>
        truthy (se_user ev) \<and> \<not> truthy (se_bot_id ev) \<and> \<not> truthy (se_subtype ev) \<and>
        (\<not> truthy (se_team ev) \<or> nullish (se_team ev) '''' \<in> set teams)
    | HandClick _ \<Rightarrow> False
    | _ \<Rightarrow> True)"

text \<open>A message reaches the application only from a person: never from a bot post, a message edit or another
  workspace; its author is a vetted member of an allowed workspace under the id that Slack sent, and every cached
  identity stays a vetted one, so that this holds for the next event too.\<close>

theorem slack_message_vetted:
  assumes "sl_cache_ok (sk_allowedTeams cfg) (loc w)"
  shows "sl_cache_ok (sk_allowedTeams cfg) (loc (snd (slack_handle cfg o' ev w))) \<and>
    (\<exists>cs. calls (snd (slack_handle cfg o' ev w)) = calls w @ cs \<and> list_all (message_ok (sk_allowedTeams cfg) ev) cs)"
    (is "_ \<and> (\<exists>cs. _ \<and> list_all ?P cs)")
proof (cases "\<not> truthy (se_user ev) \<or> truthy (se_bot_id ev) \<or> truthy (se_subtype ev) \<or>
    truthy (se_team ev) \<and> nullish (se_team ev) '''' \<notin> set (sk_allowedTeams cfg)")
  case True
  then show ?thesis using assms by (auto simp: slack_handle_def retE_def)
next
  case guards: False
  let ?uid = "nullish (se_user ev) ''''"
  let ?post = "\<lambda>t. bindE (sl_send o' (Say (nullish (se_thread_ts ev) (se_ts ev)) t)) (\<lambda>_. retE ()) :: unit sl"
  have post: "appends quiet (?post t)" for t
    by (rule appends_bindE appends_sl_send appends_retE | simp add: quiet_def)+
  have P: "list_all quiet cs \<Longrightarrow> list_all ?P cs" for cs
    by (auto simp: list_all_iff quiet_def message_ok_def split: SlCall.splits)
  obtain r w1 where r: "slack_resolveUser cfg o' ?uid CtxNone w = (r, w1)" by force
  then have I: "sl_cache_ok (sk_allowedTeams cfg) (loc w1)" using slack_users.inv_after [OF assms] by blast
  have c1: "calls w1 = calls w \<or> calls w1 = calls w @ [UsersInfo ?uid]"
    using r by (auto simp: slack_resolve_cases Let_def split: option.splits sum.splits)
  then obtain bs where bs: "calls w1 = calls w @ bs" "list_all ?P bs"
    using P [of "[]"] P [of "[UsersInfo ?uid]"] by (auto simp: quiet_def)
  show ?thesis
  proof (cases r)
    case (Inr u)
    then have "slack_vetted (sk_allowedTeams cfg) ?uid u"
      using r sl_cache_lookup [OF assms, of ?uid]
      by (auto simp: slack_resolve_cases sl_cached_def Let_def dest: vetSlackUser_Inr split: option.splits sum.splits if_splits)
    then have m: "?P (HandMessage (slack_incoming ev b u))" for b
      using guards by (auto simp: message_ok_def slack_incoming_def Let_def)
    show ?thesis
      using guards r Inr I bs m [of "sl_botUserId (loc w1)"]
      by (auto simp: slack_handle_def Let_def bindE_def catchE_def retE_def getE_def sl_send_def perform_def
          split: sum.split)
  next
    case (Inl e)
    show ?thesis
    proof (cases "\<exists>why. e = SlackIdentityError why")
      case True
      then obtain why where e: "e = SlackIdentityError why" by blast
      obtain w' ds where ds: "refuse_with ?post why w1 = (Inr None, w')" "calls w' = calls w1 @ ds" "list_all quiet ds"
        using refuse_with_quiet [of ?post why w1, OF post] by blast
      have "loc w' = loc w1"
        using ds(1) by (auto simp: refuse_with_def thenE_def bindE_def catchE_def retE_def sl_send_def perform_def split: sum.splits prod.splits)
      with guards r Inl e ds I bs P show ?thesis
        by (auto simp: slack_handle_def Let_def bindE_def [of _ "case_option _ _"] catchE_def bindE_def [of "slack_resolveUser _ _ _ _"] retE_def)
    next
      case False
      with guards r Inl I bs show ?thesis
        by (cases e) (auto simp: slack_handle_def Let_def bindE_def catchE_def throwE_def)
    qed
  qed
qed

theorem slack_message_vetted_witness:
  "\<exists>cs. calls (snd (slack_handle ex_sl_cfg ex_sl_out ex_sl_event
       \<lparr>calls = [], loc = \<lparr>sl_botUserId = ''B'', sl_userCache = [], sl_channelIds = []\<rparr>\<rparr>)) = cs \<and>
     list_all (message_ok [''T1''] ex_sl_event) cs"
  using slack_message_vetted [of ex_sl_cfg
      "\<lparr>calls = [], loc = \<lparr>sl_botUserId = ''B'', sl_userCache = [], sl_channelIds = []\<rparr>\<rparr>" ex_sl_out ex_sl_event]
  by (auto simp: sl_cache_ok_def ex_sl_cfg_def)

end
