(* ===== verification/SlackStream.thy ===== *)
theory SlackStream
  imports SlackAdapter
begin

text \<open>
  The rest of the Slack adapter (\<open>services/access-agent/src/adapters/slack/index.ts\<close>): the translation of Markdown to Slack's notation and the streamed answer.
  The turn does not await \<open>append\<close> (\<open>app.ts\<close> calls it as \<open>void stream.append(d)\<close>), so calls to Slack overlap: a stream is a record with the calls that have not been
  answered yet, and a history is any list of deltas, the final text and answers. The two readings of the clock in \<open>append\<close> are taken as one.
\<close>

section \<open>Markdown\<close>

text \<open>\<open>/\*\*(.+?)\*\*/g\<close>: the shortest non-empty run of characters of one line between two pairs of stars.\<close>

fun until_stars :: "string \<Rightarrow> (string \<times> string) option" where
  "until_stars [] = None"
| "until_stars (c # s) =
     (if starts_with ''**'' (c # s) then Some ([], drop 1 s)
      else if dot_char c then map_option (\<lambda>(b, r). (c # b, r)) (until_stars s) else None)"

fun bold_body :: "string \<Rightarrow> (string \<times> string) option" where
  "bold_body [] = None"
| "bold_body (c # s) = (if dot_char c then map_option (\<lambda>(b, r). (c # b, r)) (until_stars s) else None)"

lemma until_stars_length: "until_stars s = Some (b, r) \<Longrightarrow> length r < length s"
  by (induction s arbitrary: b r) (auto split: if_splits)

lemma bold_body_length: "bold_body s = Some (b, r) \<Longrightarrow> length r < length s"
  by (cases s) (auto split: if_splits dest: until_stars_length)

function md_bold :: "string \<Rightarrow> string" where
  "md_bold [] = []"
| "md_bold (c # s) =
     (if starts_with ''**'' (c # s) then
        (case bold_body (drop 1 s) of
           Some (b, r) \<Rightarrow> ''*'' @ b @ ''*'' @ md_bold r
         | None \<Rightarrow> c # md_bold s)
      else c # md_bold s)"
  by pat_completeness auto
termination
proof (relation "measure length")
  fix c s b r p
  assume "bold_body (drop 1 s) = Some p" "(b, r) = p"
  then have "length r < length (drop 1 s)" using bold_body_length by metis
  then show "(r, c # s) \<in> measure length" by simp
qed auto

text \<open>\<open>/^#{1,6}\s+(.*)$/gm\<close>, at the beginning of a line: up to six marks, white space (which may span lines), the rest of the line.\<close>

definition newline :: "char \<Rightarrow> bool" where
  "newline c \<longleftrightarrow> \<not> dot_char c"

definition heading :: "string \<Rightarrow> (string \<times> string) option" where
  "heading s =
     (let marks = length (takeWhile (\<lambda>c. c = CHR ''#'') s); r = drop marks s; body = dropWhile is_ws r in
      if 1 \<le> marks \<and> marks \<le> 6 \<and> r \<noteq> [] \<and> is_ws (hd r) then Some (takeWhile dot_char body, dropWhile dot_char body) else None)"

lemma length_dropWhile_less: "xs \<noteq> [] \<Longrightarrow> P (hd xs) \<Longrightarrow> length (dropWhile P xs) < length xs"
  by (cases xs) (simp_all add: le_imp_less_Suc length_dropWhile_le)

lemma heading_length: "heading s = Some (b, r) \<Longrightarrow> length r < length s"
proof -
  assume h: "heading s = Some (b, r)"
  let ?n = "length (takeWhile (\<lambda>c. c = CHR ''#'') s)"
  let ?r = "drop ?n s"
  from h have "1 \<le> ?n" and r: "r = dropWhile dot_char (dropWhile is_ws ?r)"
    by (auto simp: heading_def Let_def split: if_splits)
  moreover have "?n \<le> length s" by (rule length_takeWhile_le)
  ultimately have "length ?r < length s" by simp
  moreover have "length r \<le> length ?r"
    unfolding r by (rule order_trans [OF length_dropWhile_le length_dropWhile_le])
  ultimately show ?thesis by simp
qed

function md_headings :: "bool \<Rightarrow> string \<Rightarrow> string" where
  "md_headings bol [] = []"
| "md_headings bol (c # s) =
     (case (if bol then heading (c # s) else None) of
        Some (b, r) \<Rightarrow> ''*'' @ b @ ''*'' @ md_headings False r
      | None \<Rightarrow> c # md_headings (newline c) s)"
  by pat_completeness auto
termination
proof (relation "measure (length \<circ> snd)")
  fix bol c s p b r
  assume "(if bol then heading (c # s) else None) = Some p" "(b, r) = p"
  then have "heading (c # s) = Some (b, r)" by (auto split: if_splits)
  from heading_length [OF this] show "((False, r), bol, c # s) \<in> measure (length \<circ> snd)" by simp
qed auto

text \<open>\<open>/\[([^\]]+)\]\((https?:\/\/[^)]+)\)/g\<close>\<close>

definition web_prefix :: "string \<Rightarrow> bool" where
  "web_prefix s \<longleftrightarrow> starts_with ''http://'' s \<or> starts_with ''https://'' s"

definition md_link :: "string \<Rightarrow> (string \<times> string \<times> string) option" where
  "md_link s =
     (let label = takeWhile (\<lambda>c. c \<noteq> CHR '']'') (tl s); r = dropWhile (\<lambda>c. c \<noteq> CHR '']'') (tl s);
          url = takeWhile (\<lambda>c. c \<noteq> CHR '')'') (drop 2 r); t = dropWhile (\<lambda>c. c \<noteq> CHR '')'') (drop 2 r) in
      if starts_with ''['' s \<and> label \<noteq> [] \<and> starts_with '']('' r \<and> web_prefix url \<and>
         (if starts_with ''https'' url then 8 < length url else 7 < length url) \<and> t \<noteq> []
      then Some (label, url, tl t) else None)"

lemma md_link_length: "md_link s = Some (l, u, r) \<Longrightarrow> length r < length s"
proof -
  assume h: "md_link s = Some (l, u, r)"
  let ?t = "dropWhile (\<lambda>c. c \<noteq> CHR '')'') (drop 2 (dropWhile (\<lambda>c. c \<noteq> CHR '']'') (tl s)))"
  from h have t: "?t \<noteq> []" "r = tl ?t" by (auto simp: md_link_def Let_def split: if_splits)
  have "length ?t \<le> length (drop 2 (dropWhile (\<lambda>c. c \<noteq> CHR '']'') (tl s)))" by (rule length_dropWhile_le)
  also have "\<dots> \<le> length (tl s)" using length_dropWhile_le [of "\<lambda>c. c \<noteq> CHR '']''" "tl s"] by simp
  finally have "length ?t \<le> length s" by simp
  with t show ?thesis by (cases ?t) auto
qed

function md_links :: "string \<Rightarrow> string" where
  "md_links [] = []"
| "md_links (c # s) =
     (case md_link (c # s) of
        Some (l, u, r) \<Rightarrow> ''<'' @ u @ ''|'' @ l @ ''>'' @ md_links r
      | None \<Rightarrow> c # md_links s)"
  by pat_completeness auto
termination
proof (relation "measure length")
  fix c s p l q u r
  assume "md_link (c # s) = Some p" "(l, q) = p" "(u, r) = q"
  then have "md_link (c # s) = Some (l, u, r)" by simp
  from md_link_length [OF this] show "(r, c # s) \<in> measure length" by simp
qed auto

text \<open>\<open>/^(\s*)[-*]\s+/gm\<close>: the indentation, the rest, and whether the rest begins a line, as the white space after the mark may span lines.\<close>

definition bullet :: "string \<Rightarrow> (string \<times> bool \<times> string) option" where
  "bullet s =
     (let r = dropWhile is_ws s; gap = takeWhile is_ws (tl r) in
      if r \<noteq> [] \<and> hd r \<in> {CHR ''-'', CHR ''*''} \<and> gap \<noteq> []
      then Some (takeWhile is_ws s, newline (last gap), dropWhile is_ws (tl r)) else None)"

lemma bullet_length: "bullet s = Some (i, l, r) \<Longrightarrow> length r < length s"
proof -
  assume h: "bullet s = Some (i, l, r)"
  let ?r = "dropWhile is_ws s"
  from h have r: "?r \<noteq> []" "r = dropWhile is_ws (tl ?r)" by (auto simp: bullet_def Let_def split: if_splits)
  have "length r \<le> length (tl ?r)" unfolding r(2) by (rule length_dropWhile_le)
  also have "\<dots> < length ?r" using r(1) by (cases ?r) auto
  also have "\<dots> \<le> length s" by (rule length_dropWhile_le)
  finally show ?thesis .
qed

function md_bullets :: "bool \<Rightarrow> string \<Rightarrow> string" where
  "md_bullets bol [] = []"
| "md_bullets bol (c # s) =
     (case (if bol then bullet (c # s) else None) of
        Some (i, l, r) \<Rightarrow> i @ BULLET @ '' '' @ md_bullets l r
      | None \<Rightarrow> c # md_bullets (newline c) s)"
  by pat_completeness auto
termination
proof (relation "measure (length \<circ> snd)")
  fix bol c s p i q l r
  assume "(if bol then bullet (c # s) else None) = Some p" "(i, q) = p" "(l, r) = q"
  then have "bullet (c # s) = Some (i, l, r)" by (auto split: if_splits)
  from bullet_length [OF this] show "((l, r), bol, c # s) \<in> measure (length \<circ> snd)" by simp
qed auto

definition toMrkdwn :: "string \<Rightarrow> string" where
  "toMrkdwn md = md_bullets True (md_links (md_headings True (md_bold md)))"

text \<open>Text without any of the marks is left as it is.\<close>

definition unmarked :: "char \<Rightarrow> bool" where
  "unmarked c \<longleftrightarrow> c \<notin> set ''*#[-''"

lemma md_bold_plain: "list_all unmarked s \<Longrightarrow> md_bold s = s"
  by (induction s) (auto simp: unmarked_def)

lemma md_headings_plain: "list_all unmarked s \<Longrightarrow> md_headings bol s = s"
  by (induction s arbitrary: bol) (auto simp: unmarked_def heading_def)

lemma md_links_plain: "list_all unmarked s \<Longrightarrow> md_links s = s"
  by (induction s) (auto simp: unmarked_def md_link_def)

lemma bullet_plain: "list_all unmarked s \<Longrightarrow> bullet s = None"
proof -
  assume s: "list_all unmarked s"
  have "hd (dropWhile is_ws s) \<in> set s" if "dropWhile is_ws s \<noteq> []"
    using that set_dropWhile_subset [of is_ws s] by (meson hd_in_set subsetD)
  with s show ?thesis by (auto simp: bullet_def Let_def unmarked_def list_all_iff)
qed

lemma md_bullets_plain: "list_all unmarked s \<Longrightarrow> md_bullets bol s = s"
proof (induction s arbitrary: bol)
  case (Cons c s)
  with bullet_plain [of "c # s"] show ?case by auto
qed simp

lemma toMrkdwn_plain: "list_all unmarked s \<Longrightarrow> toMrkdwn s = s"
  by (simp add: toMrkdwn_def md_bold_plain md_headings_plain md_links_plain md_bullets_plain)

lemma toMrkdwn_examples:
  "toMrkdwn ''a **b** c'' = ''a *b* c''"
  "toMrkdwn ''## Title'' = ''*Title*''"
  "toMrkdwn ''[docs](https://x.y/z)'' = ''<https://x.y/z|docs>''"
  "toMrkdwn ''- one'' = BULLET @ '' one''"
  by (simp_all add: toMrkdwn_def heading_def md_link_def bullet_def web_prefix_def newline_def dot_char_def is_ws_def code_of_def Let_def BULLET_def)

section \<open>The streamed answer\<close>

text \<open>A call to Slack that has not been answered: a new message, or an edit of the message with that time stamp.\<close>

datatype slack_edit = PostText string | EditText string string

record slack_stream =
  ss_buffer :: string
  ss_lastEdit :: int
  ss_streamed :: "string option"
  ss_running :: "(nat \<times> slack_edit) list"
  ss_next :: nat
  ss_flushes :: "(int \<times> bool) list"
  ss_shown :: "(string \<times> string) list"

definition stream_init :: slack_stream where
  "stream_init = \<lparr>ss_buffer = '''', ss_lastEdit = 0, ss_streamed = None, ss_running = [], ss_next = 0, ss_flushes = [], ss_shown = []\<rparr>"

definition DRAFT_MARK :: string where
  "DRAFT_MARK = '' '' @ [CHR 0xE2, CHR 0x80, CHR 0xA6]"

definition flush_text :: "bool \<Rightarrow> string \<Rightarrow> string" where
  "flush_text final buffer = toMrkdwn buffer @ (if final then '''' else DRAFT_MARK)"

text \<open>\<open>flush\<close> up to its call; \<open>ss_flushes\<close> records when each began.\<close>

definition flush_start :: "int \<Rightarrow> bool \<Rightarrow> slack_stream \<Rightarrow> slack_stream" where
  "flush_start now final s =
     (if trim (ss_buffer s) = [] then s
      else
        let edit = (case ss_streamed s of
            None \<Rightarrow> PostText (flush_text final (ss_buffer s))
          | Some ts \<Rightarrow> EditText ts (flush_text final (ss_buffer s)))
        in s\<lparr>ss_running := ss_running s @ [(ss_next s, edit)], ss_next := Suc (ss_next s), ss_flushes := ss_flushes s @ [(now, final)]\<rparr>)"

definition stream_append :: "int \<Rightarrow> string \<Rightarrow> slack_stream \<Rightarrow> slack_stream" where
  "stream_append now d s =
     (let t = s\<lparr>ss_buffer := ss_buffer s @ d\<rparr> in
      if 1200 < now - ss_lastEdit s then flush_start now False (t\<lparr>ss_lastEdit := now\<rparr>) else t)"

definition stream_finish :: "int \<Rightarrow> string \<Rightarrow> slack_stream \<Rightarrow> slack_stream" where
  "stream_finish now finalText s = flush_start now True (s\<lparr>ss_buffer := finalText\<rparr>)"

text \<open>Slack carries out a call and the answer arrives: a new message gets its time stamp, an edit replaces a text. A failed call changes nothing.\<close>

definition stream_answer :: "nat \<Rightarrow> string option \<Rightarrow> slack_stream \<Rightarrow> slack_stream" where
  "stream_answer i ts s =
     (case map_of (ss_running s) i of
        None \<Rightarrow> s
      | Some edit \<Rightarrow>
          (let t = s\<lparr>ss_running := filter (\<lambda>r. fst r \<noteq> i) (ss_running s)\<rparr> in
           case (ts, edit) of
             (None, _) \<Rightarrow> t
           | (Some n, PostText x) \<Rightarrow> t\<lparr>ss_streamed := Some n, ss_shown := AList.update n x (ss_shown s)\<rparr>
           | (Some _, EditText n x) \<Rightarrow> t\<lparr>ss_shown := AList.update n x (ss_shown s)\<rparr>))"

datatype stream_event = Delta int string | FinalText int string | SlackAnswer nat "string option"

fun stream_do :: "stream_event \<Rightarrow> slack_stream \<Rightarrow> slack_stream" where
  "stream_do (Delta now d) s = stream_append now d s"
| "stream_do (FinalText now t) s = stream_finish now t s"
| "stream_do (SlackAnswer i ts) s = stream_answer i ts s"

definition stream_run :: "stream_event list \<Rightarrow> slack_stream \<Rightarrow> slack_stream" where
  "stream_run es s = foldl (\<lambda>t e. stream_do e t) s es"

text \<open>Slack is not flooded: the edits made while the answer is still growing begin more than 1.2 seconds apart, whatever the clock and the deltas do.\<close>

definition draft_times :: "slack_stream \<Rightarrow> int list" where
  "draft_times s = map fst (filter (\<lambda>f. \<not> snd f) (ss_flushes s))"

definition paced :: "slack_stream \<Rightarrow> bool" where
  "paced s \<longleftrightarrow> sorted_wrt (\<lambda>a b. a + 1200 < b) (draft_times s) \<and> list_all (\<lambda>t. t \<le> ss_lastEdit s) (draft_times s)"

lemma flush_draft_times:
  "draft_times (flush_start now final s) = draft_times s \<or> (\<not> final \<and> draft_times (flush_start now final s) = draft_times s @ [now])"
  by (auto simp: flush_start_def draft_times_def Let_def)

lemma flush_lastEdit [simp]: "ss_lastEdit (flush_start now final s) = ss_lastEdit s"
  by (auto simp: flush_start_def Let_def)

lemma draft_times_frame [simp]:
  "draft_times (s\<lparr>ss_buffer := b\<rparr>) = draft_times s" "draft_times (s\<lparr>ss_lastEdit := n\<rparr>) = draft_times s"
  by (simp_all add: draft_times_def)

lemma paced_do: "paced s \<Longrightarrow> paced (stream_do e s)"
proof (cases e)
  case (Delta now d)
  assume p: "paced s"
  show ?thesis
  proof (cases "1200 < now - ss_lastEdit s")
    case True
    with p have old: "sorted_wrt (\<lambda>a b. a + 1200 < b) (draft_times s)" "\<forall>t \<in> set (draft_times s). t + 1200 < now"
      by (auto simp: paced_def list_all_iff)
    let ?t = "s\<lparr>ss_buffer := ss_buffer s @ d, ss_lastEdit := now\<rparr>"
    have "draft_times (flush_start now False ?t) = draft_times s \<or> draft_times (flush_start now False ?t) = draft_times s @ [now]"
      using flush_draft_times [of now False ?t] by simp
    then have "paced (flush_start now False ?t)"
      using old by (fastforce simp: paced_def sorted_wrt_append list_all_iff)
    with True Delta show ?thesis by (simp add: stream_append_def Let_def)
  next
    case False
    with p Delta show ?thesis by (simp add: stream_append_def Let_def paced_def)
  qed
next
  case (FinalText now t)
  assume "paced s"
  with FinalText flush_draft_times [of now True "s\<lparr>ss_buffer := t\<rparr>"] show ?thesis
    by (simp add: stream_finish_def paced_def)
next
  case (SlackAnswer i ts)
  assume "paced s"
  with SlackAnswer show ?thesis
    by (auto simp: stream_answer_def paced_def draft_times_def Let_def split: option.split slack_edit.split)
qed

lemma drafts_paced: "sorted_wrt (\<lambda>a b. a + 1200 < b) (draft_times (stream_run es stream_init))"
proof -
  have "paced s \<Longrightarrow> paced (stream_run es s)" for s
    by (induction es arbitrary: s) (auto simp: stream_run_def paced_do)
  moreover have "paced stream_init" by (simp add: paced_def draft_times_def stream_init_def)
  ultimately show ?thesis unfolding paced_def by blast
qed

text \<open>When every call is answered before the next piece of text arrives, the thread holds one message, and it ends as the final text.\<close>

definition settle :: "string \<Rightarrow> slack_stream \<Rightarrow> slack_stream" where
  "settle ts s = (case ss_running s of [] \<Rightarrow> s | r # _ \<Rightarrow> stream_answer (fst r) (Some ts) s)"

definition stream_awaited :: "string \<Rightarrow> stream_event list \<Rightarrow> slack_stream \<Rightarrow> slack_stream" where
  "stream_awaited ts es s = foldl (\<lambda>t e. settle ts (stream_do e t)) s es"

definition one_message :: "string \<Rightarrow> slack_stream \<Rightarrow> bool" where
  "one_message ts s \<longleftrightarrow> ss_running s = [] \<and>
     (case ss_streamed s of None \<Rightarrow> ss_shown s = [] | Some n \<Rightarrow> n = ts \<and> map fst (ss_shown s) = [ts])"

lemma settle_flush:
  assumes "one_message ts s" "trim (ss_buffer s) \<noteq> []"
  shows "one_message ts (settle ts (flush_start now final s))"
    "ss_shown (settle ts (flush_start now final s)) = [(ts, flush_text final (ss_buffer s))]"
  using assms
  by (auto simp: one_message_def settle_def flush_start_def stream_answer_def Let_def Cons_eq_map_conv map_eq_Cons_conv split: option.splits)

lemma settle_idle: "ss_running s = [] \<Longrightarrow> settle ts s = s"
  by (simp add: settle_def)

lemma one_message_frame [simp]:
  "one_message ts (s\<lparr>ss_buffer := b\<rparr>) = one_message ts s" "one_message ts (s\<lparr>ss_lastEdit := n\<rparr>) = one_message ts s"
  by (simp_all add: one_message_def split: option.split)

lemma one_message_flush: "one_message ts s \<Longrightarrow> one_message ts (settle ts (flush_start now final s))"
proof (cases "trim (ss_buffer s) = []")
  case True
  assume "one_message ts s"
  then show ?thesis using True by (simp add: flush_start_def settle_idle one_message_def)
qed (rule settle_flush)

lemma one_message_delta: "one_message ts s \<Longrightarrow> one_message ts (settle ts (stream_append now d s))"
proof -
  assume s: "one_message ts s"
  then have "settle ts (s\<lparr>ss_buffer := b\<rparr>) = s\<lparr>ss_buffer := b\<rparr>" for b
    by (simp add: settle_idle one_message_def)
  with s show ?thesis by (simp add: stream_append_def Let_def one_message_flush)
qed

lemma awaited_stream_is_one_message:
  assumes "trim final \<noteq> []"
  shows "ss_shown (stream_awaited ts (map (\<lambda>(n, d). Delta n d) ds @ [FinalText now final]) stream_init) = [(ts, toMrkdwn final)]"
proof -
  have "one_message ts s \<Longrightarrow> one_message ts (stream_awaited ts (map (\<lambda>(n, d). Delta n d) ds) s)" for s
    by (induction ds arbitrary: s) (auto simp: stream_awaited_def one_message_delta)
  moreover have "one_message ts stream_init" by (simp add: one_message_def stream_init_def)
  ultimately have m: "one_message ts (stream_awaited ts (map (\<lambda>(n, d). Delta n d) ds) stream_init)" (is "one_message ts ?s") by blast
  have "ss_shown (settle ts (stream_finish now final ?s)) = [(ts, flush_text True final)]"
    using settle_flush(2) [of ts "?s\<lparr>ss_buffer := final\<rparr>" now True] m assms by (simp add: stream_finish_def)
  then show ?thesis by (simp add: stream_awaited_def flush_text_def)
qed

text \<open>
  The turn does not wait, though. While the first message is not answered, the final text (and every later draft) is posted as another message and the draft stays;
  and a draft edit that Slack carries out after the final one leaves the draft as the answer.
\<close>

lemma unanswered_draft_is_left_behind:
  "ss_shown (stream_run [Delta 5000 ''a'', FinalText 5900 ''a b'', SlackAnswer 0 (Some ''1''), SlackAnswer 1 (Some ''2'')] stream_init)
   = [(''1'', toMrkdwn ''a'' @ DRAFT_MARK), (''2'', toMrkdwn ''a b'')]"
  by (simp add: stream_run_def stream_append_def stream_finish_def stream_answer_def flush_start_def flush_text_def stream_init_def Let_def
        trim_def is_ws_def code_of_def)

lemma late_draft_replaces_answer:
  "ss_shown (stream_run [Delta 5000 ''a'', SlackAnswer 0 (Some ''1''), Delta 6300 '' b'', FinalText 6400 ''a b c'', SlackAnswer 2 (Some ''1''), SlackAnswer 1 (Some ''1'')] stream_init)
   = [(''1'', toMrkdwn ''a b'' @ DRAFT_MARK)]"
  by (simp add: stream_run_def stream_append_def stream_finish_def stream_answer_def flush_start_def flush_text_def stream_init_def Let_def
        trim_def is_ws_def code_of_def)

section \<open>Start and replies\<close>

text \<open>The adapter learns its own user id from \<open>auth.test\<close>; the messages it then reads are stripped of that mention.\<close>

definition slack_start :: "js_error + string option \<Rightarrow> js_error + unit \<Rightarrow> unit sl" where
  "slack_start auth started =
     bindE (liftE auth) (\<lambda>uid.
     thenE (upd_loc (\<lambda>s. s\<lparr>sl_botUserId := nullish uid ''''\<rparr>))
       (liftE started))"

definition slack_reply_text :: "SlOutside \<Rightarrow> SlackEvent \<Rightarrow> string \<Rightarrow> unit sl" where
  "slack_reply_text o' ev t = bindE (sl_send o' (Say (nullish (se_thread_ts ev) (se_ts ev)) (toMrkdwn t))) (\<lambda>_. retE ())"

definition slack_reply_card :: "SlOutside \<Rightarrow> SlackEvent \<Rightarrow> RequestCard \<Rightarrow> PostedMessageRef option sl" where
  "slack_reply_card o' ev crd = slack_postCard o' (ToChannel (se_channel ev)) crd"

lemma slack_reply_text_once:
  "calls (snd (slack_reply_text o' ev t w)) = calls w @ [Say (nullish (se_thread_ts ev) (se_ts ev)) (toMrkdwn t)]"
  by (simp add: slack_reply_text_def sl_send_def perform_def bindE_def retE_def split: sum.split)

lemma slack_start_failure:
  "slack_start (Inl e) started w = (Inl e, w)"
  "sl_botUserId (loc (snd (slack_start (Inr (Some i)) started w))) = i"
  by (simp_all add: slack_start_def bindE_def liftE_def thenE_def upd_loc_def modifyE_def nullish_def)

end
