(* ===== verification/AgentMain.thy ===== *)
theory AgentMain
  imports HttpApp "HOL-Library.Sublist"
begin

text \<open>
  The two programs of the access agent: the service (\<open>services/access-agent/src/index.ts\<close>) and the terminal (\<open>cli.ts\<close>), from the configuration to the
  exit status, and the shutdown both share (\<open>stop\<close> of \<open>app.ts\<close>). What a step does is the business of the other theories; here it is a call whose outcome
  the outside decides, so the statements cover every failure.
\<close>

section \<open>The steps\<close>

datatype MainCall =
    WarnCliIgnored
  | NewAdapter Platform
  | BuildApp
  | Listen HttpSurface int string
  | WarnPortBusy
  | StartAdapter Platform
  | ProbeBackend
  | OnSignals
  | ScriptDone
  | StopAdapter Platform
  | ClosePool
  | CloseServer HttpSurface
  | PrintError
  | ExitProcess int

type_synonym MainOutside = "MainCall \<Rightarrow> MainCall list \<Rightarrow> js_error + unit"
type_synonym 'a main = "((MainCall, unit) world, js_error, 'a) eff"

definition step :: "MainOutside \<Rightarrow> MainCall \<Rightarrow> unit main" where
  "step o' c = perform c (o' c)"

text \<open>\<open>Promise.all\<close>: everything is started whatever becomes of the others; the first failure is the outcome.\<close>

fun allE :: "('s, 'e, unit) eff list \<Rightarrow> ('s, 'e, unit) eff" where
  "allE [] = retE ()"
| "allE (m # ms) = (\<lambda>s. case m s of (r, s') \<Rightarrow> (case allE ms s' of (r', s'') \<Rightarrow> (case r of Inl e \<Rightarrow> (Inl e, s'') | Inr _ \<Rightarrow> (r', s''))))"

section \<open>The service\<close>

definition adapter_named :: "string \<Rightarrow> Platform option" where
  "adapter_named name =
     (if name = ''slack'' then Some Slack else if name = ''teams'' then Some Teams else if name = ''gchat'' then Some Gchat else None)"

fun create_adapters :: "MainOutside \<Rightarrow> string list \<Rightarrow> Platform list main" where
  "create_adapters o' [] = retE []"
| "create_adapters o' (name # names) =
     (case adapter_named name of
        Some p \<Rightarrow> thenE (step o' (NewAdapter p)) (bindE (create_adapters o' names) (\<lambda>ps. retE (p # ps)))
      | None \<Rightarrow>
          if name = ''cli'' then thenE (step o' WarnCliIgnored) (create_adapters o' names)
          else throwE (PlainError (''unknown adapter '' @ name)))"

definition ANY_HOST :: string where "ANY_HOST = ''0.0.0.0''"

definition agent_serve :: "MainOutside \<Rightarrow> Config \<Rightarrow> unit main" where
  "agent_serve o' cfg =
     bindE (create_adapters o' (csv (ADAPTERS cfg))) (\<lambda>adapters.
     thenE (step o' BuildApp)
    (thenE (forE (listeners cfg) (\<lambda>(surface, port). step o' (Listen surface port ANY_HOST)))
    (thenE (forE adapters (\<lambda>a. step o' (StartAdapter a)))
    (thenE (catchE (step o' ProbeBackend) (\<lambda>_. retE ()))
           (step o' OnSignals)))))"

text \<open>\<open>main().catch\<close>: any error is printed and ends the process.\<close>

definition or_exit :: "MainOutside \<Rightarrow> unit main \<Rightarrow> unit main" where
  "or_exit o' m = catchE m (\<lambda>_. thenE (catchE (step o' PrintError) (\<lambda>_. retE ())) (step o' (ExitProcess 1)))"

definition agent_main :: "MainOutside \<Rightarrow> js_error + Config \<Rightarrow> unit main" where
  "agent_main o' config = or_exit o' (bindE (liftE config) (agent_serve o'))"

section \<open>Shutdown\<close>

definition app_stop :: "MainOutside \<Rightarrow> Platform list \<Rightarrow> unit main" where
  "app_stop o' adapters =
     thenE (allE (map (\<lambda>a. catchE (step o' (StopAdapter a)) (\<lambda>_. retE ())) adapters))
       (step o' ClosePool)"

definition agent_shutdown :: "MainOutside \<Rightarrow> Platform list \<Rightarrow> HttpSurface list \<Rightarrow> unit main" where
  "agent_shutdown o' adapters servers =
     thenE (app_stop o' adapters)
    (thenE (allE (map (\<lambda>s. step o' (CloseServer s)) servers))
           (step o' (ExitProcess 0)))"

section \<open>The terminal\<close>

text \<open>A busy port is only warned about; the session ends when the script or the input does.\<close>

definition cli_serve :: "MainOutside \<Rightarrow> Config \<Rightarrow> unit main" where
  "cli_serve o' cfg =
     thenE (step o' (NewAdapter Cli))
    (thenE (step o' BuildApp)
    (thenE (catchE (step o' (Listen SurfaceAll (PORT cfg) ''127.0.0.1'')) (\<lambda>_. step o' WarnPortBusy))
    (thenE (step o' (StartAdapter Cli))
    (thenE (step o' ScriptDone)
    (thenE (app_stop o' [Cli])
    (thenE (step o' (CloseServer SurfaceAll))
           (step o' (ExitProcess 0))))))))"

definition cli_main :: "MainOutside \<Rightarrow> (string \<Rightarrow> bool) \<Rightarrow> (string \<Rightarrow> string + string) \<Rightarrow> Env \<Rightarrow> unit main" where
  "cli_main o' is_url readFile env = or_exit o' (bindE (liftE (loadConfig is_url readFile (cli_env env))) (cli_serve o'))"

section \<open>Plans\<close>

text \<open>\<open>follows Ps v m\<close>: the calls of \<open>m\<close> are those of one of the plans, in its order, up to the one that failed; if none failed the plan is carried out
  and the value is \<open>v\<close>.\<close>

definition follows :: "MainCall list set \<Rightarrow> 'a \<Rightarrow> 'a main \<Rightarrow> bool" where
  "follows Ps v m \<longleftrightarrow>
     (\<forall>w. \<exists>P \<in> Ps. \<exists>cs. prefix cs P \<and> calls (snd (m w)) = calls w @ cs \<and> (\<forall>x. fst (m w) = Inr x \<longrightarrow> cs = P \<and> x = v))"

definition followed_by :: "MainCall list set \<Rightarrow> MainCall list set \<Rightarrow> MainCall list set" where
  "followed_by Ps Qs = {P @ Q | P Q. P \<in> Ps \<and> Q \<in> Qs}"

lemma follows_bindE:
  assumes m: "follows Ps v m" and f: "follows Qs u (f v)"
  shows "follows (followed_by Ps Qs) u (bindE m f)"
  unfolding follows_def
proof
  fix w
  obtain r w' where r: "m w = (r, w')" by force
  obtain P cs where P: "P \<in> Ps" "prefix cs P" "calls w' = calls w @ cs" "\<forall>x. r = Inr x \<longrightarrow> cs = P \<and> x = v"
    using m [unfolded follows_def, rule_format, of w] r by auto
  obtain Q ds where Q: "Q \<in> Qs" "prefix ds Q" "calls (snd (f v w')) = calls w' @ ds" "\<forall>x. fst (f v w') = Inr x \<longrightarrow> ds = Q \<and> x = u"
    using f [unfolded follows_def, rule_format, of w'] by auto
  have PQ: "P @ Q \<in> followed_by Ps Qs" using P(1) Q(1) by (auto simp: followed_by_def)
  show "\<exists>R \<in> followed_by Ps Qs. \<exists>es. prefix es R \<and> calls (snd (bindE m f w)) = calls w @ es \<and> (\<forall>x. fst (bindE m f w) = Inr x \<longrightarrow> es = R \<and> x = u)"
  proof (cases r)
    case (Inl e)
    with PQ P(2,3) r show ?thesis by (intro bexI [of _ "P @ Q"] exI [of _ cs]) (auto simp: bindE_def intro: prefix_order.trans)
  next
    case (Inr x)
    with P(4) have "cs = P" "x = v" by auto
    with PQ P(3) Q(2,3,4) r Inr show ?thesis by (intro bexI [of _ "P @ Q"] exI [of _ "P @ ds"]) (auto simp: bindE_def)
  qed
qed

lemma follows_thenE: "follows Ps v m \<Longrightarrow> follows Qs u n \<Longrightarrow> follows (followed_by Ps Qs) u (thenE m n)"
  unfolding thenE_def by (rule follows_bindE)

lemma follows_retE: "follows {[]} v (retE v)" and follows_throwE: "follows {[]} v (throwE e)" and follows_liftE: "follows {[]} v (liftE (Inr v))"
  by (auto simp: follows_def retE_def throwE_def liftE_def)

lemma follows_step: "follows {[c]} () (step o' c)"
  by (auto simp: follows_def step_def perform_def)

lemma follows_ignored: "follows {[c]} () (catchE (step o' c) (\<lambda>_. retE ()))"
  by (auto simp: follows_def step_def perform_def catchE_def retE_def split: sum.split)

lemma follows_forE: "follows {map c xs} () (forE xs (\<lambda>x. step o' (c x)))"
proof (induction xs)
  case (Cons x xs)
  have "followed_by {[c x]} {map c xs} = {map c (x # xs)}" by (auto simp: followed_by_def)
  with follows_thenE [OF follows_step Cons, of "c x" o'] show ?case by simp
qed (simp add: follows_retE)

section \<open>What a run of the service is\<close>

definition creation :: "string \<Rightarrow> MainCall list" where
  "creation name = (case adapter_named name of Some p \<Rightarrow> [NewAdapter p] | None \<Rightarrow> if name = ''cli'' then [WarnCliIgnored] else [])"

definition named_adapters :: "string list \<Rightarrow> Platform list" where
  "named_adapters names = List.map_filter adapter_named names"

definition agent_plan :: "Config \<Rightarrow> MainCall list" where
  "agent_plan cfg =
     (let names = csv (ADAPTERS cfg) in
      concat (map creation names) @ [BuildApp] @ map (\<lambda>(surface, port). Listen surface port ANY_HOST) (listeners cfg)
      @ map StartAdapter (named_adapters names) @ [ProbeBackend, OnSignals])"

lemma follows_create: "follows {concat (map creation names)} (named_adapters names) (create_adapters o' names)"
proof (induction names)
  case (Cons name names)
  show ?case
  proof (cases "adapter_named name")
    case None
    then have n: "named_adapters (name # names) = named_adapters names" by (simp add: named_adapters_def List.map_filter_def)
    show ?thesis
    proof (cases "name = ''cli''")
      case True
      then have "followed_by {[WarnCliIgnored]} {concat (map creation names)} = {concat (map creation (name # names))}"
        using None by (auto simp: followed_by_def creation_def)
      with follows_thenE [OF follows_step Cons, of WarnCliIgnored o'] True None n show ?thesis by simp
    next
      case False
      with None n show ?thesis by (auto simp: follows_def throwE_def)
    qed
  next
    case (Some p)
    have "followed_by {[NewAdapter p]} (followed_by {concat (map creation names)} {[]}) = {concat (map creation (name # names))}"
      using Some by (auto simp: followed_by_def creation_def)
    moreover have "named_adapters (name # names) = p # named_adapters names" using Some by (simp add: named_adapters_def List.map_filter_def)
    moreover have "follows (followed_by {[NewAdapter p]} (followed_by {concat (map creation names)} {[]})) (p # named_adapters names)
        (thenE (step o' (NewAdapter p)) (bindE (create_adapters o' names) (\<lambda>ps. retE (p # ps))))"
      by (rule follows_thenE [OF follows_step follows_bindE [OF Cons follows_retE]])
    ultimately show ?thesis using Some by simp
  qed
qed (simp add: follows_retE named_adapters_def List.map_filter_def)

lemma follows_serve: "follows {agent_plan cfg} () (agent_serve o' cfg)"
proof -
  let ?names = "csv (ADAPTERS cfg)"
  let ?listen = "\<lambda>(surface, port). Listen surface port ANY_HOST"
  have l: "forE (listeners cfg) (\<lambda>(surface, port). step o' (Listen surface port ANY_HOST)) = forE (listeners cfg) (\<lambda>l. step o' (?listen l))"
    by (rule arg_cong [where f = "forE (listeners cfg)"]) (auto simp: fun_eq_iff)
  have "follows (followed_by {concat (map creation ?names)} (followed_by {[BuildApp]} (followed_by {map ?listen (listeners cfg)}
      (followed_by {map StartAdapter (named_adapters ?names)} (followed_by {[ProbeBackend]} {[OnSignals]}))))) () (agent_serve o' cfg)"
    unfolding agent_serve_def l
    by (rule follows_bindE [OF follows_create] follows_thenE follows_step follows_forE follows_ignored)+
  then show ?thesis by (simp add: followed_by_def agent_plan_def Let_def)
qed

text \<open>An error ends the process after it was printed.\<close>

lemma or_exit_calls:
  assumes "follows Ps v m"
  shows "\<exists>P \<in> Ps. \<exists>cs. prefix cs P \<and>
    calls (snd (or_exit o' m w)) = calls w @ cs @ (case fst (m w) of Inr _ \<Rightarrow> [] | Inl _ \<Rightarrow> [PrintError, ExitProcess 1]) \<and>
    (case fst (m w) of Inr _ \<Rightarrow> cs = P | Inl _ \<Rightarrow> True)"
proof -
  obtain r w' where r: "m w = (r, w')" by force
  with assms obtain P cs where P: "P \<in> Ps" "prefix cs P" "calls w' = calls w @ cs" "\<forall>x. r = Inr x \<longrightarrow> cs = P"
    unfolding follows_def by (metis fst_conv snd_conv)
  moreover have "calls (snd (or_exit o' m w)) = calls w' @ (case r of Inr _ \<Rightarrow> [] | Inl _ \<Rightarrow> [PrintError, ExitProcess 1])"
    by (cases r) (auto simp: or_exit_def catchE_def r step_def perform_def thenE_def bindE_def retE_def split: sum.split)
  ultimately show ?thesis using r by (intro bexI [of _ P] exI [of _ cs]) (auto split: sum.split)
qed

definition no_calls :: "(MainCall, unit) world" where "no_calls = \<lparr>calls = [], loc = ()\<rparr>"

text \<open>The service either carries out its plan and keeps running, or stops at the first step that fails, prints the error and exits with status one. By the
  plan every adapter has its handlers (\<open>buildApp\<close>) before it is started, adapters start one by one in the configured order and only when all listeners
  are open, and a shutdown can only be asked for once all of them run.\<close>

theorem agent_main_runs:
  "case config of
     Inl _ \<Rightarrow> calls (snd (agent_main o' config no_calls)) = [PrintError, ExitProcess 1]
   | Inr cfg \<Rightarrow> calls (snd (agent_main o' config no_calls)) = agent_plan cfg \<or>
       (\<exists>cs. prefix cs (agent_plan cfg) \<and> calls (snd (agent_main o' config no_calls)) = cs @ [PrintError, ExitProcess 1])"
proof (cases config)
  case (Inl e)
  then show ?thesis
    by (auto simp: agent_main_def or_exit_def catchE_def liftE_def bindE_def thenE_def step_def perform_def retE_def no_calls_def split: sum.split)
next
  case (Inr cfg)
  have "bindE (liftE config) (agent_serve o') = agent_serve o' cfg" by (rule ext) (simp add: Inr bindE_def liftE_def)
  with or_exit_calls [OF follows_serve, where o' = o' and w = no_calls] obtain cs where
    "prefix cs (agent_plan cfg)"
    "calls (snd (agent_main o' config no_calls)) = cs @ (case fst (agent_serve o' cfg no_calls) of Inr _ \<Rightarrow> [] | Inl _ \<Rightarrow> [PrintError, ExitProcess 1])"
    "case fst (agent_serve o' cfg no_calls) of Inr _ \<Rightarrow> cs = agent_plan cfg | Inl _ \<Rightarrow> True"
    by (auto simp: agent_main_def no_calls_def)
  then show ?thesis using Inr by (auto split: sum.splits)
qed

text \<open>With a configuration that loaded, the adapters started are those configured, the terminal's excepted.\<close>

lemma main_adapters_named: "main_adapters names = Inr ps \<Longrightarrow> named_adapters names = ps"
  by (induction names arbitrary: ps)
    (auto simp: named_adapters_def List.map_filter_def adapter_named_def split: if_splits option.splits sum.splits)

lemma unknown_adapter_stops:
  assumes "main_adapters names = Inl e"
  shows "\<exists>e'. fst (create_adapters o' names w) = Inl e'"
  using assms
proof (induction names arbitrary: w)
  case (Cons name names)
  then show ?case
    by (auto simp: adapter_named_def thenE_def bindE_def step_def perform_def throwE_def retE_def split: if_splits option.splits sum.splits prod.splits)
      (metis Inl_Inr_False fst_conv)+
qed simp

section \<open>Shutdown\<close>

lemma step_apply: "step o' c w = (o' c (calls w), w\<lparr>calls := calls w @ [c]\<rparr>)"
  by (simp add: step_def perform_def)

lemma ignored_apply: "catchE (step o' c) (\<lambda>_. retE ()) w = (Inr (), w\<lparr>calls := calls w @ [c]\<rparr>)"
  by (simp add: catchE_def step_apply retE_def split: sum.split)

lemma allE_ignored:
  "allE (map (\<lambda>a. catchE (step o' (c a)) (\<lambda>_. retE ())) xs) w = (Inr (), w\<lparr>calls := calls w @ map c xs\<rparr>)"
  by (induction xs arbitrary: w) (simp add: retE_def, simp add: ignored_apply)

lemma allE_steps: "calls (snd (allE (map (\<lambda>x. step o' (c x)) xs) w)) = calls w @ map c xs"
proof (induction xs arbitrary: w)
  case (Cons x xs)
  from Cons [of "w\<lparr>calls := calls w @ [c x]\<rparr>"] show ?case
    by (auto simp: step_apply split: sum.split prod.split)
qed (simp add: retE_def)

lemma app_stop_eq:
  "app_stop o' adapters w =
     (o' ClosePool (calls w @ map StopAdapter adapters), w\<lparr>calls := calls w @ map StopAdapter adapters @ [ClosePool]\<rparr>)"
  by (simp add: app_stop_def thenE_def bindE_def allE_ignored step_apply)

text \<open>Whatever fails, every adapter is stopped, and only then are the sessions closed; unless closing them fails every server is closed too, and the
  process ends with status zero exactly when nothing but an adapter failed.\<close>

theorem shutdown_stops_all:
  "calls (snd (agent_shutdown o' adapters servers w)) =
     calls w @ map StopAdapter adapters @ ClosePool #
       (case o' ClosePool (calls w @ map StopAdapter adapters) of
          Inl _ \<Rightarrow> []
        | Inr _ \<Rightarrow> map CloseServer servers @
            (case fst (allE (map (\<lambda>s. step o' (CloseServer s)) servers) (w\<lparr>calls := calls w @ map StopAdapter adapters @ [ClosePool]\<rparr>)) of
               Inl _ \<Rightarrow> [] | Inr _ \<Rightarrow> [ExitProcess 0]))"
proof -
  let ?w = "w\<lparr>calls := calls w @ map StopAdapter adapters @ [ClosePool]\<rparr>"
  obtain r w' where c: "allE (map (\<lambda>s. step o' (CloseServer s)) servers) ?w = (r, w')" by force
  then have "calls w' = calls ?w @ map CloseServer servers" using allE_steps [of o' CloseServer servers ?w] by simp
  then show ?thesis
    using c by (auto simp: agent_shutdown_def thenE_def bindE_def step_apply app_stop_eq split: sum.split)
qed

section \<open>The terminal\<close>

definition cli_plan :: "bool \<Rightarrow> Config \<Rightarrow> MainCall list" where
  "cli_plan busy cfg =
     [NewAdapter Cli, BuildApp, Listen SurfaceAll (PORT cfg) ''127.0.0.1''] @ (if busy then [WarnPortBusy] else [])
     @ [StartAdapter Cli, ScriptDone, StopAdapter Cli, ClosePool, CloseServer SurfaceAll, ExitProcess 0]"

lemma follows_port: "follows {[Listen s p h], [Listen s p h, WarnPortBusy]} () (catchE (step o' (Listen s p h)) (\<lambda>_. step o' WarnPortBusy))"
  by (auto simp: follows_def step_def perform_def catchE_def split: sum.split)

lemma follows_stop: "follows {[StopAdapter Cli, ClosePool]} () (app_stop o' [Cli])"
  by (auto simp: follows_def app_stop_eq)

lemma follows_cli: "follows {cli_plan False cfg, cli_plan True cfg} () (cli_serve o' cfg)"
proof -
  let ?L = "Listen SurfaceAll (PORT cfg) ''127.0.0.1''"
  have "follows (followed_by {[NewAdapter Cli]} (followed_by {[BuildApp]} (followed_by {[?L], [?L, WarnPortBusy]} (followed_by {[StartAdapter Cli]}
      (followed_by {[ScriptDone]} (followed_by {[StopAdapter Cli, ClosePool]} (followed_by {[CloseServer SurfaceAll]} {[ExitProcess 0]}))))))) ()
      (cli_serve o' cfg)"
    unfolding cli_serve_def by (rule follows_thenE follows_port follows_stop follows_step)+
  then show ?thesis by (simp add: followed_by_def cli_plan_def) (erule back_subst, auto)
qed

lemma cli_main_runs:
  assumes "loadConfig is_url readFile (cli_env env) = Inr cfg"
  shows "\<exists>busy. calls (snd (cli_main o' is_url readFile env no_calls)) = cli_plan busy cfg \<or>
    (\<exists>cs. prefix cs (cli_plan busy cfg) \<and> calls (snd (cli_main o' is_url readFile env no_calls)) = cs @ [PrintError, ExitProcess 1])"
proof -
  have "bindE (liftE (loadConfig is_url readFile (cli_env env))) (cli_serve o') = cli_serve o' cfg"
    by (rule ext) (simp add: assms bindE_def liftE_def)
  then have "cli_main o' is_url readFile env = or_exit o' (cli_serve o' cfg)" by (simp add: cli_main_def)
  moreover obtain busy cs where "prefix cs (cli_plan busy cfg)"
    "calls (snd (or_exit o' (cli_serve o' cfg) no_calls)) = cs @ (case fst (cli_serve o' cfg no_calls) of Inr _ \<Rightarrow> [] | Inl _ \<Rightarrow> [PrintError, ExitProcess 1])"
    "case fst (cli_serve o' cfg no_calls) of Inr _ \<Rightarrow> cs = cli_plan busy cfg | Inl _ \<Rightarrow> True"
    using or_exit_calls [OF follows_cli [of cfg o'], of o' no_calls] by (auto simp: no_calls_def)
  ultimately show ?thesis by (intro exI [of _ busy]) (auto split: sum.splits)
qed

end
