(* ===== verification/GchatAdapter.thy ===== *)
theory GchatAdapter
  imports HttpApp AdapterContract
begin

text \<open>
  The Google Chat adapter (\<open>services/access-agent/src/adapters/gchat/index.ts\<close>): the replay cache for
  bearer tokens, the event route, the handling of messages and card clicks, the cards. Outside are Google's
  token verification (with the token's \<open>jti\<close>), the Chat API, \<open>Date.parse\<close> and SHA-256; a message or a click
  handed to the application is an outside call whose outcome is the text it answers with. A Chat event is the
  signed JSON body; its fields have the types Chat documents, and a field of another type counts as absent.
\<close>

section \<open>The replay cache\<close>

definition EVENT_TIME_WINDOW_MS :: int where "EVENT_TIME_WINDOW_MS = 5 * 60000"
definition TOKEN_REPLAY_TTL_MS :: int where "TOKEN_REPLAY_TTL_MS = 10 * 60000"
definition TOKEN_REPLAY_MAX :: nat where "TOKEN_REPLAY_MAX = 10000"
definition POSTED_CARDS_MAX :: nat where "POSTED_CARDS_MAX = 5000"

record ReplayCache =
  rp_ttlMs :: int
  rp_max :: nat
  rp_seen :: "(string, int) jsmap"

text \<open>Entries leave from the front, in insertion order, up to the first that is still live.\<close>

fun sweep_list :: "int \<Rightarrow> int \<Rightarrow> (string, int) jsmap \<Rightarrow> (string, int) jsmap" where
  "sweep_list ttl now [] = []"
| "sweep_list ttl now ((k, t) # m) = (if now - t < ttl then (k, t) # m else sweep_list ttl now m)"

definition sweep :: "int \<Rightarrow> ReplayCache \<Rightarrow> ReplayCache" where
  "sweep now c = c\<lparr>rp_seen := sweep_list (rp_ttlMs c) now (rp_seen c)\<rparr>"

definition drop_over :: "nat \<Rightarrow> 'a list \<Rightarrow> 'a list" where
  "drop_over n xs = drop (length xs - n) xs"

definition seenBefore :: "string \<Rightarrow> int \<Rightarrow> ReplayCache \<Rightarrow> bool \<times> ReplayCache" where
  "seenBefore i now c0 =
     (let c = sweep now c0 in
      if (case map_of (rp_seen c) i of Some at \<Rightarrow> now - at < rp_ttlMs c | None \<Rightarrow> False) then (True, c)
      else (False, c\<lparr>rp_seen := drop_over (rp_max c) (AList.update i now (rp_seen c))\<rparr>))"

definition eventTimeFresh :: "(string \<Rightarrow> int option) \<Rightarrow> json option \<Rightarrow> int \<Rightarrow> bool" where
  "eventTimeFresh date_parse eventTime now =
     (case eventTime of
        Some (JStr s) \<Rightarrow> (case date_parse s of Some t \<Rightarrow> \<bar>now - t\<bar> \<le> EVENT_TIME_WINDOW_MS | None \<Rightarrow> False)
      | _ \<Rightarrow> False)"

section \<open>Events\<close>

text \<open>\<open>v?.k\<close>, and \<open>a ?? b\<close> on JSON values, for which null is nullish too.\<close>

definition jchain :: "json option \<Rightarrow> string \<Rightarrow> json option" where
  "jchain v k = (case v of Some j \<Rightarrow> jfield k j | None \<Rightarrow> None)"

definition jor :: "json option \<Rightarrow> json option \<Rightarrow> json option" where
  "jor a b = (case a of None \<Rightarrow> b | Some JNull \<Rightarrow> b | _ \<Rightarrow> a)"

definition isDmSpace :: "json option \<Rightarrow> bool" where
  "isDmSpace sp \<longleftrightarrow> jtruthy sp \<and> (jchain sp ''type'' = Some (JStr ''DM'') \<or> jchain sp ''spaceType'' = Some (JStr ''DIRECT_MESSAGE'')
     \<or> jchain sp ''singleUserBotDm'' = Some (JBool True))"

definition sender_of :: "json option \<Rightarrow> GchatSender" where
  "sender_of s = \<lparr>gs_name = jstring (jchain s ''name''), gs_displayName = jstring (jchain s ''displayName''),
     gs_email = jstring (jchain s ''email''), gs_type = jstring (jchain s ''type'')\<rparr>"

definition gchat_user :: "string \<Rightarrow> string \<Rightarrow> GchatSender \<Rightarrow> ChatUser" where
  "gchat_user uid fallback s =
     \<lparr>cu_platform = Gchat, cu_platformUserId = uid, cu_displayName = nullish (gs_displayName s) fallback,
      cu_email = gs_email s, cu_emailVerified = truthy (gs_email s), cu_tenantId = None\<rparr>"

definition gchat_resolveUser :: "string \<Rightarrow> ClickContext \<Rightarrow> ChatUser" where
  "gchat_resolveUser uid ctx =
     (case ctx of
        CtxGchat s \<Rightarrow>
          if gs_type s = Some ''HUMAN'' \<and> gs_name s = Some uid then gchat_user uid uid s
          else \<lparr>cu_platform = Gchat, cu_platformUserId = uid, cu_displayName = uid, cu_email = None, cu_emailVerified = False, cu_tenantId = None\<rparr>
      | _ \<Rightarrow> \<lparr>cu_platform = Gchat, cu_platformUserId = uid, cu_displayName = uid, cu_email = None, cu_emailVerified = False, cu_tenantId = None\<rparr>)"

text \<open>The default token check: Google verifies signature and audience, the adapter the issuer.\<close>

definition CHAT_ISSUER :: string where "CHAT_ISSUER = ''chat@system.gserviceaccount.com''"

definition default_verifyToken :: "(string \<Rightarrow> string \<Rightarrow> js_error + json option) \<Rightarrow> string \<Rightarrow> string \<Rightarrow> js_error + string option" where
  "default_verifyToken verifyIdToken project token =
     (case verifyIdToken token project of
        Inl e \<Rightarrow> Inl e
      | Inr p \<Rightarrow>
          if jchain p ''iss'' \<noteq> Some (JStr CHAT_ISSUER) \<and> jchain p ''email'' \<noteq> Some (JStr CHAT_ISSUER) then Inl (PlainError ''unexpected issuer'')
          else Inr (jstring (jchain p ''jti'')))"

section \<open>The outside and the state\<close>

datatype GcCall =
    GcVerify string
  | GcFindDm string
  | GcCreate string json
  | GcPatch string json
  | GcHandMessage IncomingMessage
  | GcHandClick ButtonClick

record GcOutside =
  go_now :: "GcCall list \<Rightarrow> int"
  go_datestr :: "GcCall list \<Rightarrow> string"
  go_verify :: "string \<Rightarrow> GcCall list \<Rightarrow> js_error + string option"
  go_dateparse :: "string \<Rightarrow> int option"
  go_sha256hex :: "string \<Rightarrow> string"
  go_findDm :: "string \<Rightarrow> GcCall list \<Rightarrow> js_error + string option"
  go_create :: "string \<Rightarrow> json \<Rightarrow> GcCall list \<Rightarrow> js_error + string option"
  go_patch :: "string \<Rightarrow> json \<Rightarrow> GcCall list \<Rightarrow> js_error + unit"
  go_onMsg :: "IncomingMessage \<Rightarrow> GcCall list \<Rightarrow> js_error + string"
  go_onBtn :: "ButtonClick \<Rightarrow> GcCall list \<Rightarrow> js_error + string"

record GcState =
  gc_replay :: ReplayCache
  gc_posted :: "string list"
  gc_spaces :: "(string, string option) jsmap"

type_synonym 'a gc = "((GcCall, GcState) world, js_error, 'a) eff"

definition new_GoogleChatAdapter :: GcState where
  "new_GoogleChatAdapter = \<lparr>gc_replay = \<lparr>rp_ttlMs = TOKEN_REPLAY_TTL_MS, rp_max = TOKEN_REPLAY_MAX, rp_seen = []\<rparr>,
     gc_posted = [], gc_spaces = []\<rparr>"

section \<open>Handling an event\<close>

definition jstr_field :: "string \<Rightarrow> string option \<Rightarrow> (string \<times> json) list" where
  "jstr_field k v = (case v of Some s \<Rightarrow> [(k, JStr s)] | None \<Rightarrow> [])"

definition privateReply :: "GchatSender \<Rightarrow> string \<Rightarrow> json" where
  "privateReply s t = JObj ([(''actionResponse'', JObj [(''type'', JStr ''NEW_MESSAGE'')]), (''text'', JStr t)]
     @ (if truthy (gs_name s) then [(''privateMessageViewer'', JObj (jstr_field ''name'' (gs_name s)))] else []))"

definition gchat_message :: "GcOutside \<Rightarrow> json \<Rightarrow> json gc" where
  "gchat_message o' ev =
     (let msg = jfield ''message'' ev; space = jfield ''space'' ev;
          sender = sender_of (jor (jchain msg ''sender'') (jfield ''user'' ev)) in
      if gs_type sender \<noteq> Some ''HUMAN'' then retE (JObj [])
      else if \<not> isDmSpace space then
        retE (JObj [(''text'', JStr ''Please message me directly; I only handle access questions in a direct message.'')])
      else
        let user = gchat_user (nullish (gs_name sender) '''') (nullish (gs_name sender) '''') sender;
            text = trim (nullish (jstring (jchain msg ''argumentText'')) (nullish (jstring (jchain msg ''text'')) ''''));
            thread = jstring (jchain (jchain msg ''thread'') ''name'');
            spaceName = jstring (jchain space ''name'') in
        thenE (whenE (truthy (cu_email user))
                 (upd_loc (\<lambda>s. s\<lparr>gc_spaces := AList.update (toLowerCase (nullish (cu_email user) '''')) spaceName (gc_spaces s)\<rparr>)))
        (bindE (read_clock (go_datestr o')) (\<lambda>stamp.
         let m = \<lparr>im_id = nullish (jstring (jchain msg ''name'')) stamp, im_user = user,
                  im_conversation = \<lparr>cr_platform = Gchat, cr_channelId = nullish spaceName '''', cr_threadId = thread, cr_raw = None\<rparr>,
                  im_text = text, im_isDirectMessage = True, im_mentionedBot = True\<rparr> in
         bindE (perform (GcHandMessage m) (go_onMsg o' m)) (\<lambda>result.
         retE (JObj ([(''text'', JStr result)]
            @ (if truthy thread then [(''thread'', JObj (jstr_field ''name'' thread))] else [])))))))"

text \<open>The click's parameters: the members of \<open>common.parameters\<close>, or the legacy list of key-value objects. Calling
  \<open>map\<close> on something else, or reading a null element, is a \<open>TypeError\<close>.\<close>

definition raw_params :: "json \<Rightarrow> js_error + (string \<times> json) list" where
  "raw_params ev =
     (let p = jchain (jfield ''common'' ev) ''parameters'' in
      if jtruthy p then Inr (case p of Some (JObj kvs) \<Rightarrow> kvs | _ \<Rightarrow> [])
      else
        (case jor (jchain (jfield ''action'' ev) ''parameters'') (Some (JArr [])) of
           Some (JArr ps) \<Rightarrow>
             if JNull \<in> set ps then Inl (PlainError ''TypeError'')
             else Inr (map (\<lambda>p. (js_undef_string (jfield ''key'' p), nullish (jfield ''value'' p) JNull)) ps)
         | _ \<Rightarrow> Inl (PlainError ''TypeError'')))"

definition string_params :: "(string \<times> json) list \<Rightarrow> string \<Rightarrow> string option" where
  "string_params raw k = map_of (rev (List.map_filter (\<lambda>kv. map_option (Pair (fst kv)) (jstring (Some (snd kv)))) raw)) k"

definition first_reason :: "json option \<Rightarrow> string option" where
  "first_reason v = (case v of Some (JArr (x # _)) \<Rightarrow> jstring (Some x) | Some (JStr (c # _)) \<Rightarrow> Some [c] | _ \<Rightarrow> None)"

definition click_reason :: "json \<Rightarrow> string option" where
  "click_reason ev = first_reason
     (jchain (jchain (jchain (jchain (jfield ''common'' ev) ''formInputs'') ''reason'') ''stringInputs'') ''value'')"

definition gchat_click :: "GcOutside \<Rightarrow> json \<Rightarrow> json gc" where
  "gchat_click o' ev =
     (let sender = sender_of (jfield ''user'' ev); messageName = jstring (jchain (jfield ''message'' ev) ''name'') in
      if gs_type sender \<noteq> Some ''HUMAN'' \<or> \<not> truthy (gs_name sender) then retE (JObj [])
      else
        bindE (getE (\<lambda>w. gc_posted (loc w))) (\<lambda>posted.
        if \<not> truthy messageName \<or> nullish messageName '''' \<notin> set posted then
          retE (privateReply sender ''This card is stale; ask the assistant for the current state.'')
        else
          bindE (liftE (raw_params ev)) (\<lambda>raw.
          let params = string_params raw in
          case button_of (nullish (params ''button'') '''') of
            Some button \<Rightarrow>
              if \<not> truthy (params ''requestId'') \<or> \<not> truthy (params ''nonce'') then retE (privateReply sender ''This button is malformed.'')
              else
                let uid = nullish (gs_name sender) '''';
                    k = \<lparr>bc_user = gchat_user uid uid sender, bc_button = button,
                         bc_requestId = nullish (params ''requestId'') '''', bc_nonce = nullish (params ''nonce'') '''',
                         bc_message = \<lparr>pm_conversation = \<lparr>cr_platform = Gchat,
                              cr_channelId = nullish (jstring (jchain (jfield ''space'' ev) ''name'')) '''', cr_threadId = None, cr_raw = None\<rparr>,
                            pm_messageId = nullish messageName ''''\<rparr>,
                         bc_reason = click_reason ev, bc_ctx = CtxGchat sender\<rparr> in
                bindE (perform (GcHandClick k) (go_onBtn o' k)) (\<lambda>response. retE (privateReply sender response))
          | None \<Rightarrow> retE (privateReply sender ''This button is malformed.''))))"

definition gchat_handleEvent :: "GcOutside \<Rightarrow> json \<Rightarrow> json gc" where
  "gchat_handleEvent o' ev =
     (if jfield ''type'' ev = Some (JStr ''MESSAGE'') then gchat_message o' ev
      else if jfield ''type'' ev = Some (JStr ''CARD_CLICKED'') then gchat_click o' ev
      else if jfield ''type'' ev = Some (JStr ''ADDED_TO_SPACE'') then
        retE (JObj [(''text'', JStr ''Hi! Ask me about Teleport access: what you can reach, which role you need, or request a role.'')])
      else retE (JObj []))"

section \<open>The route\<close>

text \<open>\<open>authz.replace(/^Bearer\s+/i, "")\<close>.\<close>

definition strip_bearer :: "string \<Rightarrow> string" where
  "strip_bearer a =
     (if map lower_char (take 6 a) = ''bearer'' \<and> drop 6 a \<noteq> [] \<and> is_ws (hd (drop 6 a)) then dropWhile is_ws (drop 6 a) else a)"

definition error_body :: "string \<Rightarrow> json" where
  "error_body e = JObj [(''error'', JStr e)]"

definition upd_replay :: "string \<Rightarrow> int \<Rightarrow> bool gc" where
  "upd_replay key now =
     bindE (getE (\<lambda>w. seenBefore key now (gc_replay (loc w)))) (\<lambda>(seen, c).
       thenE (upd_loc (\<lambda>s. s\<lparr>gc_replay := c\<rparr>)) (retE seen))"

definition gchat_events :: "GcOutside \<Rightarrow> HeaderValue option \<Rightarrow> json option \<Rightarrow> (int \<times> json) gc" where
  "gchat_events o' authorization body =
     (let token = strip_bearer (nullish (header_first authorization) '''') in
      if token = [] then retE (401, error_body ''unauthorized'')
      else
        bindE (catchE (bindE (perform (GcVerify token) (go_verify o' token)) (\<lambda>j. retE (Some j))) (\<lambda>_. retE None)) (\<lambda>v.
        case v of
          None \<Rightarrow> retE (401, error_body ''unauthorized'')
        | Some jti \<Rightarrow>
            bindE (read_clock (go_now o')) (\<lambda>now.
            bindE (upd_replay (nullish jti (go_sha256hex o' token)) now) (\<lambda>seen.
            if seen then retE (401, error_body ''replay'')
            else
              bindE (read_clock (go_now o')) (\<lambda>now'.
              if \<not> eventTimeFresh (go_dateparse o') (jchain body ''eventTime'') now' then retE (401, error_body ''stale event'')
              else bindE (gchat_handleEvent o' (nullish body JNull)) (\<lambda>r. retE (200, r)))))))"

definition gchat_httpRoutes :: "Config \<Rightarrow> HttpRoute list" where
  "gchat_httpRoutes cfg = (if GCHAT_MODE cfg = GchatHttp then [\<lparr>hr_method = POST, hr_path = ''/gchat/events''\<rparr>] else [])"

section \<open>Cards\<close>

definition jrgb :: "nat \<times> nat \<times> nat \<Rightarrow> json" where
  "jrgb c = (case c of (r, g, b) \<Rightarrow>
     JObj [(''red'', JFrac (''0.'' @ show_nat r)), (''green'', JFrac (''0.'' @ show_nat g)), (''blue'', JFrac (''0.'' @ show_nat b)), (''alpha'', JInt 1)])"

definition jparam :: "string \<Rightarrow> string \<Rightarrow> json" where
  "jparam k v = JObj [(''key'', JStr k), (''value'', JStr v)]"

definition gchat_button :: "RequestCard \<Rightarrow> CardButton \<Rightarrow> json" where
  "gchat_button crd b = JObj ([(''text'', JStr (cb_label b))]
     @ (case cb_style b of Some Danger \<Rightarrow> [(''color'', jrgb (8, 1, 1))] | Some Primary \<Rightarrow> [(''color'', jrgb (1, 5, 2))] | None \<Rightarrow> [])
     @ [(''onClick'', JObj [(''action'', JObj [(''function'', JStr (button_name (cb_id b))),
          (''parameters'', JArr [jparam ''requestId'' (rc_requestId crd), jparam ''nonce'' (rc_nonce crd), jparam ''button'' (button_name (cb_id b))])])])])"

definition gchat_widgets :: "RequestCard \<Rightarrow> json list" where
  "gchat_widgets crd =
     map (\<lambda>kv. JObj [(''decoratedText'', JObj [(''topLabel'', JStr (fst kv)), (''text'', JStr (snd kv)), (''wrapText'', JBool True)])]) (rc_fields crd)
     @ (if rc_status crd = Pending then [JObj [(''textInput'', JObj [(''name'', JStr ''reason''), (''label'', JStr ''Reason (optional)''),
          (''type'', JStr ''MULTIPLE_LINE'')])]] else [])
     @ (if truthy (rc_footer crd) then [JObj [(''textParagraph'', JObj [(''text'', JStr (''<i>'' @ nullish (rc_footer crd) '''' @ ''</i>''))])]] else [])
     @ (if rc_buttons crd \<noteq> [] then [JObj [(''buttonList'', JObj [(''buttons'', JArr (map (gchat_button crd) (rc_buttons crd)))])]] else [])"

definition renderCardV2 :: "RequestCard \<Rightarrow> json" where
  "renderCardV2 crd = JObj [(''cardId'', JStr (''access-'' @ rc_requestId crd)),
     (''card'', JObj [(''header'', JObj [(''title'', JStr (rc_title crd)), (''subtitle'', JStr (status_name (rc_status crd)))]),
        (''sections'', JArr [JObj [(''widgets'', JArr (gchat_widgets crd))]])])]"

definition gchat_card_body :: "RequestCard \<Rightarrow> json" where
  "gchat_card_body crd = JObj [(''text'', JStr (rc_title crd)), (''cardsV2'', JArr [renderCardV2 crd])]"

definition rememberCard :: "string \<Rightarrow> GcState \<Rightarrow> GcState" where
  "rememberCard name s = s\<lparr>gc_posted := drop_over POSTED_CARDS_MAX (if name \<in> set (gc_posted s) then gc_posted s else gc_posted s @ [name])\<rparr>"

definition gchat_space :: "GcOutside \<Rightarrow> CardTarget \<Rightarrow> string option gc" where
  "gchat_space o' tgt =
     (case tgt of
        ToChannel c \<Rightarrow> retE (Some c)
      | ToUser email \<Rightarrow>
          bindE (getE (\<lambda>w. map_of (gc_spaces (loc w)) (toLowerCase email))) (\<lambda>known.
            case known of
              Some (Some (c # cs)) \<Rightarrow> retE (Some (c # cs))
            | _ \<Rightarrow> catchE (perform (GcFindDm (''users/'' @ email)) (go_findDm o' (''users/'' @ email))) (\<lambda>_. retE None)))"

definition gchat_postCard :: "GcOutside \<Rightarrow> CardTarget \<Rightarrow> RequestCard \<Rightarrow> PostedMessageRef option gc" where
  "gchat_postCard o' tgt crd =
     bindE (gchat_space o' tgt) (\<lambda>space.
     if \<not> truthy space then retE None
     else
       let sp = nullish space '''' in
       bindE (perform (GcCreate sp (gchat_card_body crd)) (go_create o' sp (gchat_card_body crd))) (\<lambda>r.
       let i = nullish r '''' in
       thenE (whenE (i \<noteq> []) (upd_loc (rememberCard i)))
         (retE (Some \<lparr>pm_conversation = \<lparr>cr_platform = Gchat, cr_channelId = sp, cr_threadId = None, cr_raw = None\<rparr>,
                     pm_messageId = i\<rparr>))))"

definition gchat_updateCard :: "GcOutside \<Rightarrow> PostedMessageRef \<Rightarrow> RequestCard \<Rightarrow> unit gc" where
  "gchat_updateCard o' ref crd = perform (GcPatch (pm_messageId ref) (gchat_card_body crd)) (go_patch o' (pm_messageId ref) (gchat_card_body crd))"

section \<open>Lemmas: the replay cache\<close>

definition rp_inv :: "int \<Rightarrow> ReplayCache \<Rightarrow> bool" where
  "rp_inv now c \<longleftrightarrow> sorted (map snd (rp_seen c)) \<and> list_all (\<lambda>kt. snd kt \<le> now) (rp_seen c) \<and> jm_wf (rp_seen c)"

lemma sweep_list_dropWhile: "sweep_list ttl now m = dropWhile (\<lambda>kt. \<not> now - snd kt < ttl) m"
  by (induction m) auto

lemma sweep_list_live: "sorted (map snd m) \<Longrightarrow> kt \<in> set (sweep_list ttl now m) \<Longrightarrow> now - snd kt < ttl"
  by (induction m) (force split: if_splits)+

lemma sweep_list_keeps:
  "now - t < ttl \<Longrightarrow> \<exists>pre'. sweep_list ttl now (pre @ (i, t) # post) = pre' @ (i, t) # post"
  by (induction pre) auto

lemma sorted_map_drop: "sorted (map f xs) \<Longrightarrow> sorted (map f (drop n xs))"
  by (simp add: drop_map [symmetric] sorted_wrt_drop)

lemma rp_inv_sub:
  assumes "rp_inv now0 c" and "now0 \<le> now" and "rp_seen c' = drop n (rp_seen c)"
  shows "rp_inv now c'"
  using assms by (auto simp: rp_inv_def jm_wf_def list_all_iff drop_map [symmetric] sorted_wrt_drop
      dest: in_set_dropD intro: order_trans)

lemma rp_inv_sweep: "rp_inv now0 c \<Longrightarrow> now0 \<le> now \<Longrightarrow> rp_inv now (sweep now c)"
  by (rule rp_inv_sub) (auto simp: sweep_def sweep_list_dropWhile dropWhile_eq_drop)

lemma update_fresh: "map_of m k = None \<Longrightarrow> AList.update k v m = m @ [(k, v)]"
  by (induction m) (auto split: if_splits)

text \<open>What one question does: a live entry is reported and nothing changes; otherwise the id is appended.\<close>

lemma seenBefore_cases:
  assumes "rp_inv now0 c" and "now0 \<le> now"
  shows "seenBefore i now c =
    (if jm_has (rp_seen (sweep now c)) i then (True, sweep now c)
     else (False, (sweep now c)\<lparr>rp_seen := drop_over (rp_max c) (rp_seen (sweep now c) @ [(i, now)])\<rparr>))"
proof -
  have live: "map_of (rp_seen (sweep now c)) i = Some at \<Longrightarrow> now - at < rp_ttlMs c" for at
    using sweep_list_live [of "rp_seen c" "(i, at)" "rp_ttlMs c" now] assms(1)
    by (auto simp: rp_inv_def sweep_def dest: map_of_SomeD)
  have f: "rp_max (sweep now c) = rp_max c" "rp_ttlMs (sweep now c) = rp_ttlMs c" by (simp_all add: sweep_def)
  show ?thesis
    using live by (auto simp: seenBefore_def Let_def f update_fresh split: option.split)
qed

lemma rp_inv_seenBefore:
  assumes "rp_inv now0 c" and "now0 \<le> now"
  shows "rp_inv now (snd (seenBefore i now c)) \<and> rp_max (snd (seenBefore i now c)) = rp_max c \<and>
    rp_ttlMs (snd (seenBefore i now c)) = rp_ttlMs c"
proof -
  have s: "rp_inv now (sweep now c)" by (rule rp_inv_sweep [OF assms])
  have f: "rp_max (sweep now c) = rp_max c" "rp_ttlMs (sweep now c) = rp_ttlMs c" by (simp_all add: sweep_def)
  have a: "rp_inv now ((sweep now c)\<lparr>rp_seen := rp_seen (sweep now c) @ [(i, now)]\<rparr>)" if "\<not> jm_has (rp_seen (sweep now c)) i"
    using s that by (auto simp: rp_inv_def jm_wf_def sorted_append list_all_iff map_of_eq_None_iff)
  have d: "rp_inv now (cc\<lparr>rp_seen := drop_over n xs\<rparr>)" if "rp_inv now (cc\<lparr>rp_seen := xs\<rparr>)" for cc n xs
    by (rule rp_inv_sub [OF that order_refl]) (simp add: drop_over_def)
  show ?thesis
    unfolding seenBefore_cases [OF assms] using s f a d by auto
qed

definition holds :: "string \<Rightarrow> int \<Rightarrow> nat \<Rightarrow> ReplayCache \<Rightarrow> bool" where
  "holds i t n c \<longleftrightarrow> (\<exists>pre post. rp_seen c = pre @ (i, t) # post \<and> length post \<le> n)"

lemma holds_seen:
  assumes "rp_inv now0 c" and "now0 \<le> now" and "holds i t n c" and "now - t < rp_ttlMs c"
  shows "fst (seenBefore i now c)"
proof -
  obtain pre post where s: "rp_seen c = pre @ (i, t) # post" using assms(3) by (auto simp: holds_def)
  obtain pre' where "rp_seen (sweep now c) = pre' @ (i, t) # post"
    using sweep_list_keeps [OF assms(4), of pre i post] s by (auto simp: sweep_def)
  then have "jm_has (rp_seen (sweep now c)) i" by (auto simp: map_of_eq_None_iff)
  then show ?thesis by (simp add: seenBefore_cases [OF assms(1,2)])
qed

lemma holds_step:
  assumes "rp_inv now0 c" and "now0 \<le> now" and "holds i t n c" and "now - t < rp_ttlMs c" and "Suc n < rp_max c"
  shows "holds i t (Suc n) (snd (seenBefore k now c))"
proof -
  obtain pre post where s: "rp_seen c = pre @ (i, t) # post" "length post \<le> n" using assms(3) by (auto simp: holds_def)
  obtain pre' where p: "rp_seen (sweep now c) = pre' @ (i, t) # post"
    using sweep_list_keeps [OF assms(4), of pre i post] s by (auto simp: sweep_def)
  let ?m = "drop_over (rp_max c) (pre' @ (i, t) # post @ [(k, now)])"
  have "?m = drop (length pre' + length post + 2 - rp_max c) pre' @ (i, t) # post @ [(k, now)]"
    using assms(5) s(2) by (simp add: drop_over_def)
  then show ?thesis
    using s(2) p by (auto simp: seenBefore_cases [OF assms(1,2)] holds_def) (metis le_Suc_eq length_append_singleton Suc_le_mono)+
qed

fun replay_run :: "(string \<times> int) list \<Rightarrow> ReplayCache \<Rightarrow> ReplayCache" where
  "replay_run [] c = c"
| "replay_run ((k, t) # ks) c = replay_run ks (snd (seenBefore k t c))"

lemma replay_run_holds:
  "rp_inv t0 c \<Longrightarrow> sorted (t0 # map snd ks) \<Longrightarrow> holds i t n c \<Longrightarrow> n + length ks < rp_max c \<Longrightarrow>
   list_all (\<lambda>kt. snd kt - t < rp_ttlMs c) ks \<Longrightarrow>
   holds i t (n + length ks) (replay_run ks c) \<and> rp_ttlMs (replay_run ks c) = rp_ttlMs c \<and>
   rp_inv (last (t0 # map snd ks)) (replay_run ks c)"
proof (induction ks arbitrary: c t0 n)
  case (Cons k ks)
  obtain j s where k: "k = (j, s)" by force
  have le: "t0 \<le> s" using Cons.prems(2) k by simp
  have step: "holds i t (Suc n) (snd (seenBefore j s c))"
    using holds_step [OF Cons.prems(1) le Cons.prems(3)] Cons.prems(4,5) k by simp
  have inv: "rp_inv s (snd (seenBefore j s c))" "rp_max (snd (seenBefore j s c)) = rp_max c" "rp_ttlMs (snd (seenBefore j s c)) = rp_ttlMs c"
    using rp_inv_seenBefore [OF Cons.prems(1) le] by auto
  have "holds i t (Suc n + length ks) (replay_run ks (snd (seenBefore j s c))) \<and>
      rp_ttlMs (replay_run ks (snd (seenBefore j s c))) = rp_ttlMs c \<and>
      rp_inv (last (s # map snd ks)) (replay_run ks (snd (seenBefore j s c)))"
    using Cons.IH [OF inv(1) _ step] Cons.prems(2,4,5) k inv by simp
  then show ?case using k by simp
qed simp

section \<open>Properties\<close>

text \<open>A bearer token taken once is refused for the whole of its time to live: whatever tokens come in between, in
  time order, as long as they are fewer than the cache holds. (Time order is what makes the sweep from the front
  complete; the bound is what keeps the oldest entry from being evicted.)\<close>

theorem replay_refused:
  assumes "rp_inv t c" and "seenBefore i t c = (False, c1)"
    and "sorted (t # map snd ks @ [now])" and "length ks < rp_max c" and "now - t < rp_ttlMs c"
  shows "fst (seenBefore i now (replay_run ks c1))"
proof -
  have c1: "c1 = (sweep t c)\<lparr>rp_seen := drop_over (rp_max c) (rp_seen (sweep t c) @ [(i, t)])\<rparr>"
    using assms(2) by (simp add: seenBefore_cases [OF assms(1) order_refl] split: if_splits)
  have f: "rp_max c1 = rp_max c" "rp_ttlMs c1 = rp_ttlMs c" "rp_inv t c1"
    using rp_inv_seenBefore [OF assms(1) order_refl, of i] assms(2) by auto
  have "drop_over (rp_max c) (xs @ [x]) = drop (Suc (length xs) - rp_max c) xs @ [x]" for x and xs :: "(string \<times> int) list"
    using assms(4) by (simp add: drop_over_def)
  then have h: "holds i t 0 c1" by (auto simp: c1 holds_def)
  have le: "sorted (t # map snd ks)" "last (t # map snd ks) \<le> now"
    using assms(3) by (auto simp: sorted_append last_map)
  have "list_all (\<lambda>kt. snd kt - t < rp_ttlMs c1) ks"
    using assms(3,5) f by (force simp: sorted_append list_all_iff)
  from replay_run_holds [OF f(3) le(1) h _ this] assms(4) f
  have "holds i t (length ks) (replay_run ks c1)" "rp_ttlMs (replay_run ks c1) = rp_ttlMs c"
    "rp_inv (last (t # map snd ks)) (replay_run ks c1)" by auto
  then show ?thesis using holds_seen [OF _ le(2)] assms(5) by simp
qed

theorem replay_refused_witness:
  "fst (seenBefore ''a'' 7 (replay_run [(''b'', 6)] (snd (seenBefore ''a'' 5 \<lparr>rp_ttlMs = 10, rp_max = 4, rp_seen = []\<rparr>))))"
  by (rule replay_refused [where t = 5 and c = "\<lparr>rp_ttlMs = 10, rp_max = 4, rp_seen = []\<rparr>"])
    (simp_all add: rp_inv_def jm_wf_def seenBefore_def sweep_def Let_def drop_over_def)

definition handed :: "GcCall \<Rightarrow> bool" where
  "handed c \<longleftrightarrow> (case c of GcHandMessage _ \<Rightarrow> True | GcHandClick _ \<Rightarrow> True | _ \<Rightarrow> False)"

text \<open>The two ways an event reaches the application.\<close>

definition gchat_event_ok :: "json \<Rightarrow> string list \<Rightarrow> GcCall \<Rightarrow> bool" where
  "gchat_event_ok ev posted c \<longleftrightarrow> (case c of
      GcHandMessage m \<Rightarrow> isDmSpace (jfield ''space'' ev) \<and>
        (let s = sender_of (jor (jchain (jfield ''message'' ev) ''sender'') (jfield ''user'' ev)) in
         gs_type s = Some ''HUMAN'' \<and> cu_email (im_user m) = gs_email s \<and> cu_platformUserId (im_user m) = nullish (gs_name s) '''')
    | GcHandClick k \<Rightarrow> pm_messageId (bc_message k) \<in> set posted \<and>
        (let s = sender_of (jfield ''user'' ev) in
         gs_type s = Some ''HUMAN'' \<and> bc_ctx k = CtxGchat s \<and> gs_name s = Some (cu_platformUserId (bc_user k)) \<and>
         gchat_resolveUser (cu_platformUserId (bc_user k)) (bc_ctx k) = bc_user k)
    | _ \<Rightarrow> True)"

lemma gchat_message_calls:
  "\<exists>cs. calls (snd (gchat_message o' ev w)) = calls w @ cs \<and> list_all (gchat_event_ok ev (gc_posted (loc w))) cs"
  by (auto simp: gchat_message_def Let_def retE_def bindE_def thenE_def whenE_def upd_loc_def modifyE_def read_clock_def
      perform_def gchat_event_ok_def gchat_user_def split: sum.split)

lemma gchat_click_calls:
  "\<exists>cs. calls (snd (gchat_click o' ev w)) = calls w @ cs \<and> list_all (gchat_event_ok ev (gc_posted (loc w))) cs"
  by (auto simp: gchat_click_def Let_def retE_def bindE_def getE_def liftE_def perform_def gchat_event_ok_def gchat_user_def
      gchat_resolveUser_def truthy_def nullish_def split: sum.split option.split)

lemma gchat_handleEvent_calls:
  "\<exists>cs. calls (snd (gchat_handleEvent o' ev w)) = calls w @ cs \<and> list_all (gchat_event_ok ev (gc_posted (loc w))) cs"
  using gchat_message_calls gchat_click_calls by (auto simp: gchat_handleEvent_def retE_def)

text \<open>An event reaches the application only through the whole gate: a bearer token that Google verified, not seen
  before, and an event time inside the window. A message comes from a person in a direct-message space and is
  attributed to its sender; a click is on a card this process posted, by the sender of this very event, and is the
  user that the adapter resolves again for it.\<close>

theorem gchat_events_gate:
  "\<exists>cs. calls (snd (gchat_events o' a body w)) = calls w @ cs \<and>
     list_all (gchat_event_ok (nullish body JNull) (gc_posted (loc w))) cs \<and>
     (if list_ex handed cs then
        (let token = strip_bearer (nullish (header_first a) ''''); now = go_now o' (calls w @ [GcVerify token]) in
         token \<noteq> [] \<and> hd cs = GcVerify token \<and>
         (case go_verify o' token (calls w) of
            Inr jti \<Rightarrow> \<not> fst (seenBefore (nullish jti (go_sha256hex o' token)) now (gc_replay (loc w)))
          | Inl _ \<Rightarrow> False) \<and>
         eventTimeFresh (go_dateparse o') (jchain body ''eventTime'') now)
      else True)"
proof -
  let ?token = "strip_bearer (nullish (header_first a) '''')"
  let ?w1 = "w\<lparr>calls := calls w @ [GcVerify ?token]\<rparr>"
  let ?now = "go_now o' (calls ?w1)"
  let ?ev = "nullish body JNull"
  have none: ?thesis if "calls (snd (gchat_events o' a body w)) = calls w @ cs" "cs = [] \<or> cs = [GcVerify ?token]" for cs
    using that by (intro exI [of _ cs]) (auto simp: handed_def gchat_event_ok_def)
  show ?thesis
  proof (cases "?token = []")
    case True
    then show ?thesis by (intro none [of "[]"]) (simp_all add: gchat_events_def retE_def)
  next
    case token: False
    show ?thesis
    proof (cases "go_verify o' ?token (calls w)")
      case (Inl e)
      with token show ?thesis
        by (intro none [of "[GcVerify ?token]"]) (simp_all add: gchat_events_def Let_def bindE_def catchE_def perform_def retE_def)
    next
      case v: (Inr jti)
      obtain seen c where s: "seenBefore (nullish jti (go_sha256hex o' ?token)) ?now (gc_replay (loc w)) = (seen, c)" by force
      let ?w2 = "?w1\<lparr>loc := (loc w)\<lparr>gc_replay := c\<rparr>\<rparr>"
      have run: "gchat_events o' a body w =
          (if seen then (Inr (401, error_body ''replay''), ?w2)
           else if \<not> eventTimeFresh (go_dateparse o') (jchain body ''eventTime'') ?now then (Inr (401, error_body ''stale event''), ?w2)
           else bindE (gchat_handleEvent o' ?ev) (\<lambda>r. retE (200, r)) ?w2)"
        using token v s by (simp add: gchat_events_def Let_def bindE_def catchE_def perform_def retE_def read_clock_def
            upd_replay_def getE_def thenE_def upd_loc_def modifyE_def)
      show ?thesis
      proof (cases "seen \<or> \<not> eventTimeFresh (go_dateparse o') (jchain body ''eventTime'') ?now")
        case True
        then show ?thesis by (intro none [of "[GcVerify ?token]"]) (auto simp: run)
      next
        case False
        obtain cs where cs: "calls (snd (gchat_handleEvent o' ?ev ?w2)) = calls ?w2 @ cs" "list_all (gchat_event_ok ?ev (gc_posted (loc ?w2))) cs"
          using gchat_handleEvent_calls by blast
        have "calls (snd (gchat_events o' a body w)) = calls w @ GcVerify ?token # cs"
          using False cs(1) by (cases "gchat_handleEvent o' ?ev ?w2") (auto simp: run bindE_def retE_def split: sum.split)
        then show ?thesis
          using False cs(2) token v s
          by (intro exI [of _ "GcVerify ?token # cs"]) (auto simp: Let_def gchat_event_ok_def [of _ _ "GcVerify _"])
      qed
    qed
  qed
qed

interpretation gchat_users: user_directory "\<lambda>u c. retE (gchat_resolveUser u c) :: ChatUser gc" Gchat "\<lambda>_. True"
  by unfold_locales (auto simp: keeps_def retE_def gchat_resolveUser_def gchat_user_def split: ClickContext.splits if_splits)

text \<open>A card this process posts can be clicked: the button's parameters are read back as the card's.\<close>

lemma string_params_button:
  "raw_params (JObj [(''action'', JObj [(''parameters'',
     JArr [jparam ''requestId'' r, jparam ''nonce'' n, jparam ''button'' b])])]) = Inr raw \<Longrightarrow>
   string_params raw ''requestId'' = Some r \<and> string_params raw ''nonce'' = Some n \<and> string_params raw ''button'' = Some b"
  by (auto simp: raw_params_def Let_def jchain_def jor_def jparam_def js_undef_string_def string_params_def List.map_filter_def)

text \<open>The memory of posted cards is bounded, and the card just posted is in it.\<close>

lemma rememberCard_bounded:
  "length (gc_posted s) \<le> POSTED_CARDS_MAX \<Longrightarrow>
   length (gc_posted (rememberCard name s)) \<le> POSTED_CARDS_MAX \<and> name \<in> set (gc_posted (rememberCard name s))"
  by (auto simp: rememberCard_def drop_over_def POSTED_CARDS_MAX_def)

end
