(* ===== verification/TeamsAdapter.thy ===== *)
theory TeamsAdapter
  imports HttpApp AdapterContract
begin

text \<open>
  The Microsoft Teams adapter (\<open>services/access-agent/src/adapters/teams/index.ts\<close>). The Bot Framework is
  outside: the activity it hands to \<open>onTurn\<close>, the conversation reference it derives from it (an opaque
  string), the roster lookup, and sending or updating an activity; so are the two handlers of the application.
\<close>

section \<open>Activities and the outside\<close>

datatype TmKind = TmMessage | TmInvoke | TmOther

record Activity =
  ta_kind :: TmKind
  ta_name :: "string option"
  ta_id :: "string option"
  ta_from :: string
  ta_conversation :: string
  ta_conversationType :: "string option"
  ta_replyToId :: "string option"
  ta_text :: "string option"
  ta_value :: "json option"

record TmMember =
  mb_email :: "string option"
  mb_userPrincipalName :: "string option"
  mb_name :: "string option"
  mb_tenantId :: "string option"

datatype TmCall =
    TmGetMember string
  | TmSendText string
  | TmUpdateText string string
  | TmSendCard json
  | TmInvokeResponse int json
  | TmProactiveCard string json
  | TmProactiveUpdate string string json
  | TmHandMessage IncomingMessage
  | TmHandClick ButtonClick

record TmOutside =
  to_now :: "TmCall list \<Rightarrow> int"
  to_datestr :: "TmCall list \<Rightarrow> string"
  to_ref :: "Activity \<Rightarrow> string"
  to_refConversation :: "string \<Rightarrow> string option"
  to_removeMention :: "Activity \<Rightarrow> string option"
  to_getMember :: "string \<Rightarrow> TmCall list \<Rightarrow> js_error + TmMember"
  to_send :: "TmCall \<Rightarrow> TmCall list \<Rightarrow> js_error + string option"
  to_onMsg :: "IncomingMessage \<Rightarrow> TmCall list \<Rightarrow> js_error + unit"
  to_onBtn :: "ButtonClick \<Rightarrow> TmCall list \<Rightarrow> js_error + string"

record TmState =
  tm_conversations :: "(string, string) jsmap"
  tm_userByEmail :: "(string, string \<times> string) jsmap"

type_synonym 'a tm = "((TmCall, TmState) world, js_error, 'a) eff"

section \<open>Who is it\<close>

definition teams_unverified :: "string \<Rightarrow> ChatUser" where
  "teams_unverified uid = \<lparr>cu_platform = Teams, cu_platformUserId = uid, cu_displayName = uid, cu_email = None,
     cu_emailVerified = False, cu_tenantId = None\<rparr>"

definition teams_user :: "string \<Rightarrow> TmMember \<Rightarrow> ChatUser" where
  "teams_user uid m =
     (let email = (case mb_email m of Some e \<Rightarrow> Some e | None \<Rightarrow> mb_userPrincipalName m) in
      \<lparr>cu_platform = Teams, cu_platformUserId = uid, cu_displayName = nullish (mb_name m) uid, cu_email = email,
       cu_emailVerified = truthy email, cu_tenantId = mb_tenantId m\<rparr>)"

text \<open>With a turn at hand the roster is asked; when it fails, or without a turn, the user is unverified.\<close>

definition teams_resolveUser :: "TmOutside \<Rightarrow> string \<Rightarrow> ClickContext \<Rightarrow> ChatUser tm" where
  "teams_resolveUser o' uid ctx =
     (case ctx of
        CtxTeams _ \<Rightarrow>
          catchE (bindE (perform (TmGetMember uid) (to_getMember o' uid)) (\<lambda>m. retE (teams_user uid m)))
            (\<lambda>_. retE (teams_unverified uid))
      | _ \<Rightarrow> retE (teams_unverified uid))"

section \<open>A turn\<close>

definition teams_message :: "TmOutside \<Rightarrow> Activity \<Rightarrow> unit tm" where
  "teams_message o' a =
     (let ref = to_ref o' a in
      bindE (teams_resolveUser o' (ta_from a) (CtxTeams ref)) (\<lambda>user.
      thenE (whenE (truthy (cu_email user))
               (upd_loc (\<lambda>s. s\<lparr>tm_userByEmail := AList.update (toLowerCase (nullish (cu_email user) '''')) (ref, ta_from a) (tm_userByEmail s)\<rparr>)))
      (bindE (read_clock (to_datestr o')) (\<lambda>stamp.
       let m = \<lparr>im_id = nullish (ta_id a) stamp, im_user = user,
                im_conversation = \<lparr>cr_platform = Teams, cr_channelId = ta_conversation a,
                   cr_threadId = (case ta_replyToId a of Some r \<Rightarrow> Some r | None \<Rightarrow> ta_id a), cr_raw = Some ref\<rparr>,
                im_text = (case to_removeMention o' a of Some t \<Rightarrow> trim t | None \<Rightarrow> trim (nullish (ta_text a) '''')),
                im_isDirectMessage = (ta_conversationType a = Some ''personal''), im_mentionedBot = True\<rparr> in
       perform (TmHandMessage m) (to_onMsg o' m)))))"

text \<open>
  The button of a card action is checked by its string form and handed on as it is. A value that only looks like a
  button, such as \<open>["approve"]\<close>, is neither \<open>"details"\<close> nor \<open>"approve"\<close> in the comparisons the notification
  service makes, which leaves the third button.
\<close>

definition teams_button :: "json option \<Rightarrow> ButtonId option" where
  "teams_button v =
     (case button_of (js_undef_string v) of
        None \<Rightarrow> None
      | Some b \<Rightarrow> Some (if jstring v = None then Deny else b))"

definition malformed_action :: json where
  "malformed_action = JObj [(''statusCode'', JInt 400), (''type'', JStr ''application/vnd.microsoft.error''), (''value'', JStr ''malformed action'')]"

definition action_done :: "string \<Rightarrow> json" where
  "action_done t = JObj [(''statusCode'', JInt 200), (''type'', JStr ''application/vnd.microsoft.activity.message''),
     (''value'', JStr (str_or t ''Done.''))]"

definition action_data :: "Activity \<Rightarrow> json" where
  "action_data a =
     (case ta_value a of
        Some v \<Rightarrow> (case jfield ''action'' v of Some act \<Rightarrow> (case jfield ''data'' act of Some JNull \<Rightarrow> JObj [] | Some d \<Rightarrow> d | None \<Rightarrow> JObj []) | None \<Rightarrow> JObj [])
      | None \<Rightarrow> JObj [])"

definition tm_invoke_response :: "TmOutside \<Rightarrow> int \<Rightarrow> json \<Rightarrow> unit tm" where
  "tm_invoke_response o' st b = bindE (perform (TmInvokeResponse st b) (to_send o' (TmInvokeResponse st b))) (\<lambda>_. retE ())"

definition teams_action :: "TmOutside \<Rightarrow> Activity \<Rightarrow> unit tm" where
  "teams_action o' a =
     (let raw = action_data a; ref = to_ref o' a in
      case (jstring (jfield ''requestId'' raw), jstring (jfield ''nonce'' raw), teams_button (jfield ''button'' raw)) of
        (Some rid, Some nonce, Some button) \<Rightarrow>
          bindE (teams_resolveUser o' (ta_from a) (CtxTeams ref)) (\<lambda>user.
          let k = \<lparr>bc_user = user, bc_button = button, bc_requestId = rid, bc_nonce = nonce,
                   bc_message = \<lparr>pm_conversation = \<lparr>cr_platform = Teams, cr_channelId = ta_conversation a, cr_threadId = None, cr_raw = Some ref\<rparr>,
                      pm_messageId = nullish (ta_replyToId a) ''''\<rparr>,
                   bc_reason = jstring (jfield ''reason'' raw), bc_ctx = CtxTeams ref\<rparr> in
          bindE (perform (TmHandClick k) (to_onBtn o' k)) (\<lambda>t. tm_invoke_response o' 200 (action_done t)))
      | _ \<Rightarrow> tm_invoke_response o' 400 malformed_action)"

definition onTurn :: "TmOutside \<Rightarrow> Activity \<Rightarrow> unit tm" where
  "onTurn o' a =
     thenE (upd_loc (\<lambda>s. s\<lparr>tm_conversations := AList.update (ta_conversation a) (to_ref o' a) (tm_conversations s)\<rparr>))
       (if ta_kind a = TmMessage then teams_message o' a
        else if ta_kind a = TmInvoke \<and> ta_name a = Some ''adaptiveCard/action'' then teams_action o' a
        else retE ())"

section \<open>The streamed reply\<close>

record TmStream =
  ts_buffer :: string
  ts_last :: int
  ts_streamedId :: "string option"

type_synonym 'a tms = "((TmCall, TmStream) world, js_error, 'a) eff"

definition ELLIPSIS :: string where "ELLIPSIS = '' '' @ [CHR 0xE2, CHR 0x80, CHR 0xA6]"

definition teams_update :: "TmOutside \<Rightarrow> string \<Rightarrow> string \<Rightarrow> unit tms" where
  "teams_update o' i t =
     catchE (bindE (perform (TmUpdateText i t) (to_send o' (TmUpdateText i t))) (\<lambda>_. retE ())) (\<lambda>_. retE ())"

definition teams_append :: "TmOutside \<Rightarrow> string \<Rightarrow> unit tms" where
  "teams_append o' d =
     thenE (upd_loc (\<lambda>s. s\<lparr>ts_buffer := ts_buffer s @ d\<rparr>))
     (bindE (getE loc) (\<lambda>s.
      bindE (read_clock (to_now o')) (\<lambda>now.
      whenE (now - ts_last s > 1500)
        (thenE (upd_loc (\<lambda>s. s\<lparr>ts_last := now\<rparr>))
          (if truthy (ts_streamedId s) then teams_update o' (nullish (ts_streamedId s) '''') (ts_buffer s @ ELLIPSIS)
           else bindE (perform (TmSendText (ts_buffer s @ ELLIPSIS)) (to_send o' (TmSendText (ts_buffer s @ ELLIPSIS))))
                  (\<lambda>i. upd_loc (\<lambda>s. s\<lparr>ts_streamedId := i\<rparr>)))))))"

definition teams_finish :: "TmOutside \<Rightarrow> string \<Rightarrow> unit tms" where
  "teams_finish o' finalText =
     bindE (getE loc) (\<lambda>s.
       if truthy (ts_streamedId s) then teams_update o' (nullish (ts_streamedId s) '''') finalText
       else bindE (perform (TmSendText finalText) (to_send o' (TmSendText finalText))) (\<lambda>_. retE ()))"

definition teams_stream :: "TmOutside \<Rightarrow> string list \<Rightarrow> string \<Rightarrow> unit tms" where
  "teams_stream o' deltas finalText = thenE (forE deltas (teams_append o')) (teams_finish o' finalText)"

section \<open>Cards\<close>

definition teams_action_json :: "RequestCard \<Rightarrow> CardButton \<Rightarrow> json" where
  "teams_action_json crd b = JObj [(''type'', JStr ''Action.Execute''), (''title'', JStr (cb_label b)),
     (''verb'', JStr (button_name (cb_id b))),
     (''style'', JStr (case cb_style b of Some Danger \<Rightarrow> ''destructive'' | Some Primary \<Rightarrow> ''positive'' | None \<Rightarrow> ''default'')),
     (''data'', JObj [(''requestId'', JStr (rc_requestId crd)), (''nonce'', JStr (rc_nonce crd)), (''button'', JStr (button_name (cb_id b)))])]"

definition renderAdaptiveCard :: "RequestCard \<Rightarrow> json" where
  "renderAdaptiveCard crd =
     JObj [(''$schema'', JStr ''http://adaptivecards.io/schemas/adaptive-card.json''), (''type'', JStr ''AdaptiveCard''), (''version'', JStr ''1.5''),
       (''body'', JArr
         ([JObj [(''type'', JStr ''TextBlock''), (''text'', JStr (rc_title crd)), (''weight'', JStr ''Bolder''), (''size'', JStr ''Medium''),
             (''color'', JStr (case rc_status crd of Pending \<Rightarrow> ''Warning'' | Approved \<Rightarrow> ''Good'' | _ \<Rightarrow> ''Attention'')), (''wrap'', JBool True)],
           JObj [(''type'', JStr ''FactSet''), (''facts'', JArr (map (\<lambda>kv. JObj [(''title'', JStr (fst kv)), (''value'', JStr (snd kv))]) (rc_fields crd)))]]
          @ (if rc_status crd = Pending then [JObj [(''type'', JStr ''Input.Text''), (''id'', JStr ''reason''),
               (''placeholder'', JStr ''Reason (optional)''), (''isMultiline'', JBool True)]] else [])
          @ (if truthy (rc_footer crd) then [JObj [(''type'', JStr ''TextBlock''), (''text'', JStr (nullish (rc_footer crd) '''')),
               (''isSubtle'', JBool True), (''wrap'', JBool True), (''size'', JStr ''Small'')]] else []))),
       (''actions'', JArr (map (teams_action_json crd) (rc_buttons crd)))]"

text \<open>A proactive card needs a conversation the bot has seen.\<close>

definition teams_target :: "TmState \<Rightarrow> CardTarget \<Rightarrow> string option" where
  "teams_target s tgt =
     (case tgt of
        ToChannel c \<Rightarrow> map_of (tm_conversations s) c
      | ToUser email \<Rightarrow> map_option fst (map_of (tm_userByEmail s) (toLowerCase email)))"

definition teams_postCard :: "TmOutside \<Rightarrow> CardTarget \<Rightarrow> RequestCard \<Rightarrow> PostedMessageRef option tm" where
  "teams_postCard o' tgt crd =
     bindE (getE (\<lambda>w. teams_target (loc w) tgt)) (\<lambda>ref.
     case ref of
       None \<Rightarrow> retE None
     | Some r \<Rightarrow>
         bindE (perform (TmProactiveCard r (renderAdaptiveCard crd)) (to_send o' (TmProactiveCard r (renderAdaptiveCard crd)))) (\<lambda>i.
         retE (Some \<lparr>pm_conversation = \<lparr>cr_platform = Teams, cr_channelId = nullish (to_refConversation o' r) '''', cr_threadId = None, cr_raw = Some r\<rparr>,
                     pm_messageId = nullish i ''''\<rparr>)))"

definition teams_updateCard :: "TmOutside \<Rightarrow> PostedMessageRef \<Rightarrow> RequestCard \<Rightarrow> unit tm" where
  "teams_updateCard o' ref crd =
     bindE (getE (\<lambda>w. case cr_raw (pm_conversation ref) of
                        Some r \<Rightarrow> Some r | None \<Rightarrow> map_of (tm_conversations (loc w)) (cr_channelId (pm_conversation ref)))) (\<lambda>r.
     case r of
       None \<Rightarrow> retE ()
     | Some r \<Rightarrow>
         bindE (perform (TmProactiveUpdate r (pm_messageId ref) (renderAdaptiveCard crd))
            (to_send o' (TmProactiveUpdate r (pm_messageId ref) (renderAdaptiveCard crd)))) (\<lambda>_. retE ()))"

section \<open>Lemmas\<close>

definition roster_user :: "TmOutside \<Rightarrow> string \<Rightarrow> TmCall list \<Rightarrow> ChatUser" where
  "roster_user o' uid h = (case to_getMember o' uid h of Inr m \<Rightarrow> teams_user uid m | Inl _ \<Rightarrow> teams_unverified uid)"

lemma teams_resolve_run:
  "teams_resolveUser o' uid (CtxTeams ref) w = (Inr (roster_user o' uid (calls w)), w\<lparr>calls := calls w @ [TmGetMember uid]\<rparr>)"
  by (simp add: teams_resolveUser_def catchE_def bindE_def perform_def retE_def roster_user_def split: sum.split)

lemma frames_teams_resolve: "frames f (teams_resolveUser o' uid (CtxTeams ref))"
  by (simp add: frames_def teams_resolve_run)

lemma frames_upd: "(\<And>s. f (g s) = f s) \<Longrightarrow> frames f (upd_loc g)"
  by (simp add: frames_def upd_loc_def modifyE_def)

lemma roster_user_ids [simp]:
  "cu_platform (roster_user o' uid h) = Teams" "cu_platformUserId (roster_user o' uid h) = uid"
  by (simp_all add: roster_user_def teams_user_def teams_unverified_def Let_def split: sum.split)

interpretation teams_users: user_directory "teams_resolveUser o'" Teams "\<lambda>_. True" for o'
proof unfold_locales
  fix u c v and w w' :: "(TmCall, TmState) world"
  assume "teams_resolveUser o' u c w = (Inr v, w')"
  then show "cu_platform v = Teams \<and> cu_platformUserId v = u"
    by (cases c) (auto simp: teams_resolveUser_def teams_unverified_def retE_def teams_user_def Let_def catchE_def bindE_def perform_def
        split: sum.splits prod.splits)
qed (simp add: keeps_def)

lemma teams_button_name: "teams_button (Some (JStr (button_name b))) = Some b"
  by (simp add: teams_button_def js_undef_string_def)

text \<open>What a turn hands on.\<close>

definition teams_call_ok :: "TmOutside \<Rightarrow> Activity \<Rightarrow> TmCall list \<Rightarrow> TmCall \<Rightarrow> bool" where
  "teams_call_ok o' a h c \<longleftrightarrow> (case c of
      TmHandMessage m \<Rightarrow> ta_kind a = TmMessage \<and> im_user m = roster_user o' (ta_from a) h
    | TmHandClick k \<Rightarrow> ta_kind a = TmInvoke \<and> bc_user k = roster_user o' (ta_from a) h \<and> bc_ctx k = CtxTeams (to_ref o' a) \<and>
        jstring (jfield ''requestId'' (action_data a)) = Some (bc_requestId k) \<and>
        jstring (jfield ''nonce'' (action_data a)) = Some (bc_nonce k) \<and>
        teams_button (jfield ''button'' (action_data a)) = Some (bc_button k)
    | TmGetMember u \<Rightarrow> u = ta_from a
    | TmInvokeResponse st b \<Rightarrow> True
    | _ \<Rightarrow> False)"

lemma teams_message_calls:
  "ta_kind a = TmMessage \<Longrightarrow>
   \<exists>cs. calls (snd (teams_message o' a w)) = calls w @ cs \<and> list_all (teams_call_ok o' a (calls w)) cs"
  by (auto simp: teams_message_def Let_def bindE_def teams_resolve_run thenE_def whenE_def upd_loc_def modifyE_def retE_def
      read_clock_def perform_def teams_call_ok_def)

lemma teams_action_calls:
  "ta_kind a = TmInvoke \<Longrightarrow>
   \<exists>cs. calls (snd (teams_action o' a w)) = calls w @ cs \<and> list_all (teams_call_ok o' a (calls w)) cs"
  by (auto simp: teams_action_def Let_def bindE_def teams_resolve_run retE_def tm_invoke_response_def
      perform_def teams_call_ok_def split: option.split sum.split)

text \<open>A turn acts for its sender only: the user of the message or click handed on is the account that sent the
  activity, with the email the roster gave in this turn and unverified when the roster failed; a click carries
  exactly the request id, nonce and button of the card action. A turn keeps the conversation for later cards.\<close>

theorem teams_turn_bound:
  "(\<exists>cs. calls (snd (onTurn o' a w)) = calls w @ cs \<and> list_all (teams_call_ok o' a (calls w)) cs) \<and>
   map_of (tm_conversations (loc (snd (onTurn o' a w)))) (ta_conversation a) = Some (to_ref o' a)"
proof
  let ?w = "w\<lparr>loc := (loc w)\<lparr>tm_conversations := AList.update (ta_conversation a) (to_ref o' a) (tm_conversations (loc w))\<rparr>\<rparr>"
  let ?k = "if ta_kind a = TmMessage then teams_message o' a
        else if ta_kind a = TmInvoke \<and> ta_name a = Some ''adaptiveCard/action'' then teams_action o' a else retE ()"
  have run: "onTurn o' a w = ?k ?w" by (simp add: onTurn_def thenE_def upd_loc_def modifyE_def bindE_def)
  show "\<exists>cs. calls (snd (onTurn o' a w)) = calls w @ cs \<and> list_all (teams_call_ok o' a (calls w)) cs"
    using teams_message_calls [of a o' ?w] teams_action_calls [of a o' ?w] by (auto simp: run retE_def)
  have fm: "frames tm_conversations (teams_message o' a)"
    unfolding teams_message_def Let_def
    by (intro frames_bindE frames_thenE frames_whenE frames_read_clock frames_perform frames_upd frames_teams_resolve) simp
  have fa: "frames tm_conversations (teams_action o' a)"
    unfolding teams_action_def Let_def tm_invoke_response_def
    by (auto intro!: frames_bindE frames_perform frames_retE frames_teams_resolve split: option.split)
  have "frames tm_conversations ?k" using fm fa by (simp add: frames_retE)
  then show "map_of (tm_conversations (loc (snd (onTurn o' a w)))) (ta_conversation a) = Some (to_ref o' a)"
    using framesD [of tm_conversations ?k ?w] by (simp add: run update_conv')
qed

text \<open>A card action whose button is a one-element list is taken for a denial.\<close>

lemma list_button_denies: "teams_button (Some (JArr [JStr ''approve''])) = Some Deny"
  by (simp add: teams_button_def js_undef_string_def button_of_def)

section \<open>The streamed reply\<close>

definition is_new_post :: "TmCall \<Rightarrow> bool" where
  "is_new_post c \<longleftrightarrow> (case c of TmSendText _ \<Rightarrow> True | _ \<Rightarrow> False)"

definition post_count :: "nat \<Rightarrow> (TmCall, TmStream) world \<Rightarrow> bool" where
  "post_count n w \<longleftrightarrow> length (filter is_new_post (calls w)) = n + (if truthy (ts_streamedId (loc w)) then 1 else 0)"

lemma teams_update_run: "teams_update o' i t w = (Inr (), w\<lparr>calls := calls w @ [TmUpdateText i t]\<rparr>)"
  by (simp add: teams_update_def catchE_def bindE_def perform_def retE_def split: sum.split)

lemma teams_append_count:
  assumes "\<And>t h. case to_send o' (TmSendText t) h of Inr i \<Rightarrow> truthy i | Inl _ \<Rightarrow> True"
  shows "ensures (post_count n) (teams_append o' d) (\<lambda>_. post_count n)"
proof -
  have a: "to_send o' (TmSendText t) h = Inr i \<Longrightarrow> truthy i" for t h i using assms [of t h] by simp
  show ?thesis
  by (auto dest: a simp: ensures_def teams_append_def thenE_def bindE_def upd_loc_def modifyE_def getE_def read_clock_def whenE_def retE_def
      perform_def teams_update_run post_count_def is_new_post_def split: sum.split)
qed

lemma ensures_forE:
  "(\<And>x. ensures P (f x) (\<lambda>_. P)) \<Longrightarrow> ensures P (forE xs f) (\<lambda>_. P)"
  by (induction xs) (auto intro: ensures_retE ensures_bindE simp: thenE_def)

text \<open>A streamed reply that completes is one message: over any deltas, exactly one new message is sent, every other
  call edits it, and the last call carries the final text. (Given that the Bot Framework answers a sent message
  with its id.)\<close>

theorem teams_stream_one_message:
  assumes "\<And>t h. case to_send o' (TmSendText t) h of Inr i \<Rightarrow> truthy i | Inl _ \<Rightarrow> True"
    and "teams_stream o' deltas finalText \<lparr>calls = [], loc = \<lparr>ts_buffer = [], ts_last = 0, ts_streamedId = None\<rparr>\<rparr> = (Inr (), w)"
  shows "length (filter is_new_post (calls w)) = 1 \<and>
    (last (calls w) = TmSendText finalText \<or> (\<exists>i. last (calls w) = TmUpdateText i finalText))"
proof -
  let ?w0 = "\<lparr>calls = [], loc = \<lparr>ts_buffer = [], ts_last = 0, ts_streamedId = None\<rparr>\<rparr> :: (TmCall, TmStream) world"
  obtain r w1 where 1: "forE deltas (teams_append o') ?w0 = (r, w1)" by force
  with assms(2) obtain u where r: "r = Inr u" by (cases r) (auto simp: teams_stream_def thenE_def bindE_def)
  have "post_count 0 ?w0" by (simp add: post_count_def)
  then have "post_count 0 w1"
    using ensures_forE [where f = "teams_append o'" and xs = deltas, OF teams_append_count [OF assms(1)], of 0] 1 r by (auto simp: ensures_def split: prod.splits sum.splits)
  then show ?thesis
    using assms(2) 1 r
    by (auto simp: teams_stream_def thenE_def bindE_def teams_finish_def getE_def teams_update_run perform_def retE_def
        post_count_def is_new_post_def split: sum.splits if_splits)
qed

definition ex_teams :: TmOutside where
  "ex_teams = \<lparr>to_now = (\<lambda>_. 2000), to_datestr = (\<lambda>_. ''2000''), to_ref = (\<lambda>_. ''ref''), to_refConversation = (\<lambda>_. None),
     to_removeMention = (\<lambda>_. None), to_getMember = (\<lambda>_ _. Inl (PlainError ''down'')), to_send = (\<lambda>_ _. Inr (Some ''m1'')),
     to_onMsg = (\<lambda>_ _. Inr ()), to_onBtn = (\<lambda>_ _. Inr '''')\<rparr>"

theorem teams_stream_one_message_witness:
  "\<exists>w. teams_stream ex_teams [''a'', ''b''] ''ab'' \<lparr>calls = [], loc = \<lparr>ts_buffer = [], ts_last = 0, ts_streamedId = None\<rparr>\<rparr> = (Inr (), w) \<and>
     length (filter is_new_post (calls w)) = 1"
proof -
  obtain w where "teams_stream ex_teams [''a'', ''b''] ''ab'' \<lparr>calls = [], loc = \<lparr>ts_buffer = [], ts_last = 0, ts_streamedId = None\<rparr>\<rparr> = (Inr (), w)"
    by (simp add: teams_stream_def thenE_def bindE_def teams_append_def upd_loc_def modifyE_def getE_def read_clock_def whenE_def
        retE_def perform_def teams_finish_def teams_update_run ex_teams_def)
  from this teams_stream_one_message [OF _ this] show ?thesis by (auto simp: ex_teams_def)
qed

section \<open>The webhook\<close>

text \<open>
  \<open>httpRoutes\<close>: the object that stands for Node's response keeps the last status and the last body. Who is behind a request is decided by
  \<open>CloudAdapter.process\<close>, a parameter: it answers a request it does not accept by itself, and otherwise hands over the activity, and answers
  afterwards. An error of the turn goes to \<open>onTurnError\<close>, which logs it.
\<close>

definition teams_httpRoutes :: "HttpRoute list" where
  "teams_httpRoutes = [\<lparr>hr_method = POST, hr_path = ''/api/messages''\<rparr>]"

datatype ResCall = ResStatus int | ResSend json | ResEnd | ResHeader

fun fake_res :: "ResCall \<Rightarrow> int \<times> json option \<Rightarrow> int \<times> json option" where
  "fake_res (ResStatus s) r = (s, snd r)"
| "fake_res (ResSend b) r = (fst r, Some b)"
| "fake_res ResEnd r = r"
| "fake_res ResHeader r = r"

definition fake_answer :: "ResCall list \<Rightarrow> int \<times> json option" where
  "fake_answer rs = fold fake_res rs (200, None)"

type_synonym teams_process = "Headers \<Rightarrow> json option \<Rightarrow> TmCall list \<Rightarrow> ResCall list + Activity \<times> (TmCall list \<Rightarrow> ResCall list)"

definition teams_messages :: "TmOutside \<Rightarrow> teams_process \<Rightarrow> Headers \<Rightarrow> json option \<Rightarrow> (int \<times> json option) tm" where
  "teams_messages o' process headers body =
     bindE (getE (\<lambda>w. process headers body (calls w))) (\<lambda>p.
     case p of
       Inl rs \<Rightarrow> retE (fake_answer rs)
     | Inr (a, answer) \<Rightarrow>
         thenE (catchE (onTurn o' a) (\<lambda>_. retE ())) (bindE (getE (\<lambda>w. answer (calls w))) (\<lambda>rs. retE (fake_answer rs))))"

text \<open>The status is the last one set, and 200 when none was.\<close>

lemma fake_res_keeps: "ResStatus ` UNIV \<inter> set rs = {} \<Longrightarrow> fst (fold fake_res rs r) = fst r"
proof (induction rs arbitrary: r)
  case (Cons c rs)
  then show ?case by (cases c) auto
qed simp

lemma fake_answer_status:
  "ResStatus ` UNIV \<inter> set qs = {} \<Longrightarrow> fst (fake_answer (rs @ ResStatus s # qs)) = s"
  "ResStatus ` UNIV \<inter> set qs = {} \<Longrightarrow> fst (fake_answer qs) = 200"
  by (simp_all add: fake_answer_def fake_res_keeps)

text \<open>A request that is not accepted changes nothing and calls nobody; one that is runs the turn of its activity, and an error of the turn does not reach
  the caller.\<close>

lemma teams_messages_run:
  "teams_messages o' process headers body w =
     (case process headers body (calls w) of
        Inl rs \<Rightarrow> (Inr (fake_answer rs), w)
      | Inr (a, answer) \<Rightarrow> (Inr (fake_answer (answer (calls (snd (onTurn o' a w))))), snd (onTurn o' a w)))"
  by (simp add: teams_messages_def bindE_def getE_def retE_def thenE_def catchE_def split: sum.split prod.split)

end
