(* ===== verification/CliAdapter.thy ===== *)
theory CliAdapter
  imports HttpApp AdapterContract
begin

text \<open>
  The terminal adapter (\<open>services/access-agent/src/adapters/cli/index.ts\<close>). A line is handled to its first
  suspension: what it writes, and the turn or click it starts, are its actions; the end of a turn is a separate
  event, so that lines arriving during a turn meet the \<open>busy\<close> flag as they do in the program.
\<close>

record CliState =
  cl_cards :: "(string, RequestCard) jsmap"
  cl_busy :: bool
  cl_closed :: bool

datatype CliAct =
    CliWrite string
  | CliStartTurn IncomingMessage
  | CliClick ButtonClick

definition ESC :: string where "ESC = [CHR 0x1B, CHR ''['']"
definition c_dim :: string where "c_dim = ESC @ ''2m''"
definition c_bold :: string where "c_bold = ESC @ ''1m''"
definition c_cyan :: string where "c_cyan = ESC @ ''36m''"
definition c_green :: string where "c_green = ESC @ ''32m''"
definition c_yellow :: string where "c_yellow = ESC @ ''33m''"
definition c_red :: string where "c_red = ESC @ ''31m''"
definition c_reset :: string where "c_reset = ESC @ ''0m''"

text \<open>U+258C, the bar in front of a card's lines.\<close>

definition BAR :: string where "BAR = [CHR 0xE2, CHR 0x96, CHR 0x8C]"

definition cli_user :: "string \<Rightarrow> string option \<Rightarrow> ChatUser" where
  "cli_user teleportUser email = \<lparr>cu_platform = Cli, cu_platformUserId = teleportUser, cu_displayName = teleportUser,
     cu_email = email, cu_emailVerified = True, cu_tenantId = None\<rparr>"

definition new_CliAdapter :: CliState where
  "new_CliAdapter = \<lparr>cl_cards = [], cl_busy = False, cl_closed = False\<rparr>"

definition cli_print :: "string \<Rightarrow> CliAct" where
  "cli_print s = CliWrite (s @ [LF])"

section \<open>Lines\<close>

text \<open>\<open>line.split(/\s+/)\<close>.\<close>

function split_ws :: "string \<Rightarrow> string list" where
  "split_ws s =
     (let w = takeWhile (\<lambda>c. \<not> is_ws c) s; r = dropWhile (\<lambda>c. \<not> is_ws c) s in
      if r = [] then [w] else w # split_ws (dropWhile is_ws r))"
  by pat_completeness auto
termination
proof (relation "measure length", simp)
  fix s w r :: string
  assume r: "r = dropWhile (\<lambda>c. \<not> is_ws c) s" and ne: "r \<noteq> []"
  from ne obtain c cs where c: "r = c # cs" by (meson neq_Nil_conv)
  have "\<not> \<not> is_ws (hd r)" using hd_dropWhile [of "\<lambda>c. \<not> is_ws c" s] ne r by blast
  with c have "is_ws c" by simp
  then have "length (dropWhile is_ws r) < length r" using c length_dropWhile_le [of is_ws cs] by simp
  also have "length r \<le> length s" unfolding r by (rule length_dropWhile_le)
  finally show "(dropWhile is_ws r, s) \<in> measure length" by simp
qed

declare split_ws.simps [simp del]

definition cli_button :: "string \<Rightarrow> ButtonId option" where
  "cli_button cmd = (if cmd = ''/approve'' then Some Approve else if cmd = ''/deny'' then Some Deny
     else if cmd = ''/details'' then Some Details else None)"

definition cli_help :: string where
  "cli_help = c_dim @ ''Ask anything about Teleport access. Commands: /requests  /approve <id> [reason]  /deny <id> [reason]  /details <id>  /quit'' @ c_reset"

definition cli_full_id :: "CliState \<Rightarrow> string \<Rightarrow> string" where
  "cli_full_id s i = (case find (\<lambda>k. starts_with i k) (map fst (cl_cards s)) of Some k \<Rightarrow> k | None \<Rightarrow> i)"

definition cli_click :: "ChatUser \<Rightarrow> CliState \<Rightarrow> ButtonId \<Rightarrow> string \<Rightarrow> string list \<Rightarrow> ButtonClick" where
  "cli_click user s button i rest =
     (let full = cli_full_id s i in
      \<lparr>bc_user = user, bc_button = button, bc_requestId = full,
       bc_nonce = (case map_of (cl_cards s) full of Some crd \<Rightarrow> rc_nonce crd | None \<Rightarrow> ''''),
       bc_message = \<lparr>pm_conversation = \<lparr>cr_platform = Cli, cr_channelId = ''terminal'', cr_threadId = None, cr_raw = None\<rparr>,
          pm_messageId = full\<rparr>,
       bc_reason = (if rest = [] then None else Some (join '' '' rest)), bc_ctx = CtxNone\<rparr>)"

text \<open>\<open>dispatch\<close> up to the handler's answer, and what follows it.\<close>

definition cli_dispatch :: "ChatUser \<Rightarrow> string \<Rightarrow> string \<Rightarrow> CliState \<Rightarrow> CliAct list \<times> CliState" where
  "cli_dispatch user stamp text s =
     ([CliStartTurn \<lparr>im_id = stamp, im_user = user,
         im_conversation = \<lparr>cr_platform = Cli, cr_channelId = ''terminal'', cr_threadId = Some ''session'', cr_raw = None\<rparr>,
         im_text = text, im_isDirectMessage = True, im_mentionedBot = True\<rparr>],
      s\<lparr>cl_busy := True\<rparr>)"

definition cli_turn_ends :: "js_error + unit \<Rightarrow> CliState \<Rightarrow> CliAct list \<times> CliState" where
  "cli_turn_ends outcome s =
     ((case outcome of Inl e \<Rightarrow> [cli_print (c_red @ ''error: '' @ err_message e @ c_reset)] | Inr _ \<Rightarrow> []), s\<lparr>cl_busy := False\<rparr>)"

definition cli_handleLine :: "ChatUser \<Rightarrow> string \<Rightarrow> string \<Rightarrow> CliState \<Rightarrow> CliAct list \<times> CliState" where
  "cli_handleLine user stamp raw s =
     (let line = trim raw in
      if line = [] \<or> cl_busy s then ([], s)
      else if line = ''/help'' then ([cli_print cli_help], s)
      else if line = ''/quit'' \<or> line = ''/exit'' then ([], s\<lparr>cl_closed := True\<rparr>)
      else
        (case (cli_button (hd (split_ws line)), tl (split_ws line)) of
           (Some button, i # rest) \<Rightarrow>
             if i \<noteq> [] then ([CliClick (cli_click user s button i rest)], s)
             else cli_dispatch user stamp line s
         | _ \<Rightarrow>
             if line = ''/requests'' then cli_dispatch user stamp ''List the pending access requests I can see.'' s
             else cli_dispatch user stamp line s))"

definition cli_respond :: "string \<Rightarrow> CliAct" where
  "cli_respond t = cli_print (c_yellow @ t @ c_reset)"

section \<open>Replies and cards\<close>

definition cli_reply_text :: "string \<Rightarrow> CliAct" where
  "cli_reply_text t = cli_print ([LF] @ c_green @ ''assistant'' @ c_reset @ '': '' @ t @ [LF])"

definition cli_start_stream :: CliAct where
  "cli_start_stream = CliWrite ([LF] @ c_green @ ''assistant'' @ c_reset @ '': '')"

definition cli_append :: "string \<Rightarrow> CliAct" where "cli_append d = CliWrite d"
definition cli_finish :: "string \<Rightarrow> CliAct" where "cli_finish t = CliWrite [LF, LF]"

definition padEnd :: "nat \<Rightarrow> string \<Rightarrow> string" where
  "padEnd n s = s @ replicate (n - length s) CHR '' ''"

definition cli_card_lines :: "RequestCard \<Rightarrow> string list" where
  "cli_card_lines crd =
     [(case rc_status crd of Pending \<Rightarrow> c_yellow | Approved \<Rightarrow> c_green | _ \<Rightarrow> c_red) @ c_bold @ BAR @ '' '' @ rc_title crd @ c_reset]
     @ map (\<lambda>kv. c_dim @ BAR @ '' '' @ padEnd 10 (fst kv) @ c_reset @ '' '' @ snd kv) (rc_fields crd)
     @ (if truthy (rc_footer crd) then [c_dim @ BAR @ '' '' @ nullish (rc_footer crd) '''' @ c_reset] else [])
     @ (if rc_buttons crd \<noteq> [] then [c_dim @ BAR @ '' actions: ''
          @ join ''   '' (map (\<lambda>b. ''/'' @ button_name (cb_id b) @ '' '' @ take 8 (rc_requestId crd)) (rc_buttons crd)) @ c_reset] else [])"

definition cli_renderCard :: "RequestCard \<Rightarrow> CliAct" where
  "cli_renderCard crd = cli_print ([LF] @ join [LF] (cli_card_lines crd) @ [LF])"

definition cli_postCard :: "RequestCard \<Rightarrow> CliState \<Rightarrow> PostedMessageRef \<times> CliAct list \<times> CliState" where
  "cli_postCard crd s =
     (\<lparr>pm_conversation = \<lparr>cr_platform = Cli, cr_channelId = ''terminal'', cr_threadId = None, cr_raw = None\<rparr>, pm_messageId = rc_requestId crd\<rparr>,
      [cli_renderCard crd], s\<lparr>cl_cards := AList.update (rc_requestId crd) crd (cl_cards s)\<rparr>)"

definition cli_updateCard :: "RequestCard \<Rightarrow> CliState \<Rightarrow> CliAct list \<times> CliState" where
  "cli_updateCard crd s = ([cli_renderCard crd], s\<lparr>cl_cards := AList.update (rc_requestId crd) crd (cl_cards s)\<rparr>)"

definition cli_resolveUser :: "ChatUser \<Rightarrow> string \<Rightarrow> ChatUser" where
  "cli_resolveUser user uid = user\<lparr>cu_platformUserId := uid\<rparr>"

section \<open>Runs\<close>

text \<open>One step of the terminal: a line arrives, the turn in flight ends, or a card is posted or updated.\<close>

inductive cli_step :: "ChatUser \<Rightarrow> CliState \<Rightarrow> CliAct list \<Rightarrow> CliState \<Rightarrow> bool" for user where
  line: "cli_handleLine user stamp raw s = (as, s') \<Longrightarrow> cli_step user s as s'"
| ends: "cl_busy s \<Longrightarrow> cli_turn_ends outcome s = (as, s') \<Longrightarrow> cli_step user s as s'"
| post: "cli_postCard crd s = (r, as, s') \<Longrightarrow> cli_step user s as s'"
| update: "cli_updateCard crd s = (as, s') \<Longrightarrow> cli_step user s as s'"

inductive_cases cli_stepE: "cli_step user s as s'"

definition turns_started :: "CliAct list \<Rightarrow> nat" where
  "turns_started as = length (filter (\<lambda>a. case a of CliStartTurn _ \<Rightarrow> True | _ \<Rightarrow> False) as)"

text \<open>\<open>cli_run user n e as s\<close>: a run from the fresh adapter to \<open>s\<close> that wrote \<open>as\<close> and in which \<open>n\<close> turns were started and \<open>e\<close> ended.\<close>

inductive cli_run :: "ChatUser \<Rightarrow> nat \<Rightarrow> nat \<Rightarrow> CliAct list \<Rightarrow> CliState \<Rightarrow> bool" for user where
  start: "cli_run user 0 0 [] new_CliAdapter"
| more: "cli_run user n e as s \<Longrightarrow> cli_step user s bs s' \<Longrightarrow>
    cli_run user (n + turns_started bs) (e + (if cl_busy s \<and> \<not> cl_busy s' then 1 else 0)) (as @ bs) s'"

lemma cli_resolve: "cu_platform user = Cli \<Longrightarrow> cu_platform (cli_resolveUser user uid) = Cli \<and> cu_platformUserId (cli_resolveUser user uid) = uid"
  by (simp add: cli_resolveUser_def)

definition cli_cards_ok :: "CliState \<Rightarrow> bool" where
  "cli_cards_ok s \<longleftrightarrow> list_all (\<lambda>kc. rc_requestId (snd kc) = fst kc) (cl_cards s)"

lemma cards_update: "cli_cards_ok s \<Longrightarrow> cli_cards_ok (s\<lparr>cl_cards := AList.update (rc_requestId crd) crd (cl_cards s)\<rparr>)"
proof -
  have "list_all P xs \<Longrightarrow> P (k, v) \<Longrightarrow> list_all P (AList.update k v xs)" for P k v and xs :: "(string \<times> RequestCard) list"
    by (induction xs) auto
  then show "cli_cards_ok s \<Longrightarrow> ?thesis" by (simp add: cli_cards_ok_def)
qed

lemma dispatch_simps [simp]:
  "turns_started (fst (cli_dispatch user stamp t s)) = 1" "cl_busy (snd (cli_dispatch user stamp t s))"
  "cl_cards (snd (cli_dispatch user stamp t s)) = cl_cards s"
  by (simp_all add: cli_dispatch_def turns_started_def)

lemma turns_started_simps [simp]:
  "turns_started [] = 0" "turns_started [cli_print t] = 0" "turns_started [CliClick k] = 0" "turns_started (cli_renderCard crd # as) = turns_started as"
  by (simp_all add: turns_started_def cli_print_def cli_renderCard_def)

lemma handleLine_turns:
  "cl_busy s \<longrightarrow> cli_handleLine user stamp raw s = ([], s)"
  "turns_started (fst (cli_handleLine user stamp raw s)) = (if cl_busy (snd (cli_handleLine user stamp raw s)) \<and> \<not> cl_busy s then 1 else 0)"
  "cl_cards (snd (cli_handleLine user stamp raw s)) = cl_cards s"
  by (simp_all add: cli_handleLine_def Let_def split: option.split list.split)

lemma cli_step_cards: "cli_step user s as s' \<Longrightarrow> cli_cards_ok s \<Longrightarrow> cli_cards_ok s'"
proof (elim cli_stepE)
  fix stamp raw assume "cli_handleLine user stamp raw s = (as, s')" "cli_cards_ok s"
  then show "cli_cards_ok s'" using handleLine_turns(3) [of user stamp raw s] by (simp add: cli_cards_ok_def)
qed (auto simp: cli_turn_ends_def cli_cards_ok_def [of "cl_busy_update _ _"] cli_cards_ok_def [of s] cli_postCard_def cli_updateCard_def
    intro: cards_update)

lemma cli_run_cards: "cli_run user n e as s \<Longrightarrow> cli_cards_ok s"
proof (induction rule: cli_run.induct)
  case (more n e as s bs s')
  then show ?case using cli_step_cards by blast
qed (simp add: cli_cards_ok_def new_CliAdapter_def)

lemma cli_step_turns:
  "cli_step user s as s' \<Longrightarrow>
   turns_started as + (if cl_busy s then 1 else 0) = (if cl_busy s \<and> \<not> cl_busy s' then 1 else 0) + (if cl_busy s' then 1 else 0)"
proof (elim cli_stepE)
  fix stamp raw assume "cli_handleLine user stamp raw s = (as, s')"
  then show ?thesis using handleLine_turns(1) [of s user stamp raw] handleLine_turns(2) [of user stamp raw s] by auto
qed (auto simp: cli_turn_ends_def cli_postCard_def cli_updateCard_def split: sum.splits)

text \<open>The terminal has at most one turn in flight: over any run, the turns started are those that ended plus the one
  that \<open>busy\<close> stands for, and a line that arrives meanwhile is dropped.\<close>

theorem cli_one_turn:
  assumes "cli_run user n e as s"
  shows "n = e + (if cl_busy s then 1 else 0) \<and> (if cl_busy s then cli_handleLine user stamp raw s = ([], s) else True)"
proof -
  have "n = e + (if cl_busy s then 1 else 0)"
    using assms
  proof (induction rule: cli_run.induct)
    case (more n e as s bs s')
    from cli_step_turns [OF more.hyps(2)] more.IH show ?case by (auto split: if_splits)
  qed (simp add: new_CliAdapter_def)
  with handleLine_turns(1) [of s user stamp raw] show ?thesis by simp
qed

lemma handleLine_click:
  assumes "cli_handleLine user stamp raw s = ([CliClick k], s')"
  shows "\<exists>b i rest. k = cli_click user s b i rest \<and> s' = s"
proof -
  define line where "line = trim raw"
  define ws where "ws = split_ws line"
  have d: "cli_dispatch user stamp t s \<noteq> ([CliClick k], s')" "cli_print t \<noteq> CliClick k" for t
    by (simp_all add: cli_dispatch_def cli_print_def)
  note * = assms [unfolded cli_handleLine_def Let_def, folded line_def, folded ws_def]
  show ?thesis
  proof (cases "cli_button (hd ws)")
    case None
    with * d show ?thesis by (auto split: if_split_asm)
  next
    case (Some b)
    with * d show ?thesis by (cases "tl ws") (auto split: if_split_asm)
  qed
qed

text \<open>A button command is a click on the card it names: for the terminal's user, with the nonce of the shown card whose
  id it completes, and with the empty nonce (which no tracked request has) when there is no such card.\<close>

theorem cli_click_card:
  assumes "cli_run user n e as s" and "cli_handleLine user stamp raw s = ([CliClick k], s')"
  shows "bc_user k = user \<and> s' = s \<and>
    (case map_of (cl_cards s) (bc_requestId k) of
       Some crd \<Rightarrow> rc_requestId crd = bc_requestId k \<and> bc_nonce k = rc_nonce crd
     | None \<Rightarrow> bc_nonce k = '''')"
proof -
  obtain b i rest where k: "k = cli_click user s b i rest" "s' = s"
    using handleLine_click [OF assms(2)] by blast
  have "map_of (cl_cards s) j = Some crd \<Longrightarrow> rc_requestId crd = j" for j crd
    using cli_run_cards [OF assms(1)] by (auto simp: cli_cards_ok_def list_all_iff dest!: map_of_SomeD)
  then show ?thesis by (simp add: k cli_click_def Let_def split: option.split)
qed

interpretation cli_users: user_directory "\<lambda>u c. retE (cli_resolveUser (cli_user tu em) u) :: ((nat, CliState) world, js_error, ChatUser) eff" Cli "\<lambda>_. True" for tu em
  by unfold_locales (auto simp: keeps_def retE_def cli_resolveUser_def cli_user_def)

section \<open>A session\<close>

definition ex_cli_card :: RequestCard where
  "ex_cli_card = \<lparr>rc_requestId = ''r12'', rc_title = ''t'', rc_fields = [], rc_buttons = [], rc_status = Pending, rc_footer = None, rc_nonce = ''n''\<rparr>"

definition ex_cli_state :: CliState where
  "ex_cli_state = \<lparr>cl_cards = [(''r12'', ex_cli_card)], cl_busy = False, cl_closed = False\<rparr>"

lemma ex_cli_run: "cli_run user 0 0 [cli_renderCard ex_cli_card] ex_cli_state"
proof -
  have u: "\<And>A. turns_started [cli_renderCard ex_cli_card] = 0" by simp
  have "cli_step user new_CliAdapter [cli_renderCard ex_cli_card] ex_cli_state"
    by (rule cli_step.post [of ex_cli_card]) (simp add: cli_postCard_def new_CliAdapter_def ex_cli_state_def ex_cli_card_def)
  from cli_run.more [OF cli_run.start this] show ?thesis by (simp add: ex_cli_state_def new_CliAdapter_def)
qed

lemma ex_cli_line:
  "cli_handleLine user stamp ''/deny r1'' ex_cli_state = ([CliClick (cli_click user ex_cli_state Deny ''r1'' [])], ex_cli_state)"
proof -
  have "trim ''/deny r1'' = ''/deny r1''" "split_ws ''/deny r1'' = [''/deny'', ''r1'']"
    by (simp_all add: trim_def trim_start_def is_ws_def code_of_def split_ws.simps Let_def)
  then show ?thesis by (simp add: cli_handleLine_def cli_button_def ex_cli_state_def)
qed

theorem cli_one_turn_witness: "\<exists>as. cli_run (cli_user [] None) 0 (0::nat) as ex_cli_state \<and> 0 = 0 + (if cl_busy ex_cli_state then 1 else (0::nat))"
  using cli_one_turn [OF ex_cli_run [where user = "cli_user [] None"]] ex_cli_run by blast

theorem cli_click_card_witness:
  "bc_user (cli_click (cli_user [] None) ex_cli_state Deny ''r1'' []) = cli_user [] None \<and> bc_nonce (cli_click (cli_user [] None) ex_cli_state Deny ''r1'' []) = ''n''"
proof -
  have "bc_requestId (cli_click (cli_user [] None) ex_cli_state Deny ''r1'' []) = ''r12''"
    by (simp add: cli_click_def cli_full_id_def ex_cli_state_def Let_def)
  moreover have "map_of (cl_cards ex_cli_state) ''r12'' = Some ex_cli_card" by (simp add: ex_cli_state_def)
  moreover have "rc_nonce ex_cli_card = ''n''" by (simp add: ex_cli_card_def)
  ultimately show ?thesis
    using cli_click_card [OF ex_cli_run [where user = "cli_user [] None"] ex_cli_line [where user = "cli_user [] None"]] by simp
qed

section \<open>Start\<close>

text \<open>
  \<open>start\<close> with a script: each line is handled to its end, the turn it starts included, before the next one. What the application does with a message or a click is
  outside; an error of a turn is printed, one of a click ends the script. In a terminal the lines are those of \<^const>\<open>cli_step\<close>, in any order with the turns,
  and the session is over when the input is.
\<close>

record CliOutside =
  ci_turn :: "IncomingMessage \<Rightarrow> CliAct list \<Rightarrow> js_error + unit"
  ci_click :: "ButtonClick \<Rightarrow> CliAct list \<Rightarrow> js_error + unit"
  ci_stamp :: "CliAct list \<Rightarrow> string"

definition cli_await :: "CliOutside \<Rightarrow> CliAct list \<Rightarrow> CliState \<Rightarrow> CliAct list \<Rightarrow> js_error option \<times> CliAct list \<times> CliState" where
  "cli_await o' h s as =
     (case as of
        [CliStartTurn m] \<Rightarrow> (case cli_turn_ends (ci_turn o' m (h @ as)) s of (bs, s') \<Rightarrow> (None, h @ as @ bs, s'))
      | [CliClick k] \<Rightarrow> (case ci_click o' k (h @ as) of Inl e \<Rightarrow> (Some e, h @ as, s) | Inr _ \<Rightarrow> (None, h @ as, s))
      | _ \<Rightarrow> (None, h @ as, s))"

fun cli_script :: "CliOutside \<Rightarrow> ChatUser \<Rightarrow> string list \<Rightarrow> CliAct list \<Rightarrow> CliState \<Rightarrow> js_error option \<times> CliAct list \<times> CliState" where
  "cli_script o' user [] h s = (None, h, s)"
| "cli_script o' user (line # lines) h s =
     (case cli_handleLine user (ci_stamp o' h) line s of
        (as, s') \<Rightarrow>
          (case cli_await o' h s' as of
             (Some e, r) \<Rightarrow> (Some e, r)
           | (None, h', s'') \<Rightarrow> cli_script o' user lines h' s''))"

lemma handleLine_cases:
  assumes "cli_handleLine user stamp raw s = (as, s')" and "\<not> cl_busy s"
  shows "(\<exists>m. as = [CliStartTurn m] \<and> cl_busy s') \<or> (\<forall>m. as \<noteq> [CliStartTurn m]) \<and> \<not> cl_busy s'"
  using assms by (auto simp: cli_handleLine_def Let_def cli_dispatch_def cli_print_def split: if_splits option.splits list.splits)

text \<open>A script is one of the runs of the terminal, no turn is left open, and no line finds the flag set: no line is dropped for it.\<close>

lemma cli_await_idle:
  assumes "cli_handleLine user stamp raw s = (as, s')" and "\<not> cl_busy s" and "cli_await o' h s' as = (e, h', s'')"
  shows "\<not> cl_busy s''"
  using handleLine_cases [OF assms(1,2)] assms(3)
  by (auto simp: cli_await_def cli_turn_ends_def split: list.splits CliAct.splits sum.splits prod.splits)

lemma cli_script_idle:
  "\<not> cl_busy s \<Longrightarrow> cli_script o' user lines h s = (e, h', s') \<Longrightarrow> \<not> cl_busy s'"
proof (induction lines arbitrary: h s)
  case (Cons line lines)
  obtain as s1 where a: "cli_handleLine user (ci_stamp o' h) line s = (as, s1)" by fastforce
  obtain e1 h1 s2 where b: "cli_await o' h s1 as = (e1, h1, s2)" by (metis prod_cases3)
  have "\<not> cl_busy s2" by (rule cli_await_idle [OF a Cons.prems(1) b])
  with Cons.IH Cons.prems(2) show ?case by (auto simp: a b split: option.splits)
qed simp

lemma cli_script_in_run:
  assumes "cli_run user n m as s" and "\<not> cl_busy s" and "cli_script o' user lines as s = (e, bs, s')"
  shows "\<exists>n' m'. cli_run user n' m' bs s'"
  using assms
proof (induction lines arbitrary: n m as s)
  case (Cons line lines)
  obtain xs s1 where a: "cli_handleLine user (ci_stamp o' as) line s = (xs, s1)" by fastforce
  obtain e1 h1 s2 where b: "cli_await o' as s1 xs = (e1, h1, s2)" by (metis prod_cases3)
  have idle: "\<not> cl_busy s2" by (rule cli_await_idle [OF a Cons.prems(2) b])
  obtain n1 m1 where r1: "cli_run user n1 m1 (as @ xs) s1" using cli_run.more [OF Cons.prems(1) cli_step.line [OF a]] by blast
  have "\<exists>n2 m2. cli_run user n2 m2 h1 s2"
  proof (cases "\<exists>k. xs = [CliStartTurn k]")
    case True
    then obtain k where k: "xs = [CliStartTurn k]" by blast
    then have busy: "cl_busy s1" using handleLine_cases [OF a Cons.prems(2)] by auto
    obtain ys where "cli_turn_ends (ci_turn o' k (as @ xs)) s1 = (ys, s2)" "h1 = (as @ xs) @ ys"
      using b by (auto simp: cli_await_def k split: prod.splits)
    with cli_run.more [OF r1 cli_step.ends [OF busy]] show ?thesis by blast
  next
    case False
    then have "h1 = as @ xs \<and> s2 = s1" using b by (auto simp: cli_await_def split: list.splits CliAct.splits sum.splits)
    with r1 show ?thesis by blast
  qed
  then obtain n2 m2 where r2: "cli_run user n2 m2 h1 s2" by blast
  show ?case
  proof (cases e1)
    case None
    with Cons.prems(3) have "cli_script o' user lines h1 s2 = (e, bs, s')" by (simp add: a b)
    from Cons.IH [OF r2 idle this] show ?thesis .
  next
    case (Some x)
    with Cons.prems(3) r2 show ?thesis by (auto simp: a b)
  qed
qed auto

text \<open>Quitting closes a terminal; a script has none to close, and its next line is handled.\<close>

lemma script_goes_on:
  assumes "\<not> cl_busy s"
  shows "cli_script o' user (''/quit'' # lines) h s = cli_script o' user lines h (s\<lparr>cl_closed := True\<rparr>)"
proof -
  have "trim ''/quit'' = ''/quit''" by code_simp
  then have "cli_handleLine user t ''/quit'' s = ([], s\<lparr>cl_closed := True\<rparr>)" for t
    using assms by (simp add: cli_handleLine_def)
  then show ?thesis by (simp add: cli_await_def)
qed

end
