(* ===== verification/PaConfig.thy ===== *)
theory PaConfig
  imports BrokerClient Webhook
begin

text \<open>
  The platform agent's configuration (\<open>services/agent/src/config.ts\<close>) and its client of the platform API
  (\<open>services/agent/src/client.ts\<close>). A schema failure is \<open>ConfigError\<close> with no wording. URL resolution
  (\<open>new URL(path, base)\<close>) is a parameter.
\<close>

section \<open>Providers\<close>

datatype Provider =
    Bedrock (pv_region: string) (pv_model: string)
  | Vertex (pv_region: string) (pv_model: string) (pv_project: string)

definition schema_error :: js_error where
  "schema_error = ConfigError ''invalid provider''"

text \<open>\<open>z.string().min(1)\<close> on an environment variable.\<close>

definition min1 :: "string option \<Rightarrow> js_error + string" where
  "min1 v = (if truthy v then Inr (nullish v '''') else Inl schema_error)"

definition parse_bedrock :: "Env \<Rightarrow> js_error + Provider" where
  "parse_bedrock env =
     (case (min1 (env ''AWS_REGION''), min1 (env ''BEDROCK_MODEL'')) of
        (Inr r, Inr m) \<Rightarrow> Inr (Bedrock r m)
      | _ \<Rightarrow> Inl schema_error)"

definition parse_vertex :: "Env \<Rightarrow> js_error + Provider" where
  "parse_vertex env =
     (case (min1 (env ''CLOUD_ML_REGION''), min1 (env ''VERTEX_MODEL''), min1 (env ''ANTHROPIC_VERTEX_PROJECT_ID'')) of
        (Inr r, Inr m, Inr p) \<Rightarrow> Inr (Vertex r m p)
      | _ \<Rightarrow> Inl schema_error)"

definition providersFromEnv :: "Env \<Rightarrow> js_error + (string \<times> Provider) list" where
  "providersFromEnv env =
     (case (if truthy (env ''BEDROCK_MODEL'') then map_sum id (\<lambda>p. [(''bedrock'', p)]) (parse_bedrock env) else Inr []) of
        Inl e \<Rightarrow> Inl e
      | Inr bs \<Rightarrow>
          (case (if truthy (env ''VERTEX_MODEL'') then map_sum id (\<lambda>p. [(''vertex'', p)]) (parse_vertex env) else Inr []) of
             Inl e \<Rightarrow> Inl e
           | Inr vs \<Rightarrow> Inr (bs @ vs)))"

definition required :: "Env \<Rightarrow> string \<Rightarrow> js_error + string" where
  "required env name = (if truthy (env name) then Inr (nullish (env name) '''') else Inl (PlainError (name @ '' is required'')))"

section \<open>The environment of the model process\<close>

definition FALLBACK_KEYS :: "string list" where
  "FALLBACK_KEYS = [''ANTHROPIC_API_KEY'', ''ANTHROPIC_AUTH_TOKEN'', ''ANTHROPIC_BASE_URL'', ''CLAUDE_CODE_USE_BEDROCK'',
     ''CLAUDE_CODE_USE_VERTEX'', ''CLAUDE_CODE_USE_FOUNDRY'', ''CLAUDE_CODE_USE_ANTHROPIC_AWS'', ''ANTHROPIC_MODEL'']"

definition CONTROL_PREFIXES :: "string list" where
  "CONTROL_PREFIXES = [''DOGFOOD_'', ''STACK_'', ''SLACK_'', ''TEAMS_'', ''GOOGLE_CHAT_'', ''GITHUB_'']"

definition control_key :: "string \<Rightarrow> bool" where
  "control_key k \<longleftrightarrow> list_ex (\<lambda>p. starts_with p k) CONTROL_PREFIXES"

definition providerEnvironment :: "Provider \<Rightarrow> Env \<Rightarrow> Env" where
  "providerEnvironment p inherited =
     (let env = (\<lambda>k. if k \<in> set FALLBACK_KEYS then None else inherited k);
          env' = (case p of
              Bedrock r m \<Rightarrow> env(''CLAUDE_CODE_USE_BEDROCK'' \<mapsto> ''1'', ''AWS_REGION'' \<mapsto> r)
            | Vertex r m pr \<Rightarrow> env(''CLAUDE_CODE_USE_VERTEX'' \<mapsto> ''1'', ''CLOUD_ML_REGION'' \<mapsto> r, ''ANTHROPIC_VERTEX_PROJECT_ID'' \<mapsto> pr)) in
      (\<lambda>k. if control_key k then None else env' k))"

section \<open>The platform client\<close>

record PlatformClient =
  pc_base :: string
  pc_token :: string
  pc_subject :: "string option"

record 'c platform_env =
  pe_inj :: "FetchRequest \<Rightarrow> 'c"
  pe_fetch :: "FetchRequest \<Rightarrow> 'c list \<Rightarrow> js_error + FetchResponse"
  pe_url :: "string \<Rightarrow> string \<Rightarrow> string"

definition platform_request :: "(string \<Rightarrow> string \<Rightarrow> string) \<Rightarrow> PlatformClient \<Rightarrow> string \<Rightarrow> string \<Rightarrow> json option \<Rightarrow> string option \<Rightarrow> FetchRequest" where
  "platform_request url c path method body idempotency =
     \<lparr>fq_method = method, fq_url = url path (pc_base c),
      fq_headers = [(''Authorization'', ''Bearer '' @ pc_token c), (''Content-Type'', ''application/json'')]
        @ (if truthy (pc_subject c) then [(''X-Dogfood-Subject'', nullish (pc_subject c) '''')] else [])
        @ (if truthy idempotency then [(''Idempotency-Key'', nullish idempotency '''')] else []),
      fq_body = map_option stringify body\<rparr>"

definition platform_answer :: "FetchResponse \<Rightarrow> js_error + json" where
  "platform_answer res =
     (if \<not> res_ok res then Inl (PlainError (''Platform request rejected ('' @ show_int (fr_status res) @ ''): '' @ take 500 (fr_text res)))
      else (case json_parse (fr_text res) of Some j \<Rightarrow> Inr j | None \<Rightarrow> Inl (PlainError ''SyntaxError'')))"

definition request ::
  "'c platform_env \<Rightarrow> PlatformClient \<Rightarrow> string \<Rightarrow> string \<Rightarrow> json option \<Rightarrow> string option \<Rightarrow> (('c, 's) world, js_error, json) eff" where
  "request e c path method body idempotency =
     (let rq = platform_request (pe_url e) c path method body idempotency in
      bindE (perform (pe_inj e rq) (pe_fetch e rq)) (\<lambda>res. liftE (platform_answer res)))"

section \<open>Redaction\<close>

definition not_delim :: "char \<Rightarrow> bool" where
  "not_delim c \<longleftrightarrow> \<not> is_ws c \<and> c \<noteq> CHR '','' \<and> c \<noteq> CHR '';''"

definition eq_or_colon :: "char \<Rightarrow> bool" where
  "eq_or_colon c \<longleftrightarrow> c = CHR ''='' \<or> c = CHR '':''"

definition us_or_dash :: "char \<Rightarrow> bool" where
  "us_or_dash c \<longleftrightarrow> c = CHR ''_'' \<or> c = CHR ''-''"

lemmas [js_eval] = not_delim_def eq_or_colon_def us_or_dash_def

definition SECRET_RX :: rx where
  "SECRET_RX = rx_alts
     [rx_seqs [rx_ilit ''Bearer'', rx_plus (RChr is_ws), rx_plus (RChr not_ws)],
      rx_seqs [rx_alts [rx_ilit ''password'', rx_ilit ''token'', rx_ilit ''secret'',
                        rx_seqs [rx_ilit ''api'', rx_opt (RChr us_or_dash), rx_ilit ''key'']],
               RStar (RChr is_ws), RChr eq_or_colon, RStar (RChr is_ws), rx_plus (RChr not_delim)]]"

definition redact :: "string \<Rightarrow> string" where
  "redact text = rx_replace_all SECRET_RX ''[REDACTED]'' text"

section \<open>Properties\<close>

lemma control_key_disjoint:
  "\<not> control_key ''CLAUDE_CODE_USE_BEDROCK''" "\<not> control_key ''AWS_REGION''" "\<not> control_key ''CLAUDE_CODE_USE_VERTEX''"
  "\<not> control_key ''CLOUD_ML_REGION''" "\<not> control_key ''ANTHROPIC_VERTEX_PROJECT_ID''"
  by (simp_all add: control_key_def CONTROL_PREFIXES_def)

text \<open>The model process gets no credential of the control plane and no fallback: whatever it inherits, no variable with a
  lifecycle or channel prefix and no key of another provider survives; exactly the chosen provider is switched on, with
  its own region and project; every other variable is inherited as it was.\<close>

theorem provider_env_confined:
  "providerEnvironment p inherited k =
     (if control_key k then None
      else if k \<in> set FALLBACK_KEYS then
        (if k = (case p of Bedrock _ _ \<Rightarrow> ''CLAUDE_CODE_USE_BEDROCK'' | Vertex _ _ _ \<Rightarrow> ''CLAUDE_CODE_USE_VERTEX'') then Some ''1'' else None)
      else
        (case p of
           Bedrock r _ \<Rightarrow> if k = ''AWS_REGION'' then Some r else inherited k
         | Vertex r _ pr \<Rightarrow>
             if k = ''CLOUD_ML_REGION'' then Some r
             else if k = ''ANTHROPIC_VERTEX_PROJECT_ID'' then Some pr else inherited k))"
proof -
  have n: "''AWS_REGION'' \<notin> set FALLBACK_KEYS" "''CLOUD_ML_REGION'' \<notin> set FALLBACK_KEYS" "''ANTHROPIC_VERTEX_PROJECT_ID'' \<notin> set FALLBACK_KEYS"
    by (simp_all add: FALLBACK_KEYS_def)
  have i: "''CLAUDE_CODE_USE_BEDROCK'' \<in> set FALLBACK_KEYS" "''CLAUDE_CODE_USE_VERTEX'' \<in> set FALLBACK_KEYS"
    by (simp_all add: FALLBACK_KEYS_def)
  show ?thesis
    using n i control_key_disjoint by (cases p) (auto simp: providerEnvironment_def Let_def)
qed

text \<open>A loaded provider is complete, and is registered under its own name.\<close>

lemma providers_complete:
  "providersFromEnv env = Inr ps \<Longrightarrow> map_of ps n = Some p \<Longrightarrow>
   (case p of Bedrock r m \<Rightarrow> n = ''bedrock'' \<and> r \<noteq> [] \<and> m \<noteq> [] | Vertex r m pr \<Rightarrow> n = ''vertex'' \<and> r \<noteq> [] \<and> m \<noteq> [] \<and> pr \<noteq> [])"
  by (auto simp: providersFromEnv_def parse_bedrock_def parse_vertex_def min1_def truthy_def nullish_def
      split: if_splits sum.splits option.splits)

text \<open>Text with nothing that looks like a credential is left as it is by \<open>redact\<close>.\<close>

lemma redact_clean: "\<not> rx_test SECRET_RX s \<Longrightarrow> redact s = s"
  by (simp add: redact_def rx_replace_all_no_match)

text \<open>Two secrets the redaction misses: the value of a quoted JSON member, and the value after a doubled scheme.\<close>

theorem redact_misses:
  "redact (''{'' @ DQ # ''token'' @ DQ # '':'' @ DQ # ''s3'' @ DQ # ''}'') = ''{'' @ DQ # ''token'' @ DQ # '':'' @ DQ # ''s3'' @ DQ # ''}'' \<and>
   redact ''Bearer Bearer s3'' = ''[REDACTED] s3''"
  by code_simp

end
