(* ===== verification/PaChannels.thy ===== *)
theory PaChannels
  imports PaConfig
begin

text \<open>
  The chat channels of the platform agent (\<open>services/agent/src/channels.ts\<close>): the checks on incoming events
  and the delivery of answers. HMAC, JWT verification (\<open>jose\<close>), the URL parser and the Google client are
  parameters; \<open>fetch\<close> and the Google request are outside calls.
\<close>

section \<open>Authenticity of events\<close>

text \<open>\<open>raw\<close> is the body's bytes. The window is compared in milliseconds, where the source divides by 1000.\<close>

definition verifySlack :: "hmac \<Rightarrow> string \<Rightarrow> string \<Rightarrow> string \<Rightarrow> string \<Rightarrow> int \<Rightarrow> bool" where
  "verifySlack hm raw timestamp signature secret now =
     (if \<not> (timestamp \<noteq> [] \<and> list_all is_digit timestamp) \<or> \<bar>now - 1000 * int (read_nat timestamp)\<bar> > 300 * 1000 then False
      else
        let expected = ''v0='' @ hex_of_bytes (hm (utf8 secret) (utf8 (''v0:'' @ timestamp @ '':'') @ raw));
            a = utf8 expected; b = utf8 signature in
        length a = length b \<and> a = b)"

record JwtOptions =
  jo_issuers :: "string list"
  jo_audience :: string
  jo_algorithms :: "string list"

type_synonym jwt_verify = "string \<Rightarrow> JwtOptions \<Rightarrow> js_error + json"

definition verifyTeams :: "jwt_verify \<Rightarrow> string \<Rightarrow> string \<Rightarrow> js_error + json" where
  "verifyTeams jwt token appId = jwt token \<lparr>jo_issuers = [''https://api.botframework.com''], jo_audience = appId, jo_algorithms = [''RS256'']\<rparr>"

definition verifyGoogle :: "jwt_verify \<Rightarrow> string \<Rightarrow> string \<Rightarrow> js_error + json" where
  "verifyGoogle jwt token audience =
     (case jwt token \<lparr>jo_issuers = [''https://accounts.google.com'', ''accounts.google.com''], jo_audience = audience, jo_algorithms = [''RS256'']\<rparr> of
        Inl e \<Rightarrow> Inl e
      | Inr payload \<Rightarrow>
          if jfield ''email'' payload \<noteq> Some (JStr ''chat@system.gserviceaccount.com'') \<or> jfield ''email_verified'' payload \<noteq> Some (JBool True)
          then Inl (PlainError ''Unexpected Google Chat service identity'') else Inr payload)"

record UrlParts =
  up_protocol :: string
  up_username :: string
  up_password :: string
  up_port :: string
  up_hostname :: string
  up_href :: string

type_synonym url_parse = "string \<Rightarrow> UrlParts option"

definition teamsServiceURL :: "url_parse \<Rightarrow> string \<Rightarrow> js_error + string" where
  "teamsServiceURL parse value =
     (case parse value of
        None \<Rightarrow> Inl (PlainError ''Invalid URL'')
      | Some u \<Rightarrow>
          if up_protocol u \<noteq> ''https:'' \<or> up_username u \<noteq> [] \<or> up_password u \<noteq> [] \<or> up_port u \<noteq> [] then
            Inl (PlainError ''Invalid Teams service URL'')
          else if up_hostname u \<noteq> ''smba.trafficmanager.net'' \<and> \<not> ends_with ''.botframework.com'' (up_hostname u) \<and>
                  up_hostname u \<noteq> ''api.botframework.com'' then
            Inl (PlainError ''Untrusted Teams service URL'')
          else Inr (up_href u))"

section \<open>Delivery\<close>

datatype ChCall =
    ChFetch FetchRequest
  | ChGoogle string json

record ChOutside =
  co_fetch :: "FetchRequest \<Rightarrow> ChCall list \<Rightarrow> js_error + FetchResponse"
  co_google :: "string \<Rightarrow> json \<Rightarrow> ChCall list \<Rightarrow> js_error + unit"
  co_parse :: url_parse
  co_resolve :: "string \<Rightarrow> string \<Rightarrow> string"
  co_form :: "(string \<times> string) list \<Rightarrow> string"
  co_env :: Env

type_synonym 'a ch = "((ChCall, unit) world, js_error, 'a) eff"

definition ch_fetch :: "ChOutside \<Rightarrow> FetchRequest \<Rightarrow> FetchResponse ch" where
  "ch_fetch o' rq = perform (ChFetch rq) (co_fetch o' rq)"

definition checked :: "FetchResponse \<Rightarrow> js_error + json" where
  "checked res =
     (if \<not> res_ok res then Inl (PlainError (''Chat delivery failed ('' @ show_int (fr_status res) @ '')''))
      else
        (case json_parse (fr_text res) of
           None \<Rightarrow> Inl (PlainError ''SyntaxError'')
         | Some JNull \<Rightarrow> Inl (PlainError ''TypeError'')
         | Some r \<Rightarrow>
             if jfield ''ok'' r = Some (JBool False)
             then Inl (PlainError (''Slack delivery failed: '' @ js_undef_string (jfield ''error'' r))) else Inr r))"

text \<open>A member of a JSON body whose value is \<open>undefined\<close> is left out.\<close>

definition jmember :: "string \<Rightarrow> json option \<Rightarrow> (string \<times> json) list" where
  "jmember k v = (case v of Some j \<Rightarrow> [(k, j)] | None \<Rightarrow> [])"

definition json_headers :: "string \<Rightarrow> (string \<times> string) list" where
  "json_headers tok = [(''Authorization'', ''Bearer '' @ tok), (''Content-Type'', ''application/json'')]"

definition slack_post :: "Env \<Rightarrow> json \<Rightarrow> string \<Rightarrow> FetchRequest" where
  "slack_post env d text =
     \<lparr>fq_method = ''POST'', fq_url = ''https://slack.com/api/chat.postMessage'',
      fq_headers = json_headers (nullish (env ''SLACK_BOT_TOKEN'') ''undefined''),
      fq_body = Some (stringify (JObj (jmember ''channel'' (jfield ''channel'' d) @ jmember ''thread_ts'' (jfield ''thread'' d)
        @ [(''text'', JStr text), (''unfurl_links'', JBool False), (''unfurl_media'', JBool False)])))\<rparr>"

definition teams_token_request :: "ChOutside \<Rightarrow> FetchRequest" where
  "teams_token_request o' =
     (let env = co_env o' in
      \<lparr>fq_method = ''POST'',
       fq_url = ''https://login.microsoftonline.com/'' @ encodeURIComponent (nullish (env ''TEAMS_APP_TENANT_ID'') ''botframework.com'') @ ''/oauth2/v2.0/token'',
       fq_headers = [],
       fq_body = Some (co_form o' [(''grant_type'', ''client_credentials''),
          (''client_id'', nullish (env ''TEAMS_APP_ID'') ''undefined''),
          (''client_secret'', nullish (env ''TEAMS_APP_SECRET'') ''undefined''),
          (''scope'', ''https://api.botframework.com/.default'')])\<rparr>)"

definition teams_post :: "ChOutside \<Rightarrow> string \<Rightarrow> json \<Rightarrow> json \<Rightarrow> string \<Rightarrow> FetchRequest" where
  "teams_post o' service d auth text =
     \<lparr>fq_method = ''POST'',
      fq_url = co_resolve o' (''v3/conversations/'' @ encodeURIComponent (js_undef_string (jfield ''conversation'' d)) @ ''/activities'') service,
      fq_headers = json_headers (js_undef_string (jfield ''access_token'' auth)),
      fq_body = Some (stringify (JObj [(''type'', JStr ''message''), (''text'', JStr text)]))\<rparr>"

definition space_char :: "char \<Rightarrow> bool" where
  "space_char c \<longleftrightarrow> is_alnum c \<or> c = CHR ''_'' \<or> c = CHR ''-''"

definition google_space_ok :: "string \<Rightarrow> bool" where
  "google_space_ok s \<longleftrightarrow> starts_with ''spaces/'' s \<and> drop 7 s \<noteq> [] \<and> list_all space_char (drop 7 s)"

definition google_body :: "json \<Rightarrow> string \<Rightarrow> json" where
  "google_body d text = JObj ([(''text'', JStr text)]
     @ (if jtruthy (jfield ''thread'' d) then [(''thread'', JObj (jmember ''name'' (jfield ''thread'' d)))] else []))"

text \<open>\<open>JSON.parse(destination)\<close>; reading a property of \<open>null\<close> is a \<open>TypeError\<close>.\<close>

definition parse_destination :: "string \<Rightarrow> js_error + json" where
  "parse_destination s =
     (case json_parse s of
        None \<Rightarrow> Inl (PlainError ''SyntaxError'')
      | Some JNull \<Rightarrow> Inl (PlainError ''TypeError'')
      | Some d \<Rightarrow> Inr d)"

definition send_slack :: "ChOutside \<Rightarrow> json \<Rightarrow> string \<Rightarrow> unit ch" where
  "send_slack o' d text =
     bindE (ch_fetch o' (slack_post (co_env o') d text)) (\<lambda>res. bindE (liftE (checked res)) (\<lambda>_. retE ()))"

definition send_teams :: "ChOutside \<Rightarrow> json \<Rightarrow> string \<Rightarrow> unit ch" where
  "send_teams o' d text =
     bindE (liftE (teamsServiceURL (co_parse o') (js_undef_string (jfield ''serviceUrl'' d)))) (\<lambda>service.
     bindE (ch_fetch o' (teams_token_request o')) (\<lambda>r1. bindE (liftE (checked r1)) (\<lambda>auth.
     bindE (ch_fetch o' (teams_post o' service d auth text)) (\<lambda>r2. bindE (liftE (checked r2)) (\<lambda>_. retE ())))))"

definition send_google :: "ChOutside \<Rightarrow> json \<Rightarrow> string \<Rightarrow> unit ch" where
  "send_google o' d text =
     (let space = js_undef_string (jfield ''space'' d) in
      if \<not> google_space_ok space then throwE (PlainError ''Invalid Google Chat space'')
      else
        let url = ''https://chat.googleapis.com/v1/'' @ space @ ''/messages'' in
        perform (ChGoogle url (google_body d text)) (co_google o' url (google_body d text)))"

definition send :: "ChOutside \<Rightarrow> string \<Rightarrow> string \<Rightarrow> string \<Rightarrow> unit ch" where
  "send o' channel destination text =
     (if channel = ''slack'' then bindE (liftE (parse_destination destination)) (\<lambda>d. send_slack o' d text)
      else if channel = ''teams'' then bindE (liftE (parse_destination destination)) (\<lambda>d. send_teams o' d text)
      else if channel = ''google'' then bindE (liftE (parse_destination destination)) (\<lambda>d. send_google o' d text)
      else throwE (PlainError ''Unsupported channel''))"

section \<open>Properties\<close>

text \<open>A Slack event passes exactly when its timestamp is decimal and within five minutes and its signature is the MAC
  of this timestamp and these bytes: nothing else of the request decides.\<close>

theorem verifySlack_iff:
  "verifySlack hm raw ts sig secret now =
     (ts \<noteq> [] \<and> list_all is_digit ts \<and> 1000 * int (read_nat ts) \<in> {now - 300000 .. now + 300000} \<and>
      sig = ''v0='' @ hex_of_bytes (hm (utf8 secret) (utf8 (''v0:'' @ ts @ '':'') @ raw)))"
proof -
  have "length (utf8 a) = length (utf8 b) \<and> utf8 a = utf8 b \<longleftrightarrow> b = a" for a b :: string
    using utf8_inj by (auto dest: injD)
  then show ?thesis by (auto simp: verifySlack_def Let_def)
qed

text \<open>Where an answer may go.\<close>

definition send_target_ok :: "ChOutside \<Rightarrow> ChCall \<Rightarrow> bool" where
  "send_target_ok o' c = (case c of
      ChFetch rq \<Rightarrow> fq_method rq = ''POST'' \<and>
        (fq_url rq = ''https://slack.com/api/chat.postMessage'' \<or> rq = teams_token_request o' \<or>
         (\<exists>service d auth t u. rq = teams_post o' service d auth t \<and> teamsServiceURL (co_parse o') u = Inr service))
    | ChGoogle url b \<Rightarrow> \<exists>sp. google_space_ok sp \<and> url = ''https://chat.googleapis.com/v1/'' @ sp @ ''/messages'')"

lemma send_slack_ok: "appends (send_target_ok o') (send_slack o' d t)"
  unfolding send_slack_def ch_fetch_def
  by (intro appends_bindE appends_perform appends_liftE appends_retE) (simp add: send_target_ok_def slack_post_def)

lemma send_teams_ok: "appends (send_target_ok o') (send_teams o' d t)"
proof (cases "teamsServiceURL (co_parse o') (js_undef_string (jfield ''serviceUrl'' d))")
  case (Inl e)
  have "send_teams o' d t = throwE e" unfolding send_teams_def Inl by (simp add: bindE_def liftE_def throwE_def)
  then show ?thesis by (simp add: appends_throwE)
next
  case (Inr service)
  have 1: "send_target_ok o' (ChFetch (teams_token_request o'))"
    by (simp add: send_target_ok_def teams_token_request_def Let_def)
  have 2: "send_target_ok o' (ChFetch (teams_post o' service d auth t))" for auth
    using Inr by (auto simp: send_target_ok_def) (simp_all add: teams_post_def)
  have "bindE (liftE (Inr service :: js_error + string)) f = f service" for f :: "string \<Rightarrow> unit ch"
    by (simp add: bindE_def liftE_def)
  then show ?thesis unfolding send_teams_def Inr ch_fetch_def
    by (auto intro!: appends_bindE appends_perform appends_liftE appends_retE 1 2)
qed

text \<open>An answer, and with it the bot's credentials, goes only to the platform's own hosts: Slack's API, Microsoft's token
  endpoint, a Teams service whose URL passed \<open>teamsServiceURL\<close>, or a well-formed Google Chat space, whatever the
  destination says.\<close>

theorem send_confined:
  "\<exists>cs. calls (snd (send o' channel destination text w)) = calls w @ cs \<and> list_all (send_target_ok o') cs"
proof -
  have g: "appends (send_target_ok o') (send_google o' d text)" for d
    by (auto simp: send_google_def Let_def send_target_ok_def intro!: appends_throwE appends_perform)
  have "appends (send_target_ok o') (send o' channel destination text)"
    unfolding send_def by (auto intro!: appends_bindE appends_liftE appends_throwE send_slack_ok send_teams_ok g)
  then show ?thesis by (rule appendsD)
qed

text \<open>A Teams service URL is accepted only over https, without credentials and on the default port, at
  \<open>smba.trafficmanager.net\<close> or under \<open>botframework.com\<close>.\<close>

theorem teamsServiceURL_sound:
  "teamsServiceURL parse v = Inr h \<longleftrightarrow>
     (\<exists>u. parse v = Some u \<and> h = up_href u \<and> up_protocol u = ''https:'' \<and> up_username u = [] \<and> up_password u = [] \<and> up_port u = [] \<and>
        (up_hostname u = ''smba.trafficmanager.net'' \<or> (\<exists>p. up_hostname u = p @ ''.botframework.com'')))"
proof -
  have "ends_with ''.botframework.com'' s \<longleftrightarrow> (\<exists>p. s = p @ ''.botframework.com'')" for s :: string
    by (auto simp: ends_with_def) (metis append_take_drop_id)+
  moreover have "''api.botframework.com'' = ''api'' @ ''.botframework.com''" by simp
  ultimately show ?thesis unfolding teamsServiceURL_def
    by (auto split: option.split)
qed

end
