(* ===== verification/PaAgent.thy ===== *)
theory PaAgent
  imports PaConfig
begin

text \<open>
  The platform agent proper (\<open>services/agent/src/agent.ts\<close>): one model turn per conversation at a time, the
  tools the model may call, and the session pinned to a provider on disk. The Agent SDK is outside: a
  query is an outside call whose outcome is what happens on its stream, in order, tool calls included; the
  file system and the platform API are outside calls as well. SHA-256 (as hex) and \<open>randomUUID\<close> are
  parameters. The closing of the stream after 120 seconds is one of the ways the stream can end.
\<close>

section \<open>Tools\<close>

definition name_char :: "char \<Rightarrow> bool" where
  "name_char c \<longleftrightarrow> is_lower_az c \<or> is_digit c \<or> c = CHR ''-''"

definition name_ok :: "string \<Rightarrow> bool" where
  "name_ok s \<longleftrightarrow> s \<noteq> [] \<and> is_lower_az (hd s) \<and> list_all name_char (tl s) \<and> length (tl s) \<le> 39"

definition operation_ok :: "string \<Rightarrow> bool" where
  "operation_ok s \<longleftrightarrow> length s = 32 \<and> list_all is_hex_lower s"

definition revision_ok :: "string \<Rightarrow> bool" where
  "revision_ok s \<longleftrightarrow> 7 \<le> length s \<and> length s \<le> 64 \<and> list_all is_hex_lower s"

definition image_char :: "char \<Rightarrow> bool" where
  "image_char c \<longleftrightarrow> is_alnum c \<or> c \<in> set ''_./:-''"

definition image_ok :: "string \<Rightarrow> bool" where
  "image_ok s = rx_full (rx_seqs [rx_plus (RChr image_char), rx_lit ''@sha256:'', rx_times 64 (RChr is_hex_lower)]) s"

text \<open>A validated argument: the member's value when it fits the tool's schema.\<close>

definition arg_str :: "(string \<Rightarrow> bool) \<Rightarrow> string \<Rightarrow> json \<Rightarrow> string option" where
  "arg_str ok k a = (case jstring (jfield k a) of Some s \<Rightarrow> if ok s then Some s else None | None \<Rightarrow> None)"

definition arg_int :: "(int \<Rightarrow> bool) \<Rightarrow> string \<Rightarrow> json \<Rightarrow> int option" where
  "arg_int ok k a = (case jint (jfield k a) of Some i \<Rightarrow> if ok i then Some i else None | None \<Rightarrow> None)"

datatype ToolRequest = ToolRequest (tq_path: string) (tq_method: string) (tq_body: "json option") (tq_idempotency: "string option")

definition tget :: "string \<Rightarrow> ToolRequest" where
  "tget path = ToolRequest path ''GET'' None None"

definition extend_body :: "string \<Rightarrow> int \<Rightarrow> int \<Rightarrow> json" where
  "extend_body mode minutes generation = JObj [(''mode'', JStr mode), (''minutes'', JInt minutes), (''generation'', JInt generation)]"

definition tool_extend :: "json \<Rightarrow> ToolRequest option" where
  "tool_extend a =
     (case (arg_str name_ok ''name'' a, arg_str (\<lambda>m. m \<in> {''add'', ''from-now''}) ''mode'' a,
            arg_int (\<lambda>i. 1 \<le> i \<and> i \<le> 10080) ''minutes'' a, arg_int (\<lambda>i. 0 < i) ''generation'' a) of
        (Some n, Some mo, Some mi, Some g) \<Rightarrow>
          Some (ToolRequest (''/v1/environments/'' @ n @ ''/extend'') ''POST'' (Some (extend_body mo mi g)) None)
      | _ \<Rightarrow> None)"

definition tool_create :: "string \<Rightarrow> json \<Rightarrow> ToolRequest option" where
  "tool_create conversation a =
     (case (arg_str name_ok ''name'' a, arg_str image_ok ''image'' a, arg_str revision_ok ''revision'' a) of
        (Some n, Some i, Some r) \<Rightarrow>
          Some (ToolRequest ''/v1/environments'' ''POST''
            (Some (JObj [(''id'', JStr n), (''image'', JStr i), (''revision'', JStr r), (''profile'', JStr ''preview''), (''warm'', JBool True)]))
            (Some (conversation @ '':'' @ n @ '':'' @ r)))
      | _ \<Rightarrow> None)"

definition tool_redeploy :: "json \<Rightarrow> ToolRequest option" where
  "tool_redeploy a =
     (case (arg_str name_ok ''name'' a, arg_str image_ok ''image'' a, arg_str revision_ok ''revision'' a, arg_int (\<lambda>i. 0 < i) ''generation'' a) of
        (Some n, Some i, Some r, Some g) \<Rightarrow>
          Some (ToolRequest (''/v1/environments/'' @ n @ ''/redeploy'') ''POST''
            (Some (JObj [(''image'', JStr i), (''revision'', JStr r), (''generation'', JInt g)])) None)
      | _ \<Rightarrow> None)"

definition tool_promote :: "json \<Rightarrow> ToolRequest option" where
  "tool_promote a =
     (case (arg_str (\<lambda>t. t \<in> {''dev'', ''staging'', ''prod''}) ''target'' a, arg_str image_ok ''image'' a, arg_str revision_ok ''revision'' a) of
        (Some t, Some i, Some r) \<Rightarrow>
          Some (ToolRequest ''/v1/promotions'' ''POST'' (Some (JObj [(''target'', JStr t), (''image'', JStr i), (''revision'', JStr r)])) None)
      | _ \<Rightarrow> None)"

text \<open>The request a tool call makes; \<^const>\<open>None\<close> for a tool that does not exist or arguments its schema refuses.\<close>

definition tool_request :: "string \<Rightarrow> string \<Rightarrow> json \<Rightarrow> ToolRequest option" where
  "tool_request conversation tool a =
     (if tool = ''list_environments'' then Some (tget ''/v1/environments'')
      else if tool = ''get_environment'' then map_option (\<lambda>n. tget (''/v1/environments/'' @ n)) (arg_str name_ok ''name'' a)
      else if tool = ''get_operation'' then map_option (\<lambda>i. tget (''/v1/operations/'' @ i)) (arg_str operation_ok ''id'' a)
      else if tool = ''find_tools'' then Some (tget ''/v1/tools'')
      else if tool = ''request_promotion'' then tool_promote a
      else if tool = ''list_policies'' then Some (tget ''/v1/policies'')
      else if tool = ''diagnose_environment'' then
        map_option (\<lambda>n. tget (''/v1/environments/'' @ n @ ''/diagnostics'')) (arg_str name_ok ''name'' a)
      else if tool = ''extend_environment'' then tool_extend a
      else if tool = ''create_environment'' then tool_create conversation a
      else if tool = ''redeploy_environment'' then tool_redeploy a
      else None)"

section \<open>Providers by name\<close>

text \<open>\<open>providers[name]\<close> on an object literal also finds the members every object inherits.\<close>

definition OBJECT_MEMBERS :: "string list" where
  "OBJECT_MEMBERS = [''constructor'', ''__defineGetter__'', ''__defineSetter__'', ''hasOwnProperty'', ''__lookupGetter__'',
     ''__lookupSetter__'', ''isPrototypeOf'', ''propertyIsEnumerable'', ''toString'', ''valueOf'', ''__proto__'', ''toLocaleString'']"

datatype ProviderRef = Own Provider | Inherited

definition find_provider :: "(string \<times> Provider) list \<Rightarrow> string \<Rightarrow> ProviderRef option" where
  "find_provider ps n =
     (case map_of ps n of Some p \<Rightarrow> Some (Own p) | None \<Rightarrow> if n \<in> set OBJECT_MEMBERS then Some Inherited else None)"

text \<open>For an inherited member the properties \<open>model\<close>, \<open>region\<close> and \<open>project\<close> are undefined.\<close>

definition ref_model :: "ProviderRef \<Rightarrow> string option" where
  "ref_model r = (case r of Own p \<Rightarrow> Some (pv_model p) | Inherited \<Rightarrow> None)"

definition ref_environment :: "ProviderRef \<Rightarrow> Env \<Rightarrow> Env" where
  "ref_environment r env = (case r of
      Own p \<Rightarrow> providerEnvironment p env
    | Inherited \<Rightarrow> (providerEnvironment (Vertex [] [] []) env)(''CLOUD_ML_REGION'' := None, ''ANTHROPIC_VERTEX_PROJECT_ID'' := None))"

section \<open>The outside and the state\<close>

record AskInput =
  ai_subject :: string
  ai_conversation :: string
  ai_provider :: string
  ai_text :: string

record Query =
  q_prompt :: string
  q_model :: "string option"
  q_cwd :: string
  q_env :: Env
  q_resume :: "string option"
  q_maxTurns :: nat
  q_maxBudgetUsd :: string

datatype StreamItem =
    SysInit string
  | ResultSuccess string
  | ResultOther string
  | OtherMessage
  | ToolUse string json

datatype AgCall =
    AgMkdir string
  | AgRead string
  | AgWrite string string
  | AgRename string string
  | AgQuery Query
  | AgFetch FetchRequest

datatype FileRead = FileText string | FileMissing | FileError js_error

record AgOutside =
  ao_mkdir :: "string \<Rightarrow> AgCall list \<Rightarrow> js_error + unit"
  ao_read :: "string \<Rightarrow> AgCall list \<Rightarrow> FileRead"
  ao_write :: "string \<Rightarrow> string \<Rightarrow> AgCall list \<Rightarrow> js_error + unit"
  ao_rename :: "string \<Rightarrow> string \<Rightarrow> AgCall list \<Rightarrow> js_error + unit"
  ao_query :: "Query \<Rightarrow> AgCall list \<Rightarrow> StreamItem list \<times> js_error option"
  ao_fetch :: "FetchRequest \<Rightarrow> AgCall list \<Rightarrow> js_error + FetchResponse"
  ao_url :: "string \<Rightarrow> string \<Rightarrow> string"
  ao_uuid :: "AgCall list \<Rightarrow> string"
  ao_sha256hex :: "string \<Rightarrow> string"
  ao_env :: Env

record AgState =
  ag_locks :: "string list"

record Agent =
  ag_providers :: "(string \<times> Provider) list"
  ag_base :: string
  ag_token :: string
  ag_stateDir :: string

type_synonym 'a ag = "((AgCall, AgState) world, js_error, 'a) eff"

definition agent_client :: "Agent \<Rightarrow> AskInput \<Rightarrow> PlatformClient" where
  "agent_client a inp = \<lparr>pc_base = ag_base a, pc_token = ag_token a, pc_subject = Some (ai_subject inp)\<rparr>"

definition ag_platform :: "AgOutside \<Rightarrow> AgCall platform_env" where
  "ag_platform o' = \<lparr>pe_inj = AgFetch, pe_fetch = ao_fetch o', pe_url = ao_url o'\<rparr>"

text \<open>A tool call: its result, or the text of the error, which is not redacted.\<close>

definition error_string :: "js_error \<Rightarrow> string" where
  "error_string e = ''Error: '' @ err_message e"

definition run_tool :: "AgOutside \<Rightarrow> Agent \<Rightarrow> AskInput \<Rightarrow> string \<Rightarrow> json \<Rightarrow> (bool \<times> string) option ag" where
  "run_tool o' a inp tool args =
     (case tool_request (ai_conversation inp) tool args of
        None \<Rightarrow> retE None
      | Some (ToolRequest path method body idem) \<Rightarrow>
          catchE (bindE (request (ag_platform o') (agent_client a inp) path method body idem)
                    (\<lambda>j. retE (Some (False, redact (stringify j)))))
                 (\<lambda>e. retE (Some (True, error_string e))))"

section \<open>A turn\<close>

text \<open>The loop over the stream: the session id and the result so far.\<close>

fun run_stream :: "AgOutside \<Rightarrow> Agent \<Rightarrow> AskInput \<Rightarrow> StreamItem list \<Rightarrow> string option \<times> string \<Rightarrow> (string option \<times> string) ag" where
  "run_stream o' a inp [] acc = retE acc"
| "run_stream o' a inp (SysInit sid # is) (_, res) = run_stream o' a inp is (Some sid, res)"
| "run_stream o' a inp (ResultSuccess t # is) (sid, _) = run_stream o' a inp is (sid, t)"
| "run_stream o' a inp (ResultOther st # is) _ = throwE (PlainError (''Agent did not complete: '' @ st))"
| "run_stream o' a inp (OtherMessage # is) acc = run_stream o' a inp is acc"
| "run_stream o' a inp (ToolUse tool args # is) acc = bindE (run_tool o' a inp tool args) (\<lambda>_. run_stream o' a inp is acc)"

definition metadata_json :: "string \<Rightarrow> string option \<Rightarrow> json" where
  "metadata_json provider sessionId =
     JObj ((''provider'', JStr provider) # (case sessionId of Some s \<Rightarrow> [(''sessionId'', JStr s)] | None \<Rightarrow> []))"

text \<open>\<open>session.json\<close>: absent, a new conversation; unreadable or malformed, an error.\<close>

definition read_metadata :: "string \<Rightarrow> FileRead \<Rightarrow> js_error + string option \<times> string option" where
  "read_metadata provider f =
     (case f of
        FileMissing \<Rightarrow> Inr (Some provider, None)
      | FileError e \<Rightarrow> Inl e
      | FileText t \<Rightarrow>
          (case json_parse t of
             None \<Rightarrow> Inl (PlainError ''SyntaxError'')
           | Some JNull \<Rightarrow> Inl (PlainError ''TypeError'')
           | Some j \<Rightarrow> Inr (jstring (jfield ''provider'' j), jstring (jfield ''sessionId'' j))))"

definition ask_query :: "AgOutside \<Rightarrow> ProviderRef \<Rightarrow> AskInput \<Rightarrow> string \<Rightarrow> string option \<Rightarrow> Query" where
  "ask_query o' prov inp dir sessionId =
     \<lparr>q_prompt = ai_text inp, q_model = ref_model prov, q_cwd = dir, q_env = ref_environment prov (ao_env o'),
      q_resume = (if truthy sessionId then sessionId else None), q_maxTurns = 12,
      q_maxBudgetUsd = nullish (ao_env o' ''AGENT_MAX_BUDGET_USD'') ''0.5''\<rparr>"

text \<open>From the stream on: its messages, then the session file (written aside and renamed), then the answer.\<close>

definition ask_stream :: "AgOutside \<Rightarrow> Agent \<Rightarrow> AskInput \<Rightarrow> string \<Rightarrow> string option \<Rightarrow> StreamItem list \<times> js_error option \<Rightarrow> string ag" where
  "ask_stream o' a inp path sid s =
     bindE (run_stream o' a inp (fst s) (sid, '''')) (\<lambda>(sid', result).
     case snd s of
       Some e \<Rightarrow> throwE e
     | None \<Rightarrow>
         if result = [] then throwE (PlainError ''Model returned no completed response'')
         else
           bindE (read_clock (ao_uuid o')) (\<lambda>u.
           let temp = path @ ''.'' @ u; text = stringify (metadata_json (ai_provider inp) sid') in
           thenE (perform (AgWrite temp text) (ao_write o' temp text))
           (thenE (perform (AgRename temp path) (ao_rename o' temp path))
             (retE (redact result)))))"

definition ask_body :: "AgOutside \<Rightarrow> Agent \<Rightarrow> ProviderRef \<Rightarrow> AskInput \<Rightarrow> string \<Rightarrow> string ag" where
  "ask_body o' a prov inp dir =
     (let path = dir @ ''/session.json'' in
      bindE (perform (AgRead path) (\<lambda>h. read_metadata (ai_provider inp) (ao_read o' path h))) (\<lambda>(pinned, sid).
      if pinned \<noteq> Some (ai_provider inp) then
        throwE (PlainError ''Provider is pinned to this conversation. Start a new conversation to change it.'')
      else
        let q = ask_query o' prov inp dir sid in
        bindE (perform (AgQuery q) (\<lambda>h. Inr (ao_query o' q h))) (ask_stream o' a inp path sid)))"

definition ask_key :: "AgOutside \<Rightarrow> AskInput \<Rightarrow> string" where
  "ask_key o' inp = ao_sha256hex o' (ai_subject inp @ [CHR 0x00] @ ai_conversation inp)"

text \<open>The synchronous part: the checks, and the conversation's lock.\<close>

definition ask_admit :: "AgOutside \<Rightarrow> Agent \<Rightarrow> AskInput \<Rightarrow> string list \<Rightarrow> js_error + ProviderRef \<times> string" where
  "ask_admit o' a inp locks =
     (case find_provider (ag_providers a) (ai_provider inp) of
        None \<Rightarrow> Inl (PlainError ''Requested provider is not configured; no fallback is permitted'')
      | Some prov \<Rightarrow>
          if length (ai_text inp) > 16000 then Inl (PlainError ''Message too long'')
          else if ask_key o' inp \<in> set locks then Inl (PlainError ''This conversation already has an active request'')
          else Inr (prov, ask_key o' inp))"

definition lock :: "string \<Rightarrow> AgState \<Rightarrow> AgState" where
  "lock k s = s\<lparr>ag_locks := k # ag_locks s\<rparr>"

definition unlock :: "string \<Rightarrow> AgState \<Rightarrow> AgState" where
  "unlock k s = s\<lparr>ag_locks := filter (\<lambda>x. x \<noteq> k) (ag_locks s)\<rparr>"

text \<open>The directory is made after the lock is taken and before the \<open>try\<close> whose \<open>finally\<close> releases it.\<close>

definition ask :: "AgOutside \<Rightarrow> Agent \<Rightarrow> AskInput \<Rightarrow> string ag" where
  "ask o' a inp =
     bindE (getE (\<lambda>w. ask_admit o' a inp (ag_locks (loc w)))) (\<lambda>r.
     bindE (liftE r) (\<lambda>(prov, key).
     thenE (upd_loc (lock key))
       (let dir = ag_stateDir a @ ''/'' @ key in
        thenE (perform (AgMkdir dir) (ao_mkdir o' dir))
          (finallyE (ask_body o' a prov inp dir) (upd_loc (unlock key))))))"

section \<open>Lemmas\<close>

definition tool_path_ok :: "string \<Rightarrow> bool" where
  "tool_path_ok p \<longleftrightarrow> p \<in> {''/v1/environments'', ''/v1/tools'', ''/v1/policies'', ''/v1/promotions''} \<or>
     (\<exists>n. name_ok n \<and> p \<in> {''/v1/environments/'' @ n, ''/v1/environments/'' @ n @ ''/diagnostics'',
        ''/v1/environments/'' @ n @ ''/extend'', ''/v1/environments/'' @ n @ ''/redeploy''}) \<or>
     (\<exists>i. operation_ok i \<and> p = ''/v1/operations/'' @ i)"

lemma arg_str_Some: "arg_str ok k a = Some s \<Longrightarrow> ok s"
  by (auto simp: arg_str_def split: option.splits if_splits)

lemma tool_path_intros:
  "name_ok n \<Longrightarrow> tool_path_ok (''/v1/environments/'' @ n)"
  "name_ok n \<Longrightarrow> tool_path_ok (''/v1/environments/'' @ n @ ''/diagnostics'')"
  "name_ok n \<Longrightarrow> tool_path_ok (''/v1/environments/'' @ n @ ''/extend'')"
  "name_ok n \<Longrightarrow> tool_path_ok (''/v1/environments/'' @ n @ ''/redeploy'')"
  "operation_ok i \<Longrightarrow> tool_path_ok (''/v1/operations/'' @ i)"
  "tool_path_ok ''/v1/environments''" "tool_path_ok ''/v1/tools''" "tool_path_ok ''/v1/policies''" "tool_path_ok ''/v1/promotions''"
  unfolding tool_path_ok_def by blast+

lemma tool_request_path:
  assumes "tool_request cv tool a = Some (ToolRequest p m b i)"
  shows "tool_path_ok p"
proof -
  define ok where "ok = (\<lambda>r. tool_path_ok (tq_path r))"
  have "tool_extend a = Some r \<Longrightarrow> tool_path_ok (tq_path r)" for r
    by (auto simp only: tool_extend_def prod.case ToolRequest.sel option.inject option.distinct split: option.splits)
      (rule tool_path_intros(3), erule arg_str_Some)
  moreover have "tool_redeploy a = Some r \<Longrightarrow> tool_path_ok (tq_path r)" for r
    by (auto simp only: tool_redeploy_def prod.case ToolRequest.sel option.inject option.distinct split: option.splits)
      (rule tool_path_intros(4), erule arg_str_Some)
  moreover have "tool_create cv a = Some r \<Longrightarrow> tool_path_ok (tq_path r)" "tool_promote a = Some r \<Longrightarrow> tool_path_ok (tq_path r)" for r
    by (auto simp only: tool_create_def tool_promote_def prod.case ToolRequest.sel option.inject option.distinct tool_path_intros split: option.splits)
  ultimately have posts: "pred_option ok (tool_extend a)" "pred_option ok (tool_create cv a)" "pred_option ok (tool_redeploy a)" "pred_option ok (tool_promote a)"
    by (simp_all add: ok_def pred_option_def)
  have fixed: "pred_option ok (Some (tget ''/v1/environments''))" "pred_option ok (Some (tget ''/v1/tools''))"
    "pred_option ok (Some (tget ''/v1/policies''))" "pred_option ok None"
    by (simp_all only: ok_def tget_def option.pred_inject ToolRequest.sel tool_path_intros)
  have gets: "pred_option ok (map_option (\<lambda>n. tget (''/v1/environments/'' @ n)) (arg_str name_ok ''name'' a))"
    "pred_option ok (map_option (\<lambda>n. tget (''/v1/environments/'' @ n @ ''/diagnostics'')) (arg_str name_ok ''name'' a))"
    "pred_option ok (map_option (\<lambda>i. tget (''/v1/operations/'' @ i)) (arg_str operation_ok ''id'' a))"
    by (auto simp only: pred_option_def option.set_map ok_def tget_def ToolRequest.sel intro!: tool_path_intros dest: arg_str_Some
        dest!: elem_set [THEN iffD1])
  have pred_if: "pred_option ok x \<Longrightarrow> pred_option ok y \<Longrightarrow> pred_option ok (if b then x else y)" for b x y by simp
  have "pred_option ok (tool_request cv tool a)"
    unfolding tool_request_def by (intro pred_if fixed gets posts)
  with assms show ?thesis by (simp add: ok_def)
qed

text \<open>A call of an admitted turn: a platform request on a tool's path, signed with the service's token and, for a
  subject that is not empty, in the asker's name; the query; the session file.\<close>

definition subject_headers :: "Agent \<Rightarrow> AskInput \<Rightarrow> (string \<times> string) list \<Rightarrow> bool" where
  "subject_headers a inp hs \<longleftrightarrow> map_of hs ''Authorization'' = Some (''Bearer '' @ ag_token a) \<and>
     map_of hs ''X-Dogfood-Subject'' = (if ai_subject inp = [] then None else Some (ai_subject inp))"

definition ask_call_ok :: "AgOutside \<Rightarrow> Agent \<Rightarrow> AskInput \<Rightarrow> AgCall \<Rightarrow> bool" where
  "ask_call_ok o' a inp c = (case c of
      AgFetch rq \<Rightarrow> subject_headers a inp (fq_headers rq) \<and> (\<exists>p. tool_path_ok p \<and> fq_url rq = ao_url o' p (ag_base a))
    | AgQuery q \<Rightarrow> q_prompt q = ai_text inp \<and> (\<exists>prov. find_provider (ag_providers a) (ai_provider inp) = Some prov \<and>
        q_env q = ref_environment prov (ao_env o') \<and> q_model q = ref_model prov)
    | _ \<Rightarrow> True)"

lemma appends_run_tool: "appends (ask_call_ok o' a inp) (run_tool o' a inp tool args)"
proof -
  have h: "subject_headers a inp (fq_headers (platform_request url (agent_client a inp) path m b i))" for url path m b i
    by (auto simp: subject_headers_def platform_request_def agent_client_def)
  have "ask_call_ok o' a inp (AgFetch (platform_request (ao_url o') (agent_client a inp) path m b i))" if "tool_path_ok path" for path m b i
    using h that by (auto simp: ask_call_ok_def) (auto simp: platform_request_def agent_client_def)
  then show ?thesis
    unfolding run_tool_def request_def Let_def
    by (auto intro!: appends_retE appends_catchE appends_bindE appends_perform appends_liftE
        simp: ag_platform_def dest: tool_request_path split: option.split ToolRequest.split)
qed

lemma appends_run_stream: "appends (ask_call_ok o' a inp) (run_stream o' a inp items acc)"
  by (induction o' a inp items acc rule: run_stream.induct)
    (auto intro: appends_retE appends_throwE appends_bindE appends_run_tool)

lemma appends_ask_stream: "appends (ask_call_ok o' a inp) (ask_stream o' a inp path sid s)"
  unfolding ask_stream_def Let_def
  by (auto intro!: appends_bindE appends_perform appends_throwE appends_thenE appends_retE appends_read_clock appends_run_stream
      simp: ask_call_ok_def [of _ _ _ "AgWrite _ _"] ask_call_ok_def [of _ _ _ "AgRename _ _"] split: option.split)

lemma appends_ask_body:
  "find_provider (ag_providers a) (ai_provider inp) = Some prov \<Longrightarrow> appends (ask_call_ok o' a inp) (ask_body o' a prov inp dir)"
  unfolding ask_body_def Let_def
  by (auto intro!: appends_bindE appends_perform appends_throwE appends_ask_stream
      simp: ask_call_ok_def [of _ _ _ "AgRead _"] ask_call_ok_def [of _ _ _ "AgQuery _"] ask_query_def)

lemma frames_run_tool: "frames ag_locks (run_tool o' a inp tool args)"
  unfolding run_tool_def request_def Let_def
  by (auto intro!: frames_retE frames_catchE frames_bindE frames_perform frames_liftE split: option.split ToolRequest.split)

lemma frames_run_stream: "frames ag_locks (run_stream o' a inp items acc)"
  by (induction o' a inp items acc rule: run_stream.induct)
    (auto intro: frames_retE frames_throwE frames_bindE frames_run_tool)

lemma frames_ask_body: "frames ag_locks (ask_body o' a prov inp dir)"
  unfolding ask_body_def ask_stream_def Let_def
  by (auto intro!: frames_bindE frames_perform frames_throwE frames_thenE frames_retE frames_read_clock frames_run_stream
      split: option.split)

lemma ask_admit_fresh: "ask_admit o' a inp locks = Inr (prov, k) \<Longrightarrow> k \<notin> set locks \<and> k = ask_key o' inp \<and>
    find_provider (ag_providers a) (ai_provider inp) = Some prov \<and> length (ai_text inp) \<le> 16000"
  by (auto simp: ask_admit_def split: option.splits if_splits)

text \<open>An admitted request, up to its end.\<close>

lemma ask_run:
  assumes "ask_admit o' a inp (ag_locks (loc w)) = Inr (prov, k)"
  shows "ask o' a inp w =
    (let dir = ag_stateDir a @ ''/'' @ k; w1 = w\<lparr>loc := lock k (loc w), calls := calls w @ [AgMkdir dir]\<rparr> in
     case ao_mkdir o' dir (calls w) of
       Inl e \<Rightarrow> (Inl e, w1)
     | Inr _ \<Rightarrow> finallyE (ask_body o' a prov inp dir) (upd_loc (unlock k)) w1)"
  using assms
  by (simp add: ask_def bindE_def getE_def liftE_def thenE_def upd_loc_def modifyE_def perform_def Let_def split: sum.split)

section \<open>Properties\<close>

text \<open>A turn leaves the locks as it found them, whether it answers or throws, with one exception: when the conversation's
  directory cannot be made, the lock stays. A request that is not admitted does nothing at all.\<close>

theorem ask_locks:
  "ag_locks (loc (snd (ask o' a inp w))) =
     (case ask_admit o' a inp (ag_locks (loc w)) of
        Inl _ \<Rightarrow> ag_locks (loc w)
      | Inr (_, k) \<Rightarrow>
          (case ao_mkdir o' (ag_stateDir a @ ''/'' @ k) (calls w) of
             Inl _ \<Rightarrow> k # ag_locks (loc w)
           | Inr _ \<Rightarrow> ag_locks (loc w))) \<and>
   (case ask_admit o' a inp (ag_locks (loc w)) of Inl e \<Rightarrow> ask o' a inp w = (Inl e, w) | Inr _ \<Rightarrow> True)"
proof (cases "ask_admit o' a inp (ag_locks (loc w))")
  case (Inl e)
  then have "ask o' a inp w = (Inl e, w)" by (simp add: ask_def bindE_def getE_def liftE_def)
  with Inl show ?thesis by simp
next
  case (Inr r)
  obtain prov k where r: "r = (prov, k)" by force
  note fresh = ask_admit_fresh [OF Inr [unfolded r]]
  let ?dir = "ag_stateDir a @ ''/'' @ k"
  let ?w = "w\<lparr>loc := lock k (loc w), calls := calls w @ [AgMkdir ?dir]\<rparr>"
  have b: "ag_locks (loc (snd (ask_body o' a prov inp ?dir ?w))) = k # ag_locks (loc w)"
    using framesD [OF frames_ask_body] by (simp add: lock_def)
  have "ag_locks (loc (snd (finallyE (ask_body o' a prov inp ?dir) (upd_loc (unlock k)) ?w))) = ag_locks (loc w)"
    using b fresh by (cases "ask_body o' a prov inp ?dir ?w")
      (auto simp: finallyE_def upd_loc_def modifyE_def unlock_def filter_id_conv)
  then show ?thesis using Inr r ask_run [OF Inr [unfolded r]]
    by (simp add: Let_def lock_def split: sum.split)
qed

text \<open>The calls of a turn, admitted or not.\<close>

lemma ask_calls:
  "\<exists>cs. calls (snd (ask o' a inp w)) = calls w @ cs \<and> list_all (ask_call_ok o' a inp) cs"
proof (cases "ask_admit o' a inp (ag_locks (loc w))")
  case (Inl e)
  then have "ask o' a inp w = (Inl e, w)" by (simp add: ask_def bindE_def getE_def liftE_def)
  then show ?thesis by simp
next
  case (Inr r)
  obtain prov k where r: "r = (prov, k)" by force
  note fresh = ask_admit_fresh [OF Inr [unfolded r]]
  let ?dir = "ag_stateDir a @ ''/'' @ k"
  let ?w = "w\<lparr>loc := lock k (loc w), calls := calls w @ [AgMkdir ?dir]\<rparr>"
  have "appends (ask_call_ok o' a inp) (finallyE (ask_body o' a prov inp ?dir) (upd_loc (unlock k)))"
    using fresh by (intro appends_finallyE appends_ask_body appends_upd_loc) auto
  from appendsD [OF this, of ?w] obtain cs where
    "calls (snd (finallyE (ask_body o' a prov inp ?dir) (upd_loc (unlock k)) ?w)) = calls ?w @ cs" "list_all (ask_call_ok o' a inp) cs" by blast
  then show ?thesis using ask_run [OF Inr [unfolded r]]
    by (auto simp: Let_def ask_call_ok_def [of _ _ _ "AgMkdir _"] split: sum.split)
qed


lemma metadata_roundtrip: "read_metadata q (FileText (stringify (metadata_json p sid))) = Inr (Some p, sid)"
proof -
  have "json_parse (stringify (metadata_json p sid)) = Some (metadata_json p sid)"
    by (rule json_roundtrip) (simp add: metadata_json_def split: option.split)
  then show ?thesis by (simp add: read_metadata_def metadata_json_def split: option.split)
qed

text \<open>A conversation stays with its provider: once a turn has saved its session, a turn that names another provider reads it
  back and stops before any query; one that names the same resumes the saved session.\<close>

theorem session_pinned:
  assumes "ao_read o' (dir @ ''/session.json'') (calls w) = FileText (stringify (metadata_json p sid))"
  shows "if p \<noteq> ai_provider inp then
      ask_body o' a prov inp dir w =
        (Inl (PlainError ''Provider is pinned to this conversation. Start a new conversation to change it.''),
         w\<lparr>calls := calls w @ [AgRead (dir @ ''/session.json'')]\<rparr>)
    else take (length (calls w) + 2) (calls (snd (ask_body o' a prov inp dir w))) =
        calls w @ [AgRead (dir @ ''/session.json''), AgQuery (ask_query o' prov inp dir sid)]"
proof (cases "p = ai_provider inp")
  case False
  then show ?thesis
    using assms metadata_roundtrip by (simp add: ask_body_def Let_def bindE_def perform_def throwE_def)
next
  case True
  let ?q = "ask_query o' prov inp dir sid" and ?path = "dir @ ''/session.json''"
  let ?w = "w\<lparr>calls := calls w @ [AgRead ?path, AgQuery ?q]\<rparr>"
  let ?s = "ask_stream o' a inp ?path sid (ao_query o' ?q (calls w @ [AgRead ?path]))"
  have run: "ask_body o' a prov inp dir w = ?s ?w"
    using assms metadata_roundtrip True by (simp add: ask_body_def Let_def bindE_def perform_def)
  have "appends (\<lambda>_. True) ?s" by (rule appends_mono [OF appends_ask_stream]) simp
  from appendsD [OF this, of ?w] obtain cs where "calls (snd (?s ?w)) = calls ?w @ cs" by blast
  then show ?thesis using True by (simp add: run)
qed

section \<open>Concurrent turns\<close>

text \<open>
  Requests interleave at their suspensions. A state is the lock set with the keys of the turns in flight; the steps are
  the atomic pieces of \<open>ask\<close>: its synchronous start, a failing \<open>mkdir\<close> (which ends the turn outside the \<open>try\<close>),
  and the \<open>finally\<close> that ends every other turn.
\<close>

type_synonym ask_sys = "string list \<times> string list"

inductive ask_step :: "AgOutside \<Rightarrow> Agent \<Rightarrow> ask_sys \<Rightarrow> ask_sys \<Rightarrow> bool" for o' a where
  refused: "ask_admit o' a inp locks = Inl e \<Longrightarrow> ask_step o' a (locks, running) (locks, running)"
| admitted: "ask_admit o' a inp locks = Inr (prov, k) \<Longrightarrow>
    ask_step o' a (locks, running) (ag_locks (lock k \<lparr>ag_locks = locks\<rparr>), k # running)"
| mkdir_fails: "k \<in> set running \<Longrightarrow> ask_step o' a (locks, running) (locks, remove1 k running)"
| finishes: "k \<in> set running \<Longrightarrow>
    ask_step o' a (locks, running) (ag_locks (unlock k \<lparr>ag_locks = locks\<rparr>), remove1 k running)"

inductive_cases ask_stepE: "ask_step o' a s s'"

definition ask_inv :: "ask_sys \<Rightarrow> bool" where
  "ask_inv s \<longleftrightarrow> distinct (snd s) \<and> set (snd s) \<subseteq> set (fst s)"

lemma ask_step_inv: "ask_step o' a s s' \<Longrightarrow> ask_inv s \<Longrightarrow> ask_inv s'"
  by (induction rule: ask_step.induct)
    (auto simp: ask_inv_def lock_def unlock_def set_remove1_eq dest!: ask_admit_fresh)

lemma ask_steps_inv: "(ask_step o' a)\<^sup>*\<^sup>* s s' \<Longrightarrow> ask_inv s \<Longrightarrow> ask_inv s'"
  by (induction rule: rtranclp_induct) (auto intro: ask_step_inv)

text \<open>C32. However requests interleave, a conversation has at most one turn in flight, and a second request for it is refused
  until that turn has ended.\<close>

theorem ask_exclusive:
  assumes "(ask_step o' a)\<^sup>*\<^sup>* ([], []) (locks, running)"
  shows "distinct running \<and>
    (if ask_key o' inp \<in> set running then ask_admit o' a inp locks \<in> range Inl else True)"
proof -
  have "ask_inv (locks, running)" by (rule ask_steps_inv [OF assms]) (simp add: ask_inv_def)
  then have "distinct running" and "ask_key o' inp \<in> set running \<Longrightarrow> ask_key o' inp \<in> set locks" by (auto simp: ask_inv_def)
  then show ?thesis by (auto simp: ask_admit_def split: option.split)
qed

text \<open>A lock whose turn ended at a failing \<open>mkdir\<close> is never released: whatever happens later, the conversation stays refused.\<close>

theorem lock_leaks:
  assumes "(ask_step o' a)\<^sup>*\<^sup>* (locks, running) (locks', running')"
    and "ask_key o' inp \<in> set locks" and "ask_key o' inp \<notin> set running"
  shows "ask_key o' inp \<in> set locks' \<and> ask_key o' inp \<notin> set running' \<and> ask_admit o' a inp locks' \<in> range Inl"
proof -
  have "k \<in> set (fst s') \<and> k \<notin> set (snd s')" if "(ask_step o' a)\<^sup>*\<^sup>* s s'" "k \<in> set (fst s)" "k \<notin> set (snd s)" for s s' k
    using that
  proof (induction rule: rtranclp_induct)
    case (step s' s'')
    from step.hyps(2) step.IH [OF step.prems] show ?case
      by cases (auto simp: lock_def unlock_def dest!: ask_admit_fresh dest: notin_set_remove1)
  qed simp
  from this [OF assms(1)] assms(2,3) have "ask_key o' inp \<in> set locks' \<and> ask_key o' inp \<notin> set running'" by simp
  then show ?thesis by (auto simp: ask_admit_def split: option.split)
qed

section \<open>An instance\<close>

definition ex_agent :: Agent where
  "ex_agent = \<lparr>ag_providers = [(''vertex'', Vertex ''r'' ''m'' ''p'')], ag_base = ''http://api'', ag_token = ''t'', ag_stateDir = ''/state''\<rparr>"

definition ex_ask :: AskInput where
  "ex_ask = \<lparr>ai_subject = ''alice'', ai_conversation = ''c1'', ai_provider = ''vertex'', ai_text = ''hi''\<rparr>"

definition ex_ag :: "FileRead \<Rightarrow> AgOutside" where
  "ex_ag f = \<lparr>ao_mkdir = (\<lambda>_ _. Inl (PlainError ''EACCES'')), ao_read = (\<lambda>_ _. f), ao_write = (\<lambda>_ _ _. Inr ()),
     ao_rename = (\<lambda>_ _ _. Inr ()), ao_query = (\<lambda>_ _. ([ResultSuccess ''ok''], None)), ao_fetch = (\<lambda>_ _. Inl (PlainError ''down'')),
     ao_url = (\<lambda>p b. b @ p), ao_uuid = (\<lambda>_. ''u''), ao_sha256hex = id, ao_env = Map.empty\<rparr>"

lemma ex_admit: "ask_admit (ex_ag f) ex_agent ex_ask [] = Inr (Own (Vertex ''r'' ''m'' ''p''), ask_key (ex_ag f) ex_ask)"
  by (simp add: ask_admit_def ex_agent_def ex_ask_def find_provider_def)

theorem session_pinned_witness:
  "ask_body (ex_ag (FileText (stringify (metadata_json ''bedrock'' None)))) ex_agent (Own (Vertex ''r'' ''m'' ''p'')) ex_ask ''d''
     \<lparr>calls = [], loc = \<lparr>ag_locks = []\<rparr>\<rparr> =
   (Inl (PlainError ''Provider is pinned to this conversation. Start a new conversation to change it.''),
    \<lparr>calls = [AgRead ''d/session.json''], loc = \<lparr>ag_locks = []\<rparr>\<rparr>)"
  using session_pinned [of "ex_ag (FileText (stringify (metadata_json ''bedrock'' None)))" "''d''" "\<lparr>calls = [], loc = \<lparr>ag_locks = []\<rparr>\<rparr>"
      "''bedrock''" None ex_ask ex_agent "Own (Vertex ''r'' ''m'' ''p'')"]
  by (simp add: ex_ag_def ex_ask_def)

lemma ex_admitted: "(ask_step (ex_ag f) ex_agent)\<^sup>*\<^sup>* ([], []) ([ask_key (ex_ag f) ex_ask], [ask_key (ex_ag f) ex_ask])"
  using ask_step.admitted [OF ex_admit, of f "[]"] by (auto simp: lock_def)

lemma ex_leaked: "(ask_step (ex_ag f) ex_agent)\<^sup>*\<^sup>* ([], []) ([ask_key (ex_ag f) ex_ask], [])"
  using rtranclp.rtrancl_into_rtrancl [OF ex_admitted ask_step.mkdir_fails] by fastforce

theorem ask_exclusive_witness: "distinct [ask_key (ex_ag FileMissing) ex_ask] \<and> ask_admit (ex_ag FileMissing) ex_agent ex_ask [ask_key (ex_ag FileMissing) ex_ask] \<in> range Inl"
  using ask_exclusive [OF ex_admitted, of FileMissing ex_ask] by simp

theorem lock_leaks_witness: "ask_admit (ex_ag FileMissing) ex_agent ex_ask [ask_key (ex_ag FileMissing) ex_ask] \<in> range Inl"
proof -
  have "(ask_step (ex_ag FileMissing) ex_agent)\<^sup>*\<^sup>* ([ask_key (ex_ag FileMissing) ex_ask], []) ([ask_key (ex_ag FileMissing) ex_ask], [])" by simp
  from lock_leaks [OF this] show ?thesis by simp
qed

end
