(* ===== verification/PaServer.thy ===== *)
theory PaServer
  imports PaAgent PaChannels
begin

text \<open>
  The platform agent's HTTP service (\<open>services/agent/src/server.ts\<close>): the chat webhooks, the processing of a
  message with its receipt file, the internal question endpoint, the limit on concurrent turns and the
  notification timer. Outside calls are the receipt files, deliveries (\<open>PaChannels.send\<close>), platform requests and
  turns (\<open>PaAgent.ask\<close>). An event's members have the documented types; a member of another type counts as absent.
\<close>

section \<open>Settings and small helpers\<close>

definition tenants :: "Env \<Rightarrow> string \<Rightarrow> string list" where
  "tenants env name = filter (\<lambda>t. t \<noteq> []) (split_on CHR '','' (nullish (env name) ''''))"

definition bearer :: "string option \<Rightarrow> string" where
  "bearer h = (case h of Some s \<Rightarrow> if starts_with ''Bearer '' s then drop 7 s else '''' | None \<Rightarrow> '''')"

definition serviceAuth :: "(string \<Rightarrow> string) \<Rightarrow> string \<Rightarrow> string \<Rightarrow> bool" where
  "serviceAuth sha256 token value \<longleftrightarrow> sha256 value = sha256 token"

text \<open>\<open>Number(process.env.AGENT_CONCURRENCY ?? '4')\<close>, as a decimal; \<^const>\<open>None\<close> is \<open>NaN\<close>, with which nothing compares.\<close>

definition max_active :: "Env \<Rightarrow> (int \<times> nat) option" where
  "max_active env = js_number (nullish (env ''AGENT_CONCURRENCY'') ''4'')"

definition at_limit :: "(int \<times> nat) option \<Rightarrow> nat \<Rightarrow> bool" where
  "at_limit mx active = (case mx of Some (m, k) \<Rightarrow> int active * 10 ^ k \<ge> m | None \<Rightarrow> False)"

definition form_char :: "char \<Rightarrow> string" where
  "form_char c = (if is_alnum c \<or> c \<in> set ''*-._'' then [c] else if c = CHR '' '' then ''+'' else concat (map percent (utf8_char c)))"

definition form_encode :: "(string \<times> string) list \<Rightarrow> string" where
  "form_encode kvs = join ''&'' (map (\<lambda>kv. concat (map form_char (fst kv)) @ ''='' @ concat (map form_char (snd kv))) kvs)"

section \<open>Messages\<close>

record ChatMessage =
  cm_channel :: string
  cm_tenant :: string
  cm_user :: string
  cm_conversation :: string
  cm_eventId :: string
  cm_destination :: string
  cm_text :: string
  cm_personal :: bool

datatype SvCall =
    SvCreate string
  | SvHandled string
  | SvSend string string string
  | SvPlatform FetchRequest
  | SvAsk AskInput

record SvOutside =
  vo_create :: "string \<Rightarrow> SvCall list \<Rightarrow> js_error + bool"
  vo_handled :: "string \<Rightarrow> SvCall list \<Rightarrow> js_error + unit"
  vo_send :: "string \<Rightarrow> string \<Rightarrow> string \<Rightarrow> SvCall list \<Rightarrow> js_error + unit"
  vo_fetch :: "FetchRequest \<Rightarrow> SvCall list \<Rightarrow> js_error + FetchResponse"
  vo_ask :: "AskInput \<Rightarrow> SvCall list \<Rightarrow> js_error + string"
  vo_url :: "string \<Rightarrow> string \<Rightarrow> string"
  vo_sha256hex :: "string \<Rightarrow> string"

record SvState =
  sv_active :: nat
  sv_notifying :: bool

record Service =
  sc_base :: string
  sc_token :: string
  sc_stateDir :: string
  sc_default :: string
  sc_max :: "(int \<times> nat) option"

type_synonym 'a sv = "((SvCall, SvState) world, js_error, 'a) eff"

definition sv_send :: "SvOutside \<Rightarrow> ChatMessage \<Rightarrow> string \<Rightarrow> unit sv" where
  "sv_send o' m t = perform (SvSend (cm_channel m) (cm_destination m) t) (vo_send o' (cm_channel m) (cm_destination m) t)"

definition sv_platform :: "SvOutside \<Rightarrow> SvCall platform_env" where
  "sv_platform o' = \<lparr>pe_inj = SvPlatform, pe_fetch = vo_fetch o', pe_url = vo_url o'\<rparr>"

definition platform :: "Service \<Rightarrow> PlatformClient" where
  "platform s = \<lparr>pc_base = sc_base s, pc_token = sc_token s, pc_subject = None\<rparr>"

definition receipt_path :: "SvOutside \<Rightarrow> Service \<Rightarrow> ChatMessage \<Rightarrow> string" where
  "receipt_path o' s m = sc_stateDir s @ ''/receipts/'' @ vo_sha256hex o' (cm_channel m @ '':'' @ cm_tenant m @ '':'' @ cm_eventId m)"

definition identity_path :: "ChatMessage \<Rightarrow> string" where
  "identity_path m = ''/internal/identity?'' @
     form_encode [(''channel'', cm_channel m), (''tenant'', cm_tenant m), (''user'', cm_user m)]"

definition link_body :: "ChatMessage \<Rightarrow> json" where
  "link_body m = JObj [(''code'', JStr (trim (drop 6 (cm_text m)))), (''channel'', JStr (cm_channel m)), (''tenant'', JStr (cm_tenant m)),
     (''user'', JStr (cm_user m)), (''destination'', JStr (cm_destination m))]"

text \<open>The subject of an answer: a \<open>null\<close> answer has no members to read.\<close>

definition identity_subject :: "json \<Rightarrow> js_error + string" where
  "identity_subject j = (if j = JNull then Inl (PlainError ''TypeError'') else Inr (nullish (jstring (jfield ''subject'' j)) ''''))"

definition take_slot :: "unit sv" where "take_slot = upd_loc (\<lambda>s. s\<lparr>sv_active := sv_active s + 1\<rparr>)"
definition free_slot :: "unit sv" where "free_slot = upd_loc (\<lambda>s. s\<lparr>sv_active := sv_active s - 1\<rparr>)"

definition message_input :: "Service \<Rightarrow> ChatMessage \<Rightarrow> string \<Rightarrow> AskInput" where
  "message_input s m subject = \<lparr>ai_subject = subject,
     ai_conversation = cm_channel m @ '':'' @ cm_tenant m @ '':'' @ cm_conversation m, ai_provider = sc_default s, ai_text = cm_text m\<rparr>"

definition sv_ask :: "SvOutside \<Rightarrow> AskInput \<Rightarrow> string sv" where
  "sv_ask o' inp = perform (SvAsk inp) (vo_ask o' inp)"

definition answer_message :: "SvOutside \<Rightarrow> Service \<Rightarrow> ChatMessage \<Rightarrow> unit sv" where
  "answer_message o' s m =
     (if \<not> cm_personal m then
        sv_send o' m ''Please send me a direct message to access environment details or perform actions.''
      else if starts_with ''/link '' (cm_text m) then
        bindE (request (sv_platform o') (platform s) ''/internal/link'' ''POST'' (Some (link_body m)) None) (\<lambda>_.
        sv_send o' m ''Account linked. You can now ask about your environments and policies.'')
      else
        bindE (request (sv_platform o') (platform s) (identity_path m) ''GET'' None None) (\<lambda>identity.
        bindE (getE (\<lambda>w. at_limit (sc_max s) (sv_active (loc w)))) (\<lambda>busy.
        if busy then sv_send o' m ''The agent is busy. Please retry shortly; your request has not executed.''
        else
          thenE take_slot
            (finallyE
              (bindE (liftE (identity_subject identity)) (\<lambda>subject.
               bindE (sv_ask o' (message_input s m subject)) (\<lambda>answer. sv_send o' m answer)))
              free_slot))))"

definition FAILED :: string where
  "FAILED = ''I could not complete that request. Check the portal for authoritative operation status. If your account is not linked, generate a link code in the portal first.''"

definition processMessage :: "SvOutside \<Rightarrow> Service \<Rightarrow> ChatMessage \<Rightarrow> unit sv" where
  "processMessage o' s m =
     (let receipt = receipt_path o' s m in
      bindE (perform (SvCreate receipt) (vo_create o' receipt)) (\<lambda>created.
      if \<not> created then retE ()
      else
        finallyE
          (catchE (answer_message o' s m) (\<lambda>_. catchE (sv_send o' m FAILED) (\<lambda>_. retE ())))
          (perform (SvHandled receipt) (vo_handled o' receipt))))"

section \<open>The routes\<close>

text \<open>The answer of a route and the message it starts; \<open>Invalid\<close> is an exception that reaches the error middleware.\<close>

datatype RouteResult = Respond' int "json option" "ChatMessage option" | Invalid

fun jpath :: "string list \<Rightarrow> json option \<Rightarrow> json option" where
  "jpath [] v = v"
| "jpath (k # ks) v = (case v of Some j \<Rightarrow> jpath ks (jfield k j) | None \<Rightarrow> None)"

definition pstr' :: "string list \<Rightarrow> json \<Rightarrow> string option" where
  "pstr' ks j = jstring (jpath ks (Some j))"

definition slack_message :: "string \<Rightarrow> json \<Rightarrow> json \<Rightarrow> ChatMessage" where
  "slack_message team ev e =
     (let thread = (case jstring (jfield ''thread_ts'' e) of Some t \<Rightarrow> Some t | None \<Rightarrow> jstring (jfield ''ts'' e)) in
      \<lparr>cm_channel = ''slack'', cm_tenant = team, cm_user = nullish (pstr' [''user''] e) '''',
       cm_conversation = nullish (pstr' [''channel''] e) ''undefined'' @ '':'' @ nullish thread ''undefined'',
       cm_eventId = nullish (pstr' [''event_id''] ev) ''undefined'',
       cm_destination = stringify (JObj (jmember ''channel'' (map_option JStr (pstr' [''channel''] e)) @ jmember ''thread'' (map_option JStr thread))),
       cm_text = nullish (pstr' [''text''] e) '''', cm_personal = (jfield ''channel_type'' e = Some (JStr ''im''))\<rparr>)"

definition chat_slack :: "hmac \<Rightarrow> int \<Rightarrow> Env \<Rightarrow> string option \<Rightarrow> string option \<Rightarrow> string \<Rightarrow> RouteResult" where
  "chat_slack hm now env tsHeader sigHeader raw =
     (case env ''SLACK_SIGNING_SECRET'' of
        None \<Rightarrow> Respond' 403 None None
      | Some secret \<Rightarrow>
          if secret = [] \<or> \<not> verifySlack hm raw (nullish tsHeader '''') (nullish sigHeader '''') secret now then Respond' 403 None None
          else
            (case json_parse raw of
               None \<Rightarrow> Invalid
             | Some JNull \<Rightarrow> Invalid
             | Some ev \<Rightarrow>
                 if jfield ''type'' ev = Some (JStr ''url_verification'') then
                   Respond' 200 (Some (JObj (jmember ''challenge'' (jfield ''challenge'' ev)))) None
                 else
                   (case pstr' [''team_id''] ev of
                      None \<Rightarrow> Respond' 403 None None
                    | Some team \<Rightarrow>
                        if team \<notin> set (tenants env ''SLACK_ALLOWED_TEAMS'') then Respond' 403 None None
                        else
                          let e = nullish (jfield ''event'' ev) JNull in
                          if \<not> jtruthy (Some e) \<or> jtruthy (jfield ''bot_id'' e) \<or> jtruthy (jfield ''subtype'' e) \<or>
                             (jfield ''type'' e \<noteq> Some (JStr ''message'') \<and> jfield ''type'' e \<noteq> Some (JStr ''app_mention''))
                          then Respond' 200 None None
                          else Respond' 200 None (Some (slack_message team ev e)))))"

text \<open>The Teams and Google routes answer 403 to every exception before the response is sent.\<close>

definition teams_chat_message :: "string \<Rightarrow> string \<Rightarrow> json \<Rightarrow> ChatMessage" where
  "teams_chat_message tenant serviceUrl e =
     (let conv = nullish (pstr' [''conversation'', ''id''] e) ''undefined'' in
      \<lparr>cm_channel = ''teams'', cm_tenant = tenant,
       cm_user = nullish (pstr' [''from'', ''aadObjectId''] e) (nullish (pstr' [''from'', ''id''] e) ''''),
       cm_conversation = conv, cm_eventId = nullish (pstr' [''id''] e) ''undefined'',
       cm_destination = stringify (JObj ([(''serviceUrl'', JStr serviceUrl)] @ jmember ''conversation'' (map_option JStr (pstr' [''conversation'', ''id''] e)))),
       cm_text = nullish (pstr' [''text''] e) '''',
       cm_personal = (jpath [''conversation'', ''conversationType''] (Some e) = Some (JStr ''personal''))\<rparr>)"

definition chat_teams :: "jwt_verify \<Rightarrow> url_parse \<Rightarrow> Env \<Rightarrow> string option \<Rightarrow> string \<Rightarrow> RouteResult" where
  "chat_teams jwt parse env authorization raw =
     (case required env ''TEAMS_APP_ID'' of
        Inl _ \<Rightarrow> Respond' 403 None None
      | Inr appId \<Rightarrow>
          (case verifyTeams jwt (bearer authorization) appId of
             Inl _ \<Rightarrow> Respond' 403 None None
           | Inr _ \<Rightarrow>
               (case json_parse raw of
                  None \<Rightarrow> Respond' 403 None None
                | Some e \<Rightarrow>
                    (case pstr' [''channelData'', ''tenant'', ''id''] e of
                       None \<Rightarrow> Respond' 403 None None
                     | Some tenant \<Rightarrow>
                         if tenant \<notin> set (tenants env ''TEAMS_ALLOWED_TENANTS'') then Respond' 403 None None
                         else
                           (case teamsServiceURL parse (js_undef_string (jfield ''serviceUrl'' e)) of
                              Inl _ \<Rightarrow> Respond' 403 None None
                            | Inr serviceUrl \<Rightarrow>
                                if jfield ''type'' e \<noteq> Some (JStr ''message'') then Respond' 200 None None
                                else Respond' 200 None (Some (teams_chat_message tenant serviceUrl e)))))))"

definition google_message :: "string \<Rightarrow> json \<Rightarrow> ChatMessage" where
  "google_message tenant e =
     (let space = nullish (pstr' [''space'', ''name''] e) ''undefined''; thread = pstr' [''message'', ''thread'', ''name''] e in
      \<lparr>cm_channel = ''google'', cm_tenant = tenant, cm_user = nullish (pstr' [''user'', ''name''] e) '''',
       cm_conversation = nullish thread space, cm_eventId = nullish (pstr' [''message'', ''name''] e) ''undefined'',
       cm_destination = stringify (JObj (jmember ''space'' (map_option JStr (pstr' [''space'', ''name''] e)) @ jmember ''thread'' (map_option JStr thread))),
       cm_text = nullish (pstr' [''message'', ''argumentText''] e) (nullish (pstr' [''message'', ''text''] e) ''''),
       cm_personal = (jpath [''space'', ''type''] (Some e) = Some (JStr ''DM'') \<or> jpath [''space'', ''spaceType''] (Some e) = Some (JStr ''DIRECT_MESSAGE''))\<rparr>)"

definition chat_google :: "jwt_verify \<Rightarrow> Env \<Rightarrow> string option \<Rightarrow> string \<Rightarrow> RouteResult" where
  "chat_google jwt env authorization raw =
     (case required env ''GOOGLE_CHAT_AUDIENCE'' of
        Inl _ \<Rightarrow> Respond' 403 None None
      | Inr aud \<Rightarrow>
          (case verifyGoogle jwt (bearer authorization) aud of
             Inl _ \<Rightarrow> Respond' 403 None None
           | Inr _ \<Rightarrow>
               (case json_parse raw of
                  None \<Rightarrow> Respond' 403 None None
                | Some e \<Rightarrow>
                    (case pstr' [''user'', ''domainId''] e of
                       None \<Rightarrow> Respond' 403 None None
                     | Some tenant \<Rightarrow>
                         if tenant \<notin> set (tenants env ''GOOGLE_CHAT_ALLOWED_DOMAINS'') then Respond' 403 None None
                         else if jfield ''type'' e \<noteq> Some (JStr ''MESSAGE'') then Respond' 200 (Some (JObj [])) None
                         else Respond' 200 (Some (JObj [])) (Some (google_message tenant e))))))"

section \<open>Questions from the portal\<close>

definition err_json :: "string \<Rightarrow> json" where "err_json t = JObj [(''error'', JStr t)]"

definition portal_input :: "Service \<Rightarrow> json \<Rightarrow> AskInput option" where
  "portal_input s body =
     (case (pstr' [''subject''] body, pstr' [''conversation''] body, pstr' [''text''] body) of
        (Some su, Some co, Some te) \<Rightarrow>
          Some \<lparr>ai_subject = su, ai_conversation = co,
                ai_provider = js_to_string (jnullish (jfield ''provider'' body) (JStr (sc_default s))), ai_text = te\<rparr>
      | _ \<Rightarrow> None)"

definition internal_ask :: "SvOutside \<Rightarrow> Service \<Rightarrow> (string \<Rightarrow> string) \<Rightarrow> string option \<Rightarrow> string \<Rightarrow> (int \<times> json option) sv" where
  "internal_ask o' s sha256 authorization raw =
     (if \<not> serviceAuth sha256 (sc_token s) (bearer authorization) then retE (403, None)
      else
        bindE (getE (\<lambda>w. at_limit (sc_max s) (sv_active (loc w)))) (\<lambda>busy.
        if busy then retE (429, Some (err_json ''Agent busy''))
        else
          (case json_parse raw of
             None \<Rightarrow> throwE (PlainError ''SyntaxError'')
           | Some JNull \<Rightarrow> throwE (PlainError ''TypeError'')
           | Some body \<Rightarrow>
               (case portal_input s body of
                  None \<Rightarrow> retE (400, None)
                | Some inp \<Rightarrow>
                    thenE take_slot
                      (finallyE
                        (catchE
                          (bindE (request (sv_platform o') \<lparr>pc_base = sc_base s, pc_token = sc_token s, pc_subject = Some (ai_subject inp)\<rparr>
                                    ''/v1/me'' ''GET'' None None) (\<lambda>_.
                           bindE (sv_ask o' inp) (\<lambda>answer. retE (200, Some (JObj [(''answer'', JStr answer)])))))
                          (\<lambda>e. retE (400, Some (err_json (err_message e)))))
                        free_slot)))))"

section \<open>The notification timer\<close>

definition notification_text :: "json \<Rightarrow> json \<Rightarrow> string" where
  "notification_text n e =
     (let i = js_undef_string (jfield ''id'' e); kind = js_undef_string (jfield ''kind'' n) in
      if kind = ''ready'' then ''Environment '' @ i @ '' is ready: '' @ js_undef_string (jfield ''url'' e)
      else if kind = ''expiring'' then ''Environment '' @ i @ '' expires at '' @ js_undef_string (jfield ''expiresAt'' e) @
        '' (within five minutes). Ask me to add five minutes, or extend it in the portal.''
      else if kind = ''late'' then ''Environment '' @ i @ '' is taking longer than the warm-start target. Check operation '' @
        js_undef_string (jfield ''operationId'' e) @ '' for the current phase.''
      else if kind = ''failed'' then ''Environment '' @ i @ '' failed. Ask me to diagnose it.''
      else if kind = ''cleanup-failed'' then ''Cleanup failed for '' @ i @ ''; platform operator attention is needed.''
      else if kind = ''deleted'' then ''Environment '' @ i @ '' has been deleted.''
      else ''Environment '' @ i @ '': '' @ kind)"

definition jlist :: "json option \<Rightarrow> js_error + json list" where
  "jlist v = (case v of Some (JArr xs) \<Rightarrow> Inr xs | _ \<Rightarrow> Inl (PlainError ''TypeError''))"

definition jfield_or :: "string \<Rightarrow> json \<Rightarrow> json" where
  "jfield_or k j = nullish (jfield k j) JNull"

definition notify_send :: "SvOutside \<Rightarrow> string \<Rightarrow> json \<Rightarrow> unit sv" where
  "notify_send o' text d =
     (let c = nullish (pstr' [''channel''] d) ''''; x = nullish (pstr' [''destination''] d) '''' in
      perform (SvSend c x text) (vo_send o' c x text))"

definition notify_item :: "SvOutside \<Rightarrow> Service \<Rightarrow> json \<Rightarrow> unit sv" where
  "notify_item o' s item =
     (let n = jfield_or ''notification'' item; e = jfield_or ''environment'' item; i = js_undef_string (jfield ''id'' n) in
      bindE (request (sv_platform o') (platform s) (''/internal/notifications/valid?'' @ form_encode [(''id'', i)]) ''GET'' None None) (\<lambda>validity.
      thenE (whenE (jtruthy (jfield ''valid'' validity))
               (bindE (liftE (jlist (jfield ''destinations'' item))) (\<lambda>ds. forE ds (notify_send o' (notification_text n e)))))
      (bindE (request (sv_platform o') (platform s) ''/internal/notifications/ack'' ''POST'' (Some (JObj (jmember ''id'' (jfield ''id'' n)))) None)
        (\<lambda>_. retE ()))))"

definition notify_tick :: "SvOutside \<Rightarrow> Service \<Rightarrow> unit sv" where
  "notify_tick o' s =
     bindE (getE (\<lambda>w. sv_notifying (loc w))) (\<lambda>b.
     if b then retE ()
     else
       thenE (upd_loc (\<lambda>st. st\<lparr>sv_notifying := True\<rparr>))
         (finallyE
           (catchE
             (bindE (request (sv_platform o') (platform s) ''/internal/notifications'' ''POST'' (Some (JObj [])) None) (\<lambda>items.
              bindE (liftE (jlist (Some items))) (\<lambda>is. forE is (notify_item o' s))))
             (\<lambda>_. retE ()))
           (upd_loc (\<lambda>st. st\<lparr>sv_notifying := False\<rparr>))))"

section \<open>Lemmas\<close>

lemma appends_request:
  "(\<And>path'. P (pe_inj e (platform_request (pe_url e) c path method body idem))) \<Longrightarrow> appends P (request e c path method body idem)"
  unfolding request_def Let_def by (intro appends_bindE appends_perform appends_liftE) simp

definition identity_request :: "SvOutside \<Rightarrow> Service \<Rightarrow> ChatMessage \<Rightarrow> FetchRequest" where
  "identity_request o' s m = platform_request (vo_url o') (platform s) (identity_path m) ''GET'' None None"

text \<open>The platform named \<open>subject\<close> for the sender of \<open>m\<close> when it was asked after the history \<open>h\<close>.\<close>

definition identified :: "SvOutside \<Rightarrow> Service \<Rightarrow> ChatMessage \<Rightarrow> SvCall list \<Rightarrow> string \<Rightarrow> bool" where
  "identified o' s m h subject \<longleftrightarrow>
     (case vo_fetch o' (identity_request o' s m) h of
        Inl _ \<Rightarrow> False
      | Inr res \<Rightarrow> (case platform_answer res of Inl _ \<Rightarrow> False | Inr j \<Rightarrow> identity_subject j = Inr subject))"

definition msg_call_ok :: "SvOutside \<Rightarrow> Service \<Rightarrow> ChatMessage \<Rightarrow> SvCall list \<Rightarrow> SvCall \<Rightarrow> bool" where
  "msg_call_ok o' s m h c = (case c of
      SvSend ch d t \<Rightarrow> ch = cm_channel m \<and> d = cm_destination m
    | SvAsk inp \<Rightarrow> cm_personal m \<and> \<not> starts_with ''/link '' (cm_text m) \<and> inp = message_input s m (ai_subject inp) \<and>
        identified o' s m h (ai_subject inp)
    | SvPlatform rq \<Rightarrow> cm_personal m \<and> map_of (fq_headers rq) ''X-Dogfood-Subject'' = None
    | _ \<Rightarrow> True)"

lemma msg_send_ok: "appends (msg_call_ok o' s m h) (sv_send o' m t)"
  unfolding sv_send_def by (rule appends_perform) (simp add: msg_call_ok_def)

lemma platform_no_subject: "map_of (fq_headers (platform_request u (platform s) p me b None)) ''X-Dogfood-Subject'' = None"
  by (simp add: platform_request_def platform_def)

lemma finallyE_free_run:
  "m w = (r, w') \<Longrightarrow> finallyE m free_slot w = (r, w'\<lparr>loc := (loc w')\<lparr>sv_active := sv_active (loc w') - 1\<rparr>\<rparr>)"
  by (simp add: finallyE_def free_slot_def upd_loc_def modifyE_def)


text \<open>What follows the identity answer: a turn for the subject it names, or the reply that the agent is busy.\<close>

lemma appends_turn:
  assumes "cm_personal m" and "\<not> starts_with ''/link '' (cm_text m)"
    and "\<And>su. identity_subject j = Inr su \<Longrightarrow> identified o' s m h su"
  shows "appends (msg_call_ok o' s m h)
     (thenE take_slot (finallyE (bindE (liftE (identity_subject j)) (\<lambda>subject.
        bindE (sv_ask o' (message_input s m subject)) (\<lambda>answer. sv_send o' m answer))) free_slot))"
proof (cases "identity_subject j")
  case (Inl e)
  have "bindE (liftE (Inl e)) f = (throwE e :: unit sv)" for f :: "string \<Rightarrow> unit sv" and e
    by (rule ext) (simp add: bindE_def liftE_def throwE_def)
  then show ?thesis using Inl unfolding take_slot_def free_slot_def
    by (auto intro!: appends_thenE appends_upd_loc appends_finallyE appends_throwE)
next
  case (Inr su)
  have r: "bindE (liftE (Inr su)) f = f su" for f :: "string \<Rightarrow> unit sv"
    by (rule ext) (simp add: bindE_def liftE_def)
  have "msg_call_ok o' s m h (SvAsk (message_input s m su))"
    using assms Inr by (simp add: msg_call_ok_def message_input_def)
  then show ?thesis using Inr unfolding take_slot_def free_slot_def sv_ask_def
    by (auto simp: r intro!: appends_thenE appends_upd_loc appends_finallyE appends_bindE appends_perform msg_send_ok)
qed

lemma frames_turn_active:
  "sv_active (loc (snd (thenE take_slot (finallyE (bindE (liftE r) (\<lambda>subject.
        bindE (sv_ask o' (f subject)) (\<lambda>answer. sv_send o' m answer))) free_slot) w))) = sv_active (loc w)"
proof -
  let ?m = "bindE (liftE r) (\<lambda>subject. bindE (sv_ask o' (f subject)) (\<lambda>answer. sv_send o' m answer)) :: unit sv"
  let ?w = "w\<lparr>loc := (loc w)\<lparr>sv_active := sv_active (loc w) + 1\<rparr>\<rparr>"
  have "frames sv_active ?m"
    unfolding sv_ask_def sv_send_def by (intro frames_bindE frames_liftE frames_perform)
  from framesD [OF this, of ?w] have "sv_active (loc (snd (?m ?w))) = sv_active (loc w) + 1" by simp
  moreover have "thenE take_slot (finallyE ?m free_slot) w = finallyE ?m free_slot ?w"
    by (simp add: thenE_def take_slot_def upd_loc_def modifyE_def bindE_def)
  ultimately show ?thesis by (cases "?m ?w") (simp add: finallyE_free_run)
qed

lemma frames_finallyE: "frames f m \<Longrightarrow> frames f k \<Longrightarrow> frames f (finallyE m k)"
  unfolding frames_iff by (auto intro: keeps_finallyE)

lemma frames_request: "frames f (request e c p me b i)"
  unfolding request_def Let_def by (intro frames_bindE frames_perform frames_liftE)

lemma appends_finally: "appends P m \<Longrightarrow> appends P k \<Longrightarrow> \<exists>cs. calls (snd (finallyE m k w)) = calls w @ cs \<and> list_all P cs"
  by (rule appendsD) (rule appends_finallyE)

lemma request_run:
  "request (sv_platform o') c p me b i w =
     (case vo_fetch o' (platform_request (vo_url o') c p me b i) (calls w) of
        Inl e \<Rightarrow> (Inl e, w\<lparr>calls := calls w @ [SvPlatform (platform_request (vo_url o') c p me b i)]\<rparr>)
      | Inr res \<Rightarrow> (platform_answer res, w\<lparr>calls := calls w @ [SvPlatform (platform_request (vo_url o') c p me b i)]\<rparr>))"
  by (simp add: request_def Let_def bindE_def perform_def liftE_def sv_platform_def split: sum.split)

lemma answer_message_calls:
  "\<exists>cs. calls (snd (answer_message o' s m w)) = calls w @ cs \<and> list_all (msg_call_ok o' s m (calls w)) cs"
proof (cases "cm_personal m \<and> \<not> starts_with ''/link '' (cm_text m)")
  case False
  have "appends (msg_call_ok o' s m (calls w))
      (bindE (request (sv_platform o') (platform s) ''/internal/link'' ''POST'' (Some (link_body m)) None) (\<lambda>_. sv_send o' m t))"
    if "cm_personal m" for t
    using that by (intro appends_bindE appends_request msg_send_ok) (simp add: msg_call_ok_def sv_platform_def platform_no_subject)
  then have "appends (msg_call_ok o' s m (calls w)) (answer_message o' s m)"
    using False unfolding answer_message_def by (auto intro: msg_send_ok)
  then show ?thesis by (rule appendsD)
next
  case True
  let ?rq = "identity_request o' s m"
  let ?w = "w\<lparr>calls := calls w @ [SvPlatform ?rq]\<rparr>"
  have rq: "msg_call_ok o' s m (calls w) (SvPlatform ?rq)"
    using True by (simp add: msg_call_ok_def identity_request_def platform_no_subject)
  define rest where "rest = (\<lambda>identity. bindE (getE (\<lambda>w. at_limit (sc_max s) (sv_active (loc w)))) (\<lambda>busy.
        if busy then sv_send o' m ''The agent is busy. Please retry shortly; your request has not executed.''
        else thenE take_slot (finallyE (bindE (liftE (identity_subject identity)) (\<lambda>subject.
               bindE (sv_ask o' (message_input s m subject)) (\<lambda>answer. sv_send o' m answer))) free_slot)))"
  have run: "answer_message o' s m w = (case vo_fetch o' ?rq (calls w) of Inl e \<Rightarrow> (Inl e, ?w)
      | Inr res \<Rightarrow> (case platform_answer res of Inl e \<Rightarrow> (Inl e, ?w) | Inr j \<Rightarrow> rest j ?w))"
    using True by (simp add: answer_message_def rest_def bindE_def [of "request _ _ _ _ _ _"] request_run identity_request_def split: sum.split)
  have "appends (msg_call_ok o' s m (calls w)) (rest j)" if "vo_fetch o' ?rq (calls w) = Inr res" "platform_answer res = Inr j" for res j
  proof -
    have "identity_subject j = Inr su \<Longrightarrow> identified o' s m (calls w) su" for su
      using that by (simp add: identified_def)
    from appends_turn [where m = m and o' = o' and s = s and h = "calls w" and j = j, OF _ _ this] True show ?thesis
      unfolding rest_def by (auto intro!: appends_bindE appends_getE msg_send_ok)
  qed
  then have "\<exists>cs. calls (snd (rest j ?w)) = calls ?w @ cs \<and> list_all (msg_call_ok o' s m (calls w)) cs"
    if "vo_fetch o' ?rq (calls w) = Inr res" "platform_answer res = Inr j" for res j
    using that appendsD by blast
  then show ?thesis using rq by (fastforce simp: run split: sum.split)
qed

lemma answer_message_active: "sv_active (loc (snd (answer_message o' s m w))) = sv_active (loc w)"
proof -
  have s: "frames sv_active (sv_send o' m t)" for t unfolding sv_send_def by (rule frames_perform)
  have t: "frames sv_active (thenE take_slot (finallyE (bindE (liftE r) (\<lambda>subject.
        bindE (sv_ask o' (message_input s m subject)) (\<lambda>answer. sv_send o' m answer))) free_slot))" for r
    by (simp add: frames_def frames_turn_active)
  have "frames sv_active (answer_message o' s m)"
    unfolding answer_message_def by (auto intro!: frames_bindE frames_request frames_getE s t)
  then show ?thesis by (rule framesD)
qed

section \<open>Properties\<close>


text \<open>Slots: the check and the increment are one synchronous step, in both places that start a turn.\<close>

inductive slots :: "(int \<times> nat) option \<Rightarrow> nat \<Rightarrow> bool" for mx where
  none: "slots mx 0"
| taken: "slots mx n \<Longrightarrow> \<not> at_limit mx n \<Longrightarrow> slots mx (n + 1)"
| freed: "slots mx n \<Longrightarrow> 0 < n \<Longrightarrow> slots mx (n - 1)"

text \<open>The limit holds however turns start and end: with the limit \<open>m\<close> never more than \<open>m\<close> turns run. A setting that is not
  a number (and so compares with nothing) is no limit at all.\<close>

theorem slots_bounded:
  "(if slots (Some (int m, 0)) n then n \<le> m else True) \<and> slots None n"
proof
  have "slots mx n \<Longrightarrow> mx = Some (int m, 0) \<Longrightarrow> n \<le> m" for mx
    by (induction rule: slots.induct) (auto simp: at_limit_def)
  then show "if slots (Some (int m, 0)) n then n \<le> m else True" by simp
  show "slots None n"
    by (induction n) (auto intro: slots.none slots.taken [of None, simplified] simp: at_limit_def)
qed

lemma teams_destination:
  "json_parse (cm_destination (teams_chat_message t h e)) =
     Some (JObj ((''serviceUrl'', JStr h) # jmember ''conversation'' (map_option JStr (pstr' [''conversation'', ''id''] e))))"
  using json_roundtrip [of "JObj ((''serviceUrl'', JStr h) # jmember ''conversation'' (map_option JStr (pstr' [''conversation'', ''id''] e)))"]
  by (simp add: teams_chat_message_def Let_def jmember_def split: option.split)

lemma chat_teams_Some:
  assumes "chat_teams jwt parse env au raw = Respond' st b (Some m)"
  shows "\<exists>appId j e tenant v h. required env ''TEAMS_APP_ID'' = Inr appId \<and> verifyTeams jwt (bearer au) appId = Inr j \<and>
    tenant \<in> set (tenants env ''TEAMS_ALLOWED_TENANTS'') \<and> teamsServiceURL parse v = Inr h \<and> st = 200 \<and> m = teams_chat_message tenant h e"
  using assms by (auto simp: chat_teams_def split: sum.split_asm option.split_asm if_split_asm)

lemma chat_google_Some:
  assumes "chat_google jwt env au raw = Respond' st b (Some m)"
  shows "\<exists>aud j e tenant. required env ''GOOGLE_CHAT_AUDIENCE'' = Inr aud \<and> verifyGoogle jwt (bearer au) aud = Inr j \<and>
    tenant \<in> set (tenants env ''GOOGLE_CHAT_ALLOWED_DOMAINS'') \<and> st = 200 \<and> m = google_message tenant e"
  using assms by (auto simp: chat_google_def split: sum.split_asm option.split_asm if_split_asm)

lemma chat_slack_Some:
  assumes "chat_slack hm now env ts sig raw = Respond' st b (Some m)"
  shows "\<exists>secret team ev e. env ''SLACK_SIGNING_SECRET'' = Some secret \<and> secret \<noteq> [] \<and>
    verifySlack hm raw (nullish ts '''') (nullish sig '''') secret now \<and>
    team \<in> set (tenants env ''SLACK_ALLOWED_TEAMS'') \<and> st = 200 \<and> m = slack_message team ev e"
  using assms unfolding chat_slack_def
  by (auto simp: Let_def split: option.split_asm if_split_asm json.split_asm)

lemma required_Inr: "required env k = Inr v \<Longrightarrow> env k = Some v \<and> v \<noteq> []"
  by (auto simp: required_def truthy_def split: if_splits option.splits)

text \<open>The chat webhooks start a turn only for an authentic event of an allowed tenant: a Slack event whose signature covers
  these bytes, a Teams or Google event whose token the channel's verifier accepted, and the tenant recorded in the
  message is one of those configured for the channel. A Teams answer goes to a trusted service URL.\<close>

theorem routes_authentic:
  "(case chat_slack hm now env ts sig raw of
      Respond' st b (Some m) \<Rightarrow> st = 200 \<and> cm_channel m = ''slack'' \<and> cm_tenant m \<in> set (tenants env ''SLACK_ALLOWED_TEAMS'') \<and>
        verifySlack hm raw (nullish ts '''') (nullish sig '''') (nullish (env ''SLACK_SIGNING_SECRET'') '''') now
    | _ \<Rightarrow> True) \<and>
   (case chat_teams jwt parse env au raw of
      Respond' st b (Some m) \<Rightarrow> st = 200 \<and> cm_channel m = ''teams'' \<and> cm_tenant m \<in> set (tenants env ''TEAMS_ALLOWED_TENANTS'') \<and>
        verifyTeams jwt (bearer au) (nullish (env ''TEAMS_APP_ID'') '''') \<in> range Inr \<and>
        (\<exists>v h d. teamsServiceURL parse v = Inr h \<and> json_parse (cm_destination m) = Some d \<and> jfield ''serviceUrl'' d = Some (JStr h))
    | _ \<Rightarrow> True) \<and>
   (case chat_google jwt env au raw of
      Respond' st b (Some m) \<Rightarrow> st = 200 \<and> cm_channel m = ''google'' \<and> cm_tenant m \<in> set (tenants env ''GOOGLE_CHAT_ALLOWED_DOMAINS'') \<and>
        verifyGoogle jwt (bearer au) (nullish (env ''GOOGLE_CHAT_AUDIENCE'') '''') \<in> range Inr
    | _ \<Rightarrow> True)"
proof (intro conjI)
  show "case chat_slack hm now env ts sig raw of
      Respond' st b (Some m) \<Rightarrow> st = 200 \<and> cm_channel m = ''slack'' \<and> cm_tenant m \<in> set (tenants env ''SLACK_ALLOWED_TEAMS'') \<and>
        verifySlack hm raw (nullish ts '''') (nullish sig '''') (nullish (env ''SLACK_SIGNING_SECRET'') '''') now
    | _ \<Rightarrow> True"
    by (auto dest!: chat_slack_Some simp: slack_message_def Let_def split: RouteResult.split option.split)
  show "case chat_teams jwt parse env au raw of
      Respond' st b (Some m) \<Rightarrow> st = 200 \<and> cm_channel m = ''teams'' \<and> cm_tenant m \<in> set (tenants env ''TEAMS_ALLOWED_TENANTS'') \<and>
        verifyTeams jwt (bearer au) (nullish (env ''TEAMS_APP_ID'') '''') \<in> range Inr \<and>
        (\<exists>v h d. teamsServiceURL parse v = Inr h \<and> json_parse (cm_destination m) = Some d \<and> jfield ''serviceUrl'' d = Some (JStr h))
    | _ \<Rightarrow> True"
  proof (cases "\<exists>st b m. chat_teams jwt parse env au raw = Respond' st b (Some m)")
    case True
    then obtain st b m where r: "chat_teams jwt parse env au raw = Respond' st b (Some m)" by blast
    from chat_teams_Some [OF r] obtain appId j e tenant v h where
      m: "required env ''TEAMS_APP_ID'' = Inr appId" "verifyTeams jwt (bearer au) appId = Inr j"
        "tenant \<in> set (tenants env ''TEAMS_ALLOWED_TENANTS'')" "teamsServiceURL parse v = Inr h" "st = 200" "m = teams_chat_message tenant h e"
      by blast
    have "\<exists>v h d. teamsServiceURL parse v = Inr h \<and> json_parse (cm_destination m) = Some d \<and> jfield ''serviceUrl'' d = Some (JStr h)"
      using m(4) teams_destination [of tenant h e] m(6) by (intro exI conjI) auto
    moreover have "cm_channel m = ''teams''" "cm_tenant m = tenant" by (simp_all add: m(6) teams_chat_message_def Let_def)
    ultimately show ?thesis using r m required_Inr [OF m(1)] by (simp add: image_iff)
  qed (auto split: RouteResult.split option.split)
  show "case chat_google jwt env au raw of
      Respond' st b (Some m) \<Rightarrow> st = 200 \<and> cm_channel m = ''google'' \<and> cm_tenant m \<in> set (tenants env ''GOOGLE_CHAT_ALLOWED_DOMAINS'') \<and>
        verifyGoogle jwt (bearer au) (nullish (env ''GOOGLE_CHAT_AUDIENCE'') '''') \<in> range Inr
    | _ \<Rightarrow> True"
    by (auto dest!: chat_google_Some required_Inr simp: google_message_def Let_def image_iff split: RouteResult.split option.split)
qed

section \<open>Notifications are delivered before they are acknowledged\<close>

definition ack_request :: "SvOutside \<Rightarrow> Service \<Rightarrow> json \<Rightarrow> FetchRequest" where
  "ack_request o' s item = platform_request (vo_url o') (platform s) ''/internal/notifications/ack'' ''POST''
     (Some (JObj (jmember ''id'' (jfield ''id'' (jfield_or ''notification'' item))))) None"

definition is_send :: "SvCall \<Rightarrow> bool" where
  "is_send c \<longleftrightarrow> (case c of SvSend _ _ _ \<Rightarrow> True | _ \<Rightarrow> False)"

definition destination_of :: "json \<Rightarrow> string \<times> string" where
  "destination_of d = (nullish (pstr' [''channel''] d) '''', nullish (pstr' [''destination''] d) '''')"

text \<open>Delivering to a list of destinations: all of them, or up to the first that fails.\<close>

lemma forE_sends:
  "case forE ds (notify_send o' t) w of
     (Inr _, w') \<Rightarrow> calls w' = calls w @ map (\<lambda>d. SvSend (fst (destination_of d)) (snd (destination_of d)) t) ds
   | (Inl _, w') \<Rightarrow> \<exists>n<length ds. calls w' = calls w @ map (\<lambda>d. SvSend (fst (destination_of d)) (snd (destination_of d)) t) (take (Suc n) ds)"
proof (induction ds arbitrary: w)
  case Nil
  then show ?case by (simp add: retE_def)
next
  case (Cons d ds)
  let ?s = "\<lambda>d. SvSend (fst (destination_of d)) (snd (destination_of d)) t"
  let ?w = "w\<lparr>calls := calls w @ [?s d]\<rparr>"
  have run: "forE (d # ds) (notify_send o' t) w =
      (case vo_send o' (fst (destination_of d)) (snd (destination_of d)) t (calls w) of Inl e \<Rightarrow> (Inl e, ?w) | Inr _ \<Rightarrow> forE ds (notify_send o' t) ?w)"
    by (simp add: thenE_def bindE_def notify_send_def Let_def perform_def destination_of_def split: sum.split)
  show ?case
  proof (cases "vo_send o' (fst (destination_of d)) (snd (destination_of d)) t (calls w)")
    case (Inl e)
    then show ?thesis unfolding run by (auto intro: exI [of _ 0])
  next
    case (Inr u)
    then show ?thesis
      using Cons.IH [of ?w] unfolding run by (auto split: prod.splits sum.splits intro: exI [of _ "Suc _"])
  qed
qed

definition valid_request :: "SvOutside \<Rightarrow> Service \<Rightarrow> json \<Rightarrow> FetchRequest" where
  "valid_request o' s item = platform_request (vo_url o') (platform s) (''/internal/notifications/valid?'' @
     form_encode [(''id'', js_undef_string (jfield ''id'' (jfield_or ''notification'' item)))]) ''GET'' None None"

definition item_text :: "json \<Rightarrow> string" where
  "item_text item = notification_text (jfield_or ''notification'' item) (jfield_or ''environment'' item)"

definition item_sends :: "json \<Rightarrow> json list \<Rightarrow> SvCall list" where
  "item_sends item ds = map (\<lambda>d. SvSend (fst (destination_of d)) (snd (destination_of d)) (item_text item)) ds"

text \<open>A notification is acknowledged only after it was delivered to every destination (or found invalid, and then delivered to
  none): so none is lost, and a delivery that fails leaves the notification, with all its destinations, for the next tick.\<close>

theorem ack_after_delivery:
  "\<exists>sends acks. calls (snd (notify_item o' s item w)) = calls w @ SvPlatform (valid_request o' s item) # sends @ acks \<and>
     list_all is_send sends \<and>
     (if acks = [] then fst (notify_item o' s item w) \<in> range Inl
      else acks = [SvPlatform (ack_request o' s item)] \<and>
        (case vo_fetch o' (valid_request o' s item) (calls w) of
           Inl _ \<Rightarrow> False
         | Inr res \<Rightarrow>
             (case platform_answer res of
                Inl _ \<Rightarrow> False
              | Inr j \<Rightarrow>
                  if jtruthy (jfield ''valid'' j) then (\<exists>ds. jfield ''destinations'' item = Some (JArr ds) \<and> sends = item_sends item ds)
                  else sends = [])))"
proof -
  let ?v = "valid_request o' s item" and ?a = "SvPlatform (ack_request o' s item)"
  let ?w = "w\<lparr>calls := calls w @ [SvPlatform ?v]\<rparr>"
  let ?ack = "bindE (request (sv_platform o') (platform s) ''/internal/notifications/ack'' ''POST''
      (Some (JObj (jmember ''id'' (jfield ''id'' (jfield_or ''notification'' item))))) None) (\<lambda>_. retE ()) :: unit sv"
  let ?deliver = "bindE (liftE (jlist (jfield ''destinations'' item))) (\<lambda>ds. forE ds (notify_send o' (item_text item))) :: unit sv"
  have run: "notify_item o' s item w = (case vo_fetch o' ?v (calls w) of Inl e \<Rightarrow> (Inl e, ?w)
      | Inr res \<Rightarrow> (case platform_answer res of Inl e \<Rightarrow> (Inl e, ?w)
          | Inr j \<Rightarrow> thenE (whenE (jtruthy (jfield ''valid'' j)) ?deliver) ?ack ?w))"
    by (simp add: notify_item_def Let_def bindE_def [of "request _ _ _ _ _ _"] request_run valid_request_def item_text_def split: sum.split)
  have ack: "calls (snd (?ack u)) = calls u @ [?a]" for u
    by (simp add: bindE_def request_run ack_request_def retE_def split: sum.split)
  have sends: "list_all is_send (item_sends item ds)" "list_all is_send (take n (item_sends item ds))" for ds n
    by (auto simp: item_sends_def is_send_def list_all_iff take_map)
  show ?thesis
  proof (cases "\<exists>res j. vo_fetch o' ?v (calls w) = Inr res \<and> platform_answer res = Inr j")
    case False
    then show ?thesis by (intro exI [of _ "[]"]) (auto simp: run split: sum.split)
  next
    case True
    then obtain res j where j: "vo_fetch o' ?v (calls w) = Inr res" "platform_answer res = Inr j" by blast
    show ?thesis
    proof (cases "jtruthy (jfield ''valid'' j)")
      case False
      then have "notify_item o' s item w = ?ack ?w" by (simp add: run j whenE_def thenE_def)
      then show ?thesis using False j ack [of ?w] by (intro exI [of _ "[]"] exI [of _ "[?a]"]) simp
    next
      case valid: True
      show ?thesis
      proof (cases "jlist (jfield ''destinations'' item)")
        case (Inl e)
        then show ?thesis using valid j
          by (intro exI [of _ "[]"]) (auto simp: run whenE_def thenE_def bindE_def liftE_def)
      next
        case (Inr ds)
        then have ds: "jfield ''destinations'' item = Some (JArr ds)"
          by (auto simp: jlist_def split: option.splits json.splits)
        obtain r w1 where f: "forE ds (notify_send o' (item_text item)) ?w = (r, w1)" by force
        have d: "?deliver = forE ds (notify_send o' (item_text item))"
          unfolding Inr by (rule ext) (simp add: bindE_def liftE_def)
        have n: "notify_item o' s item w = (case r of Inl e \<Rightarrow> (Inl e, w1) | Inr _ \<Rightarrow> ?ack w1)"
          using valid j f unfolding run d by (simp add: whenE_def thenE_def bindE_def [of "forE _ _"] split: sum.split)
        show ?thesis
        proof (cases r)
          case (Inl e)
          then obtain k where "calls w1 = calls ?w @ take k (item_sends item ds)"
            using forE_sends [where ds = ds and o' = o' and t = "item_text item" and w = ?w] f by (auto simp: item_sends_def take_map)
          with n Inl sends(2) [of k ds] show ?thesis
            by (intro exI [of _ "take k (item_sends item ds)"] exI [of _ "[]"]) simp
        next
          case (Inr u)
          then have "calls w1 = calls ?w @ item_sends item ds"
            using forE_sends [where ds = ds and o' = o' and t = "item_text item" and w = ?w] f by (auto simp: item_sends_def)
          with n Inr sends(1) [of ds] ack [of w1] ds valid j show ?thesis
            by (intro exI [of _ "item_sends item ds"] exI [of _ "[?a]"]) simp
        qed
      qed
    qed
  qed
qed

end
