(* ===== verification/Backend.thy ===== *)
theory Backend
  imports PaAgent
begin

text \<open>
  The portal's backend module (\<open>packages/backend/src/index.ts\<close>): the proxy in front of the access portal API,
  the platform API and the platform agent, and the scaffolder action that creates a preview. Backstage
  (authentication, configuration, express) and the peers are outside; URL resolution is a parameter. Whatever
  throws is answered with 403 and the error's message.
\<close>

section \<open>Identities\<close>

record BackendConfig =
  bc_teleportIdentities :: "(string \<times> string) list"
  bc_subjectFromEntityName :: bool
  bc_portalUrl :: "string option"
  bc_portalToken :: "string option"
  bc_platformIdentities :: "(string \<times> string) list option"
  bc_platformToken :: "string option"
  bc_platformApiUrl :: "string option"
  bc_platformAgentUrl :: "string option"

definition login_tail :: "char \<Rightarrow> bool" where
  "login_tail c \<longleftrightarrow> is_alnum c \<or> c \<in> set ''._-''"

definition login_ok :: "string \<Rightarrow> bool" where
  "login_ok s \<longleftrightarrow> s \<noteq> [] \<and> is_alnum (hd s) \<and> list_all login_tail (tl s) \<and> length (tl s) \<le> 63"

definition teleportSubject :: "BackendConfig \<Rightarrow> string \<Rightarrow> string option" where
  "teleportSubject cfg ref =
     (case map_of (bc_teleportIdentities cfg) ref of
        Some s \<Rightarrow> Some s
      | None \<Rightarrow>
          if bc_subjectFromEntityName cfg then
            (let name = last (split_on CHR ''/'' ref) in if login_ok name then Some name else None)
          else None)"

section \<open>The paths a browser may reach\<close>

definition seg_char :: "char \<Rightarrow> bool" where
  "seg_char c \<longleftrightarrow> is_alnum c \<or> c \<in> set ''._-''"

definition id_char :: "char \<Rightarrow> bool" where
  "id_char c \<longleftrightarrow> is_alnum c \<or> c = CHR ''-''"

definition env_char :: "char \<Rightarrow> bool" where
  "env_char c \<longleftrightarrow> is_lower_az c \<or> is_digit c \<or> c = CHR ''-''"

definition seg_ok :: "nat \<Rightarrow> string \<Rightarrow> bool" where
  "seg_ok n s \<longleftrightarrow> s \<noteq> [] \<and> length s \<le> n \<and> list_all seg_char s"

definition request_id_ok :: "string \<Rightarrow> bool" where
  "request_id_ok s \<longleftrightarrow> 8 \<le> length s \<and> length s \<le> 36 \<and> list_all id_char s"

text \<open>The three anchored patterns, over the segments of the path.\<close>

definition segments :: "string \<Rightarrow> string list option" where
  "segments p = (case split_on CHR ''/'' p of [] # ss \<Rightarrow> Some ss | _ \<Rightarrow> None)"

definition access_read :: "string \<Rightarrow> bool" where
  "access_read p =
     (case segments p of
        Some [a] \<Rightarrow> a \<in> {''me'', ''cluster'', ''roles'', ''requestable-roles'', ''resources'', ''approvers'', ''requests'', ''approvals''}
      | Some [a, b] \<Rightarrow> (a = ''roles'' \<and> seg_ok 64 b) \<or> (a = ''resources'' \<and> b = ''accessible'') \<or> (a = ''requests'' \<and> request_id_ok b)
      | Some [a, b, c, d] \<Rightarrow> a = ''resources'' \<and> b \<in> {''node'', ''db'', ''kube_cluster'', ''app'', ''windows_desktop''} \<and>
          seg_ok 128 c \<and> d = ''access''
      | _ \<Rightarrow> False)"

definition access_write :: "string \<Rightarrow> bool" where
  "access_write p =
     (case segments p of
        Some [a] \<Rightarrow> a = ''requests''
      | Some [a, b] \<Rightarrow> a = ''requests'' \<and> b = ''preview''
      | Some [a, b, c] \<Rightarrow> a = ''requests'' \<and> request_id_ok b \<and> c \<in> {''approve'', ''deny''}
      | _ \<Rightarrow> False)"

definition env_name_ok :: "string \<Rightarrow> bool" where
  "env_name_ok s \<longleftrightarrow> s \<noteq> [] \<and> list_all env_char s"

definition platform_path :: "string \<Rightarrow> bool" where
  "platform_path p =
     (case segments p of
        Some [a] \<Rightarrow> a \<in> {''me'', ''environments'', ''operations'', ''tools'', ''promotions'', ''policies'', ''link-code'', ''audit''}
      | Some [a, b] \<Rightarrow> (a = ''environments'' \<and> env_name_ok b) \<or> (a = ''operations'' \<and> b \<noteq> [] \<and> list_all is_hex_lower b)
      | Some [a, b, c] \<Rightarrow> a = ''environments'' \<and> env_name_ok b \<and>
          c \<in> {''extend'', ''confirm-delete'', ''destroy'', ''redeploy'', ''diagnostics''}
      | _ \<Rightarrow> False)"

section \<open>The proxy\<close>

record ProxyRequest =
  pr_method' :: string
  pr_path :: string
  pr_search :: string
  pr_body :: "json option"
  pr_idempotency :: "string option"

text \<open>What the proxy does: answer itself, or forward one request and relay its answer.\<close>

datatype ProxyAction = Answer int "json option" | Forward FetchRequest

definition proxy_headers :: "string \<Rightarrow> string \<Rightarrow> ProxyRequest \<Rightarrow> (string \<times> string) list" where
  "proxy_headers token subject rq =
     [(''Authorization'', ''Bearer '' @ token), (''X-Dogfood-Subject'', subject), (''Content-Type'', ''application/json''),
      (''Idempotency-Key'', nullish (pr_idempotency rq) '''')]"

definition error_code :: "string \<Rightarrow> string \<Rightarrow> json" where
  "error_code e c = JObj [(''error'', JStr e), (''code'', JStr c)]"

definition set_search :: "string \<Rightarrow> string \<Rightarrow> string" where
  "set_search url search = takeWhile (\<lambda>c. c \<noteq> CHR ''?'') url @ search"

text \<open>\<open>req.path.slice('/access'.length)\<close> drops seven characters.\<close>

definition proxy_access :: "(string \<Rightarrow> string \<Rightarrow> string) \<Rightarrow> BackendConfig \<Rightarrow> string \<Rightarrow> ProxyRequest \<Rightarrow> ProxyAction" where
  "proxy_access url cfg ref rq =
     (if \<not> truthy (bc_portalUrl cfg) \<or> \<not> truthy (bc_portalToken cfg) then
        Answer 503 (Some (error_code ''Teleport access is not configured'' ''not_configured''))
      else
        (let subject = teleportSubject cfg ref in
         if \<not> truthy subject then Answer 403 (Some (error_code ''No Teleport identity mapping'' ''unmapped_subject''))
         else
           (let rest = drop 7 (pr_path rq); method = pr_method' rq in
            if \<not> ((method = ''GET'' \<and> access_read rest) \<or> (method = ''POST'' \<and> access_write rest)) then Answer 404 None
            else
              Forward \<lparr>fq_method = method, fq_url = set_search (url (''/v1'' @ rest) (nullish (bc_portalUrl cfg) '''')) (pr_search rq),
                fq_headers = proxy_headers (nullish (bc_portalToken cfg) '''') (nullish subject '''') rq,
                fq_body = (if method = ''GET'' then None else Some (stringify (nullish (pr_body rq) (JObj []))))\<rparr>)))"

definition thrown :: "string \<Rightarrow> ProxyAction" where
  "thrown m = Answer 403 (Some (JObj [(''error'', JStr m)]))"

definition missing_config :: "string \<Rightarrow> ProxyAction" where
  "missing_config k = thrown (''Missing required config value at '' @ k)"

text \<open>The agent's question: only these three members of the browser's body, with the mapped subject.\<close>

definition opt_member :: "string \<Rightarrow> json \<Rightarrow> (string \<times> json) list" where
  "opt_member k j = (case jfield k j of Some v \<Rightarrow> [(k, v)] | None \<Rightarrow> [])"

definition agent_body :: "json \<Rightarrow> string \<Rightarrow> json" where
  "agent_body body subject = JObj (opt_member ''text'' body @ opt_member ''conversation'' body @ opt_member ''provider'' body
     @ [(''subject'', JStr subject)])"

definition proxy_platform :: "(string \<Rightarrow> string \<Rightarrow> string) \<Rightarrow> BackendConfig \<Rightarrow> string \<Rightarrow> ProxyRequest \<Rightarrow> ProxyAction" where
  "proxy_platform url cfg ref rq =
     (case bc_platformIdentities cfg of
        None \<Rightarrow> missing_config ''platform.identities''
      | Some ids \<Rightarrow>
          (case map_of ids ref of
             None \<Rightarrow> Answer 403 (Some (JObj [(''error'', JStr ''No platform identity mapping'')]))
           | Some subject \<Rightarrow>
               (case (bc_platformToken cfg, bc_platformApiUrl cfg) of
                  (None, _) \<Rightarrow> missing_config ''platform.serviceToken''
                | (_, None) \<Rightarrow> missing_config ''platform.apiUrl''
                | (Some token, Some api) \<Rightarrow>
                    let method = pr_method' rq in
                    if pr_path rq = ''/agent'' then
                      (if method \<noteq> ''POST'' then Answer 405 None
                       else
                         (case (bc_platformAgentUrl cfg, pr_body rq) of
                            (None, _) \<Rightarrow> missing_config ''platform.agentUrl''
                          | (_, None) \<Rightarrow> thrown ''TypeError''
                          | (Some agent, Some body) \<Rightarrow>
                              Forward \<lparr>fq_method = method, fq_url = url ''/internal/ask'' agent,
                                fq_headers = proxy_headers token subject rq, fq_body = Some (stringify (agent_body body subject))\<rparr>))
                    else if \<not> platform_path (pr_path rq) then Answer 404 None
                    else
                      Forward \<lparr>fq_method = method, fq_url = url (''/v1'' @ pr_path rq) api,
                        fq_headers = proxy_headers token subject rq,
                        fq_body = (if method = ''GET'' \<or> method = ''HEAD'' then None else map_option stringify (pr_body rq))\<rparr>)))"

definition proxy :: "(string \<Rightarrow> string \<Rightarrow> string) \<Rightarrow> BackendConfig \<Rightarrow> js_error + string \<Rightarrow> ProxyRequest \<Rightarrow> ProxyAction" where
  "proxy url cfg user rq =
     (case user of
        Inl e \<Rightarrow> thrown (err_message e)
      | Inr ref \<Rightarrow> if starts_with ''/access/'' (pr_path rq) then proxy_access url cfg ref rq else proxy_platform url cfg ref rq)"

section \<open>The scaffolder action\<close>

record PreviewInput =
  pi_name :: string
  pi_image :: string
  pi_revision :: string

definition preview_input_ok :: "PreviewInput \<Rightarrow> bool" where
  "preview_input_ok i \<longleftrightarrow> name_ok (pi_name i) \<and> image_ok (pi_image i) \<and> revision_ok (pi_revision i)"

definition preview_request :: "(string \<Rightarrow> string \<Rightarrow> string) \<Rightarrow> BackendConfig \<Rightarrow> string \<Rightarrow> string \<Rightarrow> PreviewInput \<Rightarrow> js_error + FetchRequest" where
  "preview_request url cfg ref task i =
     (case bc_platformIdentities cfg of
        None \<Rightarrow> Inl (PlainError ''Missing required config value at platform.identities'')
      | Some ids \<Rightarrow>
          (case map_of ids ref of
             None \<Rightarrow> Inl (PlainError ''Platform identity is not mapped'')
           | Some subject \<Rightarrow>
               (case (bc_platformApiUrl cfg, bc_platformToken cfg) of
                  (Some api, Some token) \<Rightarrow>
                    Inr \<lparr>fq_method = ''POST'', fq_url = url ''/v1/environments'' api,
                      fq_headers = [(''Content-Type'', ''application/json''), (''Authorization'', ''Bearer '' @ token),
                        (''X-Dogfood-Subject'', subject), (''Idempotency-Key'', task)],
                      fq_body = Some (stringify (JObj [(''id'', JStr (pi_name i)), (''image'', JStr (pi_image i)), (''revision'', JStr (pi_revision i)),
                        (''profile'', JStr ''preview''), (''warm'', JBool True)]))\<rparr>
                | _ \<Rightarrow> Inl (PlainError ''Missing required config value''))))"

definition preview_output :: "FetchResponse \<Rightarrow> js_error + string" where
  "preview_output res =
     (if \<not> res_ok res then Inl (PlainError (''Preview request rejected: '' @ fr_text res))
      else
        (case json_parse (fr_text res) of
           None \<Rightarrow> Inl (PlainError ''SyntaxError'')
         | Some JNull \<Rightarrow> Inl (PlainError ''TypeError'')
         | Some op \<Rightarrow> Inr (js_undef_string (jfield ''id'' op))))"

section \<open>Properties\<close>

definition forwarded_ok :: "BackendConfig \<Rightarrow> string \<Rightarrow> (string \<Rightarrow> string \<Rightarrow> string) \<Rightarrow> ProxyRequest \<Rightarrow> FetchRequest \<Rightarrow> bool" where
  "forwarded_ok cfg ref url rq f \<longleftrightarrow> fq_method f = pr_method' rq \<and>
     (\<exists>subject token. fq_headers f = proxy_headers token subject rq \<and>
       (if starts_with ''/access/'' (pr_path rq) then
          Some token = bc_portalToken cfg \<and> Some subject = teleportSubject cfg ref \<and>
          (let rest = drop 7 (pr_path rq) in
           (if fq_method f = ''GET'' then access_read rest else fq_method f = ''POST'' \<and> access_write rest) \<and>
           fq_url f = set_search (url (''/v1'' @ rest) (nullish (bc_portalUrl cfg) '''')) (pr_search rq))
        else
          Some token = bc_platformToken cfg \<and> (case bc_platformIdentities cfg of Some ids \<Rightarrow> map_of ids ref = Some subject | None \<Rightarrow> False) \<and>
          (if pr_path rq = ''/agent'' then
             fq_method f = ''POST'' \<and> fq_url f = url ''/internal/ask'' (nullish (bc_platformAgentUrl cfg) '''') \<and>
             (\<exists>body. fq_body f = Some (stringify (agent_body body subject)))
           else platform_path (pr_path rq) \<and> fq_url f = url (''/v1'' @ pr_path rq) (nullish (bc_platformApiUrl cfg) ''''))))"


text \<open>The browser cannot smuggle a subject into the question: the object the agent receives has the mapped one.\<close>

lemma agent_body_subject: "jfield ''subject'' (agent_body body s) = Some (JStr s)"
  by (simp add: agent_body_def opt_member_def map_of_append map_add_def split: option.split)

text \<open>The list of readable paths admits the segment \<open>..\<close>, which URL resolution then removes: the path that is
  requested is not one of the list.\<close>

lemma dot_segment_listed: "access_read ''/roles/..'' \<and> access_read ''/resources/node/../access''"
  by code_simp

end
