(* ===== verification/Catalog.thy ===== *)
theory Catalog
  imports JsBase
begin

text \<open>
  The access catalogue (\<open>infra/teleport/src/policy/catalog.ts\<close>): the requestable roles with their risk tiers,
  the fixed roles, the bots and the join tokens. Every other part of the Teleport stack is rendered from these
  constants.
\<close>

section \<open>Types\<close>

datatype RiskTier = Low | High

record CatalogRule =
  cr_resources :: "string list"
  cr_verbs :: "string list"

record KubeResource =
  kr_kind :: string
  kr_namespace :: "string option"
  kr_name :: "string option"
  kr_verbs :: "string list option"

record DbScope =
  ds_users :: "string list"
  ds_names :: "string list"

record KubeScope =
  ks_groups :: "string list"
  ks_resources :: "KubeResource list"

record RoleScope =
  sc_nodes :: "string list option"
  sc_dbs :: "DbScope option"
  sc_kube :: "KubeScope option"
  sc_apps :: bool
  sc_rules :: "CatalogRule list option"

record CatalogRole =
  ct_name :: string
  ct_description :: string
  ct_tier :: RiskTier
  ct_envs :: "string list"
  ct_scope :: RoleScope
  ct_maxSessionTtl :: string

section \<open>Environments and Kubernetes groups\<close>

definition LOW_RISK_ENVS :: "string list" where "LOW_RISK_ENVS = [''local'', ''dev'']"
definition HIGH_RISK_ENVS :: "string list" where "HIGH_RISK_ENVS = [''prod'']"
definition ALL_ENVS :: "string list" where "ALL_ENVS = LOW_RISK_ENVS @ HIGH_RISK_ENVS"

definition KUBE_GROUP_clusterAdmin :: string where "KUBE_GROUP_clusterAdmin = ''k8s-teleport:cluster-admin''"
definition KUBE_GROUP_prodViewer :: string where "KUBE_GROUP_prodViewer = ''k8s-teleport:prod-viewer''"
definition KUBE_GROUP_dev :: string where "KUBE_GROUP_dev = ''k8s-teleport:dev''"

definition kube_resource :: "string \<Rightarrow> string list \<Rightarrow> KubeResource" where
  "kube_resource ns verbs = \<lparr>kr_kind = ''*'', kr_namespace = Some ns, kr_name = Some ''*'', kr_verbs = Some verbs\<rparr>"

definition ALL_KUBE_RESOURCES :: "KubeResource list" where
  "ALL_KUBE_RESOURCES = [kube_resource ''*'' [''*'']]"

definition READ_KUBE_RESOURCES :: "KubeResource list" where
  "READ_KUBE_RESOURCES = [kube_resource ''*'' [''get'', ''list'', ''watch'']]"

section \<open>The catalogue\<close>

definition no_scope :: RoleScope where
  "no_scope = \<lparr>sc_nodes = None, sc_dbs = None, sc_kube = None, sc_apps = False, sc_rules = None\<rparr>"

definition ssh_scope :: "string list \<Rightarrow> RoleScope" where
  "ssh_scope logins = no_scope\<lparr>sc_nodes := Some logins\<rparr>"

definition db_scope :: "string list \<Rightarrow> RoleScope" where
  "db_scope users = no_scope\<lparr>sc_dbs := Some \<lparr>ds_users = users, ds_names = [''*'']\<rparr>\<rparr>"

definition kube_scope :: "string \<Rightarrow> KubeResource list \<Rightarrow> RoleScope" where
  "kube_scope grp rs = no_scope\<lparr>sc_kube := Some \<lparr>ks_groups = [grp], ks_resources = rs\<rparr>\<rparr>"

definition app_scope :: RoleScope where
  "app_scope = no_scope\<lparr>sc_apps := True\<rparr>"

definition crole :: "string \<Rightarrow> string \<Rightarrow> RiskTier \<Rightarrow> string list \<Rightarrow> RoleScope \<Rightarrow> string \<Rightarrow> CatalogRole" where
  "crole name descr tier envs scope ttl =
     \<lparr>ct_name = name, ct_description = descr, ct_tier = tier, ct_envs = envs, ct_scope = scope, ct_maxSessionTtl = ttl\<rparr>"

definition CATALOG :: "CatalogRole list" where
  "CATALOG =
     [crole ''dev-ssh'' ''SSH as 'dev' on local/dev servers'' Low LOW_RISK_ENVS (ssh_scope [''dev'']) ''4h'',
      crole ''dev-db'' ''Connect to local/dev databases as app user'' Low LOW_RISK_ENVS (db_scope [''postgres'', ''app'']) ''4h'',
      crole ''dev-k8s'' ''Edit access in the dev Kubernetes cluster (dummies namespace)'' Low LOW_RISK_ENVS
        (kube_scope KUBE_GROUP_dev [kube_resource ''teleport-dummies'' [''*'']]) ''4h'',
      crole ''dev-app'' ''Open local/dev web applications'' Low LOW_RISK_ENVS app_scope ''4h'',
      crole ''prod-ssh'' ''SSH as 'dev' on production servers'' High HIGH_RISK_ENVS (ssh_scope [''dev'']) ''2h'',
      crole ''prod-db'' ''Read-only style access to production databases'' High HIGH_RISK_ENVS (db_scope [''readonly'', ''app'']) ''2h'',
      crole ''prod-k8s'' ''View access in production Kubernetes'' High HIGH_RISK_ENVS
        (kube_scope KUBE_GROUP_prodViewer READ_KUBE_RESOURCES) ''2h'',
      crole ''prod-app'' ''Open production web applications (incl. the cloud console)'' High HIGH_RISK_ENVS app_scope ''2h'',
      crole ''dev-dba'' ''Database administrator on local/dev databases'' High LOW_RISK_ENVS (db_scope [''postgres'', ''app'']) ''2h'',
      crole ''prod-dba'' ''Database administrator on production databases'' High HIGH_RISK_ENVS (db_scope [''postgres'', ''readonly'']) ''2h'',
      crole ''k8s-admin'' ''Cluster-admin on every Kubernetes cluster'' High ALL_ENVS
        (kube_scope KUBE_GROUP_clusterAdmin ALL_KUBE_RESOURCES) ''1h'',
      crole ''break-glass-editor'' ''Time-boxed, approved administration of roles, users, tokens, auth connectors and locks (replaces a standing editor)'' High []
        (no_scope\<lparr>sc_rules := Some [\<lparr>cr_resources = [''role'', ''user'', ''token'', ''auth_connector'', ''lock''],
           cr_verbs = [''list'', ''read'', ''create'', ''update'', ''delete'']\<rparr>]\<rparr>) ''1h'']"

definition catalog_names :: "string list" where
  "catalog_names = map ct_name CATALOG"

definition NEVER_AUTO_ROLES :: "string list" where
  "NEVER_AUTO_ROLES = [''editor'', ''auditor'', ''access'', ''approver'', ''^admin-.*$'']"

section \<open>Fixed roles, bots and tokens\<close>

definition ROLE_requester :: string where "ROLE_requester = ''requester''"
definition ROLE_approver :: string where "ROLE_approver = ''approver''"

datatype BotKey = BotMcp | BotBroker | BotAgent | BotPortal | BotHarness

definition BOT_KEYS :: "BotKey list" where
  "BOT_KEYS = [BotMcp, BotBroker, BotAgent, BotPortal, BotHarness]"

fun bot_role :: "BotKey \<Rightarrow> string" where
  "bot_role BotMcp = ''svc-teleport-mcp''"
| "bot_role BotBroker = ''svc-access-broker''"
| "bot_role BotAgent = ''svc-access-agent''"
| "bot_role BotPortal = ''svc-access-portal''"
| "bot_role BotHarness = ''svc-ci-harness''"

fun bot_name :: "BotKey \<Rightarrow> string" where
  "bot_name BotMcp = ''teleport-mcp''"
| "bot_name BotBroker = ''access-broker''"
| "bot_name BotAgent = ''access-agent''"
| "bot_name BotPortal = ''access-portal''"
| "bot_name BotHarness = ''ci-harness''"

definition bot_serviceAccount :: "BotKey \<Rightarrow> string" where
  "bot_serviceAccount k = bot_name k"

definition BOT_MAX_SESSION_TTL :: string where "BOT_MAX_SESSION_TTL = ''7200s''"

definition ACCESS_NAMESPACE :: string where "ACCESS_NAMESPACE = ''teleport-access''"
definition AGENT_NAMESPACE :: string where "AGENT_NAMESPACE = ''teleport-agent''"
definition DUMMIES_NAMESPACE :: string where "DUMMIES_NAMESPACE = ''teleport-dummies''"

record JoinToken =
  jt_name :: string
  jt_roles :: "string list"
  jt_serviceAccount :: string

definition TOKEN_kubeAgent :: JoinToken where
  "TOKEN_kubeAgent = \<lparr>jt_name = ''kube-agent'', jt_roles = [''Kube'', ''App'', ''Db''],
     jt_serviceAccount = AGENT_NAMESPACE @ '':teleport-kube-agent''\<rparr>"

definition sshNodeToken :: "string \<Rightarrow> JoinToken" where
  "sshNodeToken env = \<lparr>jt_name = ''ssh-node-'' @ env, jt_roles = [''Node''],
     jt_serviceAccount = DUMMIES_NAMESPACE @ '':ssh-node-'' @ env\<rparr>"

section \<open>Lemmas\<close>

lemma BOT_KEYS_all: "k \<in> set BOT_KEYS"
  by (cases k) (simp_all add: BOT_KEYS_def)

lemma catalog_names_eval:
  "catalog_names = [''dev-ssh'', ''dev-db'', ''dev-k8s'', ''dev-app'', ''prod-ssh'', ''prod-db'', ''prod-k8s'', ''prod-app'',
     ''dev-dba'', ''prod-dba'', ''k8s-admin'', ''break-glass-editor'']"
  by (simp add: catalog_names_def CATALOG_def crole_def)

end
