(* ===== verification/RoleRender.thy ===== *)
theory RoleRender
  imports Catalog Json Complex_Main "HOL-Library.Multiset"
begin

text \<open>
  From the catalogue to Teleport roles and the broker's policy (\<open>infra/teleport/src/policy/render.ts\<close>, the role
  types of \<open>infra/teleport/src/crds/index.ts\<close>). An absent member is \<^const>\<open>None\<close>.
\<close>

section \<open>Role specifications\<close>

record RoleOptions =
  ro_max_session_ttl :: "string option"
  ro_require_session_mfa :: "string option"
  ro_disconnect_expired_cert :: "bool option"
  ro_client_idle_timeout :: "string option"
  ro_lock :: "string option"
  ro_pin_source_ip :: "bool option"
  ro_ssh_file_copy :: "bool option"
  ro_ssh_port_forwarding :: "(bool \<times> bool) option"
  ro_forward_agent :: "bool option"
  ro_create_host_user_mode :: "string option"
  ro_enhanced_recording :: "string list option"

record Threshold =
  th_name :: string
  th_approve :: nat
  th_deny :: nat

record RequestConditions =
  rq_roles :: "string list"
  rq_search_as_roles :: "string list option"
  rq_max_duration :: string
  rq_reason_mode :: string
  rq_thresholds :: "Threshold list option"

type_synonym LabelSelector = "(string \<times> string list) list"

record RoleConditions =
  rd_logins :: "string list option"
  rd_node_labels :: "LabelSelector option"
  rd_db_labels :: "LabelSelector option"
  rd_db_users :: "string list option"
  rd_db_names :: "string list option"
  rd_kubernetes_labels :: "LabelSelector option"
  rd_kubernetes_groups :: "string list option"
  rd_kubernetes_resources :: "KubeResource list option"
  rd_app_labels :: "LabelSelector option"
  rd_rules :: "CatalogRule list option"
  rd_request :: "RequestConditions option"
  rd_review_roles :: "string list option"
  rd_impersonate :: "(string list \<times> string list) option"

record RoleSpecV7 =
  sp_options :: "RoleOptions option"
  sp_allow :: RoleConditions
  sp_deny :: "RoleConditions option"

record RenderedRole =
  rr_name :: string
  rr_description :: string
  rr_spec :: RoleSpecV7

datatype Edition = Community | Enterprise

definition no_options :: RoleOptions where
  "no_options = \<lparr>ro_max_session_ttl = None, ro_require_session_mfa = None, ro_disconnect_expired_cert = None,
     ro_client_idle_timeout = None, ro_lock = None, ro_pin_source_ip = None, ro_ssh_file_copy = None,
     ro_ssh_port_forwarding = None, ro_forward_agent = None, ro_create_host_user_mode = None, ro_enhanced_recording = None\<rparr>"

definition no_conditions :: RoleConditions where
  "no_conditions = \<lparr>rd_logins = None, rd_node_labels = None, rd_db_labels = None, rd_db_users = None, rd_db_names = None,
     rd_kubernetes_labels = None, rd_kubernetes_groups = None, rd_kubernetes_resources = None, rd_app_labels = None,
     rd_rules = None, rd_request = None, rd_review_roles = None, rd_impersonate = None\<rparr>"

definition rule :: "string list \<Rightarrow> string list \<Rightarrow> CatalogRule" where
  "rule resources verbs = \<lparr>cr_resources = resources, cr_verbs = verbs\<rparr>"

definition READ :: "string list" where "READ = [''list'', ''read'']"
definition WRITE :: "string list" where "WRITE = [''create'', ''update'', ''delete'']"

definition RESOURCE_KINDS :: "string list" where
  "RESOURCE_KINDS = [''node'', ''db'', ''db_server'', ''app'', ''app_server'', ''kube_cluster'', ''kube_server'', ''windows_desktop'']"

section \<open>Options\<close>

definition HARDENED_OPTIONS :: RoleOptions where
  "HARDENED_OPTIONS = no_options
     \<lparr>ro_require_session_mfa := Some ''yes'', ro_disconnect_expired_cert := Some True, ro_client_idle_timeout := Some ''15m'',
      ro_lock := Some ''strict'', ro_ssh_file_copy := Some False, ro_ssh_port_forwarding := Some (False, False),
      ro_forward_agent := Some False, ro_create_host_user_mode := Some ''off'', ro_enhanced_recording := Some [''command'', ''network'']\<rparr>"

definition withoutSessionMfa :: "RoleOptions \<Rightarrow> RoleOptions" where
  "withoutSessionMfa opts = opts\<lparr>ro_require_session_mfa := None\<rparr>"

definition hardenedOptions :: "Edition \<Rightarrow> bool \<Rightarrow> RoleOptions" where
  "hardenedOptions ed sessionMfa =
     (let base = (if ed = Enterprise then HARDENED_OPTIONS\<lparr>ro_pin_source_ip := Some True\<rparr> else HARDENED_OPTIONS) in
      if sessionMfa then base else withoutSessionMfa base)"

section \<open>Human roles\<close>

definition DENY_ALL_WRITES :: RoleConditions where
  "DENY_ALL_WRITES = no_conditions\<lparr>rd_rules := Some [rule [''*''] WRITE]\<rparr>"

definition CLUSTER_CONFIG_KINDS :: "string list" where
  "CLUSTER_CONFIG_KINDS = [''cluster_auth_preference'', ''cluster_networking_config'', ''session_recording_config'']"

definition catalog_allow :: "CatalogRole \<Rightarrow> RoleConditions" where
  "catalog_allow r =
     (let envSel = [(''env'', ct_envs r)]; sc = ct_scope r;
          a1 = (case sc_nodes sc of None \<Rightarrow> no_conditions
                | Some logins \<Rightarrow> no_conditions\<lparr>rd_node_labels := Some envSel, rd_logins := Some logins\<rparr>);
          a2 = (case sc_dbs sc of None \<Rightarrow> a1
                | Some d \<Rightarrow> a1\<lparr>rd_db_labels := Some envSel, rd_db_users := Some (ds_users d), rd_db_names := Some (ds_names d)\<rparr>);
          a3 = (case sc_kube sc of None \<Rightarrow> a2
                | Some k \<Rightarrow> a2\<lparr>rd_kubernetes_labels := Some envSel, rd_kubernetes_groups := Some (ks_groups k),
                     rd_kubernetes_resources := Some (ks_resources k)\<rparr>);
          a4 = (if sc_apps sc then a3\<lparr>rd_app_labels := Some envSel\<rparr> else a3) in
      (case sc_rules sc of None \<Rightarrow> a4 | Some rs \<Rightarrow> a4\<lparr>rd_rules := Some rs\<rparr>))"

definition catalog_deny :: "CatalogRole \<Rightarrow> RoleConditions" where
  "catalog_deny r =
     (if sc_rules (ct_scope r) \<noteq> None then no_conditions\<lparr>rd_rules := Some [rule [''access_request''] [''update'']]\<rparr>
      else DENY_ALL_WRITES)"

definition renderCatalogRole :: "CatalogRole \<Rightarrow> Edition \<Rightarrow> bool \<Rightarrow> RenderedRole" where
  "renderCatalogRole r ed sessionMfa =
     \<lparr>rr_name = ct_name r, rr_description = ct_description r,
      rr_spec = \<lparr>sp_options = Some ((hardenedOptions ed sessionMfa)\<lparr>ro_max_session_ttl := Some (ct_maxSessionTtl r)\<rparr>),
        sp_allow = catalog_allow r, sp_deny = Some (catalog_deny r)\<rparr>\<rparr>"

definition mfa_option :: "bool \<Rightarrow> string option" where
  "mfa_option sessionMfa = (if sessionMfa then Some ''yes'' else None)"

definition requester_request :: "Edition \<Rightarrow> RequestConditions" where
  "requester_request ed =
     \<lparr>rq_roles = catalog_names,
      rq_search_as_roles = (if ed = Enterprise then Some catalog_names else None),
      rq_max_duration = ''4h'', rq_reason_mode = ''required'',
      rq_thresholds = (if ed = Enterprise then Some [\<lparr>th_name = ''one approval'', th_approve = 1, th_deny = 1\<rparr>] else None)\<rparr>"

definition renderRequesterRole :: "Edition \<Rightarrow> bool \<Rightarrow> RenderedRole" where
  "renderRequesterRole ed sessionMfa =
     \<lparr>rr_name = ROLE_requester, rr_description = ''Base role: no standing access, may request catalog roles'',
      rr_spec = \<lparr>sp_options = Some (no_options\<lparr>ro_max_session_ttl := Some ''8h'', ro_require_session_mfa := mfa_option sessionMfa,
          ro_disconnect_expired_cert := Some True, ro_lock := Some ''strict''\<rparr>),
        sp_allow = no_conditions\<lparr>rd_request := Some (requester_request ed)\<rparr>,
        sp_deny = Some (no_conditions\<lparr>rd_rules := Some [rule CLUSTER_CONFIG_KINDS [''*'']]\<rparr>)\<rparr>\<rparr>"

definition renderApproverRole :: "Edition \<Rightarrow> bool \<Rightarrow> RenderedRole" where
  "renderApproverRole ed sessionMfa =
     \<lparr>rr_name = ROLE_approver, rr_description = ''May approve or deny access requests'',
      rr_spec = \<lparr>sp_options = Some (no_options\<lparr>ro_max_session_ttl := Some ''1h'', ro_require_session_mfa := mfa_option sessionMfa,
          ro_lock := Some ''strict''\<rparr>),
        sp_allow = no_conditions
          \<lparr>rd_rules := Some [rule [''access_request''] [''list'', ''read'', ''update''], rule [''access_plugin_data''] [''update''],
             rule [''user''] READ, rule [''role''] READ],
           rd_review_roles := (if ed = Enterprise then Some catalog_names else None)\<rparr>,
        sp_deny = None\<rparr>\<rparr>"

section \<open>Bot roles\<close>

definition botInventoryRules :: "CatalogRule list" where
  "botInventoryRules = map (\<lambda>k. rule [k] READ) RESOURCE_KINDS"

definition botInventoryLabels :: RoleConditions where
  "botInventoryLabels =
     (let wildcard = [(''*'', [''*''])] in
      no_conditions\<lparr>rd_node_labels := Some wildcard, rd_db_labels := Some wildcard, rd_kubernetes_labels := Some wildcard,
        rd_app_labels := Some [(''env'', LOW_RISK_ENVS)]\<rparr>)"

definition deny_prod_apps :: RoleConditions where
  "deny_prod_apps = no_conditions\<lparr>rd_app_labels := Some [(''env'', [''prod''])]\<rparr>"

definition bot_spec :: "CatalogRule list \<Rightarrow> RoleSpecV7" where
  "bot_spec rs = \<lparr>sp_options = None, sp_allow = botInventoryLabels\<lparr>rd_rules := Some rs\<rparr>, sp_deny = Some deny_prod_apps\<rparr>"

definition renderHarnessRole :: RenderedRole where
  "renderHarnessRole =
     \<lparr>rr_name = bot_role BotHarness,
      rr_description = ''CI/test harness: seed test users (reset tokens), drive test requests, impersonate alice/bob'',
      rr_spec = \<lparr>sp_options = None,
        sp_allow = botInventoryLabels
          \<lparr>rd_rules := Some ([rule [''access_request''] [''list'', ''read'', ''create'', ''update'', ''delete''],
             rule [''user''] [''list'', ''read'', ''update''], rule [''role''] READ] @ botInventoryRules),
           rd_impersonate := Some ([''alice'', ''bob''], [ROLE_requester, ROLE_approver])\<rparr>,
        sp_deny = Some deny_prod_apps\<rparr>\<rparr>"

definition mcp_spec :: "Edition \<Rightarrow> RoleSpecV7" where
  "mcp_spec ed = bot_spec
     ([rule [''user''] READ, rule [''role''] READ, rule [''access_request''] [''list'', ''read'', ''create''],
       rule [''cluster_auth_preference''] READ] @ botInventoryRules
      @ (if ed = Enterprise then [rule [''access_monitoring_rule''] READ] else []))"

definition broker_spec :: RoleSpecV7 where
  "broker_spec = bot_spec
     ([rule [''access_request''] [''list'', ''read'', ''update''], rule [''access_plugin_data''] [''update''],
       rule [''user''] READ, rule [''role''] READ] @ botInventoryRules)"

definition renderBotRoles :: "Edition \<Rightarrow> bool \<Rightarrow> RenderedRole list" where
  "renderBotRoles ed harness =
     [\<lparr>rr_name = bot_role BotMcp,
       rr_description = ''MCP server: read users/roles/inventory, create pending access requests on behalf of users'',
       rr_spec = mcp_spec ed\<rparr>,
      \<lparr>rr_name = bot_role BotBroker,
       rr_description = ''Access broker: watch access requests and approve/deny them per policy'',
       rr_spec = broker_spec\<rparr>,
      \<lparr>rr_name = bot_role BotAgent,
       rr_description = ''Chat agent: read-only user lookup for identity mapping'',
       rr_spec = \<lparr>sp_options = None, sp_allow = no_conditions\<lparr>rd_rules := Some [rule [''user''] READ]\<rparr>, sp_deny = None\<rparr>\<rparr>,
      \<lparr>rr_name = bot_role BotPortal,
       rr_description = ''Access portal API: read users/roles/inventory, create pending access requests for portal users; approvals go through the broker'',
       rr_spec = mcp_spec ed\<rparr>]
     @ (if harness then [renderHarnessRole] else [])"

definition renderAllRoles :: "Edition \<Rightarrow> bool \<Rightarrow> bool option \<Rightarrow> RenderedRole list" where
  "renderAllRoles ed harness sessionMfa =
     (let mfa = nullish sessionMfa True in
      map (\<lambda>r. renderCatalogRole r ed mfa) CATALOG @ [renderRequesterRole ed mfa, renderApproverRole ed mfa]
      @ renderBotRoles ed harness)"

definition assignableRoleNames :: "string list" where
  "assignableRoleNames =
     filter (\<lambda>n. n \<notin> set (map bot_role BOT_KEYS)) (map rr_name (renderAllRoles Community True None))
     @ [''editor'', ''auditor'', ''access'']"

section \<open>The broker's policy\<close>

text \<open>\<open>toHours\<close>: an unreadable duration counts as 99 hours.\<close>

definition toHours :: "string \<Rightarrow> rat" where
  "toHours d =
     (let ds = takeWhile is_digit d; u = dropWhile is_digit d in
      if ds = [] then 99
      else if u = ''h'' then of_nat (read_nat ds)
      else if u = ''m'' then of_nat (read_nat ds) / 60
      else 99)"

definition minTtl :: "CatalogRole list \<Rightarrow> string" where
  "minTtl rs = (case sort_key toHours (map ct_maxSessionTtl rs) of [] \<Rightarrow> ''2h'' | t # _ \<Rightarrow> t)"

definition yaml_list :: "string list \<Rightarrow> string" where
  "yaml_list xs = ''['' @ join '', '' (map quote_str xs) @ '']''"

definition low_roles :: "CatalogRole list" where
  "low_roles = filter (\<lambda>r. ct_tier r = Low) CATALOG"

definition high_roles :: "CatalogRole list" where
  "high_roles = filter (\<lambda>r. ct_tier r = High) CATALOG"

definition approvers_line :: "string \<Rightarrow> string" where
  "approvers_line indent = indent @ ''approvers: { teleport_roles: ['' @ quote_str ROLE_approver @ ''], emails: [] }''"

definition notify_line :: "string \<Rightarrow> string \<Rightarrow> string" where
  "notify_line indent extra = indent @ ''notify: { channels: [{ adapter: slack, target: '' @ [DQ] @ ''#access-requests'' @ [DQ] @ '' }]'' @ extra @ '' }''"

definition policy_lines :: "string list" where
  "policy_lines =
     [''# Generated by infra/teleport/src/policy/render.ts from the role catalog. Do not edit by hand.'',
      ''apiVersion: access.k8s-teleport/v1'',
      ''kind: ApprovalPolicy'',
      ''# Only these roles may be granted through the broker; anything else is denied before the rules run.'',
      ''allowed_roles: '' @ yaml_list catalog_names,
      ''defaults:'',
      ''  action: require_approval'',
      ''  max_ttl: 8h'',
      approvers_line ''  '',
      notify_line ''  '' '''',
      ''rules:'',
      ''  - name: never-via-broker'',
      ''    match: { roles: '' @ yaml_list NEVER_AUTO_ROLES @ '' }'',
      ''    action: deny'',
      ''    reason: '' @ [DQ] @ ''administrative roles are never granted through the access broker'' @ [DQ],
      ''  - name: auto-approve-low-risk'',
      ''    match: { roles: '' @ yaml_list (map ct_name low_roles) @ '', requested_ttl_max: '' @ minTtl low_roles @ '' }'',
      ''    action: auto_approve'',
      ''    ttl_cap: '' @ minTtl low_roles,
      ''    reason: '' @ [DQ] @ ''auto-approved: low-risk environment'' @ [DQ],
      ''  - name: high-risk-needs-approval'',
      ''    match: { roles: '' @ yaml_list (map ct_name high_roles) @ '' }'',
      ''    action: require_approval'',
      approvers_line ''    '',
      ''    ttl_cap: '' @ minTtl high_roles,
      notify_line ''    '' '', mention_approvers: true'',
      '''']"

definition renderBrokerPolicy :: string where
  "renderBrokerPolicy = join [char_of (10::nat)] policy_lines"

section \<open>What a role grants\<close>

text \<open>
  Teleport's reading of a specification: a verb on a resource kind is granted when some allow rule names both
  (or the wildcard) and no deny rule does.
\<close>

definition rule_covers :: "string \<Rightarrow> string \<Rightarrow> CatalogRule \<Rightarrow> bool" where
  "rule_covers res verb r \<longleftrightarrow>
     (res \<in> set (cr_resources r) \<or> ''*'' \<in> set (cr_resources r)) \<and> (verb \<in> set (cr_verbs r) \<or> ''*'' \<in> set (cr_verbs r))"

definition rules_cover :: "string \<Rightarrow> string \<Rightarrow> RoleConditions \<Rightarrow> bool" where
  "rules_cover res verb c \<longleftrightarrow> list_ex (rule_covers res verb) (case rd_rules c of None \<Rightarrow> [] | Some rs \<Rightarrow> rs)"

definition grants :: "RoleSpecV7 \<Rightarrow> string \<Rightarrow> string \<Rightarrow> bool" where
  "grants s res verb \<longleftrightarrow>
     rules_cover res verb (sp_allow s) \<and> \<not> (case sp_deny s of None \<Rightarrow> False | Some d \<Rightarrow> rules_cover res verb d)"

definition holders :: "string \<Rightarrow> string \<Rightarrow> RenderedRole list \<Rightarrow> string list" where
  "holders res verb rs = map rr_name (filter (\<lambda>r. grants (rr_spec r) res verb) rs)"

text \<open>The role options that make an elevated session a supervised one.\<close>

definition hardened :: "Edition \<Rightarrow> bool \<Rightarrow> RoleOptions \<Rightarrow> bool" where
  "hardened ed mfa opts \<longleftrightarrow>
     ro_require_session_mfa opts = mfa_option mfa \<and> ro_disconnect_expired_cert opts = Some True \<and>
     ro_lock opts = Some ''strict'' \<and> ro_ssh_file_copy opts = Some False \<and> ro_ssh_port_forwarding opts = Some (False, False) \<and>
     ro_forward_agent opts = Some False \<and> ro_create_host_user_mode opts = Some ''off'' \<and>
     ro_enhanced_recording opts = Some [''command'', ''network''] \<and> (ed = Enterprise \<longleftrightarrow> ro_pin_source_ip opts = Some True)"

text \<open>A label selector that, if present, is confined to the given environments.\<close>

definition confined_to :: "string list \<Rightarrow> LabelSelector option \<Rightarrow> bool" where
  "confined_to envs l = (case l of None \<Rightarrow> True | Some s \<Rightarrow> s = [(''env'', envs)])"

section \<open>Lemmas\<close>

lemma confined_to_simps [simp]: "confined_to envs None" "confined_to envs (Some [(''env'', envs)])"
  by (simp_all add: confined_to_def)

lemma catalog_allow_labels:
  "confined_to (ct_envs r) (rd_node_labels (catalog_allow r))" "confined_to (ct_envs r) (rd_db_labels (catalog_allow r))"
  "confined_to (ct_envs r) (rd_kubernetes_labels (catalog_allow r))" "confined_to (ct_envs r) (rd_app_labels (catalog_allow r))"
  by (auto simp: catalog_allow_def Let_def confined_to_def no_conditions_def split: option.split)

lemma catalog_allow_scope:
  "rd_logins (catalog_allow r) = sc_nodes (ct_scope r)"
  "rd_db_users (catalog_allow r) = map_option ds_users (sc_dbs (ct_scope r))"
  "rd_kubernetes_groups (catalog_allow r) = map_option ks_groups (sc_kube (ct_scope r))"
  "rd_app_labels (catalog_allow r) = (if sc_apps (ct_scope r) then Some [(''env'', ct_envs r)] else None)"
  "rd_rules (catalog_allow r) = sc_rules (ct_scope r)" "rd_request (catalog_allow r) = None"
  "rd_review_roles (catalog_allow r) = None" "rd_impersonate (catalog_allow r) = None"
  by (simp_all add: catalog_allow_def Let_def no_conditions_def split: option.split)

lemma catalog_grants_write:
  assumes "verb \<in> set WRITE"
  shows "grants (rr_spec (renderCatalogRole r ed mfa)) res verb \<Longrightarrow>
    sc_rules (ct_scope r) \<noteq> None \<and> (res, verb) \<noteq> (''access_request'', ''update'')"
  using assms
  by (auto simp: grants_def renderCatalogRole_def catalog_deny_def rules_cover_def DENY_ALL_WRITES_def rule_covers_def
      rule_def WRITE_def no_conditions_def split: if_splits)

lemma hardened_options: "hardened ed mfa ((hardenedOptions ed mfa)\<lparr>ro_max_session_ttl := ttl\<rparr>)"
  by (cases ed; cases mfa)
    (simp_all add: hardened_def hardenedOptions_def Let_def HARDENED_OPTIONS_def withoutSessionMfa_def mfa_option_def no_options_def)

section \<open>Properties\<close>

text \<open>A requestable role is exactly as wide as its catalogue entry: every label selector it has is the entry's list of
  environments, logins, database users and Kubernetes groups are the entry's, it cannot be used to request, review or
  impersonate, its sessions are hardened for the edition, and it can create, update or delete a resource only when the
  entry carries rules, and never decide an access request.\<close>

theorem catalog_role_confined:
  "case renderCatalogRole r ed mfa of role \<Rightarrow>
     let a = sp_allow (rr_spec role) in
     rr_name role = ct_name r \<and>
     list_all (confined_to (ct_envs r)) [rd_node_labels a, rd_db_labels a, rd_kubernetes_labels a, rd_app_labels a] \<and>
     rd_logins a = sc_nodes (ct_scope r) \<and> rd_db_users a = map_option ds_users (sc_dbs (ct_scope r)) \<and>
     rd_kubernetes_groups a = map_option ks_groups (sc_kube (ct_scope r)) \<and>
     rd_request a = None \<and> rd_review_roles a = None \<and> rd_impersonate a = None \<and>
     (case sp_options (rr_spec role) of None \<Rightarrow> False
      | Some opts \<Rightarrow> hardened ed mfa opts \<and> ro_max_session_ttl opts = Some (ct_maxSessionTtl r)) \<and>
     list_all (\<lambda>verb. if sc_rules (ct_scope r) = None then \<not> grants (rr_spec role) res verb else True) WRITE \<and>
     \<not> grants (rr_spec role) ''access_request'' ''update''"
proof -
  have "verb \<in> set WRITE \<Longrightarrow> sc_rules (ct_scope r) = None \<Longrightarrow> \<not> grants (rr_spec (renderCatalogRole r ed mfa)) res verb" for verb
    using catalog_grants_write by blast
  moreover have "\<not> grants (rr_spec (renderCatalogRole r ed mfa)) ''access_request'' ''update''"
    using catalog_grants_write [of "''update''"] by (auto simp: WRITE_def)
  ultimately show ?thesis
    by (simp add: Let_def list_all_iff renderCatalogRole_def catalog_allow_labels catalog_allow_scope hardened_options)
qed

lemma rules_cover_simps:
  "rules_cover res verb c = (case rd_rules c of None \<Rightarrow> False | Some rs \<Rightarrow> list_ex (rule_covers res verb) rs)"
  by (simp add: rules_cover_def split: option.split)

lemma inventory_no_write: "verb \<in> set WRITE \<Longrightarrow> \<not> list_ex (rule_covers res verb) botInventoryRules"
  by (auto simp: botInventoryRules_def rule_covers_def rule_def WRITE_def READ_def RESOURCE_KINDS_def)

lemma catalog_grants:
  "verb \<in> set WRITE \<Longrightarrow> grants (rr_spec (renderCatalogRole r ed mfa)) res verb \<longleftrightarrow>
     (res, verb) \<noteq> (''access_request'', ''update'') \<and>
     (case sc_rules (ct_scope r) of None \<Rightarrow> False | Some rs \<Rightarrow> list_ex (rule_covers res verb) rs)"
  by (auto simp: grants_def renderCatalogRole_def catalog_deny_def rules_cover_simps DENY_ALL_WRITES_def rule_covers_def
      rule_def WRITE_def no_conditions_def catalog_allow_scope split: if_splits option.splits)

definition BREAK_GLASS_KINDS :: "string list" where
  "BREAK_GLASS_KINDS = [''role'', ''user'', ''token'', ''auth_connector'', ''lock'']"

definition BREAK_GLASS_RULE :: CatalogRule where
  "BREAK_GLASS_RULE = rule BREAK_GLASS_KINDS (READ @ WRITE)"

text \<open>The break-glass editor is the last entry and the only one with rules.\<close>

lemma catalog_rules:
  "\<exists>rest bg. CATALOG = rest @ [bg] \<and> list_all (\<lambda>r. sc_rules (ct_scope r) = None) rest \<and>
     ct_name bg = ''break-glass-editor'' \<and> sc_rules (ct_scope bg) = Some [BREAK_GLASS_RULE]"
proof (intro exI conjI)
  show "CATALOG = butlast CATALOG @ [last CATALOG]" by (simp add: CATALOG_def)
  show "list_all (\<lambda>r. sc_rules (ct_scope r) = None) (butlast CATALOG)"
    by (simp add: CATALOG_def crole_def ssh_scope_def db_scope_def kube_scope_def app_scope_def no_scope_def)
  show "ct_name (last CATALOG) = ''break-glass-editor''" by (simp add: CATALOG_def crole_def)
  show "sc_rules (ct_scope (last CATALOG)) = Some [BREAK_GLASS_RULE]"
    by (simp add: CATALOG_def crole_def BREAK_GLASS_RULE_def rule_def BREAK_GLASS_KINDS_def READ_def WRITE_def)
qed

lemma catalog_holders:
  assumes "verb \<in> set WRITE"
  shows "holders res verb (map (\<lambda>r. renderCatalogRole r ed mfa) CATALOG) =
    (if res \<in> set BREAK_GLASS_KINDS then [''break-glass-editor''] else [])"
proof -
  obtain rest bg where c: "CATALOG = rest @ [bg]" "list_all (\<lambda>r. sc_rules (ct_scope r) = None) rest"
    "ct_name bg = ''break-glass-editor''" "sc_rules (ct_scope bg) = Some [BREAK_GLASS_RULE]" using catalog_rules by blast
  have g: "grants (rr_spec (renderCatalogRole r ed mfa)) res verb \<longleftrightarrow>
      (if sc_rules (ct_scope r) = None then False
       else (res, verb) \<noteq> (''access_request'', ''update'') \<and> list_ex (rule_covers res verb) (the (sc_rules (ct_scope r))))" for r
    using catalog_grants [OF assms] by (auto split: option.split)
  have "rule_covers res verb BREAK_GLASS_RULE \<longleftrightarrow> res \<in> set BREAK_GLASS_KINDS"
    using assms by (auto simp: rule_covers_def BREAK_GLASS_RULE_def rule_def BREAK_GLASS_KINDS_def WRITE_def READ_def)
  moreover have "res \<in> set BREAK_GLASS_KINDS \<Longrightarrow> res \<noteq> ''access_request''" by (auto simp: BREAK_GLASS_KINDS_def)
  moreover have "filter (\<lambda>r. grants (rr_spec (renderCatalogRole r ed mfa)) res verb) rest = []"
    using c(2) g by (auto simp: filter_empty_conv list_all_iff)
  moreover have "rr_name (renderCatalogRole bg ed mfa) = ''break-glass-editor''" by (simp add: renderCatalogRole_def c(3))
  ultimately show ?thesis using g [of bg] c(4) by (auto simp: holders_def filter_map o_def c(1))
qed

lemma holders_simps:
  "holders res verb [] = []"
  "holders res verb (r # rs) = (if grants (rr_spec r) res verb then [rr_name r] else []) @ holders res verb rs"
  "holders res verb (xs @ ys) = holders res verb xs @ holders res verb ys"
  by (simp_all add: holders_def)

lemma fixed_holders:
  assumes "verb \<in> set WRITE"
  shows "holders res verb [renderRequesterRole ed mfa, renderApproverRole ed mfa] =
    (if res \<in> {''access_request'', ''access_plugin_data''} \<and> verb = ''update'' then [ROLE_approver] else [])"
  using assms
  by (auto simp: holders_def renderRequesterRole_def renderApproverRole_def grants_def rules_cover_simps rule_covers_def rule_def
      no_conditions_def READ_def WRITE_def)

lemma bot_holders:
  assumes "verb \<in> set WRITE"
  shows "holders res verb (renderBotRoles ed harness) =
    (if res = ''access_request'' \<and> verb = ''create'' then [bot_role BotMcp] else []) @
    (if res \<in> {''access_request'', ''access_plugin_data''} \<and> verb = ''update'' then [bot_role BotBroker] else []) @
    (if res = ''access_request'' \<and> verb = ''create'' then [bot_role BotPortal] else []) @
    (if harness \<and> (res = ''access_request'' \<or> res = ''user'' \<and> verb = ''update'') then [bot_role BotHarness] else [])"
proof -
  have d: "grants s res verb = rules_cover res verb (sp_allow s)" if "sp_deny s = Some deny_prod_apps \<or> sp_deny s = None" for s
    using that by (auto simp: grants_def rules_cover_simps deny_prod_apps_def no_conditions_def)
  have i: "\<not> list_ex (rule_covers res verb) botInventoryRules" by (rule inventory_no_write [OF assms])
  have r: "\<not> rule_covers res verb (rule [k] READ)" if "k \<noteq> ''*''" for k
    using assms by (auto simp: rule_covers_def rule_def WRITE_def READ_def)
  have c: "rule_covers res verb (rule [''access_request''] vs) \<longleftrightarrow> res = ''access_request'' \<and> verb \<in> set vs" if "''*'' \<notin> set vs" for vs
    using that by (auto simp: rule_covers_def rule_def)
  have p: "rule_covers res verb (rule [''access_plugin_data''] [''update'']) \<longleftrightarrow> res = ''access_plugin_data'' \<and> verb = ''update''"
    "rule_covers res verb (rule [''user''] [''list'', ''read'', ''update'']) \<longleftrightarrow> res = ''user'' \<and> verb = ''update''"
    using assms by (auto simp: rule_covers_def rule_def WRITE_def)
  have "grants (mcp_spec ed) res verb \<longleftrightarrow> res = ''access_request'' \<and> verb = ''create''"
    using assms i by (auto simp: d mcp_spec_def bot_spec_def rules_cover_simps r c WRITE_def)
  moreover have "grants broker_spec res verb \<longleftrightarrow> res \<in> {''access_request'', ''access_plugin_data''} \<and> verb = ''update''"
    using assms i by (auto simp: d broker_spec_def bot_spec_def rules_cover_simps r c p WRITE_def)
  moreover have "\<not> grants \<lparr>sp_options = None, sp_allow = no_conditions\<lparr>rd_rules := Some [rule [''user''] READ]\<rparr>, sp_deny = None\<rparr> res verb"
    by (simp add: d rules_cover_simps r)
  moreover have "grants (rr_spec renderHarnessRole) res verb \<longleftrightarrow> res = ''access_request'' \<or> res = ''user'' \<and> verb = ''update''"
    using assms i by (auto simp: d renderHarnessRole_def rules_cover_simps r c p WRITE_def)
  moreover have "rr_name renderHarnessRole = bot_role BotHarness" by (simp add: renderHarnessRole_def)
  ultimately show ?thesis
    by (cases harness)
      (simp_all only: renderBotRoles_def holders_simps RenderedRole.simps if_True if_False append_Nil append_Nil2 append_Cons simp_thms)
qed

text \<open>The writers the stack intends, for each resource kind and verb.\<close>

definition intended_writers :: "bool \<Rightarrow> string \<Rightarrow> string \<Rightarrow> string list" where
  "intended_writers harness res verb =
     (if res \<in> set BREAK_GLASS_KINDS then [''break-glass-editor''] else []) @
     (if res \<in> {''access_request'', ''access_plugin_data''} \<and> verb = ''update'' then [ROLE_approver] else []) @
     (if res = ''access_request'' \<and> verb = ''create'' then [bot_role BotMcp] else []) @
     (if res \<in> {''access_request'', ''access_plugin_data''} \<and> verb = ''update'' then [bot_role BotBroker] else []) @
     (if res = ''access_request'' \<and> verb = ''create'' then [bot_role BotPortal] else []) @
     (if harness \<and> (res = ''access_request'' \<or> res = ''user'' \<and> verb = ''update'') then [bot_role BotHarness] else [])"

lemma holders_write: "verb \<in> set WRITE \<Longrightarrow> holders res verb (renderAllRoles ed harness mfa) = intended_writers harness res verb"
  by (simp only: intended_writers_def renderAllRoles_def Let_def holders_simps(3) catalog_holders fixed_holders bot_holders)

text \<open>C14. Who may write what: of all rendered roles, whatever the edition and the options, only the break-glass editor may
  create, update or delete roles, users, tokens, connectors and locks (the test harness may update users); an access request
  is decided only by the approver, the broker's role and the harness, and created only by the MCP server, the portal and the
  harness; and nothing else can be written by any role: not the cluster's security settings, and not a resource kind the
  stack does not know.\<close>

theorem write_matrix:
  "if verb \<in> set WRITE then holders res verb (renderAllRoles ed harness mfa) = intended_writers harness res verb else True"
  by (simp add: holders_write)

lemma minTtl_least:
  "rs \<noteq> [] \<Longrightarrow> minTtl rs \<in> ct_maxSessionTtl ` set rs \<and> list_all (\<lambda>r. toHours (minTtl rs) \<le> toHours (ct_maxSessionTtl r)) rs"
proof -
  assume "rs \<noteq> []"
  then obtain t ts where s: "sort_key toHours (map ct_maxSessionTtl rs) = t # ts"
    by (metis length_0_conv length_map length_sort neq_Nil_conv)
  then have "t # ts = sort_key toHours (map ct_maxSessionTtl rs)" by simp
  then have "set (t # ts) = ct_maxSessionTtl ` set rs" and "sorted (map toHours (t # ts))" by (simp_all del: set_simps list.map)
  then have "t \<in> ct_maxSessionTtl ` set rs" "x \<in> ct_maxSessionTtl ` set rs \<Longrightarrow> toHours t \<le> toHours x" for x by auto
  then show ?thesis using s by (auto simp: minTtl_def list_all_iff)
qed

text \<open>The broker's policy keeps the tiers apart: its automatic and its approval rule together name exactly the
  catalogue's roles, none of them twice and none that is barred from the broker; every automatically approved role is confined
  to low-risk environments and grants no administrative rule; and each rule's lifetime cap is the least of its roles' own
  maximal lifetimes, so a grant never outlives what the role allows.\<close>

theorem broker_policy_sound:
  "mset (map ct_name low_roles @ map ct_name high_roles) = mset catalog_names \<and> distinct catalog_names \<and>
   list_all (\<lambda>n. n \<notin> set NEVER_AUTO_ROLES) catalog_names \<and>
   list_all (\<lambda>r. set (ct_envs r) \<subseteq> set LOW_RISK_ENVS \<and> sc_rules (ct_scope r) = None) low_roles \<and>
   list_all (\<lambda>r. toHours (minTtl low_roles) \<le> toHours (ct_maxSessionTtl r)) low_roles \<and>
   list_all (\<lambda>r. toHours (minTtl high_roles) \<le> toHours (ct_maxSessionTtl r)) high_roles \<and>
   minTtl low_roles \<in> ct_maxSessionTtl ` set low_roles \<and> minTtl high_roles \<in> ct_maxSessionTtl ` set high_roles"
proof (intro conjI)
  have h: "high_roles = filter (\<lambda>r. \<not> ct_tier r = Low) CATALOG"
    unfolding high_roles_def by (rule filter_cong) (auto intro: RiskTier.exhaust)
  have "mset (low_roles @ high_roles) =
      filter_mset (\<lambda>r. ct_tier r = Low) (mset CATALOG) + filter_mset (\<lambda>r. \<not> ct_tier r = Low) (mset CATALOG)"
    unfolding low_roles_def h by (simp only: mset_append mset_filter)
  then have "mset (low_roles @ high_roles) = mset CATALOG" by (simp only: multiset_partition [symmetric])
  then show "mset (map ct_name low_roles @ map ct_name high_roles) = mset catalog_names"
    by (metis catalog_names_def map_append mset_map)
  show "distinct catalog_names" by (simp add: catalog_names_eval)
  show "list_all (\<lambda>n. n \<notin> set NEVER_AUTO_ROLES) catalog_names" by (simp add: catalog_names_eval NEVER_AUTO_ROLES_def)
  show "list_all (\<lambda>r. set (ct_envs r) \<subseteq> set LOW_RISK_ENVS \<and> sc_rules (ct_scope r) = None) low_roles"
    by (simp add: low_roles_def CATALOG_def crole_def ssh_scope_def db_scope_def kube_scope_def app_scope_def no_scope_def)
  have ne: "low_roles \<noteq> []" "high_roles \<noteq> []" by (simp_all add: low_roles_def high_roles_def CATALOG_def crole_def)
  show "list_all (\<lambda>r. toHours (minTtl low_roles) \<le> toHours (ct_maxSessionTtl r)) low_roles"
    "list_all (\<lambda>r. toHours (minTtl high_roles) \<le> toHours (ct_maxSessionTtl r)) high_roles"
    "minTtl low_roles \<in> ct_maxSessionTtl ` set low_roles" "minTtl high_roles \<in> ct_maxSessionTtl ` set high_roles"
    using minTtl_least ne by simp_all
qed

end
