(* ===== verification/StackSchema.thy ===== *)
theory StackSchema
  imports RoleRender "HOL-Library.Monad_Syntax"
begin

text \<open>
  The stack configuration and its schema (\<open>infra/teleport/src/config/schema.ts\<close>): the types and the parser that
  fills in defaults and rejects everything else. A parser takes the member it reads, absent as \<^const>\<open>None\<close>;
  the wording of zod's issues is not modelled, and zod's syntax check of an e-mail address is a parameter.
\<close>

section \<open>Types\<close>

datatype StackPlatform = PKind | PEks | PGke | PAks | PGeneric

record LoadBalancer =
  lb_annotations :: "(string \<times> string) list"
  lb_loadBalancerIP :: "string option"
  lb_sourceRanges :: "string list"
  lb_internal :: bool
  lb_proxyProtocol :: bool

datatype Exposure =
    ExNodePort int
  | ExLoadBalancer LoadBalancer
  | ExIngress string "(string \<times> string) list"

datatype IssuerKind = Issuer | ClusterIssuer

datatype TlsMode =
    TlsSelfSigned
  | TlsAcme string
  | TlsCertManager string IssuerKind string
  | TlsExistingSecret string
  | TlsLocalFiles string string string

record AwsBackend =
  aw_region :: string
  aw_backendTable :: string
  aw_auditLogTable :: string
  aw_sessionRecordingBucket :: string
  aw_auditLogMirrorOnStdout :: bool
  aw_serviceAccountRoleArn :: "string option"

record GcpBackend =
  gp_projectId :: string
  gp_backendTable :: string
  gp_auditLogTable :: string
  gp_sessionRecordingBucket :: string
  gp_credentialSecretName :: "string option"
  gp_workloadIdentityServiceAccount :: "string option"

record AzureBackend =
  az_databaseHost :: string
  az_databaseUser :: string
  az_sessionRecordingStorageAccount :: string
  az_auditLogStorageAccount :: string
  az_clientID :: string

datatype ChartMode =
    Standalone "string option" string
  | Aws AwsBackend
  | Gcp GcpBackend
  | Azure AzureBackend

datatype AuthType = AuthLocal | AuthGithub | AuthOidc | AuthSaml
datatype SecondFactor = Otp | Webauthn | Sso

record AuthConfig =
  au_type :: AuthType
  au_connectorName :: "string option"
  au_secondFactors :: "SecondFactor list"
  au_localAuth :: bool
  au_webauthnRpId :: "string option"

record TeamMapping =
  tm_team :: string
  tm_roles :: "string list"

record GithubConfig =
  gh_clientId :: string
  gh_organization :: string
  gh_display :: string
  gh_teamsToRoles :: "TeamMapping list"

datatype PullPolicy = IfNotPresent | Always | Never

record ImagesConfig =
  ic_registry :: string
  ic_tag :: string
  ic_pullPolicy :: PullPolicy
  ic_digests :: "(string \<times> string) list"
  ic_verifySignatures :: bool
  ic_signerSubjectRegexp :: "string option"

datatype CloudStandin = NoStandin | StaticStandin | Localstack

record DummiesConfig =
  dm_enabled :: bool
  dm_sshNodes :: "(string \<times> int) list"
  dm_postgres :: bool
  dm_mysql :: bool
  dm_httpbin :: bool
  dm_cloudStandin :: CloudStandin

datatype AgentAdapter = AdCli | AdSlack | AdTeams | AdGchat
datatype AgentAuth = ApiKeyAuth | SubscriptionAuth

record AgentService =
  ag_enabled :: bool
  ag_adapters :: "AgentAdapter list"
  ag_auth :: AgentAuth
  ag_persistSessions :: bool
  ag_allowedEmailDomains :: "string list"
  ag_slackAllowedTeamIds :: "string list"

datatype IdentityFallback = FallbackNone | FallbackUsername

record PortalService =
  po_enabled :: bool
  po_identities :: "(string \<times> string) list"
  po_identityFallback :: IdentityFallback
  po_backstage :: "(string \<times> (string \<times> string) list) option"

record ServicesConfig =
  sv_mcp :: bool
  sv_broker :: bool
  sv_brokerForce :: bool
  sv_agent :: AgentService
  sv_portal :: PortalService
  sv_harness :: bool

record LocalUser =
  us_name :: string
  us_roles :: "string list"
  us_traits :: "(string \<times> string list) list"

record StackConfig =
  st_env :: string
  st_platform :: StackPlatform
  st_kubeContext :: string
  st_kubeconfig :: "string option"
  st_clusterName :: string
  st_publicAddr :: string
  st_version :: string
  st_edition :: Edition
  st_exposure :: Exposure
  st_tls :: TlsMode
  st_auth :: AuthConfig
  st_github :: "GithubConfig option"
  st_chartMode :: ChartMode
  st_images :: ImagesConfig
  st_insecureLocal :: bool
  st_dummies :: DummiesConfig
  st_services :: ServicesConfig
  st_users :: "LocalUser list"

section \<open>Parsers\<close>

type_synonym 'a parser = "json option \<Rightarrow> 'a option"

definition p_str :: "(string \<Rightarrow> bool) \<Rightarrow> string parser" where
  "p_str ok v = (case v of Some (JStr s) \<Rightarrow> if ok s then Some s else None | _ \<Rightarrow> None)"

definition any_str :: "string parser" where "any_str = p_str (\<lambda>_. True)"
definition str_min1 :: "string parser" where "str_min1 = p_str (\<lambda>s. s \<noteq> [])"

definition p_bool :: "bool parser" where
  "p_bool v = (case v of Some (JBool b) \<Rightarrow> Some b | _ \<Rightarrow> None)"

definition p_int :: "int \<Rightarrow> int \<Rightarrow> int parser" where
  "p_int lo hi v = (case v of Some (JInt i) \<Rightarrow> if lo \<le> i \<and> i \<le> hi then Some i else None | _ \<Rightarrow> None)"

definition p_enum :: "(string \<times> 'a) list \<Rightarrow> 'a parser" where
  "p_enum names v = (case v of Some (JStr s) \<Rightarrow> map_of names s | _ \<Rightarrow> None)"

definition p_default :: "'a \<Rightarrow> 'a parser \<Rightarrow> 'a parser" where
  "p_default d p v = (if v = None then Some d else p v)"

definition p_optional :: "'a parser \<Rightarrow> 'a option parser" where
  "p_optional p v = (if v = None then Some None else map_option Some (p v))"

text \<open>All results, or nothing.\<close>

fun traverse :: "('a \<Rightarrow> 'b option) \<Rightarrow> 'a list \<Rightarrow> 'b list option" where
  "traverse f [] = Some []"
| "traverse f (x # xs) = (case f x of None \<Rightarrow> None | Some y \<Rightarrow> map_option ((#) y) (traverse f xs))"

definition p_array :: "nat \<Rightarrow> 'a parser \<Rightarrow> 'a list parser" where
  "p_array least p v =
     (case v of Some (JArr xs) \<Rightarrow> if least \<le> length xs then traverse (\<lambda>x. p (Some x)) xs else None | _ \<Rightarrow> None)"

definition p_record :: "(string \<Rightarrow> bool) \<Rightarrow> 'a parser \<Rightarrow> (string \<times> 'a) list parser" where
  "p_record key p v =
     (case v of
        Some (JObj kvs) \<Rightarrow> traverse (\<lambda>(k, x). if key k then map_option (Pair k) (p (Some x)) else None) kvs
      | _ \<Rightarrow> None)"

text \<open>An object: the parser of its members, over the function that reads a member.\<close>

definition p_object :: "((string \<Rightarrow> json option) \<Rightarrow> 'a option) \<Rightarrow> 'a parser" where
  "p_object f v = (case v of Some (JObj kvs) \<Rightarrow> f (map_of kvs) | _ \<Rightarrow> None)"

text \<open>
  The members of an object are read one after the other in the option monad (the source collects the issues of all
  members; whether there is one at all is the same).
\<close>

section \<open>Formats\<close>

definition digits :: "nat \<Rightarrow> nat \<Rightarrow> string \<Rightarrow> bool" where
  "digits lo hi s \<longleftrightarrow> lo \<le> length s \<and> length s \<le> hi \<and> list_all is_digit s"

text \<open>\<open>/^\d{1,3}(\.\d{1,3}){3}\/\d{1,2}$/\<close>, \<open>/^\d+\.\d+\.\d+$/\<close> and \<open>/^sha256:[a-f0-9]{64}$/\<close>.\<close>

definition cidr_ok :: "string \<Rightarrow> bool" where
  "cidr_ok s =
     (case split_on (CHR ''/'') s of
        [a, m] \<Rightarrow> digits 1 2 m \<and> length (split_on (CHR ''.'') a) = 4 \<and> list_all (digits 1 3) (split_on (CHR ''.'') a)
      | _ \<Rightarrow> False)"

definition version_ok :: "string \<Rightarrow> bool" where
  "version_ok s \<longleftrightarrow> length (split_on (CHR ''.'') s) = 3 \<and>
     list_all (\<lambda>d. d \<noteq> [] \<and> list_all is_digit d) (split_on (CHR ''.'') s)"

definition digest_ok :: "string \<Rightarrow> bool" where
  "digest_ok s \<longleftrightarrow> starts_with ''sha256:'' s \<and> length (drop 7 s) = 64 \<and> list_all is_hex_lower (drop 7 s)"

definition role_name :: "string parser" where
  "role_name = p_str (\<lambda>r. r \<noteq> [] \<and> r \<in> set assignableRoleNames)"

section \<open>The schema\<close>

definition enabled_flag :: "bool \<Rightarrow> bool parser" where
  "enabled_flag d = p_object (\<lambda>m. p_default d p_bool (m ''enabled''))"

definition p_strings :: "(string \<Rightarrow> bool) \<Rightarrow> string list parser" where
  "p_strings ok = p_array 0 (p_str ok)"

definition string_map :: "(string \<times> string) list parser" where
  "string_map = p_record (\<lambda>_. True) any_str"

definition ExposureSchema :: "Exposure parser" where
  "ExposureSchema = p_object (\<lambda>m.
     if m ''type'' = Some (JStr ''nodeport'') then
       map_option ExNodePort (p_default 30080 (p_int 30000 32767) (m ''nodePort''))
     else if m ''type'' = Some (JStr ''loadbalancer'') then do {
       annotations \<leftarrow> p_default [] string_map (m ''annotations'');
       ip \<leftarrow> p_optional any_str (m ''loadBalancerIP'');
       ranges \<leftarrow> p_default [] (p_strings cidr_ok) (m ''sourceRanges'');
       internal \<leftarrow> p_default True p_bool (m ''internal'');
       proxy \<leftarrow> p_default False p_bool (m ''proxyProtocol'');
       Some (ExLoadBalancer \<lparr>lb_annotations = annotations, lb_loadBalancerIP = ip, lb_sourceRanges = ranges,
         lb_internal = internal, lb_proxyProtocol = proxy\<rparr>)
     }
     else if m ''type'' = Some (JStr ''ingress'') then do {
       className \<leftarrow> any_str (m ''className'');
       annotations \<leftarrow> p_default [] string_map (m ''annotations'');
       Some (ExIngress className annotations)
     }
     else None)"

definition TLS_DIR :: string where "TLS_DIR = ''../../.dogfood/teleport/tls/''"

definition TlsSchema :: "(string \<Rightarrow> bool) \<Rightarrow> TlsMode parser" where
  "TlsSchema is_email = p_object (\<lambda>m.
     if m ''mode'' = Some (JStr ''self-signed'') then Some TlsSelfSigned
     else if m ''mode'' = Some (JStr ''acme'') then map_option TlsAcme (p_str is_email (m ''email''))
     else if m ''mode'' = Some (JStr ''cert-manager'') then do {
       name \<leftarrow> any_str (m ''issuerName'');
       kind \<leftarrow> p_default ClusterIssuer (p_enum [(''Issuer'', Issuer), (''ClusterIssuer'', ClusterIssuer)]) (m ''issuerKind'');
       grp \<leftarrow> p_default ''cert-manager.io'' any_str (m ''issuerGroup'');
       Some (TlsCertManager name kind grp)
     }
     else if m ''mode'' = Some (JStr ''existing-secret'') then map_option TlsExistingSecret (any_str (m ''secretName''))
     else if m ''mode'' = Some (JStr ''local-files'') then do {
       cert \<leftarrow> p_default (TLS_DIR @ ''teleport.crt'') str_min1 (m ''certFile'');
       key \<leftarrow> p_default (TLS_DIR @ ''teleport.key'') str_min1 (m ''keyFile'');
       ca \<leftarrow> p_default (TLS_DIR @ ''ca.crt'') str_min1 (m ''caFile'');
       Some (TlsLocalFiles cert key ca)
     }
     else None)"

definition AwsSchema :: "(string \<Rightarrow> json option) \<Rightarrow> ChartMode option" where
  "AwsSchema m = do {
     region \<leftarrow> any_str (m ''region'');
     backend \<leftarrow> any_str (m ''backendTable'');
     audit \<leftarrow> any_str (m ''auditLogTable'');
     bucket \<leftarrow> any_str (m ''sessionRecordingBucket'');
     mirror \<leftarrow> p_default True p_bool (m ''auditLogMirrorOnStdout'');
     arn \<leftarrow> p_optional any_str (m ''serviceAccountRoleArn'');
     Some (Aws \<lparr>aw_region = region, aw_backendTable = backend, aw_auditLogTable = audit,
       aw_sessionRecordingBucket = bucket, aw_auditLogMirrorOnStdout = mirror, aw_serviceAccountRoleArn = arn\<rparr>)
   }"

definition GcpSchema :: "(string \<Rightarrow> json option) \<Rightarrow> ChartMode option" where
  "GcpSchema m = do {
     project \<leftarrow> any_str (m ''projectId'');
     backend \<leftarrow> any_str (m ''backendTable'');
     audit \<leftarrow> any_str (m ''auditLogTable'');
     bucket \<leftarrow> any_str (m ''sessionRecordingBucket'');
     cred \<leftarrow> p_optional any_str (m ''credentialSecretName'');
     wi \<leftarrow> p_optional any_str (m ''workloadIdentityServiceAccount'');
     Some (Gcp \<lparr>gp_projectId = project, gp_backendTable = backend, gp_auditLogTable = audit,
       gp_sessionRecordingBucket = bucket, gp_credentialSecretName = cred, gp_workloadIdentityServiceAccount = wi\<rparr>)
   }"

definition AzureSchema :: "(string \<Rightarrow> json option) \<Rightarrow> ChartMode option" where
  "AzureSchema m = do {
     host \<leftarrow> any_str (m ''databaseHost'');
     user \<leftarrow> any_str (m ''databaseUser'');
     sessions \<leftarrow> any_str (m ''sessionRecordingStorageAccount'');
     audit \<leftarrow> any_str (m ''auditLogStorageAccount'');
     client \<leftarrow> any_str (m ''clientID'');
     Some (Azure \<lparr>az_databaseHost = host, az_databaseUser = user, az_sessionRecordingStorageAccount = sessions,
       az_auditLogStorageAccount = audit, az_clientID = client\<rparr>)
   }"

definition ChartModeSchema :: "ChartMode parser" where
  "ChartModeSchema = p_object (\<lambda>m.
     if m ''mode'' = Some (JStr ''standalone'') then do {
       storage \<leftarrow> p_optional any_str (m ''storageClass'');
       volume \<leftarrow> p_default ''5Gi'' any_str (m ''volumeSize'');
       Some (Standalone storage volume)
     }
     else if m ''mode'' = Some (JStr ''aws'') then AwsSchema m
     else if m ''mode'' = Some (JStr ''gcp'') then GcpSchema m
     else if m ''mode'' = Some (JStr ''azure'') then AzureSchema m
     else None)"

definition AuthSchema :: "AuthConfig parser" where
  "AuthSchema = p_object (\<lambda>m. do {
     ty \<leftarrow> p_default AuthGithub
       (p_enum [(''local'', AuthLocal), (''github'', AuthGithub), (''oidc'', AuthOidc), (''saml'', AuthSaml)]) (m ''type'');
     connector \<leftarrow> p_optional any_str (m ''connectorName'');
     factors \<leftarrow> p_default [Otp] (p_array 1 (p_enum [(''otp'', Otp), (''webauthn'', Webauthn), (''sso'', Sso)])) (m ''secondFactors'');
     local \<leftarrow> p_default True p_bool (m ''localAuth'');
     rp \<leftarrow> p_optional any_str (m ''webauthnRpId'');
     Some \<lparr>au_type = ty, au_connectorName = connector, au_secondFactors = factors, au_localAuth = local, au_webauthnRpId = rp\<rparr>
   })"

definition TeamSchema :: "TeamMapping parser" where
  "TeamSchema = p_object (\<lambda>m. do {
     team \<leftarrow> str_min1 (m ''team'');
     roles \<leftarrow> p_array 1 role_name (m ''roles'');
     Some \<lparr>tm_team = team, tm_roles = roles\<rparr>
   })"

definition GithubSchema :: "GithubConfig parser" where
  "GithubSchema = p_object (\<lambda>m. do {
     client \<leftarrow> str_min1 (m ''clientId'');
     org \<leftarrow> str_min1 (m ''organization'');
     disp \<leftarrow> p_default ''GitHub'' any_str (m ''display'');
     teams \<leftarrow> p_array 1 TeamSchema (m ''teamsToRoles'');
     Some \<lparr>gh_clientId = client, gh_organization = org, gh_display = disp, gh_teamsToRoles = teams\<rparr>
   })"

definition ImagesSchema :: "ImagesConfig parser" where
  "ImagesSchema = p_object (\<lambda>m. do {
     registry \<leftarrow> p_default [] any_str (m ''registry'');
     tag \<leftarrow> p_default ''dev'' any_str (m ''tag'');
     pull \<leftarrow> p_default IfNotPresent
       (p_enum [(''IfNotPresent'', IfNotPresent), (''Always'', Always), (''Never'', Never)]) (m ''pullPolicy'');
     digests \<leftarrow> p_default [] (p_record (\<lambda>_. True) (p_str digest_ok)) (m ''digests'');
     verify \<leftarrow> p_default False p_bool (m ''verifySignatures'');
     signer \<leftarrow> p_optional str_min1 (m ''signerSubjectRegexp'');
     Some \<lparr>ic_registry = registry, ic_tag = tag, ic_pullPolicy = pull, ic_digests = digests,
       ic_verifySignatures = verify, ic_signerSubjectRegexp = signer\<rparr>
   })"

definition DummiesSchema :: "DummiesConfig parser" where
  "DummiesSchema = p_object (\<lambda>m. do {
     enabled \<leftarrow> p_default True p_bool (m ''enabled'');
     nodes \<leftarrow> p_default [(''dev'', 2), (''prod'', 1)] (p_record (\<lambda>_. True) (p_int 0 5)) (m ''sshNodes'');
     postgres \<leftarrow> p_default True p_bool (m ''postgres'');
     mysql \<leftarrow> p_default False p_bool (m ''mysql'');
     httpbin \<leftarrow> p_default True p_bool (m ''httpbin'');
     cloud \<leftarrow> p_default StaticStandin
       (p_enum [(''none'', NoStandin), (''static'', StaticStandin), (''localstack'', Localstack)]) (m ''cloudStandin'');
     Some \<lparr>dm_enabled = enabled, dm_sshNodes = nodes, dm_postgres = postgres, dm_mysql = mysql, dm_httpbin = httpbin,
       dm_cloudStandin = cloud\<rparr>
   })"

definition AgentSchema :: "AgentService parser" where
  "AgentSchema = p_object (\<lambda>m. do {
     enabled \<leftarrow> p_default False p_bool (m ''enabled'');
     adapters \<leftarrow> p_default [AdCli]
       (p_array 0 (p_enum [(''cli'', AdCli), (''slack'', AdSlack), (''teams'', AdTeams), (''gchat'', AdGchat)])) (m ''adapters'');
     auth \<leftarrow> p_default ApiKeyAuth (p_enum [(''api-key'', ApiKeyAuth), (''subscription'', SubscriptionAuth)]) (m ''auth'');
     persist \<leftarrow> p_default False p_bool (m ''persistSessions'');
     domains \<leftarrow> p_default [] (p_strings (\<lambda>s. 3 \<le> length s)) (m ''allowedEmailDomains'');
     teams \<leftarrow> p_default [] (p_strings (\<lambda>s. s \<noteq> [])) (m ''slackAllowedTeamIds'');
     Some \<lparr>ag_enabled = enabled, ag_adapters = adapters, ag_auth = auth, ag_persistSessions = persist,
       ag_allowedEmailDomains = domains, ag_slackAllowedTeamIds = teams\<rparr>
   })"

definition AGENT_DEFAULT :: AgentService where
  "AGENT_DEFAULT = \<lparr>ag_enabled = False, ag_adapters = [AdCli], ag_auth = ApiKeyAuth, ag_persistSessions = False,
     ag_allowedEmailDomains = [], ag_slackAllowedTeamIds = []\<rparr>"

definition BackstageSchema :: "(string \<times> (string \<times> string) list) parser" where
  "BackstageSchema = p_object (\<lambda>m. do {
     ns \<leftarrow> str_min1 (m ''namespace'');
     labels \<leftarrow> string_map (m ''podLabels'');
     Some (ns, labels)
   })"

definition PortalSchema :: "PortalService parser" where
  "PortalSchema = p_object (\<lambda>m. do {
     enabled \<leftarrow> p_default True p_bool (m ''enabled'');
     ids \<leftarrow> p_default [] (p_record (\<lambda>k. k \<noteq> []) str_min1) (m ''identities'');
     fallback \<leftarrow> p_default FallbackNone (p_enum [(''none'', FallbackNone), (''username'', FallbackUsername)]) (m ''identityFallback'');
     backstage \<leftarrow> p_optional BackstageSchema (m ''backstage'');
     Some \<lparr>po_enabled = enabled, po_identities = ids, po_identityFallback = fallback, po_backstage = backstage\<rparr>
   })"

definition PORTAL_DEFAULT :: PortalService where
  "PORTAL_DEFAULT = \<lparr>po_enabled = True, po_identities = [], po_identityFallback = FallbackNone, po_backstage = None\<rparr>"

definition BrokerSchema :: "(bool \<times> bool) parser" where
  "BrokerSchema = p_object (\<lambda>m. do {
     enabled \<leftarrow> p_default True p_bool (m ''enabled'');
     force \<leftarrow> p_default False p_bool (m ''force'');
     Some (enabled, force)
   })"

definition ServicesSchema :: "ServicesConfig parser" where
  "ServicesSchema = p_object (\<lambda>m. do {
     mcp \<leftarrow> p_default True (enabled_flag True) (m ''mcp'');
     broker \<leftarrow> p_default (True, False) BrokerSchema (m ''broker'');
     agent \<leftarrow> p_default AGENT_DEFAULT AgentSchema (m ''agent'');
     portal \<leftarrow> p_default PORTAL_DEFAULT PortalSchema (m ''portal'');
     harness \<leftarrow> p_default False (enabled_flag False) (m ''harness'');
     Some \<lparr>sv_mcp = mcp, sv_broker = fst broker, sv_brokerForce = snd broker, sv_agent = agent, sv_portal = portal, sv_harness = harness\<rparr>
   })"

definition UserSchema :: "LocalUser parser" where
  "UserSchema = p_object (\<lambda>m. do {
     name \<leftarrow> str_min1 (m ''name'');
     roles \<leftarrow> p_array 1 role_name (m ''roles'');
     traits \<leftarrow> p_default [] (p_record (\<lambda>_. True) (p_strings (\<lambda>_. True))) (m ''traits'');
     Some \<lparr>us_name = name, us_roles = roles, us_traits = traits\<rparr>
   })"

definition PLATFORMS :: "(string \<times> StackPlatform) list" where
  "PLATFORMS = [(''kind'', PKind), (''eks'', PEks), (''gke'', PGke), (''aks'', PAks), (''generic'', PGeneric)]"

definition EDITIONS :: "(string \<times> Edition) list" where
  "EDITIONS = [(''community'', Community), (''enterprise'', Enterprise)]"

definition StackConfigSchema :: "(string \<Rightarrow> bool) \<Rightarrow> StackConfig parser" where
  "StackConfigSchema is_email = p_object (\<lambda>m. do {
     env \<leftarrow> str_min1 (m ''env'');
     platform \<leftarrow> p_enum PLATFORMS (m ''platform'');
     ctx \<leftarrow> str_min1 (m ''kubeContext'');
     kubeconfig \<leftarrow> p_optional any_str (m ''kubeconfig'');
     clusterName \<leftarrow> str_min1 (m ''clusterName'');
     publicAddr \<leftarrow> str_min1 (m ''publicAddr'');
     version \<leftarrow> p_str version_ok (m ''version'');
     edition \<leftarrow> p_default Community (p_enum EDITIONS) (m ''edition'');
     exposure \<leftarrow> ExposureSchema (m ''exposure'');
     tls \<leftarrow> TlsSchema is_email (m ''tls'');
     auth \<leftarrow> AuthSchema (m ''auth'');
     github \<leftarrow> p_optional GithubSchema (m ''github'');
     chart \<leftarrow> ChartModeSchema (m ''chartMode'');
     images \<leftarrow> ImagesSchema (m ''images'');
     insecure \<leftarrow> p_default False p_bool (m ''insecureLocal'');
     dummies \<leftarrow> DummiesSchema (m ''dummies'');
     services \<leftarrow> ServicesSchema (m ''services'');
     users \<leftarrow> p_default [] (p_array 0 UserSchema) (m ''users'');
     Some \<lparr>st_env = env, st_platform = platform, st_kubeContext = ctx, st_kubeconfig = kubeconfig, st_clusterName = clusterName,
       st_publicAddr = publicAddr, st_version = version, st_edition = edition, st_exposure = exposure, st_tls = tls, st_auth = auth,
       st_github = github, st_chartMode = chart, st_images = images, st_insecureLocal = insecure, st_dummies = dummies,
       st_services = services, st_users = users\<rparr>
   })"

section \<open>Lemmas\<close>

lemma traverse_set: "traverse f xs = Some ys \<Longrightarrow> y \<in> set ys \<Longrightarrow> \<exists>x \<in> set xs. f x = Some y"
  by (induction xs arbitrary: ys) (auto split: option.splits)

lemma p_object_Some: "p_object f v = Some x \<Longrightarrow> \<exists>kvs. v = Some (JObj kvs) \<and> f (map_of kvs) = Some x"
  by (auto simp: p_object_def split: option.splits json.splits)

lemma p_array_set: "p_array n p v = Some ys \<Longrightarrow> y \<in> set ys \<Longrightarrow> \<exists>x. p x = Some y"
  by (auto simp: p_array_def split: option.splits json.splits if_splits dest!: traverse_set)

lemma traverse_length: "traverse f xs = Some ys \<Longrightarrow> length ys = length xs"
  by (induction xs arbitrary: ys) (auto split: option.splits)

lemma p_array_least: "p_array n p v = Some ys \<Longrightarrow> n \<le> length ys"
  by (auto simp: p_array_def dest: traverse_length split: option.splits json.splits if_splits)

lemma p_default_Some: "p_default d p v = Some x \<Longrightarrow> x = d \<or> p v = Some x"
  by (auto simp: p_default_def split: if_splits)

lemma p_optional_Some: "p_optional p v = Some (Some x) \<Longrightarrow> p v = Some x"
  by (auto simp: p_optional_def split: if_splits)

lemma role_name_Some: "role_name v = Some r \<Longrightarrow> r \<in> set assignableRoleNames"
  by (auto simp: role_name_def p_str_def split: option.splits json.splits if_splits)

lemma p_array_roles: "p_array 1 role_name v = Some rs \<Longrightarrow> rs \<noteq> [] \<and> set rs \<subseteq> set assignableRoleNames"
  using p_array_least [of 1 role_name v rs] p_array_set [of 1 role_name v rs] role_name_Some by auto

lemma UserSchema_roles: "UserSchema v = Some u \<Longrightarrow> us_roles u \<noteq> [] \<and> set (us_roles u) \<subseteq> set assignableRoleNames"
  unfolding UserSchema_def
  by (drule p_object_Some) (auto simp: bind_eq_Some_conv simp del: One_nat_def dest!: p_array_roles)

lemma TeamSchema_roles: "TeamSchema v = Some t \<Longrightarrow> tm_roles t \<noteq> [] \<and> set (tm_roles t) \<subseteq> set assignableRoleNames"
  unfolding TeamSchema_def
  by (drule p_object_Some) (auto simp: bind_eq_Some_conv simp del: One_nat_def dest!: p_array_roles)

text \<open>The roles a configuration hands to people directly: to local users and to the members of GitHub teams.\<close>

definition standing_roles :: "StackConfig \<Rightarrow> string list" where
  "standing_roles cfg = concat (map us_roles (st_users cfg))
     @ (case st_github cfg of None \<Rightarrow> [] | Some g \<Rightarrow> concat (map tm_roles (gh_teamsToRoles g)))"

lemma GithubSchema_roles: "GithubSchema v = Some g \<Longrightarrow> t \<in> set (gh_teamsToRoles g) \<Longrightarrow> set (tm_roles t) \<subseteq> set assignableRoleNames"
  unfolding GithubSchema_def
  by (drule p_object_Some) (auto simp: bind_eq_Some_conv dest!: p_array_set TeamSchema_roles)

lemma StackConfigSchema_roles:
  assumes "StackConfigSchema is_email v = Some cfg"
  shows "set (standing_roles cfg) \<subseteq> set assignableRoleNames"
proof -
  from assms have "\<exists>m. p_default [] (p_array 0 UserSchema) (m ''users'') = Some (st_users cfg) \<and>
      p_optional GithubSchema (m ''github'') = Some (st_github cfg)"
    unfolding StackConfigSchema_def by (drule_tac p_object_Some) (auto simp: bind_eq_Some_conv)
  then obtain m where m: "p_default [] (p_array 0 UserSchema) (m ''users'') = Some (st_users cfg)"
    "p_optional GithubSchema (m ''github'') = Some (st_github cfg)" by blast
  have "u \<in> set (st_users cfg) \<Longrightarrow> set (us_roles u) \<subseteq> set assignableRoleNames" for u
    using p_default_Some [OF m(1)] UserSchema_roles by (auto dest!: p_array_set)
  moreover have "\<forall>g. st_github cfg = Some g \<longrightarrow> (\<forall>t \<in> set (gh_teamsToRoles g). set (tm_roles t) \<subseteq> set assignableRoleNames)"
    using m(2) GithubSchema_roles p_optional_Some by metis
  ultimately show ?thesis by (cases "st_github cfg") (auto simp: standing_roles_def)
qed

lemma traverse_record: "traverse (\<lambda>(k, x). if key k then map_option (Pair k) (p (Some x)) else None) kvs = Some ms \<Longrightarrow>
    (k, y) \<in> set ms \<Longrightarrow> key k \<and> (\<exists>x. p (Some x) = Some y)"
  by (drule (1) traverse_set) (auto split: if_splits)

lemma p_record_set: "p_record key p v = Some ms \<Longrightarrow> (k, y) \<in> set ms \<Longrightarrow> key k \<and> (\<exists>x. p x = Some y)"
  by (auto simp: p_record_def split: option.splits json.splits dest!: traverse_record)

lemma p_str_Some: "p_str ok v = Some s \<Longrightarrow> ok s"
  by (auto simp: p_str_def split: option.splits json.splits if_splits)

lemma p_int_Some: "p_int lo hi v = Some i \<Longrightarrow> lo \<le> i \<and> i \<le> hi"
  by (auto simp: p_int_def split: option.splits json.splits if_splits)

text \<open>The type a parsed configuration really has.\<close>

definition exposure_typed :: "Exposure \<Rightarrow> bool" where
  "exposure_typed e = (case e of
     ExNodePort p \<Rightarrow> 30000 \<le> p \<and> p \<le> 32767
   | ExLoadBalancer lb \<Rightarrow> list_all cidr_ok (lb_sourceRanges lb)
   | ExIngress _ _ \<Rightarrow> True)"

definition typed_config :: "StackConfig \<Rightarrow> bool" where
  "typed_config cfg \<longleftrightarrow>
     st_env cfg \<noteq> [] \<and> version_ok (st_version cfg) \<and> exposure_typed (st_exposure cfg) \<and> au_secondFactors (st_auth cfg) \<noteq> [] \<and>
     list_all (\<lambda>d. digest_ok (snd d)) (ic_digests (st_images cfg)) \<and>
     list_all (\<lambda>n. 0 \<le> snd n \<and> snd n \<le> 5) (dm_sshNodes (st_dummies cfg)) \<and>
     set (standing_roles cfg) \<subseteq> set assignableRoleNames \<and> list_all (\<lambda>u. us_roles u \<noteq> []) (st_users cfg)"

lemma p_strings_ok: "p_default [] (p_strings ok) v = Some xs \<Longrightarrow> list_all ok xs"
  by (auto simp: list_all_iff p_strings_def dest!: p_default_Some p_array_set dest: p_str_Some)

lemma ExposureSchema_typed: "ExposureSchema v = Some e \<Longrightarrow> exposure_typed e"
  unfolding ExposureSchema_def
  by (drule p_object_Some)
    (auto simp: exposure_typed_def bind_eq_Some_conv p_strings_ok dest!: p_default_Some [of 30080] p_int_Some split: if_splits)

lemma ImagesSchema_typed: "ImagesSchema v = Some i \<Longrightarrow> list_all (\<lambda>d. digest_ok (snd d)) (ic_digests i)"
  unfolding ImagesSchema_def
  by (drule p_object_Some) (auto simp: bind_eq_Some_conv list_all_iff dest!: p_default_Some p_record_set dest: p_str_Some)

lemma DummiesSchema_typed: "DummiesSchema v = Some d \<Longrightarrow> list_all (\<lambda>n. 0 \<le> snd n \<and> snd n \<le> 5) (dm_sshNodes d)"
  unfolding DummiesSchema_def
  by (drule p_object_Some) (auto simp: bind_eq_Some_conv list_all_iff dest!: p_default_Some p_record_set dest: p_int_Some)

lemma AuthSchema_typed: "AuthSchema v = Some a \<Longrightarrow> au_secondFactors a \<noteq> []"
  unfolding AuthSchema_def
  by (drule p_object_Some) (auto simp: bind_eq_Some_conv dest!: p_default_Some p_array_least)


end
