(* ===== verification/DeepMerge.thy ===== *)
theory DeepMerge
  imports Json
begin

text \<open>
  Layering of configuration objects (\<open>infra/teleport/src/lib/merge.ts\<close>). Values are JSON; an override that is
  \<open>undefined\<close> is \<^const>\<open>None\<close>. The members of a configuration object are its own data, so the members every
  JavaScript object inherits are not looked up.
\<close>

section \<open>The code\<close>

text \<open>One override: members of an object are merged one after the other, anything else replaces the value.\<close>

function merge_one :: "json \<Rightarrow> json \<Rightarrow> json"
  and merge_members :: "(string \<times> json) list \<Rightarrow> (string \<times> json) list \<Rightarrow> (string \<times> json) list" where
  "merge_one out ov =
     (case (ov, out) of (JObj kvs, JObj base) \<Rightarrow> JObj (merge_members base kvs) | _ \<Rightarrow> ov)"
| "merge_members base [] = base"
| "merge_members base (kv # kvs) =
     merge_members
       (AList.update (fst kv)
          (case map_of base (fst kv) of
             Some b \<Rightarrow> if is_obj (snd kv) \<and> is_obj b then merge_one b (snd kv) else snd kv
           | None \<Rightarrow> snd kv) base)
       kvs"
  by pat_completeness auto
termination
  by (relation "measure (\<lambda>x. case x of Inl (_, v) \<Rightarrow> 2 * size v | Inr (_, kvs) \<Rightarrow> 1 + 2 * size_list (\<lambda>kv. Suc (size (snd kv))) kvs)")
    (auto simp: size_prod_simp)

definition deepMerge :: "json \<Rightarrow> json option list \<Rightarrow> json" where
  "deepMerge base overrides = foldl (\<lambda>out ov. case ov of None \<Rightarrow> out | Some v \<Rightarrow> merge_one out v) base overrides"

section \<open>The abstract view\<close>

text \<open>What a configuration means: at each path, nothing, an inner node or a leaf value (arrays are leaves).\<close>

fun at_path :: "string list \<Rightarrow> json \<Rightarrow> json option" where
  "at_path [] v = Some v"
| "at_path (k # ks) v = (case v of JObj kvs \<Rightarrow> (case map_of kvs k of Some x \<Rightarrow> at_path ks x | None \<Rightarrow> None) | _ \<Rightarrow> None)"

datatype 'v node = Inner | Leaf 'v

type_synonym settings = "string list \<Rightarrow> json node option"

definition settings_of :: "json \<Rightarrow> settings" where
  "settings_of v p = map_option (\<lambda>x. if is_obj x then Inner else Leaf x) (at_path p v)"

text \<open>
  Layering of settings: what the upper layer says at a path wins; where it says nothing the lower layer shows
  through, unless the upper layer has put a leaf at a shorter path.
\<close>

definition layer :: "settings \<Rightarrow> settings \<Rightarrow> settings" where
  "layer lower upper p =
     (case upper p of
        Some n \<Rightarrow> Some n
      | None \<Rightarrow> if \<exists>q v. strict_prefix q p \<and> upper q = Some (Leaf v) then None else lower p)"

section \<open>Lemmas\<close>

lemma settings_of_Nil: "settings_of v [] = Some (if is_obj v then Inner else Leaf v)"
  by (simp add: settings_of_def)

lemma settings_of_obj: "settings_of (JObj kvs) (k # p) = (case map_of kvs k of None \<Rightarrow> None | Some x \<Rightarrow> settings_of x p)"
  by (simp add: settings_of_def split: option.split)

lemma settings_of_leaf: "\<not> is_obj v \<Longrightarrow> settings_of v (k # p) = None"
  by (cases v) (simp_all add: settings_of_def)

lemma is_objE: "is_obj v \<Longrightarrow> (\<And>kvs. v = JObj kvs \<Longrightarrow> thesis) \<Longrightarrow> thesis"
  by (cases v) auto

text \<open>The member a merge leaves at \<open>k\<close>, when the override has no key twice.\<close>

definition merged_member :: "json option \<Rightarrow> json option \<Rightarrow> json option" where
  "merged_member b v =
     (case v of
        None \<Rightarrow> b
      | Some x \<Rightarrow> Some (case b of Some y \<Rightarrow> if is_obj x \<and> is_obj y then merge_one y x else x | None \<Rightarrow> x))"

lemma merge_members_lookup:
  "distinct (map fst kvs) \<Longrightarrow> map_of (merge_members base kvs) k = merged_member (map_of base k) (map_of kvs k)"
proof (induction kvs arbitrary: base)
  case (Cons kv kvs)
  obtain a v where kv: "kv = (a, v)" by (cases kv)
  with Cons.prems have "map_of kvs a = None" by (simp add: map_of_eq_None_iff)
  with Cons kv show ?case by (auto simp: merged_member_def update_conv' split: option.split)
qed (simp add: merged_member_def)

lemma merge_one_cases:
  "\<not> is_obj ov \<or> \<not> is_obj out \<Longrightarrow> merge_one out ov = ov"
  "merge_one (JObj base) (JObj kvs) = JObj (merge_members base kvs)"
  by (cases ov; cases out) auto

lemma merged_member_simps:
  "merged_member b None = b" "merged_member None (Some x) = Some x" "merged_member (Some y) (Some x) = Some (merge_one y x)"
  using merge_one_cases(1) [of x y] by (auto simp: merged_member_def)

lemma layer_Cons:
  "upper [] = Some Inner \<Longrightarrow> layer lower upper (k # p) = layer (\<lambda>q. lower (k # q)) (\<lambda>q. upper (k # q)) p"
proof -
  assume u: "upper [] = Some Inner"
  have "(\<exists>q v. strict_prefix q (k # p) \<and> upper q = Some (Leaf v)) \<longleftrightarrow> (\<exists>q v. strict_prefix q p \<and> upper (k # q) = Some (Leaf v))"
  proof safe
    fix q v assume "strict_prefix q (k # p)" "upper q = Some (Leaf v)"
    with u show "\<exists>q v. strict_prefix q p \<and> upper (k # q) = Some (Leaf v)" by (cases q) auto
  next
    fix q v assume "strict_prefix q p" "upper (k # q) = Some (Leaf v)"
    then show "\<exists>q v. strict_prefix q (k # p) \<and> upper q = Some (Leaf v)" by (intro exI [of _ "k # q"]) auto
  qed
  then show ?thesis by (simp only: layer_def)
qed

lemma layer_below_leaf: "upper [] = Some (Leaf v) \<Longrightarrow> upper (k # p) = None \<Longrightarrow> layer lower upper (k # p) = None"
  by (auto simp: layer_def)

lemma layer_over: "lower p = None \<Longrightarrow> layer lower upper p = upper p"
  by (auto simp: layer_def split: option.split)

lemma layer_nothing: "layer lower (\<lambda>_. None) p = lower p"
  by (simp add: layer_def)

fun keys_once :: "json \<Rightarrow> bool" where
  "keys_once (JObj kvs) = (distinct (map fst kvs) \<and> list_all (\<lambda>kv. keys_once (snd kv)) kvs)"
| "keys_once _ = True"

lemma keys_once_member: "keys_once (JObj kvs) \<Longrightarrow> map_of kvs k = Some v \<Longrightarrow> keys_once v"
  by (auto simp: list_all_iff dest: map_of_SomeD)

lemma merge_one_layers: "keys_once ov \<Longrightarrow> settings_of (merge_one out ov) p = layer (settings_of out) (settings_of ov) p"
proof (induction p arbitrary: out ov)
  case Nil
  have "is_obj (merge_one out ov) = is_obj ov" and "\<not> is_obj ov \<Longrightarrow> merge_one out ov = ov" by (cases ov; cases out; simp)+
  then show ?case by (simp add: settings_of_Nil layer_def)
next
  case (Cons k p)
  show ?case
  proof (cases "is_obj ov \<and> is_obj out")
    case False
    then have "\<not> is_obj ov \<or> \<not> is_obj out" by simp
    then show ?thesis
      by (auto simp: merge_one_cases(1) settings_of_leaf settings_of_Nil layer_below_leaf layer_over simp del: merge_one.simps)
  next
    case True
    then obtain base kvs where o: "out = JObj base" "ov = JObj kvs" by (auto elim!: is_objE)
    let ?m = "\<lambda>v q. case v of None \<Rightarrow> None | Some x \<Rightarrow> settings_of x q"
    have "settings_of (merge_one out ov) (k # p) = ?m (merged_member (map_of base k) (map_of kvs k)) p"
      using Cons.prems o by (simp add: merge_one_cases(2) settings_of_obj merge_members_lookup del: merge_one.simps)
    moreover have "layer (settings_of out) (settings_of ov) (k # p) = layer (?m (map_of base k)) (?m (map_of kvs k)) p"
      using o by (simp add: layer_Cons settings_of_Nil settings_of_obj)
    moreover have "?m (merged_member (map_of base k) (map_of kvs k)) p = layer (?m (map_of base k)) (?m (map_of kvs k)) p"
    proof (cases "map_of kvs k")
      case None
      then show ?thesis by (simp add: merged_member_simps layer_nothing)
    next
      case (Some x)
      then have "keys_once x" using keys_once_member Cons.prems o by blast
      with Some Cons.IH show ?thesis
        by (cases "map_of base k") (simp_all add: merged_member_simps layer_over del: merge_one.simps)
    qed
    ultimately show ?thesis by simp
  qed
qed

section \<open>Properties\<close>

text \<open>C38. Merging configurations is layering their settings: for overrides in which no object has a key twice, the settings of
  \<open>deepMerge\<close> are those of the base with each given override laid over it in turn; overrides that are undefined change
  nothing.\<close>

theorem deepMerge_layers:
  assumes "list_all (\<lambda>ov. case ov of None \<Rightarrow> True | Some v \<Rightarrow> keys_once v) overrides"
  shows "settings_of (deepMerge base overrides) =
    foldl (\<lambda>s ov. case ov of None \<Rightarrow> s | Some v \<Rightarrow> layer s (settings_of v)) (settings_of base) overrides"
  using assms unfolding deepMerge_def
proof (induction overrides arbitrary: base)
  case (Cons ov overrides)
  have "settings_of (case ov of None \<Rightarrow> base | Some v \<Rightarrow> merge_one base v) =
      (case ov of None \<Rightarrow> settings_of base | Some v \<Rightarrow> layer (settings_of base) (settings_of v))"
    using Cons.prems merge_one_layers by (cases ov) (auto simp del: merge_one.simps)
  with Cons show ?case by simp
qed simp

theorem deepMerge_layers_witness:
  "settings_of (deepMerge (JObj [(''a'', JInt 1)]) [None, Some (JObj [(''a'', JInt 2)])]) [''a''] = Some (Leaf (JInt 2))"
  using deepMerge_layers [of "[None, Some (JObj [(''a'', JInt 2)])]" "JObj [(''a'', JInt 1)]"]
  by (simp add: layer_def settings_of_def)

end
