(* ===== verification/PlatformDefaults.thy ===== *)
theory PlatformDefaults
  imports Json
begin

text \<open>
  The defaults of each platform (\<open>infra/teleport/src/config/platforms/*.ts\<close>), as the objects the stack
  configuration is merged over.
\<close>

definition jmcp :: json where "jmcp = JObj [(''enabled'', JBool True)]"
definition jbroker :: json where "jbroker = JObj [(''enabled'', JBool True), (''force'', JBool False)]"

definition jagent :: "bool \<Rightarrow> string \<Rightarrow> json" where
  "jagent enabled adapter = JObj [(''enabled'', JBool enabled), (''adapters'', JArr [JStr adapter]), (''auth'', JStr ''api-key''),
     (''persistSessions'', JBool False)]"

definition jportal :: "(string \<times> json) list \<Rightarrow> json" where
  "jportal identities = JObj [(''enabled'', JBool True), (''identities'', JObj identities), (''identityFallback'', JStr ''username'')]"

definition jdummies :: "bool \<Rightarrow> (string \<times> json) list \<Rightarrow> bool \<Rightarrow> bool \<Rightarrow> string \<Rightarrow> json" where
  "jdummies enabled nodes postgres httpbin cloud =
     JObj [(''enabled'', JBool enabled), (''sshNodes'', JObj nodes), (''postgres'', JBool postgres), (''mysql'', JBool False),
       (''httpbin'', JBool httpbin), (''cloudStandin'', JStr cloud)]"

definition jloadbalancer :: "(string \<times> json) list \<Rightarrow> json" where
  "jloadbalancer annotations = JObj [(''type'', JStr ''loadbalancer''), (''annotations'', JObj annotations)]"

definition jcertmanager :: json where
  "jcertmanager = JObj [(''mode'', JStr ''cert-manager''), (''issuerName'', JStr ''letsencrypt''), (''issuerKind'', JStr ''ClusterIssuer'')]"

definition jsso :: json where
  "jsso = JObj [(''type'', JStr ''github''), (''secondFactors'', JArr [JStr ''webauthn'']), (''localAuth'', JBool False)]"

definition jregistry :: json where
  "jregistry = JObj [(''registry'', JStr ''ghcr.io/CHANGE-ME/k8s-teleport''), (''tag'', JStr ''latest''), (''pullPolicy'', JStr ''IfNotPresent'')]"

definition jstandalone :: "string \<Rightarrow> json" where
  "jstandalone storage = JObj [(''mode'', JStr ''standalone''), (''storageClass'', JStr storage), (''volumeSize'', JStr ''20Gi'')]"

text \<open>The three managed clouds differ in the load balancer's annotations, the storage class and the chat adapter.\<close>

definition cloud_defaults :: "(string \<times> json) list \<Rightarrow> string \<Rightarrow> string \<Rightarrow> json" where
  "cloud_defaults annotations storage adapter = JObj
     [(''edition'', JStr ''community''), (''exposure'', jloadbalancer annotations), (''tls'', jcertmanager), (''auth'', jsso),
      (''chartMode'', jstandalone storage), (''images'', jregistry), (''insecureLocal'', JBool False),
      (''dummies'', jdummies False [(''dev'', JInt 1), (''prod'', JInt 1)] True True ''static''),
      (''services'', JObj [(''mcp'', jmcp), (''broker'', jbroker), (''agent'', jagent True adapter), (''portal'', jportal [])])]"

definition aksDefaults :: json where
  "aksDefaults = cloud_defaults [] ''managed-csi'' ''teams''"

definition eksDefaults :: json where
  "eksDefaults = cloud_defaults
     [(''service.beta.kubernetes.io/aws-load-balancer-type'', JStr ''external''),
      (''service.beta.kubernetes.io/aws-load-balancer-nlb-target-type'', JStr ''ip'')] ''gp3'' ''slack''"

definition gkeDefaults :: json where
  "gkeDefaults = cloud_defaults [(''cloud.google.com/l4-rbs'', JStr ''enabled'')] ''standard-rwo'' ''gchat''"

definition genericDefaults :: json where
  "genericDefaults = JObj
     [(''edition'', JStr ''community''), (''exposure'', jloadbalancer []),
      (''tls'', JObj [(''mode'', JStr ''acme''), (''email'', JStr ''CHANGE-ME@example.com'')]), (''auth'', jsso),
      (''chartMode'', JObj [(''mode'', JStr ''standalone''), (''volumeSize'', JStr ''10Gi'')]), (''images'', jregistry),
      (''insecureLocal'', JBool False), (''dummies'', jdummies False [] False False ''none''),
      (''services'', JObj [(''mcp'', jmcp), (''broker'', jbroker), (''agent'', jagent False ''cli''), (''portal'', jportal [])])]"

definition kindDefaults :: json where
  "kindDefaults = JObj
     [(''env'', JStr ''local''), (''clusterName'', JStr ''teleport.127.0.0.1.nip.io''),
      (''publicAddr'', JStr ''teleport.127.0.0.1.nip.io:3080''), (''edition'', JStr ''community''),
      (''exposure'', JObj [(''type'', JStr ''nodeport''), (''nodePort'', JInt 30380)]),
      (''tls'', JObj [(''mode'', JStr ''local-files''), (''certFile'', JStr ''../../.dogfood/teleport/tls/teleport.crt''),
         (''keyFile'', JStr ''../../.dogfood/teleport/tls/teleport.key''), (''caFile'', JStr ''../../.dogfood/teleport/tls/ca.crt'')]),
      (''auth'', JObj [(''type'', JStr ''github''), (''secondFactors'', JArr [JStr ''otp'']), (''localAuth'', JBool True)]),
      (''chartMode'', JObj [(''mode'', JStr ''standalone''), (''volumeSize'', JStr ''2Gi'')]),
      (''images'', JObj [(''registry'', JStr ''''), (''tag'', JStr ''dev''), (''pullPolicy'', JStr ''IfNotPresent'')]),
      (''insecureLocal'', JBool True), (''dummies'', jdummies True [(''dev'', JInt 2), (''prod'', JInt 1)] True True ''static''),
      (''services'', JObj [(''mcp'', jmcp), (''broker'', jbroker), (''agent'', jagent False ''cli''),
         (''harness'', JObj [(''enabled'', JBool True)]), (''portal'', jportal [(''local-developer'', JStr ''alice'')])])]"

definition platformDefaults :: "string \<Rightarrow> json option" where
  "platformDefaults = map_of
     [(''kind'', kindDefaults), (''eks'', eksDefaults), (''gke'', gkeDefaults), (''aks'', aksDefaults), (''generic'', genericDefaults)]"

lemmas platform_json = aksDefaults_def eksDefaults_def gkeDefaults_def genericDefaults_def kindDefaults_def cloud_defaults_def
  jmcp_def jbroker_def jagent_def jportal_def jdummies_def jloadbalancer_def jcertmanager_def jsso_def jregistry_def jstandalone_def

end
