(* ===== verification/StackProfile.thy ===== *)
theory StackProfile
  imports StackSchema DeepMerge PlatformDefaults
begin

text \<open>
  From the raw stack configuration to an environment profile (\<open>infra/teleport/src/config/profile.ts\<close>): platform
  defaults, then the stack's own values, then the schema, then the invariants no stack may break. The accessors of
  Pulumi's configuration object are parameters, and an encrypted secret is its presence and its opaque value.
\<close>

section \<open>Profiles\<close>

record TeleportAddrs =
  ta_namespace :: string
  ta_releaseName :: string
  ta_version :: string
  ta_clusterName :: string
  ta_publicAddr :: string
  ta_publicHost :: string
  ta_inClusterProxyAddr :: string
  ta_inClusterAuthAddr :: string
  ta_insecure :: bool

record Secrets =
  se_githubClientSecret :: "string option"
  se_licensePem :: "string option"
  se_chat :: "(string \<times> string) list option"

record EnvProfile = StackConfig +
  ep_stack :: string
  ep_teleport :: TeleportAddrs
  ep_labels :: "(string \<times> string) list"
  ep_secrets :: Secrets

datatype profile_error = InvalidSchema string | Problems string "string list" | ConfigError string

definition NAMESPACE :: string where "NAMESPACE = ''teleport''"
definition RELEASE :: string where "RELEASE = ''teleport-cluster''"

definition STANDING_ADMIN_ROLES :: "string list" where
  "STANDING_ADMIN_ROLES = [''editor'', ''access'']"

section \<open>The invariants\<close>

definition requiredImages :: "StackConfig \<Rightarrow> string list" where
  "requiredImages cfg =
     (if sv_mcp (st_services cfg) \<or> sv_broker (st_services cfg) then [''teleport-access''] else [])
     @ (if ag_enabled (sv_agent (st_services cfg)) then [''access-agent''] else [])
     @ (if dm_enabled (st_dummies cfg) then [''ssh-node''] else [])"

definition ciPreviewEscapeHatch :: "(string \<Rightarrow> string option) \<Rightarrow> bool" where
  "ciPreviewEscapeHatch env \<longleftrightarrow> env ''TELEPORT_ALLOW_KIND_CONTEXT'' = Some ''1''"

definition problem :: "bool \<Rightarrow> string \<Rightarrow> string list" where
  "problem b t = (if b then [t] else [])"

fun platform_text :: "StackPlatform \<Rightarrow> string" where
  "platform_text PKind = ''kind''"
| "platform_text PEks = ''eks''"
| "platform_text PGke = ''gke''"
| "platform_text PAks = ''aks''"
| "platform_text PGeneric = ''generic''"

definition standing_admin :: "string list \<Rightarrow> string list" where
  "standing_admin roles = filter (\<lambda>r. r \<in> set STANDING_ADMIN_ROLES) roles"

text \<open>The checks that hold on every stack.\<close>

definition base_problems :: "bool \<Rightarrow> StackConfig \<Rightarrow> Secrets \<Rightarrow> string list" where
  "base_problems allowPreview cfg secrets =
     (let kind = (st_platform cfg = PKind); github = (au_type (st_auth cfg) = AuthGithub) in
      problem (st_insecureLocal cfg \<and> \<not> kind) ''insecureLocal may only be true on platform=kind''
      @ problem ((case st_tls cfg of TlsLocalFiles _ _ _ \<Rightarrow> True | _ \<Rightarrow> False) \<and> \<not> kind)
          ''tls.mode=local-files (mkcert) may only be used on platform=kind; use cert-manager or acme''
      @ problem (st_edition cfg = Enterprise \<and> se_licensePem secrets = None)
          ''edition=enterprise requires the secret teleport:licensePem''
      @ problem (github \<and> st_github cfg = None)
          ''auth.type=github requires teleport:github (clientId, organization, teamsToRoles) and the secret teleport:githubClientSecret''
      @ problem (github \<and> st_github cfg \<noteq> None \<and> se_githubClientSecret secrets = None \<and> \<not> allowPreview)
          ''teleport:github is set but the secret teleport:githubClientSecret is missing (make github-sso, or: pulumi config set --secret teleport:githubClientSecret ...)''
      @ problem ((case st_exposure cfg of ExNodePort _ \<Rightarrow> True | _ \<Rightarrow> False) \<and> \<not> kind) ''exposure.type=nodeport is only meant for kind''
      @ problem (kind \<and> st_kubeContext cfg = ''kind-kind'')
          (''refusing to target the default kind cluster context '' @ [DQ] @ ''kind-kind'' @ [DQ])
      @ problem (\<not> kind \<and> starts_with ''kind-'' (st_kubeContext cfg) \<and> \<not> allowPreview)
          (''platform='' @ platform_text (st_platform cfg) @ '' must not target the kind context '' @ [DQ] @ st_kubeContext cfg @ [DQ]
           @ '' (CI previews set TELEPORT_ALLOW_KIND_CONTEXT=1)'')
      @ problem ((case st_chartMode cfg of Standalone _ _ \<Rightarrow> False | _ \<Rightarrow> True) \<and> kind) ''cloud chartMode requires a cloud platform''
      @ problem (ag_enabled (sv_agent (st_services cfg)) \<and> \<not> sv_mcp (st_services cfg)) ''services.agent requires services.mcp'')"

text \<open>No standing privilege off the local stack.\<close>

definition user_problems :: "string \<Rightarrow> LocalUser \<Rightarrow> string list" where
  "user_problems env u =
     problem (standing_admin (us_roles u) \<noteq> [])
       (''users['' @ us_name u @ ''] holds standing admin role(s) '' @ join '', '' (standing_admin (us_roles u))
        @ ''; request break-glass-editor instead (env='' @ env @ '')'')"

definition team_problems :: "string \<Rightarrow> TeamMapping \<Rightarrow> string list" where
  "team_problems env t =
     problem (standing_admin (tm_roles t) \<noteq> [])
       (''github.teamsToRoles['' @ tm_team t @ ''] maps to standing admin role(s) '' @ join '', '' (standing_admin (tm_roles t))
        @ ''; use requester/approver/auditor (env='' @ env @ '')'')"

definition standing_problems :: "StackConfig \<Rightarrow> string list" where
  "standing_problems cfg =
     (let env = st_env cfg; inEnv = '' (env='' @ env @ '')'' in
      if env = ''local'' then []
      else concat (map (user_problems env) (st_users cfg))
        @ concat (map (team_problems env) (case st_github cfg of None \<Rightarrow> [] | Some g \<Rightarrow> gh_teamsToRoles g))
        @ problem (au_type (st_auth cfg) = AuthLocal)
            (''auth.type=local is only allowed on env=local (env='' @ env @ ''); configure SSO (make github-sso)'')
        @ problem (au_localAuth (st_auth cfg)) (''auth.localAuth must be false off env=local'' @ inEnv)
        @ problem (Otp \<in> set (au_secondFactors (st_auth cfg)))
            (''auth.secondFactors must not include otp off env=local'' @ inEnv @ ''; use [webauthn]''))"

definition unpinned :: "StackConfig \<Rightarrow> string \<Rightarrow> bool" where
  "unpinned cfg img \<longleftrightarrow> \<not> truthy (map_of (ic_digests (st_images cfg)) img)"

text \<open>Production hardening.\<close>

definition prod_problems :: "StackConfig \<Rightarrow> string list" where
  "prod_problems cfg =
     (if st_env cfg \<noteq> ''prod'' then []
      else problem (case st_chartMode cfg of Standalone _ _ \<Rightarrow> True | _ \<Rightarrow> False)
             ''env=prod requires a managed backend (chartMode aws/gcp/azure), not standalone''
        @ problem (dm_enabled (st_dummies cfg)) ''env=prod must not deploy dummy resources (dummies.enabled=false)''
        @ problem (ic_pullPolicy (st_images cfg) = Always)
            ''env=prod requires images.pullPolicy IfNotPresent (images are pinned by digest, not re-pulled)''
        @ concat (map (\<lambda>img. problem (unpinned cfg img)
            (''env=prod requires images.digests['' @ [DQ] @ img @ [DQ] @ ''] (sha256:...) for every deployed image'')) (requiredImages cfg)))"

text \<open>Services never exposed beyond their design.\<close>

definition service_problems :: "StackConfig \<Rightarrow> string list" where
  "service_problems cfg =
     (let kind = (st_platform cfg = PKind); agent = sv_agent (st_services cfg) in
      problem (sv_harness (st_services cfg) \<and> \<not> kind) ''services.harness (CI harness bot) may only be enabled on platform=kind''
      @ problem (ag_enabled agent \<and> \<not> kind \<and> ag_allowedEmailDomains agent = [])
          ''services.agent.allowedEmailDomains must be non-empty when the agent is enabled off kind (identity fails closed)''
      @ problem (ag_enabled agent \<and> AdSlack \<in> set (ag_adapters agent) \<and> ag_slackAllowedTeamIds agent = [])
          ''services.agent.slackAllowedTeamIds must be non-empty when the slack adapter is enabled''
      @ problem ((case st_exposure cfg of ExLoadBalancer lb \<Rightarrow> \<not> kind \<and> \<not> lb_internal lb \<and> lb_sourceRanges lb = [] | _ \<Rightarrow> False))
          ''exposure.loadbalancer: an internet-facing load balancer (internal=false) requires non-empty sourceRanges'')"

definition config_problems :: "bool \<Rightarrow> StackConfig \<Rightarrow> Secrets \<Rightarrow> string list" where
  "config_problems allowPreview cfg secrets =
     base_problems allowPreview cfg secrets @ standing_problems cfg @ prod_problems cfg @ service_problems cfg"

definition enforceInvariants :: "(string \<Rightarrow> string option) \<Rightarrow> StackConfig \<Rightarrow> string \<Rightarrow> Secrets \<Rightarrow> profile_error + unit" where
  "enforceInvariants env cfg stack secrets =
     (let ps = config_problems (ciPreviewEscapeHatch env) cfg secrets in
      if ps \<noteq> [] then Inl (Problems stack ps) else Inr ())"

section \<open>Building a profile\<close>

definition set_member :: "string \<Rightarrow> json \<Rightarrow> json \<Rightarrow> json" where
  "set_member k v j = (case j of JObj kvs \<Rightarrow> JObj (AList.update k v kvs) | _ \<Rightarrow> j)"

definition jmember2 :: "string \<Rightarrow> string \<Rightarrow> json \<Rightarrow> json option" where
  "jmember2 a b j = (case jfield a j of None \<Rightarrow> None | Some x \<Rightarrow> jfield b x)"

text \<open>A map that describes a set: when the stack configuration has it, it replaces the merged one.\<close>

definition replace_set :: "string \<Rightarrow> string \<Rightarrow> json \<Rightarrow> json \<Rightarrow> json" where
  "replace_set a b inp merged =
     (case jmember2 a b inp of
        Some v \<Rightarrow> if jtruthy (Some v) then (case jfield a merged of Some x \<Rightarrow> set_member a (set_member b v x) merged | None \<Rightarrow> merged) else merged
      | None \<Rightarrow> merged)"

definition input_platform :: "json \<Rightarrow> string option" where
  "input_platform inp = (case jfield ''platform'' inp of None \<Rightarrow> Some ''generic'' | Some JNull \<Rightarrow> Some ''generic'' | v \<Rightarrow> jstring v)"

definition merged_input :: "json \<Rightarrow> json" where
  "merged_input inp =
     (let defaults = (case input_platform inp of None \<Rightarrow> None | Some p \<Rightarrow> platformDefaults p);
          m0 = deepMerge (JObj []) [defaults, Some inp];
          m1 = replace_set ''dummies'' ''sshNodes'' inp m0;
          m2 = replace_set ''github'' ''teamsToRoles'' inp m1 in
      case jfield ''users'' inp of Some v \<Rightarrow> if jtruthy (Some v) then set_member ''users'' v m2 else m2 | None \<Rightarrow> m2)"

definition teleport_addrs :: "StackConfig \<Rightarrow> TeleportAddrs" where
  "teleport_addrs cfg =
     \<lparr>ta_namespace = NAMESPACE, ta_releaseName = RELEASE, ta_version = st_version cfg, ta_clusterName = st_clusterName cfg,
      ta_publicAddr = st_publicAddr cfg, ta_publicHost = hd (split_on (CHR '':'') (st_publicAddr cfg)),
      ta_inClusterProxyAddr = st_publicAddr cfg,
      ta_inClusterAuthAddr = RELEASE @ ''-auth.'' @ NAMESPACE @ ''.svc.cluster.local:3025'', ta_insecure = st_insecureLocal cfg\<rparr>"

definition profile_of :: "StackConfig \<Rightarrow> string \<Rightarrow> Secrets \<Rightarrow> EnvProfile" where
  "profile_of cfg stack secrets =
     StackConfig.extend cfg
       \<lparr>ep_stack = stack, ep_teleport = teleport_addrs cfg,
        ep_labels = [(''env'', st_env cfg), (''managed-by'', ''pulumi''), (''stack'', stack)], ep_secrets = secrets\<rparr>"

definition buildProfile ::
  "(string \<Rightarrow> bool) \<Rightarrow> (string \<Rightarrow> string option) \<Rightarrow> json \<Rightarrow> string \<Rightarrow> Secrets \<Rightarrow> profile_error + EnvProfile" where
  "buildProfile is_email env inp stack secrets =
     (case StackConfigSchema is_email (Some (merged_input inp)) of
        None \<Rightarrow> Inl (InvalidSchema stack)
      | Some cfg \<Rightarrow>
          (case enforceInvariants env cfg stack secrets of
             Inl e \<Rightarrow> Inl e
           | Inr _ \<Rightarrow> Inr (profile_of cfg stack secrets)))"

section \<open>Reading the stack's configuration\<close>

record PulumiConfig =
  pc_get :: "string \<Rightarrow> string option"
  pc_getBoolean :: "string \<Rightarrow> profile_error + bool"
  pc_getObject :: "string \<Rightarrow> profile_error + json option"
  pc_getSecret :: "string \<Rightarrow> string option"
  pc_getSecretMap :: "string \<Rightarrow> (string \<times> string) list option"

text \<open>The members that are set; a member that is not is \<open>undefined\<close>, which merging skips.\<close>

definition read_str :: "PulumiConfig \<Rightarrow> string \<Rightarrow> (string \<times> json) list" where
  "read_str c k = (case pc_get c k of None \<Rightarrow> [] | Some s \<Rightarrow> [(k, JStr s)])"

definition read_bool :: "PulumiConfig \<Rightarrow> string \<Rightarrow> profile_error + (string \<times> json) list" where
  "read_bool c k =
     (case pc_get c k of
        None \<Rightarrow> Inr []
      | Some _ \<Rightarrow> (case pc_getBoolean c k of Inl e \<Rightarrow> Inl e | Inr b \<Rightarrow> Inr [(k, JBool b)]))"

fun read_objs :: "PulumiConfig \<Rightarrow> string list \<Rightarrow> profile_error + (string \<times> json) list" where
  "read_objs c [] = Inr []"
| "read_objs c (k # ks) =
     (case pc_getObject c k of
        Inl e \<Rightarrow> Inl e
      | Inr v \<Rightarrow>
          (case read_objs c ks of
             Inl e \<Rightarrow> Inl e
           | Inr ms \<Rightarrow> Inr ((case v of None \<Rightarrow> [] | Some j \<Rightarrow> [(k, j)]) @ ms)))"

definition read_input :: "PulumiConfig \<Rightarrow> profile_error + json" where
  "read_input c =
     (case read_objs c [''exposure'', ''tls'', ''auth'', ''github'', ''chartMode'', ''images''] of
        Inl e \<Rightarrow> Inl e
      | Inr objs \<Rightarrow>
          (case read_bool c ''insecureLocal'' of
             Inl e \<Rightarrow> Inl e
           | Inr insecure \<Rightarrow>
               (case read_objs c [''dummies'', ''services'', ''users''] of
                  Inl e \<Rightarrow> Inl e
                | Inr objs' \<Rightarrow>
                    Inr (JObj (concat (map (read_str c) [''env'', ''platform'', ''kubeContext'', ''kubeconfig'', ''clusterName'',
                      ''publicAddr'', ''version'', ''edition'']) @ objs @ insecure @ objs')))))"

definition read_secrets :: "PulumiConfig \<Rightarrow> Secrets" where
  "read_secrets c = \<lparr>se_githubClientSecret = pc_getSecret c ''githubClientSecret'', se_licensePem = pc_getSecret c ''licensePem'',
     se_chat = pc_getSecretMap c ''chat''\<rparr>"

definition loadProfile ::
  "(string \<Rightarrow> bool) \<Rightarrow> (string \<Rightarrow> string option) \<Rightarrow> PulumiConfig \<Rightarrow> string \<Rightarrow> profile_error + EnvProfile" where
  "loadProfile is_email env c stack =
     (case read_input c of
        Inl e \<Rightarrow> Inl e
      | Inr inp \<Rightarrow> buildProfile is_email env inp stack (read_secrets c))"

section \<open>Lemmas\<close>

lemma problem_Nil [simp]: "problem b t = [] \<longleftrightarrow> \<not> b"
  by (simp add: problem_def)

lemma standing_admin_Nil: "standing_admin rs = [] \<longleftrightarrow> ''editor'' \<notin> set rs \<and> ''access'' \<notin> set rs"
  by (auto simp: standing_admin_def filter_empty_conv STANDING_ADMIN_ROLES_def)

lemma buildProfile_Inr:
  assumes "buildProfile is_email env inp stack secrets = Inr p"
  shows "\<exists>cfg. StackConfigSchema is_email (Some (merged_input inp)) = Some cfg \<and>
    config_problems (ciPreviewEscapeHatch env) cfg secrets = [] \<and> p = profile_of cfg stack secrets"
  using assms by (auto simp: buildProfile_def enforceInvariants_def Let_def split: option.splits sum.splits if_splits)

lemma profile_of_cfg [simp]:
  "StackConfig.truncate (profile_of cfg stack secrets) = cfg" "ep_secrets (profile_of cfg stack secrets) = secrets"
  "st_env (profile_of cfg stack secrets) = st_env cfg" "st_platform (profile_of cfg stack secrets) = st_platform cfg"
  "st_services (profile_of cfg stack secrets) = st_services cfg" "st_edition (profile_of cfg stack secrets) = st_edition cfg"
  "st_auth (profile_of cfg stack secrets) = st_auth cfg" "st_dummies (profile_of cfg stack secrets) = st_dummies cfg"
  "ep_teleport (profile_of cfg stack secrets) = teleport_addrs cfg"
  by (simp_all add: profile_of_def StackConfig.defs)

text \<open>What the invariants come to.\<close>

definition no_standing_privilege :: "StackConfig \<Rightarrow> bool" where
  "no_standing_privilege cfg \<longleftrightarrow>
     st_env cfg = ''local'' \<or>
     set (standing_roles cfg) \<inter> {''editor'', ''access''} = {} \<and> au_type (st_auth cfg) \<noteq> AuthLocal \<and>
     \<not> au_localAuth (st_auth cfg) \<and> Otp \<notin> set (au_secondFactors (st_auth cfg))"

definition prod_hardened :: "StackConfig \<Rightarrow> bool" where
  "prod_hardened cfg \<longleftrightarrow>
     st_env cfg \<noteq> ''prod'' \<or>
     (\<forall>s v. st_chartMode cfg \<noteq> Standalone s v) \<and> \<not> dm_enabled (st_dummies cfg) \<and> ic_pullPolicy (st_images cfg) \<noteq> Always \<and>
     (\<forall>img \<in> set (requiredImages cfg). \<not> unpinned cfg img)"

lemma standing_problems_Nil: "standing_problems cfg = [] \<longleftrightarrow> no_standing_privilege cfg"
proof (cases "st_github cfg")
  case None
  then show ?thesis
    by (auto simp: standing_problems_def no_standing_privilege_def Let_def user_problems_def standing_admin_Nil standing_roles_def)
next
  case (Some g)
  then show ?thesis
    by (auto simp: standing_problems_def no_standing_privilege_def Let_def user_problems_def team_problems_def standing_admin_Nil
        standing_roles_def)
qed

lemma prod_problems_Nil: "prod_problems cfg = [] \<longleftrightarrow> prod_hardened cfg"
  by (cases "st_chartMode cfg") (auto simp: prod_problems_def prod_hardened_def)

text \<open>Services and exposure off the local cluster.\<close>

definition confined_services :: "StackConfig \<Rightarrow> bool" where
  "confined_services cfg \<longleftrightarrow>
     (if st_platform cfg = PKind then st_kubeContext cfg \<noteq> ''kind-kind''
      else \<not> st_insecureLocal cfg \<and> \<not> sv_harness (st_services cfg) \<and>
        (if ag_enabled (sv_agent (st_services cfg)) then ag_allowedEmailDomains (sv_agent (st_services cfg)) \<noteq> [] else True) \<and>
        (case st_exposure cfg of
           ExNodePort _ \<Rightarrow> False
         | ExLoadBalancer lb \<Rightarrow> lb_internal lb \<or> lb_sourceRanges lb \<noteq> []
         | ExIngress _ _ \<Rightarrow> True)) \<and>
     (if ag_enabled (sv_agent (st_services cfg)) then sv_mcp (st_services cfg) else True)"

lemma base_problems_confined:
  "base_problems preview cfg secrets = [] \<Longrightarrow> service_problems cfg = [] \<Longrightarrow> confined_services cfg"
  by (cases "st_exposure cfg") (auto simp: base_problems_def service_problems_def confined_services_def Let_def)

lemma standing_not_bot: "r \<in> set assignableRoleNames \<Longrightarrow> r \<noteq> bot_role k"
  by (cases k) (auto simp: assignableRoleNames_def BOT_KEYS_def)

lemma deciders:
  "r \<in> set (holders ''access_request'' ''update'' (renderAllRoles ed harness mfa)) \<Longrightarrow> r = ROLE_approver \<or> r \<in> range bot_role"
  by (auto simp: holders_write WRITE_def intended_writers_def BREAK_GLASS_KINDS_def simp del: bot_role.simps split: if_splits)

section \<open>Properties\<close>


text \<open>What the invariants do not refuse: a catalogue role, the break-glass editor or the cluster admin included, as a
  standing assignment on any stack.\<close>

lemma catalog_role_may_stand:
  "set catalog_names \<subseteq> set assignableRoleNames \<and> standing_admin catalog_names = [] \<and> ''break-glass-editor'' \<in> set catalog_names"
proof (intro conjI)
  have "n \<in> set catalog_names \<Longrightarrow> n \<noteq> bot_role k" for n k by (cases k) (auto simp: catalog_names_eval)
  moreover have "set catalog_names \<subseteq> set (map rr_name (renderAllRoles Community True None))"
    by (auto simp: renderAllRoles_def Let_def catalog_names_def renderCatalogRole_def)
  ultimately show "set catalog_names \<subseteq> set assignableRoleNames" by (auto simp: assignableRoleNames_def)
  show "standing_admin catalog_names = []" by (simp add: standing_admin_Nil catalog_names_eval)
  show "''break-glass-editor'' \<in> set catalog_names" by (simp add: catalog_names_eval)
qed

end
