(* ===== verification/NetPolicies.thy ===== *)
theory NetPolicies
  imports StackProfile
begin

text \<open>
  The Kubernetes network policies of the stack (\<open>infra/teleport/src/components/NetworkPolicies.ts\<close>) and what they admit.
  The policy engine is Kubernetes' own: a pod that some policy selects for a direction talks in that direction only as
  some rule of such a policy says. Which addresses lie in a CIDR block is a parameter.
\<close>

section \<open>Policies\<close>

datatype Protocol = TCP | UDP
datatype Direction = Ingress | Egress

type_synonym MatchLabels = "(string \<times> string) list"

text \<open>A peer selects pods (of the namespaces with these labels, or of the policy's own), or an address block.\<close>

datatype Peer =
    PodPeer "MatchLabels option" "MatchLabels option"
  | IpBlock string "string list"

record PolicyRule =
  ru_peers :: "Peer list option"
  ru_ports :: "(Protocol \<times> int) list"

record RenderedPolicy =
  np_name :: string
  np_namespace :: string
  np_podSelector :: MatchLabels
  np_policyTypes :: "Direction list"
  np_ingress :: "PolicyRule list"
  np_egress :: "PolicyRule list"

definition PROXY_PORT :: int where "PROXY_PORT = 3080"
definition AUTH_PORT :: int where "AUTH_PORT = 3025"
definition AGENT_PORT :: int where "AGENT_PORT = 8082"
definition AGENT_PUBLIC_PORT :: int where "AGENT_PUBLIC_PORT = 8083"
definition MCP_PORT :: int where "MCP_PORT = 8080"
definition BROKER_PORT :: int where "BROKER_PORT = 8081"
definition PORTAL_PORT :: int where "PORTAL_PORT = 8084"
definition DUMMY_DB_PORTS :: "int list" where "DUMMY_DB_PORTS = [5432, 3306]"
definition DUMMY_APP_PORTS :: "int list" where "DUMMY_APP_PORTS = [80, 8080, 4566]"

definition tcp :: "int list \<Rightarrow> (Protocol \<times> int) list" where
  "tcp ports = map (Pair TCP) ports"

definition ns_labels :: "string \<Rightarrow> MatchLabels" where
  "ns_labels name = [(''kubernetes.io/metadata.name'', name)]"

definition ns :: "string \<Rightarrow> Peer" where "ns name = PodPeer (Some (ns_labels name)) None"
definition nsPods :: "string \<Rightarrow> MatchLabels \<Rightarrow> Peer" where "nsPods name labels = PodPeer (Some (ns_labels name)) (Some labels)"
definition pods :: "MatchLabels \<Rightarrow> Peer" where "pods labels = PodPeer None (Some labels)"

definition SEL_component :: "string \<Rightarrow> MatchLabels" where "SEL_component c = [(''app.kubernetes.io/component'', c)]"
definition SEL_part_of :: "string \<Rightarrow> MatchLabels" where "SEL_part_of c = [(''app.kubernetes.io/part-of'', c)]"
definition SEL_bot :: "BotKey \<Rightarrow> MatchLabels" where "SEL_bot k = [(''app'', bot_name k)]"

abbreviation "SEL_proxy \<equiv> SEL_component ''proxy''"
abbreviation "SEL_auth \<equiv> SEL_component ''auth''"
abbreviation "SEL_operator \<equiv> SEL_component ''operator''"
abbreviation "SEL_kubeAgent \<equiv> SEL_part_of ''kube-agents''"
abbreviation "SEL_sshNodes \<equiv> SEL_part_of ''ssh-nodes''"
abbreviation "SEL_databases \<equiv> SEL_component ''database''"
abbreviation "SEL_apps \<equiv> SEL_component ''app''"

definition rule_to :: "Peer list \<Rightarrow> (Protocol \<times> int) list \<Rightarrow> PolicyRule" where
  "rule_to peers ports = \<lparr>ru_peers = Some peers, ru_ports = ports\<rparr>"

definition rule_any :: "(Protocol \<times> int) list \<Rightarrow> PolicyRule" where
  "rule_any ports = \<lparr>ru_peers = None, ru_ports = ports\<rparr>"

definition KUBE_API_EGRESS :: PolicyRule where
  "KUBE_API_EGRESS = rule_to [IpBlock ''0.0.0.0/0'' []] (tcp [443, 6443])"

definition PRIVATE_RANGES :: "string list" where
  "PRIVATE_RANGES = [''10.0.0.0/8'', ''172.16.0.0/12'', ''192.168.0.0/16'']"

definition INTERNET_443_EGRESS :: PolicyRule where
  "INTERNET_443_EGRESS = rule_to [IpBlock ''0.0.0.0/0'' PRIVATE_RANGES] (tcp [443])"

definition DNS_EGRESS :: PolicyRule where
  "DNS_EGRESS = rule_to [nsPods ''kube-system'' [(''k8s-app'', ''kube-dns'')]] [(UDP, 53), (TCP, 53)]"

definition policy :: "string \<Rightarrow> string \<Rightarrow> MatchLabels \<Rightarrow> PolicyRule list \<Rightarrow> PolicyRule list \<Rightarrow> RenderedPolicy" where
  "policy name namespace sel ins outs = \<lparr>np_name = name, np_namespace = namespace, np_podSelector = sel,
     np_policyTypes = [Ingress, Egress], np_ingress = ins, np_egress = outs\<rparr>"

definition baseline :: "string \<Rightarrow> RenderedPolicy list" where
  "baseline namespace =
     [policy ''default-deny'' namespace [] [] [],
      \<lparr>np_name = ''allow-dns'', np_namespace = namespace, np_podSelector = [], np_policyTypes = [Egress],
       np_ingress = [], np_egress = [DNS_EGRESS]\<rparr>]"

definition toAuth :: "EnvProfile \<Rightarrow> PolicyRule" where
  "toAuth p = rule_to [nsPods (ta_namespace (ep_teleport p)) SEL_auth] (tcp [AUTH_PORT])"

definition toProxy :: "EnvProfile \<Rightarrow> PolicyRule" where
  "toProxy p = rule_to [nsPods (ta_namespace (ep_teleport p)) SEL_proxy] (tcp [PROXY_PORT])"

section \<open>The four namespaces\<close>

definition teleport_policies :: "EnvProfile \<Rightarrow> RenderedPolicy list" where
  "teleport_policies p =
     (let n = ta_namespace (ep_teleport p) in
      baseline n @
      [policy ''proxy'' n SEL_proxy [rule_any (tcp [PROXY_PORT])]
         ([rule_to [pods SEL_auth] (tcp [AUTH_PORT])]
          @ (if dm_enabled (st_dummies p) then [rule_to [nsPods DUMMIES_NAMESPACE SEL_sshNodes] (tcp [3022])] else [])
          @ (case st_tls p of TlsAcme _ \<Rightarrow> [INTERNET_443_EGRESS] | _ \<Rightarrow> [])),
       policy ''auth'' n SEL_auth
         [rule_to [pods SEL_proxy, pods SEL_operator, ns ACCESS_NAMESPACE, ns AGENT_NAMESPACE, ns DUMMIES_NAMESPACE] (tcp [AUTH_PORT])]
         [KUBE_API_EGRESS],
       policy ''operator'' n SEL_operator [] [rule_to [pods SEL_auth] (tcp [AUTH_PORT]), KUBE_API_EGRESS]])"

definition portal_policy :: "EnvProfile \<Rightarrow> RenderedPolicy" where
  "portal_policy p =
     policy ''portal'' ACCESS_NAMESPACE (SEL_bot BotPortal)
       (case po_backstage (sv_portal (st_services p)) of
          None \<Rightarrow> []
        | Some (n, labels) \<Rightarrow> [rule_to [nsPods n labels] (tcp [PORTAL_PORT])])
       [toAuth p, toProxy p, rule_to [pods (SEL_bot BotBroker)] (tcp [BROKER_PORT])]"

definition http_adapters :: "EnvProfile \<Rightarrow> bool" where
  "http_adapters p \<longleftrightarrow> list_ex (\<lambda>a. a = AdTeams \<or> a = AdGchat) (ag_adapters (sv_agent (st_services p)))"

definition agent_policy :: "EnvProfile \<Rightarrow> RenderedPolicy" where
  "agent_policy p =
     policy ''agent'' ACCESS_NAMESPACE (SEL_bot BotAgent)
       (rule_to [pods (SEL_bot BotBroker)] (tcp [AGENT_PORT])
        # (if http_adapters p then [rule_any (tcp [AGENT_PUBLIC_PORT])] else []))
       [rule_to [pods (SEL_bot BotMcp)] (tcp [MCP_PORT]), rule_to [pods (SEL_bot BotBroker)] (tcp [BROKER_PORT]), INTERNET_443_EGRESS]"

definition access_policies :: "EnvProfile \<Rightarrow> RenderedPolicy list" where
  "access_policies p =
     (let n = ACCESS_NAMESPACE; portal = po_enabled (sv_portal (st_services p)) in
      baseline n @
      [policy ''mcp'' n (SEL_bot BotMcp) [rule_to [pods (SEL_bot BotAgent)] (tcp [MCP_PORT])] [toAuth p, toProxy p],
       policy ''broker'' n (SEL_bot BotBroker)
         [rule_to (pods (SEL_bot BotAgent) # (if portal then [pods (SEL_bot BotPortal)] else [])) (tcp [BROKER_PORT])]
         [toAuth p, toProxy p, rule_to [pods (SEL_bot BotAgent)] (tcp [AGENT_PORT])]]
      @ (if portal then [portal_policy p] else [])
      @ [agent_policy p]
      @ (if sv_harness (st_services p) then [policy ''harness'' n (SEL_bot BotHarness) [] [toAuth p, KUBE_API_EGRESS]] else []))"

definition agent_policies :: "EnvProfile \<Rightarrow> RenderedPolicy list" where
  "agent_policies p =
     baseline AGENT_NAMESPACE @
     [policy ''kube-agent'' AGENT_NAMESPACE SEL_kubeAgent []
        ([toProxy p, KUBE_API_EGRESS]
         @ (if dm_enabled (st_dummies p) then [rule_to [ns DUMMIES_NAMESPACE] (tcp (DUMMY_DB_PORTS @ DUMMY_APP_PORTS))] else []))]"

definition dummies_policies :: "EnvProfile \<Rightarrow> RenderedPolicy list" where
  "dummies_policies p =
     (if \<not> dm_enabled (st_dummies p) then []
      else
        (let n = DUMMIES_NAMESPACE; kubeAgent = nsPods AGENT_NAMESPACE SEL_kubeAgent in
         baseline n @
         [policy ''ssh-nodes'' n SEL_sshNodes [rule_to [nsPods (ta_namespace (ep_teleport p)) SEL_proxy] (tcp [3022])] [toAuth p],
          policy ''databases'' n SEL_databases [rule_to [kubeAgent] (tcp DUMMY_DB_PORTS)] [toProxy p],
          policy ''apps'' n SEL_apps [rule_to [kubeAgent] (tcp DUMMY_APP_PORTS)] []]))"

definition renderNetworkPolicies :: "EnvProfile \<Rightarrow> RenderedPolicy list" where
  "renderNetworkPolicies p = teleport_policies p @ access_policies p @ agent_policies p @ dummies_policies p"

section \<open>What policies admit\<close>

record Pod =
  pod_ns :: string
  pod_labels :: "string \<Rightarrow> string option"
  pod_ip :: string

datatype Endpoint = PodEnd Pod | Outside string

definition selects :: "MatchLabels \<Rightarrow> (string \<Rightarrow> string option) \<Rightarrow> bool" where
  "selects sel labels \<longleftrightarrow> list_all (\<lambda>kv. labels (fst kv) = Some (snd kv)) sel"

fun peer_matches :: "(string \<Rightarrow> string list \<Rightarrow> string \<Rightarrow> bool) \<Rightarrow> string \<Rightarrow> Peer \<Rightarrow> Endpoint \<Rightarrow> bool" where
  "peer_matches in_block own (PodPeer nsSel podSel) (PodEnd pd) =
     ((case nsSel of None \<Rightarrow> pod_ns pd = own | Some sel \<Rightarrow> selects sel [''kubernetes.io/metadata.name'' \<mapsto> pod_ns pd]) \<and>
      (case podSel of None \<Rightarrow> True | Some sel \<Rightarrow> selects sel (pod_labels pd)))"
| "peer_matches in_block own (PodPeer _ _) (Outside _) = False"
| "peer_matches in_block own (IpBlock cidr except) (PodEnd pd) = in_block cidr except (pod_ip pd)"
| "peer_matches in_block own (IpBlock cidr except) (Outside ip) = in_block cidr except ip"

definition rule_admits :: "(string \<Rightarrow> string list \<Rightarrow> string \<Rightarrow> bool) \<Rightarrow> string \<Rightarrow> Endpoint \<Rightarrow> Protocol \<times> int \<Rightarrow> PolicyRule \<Rightarrow> bool" where
  "rule_admits in_block own e port r \<longleftrightarrow>
     port \<in> set (ru_ports r) \<and> (case ru_peers r of None \<Rightarrow> True | Some ps \<Rightarrow> list_ex (\<lambda>q. peer_matches in_block own q e) ps)"

definition rules_for :: "Direction \<Rightarrow> RenderedPolicy \<Rightarrow> PolicyRule list" where
  "rules_for d q = (case d of Ingress \<Rightarrow> np_ingress q | Egress \<Rightarrow> np_egress q)"

definition selecting :: "RenderedPolicy list \<Rightarrow> Direction \<Rightarrow> Pod \<Rightarrow> RenderedPolicy list" where
  "selecting pols d pd = filter (\<lambda>q. np_namespace q = pod_ns pd \<and> d \<in> set (np_policyTypes q) \<and> selects (np_podSelector q) (pod_labels pd)) pols"

definition admits :: "(string \<Rightarrow> string list \<Rightarrow> string \<Rightarrow> bool) \<Rightarrow> RenderedPolicy list \<Rightarrow> Direction \<Rightarrow> Pod \<Rightarrow> Endpoint \<Rightarrow> Protocol \<times> int \<Rightarrow> bool" where
  "admits in_block pols d pd e port \<longleftrightarrow>
     selecting pols d pd = [] \<or>
     list_ex (\<lambda>q. list_ex (rule_admits in_block (pod_ns pd) e port) (rules_for d q)) (selecting pols d pd)"

section \<open>Lemmas\<close>

lemma bot_name_inject [simp]: "bot_name k = bot_name k' \<longleftrightarrow> k = k'"
  by (cases k; cases k') simp_all

lemma policy_sel [simp]:
  "np_name (policy n s sel ins outs) = n" "np_namespace (policy n s sel ins outs) = s"
  "np_podSelector (policy n s sel ins outs) = sel" "np_policyTypes (policy n s sel ins outs) = [Ingress, Egress]"
  "rules_for Ingress (policy n s sel ins outs) = ins" "rules_for Egress (policy n s sel ins outs) = outs"
  by (simp_all add: policy_def rules_for_def)

lemma namespace_baseline: "list_all (\<lambda>q. np_namespace q = n) (baseline n)"
  by (simp add: baseline_def)

lemma namespaces:
  "list_all (\<lambda>q. np_namespace q = ta_namespace (ep_teleport p)) (teleport_policies p)"
  "list_all (\<lambda>q. np_namespace q = ACCESS_NAMESPACE) (access_policies p)"
  "list_all (\<lambda>q. np_namespace q = AGENT_NAMESPACE) (agent_policies p)"
  "list_all (\<lambda>q. np_namespace q = DUMMIES_NAMESPACE) (dummies_policies p)"
  by (simp_all add: teleport_policies_def access_policies_def agent_policies_def dummies_policies_def Let_def namespace_baseline
      portal_policy_def agent_policy_def)

lemma namespaces_distinct: "distinct [NAMESPACE, ACCESS_NAMESPACE, AGENT_NAMESPACE, DUMMIES_NAMESPACE]"
  by (simp add: NAMESPACE_def ACCESS_NAMESPACE_def AGENT_NAMESPACE_def DUMMIES_NAMESPACE_def)

lemma selecting_other: "list_all (\<lambda>q. np_namespace q = n) qs \<Longrightarrow> n \<noteq> pod_ns pd \<Longrightarrow> selecting qs d pd = []"
  by (auto simp: selecting_def filter_empty_conv list_all_iff)

lemma selecting_append: "selecting (xs @ ys) d pd = selecting xs d pd @ selecting ys d pd"
  by (simp add: selecting_def)

text \<open>In a namespace with the baseline, a pod talks only as some rule of the namespace's own policies says.\<close>

definition flows :: "(string \<Rightarrow> string list \<Rightarrow> string \<Rightarrow> bool) \<Rightarrow> RenderedPolicy list \<Rightarrow> Direction \<Rightarrow> Pod \<Rightarrow> Endpoint \<Rightarrow> Protocol \<times> int \<Rightarrow> bool" where
  "flows in_block qs d pd e port \<longleftrightarrow>
     list_ex (\<lambda>q. d \<in> set (np_policyTypes q) \<and> selects (np_podSelector q) (pod_labels pd) \<and>
       list_ex (rule_admits in_block (pod_ns pd) e port) (rules_for d q)) qs"

lemma admits_own:
  assumes "list_all (\<lambda>q. np_namespace q = pod_ns pd) qs" and "selecting xs d pd = []" and "selecting ys d pd = []"
  shows "admits in_block (xs @ (baseline (pod_ns pd) @ qs) @ ys) d pd e port \<longleftrightarrow> flows in_block (baseline (pod_ns pd) @ qs) d pd e port"
proof -
  have "selecting (baseline (pod_ns pd)) d pd \<noteq> []"
    by (cases d) (simp_all add: selecting_def baseline_def selects_def policy_def)
  moreover have "selecting (baseline (pod_ns pd) @ qs) d pd =
      filter (\<lambda>q. d \<in> set (np_policyTypes q) \<and> selects (np_podSelector q) (pod_labels pd)) (baseline (pod_ns pd) @ qs)"
    unfolding selecting_def by (rule filter_cong) (use assms(1) namespace_baseline in \<open>auto simp: list_all_iff\<close>)
  ultimately show ?thesis
    using assms(2,3) by (auto simp: admits_def flows_def selecting_append list_ex_iff)
qed

lemma admits_access:
  assumes "pod_ns pd = ACCESS_NAMESPACE" and "ta_namespace (ep_teleport p) = NAMESPACE"
  shows "admits in_block (renderNetworkPolicies p) d pd e port \<longleftrightarrow> flows in_block (access_policies p) d pd e port"
proof -
  obtain qs where qs: "access_policies p = baseline ACCESS_NAMESPACE @ qs" by (simp add: access_policies_def Let_def)
  with namespaces(2) [of p] have l: "list_all (\<lambda>q. np_namespace q = pod_ns pd) qs" by (simp add: assms(1))
  have "selecting (teleport_policies p) d pd = []"
    by (rule selecting_other [OF namespaces(1)]) (use assms namespaces_distinct in simp)
  moreover have "selecting (agent_policies p @ dummies_policies p) d pd = []"
    unfolding selecting_append
    by (simp add: selecting_other [OF namespaces(3)] selecting_other [OF namespaces(4)] assms(1)
        ACCESS_NAMESPACE_def AGENT_NAMESPACE_def DUMMIES_NAMESPACE_def)
  ultimately show ?thesis
    using admits_own [OF l, of "teleport_policies p" d "agent_policies p @ dummies_policies p" in_block e port] assms(1) qs
    by (simp add: renderNetworkPolicies_def)
qed

lemma rule_to_admits:
  "rule_admits in_block own e port (rule_to ps ports) \<longleftrightarrow> port \<in> set ports \<and> list_ex (\<lambda>q. peer_matches in_block own q e) ps"
  "rule_admits in_block own e port (rule_any ports) \<longleftrightarrow> port \<in> set ports"
  by (simp_all add: rule_admits_def rule_to_def rule_any_def)

lemma selects_bot: "selects (SEL_bot k) labels \<longleftrightarrow> labels ''app'' = Some (bot_name k)"
  by (simp add: selects_def SEL_bot_def)

text \<open>A pod of a service, as seen by its neighbours.\<close>

definition is_service :: "BotKey \<Rightarrow> Endpoint \<Rightarrow> bool" where
  "is_service k e = (case e of PodEnd pd \<Rightarrow> pod_ns pd = ACCESS_NAMESPACE \<and> pod_labels pd ''app'' = Some (bot_name k) | Outside _ \<Rightarrow> False)"

lemma pods_match: "peer_matches in_block ACCESS_NAMESPACE (pods (SEL_bot k)) e \<longleftrightarrow> is_service k e"
  by (cases e) (simp_all add: pods_def selects_bot is_service_def)

definition is_backstage :: "EnvProfile \<Rightarrow> Endpoint \<Rightarrow> bool" where
  "is_backstage p e =
     (case (po_backstage (sv_portal (st_services p)), e) of
        (Some (n, labels), PodEnd pd) \<Rightarrow> pod_ns pd = n \<and> selects labels (pod_labels pd)
      | _ \<Rightarrow> False)"

lemma nsPods_match:
  "peer_matches in_block own (nsPods n labels) (PodEnd pd) \<longleftrightarrow> pod_ns pd = n \<and> selects labels (pod_labels pd)"
  "\<not> peer_matches in_block own (nsPods n labels) (Outside ip)"
  by (auto simp: nsPods_def ns_labels_def selects_def)

text \<open>Who is meant to reach each service, and on which port.\<close>

definition intended_ingress :: "EnvProfile \<Rightarrow> BotKey \<Rightarrow> Endpoint \<Rightarrow> Protocol \<times> int \<Rightarrow> bool" where
  "intended_ingress p k e port =
     (case k of
        BotMcp \<Rightarrow> is_service BotAgent e \<and> port = (TCP, MCP_PORT)
      | BotBroker \<Rightarrow> (is_service BotAgent e \<or> po_enabled (sv_portal (st_services p)) \<and> is_service BotPortal e) \<and> port = (TCP, BROKER_PORT)
      | BotPortal \<Rightarrow> po_enabled (sv_portal (st_services p)) \<and> is_backstage p e \<and> port = (TCP, PORTAL_PORT)
      | BotAgent \<Rightarrow> is_service BotBroker e \<and> port = (TCP, AGENT_PORT) \<or> http_adapters p \<and> port = (TCP, AGENT_PUBLIC_PORT)
      | BotHarness \<Rightarrow> False)"

definition service_pod :: "BotKey \<Rightarrow> (string \<Rightarrow> string option) \<Rightarrow> string \<Rightarrow> Pod" where
  "service_pod k labels ip = \<lparr>pod_ns = ACCESS_NAMESPACE, pod_labels = labels(''app'' \<mapsto> bot_name k), pod_ip = ip\<rparr>"

section \<open>Properties\<close>

text \<open>C15. The services are reached only as intended: for every profile built from a configuration, traffic to a pod of the
  access namespace is admitted exactly from the agent to the MCP server and the broker, from the portal to the broker, from
  the configured Backstage pods to the portal, from the broker to the agent and, with an HTTP chat adapter, from anywhere to
  the agent's public port; nothing reaches the harness. No other label of the pod opens a way in.\<close>

theorem services_reached_as_intended:
  "admits in_block (renderNetworkPolicies (profile_of cfg stack secrets)) Ingress (service_pod k labels ip) e port \<longleftrightarrow>
     intended_ingress (profile_of cfg stack secrets) k e port"
proof -
  let ?p = "profile_of cfg stack secrets"
  have t: "ta_namespace (ep_teleport ?p) = NAMESPACE" by (simp add: teleport_addrs_def)
  have b: "\<not> list_ex (\<lambda>q. Ingress \<in> set (np_policyTypes q) \<and> selects (np_podSelector q) l \<and>
      list_ex (rule_admits in_block s e port) (rules_for Ingress q)) (baseline n)" for l s n
    by (simp add: baseline_def)
  have bks: "list_ex (rule_admits in_block ACCESS_NAMESPACE e port)
      (case po_backstage (sv_portal (st_services cfg)) of None \<Rightarrow> [] | Some (n, labels) \<Rightarrow> [rule_to [nsPods n labels] (tcp [PORTAL_PORT])])
      \<longleftrightarrow> is_backstage ?p e \<and> port = (TCP, PORTAL_PORT)"
    by (cases e) (auto simp: is_backstage_def rule_to_admits nsPods_match tcp_def split: option.split)
  show ?thesis
    unfolding admits_access [OF _ t, of "service_pod k labels ip", unfolded service_pod_def, simplified] service_pod_def
    by (cases k)
      (auto simp: flows_def access_policies_def Let_def b selects_bot rule_to_admits pods_match tcp_def intended_ingress_def
        portal_policy_def agent_policy_def bks simp del: bot_name.simps)
qed

text \<open>Addresses outside every pod, and who is meant to reach them.\<close>

definition intended_internet :: "(string \<Rightarrow> string list \<Rightarrow> string \<Rightarrow> bool) \<Rightarrow> EnvProfile \<Rightarrow> BotKey \<Rightarrow> string \<Rightarrow> Protocol \<times> int \<Rightarrow> bool" where
  "intended_internet in_block p k ip port =
     (case k of
        BotAgent \<Rightarrow> in_block ''0.0.0.0/0'' PRIVATE_RANGES ip \<and> port = (TCP, 443)
      | BotHarness \<Rightarrow> sv_harness (st_services p) \<and> in_block ''0.0.0.0/0'' [] ip \<and> port \<in> {(TCP, 443), (TCP, 6443)}
      | _ \<Rightarrow> False)"

text \<open>Nothing leaves the cluster but the chat agent, over https and never into the private ranges, and the test harness,
  where it is deployed: the MCP server, the broker and the portal reach no address outside the cluster's pods at all.\<close>

theorem only_agent_reaches_internet:
  "admits in_block (renderNetworkPolicies (profile_of cfg stack secrets)) Egress (service_pod k labels ip) (Outside addr) port \<longleftrightarrow>
     intended_internet in_block (profile_of cfg stack secrets) k addr port"
proof -
  let ?p = "profile_of cfg stack secrets"
  have t: "ta_namespace (ep_teleport ?p) = NAMESPACE" by (simp add: teleport_addrs_def)
  have d: "\<not> rule_admits in_block own (Outside addr) port DNS_EGRESS"
    "\<not> rule_admits in_block own (Outside addr) port (toAuth ?p)" "\<not> rule_admits in_block own (Outside addr) port (toProxy ?p)" for own
    by (simp_all add: DNS_EGRESS_def toAuth_def toProxy_def rule_to_admits nsPods_match)
  have b: "list_ex (\<lambda>q. Egress \<in> set (np_policyTypes q) \<and> selects (np_podSelector q) l \<and>
      list_ex (rule_admits in_block s (Outside addr) port) (rules_for Egress q)) (baseline n) = False" for l s n
    by (simp add: baseline_def d rules_for_def policy_def)
  show ?thesis
    unfolding admits_access [OF _ t, of "service_pod k labels ip", unfolded service_pod_def, simplified] service_pod_def
    by (cases k)
      (auto simp: flows_def access_policies_def Let_def b d selects_bot rule_to_admits pods_match is_service_def tcp_def
        intended_internet_def portal_policy_def agent_policy_def INTERNET_443_EGRESS_def KUBE_API_EGRESS_def simp del: bot_name.simps)
qed

end
