(* ===== verification/AccessCrs.thy ===== *)
theory AccessCrs
  imports StackProfile
begin

text \<open>
  The resources of the access policy: the operator's custom resources for roles, bots, join tokens, users and the GitHub
  connector (\<open>infra/teleport/src/components/AccessPolicy.ts\<close>, wrappers in \<open>crds/index.ts\<close>), the Kubernetes bindings of
  the catalogue's groups (\<open>KubeRbac.ts\<close>) and the image policy (\<open>ImagePolicy.ts\<close>). A Pulumi resource is its logical name,
  what it creates and the logical names it depends on, in the order of creation.
\<close>

section \<open>Custom resources\<close>

datatype CrSpec =
    RoleCr RoleSpecV7
  | BotCr "string list" string
  | TokenCr "string list" "string option" string
  | UserCr "string list" "(string \<times> string list) list option"
  | SecretCr string
  | GithubCr string string string string "(string \<times> string \<times> string list) list"

text \<open>\<open>kind\<close> and \<open>apiVersion\<close> of the operator's resources; the OAuth secret is a core Kubernetes object.\<close>

fun cr_kind :: "CrSpec \<Rightarrow> string \<times> string" where
  "cr_kind (RoleCr _) = (''TeleportRoleV7'', ''resources.teleport.dev/v1'')"
| "cr_kind (BotCr _ _) = (''TeleportBotV1'', ''resources.teleport.dev/v1'')"
| "cr_kind (TokenCr _ _ _) = (''TeleportProvisionToken'', ''resources.teleport.dev/v2'')"
| "cr_kind (UserCr _ _) = (''TeleportUser'', ''resources.teleport.dev/v2'')"
| "cr_kind (SecretCr _) = (''Secret'', ''v1'')"
| "cr_kind (GithubCr _ _ _ _ _) = (''TeleportGithubConnector'', ''resources.teleport.dev/v3'')"

record Cr =
  cr_logical :: string
  cr_name :: string
  cr_labels :: "(string \<times> string) list"
  cr_annotations :: "(string \<times> string) list"
  cr_spec :: CrSpec
  cr_dependsOn :: "string option list"

definition enabledBots :: "ServicesConfig \<Rightarrow> BotKey list" where
  "enabledBots s = filter (\<lambda>k. (k \<noteq> BotHarness \<or> sv_harness s) \<and> (k \<noteq> BotPortal \<or> po_enabled (sv_portal s))) BOT_KEYS"

definition cr_meta :: "EnvProfile \<Rightarrow> (string \<times> string) list" where
  "cr_meta p = [(''env'', st_env p), (''stack'', ep_stack p), (''managed-by'', ''pulumi'')]"

definition logical_of :: "Cr list \<Rightarrow> string \<Rightarrow> string option" where
  "logical_of crs n = map_of (rev (map (\<lambda>c. (cr_name c, cr_logical c)) crs)) n"

definition sessionMfa :: "EnvProfile \<Rightarrow> bool" where
  "sessionMfa p \<longleftrightarrow> Webauthn \<in> set (au_secondFactors (st_auth p))"

definition rendered_roles :: "EnvProfile \<Rightarrow> RenderedRole list" where
  "rendered_roles p = renderAllRoles (st_edition p) (sv_harness (st_services p)) (Some (sessionMfa p))"

definition role_crs :: "string \<Rightarrow> string \<Rightarrow> EnvProfile \<Rightarrow> Cr list" where
  "role_crs nm chart p =
     map (\<lambda>r. \<lparr>cr_logical = nm @ ''-role-'' @ rr_name r, cr_name = rr_name r, cr_labels = cr_meta p,
              cr_annotations = [(''k8s-teleport/description'', rr_description r)], cr_spec = RoleCr (rr_spec r), cr_dependsOn = [Some chart]\<rparr>)
       (rendered_roles p)"

definition bot_crs :: "string \<Rightarrow> string \<Rightarrow> EnvProfile \<Rightarrow> BotKey \<Rightarrow> Cr list" where
  "bot_crs nm chart p k =
     [\<lparr>cr_logical = nm @ ''-bot-'' @ bot_name k, cr_name = bot_name k, cr_labels = cr_meta p, cr_annotations = [],
       cr_spec = BotCr [bot_role k] BOT_MAX_SESSION_TTL, cr_dependsOn = [Some chart, logical_of (role_crs nm chart p) (bot_role k)]\<rparr>,
      \<lparr>cr_logical = nm @ ''-token-'' @ bot_name k, cr_name = bot_name k, cr_labels = cr_meta p, cr_annotations = [],
       cr_spec = TokenCr [''Bot''] (Some (bot_name k)) (ACCESS_NAMESPACE @ '':'' @ bot_serviceAccount k),
       cr_dependsOn = [Some chart, Some (nm @ ''-bot-'' @ bot_name k)]\<rparr>]"

definition agent_tokens :: "EnvProfile \<Rightarrow> JoinToken list" where
  "agent_tokens p = TOKEN_kubeAgent # (if dm_enabled (st_dummies p) then map (\<lambda>n. sshNodeToken (fst n)) (dm_sshNodes (st_dummies p)) else [])"

definition agent_token_crs :: "string \<Rightarrow> string \<Rightarrow> EnvProfile \<Rightarrow> Cr list" where
  "agent_token_crs nm chart p =
     map (\<lambda>t. \<lparr>cr_logical = nm @ ''-token-'' @ jt_name t, cr_name = jt_name t, cr_labels = cr_meta p, cr_annotations = [],
              cr_spec = TokenCr (jt_roles t) None (jt_serviceAccount t), cr_dependsOn = [Some chart]\<rparr>) (agent_tokens p)"

definition user_crs :: "string \<Rightarrow> string \<Rightarrow> EnvProfile \<Rightarrow> Cr list" where
  "user_crs nm chart p =
     map (\<lambda>u. \<lparr>cr_logical = nm @ ''-user-'' @ us_name u, cr_name = us_name u, cr_labels = cr_meta p, cr_annotations = [],
              cr_spec = UserCr (us_roles u) (if us_traits u = [] then None else Some (us_traits u)),
              cr_dependsOn = Some chart # map (\<lambda>c. Some (cr_logical c)) (role_crs nm chart p)\<rparr>) (st_users p)"

text \<open>The GitHub connector and its client secret; without the secret neither is rendered.\<close>

definition github_crs :: "string \<Rightarrow> string \<Rightarrow> EnvProfile \<Rightarrow> Cr list" where
  "github_crs nm chart p =
     (case (au_type (st_auth p), st_github p, se_githubClientSecret (ep_secrets p)) of
        (AuthGithub, Some g, Some secret) \<Rightarrow>
          let connector = nullish (au_connectorName (st_auth p)) ''github'' in
          [\<lparr>cr_logical = nm @ ''-github-oauth'', cr_name = ''github-oauth'', cr_labels = cr_meta p,
            cr_annotations = [(''resources.teleport.dev/allow-lookup-from-cr'', connector)], cr_spec = SecretCr secret, cr_dependsOn = [Some chart]\<rparr>,
           \<lparr>cr_logical = nm @ ''-github'', cr_name = connector, cr_labels = cr_meta p, cr_annotations = [],
            cr_spec = GithubCr (gh_display g) (gh_clientId g) ''secret://github-oauth/client_secret''
              (''https://'' @ st_publicAddr p @ ''/v1/webapi/github/callback'')
              (map (\<lambda>m. (gh_organization g, tm_team m, tm_roles m)) (gh_teamsToRoles g)),
            cr_dependsOn = [Some chart, Some (nm @ ''-github-oauth'')] @ map (\<lambda>c. Some (cr_logical c)) (role_crs nm chart p)\<rparr>]
      | _ \<Rightarrow> [])"

definition access_crs :: "string \<Rightarrow> string \<Rightarrow> EnvProfile \<Rightarrow> Cr list" where
  "access_crs nm chart p =
     role_crs nm chart p @ concat (map (bot_crs nm chart p) (enabledBots (st_services p))) @ agent_token_crs nm chart p
     @ user_crs nm chart p @ github_crs nm chart p"

section \<open>Kubernetes bindings\<close>

record Binding =
  bi_name :: string
  bi_namespace :: "string option"
  bi_clusterRole :: string
  bi_group :: string

definition bind_group :: "string \<Rightarrow> string \<Rightarrow> Binding" where
  "bind_group grp role = \<lparr>bi_name = grp, bi_namespace = None, bi_clusterRole = role, bi_group = grp\<rparr>"

definition kube_rbac :: "Binding list" where
  "kube_rbac = [bind_group KUBE_GROUP_clusterAdmin ''cluster-admin'', bind_group KUBE_GROUP_prodViewer ''view'']"

text \<open>The binding of the developers' group, made on the first call only.\<close>

definition bindDevEditors :: "string \<Rightarrow> Binding option \<Rightarrow> Binding \<times> Binding option" where
  "bindDevEditors namespace made =
     (let b = nullish made \<lparr>bi_name = KUBE_GROUP_dev, bi_namespace = Some namespace, bi_clusterRole = ''edit'', bi_group = KUBE_GROUP_dev\<rparr> in
      (b, Some b))"

section \<open>The image policy\<close>

definition GITHUB_OIDC_ISSUER :: string where "GITHUB_OIDC_ISSUER = ''https://token.actions.githubusercontent.com''"
definition RELEASE_WORKFLOW :: string where "RELEASE_WORKFLOW = ''.github/workflows/release-images.yml''"

definition rx_special :: "char \<Rightarrow> bool" where
  "rx_special c \<longleftrightarrow> c \<in> set ''.*+?^${}()|[]'' \<or> c = BS"

definition rx_escape :: "string \<Rightarrow> string" where
  "rx_escape s = concat (map (\<lambda>c. if rx_special c then [BS, c] else [c]) s)"

text \<open>\<open>/^ghcr\.io\/([^/]+)\/([^/]+)/\<close>: the organisation and the repository of a registry.\<close>

definition registry_repo :: "string \<Rightarrow> (string \<times> string) option" where
  "registry_repo r =
     (if starts_with ''ghcr.io/'' r then
        (case split_on (CHR ''/'') (drop 8 r) of
           org # repo # _ \<Rightarrow> if org \<noteq> [] \<and> repo \<noteq> [] then Some (org, repo) else None
         | _ \<Rightarrow> None)
      else None)"

definition signerSubjectRegexp :: "ImagesConfig \<Rightarrow> string + string" where
  "signerSubjectRegexp i =
     (if truthy (ic_signerSubjectRegexp i) then Inr (nullish (ic_signerSubjectRegexp i) [])
      else
        (case registry_repo (ic_registry i) of
           None \<Rightarrow> Inl (''images.verifySignatures needs images.signerSubjectRegexp when the registry ('' @ str_or (ic_registry i) ''(local)'' @ '') is not ghcr.io/<org>/<repo>'')
         | Some (org, repo) \<Rightarrow>
             Inr (''^https://github'' @ [BS] @ ''.com/'' @ rx_escape org @ ''/'' @ rx_escape repo @ ''/'' @ rx_escape RELEASE_WORKFLOW @ ''@refs/.*$'')))"

definition jstrs :: "string list \<Rightarrow> json" where "jstrs xs = JArr (map JStr xs)"

definition container_pattern :: "string \<Rightarrow> json" where
  "container_pattern img =
     (let one = JArr [JObj [(''image'', JStr img)]] in
      JObj [(''spec'', JObj [(''=(initContainers)'', one), (''=(ephemeralContainers)'', one), (''containers'', one)])])"

definition validate_rule :: "string \<Rightarrow> json \<Rightarrow> string \<Rightarrow> string \<Rightarrow> json" where
  "validate_rule name matches message img =
     JObj [(''name'', JStr name), (''match'', matches),
       (''validate'', JObj [(''message'', JStr message), (''pattern'', container_pattern img)])]"

definition verify_rule :: "json \<Rightarrow> string \<Rightarrow> string \<Rightarrow> json" where
  "verify_rule matches registry subject =
     JObj [(''name'', JStr ''verify-cosign-signature''), (''match'', matches),
       (''verifyImages'', JArr [JObj
          [(''imageReferences'', jstrs [registry @ ''/*'']), (''required'', JBool True), (''mutateDigest'', JBool True), (''verifyDigest'', JBool True),
           (''attestors'', JArr [JObj [(''entries'', JArr [JObj [(''keyless'', JObj
              [(''issuer'', JStr GITHUB_OIDC_ISSUER), (''subjectRegExp'', JStr subject),
               (''rekor'', JObj [(''url'', JStr ''https://rekor.sigstore.dev'')])])]])]])]])]"

definition policy_match :: "string \<Rightarrow> json" where
  "policy_match teleportNs = JObj [(''any'', JArr [JObj [(''resources'', JObj
     [(''kinds'', jstrs [''Pod'']), (''namespaces'', jstrs [teleportNs, ACCESS_NAMESPACE, AGENT_NAMESPACE, DUMMIES_NAMESPACE])])]])]"

definition renderImagePolicy :: "EnvProfile \<Rightarrow> string + json" where
  "renderImagePolicy p =
     (let m = policy_match (ta_namespace (ep_teleport p)) in
      case signerSubjectRegexp (st_images p) of
        Inl e \<Rightarrow> Inl e
      | Inr subject \<Rightarrow> Inr (JObj
          [(''apiVersion'', JStr ''kyverno.io/v1''), (''kind'', JStr ''ClusterPolicy''),
           (''metadata'', JObj [(''name'', JStr ''k8s-teleport-images''),
              (''labels'', JObj [(''app.kubernetes.io/part-of'', JStr ''k8s-teleport''), (''app.kubernetes.io/managed-by'', JStr ''pulumi'')])]),
           (''spec'', JObj
              [(''validationFailureAction'', JStr ''Enforce''), (''background'', JBool False), (''failurePolicy'', JStr ''Fail''),
               (''webhookTimeoutSeconds'', JInt 30),
               (''rules'', JArr
                  [verify_rule m (ic_registry (st_images p)) subject,
                   validate_rule ''disallow-latest'' m ''images must not use the :latest tag'' ''!*:latest'',
                   validate_rule ''require-tag-or-digest'' m ''images must be pinned to a tag or a digest'' ''*:* | *@sha256:*''])])]))"

section \<open>What the resources depend on\<close>

text \<open>Every dependency of a resource is a logical name that was created before it.\<close>

fun deps_ok :: "string list \<Rightarrow> Cr list \<Rightarrow> bool" where
  "deps_ok made [] \<longleftrightarrow> True"
| "deps_ok made (c # cs) \<longleftrightarrow>
     list_all (\<lambda>d. case d of None \<Rightarrow> False | Some l \<Rightarrow> l \<in> set made) (cr_dependsOn c) \<and> deps_ok (cr_logical c # made) cs"

lemma deps_ok_append: "deps_ok made (xs @ ys) \<longleftrightarrow> deps_ok made xs \<and> deps_ok (rev (map cr_logical xs) @ made) ys"
  by (induction xs arbitrary: made) auto

lemma deps_ok_flat:
  "list_all (\<lambda>c. list_all (\<lambda>d. case d of None \<Rightarrow> False | Some l \<Rightarrow> l \<in> set made) (cr_dependsOn c)) cs \<Longrightarrow> deps_ok made cs"
proof (induction cs arbitrary: made)
  case (Cons c cs)
  have "list_all (\<lambda>c'. list_all (\<lambda>d. case d of None \<Rightarrow> False | Some l \<Rightarrow> l \<in> set (cr_logical c # made)) (cr_dependsOn c')) cs"
    using Cons.prems by (fastforce simp: list_all_iff split: option.splits)
  then show ?case using Cons.IH Cons.prems by simp
qed simp

lemma logical_of_Some: "n \<in> cr_name ` set cs \<Longrightarrow> \<exists>c\<in>set cs. cr_name c = n \<and> logical_of cs n = Some (cr_logical c)"
proof -
  assume "n \<in> cr_name ` set cs"
  then have "n \<in> fst ` set (rev (map (\<lambda>c. (cr_name c, cr_logical c)) cs))" by force
  then obtain l where "map_of (rev (map (\<lambda>c. (cr_name c, cr_logical c)) cs)) n = Some l"
    by (metis map_of_eq_None_iff not_None_eq)
  then show ?thesis unfolding logical_of_def by (auto dest!: map_of_SomeD)
qed

lemma bot_role_rendered: "k \<in> set (enabledBots (st_services p)) \<Longrightarrow> bot_role k \<in> rr_name ` set (rendered_roles p)"
  by (cases k) (auto simp: enabledBots_def rendered_roles_def renderAllRoles_def renderBotRoles_def renderHarnessRole_def Let_def)

lemma bot_role_made:
  assumes "k \<in> set (enabledBots (st_services p))"
  obtains c where "c \<in> set (role_crs nm chart p)" "logical_of (role_crs nm chart p) (bot_role k) = Some (cr_logical c)"
proof -
  have "bot_role k \<in> cr_name ` set (role_crs nm chart p)"
    using bot_role_rendered[OF assms] by (force simp: role_crs_def)
  from logical_of_Some[OF this] that show ?thesis by blast
qed

lemma deps_bots:
  assumes "list_all (\<lambda>k. k \<in> set (enabledBots (st_services p))) ks" "chart \<in> set made"
    "cr_logical ` set (role_crs nm chart p) \<subseteq> set made"
  shows "deps_ok made (concat (map (bot_crs nm chart p) ks))"
  using assms
proof (induction ks arbitrary: made)
  case (Cons k ks)
  obtain c where "c \<in> set (role_crs nm chart p)" "logical_of (role_crs nm chart p) (bot_role k) = Some (cr_logical c)"
    using bot_role_made[of k p nm chart] Cons.prems(1) by auto
  then have "deps_ok made (bot_crs nm chart p k)" using Cons.prems by (auto simp: bot_crs_def)
  moreover have "deps_ok (rev (map cr_logical (bot_crs nm chart p k)) @ made) (concat (map (bot_crs nm chart p) ks))"
    by (rule Cons.IH) (use Cons.prems in auto)
  ultimately show ?case by (simp add: deps_ok_append)
qed simp

lemma deps_access: "deps_ok [chart] (access_crs nm chart p)"
proof -
  have r: "deps_ok [chart] (role_crs nm chart p)" by (rule deps_ok_flat) (auto simp: role_crs_def list_all_iff)
  have t: "chart \<in> set made \<Longrightarrow> deps_ok made (agent_token_crs nm chart p)" for made
    by (rule deps_ok_flat) (auto simp: agent_token_crs_def list_all_iff)
  have u: "chart \<in> set made \<Longrightarrow> cr_logical ` set (role_crs nm chart p) \<subseteq> set made \<Longrightarrow> deps_ok made (user_crs nm chart p)" for made
    by (rule deps_ok_flat) (auto simp: user_crs_def list_all_iff)
  have g: "chart \<in> set made \<Longrightarrow> cr_logical ` set (role_crs nm chart p) \<subseteq> set made \<Longrightarrow> deps_ok made (github_crs nm chart p)" for made
    by (auto simp: github_crs_def Let_def list_all_iff split: AuthType.split option.split)
  show ?thesis unfolding access_crs_def
    by (auto simp: deps_ok_append r intro!: t u g deps_bots simp: list_all_iff)
qed

section \<open>Who may join as what\<close>

text \<open>A provisioning token that admits a bot: the bot it is for and the service account that may use it.\<close>

definition bot_joins :: "Cr list \<Rightarrow> (string \<times> string) list" where
  "bot_joins crs = List.map_filter (\<lambda>c. case cr_spec c of TokenCr roles (Some b) sa \<Rightarrow> (if ''Bot'' \<in> set roles then Some (b, sa) else None) | _ \<Rightarrow> None) crs"

definition bot_grants :: "Cr list \<Rightarrow> (string \<times> string list) list" where
  "bot_grants crs = List.map_filter (\<lambda>c. case cr_spec c of BotCr roles _ \<Rightarrow> Some (cr_name c, roles) | _ \<Rightarrow> None) crs"

definition node_joins :: "Cr list \<Rightarrow> (string list \<times> string) list" where
  "node_joins crs = List.map_filter (\<lambda>c. case cr_spec c of TokenCr roles None sa \<Rightarrow> Some (roles, sa) | _ \<Rightarrow> None) crs"

lemma map_filter_append [simp]: "List.map_filter f (xs @ ys) = List.map_filter f xs @ List.map_filter f ys"
  by (induction xs) (simp_all add: map_filter_simps split: option.split)

lemma map_filter_map: "List.map_filter g (map f xs) = List.map_filter (\<lambda>x. g (f x)) xs"
  by (induction xs) (simp_all add: map_filter_simps split: option.split)

lemma map_filter_total: "List.map_filter (\<lambda>x. Some (h x)) xs = map h xs"
  by (induction xs) (simp_all add: map_filter_simps)

lemma map_filter_none: "list_all (\<lambda>x. f x = None) xs \<Longrightarrow> List.map_filter f xs = []"
  by (induction xs) (simp_all add: map_filter_simps)

lemma joins_bots:
  "bot_joins (concat (map (bot_crs nm chart p) ks)) = map (\<lambda>k. (bot_name k, ACCESS_NAMESPACE @ '':'' @ bot_serviceAccount k)) ks"
  "bot_grants (concat (map (bot_crs nm chart p) ks)) = map (\<lambda>k. (bot_name k, [bot_role k])) ks"
  "node_joins (concat (map (bot_crs nm chart p) ks)) = []"
  by (induction ks) (simp_all add: bot_joins_def bot_grants_def node_joins_def bot_crs_def map_filter_simps)

lemma joins_parts:
  "bot_joins (role_crs nm chart p) = []" "bot_joins (agent_token_crs nm chart p) = []" "bot_joins (user_crs nm chart p) = []"
  "bot_joins (github_crs nm chart p) = []" "bot_grants (role_crs nm chart p) = []" "bot_grants (agent_token_crs nm chart p) = []"
  "bot_grants (user_crs nm chart p) = []" "bot_grants (github_crs nm chart p) = []" "node_joins (role_crs nm chart p) = []"
  "node_joins (user_crs nm chart p) = []" "node_joins (github_crs nm chart p) = []"
  unfolding bot_joins_def bot_grants_def node_joins_def
  by (rule map_filter_none; auto simp: list_all_iff role_crs_def agent_token_crs_def user_crs_def github_crs_def Let_def
        split: AuthType.splits option.splits)+

lemma node_joins_tokens: "node_joins (agent_token_crs nm chart p) = map (\<lambda>t. (jt_roles t, jt_serviceAccount t)) (agent_tokens p)"
  by (simp add: node_joins_def agent_token_crs_def map_filter_map map_filter_total)

text \<open>The access policy's resources are created in an order in which every dependency exists. Exactly the enabled bots
  exist, each with its own role alone, and each can be joined only from its own service account in the access namespace;
  every other token admits agents only: the kube agent's account for Kubernetes, apps and databases and, where dummies are
  deployed, one account per SSH environment for a node.\<close>

theorem access_crs_confined:
  "deps_ok [chart] (access_crs nm chart p)
   \<and> bot_grants (access_crs nm chart p) = map (\<lambda>k. (bot_name k, [bot_role k])) (enabledBots (st_services p))
   \<and> bot_joins (access_crs nm chart p) = map (\<lambda>k. (bot_name k, ''teleport-access:'' @ bot_name k)) (enabledBots (st_services p))
   \<and> node_joins (access_crs nm chart p) = ([''Kube'', ''App'', ''Db''], ''teleport-agent:teleport-kube-agent'')
       # (if dm_enabled (st_dummies p) then map (\<lambda>n. ([''Node''], ''teleport-dummies:ssh-node-'' @ fst n)) (dm_sshNodes (st_dummies p)) else [])"
proof -
  have app: "bot_joins (xs @ ys) = bot_joins xs @ bot_joins ys" "bot_grants (xs @ ys) = bot_grants xs @ bot_grants ys"
    "node_joins (xs @ ys) = node_joins xs @ node_joins ys" for xs ys
    by (simp_all add: bot_joins_def bot_grants_def node_joins_def)
  show ?thesis
    by (simp add: deps_access access_crs_def app joins_bots joins_parts node_joins_tokens agent_tokens_def TOKEN_kubeAgent_def
        sshNodeToken_def ACCESS_NAMESPACE_def AGENT_NAMESPACE_def DUMMIES_NAMESPACE_def bot_serviceAccount_def comp_def deps_access[unfolded access_crs_def])
qed

text \<open>Every Kubernetes group a rendered role hands out is bound to a ClusterRole, cluster-wide only for the two groups of
  \<open>kube_rbac\<close>; nothing hands out \<open>system:masters\<close>.\<close>

lemma kube_groups_bound:
  "r \<in> set (renderAllRoles ed harness mfa) \<Longrightarrow> rd_kubernetes_groups (sp_allow (rr_spec r)) = Some gs \<Longrightarrow>
   set gs \<subseteq> set (map bi_group (fst (bindDevEditors DUMMIES_NAMESPACE None) # kube_rbac))"
  unfolding renderAllRoles_def
  by (auto simp: Let_def CATALOG_def crole_def renderCatalogRole_def catalog_allow_def ssh_scope_def db_scope_def kube_scope_def app_scope_def no_scope_def
      renderRequesterRole_def renderApproverRole_def renderBotRoles_def renderHarnessRole_def mcp_spec_def broker_spec_def bot_spec_def
      botInventoryLabels_def no_conditions_def kube_rbac_def bind_group_def bindDevEditors_def)

end
