(* ===== verification/Hardening.thy ===== *)
theory Hardening
  imports StackProfile
begin

text \<open>
  How a pod of this stack looks: the hardened contexts, resources, scratch and token volumes and the namespace guardrails of
  \<open>infra/teleport/src/lib/security.ts\<close>, the labels of \<open>lib/labels.ts\<close> and the chart installation of \<open>lib/helm.ts\<close>. Kubernetes
  objects are records with the members the source sets; a member it leaves out is \<^const>\<open>None\<close> or an empty list.
\<close>

section \<open>Kubernetes objects\<close>

record PodSecurityContext =
  ps_runAsNonRoot :: bool
  ps_runAsUser :: int
  ps_runAsGroup :: int
  ps_fsGroup :: int
  ps_fsGroupChangePolicy :: "string option"
  ps_seccompProfile :: string

record SecurityContext =
  cs_allowPrivilegeEscalation :: bool
  cs_readOnlyRootFilesystem :: bool
  cs_drop :: "string list"
  cs_seccompProfile :: string
  cs_runAsNonRoot :: bool
  cs_runAsUser :: "int option"

type_synonym Amounts = "string \<times> string"

record Resources =
  rs_requests :: Amounts
  rs_limits :: Amounts

datatype VolumeSource =
    EmptyDir "string option" "string option"
  | ConfigMapVolume string
  | SecretVolume string int
  | JoinToken int "string option"
  | ApiCredentials int
  | Claim string

record Volume =
  vo_name :: string
  vo_source :: VolumeSource

record VolumeMount =
  vm_name :: string
  vm_path :: string
  vm_readOnly :: bool
  vm_subPath :: "string option"

datatype EnvSource = EnvValue string | EnvSecret string string | EnvField string

type_synonym EnvVar = "string \<times> EnvSource"

datatype ProbeCheck = HttpGet string int | ExecCheck "string list"

record Probe =
  pb_check :: ProbeCheck
  pb_initialDelay :: int
  pb_period :: int
  pb_failures :: "int option"

record Container =
  ct_cname :: string
  ct_image :: string
  ct_pullPolicy :: "PullPolicy option"
  ct_command :: "string list"
  ct_args :: "string list"
  ct_env :: "EnvVar list"
  ct_ports :: "int list"
  ct_mounts :: "VolumeMount list"
  ct_readiness :: "Probe option"
  ct_liveness :: "Probe option"
  ct_security :: "SecurityContext option"
  ct_resources :: Resources

record PodSpec =
  pd_serviceAccount :: "string option"
  pd_automount :: bool
  pd_security :: "PodSecurityContext option"
  pd_init :: "Container list"
  pd_containers :: "Container list"
  pd_volumes :: "Volume list"

datatype WorkloadKind = Deployment | StatefulSet

record Workload =
  wl_kind :: WorkloadKind
  wl_name :: string
  wl_namespace :: string
  wl_replicas :: int
  wl_recreate :: bool
  wl_selector :: "(string \<times> string) list"
  wl_labels :: "(string \<times> string) list"
  wl_pod :: PodSpec
  wl_claims :: "string list"

section \<open>Hardened contexts\<close>

definition NONROOT_UID :: int where "NONROOT_UID = 65532"

definition hardenedPodSecurityContext :: "int \<Rightarrow> PodSecurityContext" where
  "hardenedPodSecurityContext uid =
     \<lparr>ps_runAsNonRoot = True, ps_runAsUser = uid, ps_runAsGroup = uid, ps_fsGroup = uid,
      ps_fsGroupChangePolicy = Some ''OnRootMismatch'', ps_seccompProfile = ''RuntimeDefault''\<rparr>"

definition hardenedContainerSecurityContext :: SecurityContext where
  "hardenedContainerSecurityContext =
     \<lparr>cs_allowPrivilegeEscalation = False, cs_readOnlyRootFilesystem = True, cs_drop = [''ALL''],
      cs_seccompProfile = ''RuntimeDefault'', cs_runAsNonRoot = True, cs_runAsUser = None\<rparr>"

definition resources :: "Amounts \<Rightarrow> Amounts \<Rightarrow> Resources" where
  "resources req limits = \<lparr>rs_requests = req, rs_limits = limits\<rparr>"

definition scratch_name :: "string \<Rightarrow> nat \<Rightarrow> string" where
  "scratch_name pre i = pre @ ''-scratch-'' @ show_nat i"

definition mount :: "string \<Rightarrow> string \<Rightarrow> VolumeMount" where
  "mount n path = \<lparr>vm_name = n, vm_path = path, vm_readOnly = False, vm_subPath = None\<rparr>"

definition mount_ro :: "string \<Rightarrow> string \<Rightarrow> VolumeMount" where
  "mount_ro n path = (mount n path)\<lparr>vm_readOnly := True\<rparr>"

definition scratchVolumes :: "string \<Rightarrow> string list \<Rightarrow> string \<Rightarrow> Volume list \<times> VolumeMount list" where
  "scratchVolumes pre paths sizeLimit =
     (map (\<lambda>i. \<lparr>vo_name = scratch_name pre i, vo_source = EmptyDir None (Some sizeLimit)\<rparr>) [0..<length paths],
      map (\<lambda>(i, path). mount (scratch_name pre i) path) (zip [0..<length paths] paths))"

definition SCRATCH_LIMIT :: string where "SCRATCH_LIMIT = ''64Mi''"

definition projectedJoinTokenVolume :: Volume where
  "projectedJoinTokenVolume = \<lparr>vo_name = ''join-sa-token'', vo_source = JoinToken 600 None\<rparr>"

definition projectedInClusterCredentialsVolume :: Volume where
  "projectedInClusterCredentialsVolume = \<lparr>vo_name = ''kube-api-credentials'', vo_source = ApiCredentials 3600\<rparr>"

definition IN_CLUSTER_CREDENTIALS_PATH :: string where
  "IN_CLUSTER_CREDENTIALS_PATH = ''/var/run/secrets/kubernetes.io/serviceaccount''"

section \<open>Namespaces\<close>

record Quota =
  qu_pods :: int
  qu_cpu :: string
  qu_memory :: string
  qu_cpuLimit :: string
  qu_memoryLimit :: string

record Guardrails =
  gr_namespace :: string
  gr_default :: Amounts
  gr_defaultRequest :: Amounts
  gr_max :: Amounts
  gr_claimMax :: string
  gr_hard :: "(string \<times> string) list"

definition namespaceGuardrails :: "string \<Rightarrow> Quota \<Rightarrow> Amounts option \<Rightarrow> Guardrails" where
  "namespaceGuardrails ns q containerDefaults =
     \<lparr>gr_namespace = ns, gr_default = nullish containerDefaults (''500m'', ''512Mi''), gr_defaultRequest = (''10m'', ''32Mi''),
      gr_max = (''4'', ''4Gi''), gr_claimMax = ''10Gi'',
      gr_hard = [(''pods'', show_int (qu_pods q)), (''requests.cpu'', qu_cpu q), (''requests.memory'', qu_memory q),
        (''limits.cpu'', qu_cpuLimit q), (''limits.memory'', qu_memoryLimit q), (''services.loadbalancers'', ''0''), (''services.nodeports'', ''0'')]\<rparr>"

datatype PssLevel = Privileged | Baseline | Restricted

fun pss_text :: "PssLevel \<Rightarrow> string" where
  "pss_text Privileged = ''privileged''"
| "pss_text Baseline = ''baseline''"
| "pss_text Restricted = ''restricted''"

datatype Tier = Compute | Data | Platform | Web | Cloud | Access

fun tier_text :: "Tier \<Rightarrow> string" where
  "tier_text Compute = ''compute''"
| "tier_text Data = ''data''"
| "tier_text Platform = ''platform''"
| "tier_text Web = ''web''"
| "tier_text Cloud = ''cloud''"
| "tier_text Access = ''access''"

text \<open>An object spread: members of the right operand replace or follow those of the left one.\<close>

definition spread :: "(string \<times> 'a) list \<Rightarrow> (string \<times> 'a) list \<Rightarrow> (string \<times> 'a) list" where
  "spread a b = fold (\<lambda>(k, v) m. AList.update k v m) b a"

definition teleportLabels :: "Tier \<Rightarrow> string \<Rightarrow> (string \<times> string) list \<Rightarrow> string \<Rightarrow> (string \<times> string) list" where
  "teleportLabels tier team extra env =
     spread [(''env'', env), (''tier'', tier_text tier), (''team'', team), (''managed-by'', ''pulumi'')] extra"

definition k8sLabels :: "EnvProfile \<Rightarrow> string \<Rightarrow> string option \<Rightarrow> (string \<times> string) list" where
  "k8sLabels p app component =
     [(''app'', app), (''app.kubernetes.io/name'', app), (''app.kubernetes.io/part-of'', ''k8s-teleport''),
      (''app.kubernetes.io/managed-by'', ''pulumi'')]
     @ (if truthy component then [(''app.kubernetes.io/component'', nullish component [])] else [])
     @ [(''env'', st_env p), (''stack'', ep_stack p)]"

definition namespaceLabels :: "EnvProfile \<Rightarrow> string \<Rightarrow> PssLevel \<Rightarrow> string option \<Rightarrow> (string \<times> string) list" where
  "namespaceLabels p app enforce component =
     k8sLabels p app component
     @ [(''pod-security.kubernetes.io/enforce'', pss_text enforce), (''pod-security.kubernetes.io/enforce-version'', ''latest''),
        (''pod-security.kubernetes.io/audit'', ''restricted''), (''pod-security.kubernetes.io/warn'', ''restricted'')]"

section \<open>Charts\<close>

record ChartArgs =
  ca_chart :: string
  ca_version :: string
  ca_namespace :: string
  ca_releaseName :: string
  ca_values :: json
  ca_repo :: "string option"
  ca_skipCrds :: "bool option"

definition TELEPORT_HELM_REPO :: string where "TELEPORT_HELM_REPO = ''https://charts.releases.teleport.dev''"

definition installChart :: "ChartArgs \<Rightarrow> json" where
  "installChart a = JObj
     [(''chart'', JStr (ca_chart a)), (''version'', JStr (ca_version a)), (''namespace'', JStr (ca_namespace a)), (''name'', JStr (ca_releaseName a)),
      (''repositoryOpts'', JObj [(''repo'', JStr (nullish (ca_repo a) TELEPORT_HELM_REPO))]), (''values'', ca_values a),
      (''skipCrds'', JBool (nullish (ca_skipCrds a) False))]"

section \<open>Pod security standards\<close>

text \<open>What the admission controller checks of the members this stack sets: \<open>baseline\<close> forbids host volumes and privilege,
  none of which these records can express; \<open>restricted\<close> wants every container non-root, without privilege escalation,
  with all capabilities dropped and a seccomp profile, and only the listed volume types.\<close>

definition container_restricted :: "Container \<Rightarrow> bool" where
  "container_restricted c \<longleftrightarrow>
     (case ct_security c of None \<Rightarrow> False
      | Some s \<Rightarrow> \<not> cs_allowPrivilegeEscalation s \<and> ''ALL'' \<in> set (cs_drop s) \<and> cs_runAsNonRoot s \<and> cs_seccompProfile s = ''RuntimeDefault''
          \<and> cs_runAsUser s \<noteq> Some 0)"

definition pod_restricted :: "PodSpec \<Rightarrow> bool" where
  "pod_restricted pd \<longleftrightarrow> list_all container_restricted (pd_init pd @ pd_containers pd)
     \<and> (case pd_security pd of None \<Rightarrow> False | Some s \<Rightarrow> ps_runAsNonRoot s \<and> ps_runAsUser s \<noteq> 0)"

fun pss_admits :: "PssLevel \<Rightarrow> PodSpec \<Rightarrow> bool" where
  "pss_admits Restricted pd \<longleftrightarrow> pod_restricted pd"
| "pss_admits Baseline pd \<longleftrightarrow> True"
| "pss_admits Privileged pd \<longleftrightarrow> True"

text \<open>The levels, from the weakest to the strictest: what a level admits, every weaker one does.\<close>

fun pss_rank :: "PssLevel \<Rightarrow> nat" where
  "pss_rank Privileged = 0"
| "pss_rank Baseline = 1"
| "pss_rank Restricted = 2"

lemma pss_rank_inject: "pss_rank a = pss_rank b \<longleftrightarrow> a = b"
  by (cases a; cases b) simp_all

instantiation PssLevel :: linorder
begin

definition less_eq_PssLevel :: "PssLevel \<Rightarrow> PssLevel \<Rightarrow> bool" where
  "a \<le> b \<longleftrightarrow> pss_rank a \<le> pss_rank b"

definition less_PssLevel :: "PssLevel \<Rightarrow> PssLevel \<Rightarrow> bool" where
  "a < b \<longleftrightarrow> pss_rank a < pss_rank b"

instance
  by standard (auto simp: less_eq_PssLevel_def less_PssLevel_def pss_rank_inject)

end

lemma pss_weakest: "Privileged \<le> l" and pss_strictest: "l \<le> Restricted"
  by (cases l; simp add: less_eq_PssLevel_def)+

lemma pss_admits_antimono: "l \<le> l' \<Longrightarrow> pss_admits l' pd \<Longrightarrow> pss_admits l pd"
  by (cases l; cases l') (simp_all add: less_eq_PssLevel_def)

text \<open>A container is immutable when its root filesystem is read-only and it writes to scratch, claimed or token volumes only;
  every mount names a volume of the pod, or a claim of the set.\<close>

definition writable_source :: "VolumeSource \<Rightarrow> bool" where
  "writable_source s \<longleftrightarrow> (case s of EmptyDir _ _ \<Rightarrow> True | Claim _ \<Rightarrow> True | _ \<Rightarrow> False)"

definition mount_ok :: "string list \<Rightarrow> Volume list \<Rightarrow> VolumeMount \<Rightarrow> bool" where
  "mount_ok claims vols m \<longleftrightarrow>
     vm_name m \<in> set claims \<or>
     list_ex (\<lambda>v. vo_name v = vm_name m \<and> (vm_readOnly m \<or> writable_source (vo_source v))) vols"

definition container_immutable :: "string list \<Rightarrow> Volume list \<Rightarrow> Container \<Rightarrow> bool" where
  "container_immutable claims vols c \<longleftrightarrow>
     list_all (mount_ok claims vols) (ct_mounts c) \<and> (case ct_security c of None \<Rightarrow> False | Some s \<Rightarrow> cs_readOnlyRootFilesystem s)"

definition workload_immutable :: "Workload \<Rightarrow> bool" where
  "workload_immutable w \<longleftrightarrow> \<not> pd_automount (wl_pod w) \<and>
     list_all (container_immutable (wl_claims w) (pd_volumes (wl_pod w))) (pd_init (wl_pod w) @ pd_containers (wl_pod w))"

section \<open>Quantities\<close>

text \<open>CPU in thousandths, memory in mebibytes; the notations of this stack are whole numbers and \<open>m\<close>, \<open>Mi\<close> and \<open>Gi\<close>.\<close>

definition cpu_of :: "string \<Rightarrow> nat" where
  "cpu_of s = (let ds = takeWhile is_digit s; u = dropWhile is_digit s in if u = ''m'' then read_nat ds else 1000 * read_nat ds)"

definition mem_of :: "string \<Rightarrow> nat" where
  "mem_of s = (let ds = takeWhile is_digit s; u = dropWhile is_digit s in if u = ''Gi'' then 1024 * read_nat ds else read_nat ds)"

definition amounts_of :: "Amounts \<Rightarrow> nat \<times> nat" where
  "amounts_of a = (cpu_of (fst a), mem_of (snd a))"

definition pair_sum :: "(nat \<times> nat) list \<Rightarrow> nat \<times> nat" where
  "pair_sum xs = (sum_list (map fst xs), sum_list (map snd xs))"

definition pair_le :: "nat \<times> nat \<Rightarrow> nat \<times> nat \<Rightarrow> bool" where
  "pair_le a b \<longleftrightarrow> fst a \<le> fst b \<and> snd a \<le> snd b"

text \<open>What the quota counts for a pod: the larger of what its containers need together and what any init container needs.\<close>

definition pod_amounts :: "(Resources \<Rightarrow> Amounts) \<Rightarrow> PodSpec \<Rightarrow> nat \<times> nat" where
  "pod_amounts f pd =
     (let cs = pair_sum (map (\<lambda>c. amounts_of (f (ct_resources c))) (pd_containers pd));
          ini = map (\<lambda>c. amounts_of (f (ct_resources c))) (pd_init pd) in
      (fold max (map fst ini) (fst cs), fold max (map snd ini) (snd cs)))"

definition total_amounts :: "(Resources \<Rightarrow> Amounts) \<Rightarrow> Workload list \<Rightarrow> nat \<times> nat" where
  "total_amounts f ws = pair_sum (map (\<lambda>w. (nat (wl_replicas w) * fst (pod_amounts f (wl_pod w)), nat (wl_replicas w) * snd (pod_amounts f (wl_pod w)))) ws)"

definition quota_holds :: "Quota \<Rightarrow> Workload list \<Rightarrow> bool" where
  "quota_holds q ws \<longleftrightarrow>
     sum_list (map wl_replicas ws) \<le> qu_pods q
     \<and> pair_le (total_amounts rs_requests ws) (cpu_of (qu_cpu q), mem_of (qu_memory q))
     \<and> pair_le (total_amounts rs_limits ws) (cpu_of (qu_cpuLimit q), mem_of (qu_memoryLimit q))"

end
