(* ===== verification/AccessWorkloads.thy ===== *)
theory AccessWorkloads
  imports Hardening NetPolicies AccessCrs
begin

text \<open>
  The workloads of the access namespace (\<open>infra/teleport/src/components/AccessServices.ts\<close>): the MCP server, the broker, the
  portal API, the test harness and the chat agent, with their sidecars, volumes, secrets and Services, and the image references of
  \<open>DummyResources.ts\<close>. A generated password is never looked at: a Secret is its keys.
\<close>

section \<open>Images and tbot\<close>

definition imageRef :: "EnvProfile \<Rightarrow> string \<Rightarrow> string" where
  "imageRef p name =
     (let base = (if ic_registry (st_images p) \<noteq> [] then ic_registry (st_images p) @ ''/'' @ name else ''k8s-teleport/'' @ name);
          digest = map_of (ic_digests (st_images p)) name in
      if truthy digest then base @ ''@'' @ nullish digest [] else base @ '':'' @ ic_tag (st_images p))"

definition IDENTITY_DIR :: string where "IDENTITY_DIR = ''/var/run/teleport/identity''"
definition TBOT_IMAGE :: string where "TBOT_IMAGE = ''public.ecr.aws/gravitational/tbot-distroless''"
definition SERVICES_SECRET_NAME :: string where "SERVICES_SECRET_NAME = ''access-services''"
definition SERVICES_SECRET_DIR :: string where "SERVICES_SECRET_DIR = ''/var/run/secrets/access-services''"
definition CHAT_SECRET_DIR :: string where "CHAT_SECRET_DIR = ''/var/run/secrets/chat''"
definition AGENT_STATE_DIR :: string where "AGENT_STATE_DIR = ''/var/lib/access-agent''"
definition AGENT_HOME :: string where "AGENT_HOME = ''/home/app''"
definition HARNESS_IDENTITY_SECRET :: string where "HARNESS_IDENTITY_SECRET = ''ci-harness-identity''"

definition renderTbotConfig :: "EnvProfile \<Rightarrow> string \<Rightarrow> string" where
  "renderTbotConfig p tokenName =
     join [CHR 0x0A]
       ([''version: v2'', ''auth_server: '' @ ta_inClusterAuthAddr (ep_teleport p), ''onboarding:'', ''  join_method: kubernetes'',
         ''  token: '' @ tokenName, ''storage:'', ''  type: memory'', ''outputs:'', ''  - type: identity'', ''    destination:'',
         ''      type: directory'', ''      path: '' @ IDENTITY_DIR, ''renewal_interval: 30m'', ''certificate_ttl: 2h'']
        @ (if ta_insecure (ep_teleport p) then [''insecure: true''] else []) @ [''''])"

definition harness_tbot_config :: "EnvProfile \<Rightarrow> string" where
  "harness_tbot_config p =
     join [CHR 0x0A]
       ([''version: v2'', ''auth_server: '' @ ta_inClusterAuthAddr (ep_teleport p), ''onboarding:'', ''  join_method: kubernetes'',
         ''  token: '' @ bot_name BotHarness, ''storage:'', ''  type: memory'', ''outputs:'', ''  - type: identity'', ''    destination:'',
         ''      type: kubernetes_secret'', ''      name: '' @ HARNESS_IDENTITY_SECRET, ''renewal_interval: 30m'', ''certificate_ttl: 2h'']
        @ (if ta_insecure (ep_teleport p) then [''insecure: true''] else []) @ [''''])"

section \<open>The agent's environment\<close>

definition adapter_text :: "AgentAdapter \<Rightarrow> string" where
  "adapter_text a = (case a of AdCli \<Rightarrow> ''cli'' | AdSlack \<Rightarrow> ''slack'' | AdTeams \<Rightarrow> ''teams'' | AdGchat \<Rightarrow> ''gchat'')"

definition auth_text :: "AgentAuth \<Rightarrow> string" where
  "auth_text a = (case a of ApiKeyAuth \<Rightarrow> ''api-key'' | SubscriptionAuth \<Rightarrow> ''subscription'')"

definition renderAgentAuthEnv :: "EnvProfile \<Rightarrow> (string \<times> string) list" where
  "renderAgentAuthEnv p =
     [(''CLAUDE_AUTH_MODE'', auth_text (ag_auth (sv_agent (st_services p)))), (''CLAUDE_STATE_DIR'', AGENT_STATE_DIR @ ''/claude''),
      (''CLAUDE_ALLOW_LOCAL_LOGIN'', ''false'')]"

record ChatSecretMount =
  cm_group :: string
  cm_secretName :: string
  cm_mountPath :: string
  cm_keys :: "(string \<times> string) list"

definition LAYOUT_slack :: "(string \<times> string) list" where
  "LAYOUT_slack = [(''SLACK_BOT_TOKEN'', ''slackBotToken''), (''SLACK_APP_TOKEN'', ''slackAppToken'')]"
definition LAYOUT_teams :: "(string \<times> string) list" where
  "LAYOUT_teams = [(''TEAMS_APP_ID'', ''teamsAppId''), (''TEAMS_APP_PASSWORD'', ''teamsAppPassword''), (''TEAMS_TENANT_ID'', ''teamsTenantId'')]"
definition LAYOUT_gchat :: "(string \<times> string) list" where
  "LAYOUT_gchat = [(''GCHAT_PROJECT_NUMBER'', ''gchatProjectNumber''), (''GCHAT_SERVICE_ACCOUNT_JSON'', ''gchatServiceAccountJson'')]"

definition llm_keys :: "AgentAuth \<Rightarrow> (string \<times> string) list" where
  "llm_keys a = (case a of ApiKeyAuth \<Rightarrow> [(''ANTHROPIC_API_KEY'', ''anthropicApiKey'')]
                 | SubscriptionAuth \<Rightarrow> [(''CLAUDE_CODE_OAUTH_TOKEN'', ''claudeCodeOauthToken'')])"

definition adapter_keys :: "AgentAdapter \<Rightarrow> (string \<times> string) list" where
  "adapter_keys a = (case a of AdCli \<Rightarrow> [] | AdSlack \<Rightarrow> LAYOUT_slack | AdTeams \<Rightarrow> LAYOUT_teams | AdGchat \<Rightarrow> LAYOUT_gchat)"

definition renderChatSecretMounts :: "EnvProfile \<Rightarrow> ChatSecretMount list" where
  "renderChatSecretMounts p =
     (let agent = sv_agent (st_services p);
          groups = (''llm'', llm_keys (ag_auth agent))
            # map (\<lambda>a. (adapter_text a, adapter_keys a)) (filter (\<lambda>a. a \<noteq> AdCli) (ag_adapters agent)) in
      map (\<lambda>(g, keys). \<lparr>cm_group = g, cm_secretName = ''access-agent-'' @ g, cm_mountPath = CHAT_SECRET_DIR @ ''/'' @ g, cm_keys = keys\<rparr>) groups)"

definition service_url :: "BotKey \<Rightarrow> int \<Rightarrow> string" where
  "service_url k port = ''http://'' @ bot_name k @ ''.'' @ ACCESS_NAMESPACE @ ''.svc.cluster.local:'' @ show_int port"

definition agent_fixed_env :: "EnvProfile \<Rightarrow> (string \<times> string) list" where
  "agent_fixed_env p =
     (let agent = sv_agent (st_services p) in
      renderAgentAuthEnv p
      @ [(''HOME'', AGENT_HOME), (''MCP_URL'', service_url BotMcp MCP_PORT @ ''/mcp''), (''BROKER_URL'', service_url BotBroker BROKER_PORT),
         (''ADAPTERS'', join '','' (map adapter_text (filter (\<lambda>a. a \<noteq> AdCli) (ag_adapters agent)))),
         (''PORT'', show_int AGENT_PORT), (''PUBLIC_PORT'', show_int AGENT_PUBLIC_PORT), (''SESSION_FILE'', AGENT_STATE_DIR @ ''/sessions.json''),
         (''IDENTITY_STRATEGY'', ''trait-lookup''), (''ALLOWED_EMAIL_DOMAINS'', join '','' (ag_allowedEmailDomains agent)),
         (''SLACK_ALLOWED_TEAM_IDS'', join '','' (ag_slackAllowedTeamIds agent)),
         (''MCP_SHARED_TOKEN_FILE'', SERVICES_SECRET_DIR @ ''/TA_MCP_SHARED_TOKEN''), (''BROKER_API_TOKEN_FILE'', SERVICES_SECRET_DIR @ ''/TA_BROKER_API_TOKEN''),
         (''BROKER_WEBHOOK_SECRET_FILE'', SERVICES_SECRET_DIR @ ''/TA_BROKER_WEBHOOK_SECRET''),
         (''IDENTITY_SIGNING_KEY_FILE'', SERVICES_SECRET_DIR @ ''/TA_IDENTITY_SIGNING_KEY'')])"

definition chat_file_vars :: "string list \<Rightarrow> ChatSecretMount \<Rightarrow> (string \<times> string) list" where
  "chat_file_vars presentChatKeys m =
     map (\<lambda>(envName, chatKey). (envName @ ''_FILE'', cm_mountPath m @ ''/'' @ envName))
       (filter (\<lambda>(envName, chatKey). chatKey \<in> set presentChatKeys) (cm_keys m))"

definition renderAgentEnv :: "EnvProfile \<Rightarrow> string list \<Rightarrow> (string \<times> string) list" where
  "renderAgentEnv p presentChatKeys =
     agent_fixed_env p @ concat (map (chat_file_vars presentChatKeys) (renderChatSecretMounts p))"

section \<open>Bots\<close>

record KubeService =
  ks_name :: string
  ks_selector :: "(string \<times> string) list"
  ks_ports :: "int list"

record BotSpec =
  bs_image :: string
  bs_args :: "string list"
  bs_port :: int
  bs_env :: "EnvVar list"
  bs_extraVolumes :: "Volume list"
  bs_extraMounts :: "VolumeMount list"

definition tbotContainer :: "EnvProfile \<Rightarrow> EnvVar list \<Rightarrow> VolumeMount list \<Rightarrow> Container" where
  "tbotContainer p extraEnv extraMounts =
     \<lparr>ct_cname = ''tbot'', ct_image = TBOT_IMAGE @ '':'' @ ta_version (ep_teleport p), ct_pullPolicy = None, ct_command = [],
      ct_args = [''start'', ''-c'', ''/etc/tbot/tbot.yaml''],
      ct_env = [(''TELEPORT_ANONYMOUS_TELEMETRY'', EnvValue ''0''), (''KUBERNETES_TOKEN_PATH'', EnvValue ''/var/run/secrets/tokens/join-sa-token'')] @ extraEnv,
      ct_ports = [], ct_mounts = [mount_ro ''tbot-config'' ''/etc/tbot'', mount_ro ''join-sa-token'' ''/var/run/secrets/tokens''] @ extraMounts,
      ct_readiness = None, ct_liveness = None, ct_security = Some hardenedContainerSecurityContext,
      ct_resources = resources (''10m'', ''32Mi'') (''200m'', ''128Mi'')\<rparr>"

definition bool_text :: "bool \<Rightarrow> string" where "bool_text b = (if b then ''true'' else ''false'')"

definition edition_text :: "Edition \<Rightarrow> string" where
  "edition_text e = (case e of Community \<Rightarrow> ''community'' | Enterprise \<Rightarrow> ''enterprise'')"

definition bot_container :: "EnvProfile \<Rightarrow> BotKey \<Rightarrow> BotSpec \<Rightarrow> Container" where
  "bot_container p k spec =
     \<lparr>ct_cname = bot_name k, ct_image = bs_image spec, ct_pullPolicy = Some (ic_pullPolicy (st_images p)), ct_command = [], ct_args = bs_args spec,
      ct_env = [(''TA_TELEPORT_ADDR'', EnvValue (ta_inClusterAuthAddr (ep_teleport p))), (''TA_TELEPORT_IDENTITY_FILE'', EnvValue (IDENTITY_DIR @ ''/identity'')),
        (''TA_TELEPORT_INSECURE'', EnvValue (bool_text (ta_insecure (ep_teleport p)))), (''TA_TELEPORT_EDITION'', EnvValue (edition_text (st_edition p))),
        (''TA_LOG_LEVEL'', EnvValue ''info'')] @ bs_env spec,
      ct_ports = [bs_port spec],
      ct_mounts = [mount_ro ''identity'' IDENTITY_DIR] @ snd (scratchVolumes (bot_name k) [''/var/lib/teleport-access''] SCRATCH_LIMIT) @ bs_extraMounts spec,
      ct_readiness = Some \<lparr>pb_check = HttpGet ''/readyz'' (bs_port spec), pb_initialDelay = 10, pb_period = 10, pb_failures = Some 12\<rparr>,
      ct_liveness = Some \<lparr>pb_check = HttpGet ''/healthz'' (bs_port spec), pb_initialDelay = 20, pb_period = 20, pb_failures = None\<rparr>,
      ct_security = Some hardenedContainerSecurityContext, ct_resources = resources (''20m'', ''64Mi'') (''1'', ''512Mi'')\<rparr>"

definition deployBot :: "EnvProfile \<Rightarrow> BotKey \<Rightarrow> BotSpec \<Rightarrow> Workload" where
  "deployBot p k spec =
     \<lparr>wl_kind = Deployment, wl_name = bot_name k, wl_namespace = ACCESS_NAMESPACE, wl_replicas = 1, wl_recreate = True,
      wl_selector = [(''app'', bot_name k)], wl_labels = k8sLabels p (bot_name k) (Some ''access-service''),
      wl_pod = \<lparr>pd_serviceAccount = Some (bot_serviceAccount k), pd_automount = False, pd_security = Some (hardenedPodSecurityContext NONROOT_UID),
        pd_init = [], pd_containers = [tbotContainer p [] [mount ''identity'' IDENTITY_DIR], bot_container p k spec],
        pd_volumes = [\<lparr>vo_name = ''identity'', vo_source = EmptyDir (Some ''Memory'') None\<rparr>,
            \<lparr>vo_name = ''tbot-config'', vo_source = ConfigMapVolume (bot_name k @ ''-tbot'')\<rparr>, projectedJoinTokenVolume]
          @ fst (scratchVolumes (bot_name k) [''/var/lib/teleport-access''] SCRATCH_LIMIT) @ bs_extraVolumes spec\<rparr>,
      wl_claims = []\<rparr>"

definition bot_service :: "BotKey \<Rightarrow> int \<Rightarrow> KubeService" where
  "bot_service k port = \<lparr>ks_name = bot_name k, ks_selector = [(''app'', bot_name k)], ks_ports = [port]\<rparr>"

definition secretEnv :: "string \<Rightarrow> EnvVar" where
  "secretEnv key = (key, EnvSecret SERVICES_SECRET_NAME key)"

definition policy_volume :: Volume where
  "policy_volume = \<lparr>vo_name = ''policy'', vo_source = ConfigMapVolume ''broker-policy''\<rparr>"

definition policy_mount :: VolumeMount where
  "policy_mount = mount_ro ''policy'' ''/etc/teleport-access''"

definition mcp_bot :: "EnvProfile \<Rightarrow> BotSpec" where
  "mcp_bot p =
     \<lparr>bs_image = imageRef p ''teleport-access'', bs_args = [''mcp'', ''--http'', '':'' @ show_int MCP_PORT], bs_port = MCP_PORT,
      bs_env = [secretEnv ''TA_MCP_SHARED_TOKEN'', secretEnv ''TA_IDENTITY_SIGNING_KEY'', (''TA_MCP_POLICY_FILE'', EnvValue ''/etc/teleport-access/policy.yaml'')],
      bs_extraVolumes = [policy_volume], bs_extraMounts = [policy_mount]\<rparr>"

definition broker_bot :: "EnvProfile \<Rightarrow> BotSpec" where
  "broker_bot p =
     \<lparr>bs_image = imageRef p ''teleport-access'', bs_args = [''broker''], bs_port = BROKER_PORT,
      bs_env = [secretEnv ''TA_BROKER_API_TOKEN'', secretEnv ''TA_BROKER_WEBHOOK_SECRET'', secretEnv ''TA_IDENTITY_SIGNING_KEY'',
        (''TA_BROKER_POLICY_FILE'', EnvValue ''/etc/teleport-access/policy.yaml''),
        (''TA_BROKER_STATE_FILE'', EnvValue ''/var/lib/teleport-access/broker-state.json''),
        (''TA_BROKER_AGENT_WEBHOOK_URL'', EnvValue (if ag_enabled (sv_agent (st_services p)) then service_url BotAgent AGENT_PORT @ ''/v1/broker/events'' else '''')),
        (''TA_BROKER_APPROVALS'', EnvValue (if st_edition p = Enterprise then ''review'' else ''setstate''))],
      bs_extraVolumes = [policy_volume], bs_extraMounts = [policy_mount]\<rparr>"

definition portal_bot :: "EnvProfile \<Rightarrow> BotSpec" where
  "portal_bot p =
     \<lparr>bs_image = imageRef p ''teleport-access'', bs_args = [''portal''], bs_port = PORTAL_PORT,
      bs_env = [secretEnv ''TA_PORTAL_SERVICE_TOKEN'', secretEnv ''TA_IDENTITY_SIGNING_KEY'',
        (''TA_PORTAL_BROKER_TOKEN'', EnvSecret SERVICES_SECRET_NAME ''TA_BROKER_API_TOKEN''),
        (''TA_PORTAL_BROKER_URL'', EnvValue (service_url BotBroker BROKER_PORT)), (''TA_PORTAL_HTTP_ADDR'', EnvValue ('':'' @ show_int PORTAL_PORT)),
        (''TA_PORTAL_POLICY_FILE'', EnvValue ''/etc/teleport-access/policy.yaml''),
        (''TA_PORTAL_IDENTITY_MAP_FILE'', EnvValue ''/etc/teleport-access/identities/identities.json''),
        (''TA_PORTAL_IDENTITY_FALLBACK'', EnvValue (case po_identityFallback (sv_portal (st_services p)) of FallbackNone \<Rightarrow> ''none'' | FallbackUsername \<Rightarrow> ''username''))],
      bs_extraVolumes = [policy_volume, \<lparr>vo_name = ''identities'', vo_source = ConfigMapVolume ''portal-identities''\<rparr>],
      bs_extraMounts = [policy_mount, mount_ro ''identities'' ''/etc/teleport-access/identities'']\<rparr>"

definition brokerEnabled :: "EnvProfile \<Rightarrow> bool" where
  "brokerEnabled p \<longleftrightarrow> sv_broker (st_services p) \<and> (st_edition p = Community \<or> sv_brokerForce (st_services p))"

section \<open>The harness and the agent\<close>

definition harness_workload :: "EnvProfile \<Rightarrow> Workload" where
  "harness_workload p =
     \<lparr>wl_kind = Deployment, wl_name = ''tbot-'' @ bot_name BotHarness, wl_namespace = ACCESS_NAMESPACE, wl_replicas = 1, wl_recreate = False,
      wl_selector = [(''app'', bot_name BotHarness)], wl_labels = k8sLabels p (bot_name BotHarness) (Some ''test-harness''),
      wl_pod = \<lparr>pd_serviceAccount = Some (bot_serviceAccount BotHarness), pd_automount = False, pd_security = Some (hardenedPodSecurityContext NONROOT_UID),
        pd_init = [],
        pd_containers = [tbotContainer p [(''POD_NAMESPACE'', EnvField ''metadata.namespace'')] [mount_ro ''kube-api-credentials'' IN_CLUSTER_CREDENTIALS_PATH]],
        pd_volumes = [\<lparr>vo_name = ''tbot-config'', vo_source = ConfigMapVolume (bot_name BotHarness @ ''-tbot'')\<rparr>, projectedJoinTokenVolume,
          projectedInClusterCredentialsVolume]\<rparr>,
      wl_claims = []\<rparr>"

text \<open>The only Kubernetes rights of the access namespace: the harness may write its one identity Secret.\<close>

record SecretRole =
  sr_name :: string
  sr_verbs :: "string list"
  sr_resourceNames :: "string list"
  sr_serviceAccount :: string

definition harness_role :: SecretRole where
  "harness_role =
     \<lparr>sr_name = bot_name BotHarness @ ''-secret-writer'', sr_verbs = [''get'', ''update'', ''patch''],
      sr_resourceNames = [HARNESS_IDENTITY_SECRET], sr_serviceAccount = bot_serviceAccount BotHarness\<rparr>"

definition chat_of :: "EnvProfile \<Rightarrow> (string \<times> string) list" where
  "chat_of p = nullish (se_chat (ep_secrets p)) []"

definition present_keys :: "(string \<times> string) list \<Rightarrow> string list" where
  "present_keys chat = map fst (filter (\<lambda>kv. snd kv \<noteq> []) chat)"

definition chat_secret_data :: "(string \<times> string) list \<Rightarrow> ChatSecretMount \<Rightarrow> (string \<times> string) list" where
  "chat_secret_data chat m =
     concat (map (\<lambda>(envName, key). if truthy (map_of chat key) then [(envName, nullish (map_of chat key) [])] else []) (cm_keys m))"

definition agent_scratch :: "Volume list \<times> VolumeMount list" where
  "agent_scratch = scratchVolumes (bot_name BotAgent) [''/tmp'', AGENT_HOME, AGENT_STATE_DIR] ''256Mi''"

definition state_volume :: "EnvProfile \<Rightarrow> Volume" where
  "state_volume p =
     \<lparr>vo_name = ''claude-state'',
      vo_source = (if ag_persistSessions (sv_agent (st_services p)) then Claim (bot_name BotAgent @ ''-claude-state'') else EmptyDir None (Some ''1Gi''))\<rparr>"

definition chat_volume :: "ChatSecretMount \<Rightarrow> Volume" where
  "chat_volume m = \<lparr>vo_name = ''chat-'' @ cm_group m, vo_source = SecretVolume (cm_secretName m) 256\<rparr>"

definition chat_mount :: "ChatSecretMount \<Rightarrow> VolumeMount" where
  "chat_mount m = mount_ro (''chat-'' @ cm_group m) (cm_mountPath m)"

definition agent_container :: "EnvProfile \<Rightarrow> Container" where
  "agent_container p =
     \<lparr>ct_cname = bot_name BotAgent, ct_image = imageRef p ''access-agent'', ct_pullPolicy = Some (ic_pullPolicy (st_images p)), ct_command = [], ct_args = [],
      ct_env = map (\<lambda>(n, v). (n, EnvValue v)) (renderAgentEnv p (present_keys (chat_of p))),
      ct_ports = [AGENT_PORT, AGENT_PUBLIC_PORT],
      ct_mounts = snd agent_scratch
        @ [mount ''claude-state'' (AGENT_STATE_DIR @ ''/claude''), mount_ro ''access-services'' SERVICES_SECRET_DIR]
        @ map chat_mount (renderChatSecretMounts p),
      ct_readiness = Some \<lparr>pb_check = HttpGet ''/healthz'' AGENT_PORT, pb_initialDelay = 5, pb_period = 10, pb_failures = None\<rparr>,
      ct_liveness = None, ct_security = Some hardenedContainerSecurityContext, ct_resources = resources (''50m'', ''256Mi'') (''2'', ''1Gi'')\<rparr>"

definition agent_workload :: "EnvProfile \<Rightarrow> Workload" where
  "agent_workload p =
     \<lparr>wl_kind = Deployment, wl_name = bot_name BotAgent, wl_namespace = ACCESS_NAMESPACE, wl_replicas = 1, wl_recreate = True,
      wl_selector = [(''app'', bot_name BotAgent)], wl_labels = k8sLabels p (bot_name BotAgent) (Some ''access-service''),
      wl_pod = \<lparr>pd_serviceAccount = Some (bot_serviceAccount BotAgent), pd_automount = False, pd_security = Some (hardenedPodSecurityContext NONROOT_UID),
        pd_init = [], pd_containers = [agent_container p],
        pd_volumes = fst agent_scratch
          @ [state_volume p, \<lparr>vo_name = ''access-services'', vo_source = SecretVolume SERVICES_SECRET_NAME 256\<rparr>]
          @ map chat_volume (renderChatSecretMounts p)\<rparr>,
      wl_claims = []\<rparr>"

definition agent_kube_service :: KubeService where
  "agent_kube_service = \<lparr>ks_name = bot_name BotAgent, ks_selector = [(''app'', bot_name BotAgent)], ks_ports = [AGENT_PORT, AGENT_PUBLIC_PORT]\<rparr>"

section \<open>The component\<close>

definition SERVICE_SECRET_KEYS :: "string list" where
  "SERVICE_SECRET_KEYS = [''TA_MCP_SHARED_TOKEN'', ''TA_BROKER_API_TOKEN'', ''TA_BROKER_WEBHOOK_SECRET'', ''TA_IDENTITY_SIGNING_KEY'', ''TA_PORTAL_SERVICE_TOKEN'']"

text \<open>Length of each generated password.\<close>

definition secret_length :: "string \<Rightarrow> nat" where
  "secret_length key = (if key = ''TA_IDENTITY_SIGNING_KEY'' then 48 else 40)"

definition access_quota :: Quota where
  "access_quota = \<lparr>qu_pods = 14, qu_cpu = ''2'', qu_memory = ''4Gi'', qu_cpuLimit = ''8'', qu_memoryLimit = ''8Gi''\<rparr>"

definition access_namespace_labels :: "EnvProfile \<Rightarrow> (string \<times> string) list" where
  "access_namespace_labels p = namespaceLabels p ''teleport-access'' Restricted None"

text \<open>The bots deployed with a sidecar, in the order of deployment.\<close>

definition deployed_bots :: "EnvProfile \<Rightarrow> (BotKey \<times> BotSpec) list" where
  "deployed_bots p =
     (if sv_mcp (st_services p) then [(BotMcp, mcp_bot p)] else [])
     @ (if brokerEnabled p then [(BotBroker, broker_bot p)] else [])
     @ (if po_enabled (sv_portal (st_services p)) then [(BotPortal, portal_bot p)] else [])"

definition access_workloads :: "EnvProfile \<Rightarrow> Workload list" where
  "access_workloads p =
     map (\<lambda>(k, spec). deployBot p k spec) (deployed_bots p)
     @ (if sv_harness (st_services p) then [harness_workload p] else [])
     @ (if ag_enabled (sv_agent (st_services p)) then [agent_workload p] else [])"

definition access_kube_services :: "EnvProfile \<Rightarrow> KubeService list" where
  "access_kube_services p =
     map (\<lambda>(k, spec). bot_service k (bs_port spec)) (deployed_bots p)
     @ (if ag_enabled (sv_agent (st_services p)) then [agent_kube_service] else [])"

text \<open>Every ConfigMap: the broker's policy, one tbot configuration per bot and the portal's identity map.\<close>

definition access_config_maps :: "EnvProfile \<Rightarrow> (string \<times> (string \<times> string) list) list" where
  "access_config_maps p =
     [(''broker-policy'', [(''policy.yaml'', renderBrokerPolicy)])]
     @ (if po_enabled (sv_portal (st_services p))
        then [(''portal-identities'', [(''identities.json'', stringify (JObj (map (\<lambda>(k, v). (k, JStr v)) (po_identities (sv_portal (st_services p))))))])] else [])
     @ map (\<lambda>(k, _). (bot_name k @ ''-tbot'', [(''tbot.yaml'', renderTbotConfig p (bot_name k))])) (deployed_bots p)
     @ (if sv_harness (st_services p) then [(bot_name BotHarness @ ''-tbot'', [(''tbot.yaml'', harness_tbot_config p)])] else [])"

text \<open>Every Secret with its keys.\<close>

definition access_secrets :: "EnvProfile \<Rightarrow> (string \<times> string list) list" where
  "access_secrets p =
     [(SERVICES_SECRET_NAME, SERVICE_SECRET_KEYS)]
     @ (if sv_harness (st_services p) then [(HARNESS_IDENTITY_SECRET, [])] else [])
     @ (if ag_enabled (sv_agent (st_services p))
        then map (\<lambda>m. (cm_secretName m, map fst (chat_secret_data (chat_of p) m))) (renderChatSecretMounts p) else [])"

section \<open>Lemmas\<close>

lemma container_restricted_hardened [simp]: "ct_security c = Some hardenedContainerSecurityContext \<Longrightarrow> container_restricted c"
  by (simp add: container_restricted_def hardenedContainerSecurityContext_def)

lemma bot_pod_restricted: "pod_restricted (wl_pod (deployBot p k spec))"
  by (simp add: pod_restricted_def deployBot_def tbotContainer_def bot_container_def hardenedPodSecurityContext_def NONROOT_UID_def)

lemma harness_pod_restricted: "pod_restricted (wl_pod (harness_workload p))"
  by (simp add: pod_restricted_def harness_workload_def tbotContainer_def hardenedPodSecurityContext_def NONROOT_UID_def)

lemma agent_pod_restricted: "pod_restricted (wl_pod (agent_workload p))"
  by (simp add: pod_restricted_def agent_workload_def agent_container_def hardenedPodSecurityContext_def NONROOT_UID_def)

lemma all_access_workloads:
  assumes "list_all (\<lambda>(k, spec). P (deployBot p k spec)) (deployed_bots p)"
    and "sv_harness (st_services p) \<Longrightarrow> P (harness_workload p)" and "ag_enabled (sv_agent (st_services p)) \<Longrightarrow> P (agent_workload p)"
  shows "list_all P (access_workloads p)"
  using assms by (auto simp: access_workloads_def list.pred_map comp_def case_prod_unfold)

lemma access_restricted: "list_all (\<lambda>w. pod_restricted (wl_pod w)) (access_workloads p)"
  by (rule all_access_workloads) (simp_all add: bot_pod_restricted harness_pod_restricted agent_pod_restricted list_all_iff case_prod_unfold)

lemma mount_ok_simps [simp]:
  "vm_name (mount n q) = n" "vm_readOnly (mount n q) = False" "vm_name (mount_ro n q) = n" "vm_readOnly (mount_ro n q)"
  by (simp_all add: mount_def mount_ro_def)

lemma mount_ok_append: "mount_ok cl (xs @ ys) m \<longleftrightarrow> mount_ok cl xs m \<or> mount_ok cl ys m"
  by (auto simp: mount_ok_def)

lemma scratch_mounts_ok: "list_all (mount_ok cl (fst (scratchVolumes pre paths sizeLimit))) (snd (scratchVolumes pre paths sizeLimit))"
  by (auto simp: scratchVolumes_def list_all_iff mount_ok_def list_ex_iff writable_source_def set_zip)

text \<open>Every mount of a bot's pod names a volume of it, writable ones an in-memory or scratch one.\<close>

lemma bot_immutable:
  assumes "list_all (mount_ok [] (bs_extraVolumes spec)) (bs_extraMounts spec)"
  shows "workload_immutable (deployBot p k spec)"
proof -
  let ?s = "scratchVolumes (bot_name k) [''/var/lib/teleport-access''] SCRATCH_LIMIT"
  have "list_all (mount_ok [] (fst ?s)) (snd ?s)" by (rule scratch_mounts_ok)
  with assms show ?thesis
    by (auto simp: workload_immutable_def deployBot_def container_immutable_def tbotContainer_def bot_container_def hardenedContainerSecurityContext_def
        mount_ok_def writable_source_def projectedJoinTokenVolume_def list_all_iff)
qed

lemma extra_mounts_ok: "(k, spec) \<in> set (deployed_bots p) \<Longrightarrow> list_all (mount_ok [] (bs_extraVolumes spec)) (bs_extraMounts spec)"
  by (auto simp: deployed_bots_def mcp_bot_def broker_bot_def portal_bot_def policy_volume_def policy_mount_def mount_ok_def split: if_splits)

lemma harness_immutable: "workload_immutable (harness_workload p)"
  by (simp add: workload_immutable_def harness_workload_def container_immutable_def tbotContainer_def hardenedContainerSecurityContext_def
      mount_ok_def projectedJoinTokenVolume_def projectedInClusterCredentialsVolume_def)

lemma agent_mounts_ok: "list_all (mount_ok [] (pd_volumes (wl_pod (agent_workload p)))) (ct_mounts (agent_container p))"
proof -
  have s: "list_all (mount_ok [] (fst agent_scratch)) (snd agent_scratch)" unfolding agent_scratch_def by (rule scratch_mounts_ok)
  have c: "list_all (mount_ok [] (map chat_volume ms)) (map chat_mount ms)" for ms
    by (auto simp: list_all_iff mount_ok_def list_ex_iff chat_volume_def chat_mount_def)
  have st: "mount_ok [] [state_volume p] (mount ''claude-state'' q)" for q
    by (simp add: mount_ok_def state_volume_def writable_source_def)
  show ?thesis using s c [of "renderChatSecretMounts p"] st
    by (auto simp: agent_workload_def agent_container_def list_all_iff mount_ok_append)
      (auto simp: mount_ok_def)
qed

lemma agent_immutable: "workload_immutable (agent_workload p)"
proof -
  have "ct_security (agent_container p) = Some hardenedContainerSecurityContext" by (simp add: agent_container_def)
  moreover have "pd_containers (wl_pod (agent_workload p)) = [agent_container p]" "pd_init (wl_pod (agent_workload p)) = []"
    "wl_claims (agent_workload p) = []" "\<not> pd_automount (wl_pod (agent_workload p))" by (simp_all add: agent_workload_def)
  ultimately show ?thesis using agent_mounts_ok [of p]
    by (simp add: workload_immutable_def container_immutable_def hardenedContainerSecurityContext_def)
qed

section \<open>Whose identity a pod has\<close>

text \<open>A workload runs as bot \<open>k\<close> when its pods carry the bot's \<open>app\<close> label, which is what its selector, the network policies and
  the Service select, use the bot's service account, and the access policy has a join token that admits exactly that account as
  that bot.\<close>

definition runs_as :: "Cr list \<Rightarrow> Workload \<Rightarrow> BotKey \<Rightarrow> bool" where
  "runs_as crs w k \<longleftrightarrow>
     wl_selector w = [(''app'', bot_name k)] \<and> map_of (wl_labels w) ''app'' = Some (bot_name k)
     \<and> (case pd_serviceAccount (wl_pod w) of None \<Rightarrow> False | Some sa \<Rightarrow> (bot_name k, wl_namespace w @ '':'' @ sa) \<in> set (bot_joins crs))"

definition workload_confined :: "Cr list \<Rightarrow> Workload \<Rightarrow> bool" where
  "workload_confined crs w \<longleftrightarrow>
     wl_namespace w = ACCESS_NAMESPACE \<and> pss_admits Restricted (wl_pod w) \<and> workload_immutable w \<and> list_ex (runs_as crs w) BOT_KEYS"

lemma workload_namespaces:
  "wl_namespace (deployBot p k spec) = ACCESS_NAMESPACE" "wl_namespace (harness_workload p) = ACCESS_NAMESPACE"
  "wl_namespace (agent_workload p) = ACCESS_NAMESPACE"
  by (simp_all add: deployBot_def harness_workload_def agent_workload_def)

lemma app_label: "map_of (k8sLabels p app component) ''app'' = Some app"
  by (simp add: k8sLabels_def)

lemma enabled_joins:
  "k \<in> set (enabledBots (st_services p)) \<Longrightarrow> (bot_name k, ACCESS_NAMESPACE @ '':'' @ bot_serviceAccount k) \<in> set (bot_joins (access_crs nm chart p))"
proof -
  have app: "bot_joins (xs @ ys) = bot_joins xs @ bot_joins ys" for xs ys by (simp add: bot_joins_def)
  assume "k \<in> set (enabledBots (st_services p))"
  then show ?thesis by (auto simp: access_crs_def app joins_bots)
qed

lemma deployed_enabled: "(k, spec) \<in> set (deployed_bots p) \<Longrightarrow> k \<in> set (enabledBots (st_services p))"
  by (auto simp: deployed_bots_def enabledBots_def BOT_KEYS_def split: if_splits)

lemma runs_as_intro:
  assumes "wl_selector w = [(''app'', bot_name k)]" "wl_labels w = k8sLabels p (bot_name k) c" "pd_serviceAccount (wl_pod w) = Some (bot_serviceAccount k)"
    "wl_namespace w = ACCESS_NAMESPACE" "k \<in> set (enabledBots (st_services p))"
  shows "list_ex (runs_as (access_crs nm chart p) w) BOT_KEYS"
proof -
  have "runs_as (access_crs nm chart p) w k"
    unfolding runs_as_def using assms enabled_joins [OF assms(5), of nm chart] by (simp add: app_label)
  then show ?thesis using BOT_KEYS_all [of k] by (auto simp: list_ex_iff)
qed


section \<open>The namespace's quota\<close>

lemma bot_amounts:
  "pod_amounts rs_requests (wl_pod (deployBot p k spec)) = (30, 96)" "pod_amounts rs_limits (wl_pod (deployBot p k spec)) = (1200, 640)"
  by (simp_all add: pod_amounts_def deployBot_def tbotContainer_def bot_container_def resources_def amounts_of_def pair_sum_def cpu_of_def mem_of_def
      Let_def is_digit_def code_of_def read_nat_def digit_val_def)

lemma harness_amounts:
  "pod_amounts rs_requests (wl_pod (harness_workload p)) = (10, 32)" "pod_amounts rs_limits (wl_pod (harness_workload p)) = (200, 128)"
  by (simp_all add: pod_amounts_def harness_workload_def tbotContainer_def resources_def amounts_of_def pair_sum_def cpu_of_def mem_of_def
      Let_def is_digit_def code_of_def read_nat_def digit_val_def)

lemma agent_amounts:
  "pod_amounts rs_requests (wl_pod (agent_workload p)) = (50, 256)" "pod_amounts rs_limits (wl_pod (agent_workload p)) = (2000, 1024)"
  by (simp_all add: pod_amounts_def agent_workload_def agent_container_def resources_def amounts_of_def pair_sum_def cpu_of_def mem_of_def
      Let_def is_digit_def code_of_def read_nat_def digit_val_def)

lemma access_quota_amounts:
  "(cpu_of (qu_cpu access_quota), mem_of (qu_memory access_quota)) = (2000, 4096)"
  "(cpu_of (qu_cpuLimit access_quota), mem_of (qu_memoryLimit access_quota)) = (8000, 8192)" "qu_pods access_quota = 14"
  by (simp_all add: access_quota_def cpu_of_def mem_of_def Let_def is_digit_def code_of_def read_nat_def digit_val_def)

lemma replicas_one:
  "wl_replicas (deployBot p k spec) = 1" "wl_replicas (harness_workload p) = 1" "wl_replicas (agent_workload p) = 1"
  by (simp_all add: deployBot_def harness_workload_def agent_workload_def)

text \<open>Whatever a profile enables, the pods of the access namespace together fit the quota the namespace is given: their number,
  their CPU and memory requests and their limits.\<close>

theorem access_quota_suffices:
  "quota_holds access_quota (access_workloads p)"
  unfolding quota_holds_def access_quota_amounts access_workloads_def deployed_bots_def
  by (simp add: total_amounts_def pair_sum_def pair_le_def bot_amounts harness_amounts agent_amounts replicas_one)

section \<open>Images in production\<close>

definition pinned :: "EnvProfile \<Rightarrow> string \<Rightarrow> bool" where
  "pinned p img \<longleftrightarrow>
     list_ex (\<lambda>(name, d). digest_ok d \<and>
       img = (if ic_registry (st_images p) \<noteq> [] then ic_registry (st_images p) else ''k8s-teleport'') @ ''/'' @ name @ ''@'' @ d)
       (ic_digests (st_images p))"

definition own_image :: "EnvProfile \<Rightarrow> Container \<Rightarrow> bool" where
  "own_image p c \<longleftrightarrow> ct_image c \<noteq> TBOT_IMAGE @ '':'' @ ta_version (ep_teleport p)"

lemma imageRef_pinned:
  assumes "truthy (map_of (ic_digests (st_images p)) name)" "list_all (\<lambda>d. digest_ok (snd d)) (ic_digests (st_images p))"
  shows "pinned p (imageRef p name)"
proof -
  from assms(1) obtain d where d: "map_of (ic_digests (st_images p)) name = Some d" "d \<noteq> []" by (auto elim!: truthyE)
  then have m: "(name, d) \<in> set (ic_digests (st_images p))" by (simp add: map_of_SomeD)
  with assms(2) have "digest_ok d" by (auto simp: list_all_iff)
  with m d show ?thesis by (auto simp: pinned_def imageRef_def list_ex_iff Let_def intro!: bexI [of _ "(name, d)"])
qed

lemma StackConfigSchema_digests:
  assumes "StackConfigSchema is_email v = Some cfg"
  shows "list_all (\<lambda>d. digest_ok (snd d)) (ic_digests (st_images cfg))"
proof -
  from assms obtain m where "ImagesSchema (m ''images'') = Some (st_images cfg)"
    unfolding StackConfigSchema_def by (drule_tac p_object_Some) (auto simp: bind_eq_Some_conv)
  then show ?thesis by (rule ImagesSchema_typed)
qed

lemma profile_images: "st_images (profile_of cfg stack secrets) = st_images cfg"
  by (simp add: profile_of_def StackConfig.defs)

lemma bot_images: "(k, spec) \<in> set (deployed_bots p) \<Longrightarrow> bs_image spec = imageRef p ''teleport-access''"
  by (auto simp: deployed_bots_def mcp_bot_def broker_bot_def portal_bot_def split: if_splits)

lemma access_own_images:
  "list_all (\<lambda>w. list_all (\<lambda>c. own_image p c \<longrightarrow>
      ct_image c = imageRef p ''teleport-access'' \<and> deployed_bots p \<noteq> [] \<or> ct_image c = imageRef p ''access-agent'' \<and> ag_enabled (sv_agent (st_services p)))
     (pd_containers (wl_pod w))) (access_workloads p)"
  by (rule all_access_workloads)
    (auto simp: list_all_iff deployBot_def bot_container_def tbotContainer_def own_image_def harness_workload_def agent_workload_def agent_container_def
      dest: bot_images)

text \<open>In production every image of ours that runs in the access namespace is referenced by a sha256 digest of the configuration,
  never by a tag, as long as the MCP server or the broker is enabled whenever the portal is.\<close>

theorem prod_images_pinned:
  "case buildProfile is_email env inp stack secrets of
     Inl _ \<Rightarrow> True
   | Inr p \<Rightarrow>
       if st_env p = ''prod'' \<and> (po_enabled (sv_portal (st_services p)) \<le> (sv_mcp (st_services p) \<or> sv_broker (st_services p)))
       then list_all (\<lambda>w. list_all (\<lambda>c. pinned p (ct_image c)) (filter (own_image p) (pd_containers (wl_pod w)))) (access_workloads p)
       else True"
proof (cases "buildProfile is_email env inp stack secrets")
  case (Inr p)
  then obtain cfg where c: "StackConfigSchema is_email (Some (merged_input inp)) = Some cfg"
    "config_problems (ciPreviewEscapeHatch env) cfg secrets = []" "p = profile_of cfg stack secrets"
    using buildProfile_Inr by blast
  have dg: "list_all (\<lambda>d. digest_ok (snd d)) (ic_digests (st_images p))" using StackConfigSchema_digests [OF c(1)] by (simp add: c(3) profile_images)
  have "pinned p (ct_image k)" if pr: "st_env p = ''prod''" and po: "po_enabled (sv_portal (st_services p)) \<le> (sv_mcp (st_services p) \<or> sv_broker (st_services p))"
    and w: "w \<in> set (access_workloads p)" and k: "k \<in> set (pd_containers (wl_pod w))" "own_image p k" for w k
  proof -
    have "prod_hardened cfg" using c(2) by (simp add: config_problems_def prod_problems_Nil)
    with pr have req: "img \<in> set (requiredImages cfg) \<Longrightarrow> truthy (map_of (ic_digests (st_images p)) img)" for img
      by (auto simp: c(3) prod_hardened_def unpinned_def profile_images)
    from access_own_images [of p] w k consider
      "ct_image k = imageRef p ''teleport-access''" "deployed_bots p \<noteq> []" | "ct_image k = imageRef p ''access-agent''" "ag_enabled (sv_agent (st_services p))"
      by (auto simp: list_all_iff)
    then show ?thesis
    proof cases
      case 1
      with po have "''teleport-access'' \<in> set (requiredImages cfg)"
        by (auto simp: deployed_bots_def requiredImages_def brokerEnabled_def c(3) split: if_splits)
      from imageRef_pinned [OF req [OF this] dg] 1 show ?thesis by simp
    next
      case 2
      then have "''access-agent'' \<in> set (requiredImages cfg)" by (auto simp: requiredImages_def c(3))
      from imageRef_pinned [OF req [OF this] dg] 2 show ?thesis by simp
    qed
  qed
  with Inr show ?thesis by (auto simp: list_all_iff)
qed simp

text \<open>An example: a production EKS stack with Slack, and what its secrets hold.\<close>

definition ex_digest :: string where
  "ex_digest = ''sha256:'' @ replicate 64 (CHR ''a'')"

definition ex_stack :: StackConfig where
  "ex_stack =
     \<lparr>st_env = ''prod'', st_platform = PEks, st_kubeContext = ''eks-prod'', st_kubeconfig = None, st_clusterName = ''tp.example.com'',
      st_publicAddr = ''tp.example.com:443'', st_version = ''18.11.1'', st_edition = Community,
      st_exposure = ExIngress ''nginx'' [], st_tls = TlsCertManager ''letsencrypt'' ClusterIssuer ''cert-manager.io'',
      st_auth = \<lparr>au_type = AuthGithub, au_connectorName = None, au_secondFactors = [Webauthn], au_localAuth = False, au_webauthnRpId = None\<rparr>,
      st_github = Some \<lparr>gh_clientId = ''id'', gh_organization = ''org'', gh_display = ''GitHub'',
        gh_teamsToRoles = [\<lparr>tm_team = ''dev'', tm_roles = [''requester'']\<rparr>]\<rparr>,
      st_chartMode = Aws \<lparr>aw_region = ''eu-west-1'', aw_backendTable = ''b'', aw_auditLogTable = ''a'', aw_sessionRecordingBucket = ''s'',
        aw_auditLogMirrorOnStdout = True, aw_serviceAccountRoleArn = None\<rparr>,
      st_images = \<lparr>ic_registry = ''ghcr.io/org/repo'', ic_tag = ''v1'', ic_pullPolicy = IfNotPresent,
        ic_digests = [(''teleport-access'', ex_digest), (''access-agent'', ex_digest)], ic_verifySignatures = True, ic_signerSubjectRegexp = None\<rparr>,
      st_insecureLocal = False,
      st_dummies = \<lparr>dm_enabled = False, dm_sshNodes = [], dm_postgres = False, dm_mysql = False, dm_httpbin = False, dm_cloudStandin = NoStandin\<rparr>,
      st_services = \<lparr>sv_mcp = True, sv_broker = True, sv_brokerForce = False,
        sv_agent = \<lparr>ag_enabled = True, ag_adapters = [AdSlack], ag_auth = ApiKeyAuth, ag_persistSessions = False,
          ag_allowedEmailDomains = [''example.com''], ag_slackAllowedTeamIds = [''T1'']\<rparr>,
        sv_portal = \<lparr>po_enabled = True, po_identities = [], po_identityFallback = FallbackUsername, po_backstage = None\<rparr>, sv_harness = False\<rparr>,
      st_users = []\<rparr>"

definition ex_stack_secrets :: Secrets where
  "ex_stack_secrets =
     \<lparr>se_githubClientSecret = Some ''s'', se_licensePem = None,
      se_chat = Some [(''slackBotToken'', ''xoxb''), (''slackAppToken'', ''xapp''), (''anthropicApiKey'', ''sk'')]\<rparr>"

lemma ex_stack_passes: "config_problems False ex_stack ex_stack_secrets = []"
  by (simp add: config_problems_def base_problems_def standing_problems_def prod_problems_def service_problems_def ex_stack_def ex_stack_secrets_def
      Let_def user_problems_def team_problems_def standing_admin_def STANDING_ADMIN_ROLES_def requiredImages_def unpinned_def ex_digest_def)

text \<open>The condition of the property is needed: \<open>requiredImages\<close> does not count the portal, so a production stack with the portal
  alone passes every invariant without any digest, and runs the image by its tag.\<close>

definition ex_portal_only :: StackConfig where
  "ex_portal_only =
     (let s = st_services ex_stack in
      ex_stack\<lparr>st_images := (st_images ex_stack)\<lparr>ic_digests := []\<rparr>,
        st_services := s\<lparr>sv_mcp := False, sv_broker := False, sv_agent := (sv_agent s)\<lparr>ag_enabled := False\<rparr>\<rparr>\<rparr>)"

lemma portal_image_by_tag:
  "config_problems False ex_portal_only ex_stack_secrets = []"
  "map (map ct_image) (map (\<lambda>w. filter (own_image (profile_of ex_portal_only stack secrets)) (pd_containers (wl_pod w)))
     (access_workloads (profile_of ex_portal_only stack secrets))) = [[''ghcr.io/org/repo/teleport-access:v1'']]"
proof -
  show "config_problems False ex_portal_only ex_stack_secrets = []"
    by (simp add: config_problems_def base_problems_def standing_problems_def prod_problems_def service_problems_def ex_portal_only_def ex_stack_def
        ex_stack_secrets_def Let_def user_problems_def team_problems_def standing_admin_def STANDING_ADMIN_ROLES_def requiredImages_def)
  have s: "\<not> sv_mcp (st_services ex_portal_only)" "\<not> sv_broker (st_services ex_portal_only)" "po_enabled (sv_portal (st_services ex_portal_only))"
    "\<not> sv_harness (st_services ex_portal_only)" "\<not> ag_enabled (sv_agent (st_services ex_portal_only))"
    "ic_registry (st_images ex_portal_only) = ''ghcr.io/org/repo''" "ic_tag (st_images ex_portal_only) = ''v1''"
    "ic_digests (st_images ex_portal_only) = []"
    by (simp_all add: ex_portal_only_def ex_stack_def Let_def)
  show "map (map ct_image) (map (\<lambda>w. filter (own_image (profile_of ex_portal_only stack secrets)) (pd_containers (wl_pod w)))
     (access_workloads (profile_of ex_portal_only stack secrets))) = [[''ghcr.io/org/repo/teleport-access:v1'']]"
    by (simp add: access_workloads_def deployed_bots_def brokerEnabled_def s deployBot_def tbotContainer_def bot_container_def portal_bot_def own_image_def
        TBOT_IMAGE_def imageRef_def profile_images Let_def)
qed

end
