(* ===== verification/AgentDeploy.thy ===== *)
theory AgentDeploy
  imports AccessWorkloads AgentConfig
begin

text \<open>
  Where two programs of the repository meet: the environment and the mounted files the infrastructure gives the chat agent
  (\<open>infra/teleport/src/components/AccessServices.ts\<close>) and the configuration the agent makes of them
  (\<open>services/access-agent/src/config/schema.ts\<close>). Kubernetes is the argument-free part in between: the variables of the container
  become the process's environment, and a mounted Secret is one file per key.
\<close>

section \<open>The container as the process sees it\<close>

text \<open>Of two variables with one name the last one counts.\<close>

definition env_of :: "(string \<times> string) list \<Rightarrow> Env" where
  "env_of vars = map_of (rev vars)"

definition mounted_files :: "EnvProfile \<Rightarrow> (string \<Rightarrow> string) \<Rightarrow> (string \<times> string) list" where
  "mounted_files p gen =
     map (\<lambda>k. (SERVICES_SECRET_DIR @ ''/'' @ k, gen k)) SERVICE_SECRET_KEYS
     @ concat (map (\<lambda>m. map (\<lambda>(n, v). (cm_mountPath m @ ''/'' @ n, v)) (chat_secret_data (chat_of p) m)) (renderChatSecretMounts p))"

definition read_mounted :: "EnvProfile \<Rightarrow> (string \<Rightarrow> string) \<Rightarrow> string \<Rightarrow> string + string" where
  "read_mounted p gen path = (case map_of (mounted_files p gen) path of None \<Rightarrow> Inl ''ENOENT: no such file or directory'' | Some v \<Rightarrow> Inr v)"

definition agent_config :: "(string \<Rightarrow> bool) \<Rightarrow> EnvProfile \<Rightarrow> (string \<Rightarrow> string) \<Rightarrow> js_error + Config" where
  "agent_config is_url p gen = loadConfig is_url (read_mounted p gen) (env_of (renderAgentEnv p (present_keys (chat_of p))))"

section \<open>Lists in variables\<close>

lemma split_on_join:
  "ws \<noteq> [] \<Longrightarrow> list_all (\<lambda>w. d \<notin> set w) ws \<Longrightarrow> split_on d (join [d] ws) = ws"
proof (induction ws rule: induct_list012)
  case (3 x y zs)
  then show ?case using split_on_append [of d x] by simp
qed (simp_all add: split_on_no_sep)

lemma csv_join:
  assumes "list_all (\<lambda>w. w \<noteq> [] \<and> CHR '','' \<notin> set w \<and> trim w = w) ws"
  shows "csv (join '','' ws) = ws"
proof (cases "ws = []")
  case True
  then show ?thesis by (simp add: csv_def trim_def)
next
  case False
  have "list_all (\<lambda>w. CHR '','' \<notin> set w) ws" using assms by (auto simp: list_all_iff)
  with False have "split_on (CHR '','') (join '','' ws) = ws" by (rule split_on_join)
  moreover have "map trim ws = ws" using assms by (auto simp: list_all_iff intro: map_idI)
  moreover have "filter (\<lambda>x. x \<noteq> []) ws = ws" using assms by (auto simp: list_all_iff filter_id_conv)
  ultimately show ?thesis by (simp add: csv_def)
qed

lemma csv_adapters: "csv (join '','' (map adapter_text as)) = map adapter_text as"
proof (rule csv_join)
  have "adapter_text a \<noteq> [] \<and> CHR '','' \<notin> set (adapter_text a) \<and> trim (adapter_text a) = adapter_text a" for a
    by (cases a) (simp_all add: adapter_text_def trim_def is_ws_def code_of_def)
  then show "list_all (\<lambda>w. w \<noteq> [] \<and> CHR '','' \<notin> set w \<and> trim w = w) (map adapter_text as)" by (simp add: list_all_iff)
qed

section \<open>The variables of the container\<close>

definition CHAT_VARS :: "string list" where
  "CHAT_VARS = [''ANTHROPIC_API_KEY'', ''CLAUDE_CODE_OAUTH_TOKEN'', ''SLACK_BOT_TOKEN'', ''SLACK_APP_TOKEN'', ''TEAMS_APP_ID'',
     ''TEAMS_APP_PASSWORD'', ''TEAMS_TENANT_ID'', ''GCHAT_PROJECT_NUMBER'', ''GCHAT_SERVICE_ACCOUNT_JSON'']"

lemma layout_vars: "set (map fst (llm_keys a)) \<subseteq> set CHAT_VARS" "set (map fst (adapter_keys ad)) \<subseteq> set CHAT_VARS"
  by (cases a; simp add: llm_keys_def CHAT_VARS_def)
    (cases ad; simp add: adapter_keys_def LAYOUT_slack_def LAYOUT_teams_def LAYOUT_gchat_def CHAT_VARS_def)

lemma mounts_keys:
  "map cm_keys (renderChatSecretMounts p) =
     llm_keys (ag_auth (sv_agent (st_services p))) # map adapter_keys (filter (\<lambda>a. a \<noteq> AdCli) (ag_adapters (sv_agent (st_services p))))"
  by (simp add: renderChatSecretMounts_def Let_def comp_def)

lemma mount_vars:
  assumes "m \<in> set (renderChatSecretMounts p)"
  shows "set (map fst (cm_keys m)) \<subseteq> set CHAT_VARS"
proof -
  have "cm_keys m \<in> set (map cm_keys (renderChatSecretMounts p))" using assms by simp
  then consider "cm_keys m = llm_keys (ag_auth (sv_agent (st_services p)))" | a where "cm_keys m = adapter_keys a"
    unfolding mounts_keys by auto
  then show ?thesis using layout_vars by cases metis+
qed

lemma file_vars: "set (map fst (chat_file_vars keys m)) \<subseteq> file_var ` set (map fst (cm_keys m))"
  unfolding chat_file_vars_def by (auto simp: file_var_def image_image rev_image_eqI)

lemma env_fixed:
  assumes "x \<notin> file_var ` set CHAT_VARS"
  shows "env_of (renderAgentEnv p keys) x = map_of (rev (agent_fixed_env p)) x"
proof -
  have "x \<notin> set (map fst (concat (map (chat_file_vars keys) (renderChatSecretMounts p))))"
  proof
    assume "x \<in> set (map fst (concat (map (chat_file_vars keys) (renderChatSecretMounts p))))"
    then obtain m where m: "m \<in> set (renderChatSecretMounts p)" "x \<in> set (map fst (chat_file_vars keys m))" by auto
    from file_vars [of keys m] m(2) mount_vars [OF m(1)] assms show False by blast
  qed
  then have "map_of (rev (concat (map (chat_file_vars keys) (renderChatSecretMounts p)))) x = None"
    by (simp add: map_of_eq_None_iff)
  then show ?thesis by (simp add: env_of_def renderAgentEnv_def map_add_def)
qed

text \<open>No variable of a chat credential itself is ever set, only the \<open>_FILE\<close> variant.\<close>

lemma chat_var_not_file: "n \<in> set CHAT_VARS \<Longrightarrow> n \<notin> file_var ` set CHAT_VARS"
  by (auto simp: CHAT_VARS_def file_var_def)

lemma fixed_names:
  "map fst (agent_fixed_env p) =
     [''CLAUDE_AUTH_MODE'', ''CLAUDE_STATE_DIR'', ''CLAUDE_ALLOW_LOCAL_LOGIN'', ''HOME'', ''MCP_URL'', ''BROKER_URL'', ''ADAPTERS'', ''PORT'', ''PUBLIC_PORT'',
      ''SESSION_FILE'', ''IDENTITY_STRATEGY'', ''ALLOWED_EMAIL_DOMAINS'', ''SLACK_ALLOWED_TEAM_IDS'', ''MCP_SHARED_TOKEN_FILE'', ''BROKER_API_TOKEN_FILE'',
      ''BROKER_WEBHOOK_SECRET_FILE'', ''IDENTITY_SIGNING_KEY_FILE'']"
  by (simp add: agent_fixed_env_def renderAgentAuthEnv_def Let_def)

lemma env_fixed_None: "x \<notin> set (map fst (agent_fixed_env p)) \<Longrightarrow> x \<notin> file_var ` set CHAT_VARS \<Longrightarrow> env_of (renderAgentEnv p keys) x = None"
  by (simp add: env_fixed map_of_eq_None_iff)

lemma env_chat_var: "n \<in> set CHAT_VARS \<Longrightarrow> env_of (renderAgentEnv p keys) n = None"
  by (rule env_fixed_None) (unfold fixed_names, auto simp: CHAT_VARS_def file_var_def)

section \<open>Secret files\<close>

text \<open>Resolving the secret files leaves a variable alone that is neither a secret nor the file of one.\<close>

lemma resolve_keeps:
  "resolve_secrets readFile env names out = Inr out' \<Longrightarrow> x \<notin> set names \<Longrightarrow> x \<notin> file_var ` set names \<Longrightarrow> out' x = out x"
  by (induction readFile env names out arbitrary: out' rule: resolve_secrets.induct)
    (auto simp: Let_def split: if_splits sum.splits)

lemma file_var_inject [simp]: "file_var a = file_var b \<longleftrightarrow> a = b"
  by (simp add: file_var_def)

lemma resolve_all:
  assumes "distinct names" and "set names \<inter> file_var ` set names = {}"
    and "\<And>n. n \<in> set names \<Longrightarrow> truthy (env (file_var n)) \<Longrightarrow> \<exists>c. readFile (nullish (env (file_var n)) '''') = Inr c \<and> trim c \<noteq> []"
  shows "\<exists>out'. resolve_secrets readFile env names out = Inr out' \<and>
    (\<forall>n \<in> set names. out' n = (if truthy (env (file_var n)) then Some (trim (projr (readFile (nullish (env (file_var n)) '''')))) else out n))"
  using assms
proof (induction names arbitrary: out)
  case (Cons n ns)
  have d: "n \<notin> set ns" "distinct ns" "set ns \<inter> file_var ` set ns = {}" "n \<notin> file_var ` set ns" "\<And>m. m \<in> set ns \<Longrightarrow> m \<noteq> file_var n"
    using Cons.prems(1,2) by auto
  note ih = Cons.IH [OF d(2,3) Cons.prems(3)]
  show ?case
  proof (cases "truthy (env (file_var n))")
    case True
    with Cons.prems(3) obtain c where c: "readFile (nullish (env (file_var n)) '''') = Inr c" "trim c \<noteq> []" by auto
    obtain out' where o: "resolve_secrets readFile env ns ((out(n \<mapsto> trim c))(file_var n := None)) = Inr out'"
      "\<forall>m \<in> set ns. out' m = (if truthy (env (file_var m)) then Some (trim (projr (readFile (nullish (env (file_var m)) ''''))))
        else ((out(n \<mapsto> trim c))(file_var n := None)) m)" using ih by (metis list.set_intros(2))
    have "out' n = Some (trim c)" using resolve_keeps [OF o(1) d(1,4)] Cons.prems(2) by auto
    with True c o d(1,5) show ?thesis by (auto simp: Let_def)
  next
    case False
    obtain out' where o: "resolve_secrets readFile env ns out = Inr out'"
      "\<forall>m \<in> set ns. out' m = (if truthy (env (file_var m)) then Some (trim (projr (readFile (nullish (env (file_var m)) '''')))) else out m)"
      using ih by (metis list.set_intros(2))
    with False resolve_keeps [OF o(1) d(1,4)] show ?thesis by auto
  qed
qed simp

lemma secret_names: "distinct SECRET_ENV_VARS" "set SECRET_ENV_VARS \<inter> file_var ` set SECRET_ENV_VARS = {}"
  by (simp_all add: SECRET_ENV_VARS_def file_var_def)

section \<open>Chat credentials\<close>

lemma config_needs_http:
  assumes "list_all fst (config_needs c)"
  shows "(''teams'' \<in> set (csv (ADAPTERS c)) \<longrightarrow> truthy (TEAMS_APP_ID c) \<and> truthy (TEAMS_TENANT_ID c)) \<and>
    (''gchat'' \<in> set (csv (ADAPTERS c)) \<longrightarrow> truthy (GCHAT_PROJECT_NUMBER c))"
  using assms by (simp add: config_needs_def Let_def list_all_if_nil)

lemma parsed_fields:
  assumes "parse_config is_url env = (iss, c)"
  shows "TEAMS_APP_ID c = env ''TEAMS_APP_ID'' \<and> TEAMS_TENANT_ID c = env ''TEAMS_TENANT_ID'' \<and>
    GCHAT_PROJECT_NUMBER c = env ''GCHAT_PROJECT_NUMBER'' \<and> ADAPTERS c = nullish (env ''ADAPTERS'') ''cli''"
  using assms by (auto simp: parse_config_def Let_def z_str_def)

lemma env_adapters:
  "env_of (renderAgentEnv p keys) ''ADAPTERS'' =
     Some (join '','' (map adapter_text (filter (\<lambda>a. a \<noteq> AdCli) (ag_adapters (sv_agent (st_services p))))))"
  by (subst env_fixed) (simp_all add: CHAT_VARS_def file_var_def agent_fixed_env_def renderAgentAuthEnv_def Let_def)

text \<open>The deployed agent of a stack with the Teams or the Google Chat adapter refuses to start, whatever credentials the stack has
  and whatever its files hold: the deployment passes \<open>TEAMS_APP_ID\<close>, \<open>TEAMS_TENANT_ID\<close> and \<open>GCHAT_PROJECT_NUMBER\<close> as files only, and the
  agent reads no file for these three.\<close>

theorem http_adapters_never_start:
  "case loadConfig is_url readFile (env_of (renderAgentEnv p keys)) of
     Inl _ \<Rightarrow> True
   | Inr c \<Rightarrow> \<not> http_adapters p"
proof (cases "loadConfig is_url readFile (env_of (renderAgentEnv p keys))")
  case (Inr c)
  let ?e = "env_of (renderAgentEnv p keys)" and ?as = "filter (\<lambda>a. a \<noteq> AdCli) (ag_adapters (sv_agent (st_services p)))"
  obtain env where e: "resolveSecretFiles readFile ?e = Inr env" "parse_config is_url env = ([], c)" "list_all fst (config_needs c)"
    using loadConfig_Inr [OF Inr] by blast
  have keep: "x \<notin> set SECRET_ENV_VARS \<Longrightarrow> x \<notin> file_var ` set SECRET_ENV_VARS \<Longrightarrow> env x = ?e x" for x
    using resolve_keeps [OF e(1) [unfolded resolveSecretFiles_def]] .
  have none: "env ''TEAMS_APP_ID'' = None" "env ''GCHAT_PROJECT_NUMBER'' = None"
    by (subst keep; simp add: SECRET_ENV_VARS_def file_var_def env_chat_var CHAT_VARS_def)+
  have "env ''ADAPTERS'' = ?e ''ADAPTERS''" by (rule keep) (simp_all add: SECRET_ENV_VARS_def file_var_def)
  with parsed_fields [OF e(2)] have "csv (ADAPTERS c) = map adapter_text ?as" by (simp add: env_adapters csv_adapters)
  moreover have "''teams'' \<notin> set (csv (ADAPTERS c))" "''gchat'' \<notin> set (csv (ADAPTERS c))"
    using config_needs_http [OF e(3)] parsed_fields [OF e(2)] none by auto
  ultimately have "AdTeams \<notin> set ?as" "AdGchat \<notin> set ?as" by (auto simp: adapter_text_def image_iff)
  then have "\<not> http_adapters p" by (auto simp: http_adapters_def list_ex_iff)
  with Inr show ?thesis by simp
qed simp

section \<open>A Slack deployment starts\<close>

text \<open>What the deployment relies on: generated passwords of the lengths asked for, without special characters; and every credential
  the mounts name present in \<open>teleport:chat\<close> and not blank.\<close>

definition generated :: "(string \<Rightarrow> string) \<Rightarrow> bool" where
  "generated gen \<longleftrightarrow> list_all (\<lambda>k. length (gen k) = secret_length k \<and> list_all is_alnum (gen k)) SERVICE_SECRET_KEYS"

definition chat_complete :: "EnvProfile \<Rightarrow> bool" where
  "chat_complete p \<longleftrightarrow>
     list_all (\<lambda>m. list_all (\<lambda>(n, k). case map_of (chat_of p) k of None \<Rightarrow> False | Some v \<Rightarrow> trim v \<noteq> []) (cm_keys m)) (renderChatSecretMounts p)"

lemma trim_alnum: "list_all is_alnum s \<Longrightarrow> trim s = s"
proof -
  assume a: "list_all is_alnum s"
  have n: "is_alnum c \<Longrightarrow> \<not> is_ws c" for c
    by (auto simp: is_alnum_def is_alpha_def is_digit_def is_lower_az_def is_upper_az_def is_ws_def)
  have d: "list_all is_alnum t \<Longrightarrow> dropWhile is_ws t = t" for t using n by (cases t) auto
  with a d [of "rev s"] show ?thesis by (simp add: trim_def)
qed

lemma generated_trim: "generated gen \<Longrightarrow> k \<in> set SERVICE_SECRET_KEYS \<Longrightarrow> trim (gen k) = gen k \<and> length (gen k) = secret_length k"
  using trim_alnum by (auto simp: generated_def list_all_iff)

lemma trim_Nil [simp]: "trim [] = []" by (simp add: trim_def)

text \<open>Every mounted file has contents.\<close>

lemma mounted_nonblank:
  assumes "generated gen" "chat_complete p" "(path, v) \<in> set (mounted_files p gen)"
  shows "trim v \<noteq> []"
proof -
  have s: "trim (gen k) \<noteq> []" if "k \<in> set SERVICE_SECRET_KEYS" for k
  proof -
    have "0 < length (gen k)" using generated_trim [OF assms(1) that] by (simp add: secret_length_def)
    then show ?thesis using generated_trim [OF assms(1) that] by auto
  qed
  have c: "trim w \<noteq> []" if "m \<in> set (renderChatSecretMounts p)" "(n, w) \<in> set (chat_secret_data (chat_of p) m)" for m n w
    using that assms(2) by (fastforce simp: chat_secret_data_def chat_complete_def list_all_iff split: option.splits if_splits)
  from assms(3) s c show ?thesis by (auto simp: mounted_files_def)
qed

lemma read_mounted_ok:
  assumes "generated gen" "chat_complete p" "path \<in> fst ` set (mounted_files p gen)"
  shows "\<exists>v. read_mounted p gen path = Inr v \<and> trim v \<noteq> []"
proof -
  obtain v where v: "map_of (mounted_files p gen) path = Some v" using assms(3) by (meson map_of_eq_None_iff not_None_eq)
  with mounted_nonblank [OF assms(1,2) map_of_SomeD [OF v]] show ?thesis by (simp add: read_mounted_def)
qed

lemma read_service_secret:
  "k \<in> set SERVICE_SECRET_KEYS \<Longrightarrow> read_mounted p gen (SERVICES_SECRET_DIR @ ''/'' @ k) = Inr (gen k)"
proof -
  assume k: "k \<in> set SERVICE_SECRET_KEYS"
  have "map_of (map (\<lambda>k. (d @ k, gen k)) ks) (d @ k) = (if k \<in> set ks then Some (gen k) else None)" for d ks
    by (induction ks) auto
  from this [of "SERVICES_SECRET_DIR @ ''/''" SERVICE_SECRET_KEYS] k show ?thesis
    by (simp add: read_mounted_def mounted_files_def map_add_def)
qed

text \<open>A file variable that is set names a mounted file, and the credentials the mounts name are all set.\<close>

lemma chat_file_value:
  assumes "chat_complete p" "m \<in> set (renderChatSecretMounts p)" "(n, f) \<in> set (chat_file_vars (present_keys (chat_of p)) m)"
  shows "f \<in> fst ` set (mounted_files p gen)"
proof -
  from assms(3) obtain e k where e: "(e, k) \<in> set (cm_keys m)" "f = cm_mountPath m @ ''/'' @ e" by (auto simp: chat_file_vars_def)
  with assms(1,2) obtain v where v: "map_of (chat_of p) k = Some v" "trim v \<noteq> []"
    by (fastforce simp: chat_complete_def list_all_iff split: option.splits)
  then have "truthy (map_of (chat_of p) k)" by auto
  with e v have "(e, v) \<in> set (chat_secret_data (chat_of p) m)" by (force simp: chat_secret_data_def)
  with assms(2) e(2) show ?thesis by (force simp: mounted_files_def)
qed

lemma chat_var_set:
  assumes "chat_complete p" "m \<in> set (renderChatSecretMounts p)" "(n, k) \<in> set (cm_keys m)"
  shows "truthy (env_of (renderAgentEnv p (present_keys (chat_of p))) (file_var n))"
proof -
  let ?vars = "concat (map (chat_file_vars (present_keys (chat_of p))) (renderChatSecretMounts p))"
  from assms obtain v where v: "map_of (chat_of p) k = Some v" "trim v \<noteq> []"
    by (fastforce simp: chat_complete_def list_all_iff split: option.splits)
  then have "k \<in> set (present_keys (chat_of p))" using map_of_SomeD [OF v(1)] by (force simp: present_keys_def)
  with assms(2,3) have "file_var n \<in> fst ` set ?vars" by (force simp: chat_file_vars_def file_var_def)
  then obtain f where f: "map_of (rev ?vars) (file_var n) = Some f" by (metis map_of_eq_None_iff not_None_eq set_rev)
  then have "(file_var n, f) \<in> set ?vars" using map_of_SomeD by fastforce
  then have "f \<noteq> []" by (auto simp: chat_file_vars_def)
  with f show ?thesis by (auto simp: env_of_def renderAgentEnv_def map_add_def)
qed

lemma file_readable:
  assumes "generated gen" "chat_complete p" "n \<in> set SECRET_ENV_VARS"
    and "truthy (env_of (renderAgentEnv p (present_keys (chat_of p))) (file_var n))"
  shows "\<exists>c. read_mounted p gen (nullish (env_of (renderAgentEnv p (present_keys (chat_of p))) (file_var n)) '''') = Inr c \<and> trim c \<noteq> []"
proof -
  from assms(4) obtain f where f: "env_of (renderAgentEnv p (present_keys (chat_of p))) (file_var n) = Some f" by (auto elim!: truthyE)
  from map_of_SomeD [OF this [unfolded env_of_def]] have "(file_var n, f) \<in> set (agent_fixed_env p) \<or>
      (\<exists>m \<in> set (renderChatSecretMounts p). (file_var n, f) \<in> set (chat_file_vars (present_keys (chat_of p)) m))"
    by (auto simp: renderAgentEnv_def)
  then have "f \<in> fst ` set (mounted_files p gen)"
  proof
    assume "(file_var n, f) \<in> set (agent_fixed_env p)"
    then have "\<exists>k \<in> set SERVICE_SECRET_KEYS. f = SERVICES_SECRET_DIR @ ''/'' @ k"
      using assms(3) by (auto simp: SECRET_ENV_VARS_def file_var_def agent_fixed_env_def renderAgentAuthEnv_def Let_def SERVICE_SECRET_KEYS_def)
    then show ?thesis by (force simp: mounted_files_def)
  qed (use chat_file_value [OF assms(2)] in blast)
  from read_mounted_ok [OF assms(1,2) this] f show ?thesis by simp
qed

lemma env_values:
  fixes p keys
  defines "e \<equiv> env_of (renderAgentEnv p keys)" and "agent \<equiv> sv_agent (st_services p)"
  shows "e ''CLAUDE_AUTH_MODE'' = Some (auth_text (ag_auth agent))" "e ''CLAUDE_ALLOW_LOCAL_LOGIN'' = Some ''false''"
    "e ''MCP_URL'' = Some (service_url BotMcp MCP_PORT @ ''/mcp'')" "e ''BROKER_URL'' = Some (service_url BotBroker BROKER_PORT)"
    "e ''PORT'' = Some (show_int AGENT_PORT)" "e ''PUBLIC_PORT'' = Some (show_int AGENT_PUBLIC_PORT)"
    "e ''IDENTITY_STRATEGY'' = Some ''trait-lookup''" "e ''ALLOWED_EMAIL_DOMAINS'' = Some (join '','' (ag_allowedEmailDomains agent))"
    "e ''SLACK_ALLOWED_TEAM_IDS'' = Some (join '','' (ag_slackAllowedTeamIds agent))"
    "e (file_var ''MCP_SHARED_TOKEN'') = Some (SERVICES_SECRET_DIR @ ''/TA_MCP_SHARED_TOKEN'')"
    "e (file_var ''IDENTITY_SIGNING_KEY'') = Some (SERVICES_SECRET_DIR @ ''/TA_IDENTITY_SIGNING_KEY'')"
  unfolding e_def agent_def
  by (subst env_fixed; simp add: CHAT_VARS_def file_var_def agent_fixed_env_def renderAgentAuthEnv_def Let_def)+

lemma env_unset:
  "list_all (\<lambda>x. env_of (renderAgentEnv p keys) x = None)
     [''CLAUDE_EFFORT'', ''CLAUDE_TURN_TIMEOUT_MS'', ''GCHAT_MODE'', ''SESSION_BACKEND'', ''SESSION_MAX_TURNS'']"
proof -
  have "env_of (renderAgentEnv p keys) x = None"
    if "x \<in> set [''CLAUDE_EFFORT'', ''CLAUDE_TURN_TIMEOUT_MS'', ''GCHAT_MODE'', ''SESSION_BACKEND'', ''SESSION_MAX_TURNS'']" for x
    by (rule env_fixed_None) (unfold fixed_names, use that in \<open>auto simp: CHAT_VARS_def file_var_def\<close>)
  then show ?thesis by (simp only: list_all_iff) blast
qed

lemma js_number_show_nat: "js_number (show_nat n) = Some (int n, 0)"
proof -
  let ?t = "show_nat n"
  have dg: "list_all is_digit ?t" and ne: "?t \<noteq> []" by (simp_all add: show_nat_digits show_nat_ne)
  have tr: "trim ?t = ?t" by (rule trim_alnum) (use dg in \<open>auto simp: list_all_iff is_alnum_def\<close>)
  have tw: "takeWhile is_digit ?t = ?t" "dropWhile is_digit ?t = []" using dg by (auto simp: list_all_iff)
  have nd: "c \<notin> set ?t" if "\<not> is_digit c" for c using dg that by (auto simp: list_all_iff)
  have sw: "\<not> starts_with pre ?t" if "c \<in> set pre" "\<not> is_digit c" for c pre
    using nd [OF that(2)] that(1) by (auto simp: starts_with_iff)
  have chars: "\<not> is_digit (CHR ''x'')" "\<not> is_digit (CHR ''X'')" "\<not> is_digit (CHR ''o'')" "\<not> is_digit (CHR ''O'')" "\<not> is_digit (CHR ''b'')"
    "\<not> is_digit (CHR ''B'')" "\<not> is_digit (CHR ''-'')" "\<not> is_digit (CHR ''+'')" by (simp_all add: is_digit_def code_of_def)
  have "num_decimal ?t = Some (int n, 0)"
    using ne by (simp add: num_decimal_def Let_def tw pexp_def)
  then show ?thesis
    using ne sw [OF _ chars(1), of "''0x''"] sw [OF _ chars(2), of "''0X''"] sw [OF _ chars(3), of "''0o''"] sw [OF _ chars(4), of "''0O''"]
      sw [OF _ chars(5), of "''0b''"] sw [OF _ chars(6), of "''0B''"] sw [OF _ chars(7), of "''-''"] sw [OF _ chars(8), of "''+''"]
    by (simp add: js_number_def Let_def tr)
qed

lemma js_number_show_int: "0 \<le> i \<Longrightarrow> js_number (show_int i) = Some (i, 0)"
  by (simp add: show_int_def js_number_show_nat)

lemma z_int_shown: "env k = Some (show_int i) \<Longrightarrow> 0 \<le> i \<Longrightarrow> i \<le> MAX_SAFE_INTEGER \<Longrightarrow> ok i \<Longrightarrow> z_int ok d env k = ([], i)"
  by (simp add: z_int_def js_number_show_int num_to_int_def)

lemma z_int_unset: "env k = None \<Longrightarrow> z_int ok d env k = ([], d)"
  by (simp add: z_int_def)

lemma z_enum_unset: "env k = None \<Longrightarrow> z_enum tbl d env k = ([], d)"
  by (simp add: z_enum_def)

text \<open>The resolved environment of a complete deployment.\<close>

lemma resolved_env:
  fixes p gen
  defines "e \<equiv> env_of (renderAgentEnv p (present_keys (chat_of p)))"
  assumes "generated gen" "chat_complete p"
  shows "\<exists>env. resolveSecretFiles (read_mounted p gen) e = Inr env
    \<and> (\<forall>x. x \<notin> set SECRET_ENV_VARS \<longrightarrow> x \<notin> file_var ` set SECRET_ENV_VARS \<longrightarrow> env x = e x)
    \<and> env ''MCP_SHARED_TOKEN'' = Some (gen ''TA_MCP_SHARED_TOKEN'') \<and> env ''IDENTITY_SIGNING_KEY'' = Some (gen ''TA_IDENTITY_SIGNING_KEY'')
    \<and> (\<forall>m \<in> set (renderChatSecretMounts p). \<forall>(n, k) \<in> set (cm_keys m). n \<in> set SECRET_ENV_VARS \<longrightarrow> truthy (env n))"
proof -
  have rd: "n \<in> set SECRET_ENV_VARS \<Longrightarrow> truthy (e (file_var n)) \<Longrightarrow>
      \<exists>c. read_mounted p gen (nullish (e (file_var n)) '''') = Inr c \<and> trim c \<noteq> []" for n
    unfolding e_def by (rule file_readable [OF assms(2,3)])
  obtain env where env: "resolve_secrets (read_mounted p gen) e SECRET_ENV_VARS e = Inr env"
    "\<And>n. n \<in> set SECRET_ENV_VARS \<Longrightarrow> truthy (e (file_var n)) \<Longrightarrow>
       env n = Some (trim (projr (read_mounted p gen (nullish (e (file_var n)) ''''))))"
    using resolve_all [OF secret_names, of e "read_mounted p gen" e] rd by auto
  have sv: "env ''MCP_SHARED_TOKEN'' = Some (gen ''TA_MCP_SHARED_TOKEN'')" "env ''IDENTITY_SIGNING_KEY'' = Some (gen ''TA_IDENTITY_SIGNING_KEY'')"
    using env(2) [of "''MCP_SHARED_TOKEN''"] env(2) [of "''IDENTITY_SIGNING_KEY''"] generated_trim [OF assms(2)]
      read_service_secret [of "''TA_MCP_SHARED_TOKEN''" p gen] read_service_secret [of "''TA_IDENTITY_SIGNING_KEY''" p gen]
    by (simp_all add: SECRET_ENV_VARS_def SERVICE_SECRET_KEYS_def env_values e_def)
  have "truthy (env n)" if "m \<in> set (renderChatSecretMounts p)" "(n, k) \<in> set (cm_keys m)" "n \<in> set SECRET_ENV_VARS" for m n k
  proof -
    have t: "truthy (e (file_var n))" unfolding e_def by (rule chat_var_set [OF assms(3) that(1,2)])
    from rd [OF that(3) t] env(2) [OF that(3) t] show ?thesis by auto
  qed
  with env(1) sv resolve_keeps [OF env(1)] show ?thesis unfolding resolveSecretFiles_def by blast
qed

text \<open>The schema accepts the resolved environment.\<close>

lemma resolved_parses:
  assumes keep: "\<And>x. x \<notin> set SECRET_ENV_VARS \<Longrightarrow> x \<notin> file_var ` set SECRET_ENV_VARS \<Longrightarrow> env x = env_of (renderAgentEnv p keys) x"
    and tok: "env ''MCP_SHARED_TOKEN'' = Some tok" "tok \<noteq> []" and key: "env ''IDENTITY_SIGNING_KEY'' = Some key" "32 \<le> length key"
    and url: "is_url (service_url BotMcp MCP_PORT @ ''/mcp'')" "is_url (service_url BotBroker BROKER_PORT)"
  shows "\<exists>c. parse_config is_url env = ([], c) \<and> IDENTITY_STRATEGY c = TraitLookup \<and> PORT c = AGENT_PORT \<and> PUBLIC_PORT c = Some AGENT_PUBLIC_PORT
    \<and> MCP_URL c = service_url BotMcp MCP_PORT @ ''/mcp'' \<and> BROKER_URL c = service_url BotBroker BROKER_PORT
    \<and> IDENTITY_SIGNING_KEY c = key \<and> ADAPTERS c = join '','' (map adapter_text (filter (\<lambda>a. a \<noteq> AdCli) (ag_adapters (sv_agent (st_services p)))))
    \<and> CLAUDE_AUTH_MODE c = (case ag_auth (sv_agent (st_services p)) of ApiKeyAuth \<Rightarrow> AuthApiKey | SubscriptionAuth \<Rightarrow> AuthSubscription)
    \<and> \<not> CLAUDE_ALLOW_LOCAL_LOGIN c
    \<and> ANTHROPIC_API_KEY c = env ''ANTHROPIC_API_KEY'' \<and> CLAUDE_CODE_OAUTH_TOKEN c = env ''CLAUDE_CODE_OAUTH_TOKEN''
    \<and> SLACK_BOT_TOKEN c = env ''SLACK_BOT_TOKEN'' \<and> SLACK_APP_TOKEN c = env ''SLACK_APP_TOKEN''
    \<and> ALLOWED_EMAIL_DOMAINS c = join '','' (ag_allowedEmailDomains (sv_agent (st_services p)))
    \<and> SLACK_ALLOWED_TEAM_IDS c = join '','' (ag_slackAllowedTeamIds (sv_agent (st_services p)))"
proof -
  have other: "x \<notin> set SECRET_ENV_VARS \<and> x \<notin> file_var ` set SECRET_ENV_VARS"
    if "x \<in> set [''CLAUDE_AUTH_MODE'', ''CLAUDE_EFFORT'', ''CLAUDE_TURN_TIMEOUT_MS'', ''CLAUDE_ALLOW_LOCAL_LOGIN'', ''MCP_URL'', ''BROKER_URL'', ''IDENTITY_STRATEGY'',
      ''PORT'', ''PUBLIC_PORT'', ''GCHAT_MODE'', ''SESSION_BACKEND'', ''SESSION_MAX_TURNS'', ''ADAPTERS'', ''ALLOWED_EMAIL_DOMAINS'', ''SLACK_ALLOWED_TEAM_IDS'']" for x
    using that by (auto simp: SECRET_ENV_VARS_def file_var_def)
  have v: "env ''CLAUDE_AUTH_MODE'' = Some (auth_text (ag_auth (sv_agent (st_services p))))" "env ''CLAUDE_ALLOW_LOCAL_LOGIN'' = Some ''false''"
    "env ''MCP_URL'' = Some (service_url BotMcp MCP_PORT @ ''/mcp'')" "env ''BROKER_URL'' = Some (service_url BotBroker BROKER_PORT)"
    "env ''PORT'' = Some (show_int AGENT_PORT)" "env ''PUBLIC_PORT'' = Some (show_int AGENT_PUBLIC_PORT)"
    "env ''IDENTITY_STRATEGY'' = Some ''trait-lookup''"
    "env ''ADAPTERS'' = Some (join '','' (map adapter_text (filter (\<lambda>a. a \<noteq> AdCli) (ag_adapters (sv_agent (st_services p))))))"
    "env ''ALLOWED_EMAIL_DOMAINS'' = Some (join '','' (ag_allowedEmailDomains (sv_agent (st_services p))))"
    "env ''SLACK_ALLOWED_TEAM_IDS'' = Some (join '','' (ag_slackAllowedTeamIds (sv_agent (st_services p))))"
    using keep other by (simp_all add: env_values env_adapters)
  have u: "env ''CLAUDE_EFFORT'' = None" "env ''CLAUDE_TURN_TIMEOUT_MS'' = None" "env ''GCHAT_MODE'' = None" "env ''SESSION_BACKEND'' = None"
    "env ''SESSION_MAX_TURNS'' = None"
    using keep other env_unset [of p keys] by simp_all
  have unset: "z_enum efforts d1 env ''CLAUDE_EFFORT'' = ([], d1)" "z_enum t2 d2 env ''GCHAT_MODE'' = ([], d2)"
    "z_enum t3 d3 env ''SESSION_BACKEND'' = ([], d3)" "z_int ok4 d4 env ''CLAUDE_TURN_TIMEOUT_MS'' = ([], d4)"
    "z_int ok5 d5 env ''SESSION_MAX_TURNS'' = ([], d5)" for d1 t2 d2 t3 d3 ok4 d4 ok5 d5
    by (simp_all add: z_enum_unset z_int_unset u)
  have port: "z_int port_ok 8082 env ''PORT'' = ([], AGENT_PORT)" "z_int port_ok 0 env ''PUBLIC_PORT'' = ([], AGENT_PUBLIC_PORT)"
    by (rule z_int_shown; simp add: v AGENT_PORT_def AGENT_PUBLIC_PORT_def MAX_SAFE_INTEGER_def port_ok_def)+
  have auth: "z_enum auth_modes AuthApiKey env ''CLAUDE_AUTH_MODE'' =
      ([], case ag_auth (sv_agent (st_services p)) of ApiKeyAuth \<Rightarrow> AuthApiKey | SubscriptionAuth \<Rightarrow> AuthSubscription)"
    by (cases "ag_auth (sv_agent (st_services p))") (simp_all add: z_enum_def v auth_modes_def auth_text_def)
  have str: "z_enum strategies TraitLookup env ''IDENTITY_STRATEGY'' = ([], TraitLookup)" by (simp add: z_enum_def v strategies_def)
  have pub: "z_opt_port env ''PUBLIC_PORT'' = ([], Some AGENT_PUBLIC_PORT)" by (simp add: z_opt_port_def v port)
  have mins: "z_min 1 ''too small'' env ''MCP_SHARED_TOKEN'' = ([], tok)"
    "z_min MIN_SIGNING_KEY_BYTES ''IDENTITY_SIGNING_KEY must be at least 32 bytes'' env ''IDENTITY_SIGNING_KEY'' = ([], key)"
    using tok key by (simp_all add: z_min_def MIN_SIGNING_KEY_BYTES_def Suc_le_eq)
  have urls: "z_url is_url d env ''MCP_URL'' = ([], service_url BotMcp MCP_PORT @ ''/mcp'')" "z_url is_url d env ''BROKER_URL'' = ([], service_url BotBroker BROKER_PORT)" for d
    using url by (simp_all add: z_url_def v)
  show ?thesis
    by (simp only: parse_config_def Let_def auth str pub mins urls port unset)
      (simp add: z_str_def v z_bool_def)
qed

lemma mount_of_keys:
  assumes "ks \<in> set (map cm_keys (renderChatSecretMounts p))" "(n, k) \<in> set ks"
  shows "\<exists>m \<in> set (renderChatSecretMounts p). (n, k) \<in> set (cm_keys m)"
  using assms by auto

lemma deployed_needs_met:
  assumes ad: "csv (ADAPTERS c) = map adapter_text as'" and as: "\<And>a. a \<in> set as' \<Longrightarrow> a = AdSlack"
    and au: "if CLAUDE_AUTH_MODE c = AuthApiKey then truthy (ANTHROPIC_API_KEY c) else truthy (CLAUDE_CODE_OAUTH_TOKEN c)"
    and sl: "AdSlack \<in> set as' \<Longrightarrow> truthy (SLACK_BOT_TOKEN c) \<and> truthy (SLACK_APP_TOKEN c) \<and> csv (ALLOWED_EMAIL_DOMAINS c) \<noteq> [] \<and> csv (SLACK_ALLOWED_TEAM_IDS c) \<noteq> []"
    and id: "IDENTITY_STRATEGY c = TraitLookup" and pt: "PUBLIC_PORT c \<noteq> Some (PORT c)"
  shows "list_all fst (config_needs c)"
proof -
  have members: "adapter_text a \<in> set (csv (ADAPTERS c)) \<longleftrightarrow> a \<in> set as'" for a
    unfolding ad by (cases a) (auto simp: adapter_text_def split: AgentAdapter.splits)
  have "''slack'' \<in> set (csv (ADAPTERS c)) \<longleftrightarrow> AdSlack \<in> set as'" "''teams'' \<notin> set (csv (ADAPTERS c))" "''gchat'' \<notin> set (csv (ADAPTERS c))"
    using members [of AdSlack] members [of AdTeams] members [of AdGchat] as by (auto simp: adapter_text_def)
  moreover have "list_all (\<lambda>a. a \<in> set [''cli'', ''slack'', ''teams'', ''gchat'']) (csv (ADAPTERS c))"
    unfolding ad by (auto simp: list_all_iff dest!: as simp: adapter_text_def split: AgentAdapter.splits)
  moreover have "chat_adapters c \<noteq> [] \<Longrightarrow> AdSlack \<in> set as'"
    using as by (auto simp: chat_adapters_def ad filter_empty_conv)
  ultimately show ?thesis
    using au sl id pt by (auto simp: config_needs_def Let_def list_all_if_nil list.pred_map comp_def GUESSING_STRATEGIES_def split: if_splits)
qed


section \<open>Example\<close>

definition ex_gen :: "string \<Rightarrow> string" where
  "ex_gen k = replicate (secret_length k) (CHR ''a'')"

lemma ex_generated: "generated ex_gen"
  by (simp add: generated_def ex_gen_def list_all_iff is_alnum_def is_alpha_def is_lower_az_def code_of_def)

lemma ex_agent:
  "sv_agent (st_services ex_stack) =
     \<lparr>ag_enabled = True, ag_adapters = [AdSlack], ag_auth = ApiKeyAuth, ag_persistSessions = False,
      ag_allowedEmailDomains = [''example.com''], ag_slackAllowedTeamIds = [''T1'']\<rparr>"
  "chat_of (profile_of ex_stack ''prod-eks'' ex_stack_secrets) = [(''slackBotToken'', ''xoxb''), (''slackAppToken'', ''xapp''), (''anthropicApiKey'', ''sk'')]"
  by (simp_all add: ex_stack_def chat_of_def ex_stack_secrets_def)

lemma ex_chat_complete: "chat_complete (profile_of ex_stack ''prod-eks'' ex_stack_secrets)"
  by (simp add: chat_complete_def renderChatSecretMounts_def Let_def ex_agent llm_keys_def adapter_keys_def LAYOUT_slack_def trim_def is_ws_def code_of_def)


end
