(* ===== verification/Wiring.thy ===== *)
theory Wiring
  imports AccessWorkloads
begin

text \<open>
  The deployed pods against the network policies: every address \<open>AccessServices.ts\<close> writes into a pod's environment can be reached
  from that pod under the rules of \<open>NetworkPolicies.ts\<close>, from both ends, and the pod behind it listens there.
\<close>

definition workload_pod :: "Workload \<Rightarrow> string \<Rightarrow> Pod" where
  "workload_pod w ip = \<lparr>pod_ns = wl_namespace w, pod_labels = map_of (wl_labels w), pod_ip = ip\<rparr>"

text \<open>A pod of the Teleport chart with the given component label.\<close>

definition chart_pod :: "EnvProfile \<Rightarrow> string \<Rightarrow> string \<Rightarrow> Pod" where
  "chart_pod p component ip = \<lparr>pod_ns = ta_namespace (ep_teleport p), pod_labels = [''app.kubernetes.io/component'' \<mapsto> component], pod_ip = ip\<rparr>"

text \<open>The connections the environments ask for: the workload, the bot it dials, the port and that bot's workload.\<close>

definition links :: "EnvProfile \<Rightarrow> (Workload \<times> BotKey \<times> int \<times> Workload) list" where
  "links p =
     (let agent = ag_enabled (sv_agent (st_services p)); mcp = sv_mcp (st_services p); broker = brokerEnabled p;
          portal = po_enabled (sv_portal (st_services p)); brokerW = deployBot p BotBroker (broker_bot p) in
      (if agent \<and> mcp then [(agent_workload p, BotMcp, MCP_PORT, deployBot p BotMcp (mcp_bot p))] else [])
      @ (if agent \<and> broker then [(agent_workload p, BotBroker, BROKER_PORT, brokerW), (brokerW, BotAgent, AGENT_PORT, agent_workload p)] else [])
      @ (if portal \<and> broker then [(deployBot p BotPortal (portal_bot p), BotBroker, BROKER_PORT, brokerW)] else []))"

definition env_values_of :: "Workload \<Rightarrow> string list" where
  "env_values_of w = concat (map (\<lambda>c. concat (map (\<lambda>(n, v). case v of EnvValue s \<Rightarrow> [s] | _ \<Rightarrow> []) (ct_env c))) (pd_containers (wl_pod w)))"

definition dials :: "Workload \<Rightarrow> string \<Rightarrow> bool" where
  "dials w url \<longleftrightarrow> list_ex (starts_with url) (env_values_of w)"

definition listens :: "Workload \<Rightarrow> int \<Rightarrow> bool" where
  "listens w port \<longleftrightarrow> list_ex (\<lambda>c. port \<in> set (ct_ports c)) (pd_containers (wl_pod w))"

definition open_between ::
  "(string \<Rightarrow> string list \<Rightarrow> string \<Rightarrow> bool) \<Rightarrow> EnvProfile \<Rightarrow> Pod \<Rightarrow> Pod \<Rightarrow> int \<Rightarrow> bool" where
  "open_between in_block p a b port \<longleftrightarrow>
     admits in_block (renderNetworkPolicies p) Egress a (PodEnd b) (TCP, port) \<and>
     admits in_block (renderNetworkPolicies p) Ingress b (PodEnd a) (TCP, port)"

definition link_open :: "(string \<Rightarrow> string list \<Rightarrow> string \<Rightarrow> bool) \<Rightarrow> EnvProfile \<Rightarrow> string \<Rightarrow> string \<Rightarrow> Workload \<times> BotKey \<times> int \<times> Workload \<Rightarrow> bool" where
  "link_open in_block p ip ip' l = (case l of (w, k, port, w') \<Rightarrow>
     dials w (service_url k port) \<and> listens w' port \<and> list_ex (\<lambda>s. s = bot_service k port \<or> s = agent_kube_service \<and> k = BotAgent) (access_kube_services p)
     \<and> open_between in_block p (workload_pod w ip) (workload_pod w' ip') port)"

section \<open>Lemmas\<close>

lemma workload_pods:
  "pod_ns (workload_pod (deployBot p k spec) ip) = ACCESS_NAMESPACE" "pod_labels (workload_pod (deployBot p k spec) ip) ''app'' = Some (bot_name k)"
  "pod_ns (workload_pod (agent_workload p) ip) = ACCESS_NAMESPACE" "pod_labels (workload_pod (agent_workload p) ip) ''app'' = Some (bot_name BotAgent)"
  "pod_ns (workload_pod (harness_workload p) ip) = ACCESS_NAMESPACE" "pod_labels (workload_pod (harness_workload p) ip) ''app'' = Some (bot_name BotHarness)"
  by (simp_all add: workload_pod_def deployBot_def agent_workload_def harness_workload_def app_label del: bot_name.simps)

text \<open>Enough for traffic between two services of the namespace: a rule on either side.\<close>

lemma flows_service:
  assumes "pod_labels pd ''app'' = Some (bot_name k)"
    and "policy n ACCESS_NAMESPACE (SEL_bot k) ins outs \<in> set (access_policies p)"
    and "list_ex (rule_admits in_block (pod_ns pd) e port) (case d of Ingress \<Rightarrow> ins | Egress \<Rightarrow> outs)"
  shows "flows in_block (access_policies p) d pd e port"
  unfolding flows_def list_ex_iff
  by (rule bexI [OF _ assms(2)]) (use assms(1,3) in \<open>cases d; simp add: selects_bot list_ex_iff\<close>)

lemma teleport_ns: "ta_namespace (ep_teleport (profile_of cfg stack secrets)) = NAMESPACE"
  by (simp add: teleport_addrs_def)

lemma open_services:
  assumes "pod_ns a = ACCESS_NAMESPACE" "pod_ns b = ACCESS_NAMESPACE" "ta_namespace (ep_teleport p) = NAMESPACE"
    and "pod_labels a ''app'' = Some (bot_name j)" "pod_labels b ''app'' = Some (bot_name k)"
    and "policy n ACCESS_NAMESPACE (SEL_bot j) ins outs \<in> set (access_policies p)" "list_ex (rule_admits in_block ACCESS_NAMESPACE (PodEnd b) (TCP, port)) outs"
    and "policy n' ACCESS_NAMESPACE (SEL_bot k) ins' outs' \<in> set (access_policies p)" "list_ex (rule_admits in_block ACCESS_NAMESPACE (PodEnd a) (TCP, port)) ins'"
  shows "open_between in_block p a b port"
  unfolding open_between_def admits_access [OF assms(1,3)] admits_access [OF assms(2,3)]
  using flows_service [OF assms(4,6), of in_block "PodEnd b" "(TCP, port)" Egress] flows_service [OF assms(5,8), of in_block "PodEnd a" "(TCP, port)" Ingress]
    assms(1,2,7,9) by simp

lemma dials_agent: "dials (agent_workload p) (service_url BotMcp MCP_PORT)" "dials (agent_workload p) (service_url BotBroker BROKER_PORT)"
proof -
  have mem: "s \<in> set (env_values_of (agent_workload p))" if "(n, s) \<in> set (agent_fixed_env p)" for n s
    using that by (force simp: env_values_of_def agent_workload_def agent_container_def renderAgentEnv_def)
  have "(''MCP_URL'', service_url BotMcp MCP_PORT @ ''/mcp'') \<in> set (agent_fixed_env p)"
    "(''BROKER_URL'', service_url BotBroker BROKER_PORT) \<in> set (agent_fixed_env p)" by (simp_all add: agent_fixed_env_def Let_def)
  from this [THEN mem] show "dials (agent_workload p) (service_url BotMcp MCP_PORT)" "dials (agent_workload p) (service_url BotBroker BROKER_PORT)"
    unfolding dials_def list_ex_iff by (auto simp: starts_with_iff intro: bexI)
qed

lemma dials_bot: "(n, EnvValue s) \<in> set (bs_env spec) \<Longrightarrow> starts_with url s \<Longrightarrow> dials (deployBot p k spec) url"
  by (auto simp: dials_def env_values_of_def deployBot_def bot_container_def list_ex_iff intro!: bexI [of _ s] bexI [of _ "(n, EnvValue s)"])

lemma listens_workloads: "listens (deployBot p k spec) (bs_port spec)" "listens (agent_workload p) AGENT_PORT"
  by (simp_all add: listens_def deployBot_def bot_container_def agent_workload_def agent_container_def)

lemma policy_members:
  "policy ''mcp'' ACCESS_NAMESPACE (SEL_bot BotMcp) [rule_to [pods (SEL_bot BotAgent)] (tcp [MCP_PORT])] [toAuth p, toProxy p] \<in> set (access_policies p)"
  "policy ''broker'' ACCESS_NAMESPACE (SEL_bot BotBroker)
     [rule_to (pods (SEL_bot BotAgent) # (if po_enabled (sv_portal (st_services p)) then [pods (SEL_bot BotPortal)] else [])) (tcp [BROKER_PORT])]
     [toAuth p, toProxy p, rule_to [pods (SEL_bot BotAgent)] (tcp [AGENT_PORT])] \<in> set (access_policies p)"
  "agent_policy p \<in> set (access_policies p)"
  "po_enabled (sv_portal (st_services p)) \<Longrightarrow> portal_policy p \<in> set (access_policies p)"
  by (simp_all add: access_policies_def Let_def)

lemma service_ends:
  "is_service BotMcp (PodEnd (workload_pod (deployBot p BotMcp spec) ip))" "is_service BotBroker (PodEnd (workload_pod (deployBot p BotBroker spec) ip))"
  "is_service BotPortal (PodEnd (workload_pod (deployBot p BotPortal spec) ip))" "is_service BotAgent (PodEnd (workload_pod (agent_workload p) ip))"
  by (simp_all add: is_service_def workload_pods del: bot_name.simps)

lemma open_agent_mcp:
  assumes "ta_namespace (ep_teleport p) = NAMESPACE"
  shows "open_between in_block p (workload_pod (agent_workload p) ip) (workload_pod (deployBot p BotMcp spec) ip') MCP_PORT"
  by (rule open_services [OF workload_pods(3) workload_pods(1) assms workload_pods(4) workload_pods(2) policy_members(3) [unfolded agent_policy_def] _ policy_members(1)])
    (simp_all add: rule_to_admits pods_match service_ends tcp_def)

lemma open_agent_broker:
  assumes "ta_namespace (ep_teleport p) = NAMESPACE"
  shows "open_between in_block p (workload_pod (agent_workload p) ip) (workload_pod (deployBot p BotBroker spec) ip') BROKER_PORT"
  by (rule open_services [OF workload_pods(3) workload_pods(1) assms workload_pods(4) workload_pods(2) policy_members(3) [unfolded agent_policy_def] _ policy_members(2)])
    (simp_all add: rule_to_admits pods_match service_ends tcp_def)

lemma open_broker_agent:
  assumes "ta_namespace (ep_teleport p) = NAMESPACE"
  shows "open_between in_block p (workload_pod (deployBot p BotBroker spec) ip) (workload_pod (agent_workload p) ip') AGENT_PORT"
  by (rule open_services [OF workload_pods(1) workload_pods(3) assms workload_pods(2) workload_pods(4) policy_members(2) _ policy_members(3) [unfolded agent_policy_def]])
    (simp_all add: rule_to_admits pods_match service_ends tcp_def)

lemma open_portal_broker:
  assumes "ta_namespace (ep_teleport p) = NAMESPACE" "po_enabled (sv_portal (st_services p))"
  shows "open_between in_block p (workload_pod (deployBot p BotPortal spec) ip) (workload_pod (deployBot p BotBroker spec') ip') BROKER_PORT"
  by (rule open_services [OF workload_pods(1) workload_pods(1) assms(1) workload_pods(2) workload_pods(2)
        policy_members(4) [OF assms(2), unfolded portal_policy_def] _ policy_members(2)])
    (simp_all add: rule_to_admits pods_match service_ends tcp_def assms(2))

lemma dials_bots:
  "dials (deployBot p BotPortal (portal_bot p)) (service_url BotBroker BROKER_PORT)"
  "ag_enabled (sv_agent (st_services p)) \<Longrightarrow> dials (deployBot p BotBroker (broker_bot p)) (service_url BotAgent AGENT_PORT)"
  by (rule dials_bot [of "''TA_PORTAL_BROKER_URL''" "service_url BotBroker BROKER_PORT"]; simp add: portal_bot_def starts_with_iff)
    (rule dials_bot [of "''TA_BROKER_AGENT_WEBHOOK_URL''" "service_url BotAgent AGENT_PORT @ ''/v1/broker/events''"]; simp add: broker_bot_def starts_with_iff)

lemma service_listed:
  "sv_mcp (st_services p) \<Longrightarrow> bot_service BotMcp MCP_PORT \<in> set (access_kube_services p)"
  "brokerEnabled p \<Longrightarrow> bot_service BotBroker BROKER_PORT \<in> set (access_kube_services p)"
  "ag_enabled (sv_agent (st_services p)) \<Longrightarrow> agent_kube_service \<in> set (access_kube_services p)"
  by (simp_all add: access_kube_services_def deployed_bots_def mcp_bot_def broker_bot_def)


text \<open>A pod of the access namespace that is none of the bots' reaches nothing but the name service: among others the official chat
  plugins and their tbots, which an Enterprise stack installs into this namespace (\<open>EnterpriseAccess.ts\<close>), cannot reach Teleport's
  auth service unless their charts happen to give them a bot's \<open>app\<close> label.\<close>

lemma other_pod_cut_off:
  assumes "pod_ns pd = ACCESS_NAMESPACE" "list_all (\<lambda>k. pod_labels pd ''app'' \<noteq> Some (bot_name k)) BOT_KEYS"
    and "admits in_block (renderNetworkPolicies (profile_of cfg stack secrets)) Egress pd e port"
  shows "port \<in> {(UDP, 53), (TCP, 53)}"
proof -
  let ?p = "profile_of cfg stack secrets"
  have n: "pod_labels pd ''app'' \<noteq> Some (bot_name k)" for k using assms(2) BOT_KEYS_all by (auto simp: list_all_iff)
  have "flows in_block (access_policies ?p) Egress pd e port"
    using assms(3) unfolding admits_access [OF assms(1) teleport_ns] .
  then have "rule_admits in_block (pod_ns pd) e port DNS_EGRESS"
    by (auto simp: flows_def access_policies_def Let_def baseline_def selects_bot n portal_policy_def agent_policy_def rules_for_def [of Egress "RenderedPolicy.make _ _ _ _ _ _"]
        simp del: bot_name.simps split: if_splits) (simp_all add: rules_for_def)
  then show ?thesis by (auto simp: DNS_EGRESS_def rule_to_admits)
qed

end
