(* ===== verification/DummyWorkloads.thy ===== *)
theory DummyWorkloads
  imports Wiring
begin

text \<open>
  The resources Teleport protects in the example environments (\<open>infra/teleport/src/components/DummyResources.ts\<close>): SSH nodes, the
  databases and the web applications, with the Teleport resources that describe them, and the agents that enrol them
  (\<open>TeleportKubeAgent.ts\<close>). Certificates and passwords are generated and never looked at; the text of the example page is an
  argument.
\<close>

section \<open>Constants\<close>

definition SSH_NODE_UID :: int where "SSH_NODE_UID = 1000"
definition POSTGRES_UID :: int where "POSTGRES_UID = 999"
definition MYSQL_UID :: int where "MYSQL_UID = 999"
definition NGINX_UNPRIVILEGED_UID :: int where "NGINX_UNPRIVILEGED_UID = 101"
definition CURL_IMAGE :: string where "CURL_IMAGE = ''curlimages/curl:8.14.1''"
definition TELEPORT_DB_CA_DIR :: string where "TELEPORT_DB_CA_DIR = ''/tls-ca''"

section \<open>Texts\<close>

definition renderSshNodeConfig :: "EnvProfile \<Rightarrow> string \<Rightarrow> string" where
  "renderSshNodeConfig p env =
     (let labels = teleportLabels Compute (if env = ''prod'' then ''platform'' else ''app'') [(''role'', ''dummy-ssh'')] env in
      join [CHR 0x0A]
        ([''version: v3'', ''teleport:'', ''  auth_server: '' @ ta_inClusterAuthAddr (ep_teleport p), ''  data_dir: /var/lib/teleport'',
          ''  join_params:'', ''    method: kubernetes'', ''    token_name: '' @ jt_name (sshNodeToken env), ''  log:'', ''    output: stderr'',
          ''    severity: INFO'', ''    format:'', ''      output: json'', ''auth_service:'', ''  enabled: false'', ''proxy_service:'', ''  enabled: false'',
          ''ssh_service:'', ''  enabled: true'', ''  disable_create_host_user: true'', ''  labels:'']
         @ map (\<lambda>(k, v). ''    '' @ k @ '': '' @ stringify (JStr v)) labels
         @ [''  commands:'', ''    - name: hostname'', ''      command: [hostname]'', ''      period: 1m0s'', '''']))"

definition renderPgHba :: string where
  "renderPgHba =
     join [CHR 0x0A]
       [''# local socket (init scripts, pg_isready): password auth'',
        ''local   all all                scram-sha-256'',
        ''# network: TLS with a client certificate signed by the Teleport db_client CA (CN = database user)'',
        ''hostssl all all 0.0.0.0/0      cert clientcert=verify-full'',
        ''hostssl all all ::/0           cert clientcert=verify-full'',
        ''host    all all all            reject'',
        '''']"

definition quoted :: "string \<Rightarrow> string" where
  "quoted s = [DQ] @ s @ [DQ]"

definition renderCaFetchScript :: "EnvProfile \<Rightarrow> string" where
  "renderCaFetchScript p =
     (let url = ''https://'' @ ta_inClusterProxyAddr (ep_teleport p) @ ''/webapi/auth/export?type=db-client'';
          insecure = (if ta_insecure (ep_teleport p) then '' --insecure'' else '''') in
      join [CHR 0x0A]
        [''set -eu'',
         ''out='' @ quoted (TELEPORT_DB_CA_DIR @ ''/ca.crt''),
         ''for i in $(seq 1 120); do'',
         ''  if curl -fsS'' @ insecure @ '' --max-time 10 '' @ quoted url @ '' -o '' @ quoted ''$out.tmp'' @ '' && grep -q 'BEGIN CERTIFICATE' ''
           @ quoted ''$out.tmp'' @ ''; then mv '' @ quoted ''$out.tmp'' @ '' '' @ quoted ''$out'' @ ''; chmod 0444 '' @ quoted ''$out'' @ ''; echo ''
           @ quoted ''fetched Teleport db_client CA'' @ ''; exit 0; fi'',
         ''  echo '' @ quoted ''waiting for the Teleport proxy ($i)'' @ ''; sleep 5'',
         ''done'',
         ''echo '' @ quoted ''could not fetch the Teleport db_client CA'' @ '' >&2; exit 1'',
         ''''])"

section \<open>Teleport resources\<close>

datatype ResourceKind = DbResource string "string" | AppResource bool

text \<open>A database with its protocol and server name, or an application and whether its certificate is left unchecked; the labels are
  what roles and agents select by.\<close>

record TeleportResource =
  tr_kind :: ResourceKind
  tr_name :: string
  tr_labels :: "(string \<times> string) list"
  tr_uri :: string
  tr_public :: "string option"

definition env_labels :: "(string \<times> string) list \<Rightarrow> (string \<times> string) list \<Rightarrow> (string \<times> string) list" where
  "env_labels base extra = spread base extra"

section \<open>SSH nodes\<close>

text \<open>\<open>token.serviceAccount.split(":")[1]\<close>.\<close>

definition ssh_account :: "string \<Rightarrow> string" where
  "ssh_account env = (case split_on (CHR '':'') (jt_serviceAccount (sshNodeToken env)) of _ # s # _ \<Rightarrow> s | _ \<Rightarrow> [])"

definition ssh_workload :: "EnvProfile \<Rightarrow> string \<times> int \<Rightarrow> Workload" where
  "ssh_workload p n =
     (let env = fst n; app = ''ssh-'' @ env; scratch = scratchVolumes ''ssh'' [''/tmp'', ''/home/dev''] SCRATCH_LIMIT in
      \<lparr>wl_kind = StatefulSet, wl_name = app, wl_namespace = DUMMIES_NAMESPACE, wl_replicas = snd n, wl_recreate = False,
       wl_selector = [(''app'', app)],
       wl_labels = env_labels (k8sLabels p app (Some ''ssh-node'')) [(''app.kubernetes.io/part-of'', ''ssh-nodes''), (''env'', env)],
       wl_pod = \<lparr>pd_serviceAccount = Some (ssh_account env), pd_automount = False, pd_security = Some (hardenedPodSecurityContext SSH_NODE_UID),
         pd_init = [],
         pd_containers = [\<lparr>ct_cname = ''teleport'', ct_image = imageRef p ''ssh-node'', ct_pullPolicy = Some (ic_pullPolicy (st_images p)), ct_command = [],
           ct_args = [''start'', ''-c'', ''/etc/teleport/teleport.yaml''],
           ct_env = [(''KUBERNETES_TOKEN_PATH'', EnvValue ''/var/run/secrets/tokens/join-sa-token'')], ct_ports = [3022],
           ct_mounts = [mount_ro ''config'' ''/etc/teleport'', mount_ro ''join-sa-token'' ''/var/run/secrets/tokens'', mount ''data'' ''/var/lib/teleport'']
             @ snd scratch,
           ct_readiness = None, ct_liveness = None, ct_security = Some hardenedContainerSecurityContext,
           ct_resources = resources (''20m'', ''64Mi'') (''500m'', ''256Mi'')\<rparr>],
         pd_volumes = [\<lparr>vo_name = ''config'', vo_source = ConfigMapVolume (app @ ''-config'')\<rparr>, projectedJoinTokenVolume] @ fst scratch\<rparr>,
       wl_claims = [''data'']\<rparr>)"

definition ssh_envs :: "EnvProfile \<Rightarrow> (string \<times> int) list" where
  "ssh_envs p = filter (\<lambda>n. snd n \<noteq> 0) (dm_sshNodes (st_dummies p))"

definition ssh_hosts :: "EnvProfile \<Rightarrow> string list" where
  "ssh_hosts p = concat (map (\<lambda>(env, n). map (\<lambda>i. ''ssh-'' @ env @ ''-'' @ show_nat i) [0..<nat n]) (ssh_envs p))"

section \<open>Databases\<close>

definition caFetchInit :: "EnvProfile \<Rightarrow> Container" where
  "caFetchInit p =
     \<lparr>ct_cname = ''fetch-teleport-db-ca'', ct_image = CURL_IMAGE, ct_pullPolicy = None, ct_command = [''sh'', ''-c'', renderCaFetchScript p], ct_args = [],
      ct_env = [], ct_ports = [], ct_mounts = [mount ''teleport-db-ca'' TELEPORT_DB_CA_DIR], ct_readiness = None, ct_liveness = None,
      ct_security = Some hardenedContainerSecurityContext, ct_resources = resources (''10m'', ''16Mi'') (''100m'', ''64Mi'')\<rparr>"

definition fqdn :: "string \<Rightarrow> string" where
  "fqdn svc = svc @ ''.'' @ DUMMIES_NAMESPACE @ ''.svc.cluster.local''"

definition server_cert_names :: "string \<Rightarrow> string list" where
  "server_cert_names svc = [svc, svc @ ''.'' @ DUMMIES_NAMESPACE, svc @ ''.'' @ DUMMIES_NAMESPACE @ ''.svc'', fqdn svc]"

definition database_workload ::
  "EnvProfile \<Rightarrow> string \<Rightarrow> string \<Rightarrow> int \<Rightarrow> Container \<Rightarrow> Volume list \<Rightarrow> Workload" where
  "database_workload p svc env uid container volumes =
     \<lparr>wl_kind = StatefulSet, wl_name = svc, wl_namespace = DUMMIES_NAMESPACE, wl_replicas = 1, wl_recreate = False,
      wl_selector = [(''app'', svc)], wl_labels = env_labels (k8sLabels p svc (Some ''database'')) [(''env'', env)],
      wl_pod = \<lparr>pd_serviceAccount = None, pd_automount = False, pd_security = Some (hardenedPodSecurityContext uid),
        pd_init = [caFetchInit p], pd_containers = [container],
        pd_volumes = [\<lparr>vo_name = ''tls'', vo_source = SecretVolume (svc @ ''-tls'') 416\<rparr>,
          \<lparr>vo_name = ''teleport-db-ca'', vo_source = EmptyDir (Some ''Memory'') (Some ''1Mi'')\<rparr>] @ volumes\<rparr>,
      wl_claims = []\<rparr>"

definition postgres_name :: "string \<Rightarrow> string" where "postgres_name env = ''postgres-'' @ env"

definition pg_scratch :: "Volume list \<times> VolumeMount list" where
  "pg_scratch = scratchVolumes ''pg'' [''/var/run/postgresql'', ''/tmp''] SCRATCH_LIMIT"

definition postgres_container :: "string \<Rightarrow> Container" where
  "postgres_container env =
     \<lparr>ct_cname = ''postgres'', ct_image = ''postgres:17'', ct_pullPolicy = None, ct_command = [],
      ct_args = [''-c'', ''ssl=on'', ''-c'', ''ssl_cert_file=/tls/tls.crt'', ''-c'', ''ssl_key_file=/tls/tls.key'', ''-c'',
        ''ssl_ca_file='' @ TELEPORT_DB_CA_DIR @ ''/ca.crt'', ''-c'', ''hba_file=/etc/postgresql/pg_hba.conf''],
      ct_env = [(''POSTGRES_HOST_AUTH_METHOD'', EnvValue ''scram-sha-256''),
        (''POSTGRES_INITDB_ARGS'', EnvValue ''--auth-host=scram-sha-256 --auth-local=scram-sha-256''), (''POSTGRES_USER'', EnvValue ''postgres''),
        (''POSTGRES_PASSWORD'', EnvSecret (postgres_name env @ ''-auth'') ''POSTGRES_PASSWORD''), (''PGDATA'', EnvValue ''/var/lib/postgresql/data/pgdata'')],
      ct_ports = [5432],
      ct_mounts = [mount_ro ''tls'' ''/tls'', mount_ro ''teleport-db-ca'' TELEPORT_DB_CA_DIR,
        (mount_ro ''config'' ''/etc/postgresql/pg_hba.conf'')\<lparr>vm_subPath := Some ''pg_hba.conf''\<rparr>,
        (mount_ro ''config'' ''/docker-entrypoint-initdb.d/01-roles.sql'')\<lparr>vm_subPath := Some ''01-roles.sql''\<rparr>,
        mount ''data'' ''/var/lib/postgresql/data''] @ snd pg_scratch,
      ct_readiness = Some \<lparr>pb_check = ExecCheck [''pg_isready'', ''-U'', ''postgres''], pb_initialDelay = 5, pb_period = 5, pb_failures = None\<rparr>,
      ct_liveness = None, ct_security = Some hardenedContainerSecurityContext, ct_resources = resources (''50m'', ''128Mi'') (''1'', ''512Mi'')\<rparr>"

definition postgres_workload :: "EnvProfile \<Rightarrow> string \<Rightarrow> Workload" where
  "postgres_workload p env =
     database_workload p (postgres_name env) env POSTGRES_UID (postgres_container env)
       ([\<lparr>vo_name = ''config'', vo_source = ConfigMapVolume (postgres_name env @ ''-config'')\<rparr>,
         \<lparr>vo_name = ''data'', vo_source = EmptyDir None (Some ''1Gi'')\<rparr>] @ fst pg_scratch)"

definition mysql_scratch :: "Volume list \<times> VolumeMount list" where
  "mysql_scratch = scratchVolumes ''mysql'' [''/var/run/mysqld'', ''/tmp''] SCRATCH_LIMIT"

definition mysql_container :: Container where
  "mysql_container =
     \<lparr>ct_cname = ''mysql'', ct_image = ''mysql:8.4'', ct_pullPolicy = None, ct_command = [],
      ct_args = [''--require-secure-transport=ON'', ''--ssl-cert=/tls/tls.crt'', ''--ssl-key=/tls/tls.key'', ''--ssl-ca='' @ TELEPORT_DB_CA_DIR @ ''/ca.crt''],
      ct_env = [(''MYSQL_ROOT_PASSWORD'', EnvSecret ''mysql-dev-auth'' ''MYSQL_ROOT_PASSWORD''), (''MYSQL_DATABASE'', EnvValue ''appdb'')],
      ct_ports = [3306],
      ct_mounts = [mount_ro ''tls'' ''/tls'', mount_ro ''teleport-db-ca'' TELEPORT_DB_CA_DIR, mount_ro ''init'' ''/docker-entrypoint-initdb.d'',
        mount ''data'' ''/var/lib/mysql''] @ snd mysql_scratch,
      ct_readiness = None, ct_liveness = None, ct_security = Some hardenedContainerSecurityContext,
      ct_resources = resources (''50m'', ''256Mi'') (''1'', ''768Mi'')\<rparr>"

definition mysql_workload :: "EnvProfile \<Rightarrow> Workload" where
  "mysql_workload p =
     database_workload p ''mysql-dev'' ''dev'' MYSQL_UID mysql_container
       ([\<lparr>vo_name = ''init'', vo_source = ConfigMapVolume ''mysql-dev-init''\<rparr>, \<lparr>vo_name = ''data'', vo_source = EmptyDir None (Some ''2Gi'')\<rparr>] @ fst mysql_scratch)"

definition database_resource :: "string \<Rightarrow> string \<Rightarrow> string \<Rightarrow> string \<Rightarrow> string \<Rightarrow> TeleportResource" where
  "database_resource svc protocol port env team =
     \<lparr>tr_kind = DbResource protocol (fqdn svc), tr_name = svc, tr_labels = teleportLabels Data team [(''engine'', protocol)] env,
      tr_uri = fqdn svc @ '':'' @ port, tr_public = None\<rparr>"

definition postgres_resource :: "string \<Rightarrow> TeleportResource" where
  "postgres_resource env = database_resource (postgres_name env) ''postgres'' ''5432'' env (if env = ''prod'' then ''platform'' else ''app'')"

definition mysql_resource :: TeleportResource where
  "mysql_resource = database_resource ''mysql-dev'' ''mysql'' ''3306'' ''dev'' ''app''"

section \<open>Applications\<close>

record AppSpec =
  ap_name :: string
  ap_image :: string
  ap_port :: int
  ap_env :: string
  ap_tier :: Tier
  ap_team :: string
  ap_configMap :: "string option"
  ap_uid :: "int option"
  ap_writable :: "string list"
  ap_hardened :: bool

definition app_workload :: "EnvProfile \<Rightarrow> AppSpec \<Rightarrow> Workload" where
  "app_workload p a =
     (let scratch = scratchVolumes (ap_name a) (ap_writable a) SCRATCH_LIMIT; hardened = ap_hardened a in
      \<lparr>wl_kind = Deployment, wl_name = ap_name a, wl_namespace = DUMMIES_NAMESPACE, wl_replicas = 1, wl_recreate = False,
       wl_selector = [(''app'', ap_name a)], wl_labels = env_labels (k8sLabels p (ap_name a) (Some ''app'')) [(''env'', ap_env a)],
       wl_pod = \<lparr>pd_serviceAccount = None, pd_automount = False,
         pd_security = (if hardened then Some (hardenedPodSecurityContext (nullish (ap_uid a) NONROOT_UID)) else None),
         pd_init = [],
         pd_containers = [\<lparr>ct_cname = ap_name a, ct_image = ap_image a, ct_pullPolicy = None, ct_command = [], ct_args = [], ct_env = [],
           ct_ports = [ap_port a],
           ct_mounts = (if ap_configMap a \<noteq> None then [mount_ro ''content'' ''/usr/share/nginx/html''] else []) @ snd scratch,
           ct_readiness = None, ct_liveness = None, ct_security = (if hardened then Some hardenedContainerSecurityContext else None),
           ct_resources = resources (''10m'', ''32Mi'') (''500m'', if hardened then ''128Mi'' else ''2Gi'')\<rparr>],
         pd_volumes = (case ap_configMap a of None \<Rightarrow> [] | Some cm \<Rightarrow> [\<lparr>vo_name = ''content'', vo_source = ConfigMapVolume cm\<rparr>]) @ fst scratch\<rparr>,
       wl_claims = []\<rparr>)"

definition app_resource :: "EnvProfile \<Rightarrow> AppSpec \<Rightarrow> TeleportResource" where
  "app_resource p a =
     \<lparr>tr_kind = AppResource (ta_insecure (ep_teleport p)), tr_name = ap_name a, tr_labels = teleportLabels (ap_tier a) (ap_team a) [] (ap_env a),
      tr_uri = ''http://'' @ ap_name a @ ''.'' @ DUMMIES_NAMESPACE @ ''.svc.cluster.local'',
      tr_public = Some (ap_name a @ ''.'' @ ta_publicHost (ep_teleport p))\<rparr>"

definition HTTPBIN :: AppSpec where
  "HTTPBIN = \<lparr>ap_name = ''httpbin'', ap_image = ''ghcr.io/mccutchen/go-httpbin:2.18.3'', ap_port = 8080, ap_env = ''dev'', ap_tier = Web, ap_team = ''app'',
     ap_configMap = None, ap_uid = None, ap_writable = [], ap_hardened = True\<rparr>"

definition CLOUD_CONSOLE :: AppSpec where
  "CLOUD_CONSOLE = \<lparr>ap_name = ''cloud-console'', ap_image = ''nginxinc/nginx-unprivileged:1.27-alpine'', ap_port = 8080, ap_env = ''prod'', ap_tier = Cloud,
     ap_team = ''platform'', ap_configMap = Some ''cloud-console-html'', ap_uid = Some NGINX_UNPRIVILEGED_UID,
     ap_writable = [''/tmp'', ''/var/cache/nginx''], ap_hardened = True\<rparr>"

definition LOCALSTACK :: AppSpec where
  "LOCALSTACK = \<lparr>ap_name = ''localstack'', ap_image = ''localstack/localstack:4.7'', ap_port = 4566, ap_env = ''prod'', ap_tier = Cloud,
     ap_team = ''platform'', ap_configMap = None, ap_uid = None, ap_writable = [], ap_hardened = False\<rparr>"

definition dummy_apps :: "EnvProfile \<Rightarrow> AppSpec list" where
  "dummy_apps p =
     (if dm_httpbin (st_dummies p) then [HTTPBIN] else [])
     @ (case dm_cloudStandin (st_dummies p) of StaticStandin \<Rightarrow> [CLOUD_CONSOLE] | Localstack \<Rightarrow> [LOCALSTACK] | NoStandin \<Rightarrow> [])"

section \<open>The component\<close>

definition dummies_level :: "EnvProfile \<Rightarrow> PssLevel" where
  "dummies_level p = (if dm_cloudStandin (st_dummies p) = Localstack then Baseline else Restricted)"

definition dummies_namespace_labels :: "EnvProfile \<Rightarrow> (string \<times> string) list" where
  "dummies_namespace_labels p = namespaceLabels p ''dummies'' (dummies_level p) None"

definition dummies_quota :: Quota where
  "dummies_quota = \<lparr>qu_pods = 20, qu_cpu = ''4'', qu_memory = ''6Gi'', qu_cpuLimit = ''12'', qu_memoryLimit = ''12Gi''\<rparr>"

definition database_workloads :: "EnvProfile \<Rightarrow> Workload list" where
  "database_workloads p =
     (if dm_postgres (st_dummies p) then map (postgres_workload p) [''dev'', ''prod''] else [])
     @ (if dm_mysql (st_dummies p) then [mysql_workload p] else [])"

definition dummy_workloads :: "EnvProfile \<Rightarrow> Workload list" where
  "dummy_workloads p = map (ssh_workload p) (ssh_envs p) @ database_workloads p @ map (app_workload p) (dummy_apps p)"

definition dummy_resources :: "EnvProfile \<Rightarrow> TeleportResource list" where
  "dummy_resources p =
     (if dm_postgres (st_dummies p) then map postgres_resource [''dev'', ''prod''] else [])
     @ (if dm_mysql (st_dummies p) then [mysql_resource] else [])
     @ map (app_resource p) (dummy_apps p)"

definition dummy_config_maps :: "EnvProfile \<Rightarrow> string \<Rightarrow> (string \<times> (string \<times> string) list) list" where
  "dummy_config_maps p html =
     map (\<lambda>n. (''ssh-'' @ fst n @ ''-config'', [(''teleport.yaml'', renderSshNodeConfig p (fst n))])) (ssh_envs p)
     @ (if dm_postgres (st_dummies p)
        then map (\<lambda>env. (postgres_name env @ ''-config'', [(''pg_hba.conf'', renderPgHba), (''01-roles.sql'', join [CHR 0x0A]
          [''CREATE ROLE app LOGIN;'', ''CREATE ROLE readonly LOGIN;'', ''CREATE DATABASE appdb OWNER app;'', BS # ''connect appdb'',
           ''CREATE TABLE IF NOT EXISTS orders(id serial primary key, item text, qty int);'',
           ''INSERT INTO orders(item, qty) VALUES ('widget', 3), ('gadget', 7);'', ''GRANT SELECT ON ALL TABLES IN SCHEMA public TO readonly;'',
           ''GRANT ALL ON ALL TABLES IN SCHEMA public TO app;'', ''''])])) [''dev'', ''prod''] else [])
     @ (if dm_mysql (st_dummies p)
        then [(''mysql-dev-init'', [(''01-users.sql'', join [CHR 0x0A]
          [''CREATE USER 'app'@'%' REQUIRE SUBJECT '/CN=app';'', ''GRANT ALL ON appdb.* TO 'app'@'%';'', ''''])])] else [])
     @ (if dm_cloudStandin (st_dummies p) = StaticStandin then [(''cloud-console-html'', [(''index.html'', html)])] else [])"

section \<open>The agents that enrol them\<close>

definition KUBE_AGENT_SERVICE_ACCOUNT :: string where "KUBE_AGENT_SERVICE_ACCOUNT = ''teleport-kube-agent''"
definition KUBE_AGENT_UID :: int where "KUBE_AGENT_UID = 9807"

definition kubeAgentEnvs :: "EnvProfile \<Rightarrow> string list" where
  "kubeAgentEnvs p = rev (remdups (rev (st_env p # (if dm_enabled (st_dummies p) then map fst (dm_sshNodes (st_dummies p)) else []))))"

definition kubeAgentReleaseName :: "EnvProfile \<Rightarrow> string \<Rightarrow> string" where
  "kubeAgentReleaseName p env = (if env = st_env p then ''teleport-kube-agent'' else ''teleport-kube-agent-'' @ env)"

record KubeAgentValues =
  ka_roles :: string
  ka_proxyAddr :: string
  ka_insecureSkipProxyTLSVerify :: bool
  ka_tokenName :: string
  ka_joinTokenSecret :: string
  ka_teleportClusterName :: string
  ka_kubeClusterName :: string
  ka_labels :: "(string \<times> string) list"
  ka_appResources :: "(string \<times> string list) list list"
  ka_databaseResources :: "(string \<times> string list) list list"
  ka_replicaCount :: int
  ka_updater :: bool
  ka_serviceAccount :: "bool \<times> string"
  ka_podSecurity :: PodSecurityContext
  ka_security :: SecurityContext
  ka_initSecurity :: SecurityContext
  ka_resources :: Resources
  ka_deploymentLabels :: "(string \<times> string) list"
  ka_podLabels :: "(string \<times> string) list"

definition renderKubeAgentValues :: "EnvProfile \<Rightarrow> string \<Rightarrow> KubeAgentValues" where
  "renderKubeAgentValues p env =
     \<lparr>ka_roles = ''kube,app,db'', ka_proxyAddr = ta_inClusterProxyAddr (ep_teleport p), ka_insecureSkipProxyTLSVerify = ta_insecure (ep_teleport p),
      ka_tokenName = jt_name TOKEN_kubeAgent, ka_joinTokenSecret = kubeAgentReleaseName p env @ ''-join-token'', ka_teleportClusterName = st_clusterName p,
      ka_kubeClusterName = env @ ''-'' @ platform_text (st_platform p),
      ka_labels = teleportLabels Platform ''platform'' [(''cluster'', platform_text (st_platform p))] env,
      ka_appResources = [[(''env'', [env])]], ka_databaseResources = [[(''env'', [env])]], ka_replicaCount = 1, ka_updater = False,
      ka_serviceAccount = (env = st_env p, KUBE_AGENT_SERVICE_ACCOUNT),
      ka_podSecurity = \<lparr>ps_runAsNonRoot = True, ps_runAsUser = KUBE_AGENT_UID, ps_runAsGroup = KUBE_AGENT_UID, ps_fsGroup = KUBE_AGENT_UID,
        ps_fsGroupChangePolicy = None, ps_seccompProfile = ''RuntimeDefault''\<rparr>,
      ka_security = hardenedContainerSecurityContext\<lparr>cs_runAsUser := Some KUBE_AGENT_UID\<rparr>,
      ka_initSecurity = hardenedContainerSecurityContext\<lparr>cs_runAsUser := Some KUBE_AGENT_UID\<rparr>,
      ka_resources = resources (''50m'', ''128Mi'') (''1'', ''512Mi''),
      ka_deploymentLabels = [(''stack'', ep_stack p), (''env'', env)],
      ka_podLabels = [(''stack'', ep_stack p), (''env'', env), (''app.kubernetes.io/part-of'', ''kube-agents'')]\<rparr>"

text \<open>The releases in the order they are installed, the primary one first.\<close>

definition kube_agents :: "EnvProfile \<Rightarrow> (string \<times> KubeAgentValues) list" where
  "kube_agents p =
     map (\<lambda>env. (kubeAgentReleaseName p env, renderKubeAgentValues p env)) (st_env p # filter (\<lambda>env. env \<noteq> st_env p) (kubeAgentEnvs p))"

definition agent_quota :: Quota where
  "agent_quota = \<lparr>qu_pods = 10, qu_cpu = ''2'', qu_memory = ''4Gi'', qu_cpuLimit = ''6'', qu_memoryLimit = ''6Gi''\<rparr>"

section \<open>Lemmas\<close>

lemma map_of_env_labels: "map_of (env_labels base extra) k = (case map_of (rev extra) k of None \<Rightarrow> map_of base k | Some v \<Rightarrow> Some v)"
  unfolding env_labels_def spread_def
proof (induction extra rule: rev_induct)
  case (snoc kv b)
  then show ?case by (cases kv) (simp add: update_conv')
qed simp

lemma teleport_env_label: "''env'' \<notin> set (map fst extra) \<Longrightarrow> map_of (teleportLabels tier team extra env) ''env'' = Some env"
  using map_of_env_labels [of "[(''env'', env), (''tier'', tier_text tier), (''team'', team), (''managed-by'', ''pulumi'')]" extra "''env''"]
  by (force simp: teleportLabels_def env_labels_def split: option.splits dest!: map_of_SomeD)

lemma mounts_ok_append: "list_all (mount_ok cl vs) ms \<Longrightarrow> list_all (mount_ok cl ws) ks \<Longrightarrow> list_all (mount_ok cl (vs @ ws)) (ms @ ks)"
  by (auto simp: list_all_iff mount_ok_append)

lemma immutable_intro:
  assumes "\<not> pd_automount (wl_pod w)"
    and "list_all (\<lambda>c. list_all (mount_ok (wl_claims w) (pd_volumes (wl_pod w))) (ct_mounts c) \<and> ct_security c = Some hardenedContainerSecurityContext)
      (pd_init (wl_pod w) @ pd_containers (wl_pod w))"
  shows "workload_immutable w"
  using assms by (auto simp: workload_immutable_def container_immutable_def list_all_iff hardenedContainerSecurityContext_def)

lemma ssh_immutable: "workload_immutable (ssh_workload p n)"
proof (rule immutable_intro)
  have "list_all (mount_ok [''data''] ([\<lparr>vo_name = ''config'', vo_source = ConfigMapVolume c\<rparr>, projectedJoinTokenVolume] @ fst s))
      ([mount_ro ''config'' a, mount_ro ''join-sa-token'' b, mount ''data'' d] @ snd s)"
    if "s = scratchVolumes ''ssh'' paths SCRATCH_LIMIT" for c a b d s paths
    by (rule mounts_ok_append) (simp add: mount_ok_def projectedJoinTokenVolume_def, simp only: that scratch_mounts_ok)
  then show "list_all (\<lambda>c. list_all (mount_ok (wl_claims (ssh_workload p n)) (pd_volumes (wl_pod (ssh_workload p n)))) (ct_mounts c) \<and>
      ct_security c = Some hardenedContainerSecurityContext) (pd_init (wl_pod (ssh_workload p n)) @ pd_containers (wl_pod (ssh_workload p n)))"
    by (simp add: ssh_workload_def Let_def)
qed (simp add: ssh_workload_def Let_def)

lemma mount_ok_mono: "mount_ok cl vs m \<Longrightarrow> set vs \<subseteq> set ws \<Longrightarrow> mount_ok cl ws m"
  by (auto simp: mount_ok_def list_ex_iff)

lemma database_immutable:
  assumes "list_all (mount_ok [] vols) (filter (\<lambda>m. vm_name m \<notin> {''tls'', ''teleport-db-ca''}) (ct_mounts c))"
    and "list_all (\<lambda>m. vm_name m \<in> {''tls'', ''teleport-db-ca''} \<longrightarrow> vm_readOnly m) (ct_mounts c)" "ct_security c = Some hardenedContainerSecurityContext"
  shows "workload_immutable (database_workload p svc env uid c vols)"
proof (rule immutable_intro)
  let ?vs = "[\<lparr>vo_name = ''tls'', vo_source = SecretVolume (svc @ ''-tls'') 416\<rparr>,
          \<lparr>vo_name = ''teleport-db-ca'', vo_source = EmptyDir (Some ''Memory'') (Some ''1Mi'')\<rparr>] @ vols"
  have "mount_ok [] ?vs m" if "m \<in> set (ct_mounts c)" for m
  proof (cases "vm_name m \<in> {''tls'', ''teleport-db-ca''}")
    case True
    with assms(2) that have "vm_readOnly m" by (auto simp: list_all_iff)
    with True show ?thesis by (auto simp: mount_ok_def)
  next
    case False
    with assms(1) that have "mount_ok [] vols m" by (auto simp: list_all_iff)
    then show ?thesis by (rule mount_ok_mono) auto
  qed
  moreover have "list_all (mount_ok [] ?vs) (ct_mounts (caFetchInit p))" by (simp add: caFetchInit_def mount_ok_def writable_source_def)
  moreover have "ct_security (caFetchInit p) = Some hardenedContainerSecurityContext" by (simp add: caFetchInit_def)
  ultimately show "list_all (\<lambda>k. list_all (mount_ok (wl_claims (database_workload p svc env uid c vols)) (pd_volumes (wl_pod (database_workload p svc env uid c vols))))
      (ct_mounts k) \<and> ct_security k = Some hardenedContainerSecurityContext)
      (pd_init (wl_pod (database_workload p svc env uid c vols)) @ pd_containers (wl_pod (database_workload p svc env uid c vols)))"
    using assms(3) by (simp add: database_workload_def list_all_iff)
qed (simp add: database_workload_def)

lemma app_immutable: "ap_hardened a \<Longrightarrow> workload_immutable (app_workload p a)"
proof (rule immutable_intro)
  assume h: "ap_hardened a"
  have "list_all (mount_ok [] (vs @ fst (scratchVolumes (ap_name a) (ap_writable a) SCRATCH_LIMIT)))
      (ms @ snd (scratchVolumes (ap_name a) (ap_writable a) SCRATCH_LIMIT))" if "list_all (mount_ok [] vs) ms" for vs ms
    using that scratch_mounts_ok by (rule mounts_ok_append)
  from this [of "[]" "[]"] this [of "[\<lparr>vo_name = ''content'', vo_source = ConfigMapVolume cm\<rparr>]" "[mount_ro ''content'' ''/usr/share/nginx/html'']" for cm]
  show "list_all (\<lambda>c. list_all (mount_ok (wl_claims (app_workload p a)) (pd_volumes (wl_pod (app_workload p a)))) (ct_mounts c) \<and>
      ct_security c = Some hardenedContainerSecurityContext) (pd_init (wl_pod (app_workload p a)) @ pd_containers (wl_pod (app_workload p a)))"
    using h by (cases "ap_configMap a") (simp_all add: app_workload_def Let_def mount_ok_def)
qed (simp add: app_workload_def Let_def)

lemma databases_immutable: "workload_immutable (postgres_workload p env)" "workload_immutable (mysql_workload p)"
proof -
  show "workload_immutable (postgres_workload p env)"
    unfolding postgres_workload_def
  proof (rule database_immutable)
    have "list_all (mount_ok [] (fst pg_scratch)) (snd pg_scratch)" unfolding pg_scratch_def by (rule scratch_mounts_ok)
    then show "list_all (mount_ok [] ([\<lparr>vo_name = ''config'', vo_source = ConfigMapVolume (postgres_name env @ ''-config'')\<rparr>,
         \<lparr>vo_name = ''data'', vo_source = EmptyDir None (Some ''1Gi'')\<rparr>] @ fst pg_scratch))
        (filter (\<lambda>m. vm_name m \<notin> {''tls'', ''teleport-db-ca''}) (ct_mounts (postgres_container env)))"
      by (auto simp: postgres_container_def list_all_iff mount_ok_def writable_source_def)
    show "list_all (\<lambda>m. vm_name m \<in> {''tls'', ''teleport-db-ca''} \<longrightarrow> vm_readOnly m) (ct_mounts (postgres_container env))"
      by (auto simp: postgres_container_def pg_scratch_def scratchVolumes_def scratch_name_def list_all_iff mount_def set_zip)
    show "ct_security (postgres_container env) = Some hardenedContainerSecurityContext" by (simp add: postgres_container_def)
  qed
  show "workload_immutable (mysql_workload p)"
    unfolding mysql_workload_def
  proof (rule database_immutable)
    have "list_all (mount_ok [] (fst mysql_scratch)) (snd mysql_scratch)" unfolding mysql_scratch_def by (rule scratch_mounts_ok)
    then show "list_all (mount_ok [] ([\<lparr>vo_name = ''init'', vo_source = ConfigMapVolume ''mysql-dev-init''\<rparr>,
         \<lparr>vo_name = ''data'', vo_source = EmptyDir None (Some ''2Gi'')\<rparr>] @ fst mysql_scratch))
        (filter (\<lambda>m. vm_name m \<notin> {''tls'', ''teleport-db-ca''}) (ct_mounts mysql_container))"
      by (auto simp: mysql_container_def list_all_iff mount_ok_def writable_source_def)
    show "list_all (\<lambda>m. vm_name m \<in> {''tls'', ''teleport-db-ca''} \<longrightarrow> vm_readOnly m) (ct_mounts mysql_container)"
      by (auto simp: mysql_container_def mysql_scratch_def scratchVolumes_def scratch_name_def list_all_iff mount_def set_zip)
    show "ct_security mysql_container = Some hardenedContainerSecurityContext" by (simp add: mysql_container_def)
  qed
qed

lemma restricted_intro:
  assumes "pd_security pd = Some (hardenedPodSecurityContext uid)" "uid \<noteq> 0"
    and "list_all (\<lambda>c. ct_security c = Some hardenedContainerSecurityContext) (pd_init pd @ pd_containers pd)"
  shows "pod_restricted pd"
  using assms by (auto simp: pod_restricted_def hardenedPodSecurityContext_def container_restricted_def hardenedContainerSecurityContext_def list_all_iff)

lemma dummies_restricted:
  "pod_restricted (wl_pod (ssh_workload p n))" "pod_restricted (wl_pod (postgres_workload p env))" "pod_restricted (wl_pod (mysql_workload p))"
  "ap_hardened a \<Longrightarrow> nullish (ap_uid a) NONROOT_UID \<noteq> 0 \<Longrightarrow> pod_restricted (wl_pod (app_workload p a))"
  by (rule restricted_intro [of _ SSH_NODE_UID] restricted_intro [of _ POSTGRES_UID] restricted_intro [of _ MYSQL_UID]
      restricted_intro [of _ "nullish (ap_uid a) NONROOT_UID"];
    simp add: ssh_workload_def Let_def SSH_NODE_UID_def postgres_workload_def mysql_workload_def database_workload_def caFetchInit_def
      postgres_container_def mysql_container_def POSTGRES_UID_def MYSQL_UID_def app_workload_def)+

text \<open>Every example workload is admitted under the level its namespace enforces, mounts no Kubernetes token of its own accord and,
  but for the AWS emulator, has a read-only root with scratch, memory or claimed volumes as the only writable ones; the level is
  \<open>restricted\<close> on every stack without the emulator.\<close>

theorem dummies_admitted:
  "dummies_level p = (if LOCALSTACK \<in> set (dummy_apps p) then Baseline else Restricted) \<and>
   list_all (\<lambda>w. pss_admits (dummies_level p) (wl_pod w) \<and> \<not> pd_automount (wl_pod w) \<and> (workload_immutable w \<or> w = app_workload p LOCALSTACK))
     (dummy_workloads p)"
proof -
  have h: "ap_hardened HTTPBIN" "ap_hardened CLOUD_CONSOLE" "nullish (ap_uid HTTPBIN) NONROOT_UID \<noteq> 0" "nullish (ap_uid CLOUD_CONSOLE) NONROOT_UID \<noteq> 0"
    "HTTPBIN \<noteq> LOCALSTACK" "CLOUD_CONSOLE \<noteq> LOCALSTACK"
    by (simp_all add: HTTPBIN_def CLOUD_CONSOLE_def LOCALSTACK_def NONROOT_UID_def NGINX_UNPRIVILEGED_UID_def)
  have lv: "dummies_level p = (if LOCALSTACK \<in> set (dummy_apps p) then Baseline else Restricted)"
    using h(5,6) by (auto simp: dummies_level_def dummy_apps_def split: CloudStandin.splits)
  have r: "pss_admits l pd" if "pod_restricted pd" for l pd
    using pss_admits_antimono [OF pss_strictest, of pd l] that by simp
  have auto: "\<not> pd_automount (wl_pod w)" if "workload_immutable w" for w using that by (simp add: workload_immutable_def)
  have "pss_admits (dummies_level p) (wl_pod w) \<and> \<not> pd_automount (wl_pod w) \<and> (workload_immutable w \<or> w = app_workload p LOCALSTACK)"
    if "w \<in> set (dummy_workloads p)" for w
  proof (cases "w = app_workload p LOCALSTACK \<and> LOCALSTACK \<in> set (dummy_apps p)")
    case True
    then show ?thesis using lv by (simp add: app_workload_def Let_def)
  next
    case False
    with that have "pod_restricted (wl_pod w)" "workload_immutable w"
      using dummies_restricted ssh_immutable databases_immutable app_immutable h
      by (auto simp: dummy_workloads_def database_workloads_def dummy_apps_def split: if_splits CloudStandin.splits)
    then show ?thesis using r auto by simp
  qed
  with lv show ?thesis by (simp add: list_all_iff)
qed

section \<open>Which agent enrols what\<close>

text \<open>An agent picks the resources whose labels match one of its selectors: every key, with one of the listed values.\<close>

definition picks :: "(string \<times> string list) list list \<Rightarrow> (string \<times> string) list \<Rightarrow> bool" where
  "picks sels labels \<longleftrightarrow> list_ex (list_all (\<lambda>(k, vs). case map_of labels k of None \<Rightarrow> False | Some v \<Rightarrow> v \<in> set vs)) sels"

definition serves :: "KubeAgentValues \<Rightarrow> TeleportResource \<Rightarrow> bool" where
  "serves v r \<longleftrightarrow> picks (case tr_kind r of DbResource _ _ \<Rightarrow> ka_databaseResources v | AppResource _ \<Rightarrow> ka_appResources v) (tr_labels r)"

definition resource_env :: "TeleportResource \<Rightarrow> string" where
  "resource_env r = nullish (map_of (tr_labels r) ''env'') []"

lemma resource_envs: "r \<in> set (dummy_resources p) \<Longrightarrow> map_of (tr_labels r) ''env'' = Some (resource_env r)"
  by (auto simp: dummy_resources_def postgres_resource_def mysql_resource_def database_resource_def app_resource_def resource_env_def teleport_env_label
      split: if_splits)

lemma serves_env:
  assumes "map_of (tr_labels r) ''env'' = Some (resource_env r)"
  shows "serves (renderKubeAgentValues p env) r \<longleftrightarrow> resource_env r = env"
  using assms by (cases "tr_kind r") (simp_all add: serves_def picks_def renderKubeAgentValues_def)

lemma kubeAgentEnvs_distinct: "distinct (kubeAgentEnvs p)" "st_env p \<in> set (kubeAgentEnvs p)"
  by (simp_all add: kubeAgentEnvs_def)

lemma filter_eq_singleton: "distinct xs \<Longrightarrow> filter (\<lambda>x. y = x) xs = (if y \<in> set xs then [y] else [])"
  by (induction xs) auto

lemma agent_envs: "distinct (st_env p # filter (\<lambda>env. env \<noteq> st_env p) (kubeAgentEnvs p))"
  "set (st_env p # filter (\<lambda>env. env \<noteq> st_env p) (kubeAgentEnvs p)) = set (kubeAgentEnvs p)"
  using kubeAgentEnvs_distinct [of p] by auto

lemma release_inject: "kubeAgentReleaseName p env = kubeAgentReleaseName p env' \<longleftrightarrow> env = env'"
  by (auto simp: kubeAgentReleaseName_def)

text \<open>Environments never mix: the releases have distinct names, and each database and application is enrolled by exactly the release of
  its own environment, or by none where that environment has no release.\<close>

theorem environments_separate:
  "distinct (map fst (kube_agents p)) \<and>
   list_all (\<lambda>r. map fst (filter (\<lambda>(_, v). serves v r) (kube_agents p)) =
       (if resource_env r \<in> set (kubeAgentEnvs p) then [kubeAgentReleaseName p (resource_env r)] else [])) (dummy_resources p)"
proof -
  let ?es = "st_env p # filter (\<lambda>env. env \<noteq> st_env p) (kubeAgentEnvs p)"
  have "map fst (filter (\<lambda>(_, v). serves v r) (kube_agents p)) =
      (if resource_env r \<in> set (kubeAgentEnvs p) then [kubeAgentReleaseName p (resource_env r)] else [])" if "r \<in> set (dummy_resources p)" for r
  proof -
    have "map fst (filter (\<lambda>(_, v). serves v r) (kube_agents p)) = map (kubeAgentReleaseName p) (filter (\<lambda>env. resource_env r = env) ?es)"
      unfolding kube_agents_def filter_map map_map o_def using serves_env [OF resource_envs [OF that]] by simp
    also have "\<dots> = map (kubeAgentReleaseName p) (if resource_env r \<in> set (kubeAgentEnvs p) then [resource_env r] else [])"
      unfolding filter_eq_singleton [OF agent_envs(1)] agent_envs(2) by simp
    finally show ?thesis by simp
  qed
  moreover have "distinct (map fst (kube_agents p))"
    using agent_envs(1) [of p] unfolding kube_agents_def map_map o_def fst_conv
    by (simp only: distinct_map) (simp add: inj_on_def release_inject)
  ultimately show ?thesis by (simp add: list_all_iff)
qed

text \<open>With the default switches, the databases and stand-ins labelled \<open>prod\<close> are served by nobody unless \<open>sshNodes\<close> names \<open>prod\<close>.\<close>

lemma prod_unserved:
  assumes "dm_postgres (st_dummies p)" "st_env p \<noteq> ''prod''" "''prod'' \<notin> set (map fst (dm_sshNodes (st_dummies p)))"
  shows "postgres_resource ''prod'' \<in> set (dummy_resources p) \<and> filter (\<lambda>(_, v). serves v (postgres_resource ''prod'')) (kube_agents p) = []"
proof -
  have m: "postgres_resource ''prod'' \<in> set (dummy_resources p)" using assms(1) by (simp add: dummy_resources_def)
  have "resource_env (postgres_resource ''prod'') = ''prod''"
    by (simp add: resource_env_def postgres_resource_def database_resource_def teleport_env_label)
  moreover have "''prod'' \<notin> set (kubeAgentEnvs p)" using assms(2,3) by (auto simp: kubeAgentEnvs_def)
  ultimately show ?thesis using m serves_env [OF resource_envs [OF m]] agent_envs(2) [of p] by (auto simp: kube_agents_def filter_empty_conv)
qed

section \<open>Who reaches them\<close>

lemma admits_dummies:
  assumes "pod_ns pd = DUMMIES_NAMESPACE" and "ta_namespace (ep_teleport p) = NAMESPACE" and "dm_enabled (st_dummies p)"
  shows "admits in_block (renderNetworkPolicies p) d pd e port \<longleftrightarrow> flows in_block (dummies_policies p) d pd e port"
proof -
  obtain qs where qs: "dummies_policies p = baseline DUMMIES_NAMESPACE @ qs" using assms(3) by (simp add: dummies_policies_def Let_def)
  with namespaces(4) [of p] have l: "list_all (\<lambda>q. np_namespace q = pod_ns pd) qs" by (simp add: assms(1))
  have "selecting (teleport_policies p @ access_policies p @ agent_policies p) d pd = []"
    unfolding selecting_append using namespaces_distinct
    by (simp add: selecting_other [OF namespaces(1)] selecting_other [OF namespaces(2)] selecting_other [OF namespaces(3)] assms(1,2))
  then show ?thesis
    using admits_own [OF l, of "teleport_policies p @ access_policies p @ agent_policies p" d "[]" in_block e port] assms(1) qs
    by (simp add: renderNetworkPolicies_def selecting_def)
qed

definition is_chart_pod :: "EnvProfile \<Rightarrow> string \<Rightarrow> Endpoint \<Rightarrow> bool" where
  "is_chart_pod p c e = (case e of PodEnd pd \<Rightarrow> pod_ns pd = ta_namespace (ep_teleport p) \<and> pod_labels pd ''app.kubernetes.io/component'' = Some c | Outside _ \<Rightarrow> False)"

definition is_kube_agent :: "Endpoint \<Rightarrow> bool" where
  "is_kube_agent e = (case e of PodEnd pd \<Rightarrow> pod_ns pd = AGENT_NAMESPACE \<and> pod_labels pd ''app.kubernetes.io/part-of'' = Some ''kube-agents'' | Outside _ \<Rightarrow> False)"

lemma dummy_labels:
  "map_of (wl_labels (ssh_workload p n)) ''app.kubernetes.io/part-of'' = Some ''ssh-nodes''"
  "map_of (wl_labels (ssh_workload p n)) ''app.kubernetes.io/component'' = Some ''ssh-node''"
  "map_of (wl_labels (database_workload p svc env uid c vs)) ''app.kubernetes.io/part-of'' = Some ''k8s-teleport''"
  "map_of (wl_labels (database_workload p svc env uid c vs)) ''app.kubernetes.io/component'' = Some ''database''"
  "map_of (wl_labels (app_workload p a)) ''app.kubernetes.io/part-of'' = Some ''k8s-teleport''"
  "map_of (wl_labels (app_workload p a)) ''app.kubernetes.io/component'' = Some ''app''"
  by (simp_all add: ssh_workload_def database_workload_def app_workload_def Let_def map_of_env_labels k8sLabels_def truthy_def)

lemma dummy_namespaces: "w \<in> set (dummy_workloads p) \<Longrightarrow> wl_namespace w = DUMMIES_NAMESPACE"
  by (auto simp: dummy_workloads_def database_workloads_def ssh_workload_def postgres_workload_def mysql_workload_def database_workload_def
      app_workload_def Let_def split: if_splits)

text \<open>The workloads by who is meant to reach them, and where.\<close>

definition dummy_groups :: "EnvProfile \<Rightarrow> (Workload list \<times> (Endpoint \<Rightarrow> bool) \<times> int list) list" where
  "dummy_groups p =
     (if dm_enabled (st_dummies p)
      then [(map (ssh_workload p) (ssh_envs p), is_chart_pod p ''proxy'', [3022]),
            (database_workloads p, is_kube_agent, DUMMY_DB_PORTS),
            (map (app_workload p) (dummy_apps p), is_kube_agent, DUMMY_APP_PORTS)]
      else [])"

lemma chart_match: "peer_matches in_block own (nsPods (ta_namespace (ep_teleport p)) (SEL_component c)) e \<longleftrightarrow> is_chart_pod p c e"
  by (cases e) (simp_all add: nsPods_match is_chart_pod_def SEL_component_def selects_def)

lemma kube_agent_match: "peer_matches in_block own (nsPods AGENT_NAMESPACE SEL_kubeAgent) e \<longleftrightarrow> is_kube_agent e"
  by (cases e) (simp_all add: nsPods_match is_kube_agent_def SEL_part_of_def selects_def)

lemma flows_dummies:
  assumes "dm_enabled (st_dummies p)"
  shows "flows in_block (dummies_policies p) Ingress pd e (t, n) \<longleftrightarrow>
     pod_labels pd ''app.kubernetes.io/part-of'' = Some ''ssh-nodes'' \<and> is_chart_pod p ''proxy'' e \<and> (t, n) \<in> set (tcp [3022])
     \<or> pod_labels pd ''app.kubernetes.io/component'' = Some ''database'' \<and> is_kube_agent e \<and> (t, n) \<in> set (tcp DUMMY_DB_PORTS)
     \<or> pod_labels pd ''app.kubernetes.io/component'' = Some ''app'' \<and> is_kube_agent e \<and> (t, n) \<in> set (tcp DUMMY_APP_PORTS)"
proof -
  have b: "\<not> list_ex (\<lambda>q. Ingress \<in> set (np_policyTypes q) \<and> selects (np_podSelector q) l \<and>
      list_ex (rule_admits in_block s e (t, n)) (rules_for Ingress q)) (baseline m)" for l s m
    by (simp add: baseline_def)
  have s: "selects (SEL_component c) l \<longleftrightarrow> l ''app.kubernetes.io/component'' = Some c" "selects (SEL_part_of c) l \<longleftrightarrow> l ''app.kubernetes.io/part-of'' = Some c" for c l
    by (simp_all add: selects_def SEL_component_def SEL_part_of_def)
  show ?thesis
    unfolding flows_def dummies_policies_def Let_def
    by (simp add: assms b s rule_to_admits chart_match kube_agent_match) blast
qed

text \<open>The example resources are reached through Teleport alone: a node's SSH port by the proxy, a database or an application by an
  agent's pod, on their own ports, and nothing else reaches any of them.\<close>

theorem dummies_reached_by_teleport:
  "list_all (\<lambda>(ws, client, ports). list_all (\<lambda>w.
       admits in_block (renderNetworkPolicies (profile_of cfg stack secrets)) Ingress (workload_pod w ip) e port \<longleftrightarrow>
         client e \<and> port \<in> set (tcp ports)) ws)
     (dummy_groups (profile_of cfg stack secrets))"
proof (cases "dm_enabled (st_dummies (profile_of cfg stack secrets))")
  case True
  let ?p = "profile_of cfg stack secrets"
  obtain t n where port: "port = (t, n)" by (cases port)
  have a: "admits in_block (renderNetworkPolicies ?p) Ingress (workload_pod w ip) e port \<longleftrightarrow> flows in_block (dummies_policies ?p) Ingress (workload_pod w ip) e port"
    if "w \<in> set (dummy_workloads ?p)" for w
    by (rule admits_dummies [OF _ teleport_ns True]) (use dummy_namespaces [OF that] in \<open>simp add: workload_pod_def\<close>)
  have l: "pod_labels (workload_pod w ip) = map_of (wl_labels w)" for w by (simp add: workload_pod_def)
  have "list_all (\<lambda>w. admits in_block (renderNetworkPolicies ?p) Ingress (workload_pod w ip) e port \<longleftrightarrow> is_chart_pod ?p ''proxy'' e \<and> port \<in> set (tcp [3022]))
      (map (ssh_workload ?p) (ssh_envs ?p))"
    unfolding list_all_iff using a by (auto simp: dummy_workloads_def port flows_dummies [OF True] l dummy_labels)
  moreover have "list_all (\<lambda>w. admits in_block (renderNetworkPolicies ?p) Ingress (workload_pod w ip) e port \<longleftrightarrow> is_kube_agent e \<and> port \<in> set (tcp DUMMY_DB_PORTS))
      (database_workloads ?p)"
    unfolding list_all_iff using a
    by (auto simp: dummy_workloads_def database_workloads_def postgres_workload_def mysql_workload_def port flows_dummies [OF True] l dummy_labels)
  moreover have "list_all (\<lambda>w. admits in_block (renderNetworkPolicies ?p) Ingress (workload_pod w ip) e port \<longleftrightarrow> is_kube_agent e \<and> port \<in> set (tcp DUMMY_APP_PORTS))
      (map (app_workload ?p) (dummy_apps ?p))"
    unfolding list_all_iff using a by (auto simp: dummy_workloads_def port flows_dummies [OF True] l dummy_labels)
  ultimately show ?thesis using True by (simp add: dummy_groups_def)
qed (simp add: dummy_groups_def)

section \<open>The namespace's quota\<close>

lemma dummy_amounts:
  "pod_amounts rs_requests (wl_pod (ssh_workload p n)) = (20, 64)" "pod_amounts rs_limits (wl_pod (ssh_workload p n)) = (500, 256)"
  "pod_amounts rs_requests (wl_pod (app_workload p a)) = (10, 32)"
  "pod_amounts rs_limits (wl_pod (app_workload p a)) = (500, if ap_hardened a then 128 else 2048)"
  by (simp_all add: pod_amounts_def ssh_workload_def app_workload_def resources_def amounts_of_def pair_sum_def cpu_of_def mem_of_def
      Let_def is_digit_def code_of_def read_nat_def digit_val_def)

lemma database_amounts:
  "pod_amounts rs_requests (wl_pod (postgres_workload p env)) = (50, 128)" "pod_amounts rs_limits (wl_pod (postgres_workload p env)) = (1000, 512)"
  "pod_amounts rs_requests (wl_pod (mysql_workload p)) = (50, 256)" "pod_amounts rs_limits (wl_pod (mysql_workload p)) = (1000, 768)"
  by (simp_all add: pod_amounts_def postgres_workload_def mysql_workload_def database_workload_def caFetchInit_def postgres_container_def
      mysql_container_def resources_def amounts_of_def pair_sum_def cpu_of_def mem_of_def Let_def is_digit_def code_of_def read_nat_def digit_val_def)

lemma dummies_quota_amounts:
  "(cpu_of (qu_cpu dummies_quota), mem_of (qu_memory dummies_quota)) = (4000, 6144)"
  "(cpu_of (qu_cpuLimit dummies_quota), mem_of (qu_memoryLimit dummies_quota)) = (12000, 12288)" "qu_pods dummies_quota = 20"
  by (simp_all add: dummies_quota_def cpu_of_def mem_of_def Let_def is_digit_def code_of_def read_nat_def digit_val_def)

lemma dummy_replicas:
  "wl_replicas (ssh_workload p n) = snd n" "wl_replicas (postgres_workload p env) = 1" "wl_replicas (mysql_workload p) = 1" "wl_replicas (app_workload p a) = 1"
  by (simp_all add: ssh_workload_def postgres_workload_def mysql_workload_def database_workload_def app_workload_def Let_def)

lemma total_amounts_append:
  "total_amounts f (xs @ ys) = (fst (total_amounts f xs) + fst (total_amounts f ys), snd (total_amounts f xs) + snd (total_amounts f ys))"
  by (simp add: total_amounts_def pair_sum_def)

lemma total_uniform:
  assumes "list_all (\<lambda>w. pod_amounts f (wl_pod w) = (a, b)) ws"
  shows "total_amounts f ws = (sum_list (map (nat \<circ> wl_replicas) ws) * a, sum_list (map (nat \<circ> wl_replicas) ws) * b)"
  using assms by (induction ws) (simp_all add: total_amounts_def pair_sum_def algebra_simps)

definition ssh_count :: "EnvProfile \<Rightarrow> int" where
  "ssh_count p = sum_list (map snd (ssh_envs p))"

lemma ssh_totals:
  assumes "list_all (\<lambda>n. 0 \<le> snd n) (dm_sshNodes (st_dummies p))"
  shows "sum_list (map wl_replicas (map (ssh_workload p) (ssh_envs p))) = ssh_count p"
    "total_amounts rs_requests (map (ssh_workload p) (ssh_envs p)) = (nat (ssh_count p) * 20, nat (ssh_count p) * 64)"
    "total_amounts rs_limits (map (ssh_workload p) (ssh_envs p)) = (nat (ssh_count p) * 500, nat (ssh_count p) * 256)"
proof -
  have "sum_list (map (nat \<circ> snd) ns') = nat (sum_list (map snd ns'))" if "list_all (\<lambda>n. 0 \<le> snd n) ns'" for ns' :: "(string \<times> int) list"
    using that
  proof (induction ns')
    case (Cons n ns')
    then have "0 \<le> sum_list (map snd ns')" by (auto intro!: sum_list_nonneg simp: list_all_iff)
    with Cons show ?case by (simp add: nat_add_distrib)
  qed simp
  moreover have "list_all (\<lambda>n. 0 \<le> snd n) (ssh_envs p)" using assms by (auto simp: ssh_envs_def list_all_iff)
  ultimately have c: "sum_list (map (nat \<circ> wl_replicas) (map (ssh_workload p) (ssh_envs p))) = nat (ssh_count p)"
    by (simp add: o_def dummy_replicas ssh_count_def)
  show "sum_list (map wl_replicas (map (ssh_workload p) (ssh_envs p))) = ssh_count p" by (simp add: o_def dummy_replicas ssh_count_def)
  show "total_amounts rs_requests (map (ssh_workload p) (ssh_envs p)) = (nat (ssh_count p) * 20, nat (ssh_count p) * 64)"
    by (subst total_uniform [of _ 20 64]) (simp_all only: c, simp add: list_all_iff dummy_amounts)
  show "total_amounts rs_limits (map (ssh_workload p) (ssh_envs p)) = (nat (ssh_count p) * 500, nat (ssh_count p) * 256)"
    by (subst total_uniform [of _ 500 256]) (simp_all only: c, simp add: list_all_iff dummy_amounts)
qed

text \<open>C39. Up to fifteen SSH nodes, over all environments together, fit the namespace's quota beside every database and application the switches
  can add; the schema itself bounds only the nodes of one environment.\<close>

theorem dummies_quota_suffices:
  assumes "list_all (\<lambda>n. 0 \<le> snd n) (dm_sshNodes (st_dummies p))" "ssh_count p \<le> 15"
  shows "quota_holds dummies_quota (dummy_workloads p)"
proof -
  let ?n = "nat (ssh_count p)"
  have n: "?n \<le> 15" using assms(2) by simp

  show ?thesis
    using n assms(2)
    unfolding quota_holds_def dummies_quota_amounts dummy_workloads_def map_append sum_list_append ssh_totals(1) [OF assms(1)] total_amounts_append
      ssh_totals(2,3) [OF assms(1)]
    by (cases "dm_cloudStandin (st_dummies p)")
      (simp_all add: database_workloads_def dummy_apps_def pair_le_def total_amounts_def pair_sum_def dummy_amounts database_amounts dummy_replicas
        HTTPBIN_def CLOUD_CONSOLE_def LOCALSTACK_def)
qed

definition ex_dummies :: EnvProfile where
  "ex_dummies = profile_of
     (ex_stack\<lparr>st_dummies := \<lparr>dm_enabled = True, dm_sshNodes = [(''dev'', 2), (''staging'', 0), (''prod'', 3)], dm_postgres = True, dm_mysql = True,
        dm_httpbin = True, dm_cloudStandin = Localstack\<rparr>\<rparr>) ''prod'' ex_stack_secrets"

theorem dummies_quota_suffices_witness:
  "length (dummy_workloads ex_dummies) = 7 \<and> quota_holds dummies_quota (dummy_workloads ex_dummies)"
  using dummies_quota_suffices [of ex_dummies]
  by (simp add: ex_dummies_def ssh_count_def ssh_envs_def dummy_workloads_def database_workloads_def dummy_apps_def)

end
