(* ===== verification/ClusterValues.thy ===== *)
theory ClusterValues
  imports AccessWorkloads
begin

text \<open>
  The control plane (\<open>infra/teleport/src/components/TeleportCluster.ts\<close>): the values of the teleport-cluster chart, the local TLS files,
  the objects the component creates and the addresses it hands on. A value is the JSON object the chart receives; assigning a member
  replaces it in place or adds it at the end.
\<close>

section \<open>Constants\<close>

definition PUBLIC_NODE_PORT :: int where "PUBLIC_NODE_PORT = 30381"
definition LOCAL_TLS_SECRET :: string where "LOCAL_TLS_SECRET = ''teleport-local-tls''"
definition LOCAL_TLS_MOUNT :: string where "LOCAL_TLS_MOUNT = ''/etc/teleport-tls''"
definition LOCAL_TLS_SSL_CERT_DIR :: string where "LOCAL_TLS_SSL_CERT_DIR = ''/etc/ssl/certs:'' @ LOCAL_TLS_MOUNT"

definition internalLoadBalancerAnnotations :: "StackPlatform \<Rightarrow> (string \<times> string) list" where
  "internalLoadBalancerAnnotations platform =
     (case platform of
        PEks \<Rightarrow> [(''service.beta.kubernetes.io/aws-load-balancer-scheme'', ''internal'')]
      | PGke \<Rightarrow> [(''networking.gke.io/load-balancer-type'', ''Internal'')]
      | PAks \<Rightarrow> [(''service.beta.kubernetes.io/azure-load-balancer-internal'', ''true'')]
      | _ \<Rightarrow> [])"

section \<open>Local TLS files\<close>

record LocalTlsFiles =
  lt_cert :: string
  lt_key :: string
  lt_ca :: string
  lt_checksum :: string

text \<open>\<open>resolve\<close> makes a path absolute, \<open>file_text\<close> is the text of an existing file and \<open>sha256\<close> the digest in hex; the warning is returned.\<close>

definition readLocalTlsFiles ::
  "(string \<Rightarrow> string) \<Rightarrow> (string \<Rightarrow> string option) \<Rightarrow> (string \<Rightarrow> string) \<Rightarrow> EnvProfile \<Rightarrow> LocalTlsFiles option \<times> string option" where
  "readLocalTlsFiles resolve file_text sha256 p =
     (case st_tls p of
        TlsLocalFiles certFile keyFile caFile \<Rightarrow>
          let files = map resolve [certFile, keyFile, caFile]; missing = filter (\<lambda>f. file_text f = None) files in
          if missing \<noteq> [] then
            (None, Some (''tls.mode=local-files: '' @ join '', '' missing
               @ '' not found '' @ map char_of [226::nat, 128, 148] @ '' the proxy keeps its self-signed certificate (browser warning). Run: make tls''))
          else
            (case map (\<lambda>f. nullish (file_text f) []) files of
               [cert, key, ca] \<Rightarrow> (Some \<lparr>lt_cert = cert, lt_key = key, lt_ca = ca, lt_checksum = sha256 (cert @ ca)\<rparr>, None)
             | _ \<Rightarrow> (None, None))
      | _ \<Rightarrow> (None, None))"

section \<open>Chart values\<close>

definition jresources :: "Amounts \<Rightarrow> Amounts \<Rightarrow> json" where
  "jresources req limits =
     JObj [(''requests'', JObj [(''cpu'', JStr (fst req)), (''memory'', JStr (snd req))]),
           (''limits'', JObj [(''cpu'', JStr (fst limits)), (''memory'', JStr (snd limits))])]"

definition jpod_security :: "PodSecurityContext \<Rightarrow> json" where
  "jpod_security s = JObj
     ([(''runAsNonRoot'', JBool (ps_runAsNonRoot s)), (''runAsUser'', JInt (ps_runAsUser s)), (''runAsGroup'', JInt (ps_runAsGroup s)),
       (''fsGroup'', JInt (ps_fsGroup s))]
      @ (case ps_fsGroupChangePolicy s of None \<Rightarrow> [] | Some c \<Rightarrow> [(''fsGroupChangePolicy'', JStr c)])
      @ [(''seccompProfile'', JObj [(''type'', JStr (ps_seccompProfile s))])])"

definition jsecurity :: "SecurityContext \<Rightarrow> json" where
  "jsecurity s = JObj
     ([(''allowPrivilegeEscalation'', JBool (cs_allowPrivilegeEscalation s)), (''readOnlyRootFilesystem'', JBool (cs_readOnlyRootFilesystem s)),
       (''capabilities'', JObj [(''drop'', jstrs (cs_drop s))]), (''seccompProfile'', JObj [(''type'', JStr (cs_seccompProfile s))]),
       (''runAsNonRoot'', JBool (cs_runAsNonRoot s))]
      @ (case cs_runAsUser s of None \<Rightarrow> [] | Some u \<Rightarrow> [(''runAsUser'', JInt u)]))"

definition jmap :: "(string \<times> string) list \<Rightarrow> json" where
  "jmap kvs = JObj (map (\<lambda>(k, v). (k, JStr v)) kvs)"

definition replica_count :: "EnvProfile \<Rightarrow> int" where
  "replica_count p = (if st_platform p = PKind then 1 else 2)"

definition auth_type_text :: "AuthType \<Rightarrow> string" where
  "auth_type_text t = (case t of AuthLocal \<Rightarrow> ''local'' | AuthGithub \<Rightarrow> ''github'' | AuthOidc \<Rightarrow> ''oidc'' | AuthSaml \<Rightarrow> ''saml'')"

definition factor_text :: "SecondFactor \<Rightarrow> string" where
  "factor_text f = (case f of Otp \<Rightarrow> ''otp'' | Webauthn \<Rightarrow> ''webauthn'' | Sso \<Rightarrow> ''sso'')"

definition chart_mode_text :: "ChartMode \<Rightarrow> string" where
  "chart_mode_text m = (case m of Standalone _ _ \<Rightarrow> ''standalone'' | Aws _ \<Rightarrow> ''aws'' | Gcp _ \<Rightarrow> ''gcp'' | Azure _ \<Rightarrow> ''azure'')"

definition authentication_values :: "EnvProfile \<Rightarrow> json" where
  "authentication_values p =
     (let a = st_auth p in JObj
      [(''type'', JStr (auth_type_text (au_type a))),
       (''connectorName'', JStr (if au_type a = AuthGithub then nullish (au_connectorName a) ''github'' else nullish (au_connectorName a) '''')),
       (''localAuth'', JBool (au_localAuth a)), (''secondFactors'', jstrs (map factor_text (au_secondFactors a))), (''lockingMode'', JStr ''strict'')])"

definition auth_service_values :: "EnvProfile \<Rightarrow> json" where
  "auth_service_values p = JObj
     [(''authentication'', JObj
        [(''webauthn'', JObj [(''rp_id'', JStr (nullish (au_webauthnRpId (st_auth p)) (ta_publicHost (ep_teleport p))))]),
         (''require_session_mfa'', JBool (sessionMfa p))]),
      (''disconnect_expired_cert'', JBool True), (''client_idle_timeout'', JStr ''15m'')]"

definition proxy_protocol :: "EnvProfile \<Rightarrow> string" where
  "proxy_protocol p = (case st_exposure p of ExLoadBalancer lb \<Rightarrow> if lb_proxyProtocol lb then ''on'' else ''off'' | _ \<Rightarrow> ''off'')"

definition base_values :: "EnvProfile \<Rightarrow> (string \<times> json) list" where
  "base_values p =
     [(''clusterName'', JStr (st_clusterName p)), (''publicAddr'', jstrs [st_publicAddr p]), (''proxyListenerMode'', JStr ''multiplex''),
      (''chartMode'', JStr (chart_mode_text (st_chartMode p))), (''enterprise'', JBool (st_edition p = Enterprise)), (''licenseSecretName'', JStr ''license''),
      (''validateConfigOnDeploy'', JBool False), (''podSecurityPolicy'', JObj [(''enabled'', JBool False)]),
      (''operator'', JObj [(''enabled'', JBool True), (''installCRDs'', JStr ''always''), (''resources'', jresources (''20m'', ''64Mi'') (''500m'', ''256Mi''))]),
      (''authentication'', authentication_values p), (''sessionRecording'', JStr ''node-sync''), (''proxyProtocol'', JStr (proxy_protocol p)),
      (''auth'', JObj [(''teleportConfig'', JObj [(''auth_service'', auth_service_values p)])]),
      (''log'', JObj [(''level'', JStr ''INFO''), (''format'', JStr ''json'')]),
      (''highAvailability'', JObj [(''replicaCount'', JInt (replica_count p))]),
      (''podSecurityContext'', jpod_security (hardenedPodSecurityContext NONROOT_UID)), (''securityContext'', jsecurity hardenedContainerSecurityContext),
      (''resources'', jresources (''100m'', ''256Mi'') (''2'', ''2Gi'')),
      (''extraLabels'', JObj [(''deployment'', jmap [(''stack'', ep_stack p)]), (''pod'', jmap [(''stack'', ep_stack p)])])]"

text \<open>The members each of the four switches assigns.\<close>

definition service_annotations :: "EnvProfile \<Rightarrow> LoadBalancer \<Rightarrow> (string \<times> string) list" where
  "service_annotations p lb =
     spread (if lb_internal lb then internalLoadBalancerAnnotations (st_platform p) else []) (lb_annotations lb)"

definition service_spec :: "LoadBalancer \<Rightarrow> (string \<times> json) list" where
  "service_spec lb =
     (if truthy (lb_loadBalancerIP lb) then [(''loadBalancerIP'', JStr (nullish (lb_loadBalancerIP lb) []))] else [])
     @ (if lb_sourceRanges lb \<noteq> [] then [(''loadBalancerSourceRanges'', jstrs (lb_sourceRanges lb))] else [])"

definition exposure_values :: "EnvProfile \<Rightarrow> (string \<times> json) list" where
  "exposure_values p =
     (case st_exposure p of
        ExNodePort _ \<Rightarrow> [(''service'', JObj [(''type'', JStr ''ClusterIP'')])]
      | ExLoadBalancer lb \<Rightarrow>
          [(''service'', JObj ([(''type'', JStr ''LoadBalancer''), (''annotations'', jmap (service_annotations p lb))]
             @ (if service_spec lb \<noteq> [] then [(''spec'', JObj (service_spec lb))] else [])))]
      | ExIngress className annotations \<Rightarrow>
          [(''service'', JObj [(''type'', JStr ''ClusterIP'')]),
           (''ingress'', JObj [(''enabled'', JBool True), (''spec'', JObj [(''ingressClassName'', JStr className)]), (''annotations'', jmap annotations)])])"

definition issuer_text :: "IssuerKind \<Rightarrow> string" where
  "issuer_text k = (case k of Issuer \<Rightarrow> ''Issuer'' | ClusterIssuer \<Rightarrow> ''ClusterIssuer'')"

definition tls_values :: "EnvProfile \<Rightarrow> (string \<times> string) option \<Rightarrow> (string \<times> json) list" where
  "tls_values p tlsSecret =
     (case st_tls p of
        TlsSelfSigned \<Rightarrow> []
      | TlsAcme email \<Rightarrow> [(''acme'', JBool True), (''acmeEmail'', JStr email)]
      | TlsCertManager name kind grp \<Rightarrow>
          [(''highAvailability'', JObj [(''replicaCount'', JInt (replica_count p)),
             (''certManager'', JObj [(''enabled'', JBool True), (''issuerName'', JStr name), (''issuerKind'', JStr (issuer_text kind)), (''issuerGroup'', JStr grp)])])]
      | TlsExistingSecret n \<Rightarrow> [(''tls'', JObj [(''existingSecretName'', JStr n)])]
      | TlsLocalFiles _ _ _ \<Rightarrow>
          (case tlsSecret of None \<Rightarrow> []
           | Some (n, checksum) \<Rightarrow>
               [(''tls'', JObj [(''existingSecretName'', JStr n)]),
                (''proxy'', JObj [(''highAvailability'', JObj [(''replicaCount'', JInt (replica_count p))]),
                   (''annotations'', JObj [(''pod'', JObj [(''checksum/tls'', JStr checksum)])]),
                   (''extraEnv'', JArr [JObj [(''name'', JStr ''SSL_CERT_DIR''), (''value'', JStr LOCAL_TLS_SSL_CERT_DIR)]])])]))"

definition account_annotation :: "string \<Rightarrow> string option \<Rightarrow> (string \<times> json) list" where
  "account_annotation key v =
     (if truthy v then [(''annotations'', JObj [(''serviceAccount'', jmap [(key, nullish v [])])])] else [])"

definition backend_values :: "EnvProfile \<Rightarrow> (string \<times> json) list" where
  "backend_values p =
     (case st_chartMode p of
        Standalone storageClass volumeSize \<Rightarrow>
          [(''persistence'', JObj ([(''enabled'', JBool True), (''volumeSize'', JStr volumeSize)]
             @ (if truthy storageClass then [(''storageClassName'', JStr (nullish storageClass []))] else [])))]
      | Aws b \<Rightarrow>
          (''aws'', JObj [(''region'', JStr (aw_region b)), (''backendTable'', JStr (aw_backendTable b)), (''auditLogTable'', JStr (aw_auditLogTable b)),
             (''auditLogMirrorOnStdout'', JBool (aw_auditLogMirrorOnStdout b)), (''sessionRecordingBucket'', JStr (aw_sessionRecordingBucket b))])
          # account_annotation ''eks.amazonaws.com/role-arn'' (aw_serviceAccountRoleArn b)
      | Gcp b \<Rightarrow>
          (''gcp'', JObj ([(''projectId'', JStr (gp_projectId b)), (''backendTable'', JStr (gp_backendTable b)), (''auditLogTable'', JStr (gp_auditLogTable b)),
             (''sessionRecordingBucket'', JStr (gp_sessionRecordingBucket b))]
             @ (if truthy (gp_credentialSecretName b) then [(''credentialSecretName'', JStr (nullish (gp_credentialSecretName b) []))] else [])))
          # account_annotation ''iam.gke.io/gcp-service-account'' (gp_workloadIdentityServiceAccount b)
      | Azure b \<Rightarrow>
          [(''azure'', JObj [(''databaseHost'', JStr (az_databaseHost b)), (''databaseUser'', JStr (az_databaseUser b)),
             (''sessionRecordingStorageAccount'', JStr (az_sessionRecordingStorageAccount b)), (''auditLogStorageAccount'', JStr (az_auditLogStorageAccount b)),
             (''clientID'', JStr (az_clientID b))])])"

definition renderClusterValues :: "EnvProfile \<Rightarrow> (string \<times> string) option \<Rightarrow> json" where
  "renderClusterValues p tlsSecret =
     JObj (spread (base_values p) (exposure_values p @ tls_values p tlsSecret @ backend_values p))"

section \<open>The component\<close>

definition cluster_namespace_labels :: "EnvProfile \<Rightarrow> (string \<times> string) list" where
  "cluster_namespace_labels p = namespaceLabels p ''teleport'' Baseline (Some ''control-plane'')"

text \<open>The Secrets made before the chart, as (name, type, data), and the TLS option for the values.\<close>

definition cluster_secrets :: "EnvProfile \<Rightarrow> LocalTlsFiles option \<Rightarrow> (string \<times> string option \<times> (string \<times> string) list) list" where
  "cluster_secrets p localTls =
     (if st_edition p = Enterprise \<and> se_licensePem (ep_secrets p) \<noteq> None
      then [(''license'', None, [(''license.pem'', nullish (se_licensePem (ep_secrets p)) [])])] else [])
     @ (case localTls of None \<Rightarrow> []
        | Some t \<Rightarrow> [(LOCAL_TLS_SECRET, Some ''kubernetes.io/tls'', [(''tls.crt'', lt_cert t), (''tls.key'', lt_key t), (''ca.crt'', lt_ca t)])])"

definition cluster_tls_option :: "LocalTlsFiles option \<Rightarrow> (string \<times> string) option" where
  "cluster_tls_option localTls = map_option (\<lambda>t. (LOCAL_TLS_SECRET, lt_checksum t)) localTls"

definition cluster_chart :: "EnvProfile \<Rightarrow> LocalTlsFiles option \<Rightarrow> ChartArgs" where
  "cluster_chart p localTls =
     \<lparr>ca_chart = ''teleport-cluster'', ca_version = ta_version (ep_teleport p), ca_namespace = ta_namespace (ep_teleport p),
      ca_releaseName = ta_releaseName (ep_teleport p), ca_values = renderClusterValues p (cluster_tls_option localTls), ca_repo = None, ca_skipCrds = None\<rparr>"

definition proxySelector :: "string \<Rightarrow> (string \<times> string) list" where
  "proxySelector releaseName =
     [(''app.kubernetes.io/name'', ''teleport-cluster''), (''app.kubernetes.io/instance'', releaseName), (''app.kubernetes.io/component'', ''proxy'')]"

record NodePort =
  no_name :: string
  no_port :: "(int \<times> nat) option"
  no_targetPort :: int
  no_nodePort :: int

text \<open>\<open>Number(p.publicAddr.split(":")[1] ?? 443)\<close>; \<^const>\<open>None\<close> is \<open>NaN\<close>.\<close>

definition public_port :: "EnvProfile \<Rightarrow> (int \<times> nat) option" where
  "public_port p = (case split_on (CHR '':'') (st_publicAddr p) of _ # s # _ \<Rightarrow> js_number s | _ \<Rightarrow> Some (443, 0))"

definition node_ports :: "EnvProfile \<Rightarrow> NodePort list" where
  "node_ports p =
     (case st_exposure p of
        ExNodePort nodePort \<Rightarrow>
          [\<lparr>no_name = ''tls'', no_port = Some (443, 0), no_targetPort = PROXY_PORT, no_nodePort = nodePort\<rparr>,
           \<lparr>no_name = ''public'', no_port = public_port p, no_targetPort = PROXY_PORT, no_nodePort = PUBLIC_NODE_PORT\<rparr>]
      | _ \<Rightarrow> [])"

definition proxyServiceName :: "EnvProfile \<Rightarrow> string" where
  "proxyServiceName p =
     (case st_exposure p of ExNodePort _ \<Rightarrow> ta_releaseName (ep_teleport p) @ ''-nodeport'' | _ \<Rightarrow> ta_releaseName (ep_teleport p))"

section \<open>Lemmas\<close>

fun jat :: "string list \<Rightarrow> json \<Rightarrow> json option" where
  "jat [] j = Some j"
| "jat (k # ks) j = (case jfield k j of None \<Rightarrow> None | Some v \<Rightarrow> jat ks v)"

lemma spread_Nil [simp]: "spread a [] = a" by (simp add: spread_def)

lemma map_of_spread: "map_of (spread a b) k = (case map_of (rev b) k of None \<Rightarrow> map_of a k | Some v \<Rightarrow> Some v)"
proof (induction b rule: rev_induct)
  case (snoc kv b)
  then show ?case by (cases kv) (simp add: spread_def update_conv')
qed (simp add: spread_def)

text \<open>No switch touches the members that carry the cluster's security settings.\<close>

definition SECURITY_VALUES :: "string list" where
  "SECURITY_VALUES = [''authentication'', ''auth'', ''sessionRecording'', ''proxyProtocol'', ''podSecurityContext'', ''securityContext'', ''podSecurityPolicy'',
     ''operator'', ''enterprise'', ''publicAddr'']"

lemma switches_leave:
  "k \<in> set SECURITY_VALUES \<Longrightarrow> k \<notin> fst ` set (exposure_values p @ tls_values p s @ backend_values p)"
  by (auto simp: SECURITY_VALUES_def exposure_values_def tls_values_def backend_values_def account_annotation_def
      split: Exposure.splits TlsMode.splits ChartMode.splits option.splits if_splits)

lemma security_value: "k \<in> set SECURITY_VALUES \<Longrightarrow> jfield k (renderClusterValues p s) = map_of (base_values p) k"
proof -
  assume "k \<in> set SECURITY_VALUES"
  then have "map_of (rev (exposure_values p @ tls_values p s @ backend_values p)) k = None"
    unfolding map_of_eq_None_iff set_rev by (rule switches_leave)
  then show ?thesis by (simp only: renderClusterValues_def jfield.simps map_of_spread option.case)
qed

lemma profile_parts:
  "st_exposure (profile_of cfg stack secrets) = st_exposure cfg" "st_tls (profile_of cfg stack secrets) = st_tls cfg"
  "st_chartMode (profile_of cfg stack secrets) = st_chartMode cfg" "st_insecureLocal (profile_of cfg stack secrets) = st_insecureLocal cfg"
  by (simp_all add: profile_of_def StackConfig.defs)

lemma security_values:
  "jat [''sessionRecording''] (renderClusterValues p s) = Some (JStr ''node-sync'')"
  "jat [''proxyProtocol''] (renderClusterValues p s) = Some (JStr (proxy_protocol p))"
  "jat [''podSecurityContext''] (renderClusterValues p s) = Some (jpod_security (hardenedPodSecurityContext NONROOT_UID))"
  "jat [''securityContext''] (renderClusterValues p s) = Some (jsecurity hardenedContainerSecurityContext)"
  "jat (''authentication'' # ks) (renderClusterValues p s) = jat ks (authentication_values p)"
  "jat [''auth'', ''teleportConfig'', ''auth_service'', ''authentication'', ''require_session_mfa''] (renderClusterValues p s) = Some (JBool (sessionMfa p))"
  using security_value [of "''sessionRecording''" p s] security_value [of "''proxyProtocol''" p s] security_value [of "''podSecurityContext''" p s]
    security_value [of "''securityContext''" p s] security_value [of "''authentication''" p s] security_value [of "''auth''" p s]
  by (simp_all add: SECURITY_VALUES_def base_values_def auth_service_values_def Let_def)

lemma authentication_at:
  "jat [''lockingMode''] (authentication_values p) = Some (JStr ''strict'')"
  "jat [''localAuth''] (authentication_values p) = Some (JBool (au_localAuth (st_auth p)))"
  "jat [''type''] (authentication_values p) = Some (JStr (auth_type_text (au_type (st_auth p))))"
  "jat [''secondFactors''] (authentication_values p) = Some (JArr (map JStr (map factor_text (au_secondFactors (st_auth p)))))"
  by (simp_all add: authentication_values_def jstrs_def Let_def)

lemma service_value:
  "jfield ''service'' (renderClusterValues p s) = map_of (exposure_values p) ''service''"
proof -
  have "map_of (rev (tls_values p s)) ''service'' = None"
    unfolding map_of_eq_None_iff by (auto simp: tls_values_def split: TlsMode.splits option.splits)
  moreover have "map_of (rev (backend_values p)) ''service'' = None"
    unfolding map_of_eq_None_iff by (auto simp: backend_values_def account_annotation_def split: ChartMode.splits if_splits)
  moreover have "map_of (rev (exposure_values p)) ''service'' = map_of (exposure_values p) ''service''"
    by (auto simp: exposure_values_def split: Exposure.splits)
  moreover have "map_of (base_values p) ''service'' = None" by (simp add: base_values_def)
  ultimately show ?thesis by (simp add: renderClusterValues_def map_of_spread map_add_def split: option.split)
qed

section \<open>Properties\<close>

text \<open>Whatever the exposure, the certificate and the backend of a stack, the chart values refuse sessions when locks cannot be
  verified, stream recordings synchronously, run every pod hardened and trust PROXY headers only from a load balancer that sends
  them; off the local stack they allow no local password login and no one-time password, and no profile whose values said
  otherwise is built.\<close>

theorem cluster_values_hardened:
  "case buildProfile is_email env inp stack secrets of
     Inl _ \<Rightarrow> True
   | Inr p \<Rightarrow>
       let v = renderClusterValues p tlsSecret in
       jat [''authentication'', ''lockingMode''] v = Some (JStr ''strict'') \<and>
       jat [''sessionRecording''] v = Some (JStr ''node-sync'') \<and>
       jat [''securityContext''] v = Some (jsecurity hardenedContainerSecurityContext) \<and>
       jat [''podSecurityContext''] v = Some (jpod_security (hardenedPodSecurityContext NONROOT_UID)) \<and>
       (jat [''proxyProtocol''] v = Some (JStr ''on'') \<longleftrightarrow> (case st_exposure p of ExLoadBalancer lb \<Rightarrow> lb_proxyProtocol lb | _ \<Rightarrow> False)) \<and>
       (if st_env p = ''local'' then True
        else jat [''authentication'', ''localAuth''] v = Some (JBool False) \<and> jat [''authentication'', ''type''] v \<noteq> Some (JStr ''local'') \<and>
          (case jat [''authentication'', ''secondFactors''] v of Some (JArr fs) \<Rightarrow> fs \<noteq> [] \<and> JStr ''otp'' \<notin> set fs | _ \<Rightarrow> False))"
proof (cases "buildProfile is_email env inp stack secrets")
  case (Inr p)
  then obtain cfg where c: "StackConfigSchema is_email (Some (merged_input inp)) = Some cfg"
    "config_problems (ciPreviewEscapeHatch env) cfg secrets = []" "p = profile_of cfg stack secrets"
    using buildProfile_Inr by blast
  have "no_standing_privilege cfg" using c(2) by (simp add: config_problems_def standing_problems_Nil)
  moreover obtain m where "AuthSchema (m ''auth'') = Some (st_auth cfg)"
    using c(1) unfolding StackConfigSchema_def by (drule_tac p_object_Some) (auto simp: bind_eq_Some_conv)
  then have "au_secondFactors (st_auth cfg) \<noteq> []" by (rule AuthSchema_typed)
  moreover have "JStr ''otp'' \<in> set (map JStr (map factor_text fs)) \<Longrightarrow> Otp \<in> set fs" for fs
    by (auto simp: factor_text_def split: SecondFactor.splits)
  ultimately have "st_env p = ''local'' \<or> \<not> au_localAuth (st_auth p) \<and> auth_type_text (au_type (st_auth p)) \<noteq> ''local'' \<and>
      au_secondFactors (st_auth p) \<noteq> [] \<and> JStr ''otp'' \<notin> set (map JStr (map factor_text (au_secondFactors (st_auth p))))"
    by (auto simp: c(3) no_standing_privilege_def auth_type_text_def split: AuthType.splits)
  with Inr show ?thesis
    by (auto simp: Let_def security_values authentication_at proxy_protocol_def jstrs_def simp del: jat.simps split: Exposure.splits)
qed simp

text \<open>A load balancer on a managed platform is never open to the internet by accident: a profile's values restrict its sources or
  ask the cloud for an internal one, unless an annotation of the configuration says something else under the same key.\<close>

theorem load_balancer_guarded:
  "case buildProfile is_email env inp stack secrets of
     Inl _ \<Rightarrow> True
   | Inr p \<Rightarrow>
       (case st_exposure p of
          ExLoadBalancer lb \<Rightarrow>
            if st_platform p \<in> {PEks, PGke, PAks} \<and> list_all (\<lambda>kv. map_of (lb_annotations lb) (fst kv) = None) (internalLoadBalancerAnnotations (st_platform p))
            then (case jat [''service'', ''spec'', ''loadBalancerSourceRanges''] (renderClusterValues p tlsSecret) of Some (JArr (_ # _)) \<Rightarrow> True | _ \<Rightarrow>
              list_all (\<lambda>kv. jat [''service'', ''annotations'', fst kv] (renderClusterValues p tlsSecret) = Some (JStr (snd kv)))
                (internalLoadBalancerAnnotations (st_platform p)) \<and> internalLoadBalancerAnnotations (st_platform p) \<noteq> [])
            else True
        | _ \<Rightarrow> True)"
proof (cases "buildProfile is_email env inp stack secrets")
  case (Inr p)
  then obtain cfg where c: "config_problems (ciPreviewEscapeHatch env) cfg secrets = []" "p = profile_of cfg stack secrets"
    using buildProfile_Inr by blast
  have g: "case st_exposure p of ExLoadBalancer lb \<Rightarrow> lb_internal lb \<or> lb_sourceRanges lb \<noteq> [] | _ \<Rightarrow> True" if "st_platform p \<noteq> PKind"
    using c base_problems_confined [of _ cfg secrets] that
    by (auto simp: config_problems_def confined_services_def profile_parts split: Exposure.splits)
  have m: "map_of (map (\<lambda>(k, v). (k, JStr v)) kvs) k = map_option JStr (map_of kvs k)" for kvs k
    by (induction kvs) auto
  have ranges: "jat [''service'', ''spec'', ''loadBalancerSourceRanges''] (renderClusterValues p tlsSecret) = Some (JArr (map JStr (lb_sourceRanges lb)))"
    if "st_exposure p = ExLoadBalancer lb" "lb_sourceRanges lb \<noteq> []" for lb
    using that by (simp add: service_value exposure_values_def service_spec_def jstrs_def)
  have ann: "jat [''service'', ''annotations'', k] (renderClusterValues p tlsSecret) = Some (JStr v)"
    if "st_exposure p = ExLoadBalancer lb" "lb_internal lb" "map_of (lb_annotations lb) k = None"
      "map_of (internalLoadBalancerAnnotations (st_platform p)) k = Some v" for lb k v
  proof -
    have "map_of (rev (lb_annotations lb)) k = None" using that(3) by (simp add: map_of_eq_None_iff)
    with that show ?thesis by (simp add: service_value exposure_values_def jmap_def service_annotations_def map_of_spread m)
  qed
  show ?thesis
  proof (cases "st_exposure p")
    case (ExLoadBalancer lb)
    show ?thesis
    proof (cases "lb_sourceRanges lb")
      case Nil
      have "list_all (\<lambda>kv. jat [''service'', ''annotations'', fst kv] (renderClusterValues p tlsSecret) = Some (JStr (snd kv)))
          (internalLoadBalancerAnnotations (st_platform p)) \<and> internalLoadBalancerAnnotations (st_platform p) \<noteq> []"
        if pl: "st_platform p \<in> {PEks, PGke, PAks}"
          and free: "list_all (\<lambda>kv. map_of (lb_annotations lb) (fst kv) = None) (internalLoadBalancerAnnotations (st_platform p))"
      proof -
        have "lb_internal lb" using g pl ExLoadBalancer Nil by auto
        from ann [OF ExLoadBalancer this] pl free show ?thesis
          by (cases "st_platform p") (simp_all add: internalLoadBalancerAnnotations_def del: jat.simps)
      qed
      with Inr ExLoadBalancer show ?thesis
        by (simp del: jat.simps split: option.split json.split list.split)
    next
      case (Cons r rs)
      with ranges [OF ExLoadBalancer] ExLoadBalancer Inr show ?thesis by (simp del: jat.simps)
    qed
  qed (use Inr in simp_all)
qed simp

section \<open>What the invariants let through\<close>

text \<open>On the generic platform an internal load balancer has no annotation to ask for: a production stack with the defaults
  (\<open>internal\<close>, no source ranges) passes every invariant and gets a plain, internet-facing Service.\<close>

definition ex_generic :: StackConfig where
  "ex_generic =
     ex_stack\<lparr>st_platform := PGeneric,
       st_exposure := ExLoadBalancer \<lparr>lb_annotations = [], lb_loadBalancerIP = None, lb_sourceRanges = [], lb_internal = True, lb_proxyProtocol = False\<rparr>\<rparr>"

lemma generic_load_balancer_open:
  "config_problems False ex_generic ex_stack_secrets = []"
  "exposure_values (profile_of ex_generic stack secrets) = [(''service'', JObj [(''type'', JStr ''LoadBalancer''), (''annotations'', JObj [])])]"
proof -
  show "config_problems False ex_generic ex_stack_secrets = []"
    by (simp add: config_problems_def base_problems_def standing_problems_def prod_problems_def service_problems_def ex_generic_def ex_stack_def
        ex_stack_secrets_def Let_def user_problems_def team_problems_def standing_admin_def STANDING_ADMIN_ROLES_def requiredImages_def unpinned_def ex_digest_def)
  have "st_exposure ex_generic =
      ExLoadBalancer \<lparr>lb_annotations = [], lb_loadBalancerIP = None, lb_sourceRanges = [], lb_internal = True, lb_proxyProtocol = False\<rparr>"
    "st_platform ex_generic = PGeneric" by (simp_all add: ex_generic_def)
  then show "exposure_values (profile_of ex_generic stack secrets) = [(''service'', JObj [(''type'', JStr ''LoadBalancer''), (''annotations'', JObj [])])]"
    by (simp add: exposure_values_def profile_parts service_spec_def service_annotations_def internalLoadBalancerAnnotations_def jmap_def)
qed

text \<open>The invariants forbid one-time passwords off the local stack but do not ask for WebAuthn: with \<open>sso\<close> as the only factor a
  production stack passes, and no role and no cluster setting asks for MFA at the start of a session.\<close>

definition ex_sso :: StackConfig where
  "ex_sso = ex_stack\<lparr>st_auth := (st_auth ex_stack)\<lparr>au_secondFactors := [Sso]\<rparr>\<rparr>"

lemma catalog_no_mfa: "ro_require_session_mfa ((hardenedOptions ed False)\<lparr>ro_max_session_ttl := t\<rparr>) = None"
  by (cases ed) (simp_all add: hardenedOptions_def withoutSessionMfa_def)

lemma sso_only_without_mfa:
  "config_problems False ex_sso ex_stack_secrets = []" "\<not> sessionMfa (profile_of ex_sso stack secrets)"
  "list_all (\<lambda>r. case sp_options (rr_spec r) of None \<Rightarrow> True | Some opts \<Rightarrow> ro_require_session_mfa opts = None)
     (rendered_roles (profile_of ex_sso stack secrets))"
proof -
  show "config_problems False ex_sso ex_stack_secrets = []"
    by (simp add: config_problems_def base_problems_def standing_problems_def prod_problems_def service_problems_def ex_sso_def ex_stack_def
        ex_stack_secrets_def Let_def user_problems_def team_problems_def standing_admin_def STANDING_ADMIN_ROLES_def requiredImages_def unpinned_def ex_digest_def)
  show m: "\<not> sessionMfa (profile_of ex_sso stack secrets)" by (simp add: sessionMfa_def ex_sso_def)
  have "case sp_options (rr_spec r) of None \<Rightarrow> True | Some opts \<Rightarrow> ro_require_session_mfa opts = None"
    if "r \<in> set (renderAllRoles ed harness (Some False))" for r ed harness
    using that catalog_no_mfa
    by (auto simp: renderAllRoles_def Let_def renderCatalogRole_def renderRequesterRole_def renderApproverRole_def mfa_option_def no_options_def
        renderBotRoles_def renderHarnessRole_def mcp_spec_def broker_spec_def bot_spec_def split: if_splits)
  then show "list_all (\<lambda>r. case sp_options (rr_spec r) of None \<Rightarrow> True | Some opts \<Rightarrow> ro_require_session_mfa opts = None)
     (rendered_roles (profile_of ex_sso stack secrets))"
    using m by (simp add: list_all_iff rendered_roles_def)
qed

end
