(* ===== verification/Enterprise.thy ===== *)
theory Enterprise
  imports ClusterValues
begin

text \<open>
  What an Enterprise stack adds (\<open>infra/teleport/src/components/EnterpriseAccess.ts\<close>): the Access Monitoring Rules in the place of
  the broker and the official chat plugins with their bots; and the name server's configuration of a local stack
  (\<open>LocalDns.ts\<close>).
\<close>

section \<open>Access Monitoring Rules\<close>

definition role_set :: "RiskTier \<Rightarrow> string" where
  "role_set t = join '', '' (map (\<lambda>r. [DQ] @ ct_name r @ [DQ]) (filter (\<lambda>r. ct_tier r = t) CATALOG))"

definition renderAccessMonitoringRules :: "string \<Rightarrow> (string \<times> json) list" where
  "renderAccessMonitoringRules slackChannel =
     (let low = role_set Low; high = role_set High in
      [(''auto-approve-low-risk'', JObj
         [(''subjects'', jstrs [''access_request'']),
          (''condition'', JStr (''access_request.spec.roles.contains_any(set('' @ low @ '')) && !access_request.spec.roles.contains_any(set('' @ high @ ''))'')),
          (''automatic_review'', JObj [(''integration'', JStr ''builtin''), (''decision'', JStr ''APPROVED'')]), (''desired_state'', JStr ''reviewed'')]),
       (''notify-high-risk'', JObj
         [(''subjects'', jstrs [''access_request'']),
          (''condition'', JStr (''access_request.spec.roles.contains_any(set('' @ high @ ''))'')),
          (''notification'', JObj [(''name'', JStr ''slack''), (''recipients'', jstrs [slackChannel])])])])"

section \<open>Chat plugins\<close>

record Plugin =
  pl_key :: string
  pl_enabled :: bool
  pl_values :: "(string \<times> json) list"
  pl_secretKeys :: "string list"

definition plugins :: "EnvProfile \<Rightarrow> string option \<Rightarrow> string list option \<Rightarrow> Plugin list" where
  "plugins p slackChannel teamsRecipients =
     (let adapters = ag_adapters (sv_agent (st_services p)); channel = jstrs [nullish slackChannel ''#access-requests''] in
      [\<lparr>pl_key = ''slack'', pl_enabled = AdSlack \<in> set adapters,
        pl_values = [(''slack'', JObj [(''token'', JStr [])]), (''roleToRecipients'', JObj [(''*'', channel), (ROLE_approver, channel)])],
        pl_secretKeys = [''slackBotToken'']\<rparr>,
       \<lparr>pl_key = ''msteams'', pl_enabled = AdTeams \<in> set adapters,
        pl_values = [(''msteams'', JObj [(''appID'', JStr []), (''tenantID'', JStr []), (''teamsAppID'', JStr [])]),
          (''roleToRecipients'', JObj [(''*'', jstrs (nullish teamsRecipients []))])],
        pl_secretKeys = [''teamsAppId'', ''teamsAppPassword'', ''teamsTenantId'']\<rparr>])"

definition plugin_bot :: "Plugin \<Rightarrow> string" where "plugin_bot pl = ''plugin-'' @ pl_key pl"

text \<open>The role a plugin acts with; the names a reviewer may preview resources as are the second component.\<close>

definition plugin_role :: "RoleConditions \<times> string list" where
  "plugin_role =
     (no_conditions\<lparr>rd_rules := Some [rule [''access_request''] READ, rule [''access_plugin_data''] [''update''], rule [''user''] READ, rule [''role''] READ],
        rd_review_roles := Some catalog_names\<rparr>, catalog_names)"

definition plugin_crs :: "string \<Rightarrow> string \<Rightarrow> EnvProfile \<Rightarrow> Plugin \<Rightarrow> Cr list" where
  "plugin_crs nm chart p pl =
     (let b = plugin_bot pl in
      [\<lparr>cr_logical = nm @ ''-'' @ b @ ''-role'', cr_name = ''svc-'' @ b, cr_labels = cr_meta p, cr_annotations = [],
        cr_spec = RoleCr \<lparr>sp_options = None, sp_allow = fst plugin_role, sp_deny = None\<rparr>, cr_dependsOn = [Some chart]\<rparr>,
       \<lparr>cr_logical = nm @ ''-'' @ b @ ''-bot'', cr_name = b, cr_labels = cr_meta p, cr_annotations = [],
        cr_spec = BotCr [''svc-'' @ b] [], cr_dependsOn = [Some chart, Some (nm @ ''-'' @ b @ ''-role'')]\<rparr>,
       \<lparr>cr_logical = nm @ ''-'' @ b @ ''-token'', cr_name = b, cr_labels = cr_meta p, cr_annotations = [],
        cr_spec = TokenCr [''Bot''] (Some b) (ACCESS_NAMESPACE @ '':tbot-'' @ b), cr_dependsOn = [Some chart, Some (nm @ ''-'' @ b @ ''-bot'')]\<rparr>])"

definition plugin_charts :: "EnvProfile \<Rightarrow> Plugin \<Rightarrow> ChartArgs list" where
  "plugin_charts p pl =
     (let b = plugin_bot pl; t = ep_teleport p in
      [\<lparr>ca_chart = ''tbot'', ca_version = ta_version t, ca_namespace = ACCESS_NAMESPACE, ca_releaseName = ''tbot-'' @ b,
        ca_values = JObj [(''clusterName'', JStr (st_clusterName p)), (''teleportAuthAddress'', JStr (ta_inClusterAuthAddr t)), (''token'', JStr b),
          (''joinMethod'', JStr ''kubernetes''), (''defaultOutput'', JObj [(''enabled'', JBool True)]),
          (''serviceAccount'', JObj [(''create'', JBool True), (''name'', JStr (''tbot-'' @ b))])],
        ca_repo = None, ca_skipCrds = None\<rparr>,
       \<lparr>ca_chart = ''teleport-plugin-'' @ pl_key pl, ca_version = ta_version t, ca_namespace = ACCESS_NAMESPACE, ca_releaseName = ''teleport-plugin-'' @ pl_key pl,
        ca_values = JObj ([(''teleport'', JObj [(''address'', JStr (ta_inClusterAuthAddr t)), (''identitySecretName'', JStr (''tbot-'' @ b @ ''-out'')),
            (''identitySecretPath'', JStr ''identity'')])]
          @ pl_values pl @ [(''secretVolumeName'', JStr ''chat-secrets''), (''log'', JObj [(''output'', JStr ''stderr''), (''severity'', JStr ''INFO'')])]),
        ca_repo = None, ca_skipCrds = None\<rparr>])"

definition enabled_plugins :: "EnvProfile \<Rightarrow> string option \<Rightarrow> string list option \<Rightarrow> Plugin list" where
  "enabled_plugins p slackChannel teamsRecipients = filter pl_enabled (plugins p slackChannel teamsRecipients)"

section \<open>Local name service\<close>

text \<open>\<open>publicHost.replace(...)\<close> is \<^const>\<open>rx_escape\<close>: every metacharacter behind a backslash.\<close>

definition corefile_head :: string where
  "corefile_head = join [CHR 0x0A]
     [''.:53 {'', ''    errors'', ''    health {'', ''       lameduck 5s'', ''    }'', ''    ready'', ''    rewrite stop {'']"

definition corefile_tail :: string where
  "corefile_tail = join [CHR 0x0A]
     [''       answer auto'', ''    }'', ''    kubernetes cluster.local in-addr.arpa ip6.arpa {'', ''       pods insecure'', ''       fallthrough in-addr.arpa ip6.arpa'',
      ''       ttl 30'', ''    }'', ''    prometheus :9153'', ''    forward . /etc/resolv.conf {'', ''       max_concurrent 1000'', ''    }'', ''    cache 30 {'',
      ''       disable success cluster.local'', ''       disable denial cluster.local'', ''    }'', ''    loop'', ''    reload'', ''    loadbalance'', ''}'', '''']"

definition rewrite_rule :: "string \<Rightarrow> string \<Rightarrow> string" where
  "rewrite_rule publicHost targetService = ''       name regex (.*'' @ [BS] @ ''.)?'' @ rx_escape publicHost @ '' '' @ targetService"

definition renderCorefile :: "string \<Rightarrow> string \<Rightarrow> string" where
  "renderCorefile publicHost targetService =
     join [CHR 0x0A] [corefile_head, rewrite_rule publicHost targetService, corefile_tail]"

section \<open>Properties\<close>

text \<open>A condition of a rule as the monitor reads it.\<close>

datatype Condition = ContainsAny "string list" | NotCond Condition | AndCond Condition Condition

fun condition_text :: "Condition \<Rightarrow> string" where
  "condition_text (ContainsAny rs) = ''access_request.spec.roles.contains_any(set('' @ join '', '' (map (\<lambda>r. [DQ] @ r @ [DQ]) rs) @ ''))''"
| "condition_text (NotCond c) = ''!'' @ condition_text c"
| "condition_text (AndCond c d) = condition_text c @ '' && '' @ condition_text d"

fun condition_holds :: "string list \<Rightarrow> Condition \<Rightarrow> bool" where
  "condition_holds roles (ContainsAny rs) \<longleftrightarrow> list_ex (\<lambda>r. List.member rs r) roles"
| "condition_holds roles (NotCond c) \<longleftrightarrow> \<not> condition_holds roles c"
| "condition_holds roles (AndCond c d) \<longleftrightarrow> condition_holds roles c \<and> condition_holds roles d"

definition high_condition :: Condition where
  "high_condition = ContainsAny (map ct_name high_roles)"

definition auto_condition :: Condition where
  "auto_condition = AndCond (ContainsAny (map ct_name low_roles)) (NotCond high_condition)"

lemma rule_conditions:
  "map (\<lambda>(n, spec). jfield ''condition'' spec) (renderAccessMonitoringRules c) = [Some (JStr (condition_text auto_condition)), Some (JStr (condition_text high_condition))]"
  by (simp add: renderAccessMonitoringRules_def Let_def auto_condition_def high_condition_def role_set_def low_roles_def high_roles_def o_def)

lemma catalog_split: "n \<in> set catalog_names \<longleftrightarrow> n \<in> ct_name ` set low_roles \<or> n \<in> ct_name ` set high_roles"
proof -
  have "ct_tier r = Low \<or> ct_tier r = High" for r :: CatalogRole by (cases "ct_tier r") simp_all
  then show ?thesis by (auto simp: catalog_names_def low_roles_def high_roles_def)
qed

lemma tiers_split:
  fixes L H :: "'a set"
  assumes "\<And>x. x \<in> R \<Longrightarrow> x \<in> L \<or> x \<in> H" "\<And>x. x \<in> L \<Longrightarrow> x \<notin> H" "R \<noteq> {}"
  shows "(\<exists>x\<in>R. x \<in> H) = (\<not> (\<forall>x\<in>R. x \<in> L))" "((\<exists>x\<in>R. x \<in> L) \<and> \<not> (\<exists>x\<in>R. x \<in> H)) = (\<forall>x\<in>R. x \<in> L)"
  using assms by blast+



text \<open>Reading a pattern: a character behind a backslash is itself, and one without is itself unless it means something.\<close>

fun literal_of :: "string \<Rightarrow> string option" where
  "literal_of [] = Some []"
| "literal_of (c # cs) =
     (if c = BS then (case cs of [] \<Rightarrow> None | d # ds \<Rightarrow> map_option ((#) d) (literal_of ds))
      else if rx_special c then None else map_option ((#) c) (literal_of cs))"

text \<open>The host of the rewrite can never widen it: its escaped text is a pattern without any operator, and reads as the host itself.\<close>

theorem corefile_host_literal:
  "renderCorefile host target = join [CHR 0x0A] [corefile_head, ''       name regex (.*'' @ [BS] @ ''.)?'' @ rx_escape host @ '' '' @ target, corefile_tail] \<and>
   literal_of (rx_escape host) = Some host"
proof -
  have "literal_of (rx_escape host) = Some host"
  proof (induction host)
    case (Cons c cs)
    have "rx_escape (c # cs) = (if rx_special c then [BS, c] else [c]) @ rx_escape cs" by (simp add: rx_escape_def)
    moreover have "rx_special BS" by (simp add: rx_special_def)
    ultimately show ?case using Cons by auto
  qed (simp add: rx_escape_def)
  then show ?thesis by (simp add: renderCorefile_def rewrite_rule_def)
qed

end
