(* ===== verification/StackMain.thy ===== *)
theory StackMain
  imports DummyWorkloads Enterprise
begin

text \<open>
  The infrastructure program as a whole (\<open>infra/teleport/index.ts\<close>): which components a stack has, what each waits for, the namespaces that are
  policed, and the outputs; with the Services, Secrets and accounts of \<open>DummyResources.ts\<close> that its pods refer to.
\<close>

section \<open>What the example pods refer to\<close>

record DummyService =
  ds_name :: string
  ds_headless :: bool
  ds_selector :: "(string \<times> string) list"
  ds_port :: int
  ds_targetPort :: int

definition ssh_service :: "string \<Rightarrow> DummyService" where
  "ssh_service env = \<lparr>ds_name = ''ssh-'' @ env, ds_headless = True, ds_selector = [(''app'', ''ssh-'' @ env)], ds_port = 3022, ds_targetPort = 3022\<rparr>"

definition postgres_service :: "string \<Rightarrow> DummyService" where
  "postgres_service env =
     \<lparr>ds_name = postgres_name env, ds_headless = False, ds_selector = [(''app'', postgres_name env)], ds_port = 5432, ds_targetPort = 5432\<rparr>"

definition mysql_service :: DummyService where
  "mysql_service = \<lparr>ds_name = ''mysql-dev'', ds_headless = False, ds_selector = [(''app'', ''mysql-dev'')], ds_port = 3306, ds_targetPort = 3306\<rparr>"

definition app_service :: "AppSpec \<Rightarrow> DummyService" where
  "app_service a = \<lparr>ds_name = ap_name a, ds_headless = False, ds_selector = [(''app'', ap_name a)], ds_port = 80, ds_targetPort = ap_port a\<rparr>"

definition dummy_services :: "EnvProfile \<Rightarrow> DummyService list" where
  "dummy_services p =
     map (\<lambda>n. ssh_service (fst n)) (ssh_envs p)
     @ (if dm_postgres (st_dummies p) then map postgres_service [''dev'', ''prod''] else [])
     @ (if dm_mysql (st_dummies p) then [mysql_service] else [])
     @ map app_service (dummy_apps p)"

text \<open>The Secrets with the keys of their data: a certificate and a password for each database.\<close>

definition database_secrets :: "string \<Rightarrow> string \<Rightarrow> (string \<times> string list) list" where
  "database_secrets svc password = [(svc @ ''-tls'', [''tls.crt'', ''tls.key'']), (svc @ ''-auth'', [password])]"

definition dummy_secrets :: "EnvProfile \<Rightarrow> (string \<times> string list) list" where
  "dummy_secrets p =
     (if dm_postgres (st_dummies p) then concat (map (\<lambda>env. database_secrets (postgres_name env) ''POSTGRES_PASSWORD'') [''dev'', ''prod'']) else [])
     @ (if dm_mysql (st_dummies p) then database_secrets ''mysql-dev'' ''MYSQL_ROOT_PASSWORD'' else [])"

definition dummy_accounts :: "EnvProfile \<Rightarrow> string list" where
  "dummy_accounts p = map (\<lambda>n. ssh_account (fst n)) (ssh_envs p)"

definition dummy_databases :: "EnvProfile \<Rightarrow> string list" where
  "dummy_databases p =
     (if dm_postgres (st_dummies p) then map postgres_name [''dev'', ''prod''] else []) @ (if dm_mysql (st_dummies p) then [''mysql-dev''] else [])"

text \<open>What a pod needs to start: its account, the ConfigMaps and Secrets of its volumes and the keys its environment reads.\<close>

fun source_found :: "string list \<Rightarrow> (string \<times> string list) list \<Rightarrow> VolumeSource \<Rightarrow> bool" where
  "source_found maps secrets (ConfigMapVolume n) \<longleftrightarrow> n \<in> set maps"
| "source_found maps secrets (SecretVolume n _) \<longleftrightarrow> n \<in> set (map fst secrets)"
| "source_found maps secrets _ \<longleftrightarrow> True"

fun env_found :: "(string \<times> string list) list \<Rightarrow> EnvVar \<Rightarrow> bool" where
  "env_found secrets (_, EnvSecret n k) \<longleftrightarrow> (case map_of secrets n of None \<Rightarrow> False | Some keys \<Rightarrow> k \<in> set keys)"
| "env_found secrets _ \<longleftrightarrow> True"

definition refers_to_existing :: "string list \<Rightarrow> string list \<Rightarrow> (string \<times> string list) list \<Rightarrow> PodSpec \<Rightarrow> bool" where
  "refers_to_existing accounts maps secrets pd \<longleftrightarrow>
     (case pd_serviceAccount pd of None \<Rightarrow> True | Some a \<Rightarrow> a \<in> set accounts) \<and>
     list_all (\<lambda>v. source_found maps secrets (vo_source v)) (pd_volumes pd) \<and>
     list_all (\<lambda>c. list_all (env_found secrets) (ct_env c)) (pd_init pd @ pd_containers pd)"

text \<open>The Service a Teleport resource's address names, in front of a pod that listens where it forwards to.\<close>

definition fronts :: "DummyService \<Rightarrow> Workload \<Rightarrow> bool" where
  "fronts s w \<longleftrightarrow> selects (ds_selector s) (map_of (wl_labels w)) \<and> listens w (ds_targetPort s)"

definition service_at :: "DummyService \<Rightarrow> string \<Rightarrow> bool" where
  "service_at s uri \<longleftrightarrow>
     uri = fqdn (ds_name s) @ '':'' @ show_int (ds_port s) \<or> (ds_port s = 80 \<and> uri = ''http://'' @ fqdn (ds_name s))"

section \<open>Lemmas on the examples\<close>

lemma scratch_found: "list_all (\<lambda>v. source_found maps secrets (vo_source v)) (fst (scratchVolumes n paths limit))"
  by (auto simp: scratchVolumes_def list_all_iff)

lemma ssh_refers:
  assumes "n \<in> set (ssh_envs p)"
  shows "refers_to_existing (dummy_accounts p) (map fst (dummy_config_maps p html)) (dummy_secrets p) (wl_pod (ssh_workload p n))"
proof -
  have "''ssh-'' @ fst n @ ''-config'' \<in> set (map fst (dummy_config_maps p html))" "ssh_account (fst n) \<in> set (dummy_accounts p)"
    using assms by (force simp: dummy_config_maps_def dummy_accounts_def)+
  then show ?thesis
    by (simp add: refers_to_existing_def ssh_workload_def Let_def projectedJoinTokenVolume_def scratch_found)
qed

lemma dummy_secret_members:
  "dm_postgres (st_dummies p) \<Longrightarrow> env \<in> {''dev'', ''prod''} \<Longrightarrow>
     map_of (dummy_secrets p) (postgres_name env @ ''-tls'') = Some [''tls.crt'', ''tls.key''] \<and>
     map_of (dummy_secrets p) (postgres_name env @ ''-auth'') = Some [''POSTGRES_PASSWORD'']"
  "dm_mysql (st_dummies p) \<Longrightarrow>
     map_of (dummy_secrets p) ''mysql-dev-tls'' = Some [''tls.crt'', ''tls.key''] \<and> map_of (dummy_secrets p) ''mysql-dev-auth'' = Some [''MYSQL_ROOT_PASSWORD'']"
  by (auto simp: dummy_secrets_def database_secrets_def postgres_name_def)

lemma map_of_names: "map_of xs k = Some v \<Longrightarrow> k \<in> set (map fst xs)"
  by (auto dest: map_of_SomeD intro: rev_image_eqI)

lemma database_refers:
  assumes "map_of secrets (svc @ ''-tls'') = Some keys" "list_all (\<lambda>v. source_found maps secrets (vo_source v)) vols"
    and "list_all (env_found secrets) (ct_env c)"
  shows "refers_to_existing accounts maps secrets (wl_pod (database_workload p svc env uid c vols))"
  using assms map_of_names [OF assms(1)] by (simp add: refers_to_existing_def database_workload_def caFetchInit_def)

lemma postgres_refers:
  assumes "dm_postgres (st_dummies p)" "env \<in> {''dev'', ''prod''}"
  shows "refers_to_existing (dummy_accounts p) (map fst (dummy_config_maps p html)) (dummy_secrets p) (wl_pod (postgres_workload p env))"
  unfolding postgres_workload_def
proof (rule database_refers)
  show "map_of (dummy_secrets p) (postgres_name env @ ''-tls'') = Some [''tls.crt'', ''tls.key'']" using dummy_secret_members(1) [OF assms] by simp
  show "list_all (env_found (dummy_secrets p)) (ct_env (postgres_container env))"
    using dummy_secret_members(1) [OF assms] by (simp add: postgres_container_def)
  have "postgres_name env @ ''-config'' \<in> set (map fst (dummy_config_maps p html))" using assms by (auto simp: dummy_config_maps_def)
  then show "list_all (\<lambda>v. source_found (map fst (dummy_config_maps p html)) (dummy_secrets p) (vo_source v))
      ([\<lparr>vo_name = ''config'', vo_source = ConfigMapVolume (postgres_name env @ ''-config'')\<rparr>,
        \<lparr>vo_name = ''data'', vo_source = EmptyDir None (Some ''1Gi'')\<rparr>] @ fst pg_scratch)"
    by (simp add: pg_scratch_def scratch_found)
qed

lemma mysql_refers:
  assumes "dm_mysql (st_dummies p)"
  shows "refers_to_existing (dummy_accounts p) (map fst (dummy_config_maps p html)) (dummy_secrets p) (wl_pod (mysql_workload p))"
  unfolding mysql_workload_def
proof (rule database_refers)
  show "map_of (dummy_secrets p) (''mysql-dev'' @ ''-tls'') = Some [''tls.crt'', ''tls.key'']" using dummy_secret_members(2) [OF assms] by simp
  show "list_all (env_found (dummy_secrets p)) (ct_env mysql_container)"
    using dummy_secret_members(2) [OF assms] by (simp add: mysql_container_def)
  have "''mysql-dev-init'' \<in> set (map fst (dummy_config_maps p html))" using assms by (auto simp: dummy_config_maps_def)
  then show "list_all (\<lambda>v. source_found (map fst (dummy_config_maps p html)) (dummy_secrets p) (vo_source v))
      ([\<lparr>vo_name = ''init'', vo_source = ConfigMapVolume ''mysql-dev-init''\<rparr>, \<lparr>vo_name = ''data'', vo_source = EmptyDir None (Some ''2Gi'')\<rparr>] @ fst mysql_scratch)"
    by (simp add: mysql_scratch_def scratch_found)
qed

lemma app_refers:
  assumes "a \<in> set (dummy_apps p)"
  shows "refers_to_existing (dummy_accounts p) (map fst (dummy_config_maps p html)) (dummy_secrets p) (wl_pod (app_workload p a))"
proof -
  have "cm \<in> set (map fst (dummy_config_maps p html))" if "ap_configMap a = Some cm" for cm
    using assms that by (auto simp: dummy_apps_def HTTPBIN_def CLOUD_CONSOLE_def LOCALSTACK_def dummy_config_maps_def split: CloudStandin.splits if_splits)
  then show ?thesis
    by (cases "ap_configMap a") (simp_all add: refers_to_existing_def app_workload_def Let_def scratch_found)
qed

lemma dummy_pods_refer:
  "list_all (\<lambda>w. refers_to_existing (dummy_accounts p) (map fst (dummy_config_maps p html)) (dummy_secrets p) (wl_pod w)) (dummy_workloads p)"
  unfolding dummy_workloads_def database_workloads_def
  by (auto simp: list_all_iff ssh_refers postgres_refers mysql_refers app_refers)

text \<open>A resource is resolved by a Service that fronts one of the workloads.\<close>

definition resolved :: "EnvProfile \<Rightarrow> TeleportResource \<Rightarrow> bool" where
  "resolved p r \<longleftrightarrow> list_ex (\<lambda>s. service_at s (tr_uri r) \<and> list_ex (fronts s) (dummy_workloads p)) (dummy_services p)"

lemma resolvedI:
  "s \<in> set (dummy_services p) \<Longrightarrow> w \<in> set (dummy_workloads p) \<Longrightarrow> service_at s (tr_uri r) \<Longrightarrow> fronts s w \<Longrightarrow> resolved p r"
  unfolding resolved_def list_ex_iff by blast

lemma app_label_env: "map_of (env_labels (k8sLabels p app component) [(''env'', env)]) ''app'' = Some app"
  by (simp add: map_of_env_labels app_label)

lemma postgres_resolved: "dm_postgres (st_dummies p) \<Longrightarrow> env \<in> {''dev'', ''prod''} \<Longrightarrow> resolved p (postgres_resource env)"
proof (rule resolvedI [of "postgres_service env" p "postgres_workload p env"])
  have "show_int 5432 = ''5432''" by (simp add: show_int_def show_nat.simps char_of_def bit_0)
  then show "service_at (postgres_service env) (tr_uri (postgres_resource env))"
    by (simp add: service_at_def postgres_service_def postgres_resource_def database_resource_def)
  show "fronts (postgres_service env) (postgres_workload p env)"
    by (simp add: fronts_def postgres_service_def postgres_workload_def database_workload_def selects_def app_label_env listens_def postgres_container_def)
qed (auto simp: dummy_services_def dummy_workloads_def database_workloads_def)

lemma mysql_resolved: "dm_mysql (st_dummies p) \<Longrightarrow> resolved p mysql_resource"
proof (rule resolvedI [of mysql_service p "mysql_workload p"])
  have "show_int 3306 = ''3306''" by (simp add: show_int_def show_nat.simps char_of_def bit_0)
  then show "service_at mysql_service (tr_uri mysql_resource)"
    by (simp add: service_at_def mysql_service_def mysql_resource_def database_resource_def)
  show "fronts mysql_service (mysql_workload p)"
    by (simp add: fronts_def mysql_service_def mysql_workload_def database_workload_def selects_def app_label_env listens_def mysql_container_def)
qed (auto simp: dummy_services_def dummy_workloads_def database_workloads_def)

lemma app_resolved: "a \<in> set (dummy_apps p) \<Longrightarrow> resolved p (app_resource p a)"
proof (rule resolvedI [of "app_service a" p "app_workload p a"])
  show "service_at (app_service a) (tr_uri (app_resource p a))" by (simp add: service_at_def app_service_def app_resource_def fqdn_def)
  show "fronts (app_service a) (app_workload p a)"
    by (simp add: fronts_def app_service_def app_workload_def Let_def selects_def app_label_env listens_def)
qed (auto simp: dummy_services_def dummy_workloads_def)

text \<open>The example environment is complete in itself: every pod finds the account it runs as, the ConfigMaps and Secrets it mounts and the
  Secret keys its environment reads, and the address of every database and application registered with Teleport is that of a Service whose
  selector matches a workload listening on the port the Service forwards to.\<close>

theorem dummies_self_contained:
  "list_all (\<lambda>w. refers_to_existing (dummy_accounts p) (map fst (dummy_config_maps p html)) (dummy_secrets p) (wl_pod w)) (dummy_workloads p) \<and>
   list_all (resolved p) (dummy_resources p)"
proof
  show "list_all (resolved p) (dummy_resources p)"
    by (auto simp: dummy_resources_def list_all_iff postgres_resolved mysql_resolved app_resolved)
qed (rule dummy_pods_refer)

section \<open>The stack\<close>

text \<open>What a component may wait for: the chart, namespace, name-server patch or a join token of another one, or everything in it.\<close>

datatype StackResource = ChartOf string | NamespaceOf string | PatchOf string | TokenOf string string | AllOf string

fun resource_owner :: "StackResource \<Rightarrow> string" where
  "resource_owner (ChartOf c) = c"
| "resource_owner (NamespaceOf c) = c"
| "resource_owner (PatchOf c) = c"
| "resource_owner (TokenOf c _) = c"
| "resource_owner (AllOf c) = c"

text \<open>A component with the namespace it makes and the namespaces it installs into. Besides its options it waits for what it is handed: the chart,
  the tokens its pods join with, the namespace a binding is in.\<close>

record StackComponent =
  sc_name :: string
  sc_dependsOn :: "StackResource list"
  sc_makes :: "string option"
  sc_installs_into :: "string list"

definition component :: "string \<Rightarrow> StackResource list \<Rightarrow> string option \<Rightarrow> string list \<Rightarrow> StackComponent" where
  "component name deps makes into = \<lparr>sc_name = name, sc_dependsOn = deps, sc_makes = makes, sc_installs_into = into\<rparr>"

definition agentDeps :: "EnvProfile \<Rightarrow> StackResource list" where
  "agentDeps p = (if st_platform p = PKind then [PatchOf ''local-dns''] else [])"

text \<open>The namespaces whose creation the policies wait for, with their owners.\<close>

definition stack_namespaces :: "EnvProfile \<Rightarrow> (string \<times> string) list" where
  "stack_namespaces p =
     [(''teleport'', ta_namespace (ep_teleport p)), (''kube-agent'', AGENT_NAMESPACE), (''access-services'', ACCESS_NAMESPACE)]
     @ (if dm_enabled (st_dummies p) then [(''dummies'', DUMMIES_NAMESPACE)] else [])"

definition image_policy_applies :: "EnvProfile \<Rightarrow> bool" where
  "image_policy_applies p \<longleftrightarrow> st_platform p \<noteq> PKind \<and> ic_verifySignatures (st_images p)"

definition kube_agent_component :: "EnvProfile \<Rightarrow> StackComponent" where
  "kube_agent_component p =
     component ''kube-agent'' (agentDeps p @ [ChartOf ''teleport'', TokenOf ''access'' (jt_name TOKEN_kubeAgent)]) (Some AGENT_NAMESPACE) [AGENT_NAMESPACE]"

definition dummies_component :: "EnvProfile \<Rightarrow> StackComponent" where
  "dummies_component p =
     component ''dummies'' (agentDeps p @ ChartOf ''teleport'' # map (\<lambda>n. TokenOf ''access'' (jt_name (sshNodeToken (fst n)))) (ssh_envs p))
       (Some DUMMIES_NAMESPACE) [DUMMIES_NAMESPACE, ta_namespace (ep_teleport p)]"

definition sidecar_bots :: "EnvProfile \<Rightarrow> BotKey list" where
  "sidecar_bots p = map fst (deployed_bots p) @ (if sv_harness (st_services p) then [BotHarness] else [])"

definition services_component :: "EnvProfile \<Rightarrow> StackComponent" where
  "services_component p =
     component ''access-services'' (ChartOf ''teleport'' # agentDeps p @ map (\<lambda>k. TokenOf ''access'' (bot_name k)) (sidecar_bots p))
       (Some ACCESS_NAMESPACE) [ACCESS_NAMESPACE]"

definition enterprise_component :: "EnvProfile \<Rightarrow> StackComponent" where
  "enterprise_component p =
     component ''enterprise-access'' [AllOf ''access'', ChartOf ''teleport''] None
       (ta_namespace (ep_teleport p) # (if list_ex pl_enabled (plugins p None None) then [ACCESS_NAMESPACE] else []))"

text \<open>The components in the order of the program.\<close>

definition stack_components :: "EnvProfile \<Rightarrow> StackComponent list" where
  "stack_components p =
     (let tp = ta_namespace (ep_teleport p); kind = st_platform p = PKind; dummies = dm_enabled (st_dummies p) in
      [component ''teleport'' [] (Some tp) [tp], component ''access'' [ChartOf ''teleport''] None [tp]]
      @ (if kind then [component ''local-dns'' [ChartOf ''teleport''] None []] else [])
      @ [kube_agent_component p]
      @ (if dummies then [dummies_component p, component ''dev-editors'' [NamespaceOf ''dummies''] None [DUMMIES_NAMESPACE]] else [])
      @ [services_component p,
         component ''network-policies'' (map (\<lambda>n. NamespaceOf (fst n)) (stack_namespaces p)) None (map snd (stack_namespaces p))]
      @ (if image_policy_applies p then [component ''image-policy'' [] None []] else [])
      @ (if st_edition p = Enterprise then [enterprise_component p] else []))"

text \<open>Every component waits only for components made before it.\<close>

fun in_order :: "string list \<Rightarrow> StackComponent list \<Rightarrow> bool" where
  "in_order made [] \<longleftrightarrow> True"
| "in_order made (c # cs) \<longleftrightarrow>
     sc_name c \<notin> set made \<and> list_all (\<lambda>r. resource_owner r \<in> set made) (sc_dependsOn c) \<and> in_order (sc_name c # made) cs"

text \<open>The namespaces that exist once a component may start: its own and those of everything it waits for.\<close>

definition awaits :: "(string \<times> string list) list \<Rightarrow> StackComponent \<Rightarrow> string list" where
  "awaits before c =
     (case sc_makes c of None \<Rightarrow> [] | Some n \<Rightarrow> [n]) @
     concat (map (\<lambda>r. case map_of before (resource_owner r) of None \<Rightarrow> [] | Some names \<Rightarrow> names) (sc_dependsOn c))"

fun ready_order :: "(string \<times> string list) list \<Rightarrow> StackComponent list \<Rightarrow> (string \<times> bool) list" where
  "ready_order before [] = []"
| "ready_order before (c # cs) =
     (sc_name c, list_all (\<lambda>n. n \<in> set (awaits before c)) (sc_installs_into c)) # ready_order ((sc_name c, awaits before c) # before) cs"

text \<open>The tokens that exist, by name.\<close>

definition token_names :: "EnvProfile \<Rightarrow> string list" where
  "token_names p = map bot_name (enabledBots (st_services p)) @ map jt_name (agent_tokens p)"

fun token_exists :: "string list \<Rightarrow> StackResource \<Rightarrow> bool" where
  "token_exists names (TokenOf _ n) \<longleftrightarrow> n \<in> set names"
| "token_exists names _ \<longleftrightarrow> True"

lemma components_in_order: "in_order [] (stack_components p)"
  by (auto simp: stack_components_def Let_def component_def kube_agent_component_def dummies_component_def services_component_def
      enterprise_component_def agentDeps_def stack_namespaces_def list_all_iff)

lemma sidecar_bots_enabled: "k \<in> set (sidecar_bots p) \<Longrightarrow> k \<in> set (enabledBots (st_services p))"
  using BOT_KEYS_all by (auto simp: sidecar_bots_def deployed_bots_def enabledBots_def split: if_splits)

lemma token_members:
  "jt_name TOKEN_kubeAgent \<in> set (token_names p)"
  "dm_enabled (st_dummies p) \<Longrightarrow> n \<in> set (ssh_envs p) \<Longrightarrow> jt_name (sshNodeToken (fst n)) \<in> set (token_names p)"
  "k \<in> set (sidecar_bots p) \<Longrightarrow> bot_name k \<in> set (token_names p)"
  using sidecar_bots_enabled by (auto simp: token_names_def agent_tokens_def ssh_envs_def simp del: bot_name.simps)

lemma tokens_exist: "list_all (\<lambda>c. list_all (token_exists (token_names p)) (sc_dependsOn c)) (stack_components p)"
proof -
  have "dm_enabled (st_dummies p) \<Longrightarrow> list_all (token_exists (token_names p)) (map (\<lambda>n. TokenOf ''access'' (jt_name (sshNodeToken (fst n)))) (ssh_envs p))"
    "list_all (token_exists (token_names p)) (map (\<lambda>k. TokenOf ''access'' (bot_name k)) (sidecar_bots p))"
    using token_members [where p = p] by (simp_all add: list_all_iff del: bot_name.simps)
  then show ?thesis
    using token_members(1) [of p]
    by (simp add: stack_components_def Let_def component_def kube_agent_component_def dummies_component_def services_component_def
        enterprise_component_def agentDeps_def stack_namespaces_def del: bot_name.simps)
qed

lemma components_ready:
  "list_all (\<lambda>(n, ready). n = ''enterprise-access'' \<or> ready) (ready_order [] (stack_components p))"
  by (simp add: stack_components_def Let_def component_def kube_agent_component_def dummies_component_def services_component_def
      enterprise_component_def agentDeps_def stack_namespaces_def awaits_def)

text \<open>C29. A stack is built in an order that can succeed: every component waits only for components made before it, the join tokens its
  pods wait for are among those made, and every namespace it installs into exists by then, with the exception of the Enterprise plugins.\<close>

theorem stack_buildable:
  "in_order [] (stack_components p) \<and>
   list_all (\<lambda>c. list_all (token_exists (token_names p)) (sc_dependsOn c)) (stack_components p) \<and>
   list_all (\<lambda>(n, ready). n = ''enterprise-access'' \<or> ready) (ready_order [] (stack_components p))"
  using components_in_order tokens_exist components_ready by blast

text \<open>The plugins go into the namespace of the access services, by its name: nothing makes their charts wait for it.\<close>

lemma enterprise_namespace_not_awaited:
  assumes "st_edition p = Enterprise" "AdSlack \<in> set (ag_adapters (sv_agent (st_services p)))" "ta_namespace (ep_teleport p) = NAMESPACE"
  shows "(''enterprise-access'', False) \<in> set (ready_order [] (stack_components p))"
proof -
  have "list_ex pl_enabled (plugins p None None)" using assms(2) by (simp add: plugins_def Let_def)
  moreover have "NAMESPACE \<noteq> ACCESS_NAMESPACE" using namespaces_distinct by simp
  ultimately show ?thesis
    using assms(1,3)
    by (simp add: stack_components_def Let_def component_def kube_agent_component_def dummies_component_def services_component_def
      enterprise_component_def agentDeps_def stack_namespaces_def awaits_def)
qed

text \<open>Policies and namespaces.\<close>

lemma policed_namespaces: "set (map np_namespace (renderNetworkPolicies p)) = set (map snd (stack_namespaces p))"
proof -
  have each: "list_all (\<lambda>q. np_namespace q = n) qs \<Longrightarrow> qs \<noteq> [] \<Longrightarrow> set (map np_namespace qs) = {n}" for n qs
    by (cases qs) (auto simp: list_all_iff)
  have ne: "teleport_policies p \<noteq> []" "access_policies p \<noteq> []" "agent_policies p \<noteq> []"
    by (simp_all add: teleport_policies_def access_policies_def agent_policies_def Let_def baseline_def)
  have d: "set (map np_namespace (dummies_policies p)) = (if dm_enabled (st_dummies p) then {DUMMIES_NAMESPACE} else {})"
    by (simp add: each [OF namespaces(4)] dummies_policies_def Let_def baseline_def policy_def)
  show ?thesis
    using each [OF namespaces(1) ne(1)] each [OF namespaces(2) ne(2)] each [OF namespaces(3) ne(3)] d
    by (simp add: renderNetworkPolicies_def stack_namespaces_def image_Un insert_commute)
qed

lemma default_deny_member:
  "n \<in> set (map snd (stack_namespaces p)) \<Longrightarrow> policy ''default-deny'' n [] [] [] \<in> set (renderNetworkPolicies p)"
  by (auto simp: stack_namespaces_def renderNetworkPolicies_def teleport_policies_def access_policies_def agent_policies_def dummies_policies_def
      Let_def baseline_def split: if_splits)

lemma default_deny_selects:
  assumes "policy ''default-deny'' (pod_ns pd) [] [] [] \<in> set pols"
  shows "selecting pols d pd \<noteq> []"
proof -
  have "policy ''default-deny'' (pod_ns pd) [] [] [] \<in> set (selecting pols d pd)"
    using assms by (cases d) (simp_all add: selecting_def policy_def selects_def)
  then show ?thesis by auto
qed

text \<open>The namespaces the policies are rendered for are exactly those the program makes and waits for, each of them is made by one of the
  components, and every pod in one of them is isolated in both directions: only what some rule allows goes in or out.\<close>

theorem stack_namespaces_policed:
  "set (map np_namespace (renderNetworkPolicies p)) = set (map snd (stack_namespaces p)) \<and>
   list_all (\<lambda>(owner, n). list_ex (\<lambda>c. sc_name c = owner \<and> sc_makes c = Some n) (stack_components p)) (stack_namespaces p) \<and>
   list_all (\<lambda>(owner, n). \<forall>d labels ip. selecting (renderNetworkPolicies p) d \<lparr>pod_ns = n, pod_labels = labels, pod_ip = ip\<rparr> \<noteq> []) (stack_namespaces p)"
proof (intro conjI)
  show "list_all (\<lambda>(owner, n). list_ex (\<lambda>c. sc_name c = owner \<and> sc_makes c = Some n) (stack_components p)) (stack_namespaces p)"
    by (simp add: stack_namespaces_def stack_components_def Let_def component_def kube_agent_component_def dummies_component_def services_component_def)
  show "list_all (\<lambda>(owner, n). \<forall>d labels ip. selecting (renderNetworkPolicies p) d \<lparr>pod_ns = n, pod_labels = labels, pod_ip = ip\<rparr> \<noteq> []) (stack_namespaces p)"
    using default_deny_member [of _ p] default_deny_selects by (force simp: list_all_iff)
qed (rule policed_namespaces)

section \<open>Outputs\<close>

record StackOutputs =
  out_stack :: string
  out_platform :: StackPlatform
  out_edition :: Edition
  out_kubeContext :: string
  out_clusterName :: string
  out_proxyAddr :: string
  out_webUrl :: string
  out_githubCallbackUrl :: string
  out_roleNames :: "string list"
  out_kubeClusterName :: string
  out_dummySshHosts :: "string list"
  out_dummyDatabases :: "string list"
  out_dummyApps :: "string list"
  out_accessNamespace :: string
  out_loginHint :: string

definition loginHint :: "EnvProfile \<Rightarrow> string" where
  "loginHint p =
     ''./bin/tsh'' @ (if ta_insecure (ep_teleport p) then '' --insecure'' else '''') @ '' --proxy '' @ st_publicAddr p @ '' login --auth ''
       @ (if au_type (st_auth p) = AuthGithub then ''github'' else ''local --user admin'')"

text \<open>On the local cluster the public address is rewritten to the proxy's Service inside it.\<close>

definition local_dns_target :: "EnvProfile \<Rightarrow> string" where
  "local_dns_target p = proxyServiceName p @ ''.'' @ ta_namespace (ep_teleport p) @ ''.svc.cluster.local''"

definition local_corefile :: "EnvProfile \<Rightarrow> string option" where
  "local_corefile p = (if st_platform p = PKind then Some (renderCorefile (ta_publicHost (ep_teleport p)) (local_dns_target p)) else None)"

definition stack_outputs :: "EnvProfile \<Rightarrow> StackOutputs" where
  "stack_outputs p =
     (let dummies = dm_enabled (st_dummies p) in
      \<lparr>out_stack = ep_stack p, out_platform = st_platform p, out_edition = st_edition p, out_kubeContext = st_kubeContext p,
       out_clusterName = st_clusterName p, out_proxyAddr = st_publicAddr p, out_webUrl = ''https://'' @ st_publicAddr p,
       out_githubCallbackUrl = ''https://'' @ st_publicAddr p @ ''/v1/webapi/github/callback'', out_roleNames = map rr_name (rendered_roles p),
       out_kubeClusterName = st_env p @ ''-'' @ platform_text (st_platform p),
       out_dummySshHosts = (if dummies then ssh_hosts p else []), out_dummyDatabases = (if dummies then dummy_databases p else []),
       out_dummyApps = (if dummies then map ap_name (dummy_apps p) else []), out_accessNamespace = ACCESS_NAMESPACE, out_loginHint = loginHint p\<rparr>)"

text \<open>The outputs name what exists: the databases and applications are those registered with Teleport, and the callback address is the one the
  GitHub connector is given.\<close>

lemma outputs_registered:
  "dm_enabled (st_dummies p) \<Longrightarrow> out_dummyDatabases (stack_outputs p) @ out_dummyApps (stack_outputs p) = map tr_name (dummy_resources p)"
  by (simp add: stack_outputs_def Let_def dummy_databases_def dummy_resources_def postgres_resource_def mysql_resource_def database_resource_def
      app_resource_def)

lemma outputs_callback:
  "list_all (\<lambda>c. case cr_spec c of GithubCr _ _ _ callback _ \<Rightarrow> callback = out_githubCallbackUrl (stack_outputs p) | _ \<Rightarrow> True) (github_crs nm chart p)"
  by (auto simp: github_crs_def Let_def stack_outputs_def split: option.splits AuthType.splits)

text \<open>Off the local cluster the login command given out checks the proxy's certificate.\<close>

lemma login_hint_verifies:
  assumes "buildProfile is_email env inp stack secrets = Inr p" "st_platform p \<noteq> PKind"
  shows "\<exists>auth. out_loginHint (stack_outputs p) = ''./bin/tsh --proxy '' @ st_publicAddr p @ auth"
proof -
  obtain cfg where c: "config_problems (ciPreviewEscapeHatch env) cfg secrets = []" "p = profile_of cfg stack secrets"
    using buildProfile_Inr [OF assms(1)] by blast
  then have "confined_services cfg" using base_problems_confined by (auto simp: config_problems_def)
  with c(2) assms(2) have "\<not> ta_insecure (ep_teleport p)" by (auto simp: confined_services_def profile_of_def teleport_addrs_def StackConfig.defs)
  then show ?thesis by (simp add: stack_outputs_def Let_def loginHint_def)
qed

end
