(* ===== verification/PortalApi.thy ===== *)
theory PortalApi
  imports BrokerClient "HOL-Library.Multiset"
begin

text \<open>
  The foundation of the portal (\<open>packages/portal/src/api.tsx\<close>): the rows of the platform's API, the HTTP client, and the
  hooks every page is built on. A React hook is a record of its \<open>useState\<close> and \<open>useRef\<close> cells; the moments at which it runs (a
  render effect, a click, an answer arriving, its cleanup) are functions on that record, and a page's history is any sequence of
  these moments, so answers may arrive late and in any order. The fetch function, \<open>Date.parse\<close>, the collation behind
  \<open>localeCompare\<close> and the URL parser are arguments.
\<close>

section \<open>Rows\<close>

record Environment =
  en_id :: string
  en_owner :: string
  en_profile :: string
  en_provider :: string
  en_status :: string
  en_revision :: string
  en_image :: string
  en_url :: string
  en_expiresAt :: "string option"
  en_generation :: int
  en_operationId :: string

record Operation =
  op_id :: string
  op_environmentId :: string
  op_status :: string
  op_phase :: string
  op_warm :: bool
  op_requestedAt :: string
  op_startedAt :: "string option"
  op_finishedAt :: "string option"
  op_timings :: "(string \<times> string) list"
  op_error :: "string option"

record Tool =
  tl_name :: string
  tl_description :: string
  tl_url :: string
  tl_status :: string

record Lifecycle =
  lc_ttl :: int
  lc_maxTTL :: int
  lc_warmTarget :: int
  lc_operationTimeout :: int
  lc_maxPreviews :: int

record Policies =
  po_role :: string
  po_enforcement :: string
  po_source :: string
  po_notes :: string
  po_retrievedAt :: string
  po_lifecycle :: Lifecycle
  po_clusterPolicies :: "json option"
  po_clusterError :: "string option"

section \<open>The client\<close>

text \<open>What a call can throw: the client's own error with status and code, any other \<open>Error\<close>, any other value.\<close>

datatype api_error = RequestError string int "json option" | OtherError string | ThrownValue string

fun errorText :: "api_error \<Rightarrow> string" where
  "errorText (RequestError m _ _) = m"
| "errorText (OtherError m) = m"
| "errorText (ThrownValue s) = s"

definition client_request :: "string \<Rightarrow> string \<Rightarrow> string \<Rightarrow> json option \<Rightarrow> string option \<Rightarrow> FetchRequest" where
  "client_request base path method body key =
     \<lparr>fq_method = method, fq_url = base @ path,
      fq_headers = (''Content-Type'', ''application/json'') #
        (case key of Some k \<Rightarrow> if k = [] then [] else [(''Idempotency-Key'', k)] | None \<Rightarrow> []),
      fq_body = map_option stringify body\<rparr>"

text \<open>A body that is not JSON counts as \<open>null\<close>.\<close>

definition client_result :: "FetchResponse \<Rightarrow> api_error + json" where
  "client_result response =
     (let data = nullish (json_parse (fr_text response)) JNull in
      if res_ok response then Inr data
      else Inl (RequestError
        (js_to_string (jnullish (jfield ''error'' data)
          (JStr (''Request failed ('' @ show_int (fr_status response) @ ''). Try again.''))))
        (fr_status response) (jfield ''code'' data)))"

definition createClient ::
  "(FetchRequest \<Rightarrow> 'c) \<Rightarrow> ('c list \<Rightarrow> api_error + string) \<Rightarrow> (FetchRequest \<Rightarrow> 'c list \<Rightarrow> api_error + FetchResponse) \<Rightarrow>
   string \<Rightarrow> string \<Rightarrow> json option \<Rightarrow> string option \<Rightarrow> (('c, 's) world, api_error, json) eff" where
  "createClient tag baseUrl fetcher path method body key =
     bindE (bindE (read_clock baseUrl) liftE) (\<lambda>base.
     let rq = client_request base path method body key in
     bindE (perform (tag rq) (fetcher rq)) (\<lambda>response. liftE (client_result response)))"

lemma client_header:
  "map_of (fq_headers (client_request base path m body key)) ''Idempotency-Key'' = (if truthy key then key else None)"
  by (auto simp: client_request_def split: option.splits)

text \<open>A call of the portal's client makes one request, to the discovered base address, carrying the idempotency key exactly
  when one is given; it returns the parsed body exactly for a 2xx answer and otherwise throws an error with the answer's status and code.\<close>

theorem client_one_request:
  "createClient tag baseUrl fetcher path m body key w =
    (case baseUrl (calls w) of Inl e \<Rightarrow> (Inl e, w)
     | Inr base \<Rightarrow>
         (let rq = client_request base path m body key; w' = w\<lparr>calls := calls w @ [tag rq]\<rparr> in
          (case fetcher rq (calls w) of Inl e \<Rightarrow> (Inl e, w')
           | Inr res \<Rightarrow> (case client_result res of Inl e \<Rightarrow> (Inl e, w') | Inr j \<Rightarrow> (Inr j, w')))))"
  by (auto simp: createClient_def eff_defs read_clock_def perform_def Let_def split: sum.splits)

lemma client_result_ok: "client_result res = Inr j \<Longrightarrow> res_ok res \<and> j = nullish (json_parse (fr_text res)) JNull"
  by (auto simp: client_result_def Let_def split: if_splits)

lemma client_result_error:
  "\<not> res_ok res \<Longrightarrow> \<exists>m. client_result res =
     Inl (RequestError m (fr_status res) (jfield ''code'' (nullish (json_parse (fr_text res)) JNull)))"
  by (simp add: client_result_def Let_def)

section \<open>Sorting\<close>

text \<open>\<open>xs.sort(cmp)\<close>: the stable sort of the language, for a comparator that is a consistent order.\<close>

fun ins_by :: "('a \<Rightarrow> 'a \<Rightarrow> int) \<Rightarrow> 'a \<Rightarrow> 'a list \<Rightarrow> 'a list" where
  "ins_by cmp x [] = [x]"
| "ins_by cmp x (y # ys) = (if cmp x y \<le> 0 then x # y # ys else y # ins_by cmp x ys)"

definition js_sort :: "('a \<Rightarrow> 'a \<Rightarrow> int) \<Rightarrow> 'a list \<Rightarrow> 'a list" where
  "js_sort cmp xs = foldr (ins_by cmp) xs []"

text \<open>The documented contract of a comparator: a total preorder.\<close>

definition collates :: "('a \<Rightarrow> 'a \<Rightarrow> int) \<Rightarrow> bool" where
  "collates cmp \<longleftrightarrow> (\<forall>x y. cmp x y \<le> 0 \<or> cmp y x \<le> 0) \<and> (\<forall>x y z. cmp x y \<le> 0 \<longrightarrow> cmp y z \<le> 0 \<longrightarrow> cmp x z \<le> 0)"

lemma mset_ins_by [simp]: "mset (ins_by cmp x xs) = add_mset x (mset xs)"
  by (induction xs) auto

lemma mset_js_sort [simp]: "mset (js_sort cmp xs) = mset xs"
  by (induction xs) (auto simp: js_sort_def)

lemma set_js_sort [simp]: "set (js_sort cmp xs) = set xs"
  by (metis mset_js_sort set_mset_mset)

lemma length_js_sort [simp]: "length (js_sort cmp xs) = length xs"
  by (metis mset_js_sort size_mset)

lemma sorted_ins_by:
  assumes "collates cmp" and "sorted_wrt (\<lambda>a b. cmp a b \<le> 0) xs"
  shows "sorted_wrt (\<lambda>a b. cmp a b \<le> 0) (ins_by cmp x xs)"
  using assms(2)
proof (induction xs)
  case (Cons y ys)
  have s: "set (ins_by cmp x ys) = insert x (set ys)"
    by (metis mset_ins_by set_mset_add_mset_insert set_mset_mset)
  from assms(1) have t: "\<And>a b c. cmp a b \<le> 0 \<Longrightarrow> cmp b c \<le> 0 \<Longrightarrow> cmp a c \<le> 0" and l: "\<not> cmp x y \<le> 0 \<Longrightarrow> cmp y x \<le> 0"
    by (auto simp: collates_def)
  from Cons show ?case by (auto simp: s l intro: t)
qed simp

lemma sorted_js_sort: "collates cmp \<Longrightarrow> sorted_wrt (\<lambda>a b. cmp a b \<le> 0) (js_sort cmp xs)"
  by (induction xs) (auto simp: js_sort_def intro: sorted_ins_by)

lemma collates_key: "collates lc \<Longrightarrow> collates (\<lambda>a b. lc (f a) (f b))"
  and collates_rev: "collates lc \<Longrightarrow> collates (\<lambda>a b. lc (f b) (f a))"
  unfolding collates_def by blast+

text \<open>Stability: the elements of one key keep their order.\<close>

lemma js_sort_stable:
  assumes "\<And>x y. P x \<Longrightarrow> P y \<Longrightarrow> cmp x y \<le> 0"
  shows "filter P (js_sort cmp xs) = filter P xs"
proof -
  have i: "filter P (ins_by cmp x ys) = (if P x then x # filter P ys else filter P ys)" for x ys
    by (induction ys) (auto simp: assms)
  show ?thesis by (induction xs) (auto simp: js_sort_def i)
qed

section \<open>A versioned request: useResource\<close>

text \<open>
  The outcome of a call is its value or what it threw. \<open>run_hook\<close> runs a history of a hook: \<open>Inl e\<close> is something the page does
  (render effects, reloads, cleanups), \<open>Inr (i, out)\<close> is the answer to the call with version \<open>i\<close> arriving.
\<close>

type_synonym 'a outcome = "api_error + 'a"

fun run_hook :: "('e \<Rightarrow> 's \<Rightarrow> 's) \<Rightarrow> (nat \<Rightarrow> 'o \<Rightarrow> 's \<Rightarrow> 's) \<Rightarrow> ('e + nat \<times> 'o) list \<Rightarrow> 's \<Rightarrow> 's" where
  "run_hook act settle [] s = s"
| "run_hook act settle (Inl e # es) s = run_hook act settle es (act e s)"
| "run_hook act settle (Inr (i, out) # es) s = run_hook act settle es (settle i out s)"

definition answers_to :: "nat \<Rightarrow> ('e + nat \<times> 'o) list \<Rightarrow> 'o list" where
  "answers_to i es = concat (map (\<lambda>ev. case ev of Inl _ \<Rightarrow> [] | Inr (j, out) \<Rightarrow> if j = i then [out] else []) es)"

lemma run_hook_append: "run_hook act settle (es @ fs) s = run_hook act settle fs (run_hook act settle es s)"
  by (induction act settle es s rule: run_hook.induct) auto

text \<open>
  The contract of a versioned hook: answering never changes the version, an answer to another version than the current one changes
  nothing, and every action of the page moves to a later version.
\<close>

locale latest_call =
  fixes ver :: "'s \<Rightarrow> nat"
    and act :: "'e \<Rightarrow> 's \<Rightarrow> 's"
    and settle :: "nat \<Rightarrow> 'o \<Rightarrow> 's \<Rightarrow> 's"
  assumes settle_stale: "i \<noteq> ver s \<Longrightarrow> settle i out s = s"
    and settle_ver: "ver (settle i out s) = ver s"
    and act_ver: "ver s < ver (act e s)"
begin

lemma ver_mono: "ver s \<le> ver (run_hook act settle es s)"
proof (induction es arbitrary: s)
  case (Cons ev es)
  show ?case
  proof (cases ev)
    case (Inl e)
    with Cons [of "act e s"] act_ver [of s e] show ?thesis by simp
  next
    case (Inr p)
    obtain i out where "p = (i, out)" by fastforce
    with Inr Cons [of "settle i out s"] show ?thesis by (simp add: settle_ver)
  qed
qed simp

lemma answers_keep_ver: "list_all (Not \<circ> isl) es \<Longrightarrow> ver (run_hook act settle es s) = ver s"
proof (induction es arbitrary: s)
  case (Cons ev es)
  then obtain i out where "ev = Inr (i, out)" by (cases ev) auto
  with Cons show ?case by (simp add: settle_ver)
qed simp

text \<open>Of the answers that arrive after an action, only those to its own call are seen.\<close>

lemma only_current_seen:
  "list_all (Not \<circ> isl) es \<Longrightarrow>
   run_hook act settle es s = foldl (\<lambda>s out. settle (ver s) out s) s (answers_to (ver s) es)"
proof (induction es arbitrary: s)
  case Nil
  then show ?case by (simp add: answers_to_def)
next
  case (Cons ev es)
  then obtain i out where ev: "ev = Inr (i, out)" by (cases ev) auto
  show ?case
  proof (cases "i = ver s")
    case True
    with Cons ev show ?thesis by (simp add: answers_to_def settle_ver)
  next
    case False
    with Cons ev show ?thesis by (simp add: answers_to_def settle_stale)
  qed
qed

text \<open>Answers to calls made before an action cannot be seen after it.\<close>

lemma late_answers_ignored:
  "list_all (\<lambda>ev. case ev of Inl _ \<Rightarrow> False | Inr (i, _) \<Rightarrow> i \<le> ver s) es \<Longrightarrow>
   run_hook act settle es (act e s) = act e s"
proof (induction es)
  case (Cons ev es)
  then obtain i out where ev: "ev = Inr (i, out)" "i \<le> ver s" by (cases ev) auto
  with act_ver [of s e] have "settle i out (act e s) = act e s" by (intro settle_stale) simp
  with Cons ev show ?case by simp
qed simp

end

text \<open>\<open>useResource\<close>. The version is a ref, the rest are state cells; \<open>rs_paths\<close> records for every version the path its call was made for.\<close>

record 'a resource =
  rs_data :: "'a option"
  rs_error :: string
  rs_loading :: bool
  rs_version :: nat
  rs_paths :: "(nat \<times> string) list"

definition resource_init :: "'a resource" where
  "resource_init = \<lparr>rs_data = None, rs_error = '''', rs_loading = True, rs_version = 0, rs_paths = []\<rparr>"

definition resource_reload :: "string \<Rightarrow> 'a resource \<Rightarrow> 'a resource" where
  "resource_reload path s =
     (let i = Suc (rs_version s) in
      s\<lparr>rs_version := i, rs_loading := True, rs_error := '''', rs_paths := rs_paths s @ [(i, path)]\<rparr>)"

fun resource_settle :: "nat \<Rightarrow> 'a outcome \<Rightarrow> 'a resource \<Rightarrow> 'a resource" where
  "resource_settle i (Inr value) s = (if rs_version s = i then s\<lparr>rs_data := Some value, rs_loading := False\<rparr> else s)"
| "resource_settle i (Inl e) s = (if rs_version s = i then s\<lparr>rs_error := errorText e, rs_loading := False\<rparr> else s)"

definition resource_cleanup :: "'a resource \<Rightarrow> 'a resource" where
  "resource_cleanup s = s\<lparr>rs_version := Suc (rs_version s)\<rparr>"

text \<open>What a page does with the hook: a reload for the path it shows, or the effect's cleanup (unmounting, or before a new path's reload).\<close>

datatype hook_act = Reload string | Cleanup

fun resource_act :: "hook_act \<Rightarrow> 'a resource \<Rightarrow> 'a resource" where
  "resource_act (Reload path) s = resource_reload path s"
| "resource_act Cleanup s = resource_cleanup s"

abbreviation resource_run :: "(hook_act + nat \<times> 'a outcome) list \<Rightarrow> 'a resource \<Rightarrow> 'a resource" where
  "resource_run \<equiv> run_hook resource_act resource_settle"

interpretation resource: latest_call rs_version resource_act resource_settle
proof unfold_locales
  fix i and out :: "'a outcome" and s :: "'a resource" and e
  show "i \<noteq> rs_version s \<Longrightarrow> resource_settle i out s = s" by (cases out) auto
  show "rs_version (resource_settle i out s) = rs_version s" by (cases out) auto
  show "rs_version s < rs_version (resource_act e s)"
    by (cases e) (simp_all add: resource_reload_def resource_cleanup_def Let_def)
qed

lemma resource_settle_paths [simp]: "rs_paths (resource_settle i out s) = rs_paths s"
  by (cases out) auto

lemma foldl_settle_paths: "rs_paths (foldl (\<lambda>s out. resource_settle (rs_version s) out s) u outs) = rs_paths u"
  by (induction outs arbitrary: u) auto

text \<open>A page that loads data with \<open>useResource\<close> always shows the state of its latest call: after any history, from its last
  reload on (for whatever path), only the answer to that very call is shown. While it is out the hook is loading with no error; its value replaces the data; its
  failure sets the error and keeps the data. Answers to earlier calls, of this or of another path, change nothing.\<close>

theorem resource_shows_latest:
  assumes "list_all (Not \<circ> isl) answers" and "s = resource_run before resource_init"
    and "t = resource_run (before @ Inl (Reload path) # answers) resource_init"
  shows "rs_version t = Suc (rs_version s) \<and> last (rs_paths t) = (rs_version t, path) \<and>
    (case answers_to (rs_version t) answers of
       [] \<Rightarrow> rs_loading t \<and> rs_error t = '''' \<and> rs_data t = rs_data s
     | [Inr value] \<Rightarrow> \<not> rs_loading t \<and> rs_error t = '''' \<and> rs_data t = Some value
     | [Inl e] \<Rightarrow> \<not> rs_loading t \<and> rs_error t = errorText e \<and> rs_data t = rs_data s
     | _ \<Rightarrow> True)"
proof -
  let ?u = "resource_reload path s"
  have run: "t = resource_run answers ?u"
    using assms(2,3) by (simp add: run_hook_append)
  have t: "t = foldl (\<lambda>s out. resource_settle (rs_version s) out s) ?u (answers_to (rs_version ?u) answers)"
    unfolding run by (rule resource.only_current_seen [OF assms(1)])
  have v: "rs_version t = rs_version ?u"
    unfolding run by (rule resource.answers_keep_ver [OF assms(1)])
  have p: "rs_paths t = rs_paths ?u"
    unfolding t by (rule foldl_settle_paths)
  have "case answers_to (rs_version ?u) answers of
       [] \<Rightarrow> rs_loading t \<and> rs_error t = '''' \<and> rs_data t = rs_data s
     | [Inr value] \<Rightarrow> \<not> rs_loading t \<and> rs_error t = '''' \<and> rs_data t = Some value
     | [Inl e] \<Rightarrow> \<not> rs_loading t \<and> rs_error t = errorText e \<and> rs_data t = rs_data s
     | _ \<Rightarrow> True"
    by (subst (1 2 3 4 5 6 7 8 9) t) (auto simp: resource_reload_def Let_def split: list.split sum.split)
  with v p show ?thesis by (simp add: resource_reload_def Let_def)
qed

theorem resource_shows_latest_witness:
  "rs_data (resource_run [Inl (Reload ''/a''), Inl Cleanup, Inl (Reload ''/b''), Inr (1, Inr ''old''), Inr (3, Inr ''new'')]
     resource_init) = Some ''new''"
  using resource_shows_latest [of "[Inr (1, Inr ''old''), Inr (3, Inr ''new'')]" _ "[Inl (Reload ''/a''), Inl Cleanup]",
      OF _ refl refl, of "''/b''"]
  by (simp add: answers_to_def resource_init_def resource_reload_def resource_cleanup_def Let_def)

section \<open>One action at a time: useAction\<close>

record action =
  ac_lock :: bool
  ac_busy :: bool
  ac_error :: string
  ac_notice :: string

definition action_init :: action where
  "action_init = \<lparr>ac_lock = False, ac_busy = False, ac_error = '''', ac_notice = ''''\<rparr>"

text \<open>\<open>run\<close>: \<^const>\<open>None\<close> when the lock is held, otherwise the state in which the action itself starts.\<close>

definition action_start :: "action \<Rightarrow> action option" where
  "action_start a =
     (if ac_lock a then None
      else Some (a\<lparr>ac_lock := True, ac_busy := True, ac_error := '''', ac_notice := ''''\<rparr>))"

text \<open>The end of \<open>run\<close>: the error the action threw, if any, and the \<open>finally\<close> block.\<close>

definition action_finish :: "api_error option \<Rightarrow> action \<Rightarrow> action" where
  "action_finish thrown a =
     (let b = (case thrown of None \<Rightarrow> a | Some e \<Rightarrow> a\<lparr>ac_error := errorText e\<rparr>) in b\<lparr>ac_lock := False, ac_busy := False\<rparr>)"

definition action_clear :: "action \<Rightarrow> action" where
  "action_clear a = a\<lparr>ac_error := '''', ac_notice := ''''\<rparr>"

definition action_setNotice :: "string \<Rightarrow> action \<Rightarrow> action" where
  "action_setNotice message a = a\<lparr>ac_notice := message\<rparr>"

text \<open>The busy flag a page renders is the lock.\<close>

definition action_ok :: "action \<Rightarrow> bool" where
  "action_ok a \<longleftrightarrow> ac_busy a = ac_lock a"

lemma action_ok_intros [simp]:
  "action_ok action_init" "action_start a = Some b \<Longrightarrow> action_ok b" "action_ok (action_finish t a)"
  "action_ok (action_clear a) = action_ok a" "action_ok (action_setNotice m a) = action_ok a"
  by (auto simp: action_ok_def action_init_def action_start_def action_finish_def action_clear_def action_setNotice_def Let_def
      split: if_splits option.splits)

lemma action_start_None: "action_start a = None \<longleftrightarrow> ac_lock a"
  by (simp add: action_start_def)

lemma action_start_free: "\<not> ac_lock a \<Longrightarrow> \<exists>b. action_start a = Some b"
  by (simp add: action_start_def)

lemma action_startD: "action_start a = Some b \<Longrightarrow> \<not> ac_lock a \<and> ac_lock b \<and> ac_busy b \<and> ac_error b = '''' \<and> ac_notice b = ''''"
  by (auto simp: action_start_def split: if_splits)

lemma action_lock_simps [simp]:
  "ac_lock (action_finish t a) = False" "ac_busy (action_finish t a) = False"
  "ac_lock (action_clear a) = ac_lock a" "ac_lock (action_setNotice m a) = ac_lock a"
  "ac_busy (action_clear a) = ac_busy a" "ac_busy (action_setNotice m a) = ac_busy a"
  "ac_lock action_init = False" "ac_busy action_init = False"
  by (auto simp: action_finish_def action_clear_def action_setNotice_def action_init_def Let_def)

section \<open>The platform data: PlatformProvider\<close>

text \<open>
  The provider's state cells, its two refs and, for the calls of \<open>refresh\<close> that are still running: \<open>pf_running\<close>, the promises of fetches that have not settled,
  in the order they started, and \<open>pf_waiting\<close>, the callers that found one in flight and await it, each with its \<open>fresh\<close> argument.
  A promise is its number.
\<close>

record platform =
  pf_environments :: "Environment list"
  pf_operations :: "Operation list"
  pf_loading :: bool
  pf_error :: string
  pf_updated :: "int option"
  pf_inFlight :: "nat option"
  pf_mounted :: bool
  pf_next :: nat
  pf_running :: "nat list"
  pf_waiting :: "(nat \<times> bool) list"

definition platform_init :: platform where
  "platform_init = \<lparr>pf_environments = [], pf_operations = [], pf_loading = True, pf_error = '''', pf_updated = None,
     pf_inFlight = None, pf_mounted = False, pf_next = 0, pf_running = [], pf_waiting = []\<rparr>"

definition fetch_start :: "platform \<Rightarrow> platform" where
  "fetch_start s = s\<lparr>pf_inFlight := Some (pf_next s), pf_running := pf_running s @ [pf_next s], pf_next := Suc (pf_next s)\<rparr>"

definition refresh :: "bool \<Rightarrow> platform \<Rightarrow> platform" where
  "refresh fresh s =
     (case pf_inFlight s of Some p \<Rightarrow> s\<lparr>pf_waiting := pf_waiting s @ [(p, fresh)]\<rparr> | None \<Rightarrow> fetch_start s)"

definition show_answer ::
  "(string \<Rightarrow> string \<Rightarrow> int) \<Rightarrow> int \<Rightarrow> (Environment list \<times> Operation list) outcome \<Rightarrow> platform \<Rightarrow> platform" where
  "show_answer lc now out s =
     (if \<not> pf_mounted s then s
      else (case out of
        Inr (environments, operations) \<Rightarrow>
          s\<lparr>pf_environments := js_sort (\<lambda>a b. lc (en_id a) (en_id b)) environments,
            pf_operations := js_sort (\<lambda>a b. lc (op_requestedAt b) (op_requestedAt a)) operations,
            pf_loading := False, pf_error := '''', pf_updated := Some now\<rparr>
      | Inl e \<Rightarrow> s\<lparr>pf_loading := False, pf_error := errorText e\<rparr>))"

text \<open>A waiter resumes when the promise it awaits has settled; it returns, or starts a fetch of its own.\<close>

definition resume :: "bool \<Rightarrow> platform \<Rightarrow> platform" where
  "resume fresh s = (if fresh then fetch_start s else s)"

definition fetch_settle ::
  "(string \<Rightarrow> string \<Rightarrow> int) \<Rightarrow> int \<Rightarrow> nat \<Rightarrow> (Environment list \<times> Operation list) outcome \<Rightarrow> platform \<Rightarrow> platform" where
  "fetch_settle lc now p out s =
     (if p \<notin> set (pf_running s) then s
      else
        let waiters = map snd (filter (\<lambda>w. fst w = p) (pf_waiting s));
            s1 = (show_answer lc now out s)
              \<lparr>pf_inFlight := None, pf_running := remove1 p (pf_running s), pf_waiting := filter (\<lambda>w. fst w \<noteq> p) (pf_waiting s)\<rparr>
        in foldl (\<lambda>t fresh. resume fresh t) s1 waiters)"

text \<open>The moments of the provider: the mount effect (with its first poll), the timer, a page that wants fresh data, an answer, the unmounting.\<close>

datatype platform_event =
    PMount
  | PTimer
  | PRefresh
  | PSettle nat "(Environment list \<times> Operation list) outcome" int
  | PUnmount

fun platform_step :: "(string \<Rightarrow> string \<Rightarrow> int) \<Rightarrow> platform_event \<Rightarrow> platform \<Rightarrow> platform" where
  "platform_step lc PMount s = refresh False (s\<lparr>pf_mounted := True\<rparr>)"
| "platform_step lc PTimer s = (if pf_mounted s then refresh False s else s)"
| "platform_step lc PRefresh s = refresh True s"
| "platform_step lc (PSettle p out now) s = fetch_settle lc now p out s"
| "platform_step lc PUnmount s = s\<lparr>pf_mounted := False\<rparr>"

definition platform_run :: "(string \<Rightarrow> string \<Rightarrow> int) \<Rightarrow> platform_event list \<Rightarrow> platform \<Rightarrow> platform" where
  "platform_run lc es s = foldl (\<lambda>t e. platform_step lc e t) s es"

text \<open>The promise in flight has not settled, promises are distinct, and every waiter awaits one that has not settled.\<close>

definition platform_ok :: "platform \<Rightarrow> bool" where
  "platform_ok s \<longleftrightarrow> (\<forall>p. pf_inFlight s = Some p \<longrightarrow> p \<in> set (pf_running s)) \<and> distinct (pf_running s) \<and>
     (\<forall>p \<in> set (pf_running s). p < pf_next s) \<and> (\<forall>w \<in> set (pf_waiting s). fst w \<in> set (pf_running s))"

lemma show_answer_frame [simp]:
  "pf_inFlight (show_answer lc now out s) = pf_inFlight s" "pf_mounted (show_answer lc now out s) = pf_mounted s"
  "pf_next (show_answer lc now out s) = pf_next s" "pf_running (show_answer lc now out s) = pf_running s"
  "pf_waiting (show_answer lc now out s) = pf_waiting s"
  by (auto simp: show_answer_def split: sum.split)

lemma fetch_start_ok [simp]: "platform_ok s \<Longrightarrow> platform_ok (fetch_start s)"
  unfolding platform_ok_def fetch_start_def by force

lemma refresh_ok: "platform_ok s \<Longrightarrow> platform_ok (refresh fresh s)"
  by (cases "pf_inFlight s") (auto simp: refresh_def, auto simp: platform_ok_def)

lemma resume_ok: "platform_ok s \<Longrightarrow> platform_ok (foldl (\<lambda>t fresh. resume fresh t) s ws)"
  by (induction ws arbitrary: s) (auto simp: resume_def)

lemma fetch_settle_ok: "platform_ok s \<Longrightarrow> platform_ok (fetch_settle lc now p out s)"
  unfolding fetch_settle_def Let_def
  by (auto intro!: resume_ok) (auto simp: platform_ok_def dest: in_set_remove1 [THEN iffD1, rotated])

lemma platform_step_ok: "platform_ok s \<Longrightarrow> platform_ok (platform_step lc e s)"
proof (cases e)
  case PMount
  assume "platform_ok s"
  then have "platform_ok (s\<lparr>pf_mounted := True\<rparr>)" by (simp add: platform_ok_def)
  with PMount show ?thesis by (simp add: refresh_ok)
qed (auto simp: refresh_ok fetch_settle_ok, simp add: platform_ok_def)

lemma platform_run_ok: "platform_ok s \<Longrightarrow> platform_ok (platform_run lc es s)"
  by (induction es arbitrary: s) (auto simp: platform_run_def platform_step_ok)

lemma platform_init_ok [simp]: "platform_ok platform_init"
  by (simp add: platform_ok_def platform_init_def)

lemma platform_run_Cons: "platform_run lc (e # es) s = platform_run lc es (platform_step lc e s)"
  and platform_run_Nil [simp]: "platform_run lc [] s = s"
  by (simp_all add: platform_run_def)

text \<open>Resuming only starts fetches.\<close>

lemma foldl_resume_waiting [simp]: "pf_waiting (foldl (\<lambda>t fresh. resume fresh t) s ws) = pf_waiting s"
  by (induction ws arbitrary: s) (auto simp: resume_def fetch_start_def)

lemma foldl_resume_running:
  "pf_running (foldl (\<lambda>t fresh. resume fresh t) s ws) =
     pf_running s @ [pf_next s ..< pf_next s + length (filter id ws)]"
  "pf_next (foldl (\<lambda>t fresh. resume fresh t) s ws) = pf_next s + length (filter id ws)"
  by (induction ws arbitrary: s) (auto simp: resume_def fetch_start_def upt_rec)

lemma waiter_kept:
  "w \<in> set (pf_waiting s) \<Longrightarrow> (\<forall>out now. e \<noteq> PSettle (fst w) out now) \<Longrightarrow> w \<in> set (pf_waiting (platform_step lc e s))"
  by (cases e) (auto simp: refresh_def fetch_start_def fetch_settle_def Let_def split: option.split)

lemma waiter_kept_run:
  "w \<in> set (pf_waiting s) \<Longrightarrow> list_all (\<lambda>e. \<forall>out now. e \<noteq> PSettle (fst w) out now) es \<Longrightarrow>
   w \<in> set (pf_waiting (platform_run lc es s))"
  by (induction es arbitrary: s) (auto simp: platform_run_Cons waiter_kept)

lemma settle_serves_waiter:
  assumes "platform_ok s" and "(p, True) \<in> set (pf_waiting s)"
  shows "pf_next s < pf_next (fetch_settle lc now p out s) \<and>
    last (pf_running (fetch_settle lc now p out s)) \<ge> pf_next s \<and> pf_running (fetch_settle lc now p out s) \<noteq> []"
proof -
  let ?ws = "map snd (filter (\<lambda>w. fst w = p) (pf_waiting s))"
  have "p \<in> set (pf_running s)" using assms by (force simp: platform_ok_def)
  moreover have "True \<in> set (filter id ?ws)" using assms(2) by force
  then have "0 < length (filter id ?ws)" by (rule length_pos_if_in_set)
  ultimately show ?thesis
    by (auto simp: fetch_settle_def Let_def foldl_resume_running last_append neq_Nil_conv)
qed

text \<open>C22. After an action a page asks for fresh data, and it gets data fetched after it asked: \<open>refresh()\<close> starts a fetch at once when none
  is in flight; otherwise the promise in flight is one that has still to settle, and whatever happens in between, a new fetch starts as soon as
  it does, whether it succeeded or failed. No waiter is left waiting on a promise that has settled.\<close>

theorem refresh_is_served:
  assumes "s = platform_run lc before platform_init"
    and "t = platform_run lc (PRefresh # es) s"
  shows "case pf_inFlight s of
      None \<Rightarrow> pf_running (platform_step lc PRefresh s) = pf_running s @ [pf_next s]
    | Some p \<Rightarrow> p \<in> set (pf_running s) \<and>
        (list_all (\<lambda>e. \<forall>out now. e \<noteq> PSettle p out now) es \<longrightarrow>
          (let u = platform_step lc (PSettle p out now) t in pf_running u \<noteq> [] \<and> last (pf_running u) \<ge> pf_next t))"
proof (cases "pf_inFlight s")
  case None
  then show ?thesis by (simp add: refresh_def fetch_start_def)
next
  case (Some p)
  have ok: "platform_ok s" using assms by (simp add: platform_run_ok)
  have w: "(p, True) \<in> set (pf_waiting (platform_step lc PRefresh s))" using Some by (simp add: refresh_def)
  have okt: "platform_ok t" using ok assms(2) by (simp add: platform_run_ok)
  have wt: "(p, True) \<in> set (pf_waiting t)" if "list_all (\<lambda>e. \<forall>out now. e \<noteq> PSettle p out now) es"
    using waiter_kept_run [OF w] that assms(2) by (simp add: platform_run_Cons)
  from Some ok show ?thesis
    using settle_serves_waiter [OF okt wt, of lc now out] by (auto simp: platform_ok_def Let_def)
qed

theorem refresh_is_served_witness:
  "pf_running (platform_run (\<lambda>_ _. 0) [PMount, PRefresh, PTimer, PSettle 0 (Inl (OtherError ''offline'')) 7] platform_init) \<noteq> []"
  using refresh_is_served [of "platform_run (\<lambda>_ _. 0) [PMount] platform_init" "\<lambda>_ _. 0" "[PMount]" _ "[PTimer]"
      "Inl (OtherError ''offline'')" 7, OF refl refl]
  by (simp add: platform_run_def platform_init_def refresh_def fetch_start_def Let_def)

text \<open>The timer alone never overlaps its fetches.\<close>

definition only_polls :: "platform \<Rightarrow> bool" where
  "only_polls s \<longleftrightarrow> platform_ok s \<and> pf_running s = (case pf_inFlight s of None \<Rightarrow> [] | Some p \<Rightarrow> [p]) \<and> list_all (Not \<circ> snd) (pf_waiting s)"

lemma only_polls_mounted [simp]: "only_polls (s\<lparr>pf_mounted := b\<rparr>) = only_polls s"
  by (simp add: only_polls_def platform_ok_def)

lemma only_polls_refresh: "only_polls s \<Longrightarrow> only_polls (refresh False s)"
  using refresh_ok [of s False] by (auto simp: only_polls_def refresh_def fetch_start_def split: option.splits)

lemma only_polls_settle:
  assumes "only_polls s"
  shows "only_polls (fetch_settle lc now p out s)"
proof (cases "p \<in> set (pf_running s)")
  case True
  with assms have p: "pf_running s = [p]" by (auto simp: only_polls_def split: option.splits)
  have inF: "pf_inFlight (foldl (\<lambda>t fresh. resume fresh t) u ws) = pf_inFlight u" if "filter id ws = []" for u :: platform and ws
    using that by (induction ws arbitrary: u) (auto simp: resume_def split: if_splits)
  from assms have no: "filter id (map snd (filter (\<lambda>w. fst w = p) (pf_waiting s))) = []"
    by (auto simp: only_polls_def filter_empty_conv list_all_iff)
  have "pf_running (fetch_settle lc now p out s) = [] \<and> pf_inFlight (fetch_settle lc now p out s) = None"
    using p no by (simp add: fetch_settle_def Let_def foldl_resume_running inF del: filter_map)
  with assms fetch_settle_ok [of s lc now p out] show ?thesis
    by (auto simp: only_polls_def fetch_settle_def Let_def list_all_iff)
qed (use assms in \<open>simp add: fetch_settle_def\<close>)

lemma only_polls_step: "only_polls s \<Longrightarrow> e \<noteq> PRefresh \<Longrightarrow> only_polls (platform_step lc e s)"
  by (cases e) (auto intro: only_polls_refresh only_polls_settle)

lemma only_polls_run: "only_polls s \<Longrightarrow> PRefresh \<notin> set es \<Longrightarrow> only_polls (platform_run lc es s)"
  by (induction es arbitrary: s) (auto simp: platform_run_Cons only_polls_step)

lemma polls_do_not_overlap:
  assumes "PRefresh \<notin> set es"
  shows "length (pf_running (platform_run lc es platform_init)) \<le> 1"
proof -
  have "only_polls platform_init" by (simp add: only_polls_def) (simp add: platform_init_def)
  from only_polls_run [OF this assms, of lc] show ?thesis by (auto simp: only_polls_def split: option.splits)
qed

text \<open>Callers that ask for fresh data are not serialised: two of them waiting for one poll each start a fetch, and the first of the two
  to settle clears the marker of the other, so the timer starts a third one beside it.\<close>

lemma refreshes_overlap:
  assumes "es = [PMount, PRefresh, PRefresh, PSettle 0 (Inr ([], [])) 1]"
  shows "pf_running (platform_run lc es platform_init) = [1, 2]"
    and "pf_running (platform_run lc (es @ [PSettle 1 (Inr ([], [])) 2, PTimer]) platform_init) = [2, 3]"
  by (simp_all add: assms platform_run_def platform_init_def refresh_def fetch_start_def fetch_settle_def show_answer_def resume_def
      js_sort_def Let_def)

text \<open>What is shown after an answer: sorted, with nothing lost; a failure keeps what was shown.\<close>

lemma answer_shown:
  assumes "collates lc" and "pf_mounted s"
  shows "mset (pf_environments (show_answer lc now (Inr (es, ops)) s)) = mset es"
    and "mset (pf_operations (show_answer lc now (Inr (es, ops)) s)) = mset ops"
    and "sorted_wrt (\<lambda>a b. lc (en_id a) (en_id b) \<le> 0) (pf_environments (show_answer lc now (Inr (es, ops)) s))"
    and "sorted_wrt (\<lambda>a b. lc (op_requestedAt b) (op_requestedAt a) \<le> 0) (pf_operations (show_answer lc now (Inr (es, ops)) s))"
    and "pf_environments (show_answer lc now (Inl e) s) = pf_environments s"
  using assms collates_key [of lc en_id] collates_rev [of lc op_requestedAt]
  by (auto simp: show_answer_def intro: sorted_js_sort)

section \<open>Formatting and links\<close>

definition EMDASH :: string where "EMDASH = [CHR 0xE2, CHR 0x80, CHR 0x94]"
definition MIDDOT :: string where "MIDDOT = [CHR 0xB7]"
definition HELLIP :: string where "HELLIP = [CHR 0xE2, CHR 0x80, CHR 0xA6]"

text \<open>
  \<open>(ms / 1000).toFixed(1)\<close> for a non-negative integer: the quotient is first rounded to a double, to the nearest with ties to even, written here as a
  mantissa over a power of two; the digits are then those of the tenth nearest to it, the larger one on a tie.
\<close>

definition round_even :: "int \<Rightarrow> int \<Rightarrow> int" where
  "round_even n d = (let q = n div d; r = n mod d in if 2 * r < d \<or> (2 * r = d \<and> even q) then q else q + 1)"

fun dbl_scale :: "nat \<Rightarrow> int \<Rightarrow> nat" where
  "dbl_scale 0 ms = 0"
| "dbl_scale (Suc fuel) ms = (if 4503599627370496000 \<le> ms then 0 else Suc (dbl_scale fuel (2 * ms)))"

definition tenths :: "int \<Rightarrow> int" where
  "tenths ms = (let k = dbl_scale 62 ms; m = round_even (ms * 2 ^ k) 1000 in (20 * m + 2 ^ k) div (2 * 2 ^ k))"

definition toFixed1 :: "int \<Rightarrow> string" where
  "toFixed1 ms = show_int (tenths ms div 10) @ ''.'' @ show_int (tenths ms mod 10)"

text \<open>For any two dates of the language, at most 17280000000000000 ms apart, the rounding to a double is too small to matter: the digits shown
  are within half a tenth of the exact value.\<close>

lemma dbl_scale_ge: "0 \<le> ms \<Longrightarrow> ms * 2 ^ j < 9007199254740992000 \<Longrightarrow> j \<le> fuel \<Longrightarrow> j \<le> dbl_scale fuel ms"
proof (induction j arbitrary: fuel ms)
  case (Suc j)
  then obtain f where f: "fuel = Suc f" "j \<le> f" by (cases fuel) auto
  have "(1::int) \<le> 2 ^ j" by simp
  with Suc.prems(1) have "ms \<le> ms * 2 ^ j" using mult_left_mono [of 1 "2 ^ j" ms] by simp
  with Suc.prems(2) have "ms < 4503599627370496000" by simp
  with Suc.IH [of "2 * ms" f] Suc.prems f show ?case by (simp add: mult_ac)
qed simp

lemma round_even_close: "0 < d \<Longrightarrow> \<bar>2 * d * round_even n d - 2 * n\<bar> \<le> d"
proof -
  assume d: "0 < d"
  define q r where "q = n div d" and "r = n mod d"
  have n: "n = d * q + r" by (simp add: q_def r_def)
  have "0 \<le> r" "r < d" using d by (simp_all add: r_def)
  then have "\<bar>2 * d * (if 2 * r < d \<or> (2 * r = d \<and> even q) then q else q + 1) - 2 * n\<bar> \<le> d"
    unfolding n by (auto simp: algebra_simps)
  then show ?thesis by (simp add: round_even_def Let_def flip: q_def r_def)
qed

lemma tenths_close:
  assumes "0 \<le> ms" and "ms \<le> 17280000000000000"
  shows "\<bar>100 * tenths ms - ms\<bar> \<le> 50"
proof -
  define k where "k = dbl_scale 62 ms"
  define m where "m = round_even (ms * 2 ^ k) 1000"
  define n where "n = (20 * m + 2 ^ k) div (2 * 2 ^ k)"
  define P :: int where "P = 2 ^ k"
  have "9 \<le> k" unfolding k_def using assms by (intro dbl_scale_ge) simp_all
  then have P: "512 \<le> P" unfolding P_def using power_increasing [of 9 k "2::int"] by simp
  have r: "\<bar>2000 * m - 2 * (ms * P)\<bar> \<le> 1000" using round_even_close [of 1000 "ms * 2 ^ k"] by (simp add: m_def P_def)
  have "n = (20 * m + P) div (2 * P)" by (simp add: n_def P_def)
  then have "20 * m + P = 2 * P * n + (20 * m + P) mod (2 * P)" by simp
  moreover have "0 \<le> (20 * m + P) mod (2 * P)" "(20 * m + P) mod (2 * P) < 2 * P" using P by simp_all
  ultimately have n: "2 * (P * n) \<le> 20 * m + P" "20 * m < 2 * (P * n) + P" by linarith+
  have "P * (100 * n - ms) < P * 51" "P * (ms - 100 * n) < P * 51"
    using n r P by (simp_all add: algebra_simps)
  with P have "100 * n - ms < 51" "ms - 100 * n < 51" by (simp_all add: mult_less_cancel_left)
  moreover have "tenths ms = n" by (simp add: tenths_def Let_def n_def m_def k_def)
  ultimately show ?thesis by simp
qed

definition duration :: "(string \<Rightarrow> int option) \<Rightarrow> string option \<Rightarrow> string option \<Rightarrow> string" where
  "duration dateParse start fin =
     (if \<not> truthy start \<or> \<not> truthy fin then EMDASH
      else (case (dateParse (nullish fin ''''), dateParse (nullish start '''')) of
        (Some e, Some s) \<Rightarrow> if 0 \<le> e - s then toFixed1 (e - s) @ ''s'' else EMDASH
      | _ \<Rightarrow> EMDASH))"

text \<open>The locale's rendering of a date is an argument.\<close>

definition dateTime :: "(string \<Rightarrow> string) \<Rightarrow> string option \<Rightarrow> string" where
  "dateTime toLocale value = (if truthy value then toLocale (nullish value '''') else EMDASH)"

text \<open>The URL parser gives protocol and serialisation, or throws.\<close>

definition safeUrl :: "(string \<Rightarrow> (string \<times> string) option) \<Rightarrow> string option \<Rightarrow> string option" where
  "safeUrl parseUrl value =
     (case parseUrl (nullish value '''') of
        Some (protocol, href) \<Rightarrow> if protocol \<in> set [''https:'', ''http:''] then Some href else None
      | None \<Rightarrow> None)"

lemma safeUrl_Some:
  "safeUrl parseUrl value = Some h \<longleftrightarrow>
     parseUrl (nullish value '''') = Some (''https:'', h) \<or> parseUrl (nullish value '''') = Some (''http:'', h)"
  by (auto simp: safeUrl_def split: option.splits)

section \<open>Calls of a page and idempotency keys\<close>

text \<open>A call a page makes through the client, before the base address is put in front of it.\<close>

record portal_call =
  pc_path :: string
  pc_method :: string
  pc_body :: "json option"
  pc_key :: "string option"

definition pc_request :: "string \<Rightarrow> portal_call \<Rightarrow> FetchRequest" where
  "pc_request base c = client_request base (pc_path c) (pc_method c) (pc_body c) (pc_key c)"

text \<open>
  The forms that create something keep the payload and key of their last attempt in a ref: a new payload gets a new random key, the same payload its old one.
  \<open>uuid n\<close> is what the \<open>n\<close>-th call of \<open>crypto.randomUUID\<close> returns; the state is the ref and the number of such calls.
\<close>

type_synonym attempts = "(string \<times> string) \<times> nat"

definition attempts_init :: attempts where
  "attempts_init = (('''', ''''), 0)"

definition next_attempt :: "(nat \<Rightarrow> string) \<Rightarrow> string \<Rightarrow> attempts \<Rightarrow> attempts" where
  "next_attempt uuid payload att =
     (if fst (fst att) = payload then att else ((payload, uuid (snd att)), Suc (snd att)))"

definition attempt_key :: "attempts \<Rightarrow> string" where
  "attempt_key att = snd (fst att)"

text \<open>A log of what was sent, payload and key of each attempt, that the state of the ref accounts for.\<close>

definition attempts_ok :: "(nat \<Rightarrow> string) \<Rightarrow> (string \<times> string) list \<Rightarrow> attempts \<Rightarrow> bool" where
  "attempts_ok uuid log att \<longleftrightarrow>
     (\<forall>e \<in> set log. \<exists>j < snd att. snd e = uuid j) \<and>
     (\<forall>p p' k. (p, k) \<in> set log \<longrightarrow> (p', k) \<in> set log \<longrightarrow> p = p') \<and>
     (if log = [] then att = attempts_init else fst att = last log)"

lemma attempts_ok_init [simp]: "attempts_ok uuid [] attempts_init"
  by (simp add: attempts_ok_def)

lemma attempts_ok_next:
  assumes "attempts_ok uuid log att" and "inj uuid" and "payload \<noteq> ''''"
  shows "attempts_ok uuid (log @ [(payload, attempt_key (next_attempt uuid payload att))]) (next_attempt uuid payload att)"
proof (cases "fst (fst att) = payload")
  case True
  with assms(1,3) have l: "log \<noteq> []" "last log = fst att" by (auto simp: attempts_ok_def attempts_init_def split: if_splits)
  with True have e: "(payload, snd (fst att)) = last log" by (metis prod.collapse)
  have s: "set (log @ [last log]) = set log" using l(1) by auto
  have "attempts_ok uuid (log @ [last log]) att"
    using assms(1) l unfolding attempts_ok_def s by auto
  with True e show ?thesis by (simp add: next_attempt_def attempt_key_def)
next
  case False
  have new: "(p, uuid (snd att)) \<notin> set log" for p
    using assms(1,2) by (fastforce simp: attempts_ok_def inj_def)
  from assms(1) have old: "\<exists>j < Suc (snd att). snd e = uuid j" if "e \<in> set log" for e
    using that unfolding attempts_ok_def by (meson less_SucI)
  from assms(1) have inj: "p = p'" if "(p, k) \<in> set log" "(p', k) \<in> set log" for p p' k
    using that unfolding attempts_ok_def by blast
  show ?thesis
    using False new old inj by (auto simp: attempts_ok_def next_attempt_def attempt_key_def)
qed

lemma attempts_ok_keys: "attempts_ok uuid log att \<Longrightarrow> (p, k) \<in> set log \<Longrightarrow> (p', k) \<in> set log \<Longrightarrow> p = p'"
  unfolding attempts_ok_def by blast

text \<open>The log of a list of calls: text and key.\<close>

definition call_text :: "portal_call \<Rightarrow> string" where
  "call_text c = nullish (map_option stringify (pc_body c)) ''''"

definition keyed_log :: "portal_call list \<Rightarrow> (string \<times> string) list" where
  "keyed_log cs = map (\<lambda>c. (call_text c, nullish (pc_key c) '''')) cs"

lemma keyed_log_same:
  assumes "attempts_ok uuid (keyed_log cs) att" and "c \<in> set cs" and "c' \<in> set cs" and "pc_key c = pc_key c'"
  shows "call_text c = call_text c'"
proof (rule attempts_ok_keys [OF assms(1)])
  show "(call_text c, nullish (pc_key c) '''') \<in> set (keyed_log cs)" using assms(2) by (auto simp: keyed_log_def)
  show "(call_text c', nullish (pc_key c) '''') \<in> set (keyed_log cs)" using assms(3,4) by (force simp: keyed_log_def)
qed

text \<open>Sending the same payload again reuses the key.\<close>

lemma attempt_retry: "next_attempt uuid payload (next_attempt uuid payload att) = next_attempt uuid payload att"
  by (simp add: next_attempt_def)

lemma stringify_obj_ne [simp]: "stringify (JObj kvs) \<noteq> []"
  by (cases kvs) simp_all

section \<open>The query of the address\<close>

text \<open>\<open>URLSearchParams\<close> as the list of its pairs: \<open>get\<close> is \<^const>\<open>map_of\<close>, \<open>set\<close> replaces the first occurrence and drops the others.\<close>

type_synonym search_params = "(string \<times> string) list"

fun params_set :: "string \<Rightarrow> string \<Rightarrow> search_params \<Rightarrow> search_params" where
  "params_set k v [] = [(k, v)]"
| "params_set k v (p # ps) = (if fst p = k then (k, v) # filter (\<lambda>q. fst q \<noteq> k) ps else p # params_set k v ps)"

definition params_delete :: "string \<Rightarrow> search_params \<Rightarrow> search_params" where
  "params_delete k ps = filter (\<lambda>q. fst q \<noteq> k) ps"

lemma map_of_params_set: "map_of (params_set k v ps) k' = (if k' = k then Some v else map_of ps k')"
proof (induction ps)
  case (Cons p ps)
  have "map_of (filter (\<lambda>q. fst q \<noteq> k) ps) k' = map_of ps k'" if "k' \<noteq> k"
    using that by (induction ps) auto
  with Cons show ?case by auto
qed simp

lemma map_of_params_delete: "map_of (params_delete k ps) k' = (if k' = k then None else map_of ps k')"
  unfolding params_delete_def by (induction ps) auto

interpretation search: key_store map_of params_set params_delete "\<lambda>_. True"
  by unfold_locales (simp_all add: map_of_params_set map_of_params_delete)

text \<open>A filter of a list page: the page's \<open>filter(key, value)\<close>, where an empty value removes the key.\<close>

definition params_filter :: "string \<Rightarrow> string \<Rightarrow> search_params \<Rightarrow> search_params" where
  "params_filter key value ps = (if value = [] then params_delete key ps else params_set key value ps)"

lemma params_filter_get:
  "nullish (map_of (params_filter k v ps) k) '''' = v" "k' \<noteq> k \<Longrightarrow> map_of (params_filter k v ps) k' = map_of ps k'"
  by (simp_all add: params_filter_def map_of_params_set map_of_params_delete)

end
