(* ===== verification/PortalAccess.thy ===== *)
theory PortalAccess
  imports PortalApi "HOL-Library.Extended_Nat"
begin

text \<open>
  What the access pages of the portal share (\<open>packages/portal/src/access-api.tsx\<close>): the rows of the access API, the polling hook
  \<open>useAccess\<close> and the texts. An optional member is an option; a \<open>Record\<close> is an association list in the order of \<open>Object.entries\<close>.
\<close>

section \<open>Rows\<close>

type_synonym labels = "(string \<times> string list) list"

record RoleSummary =
  ro_name :: string
  ro_description :: "string option"
  ro_node_labels :: "labels option"
  ro_db_labels :: "labels option"
  ro_kubernetes_labels :: "labels option"
  ro_app_labels :: "labels option"
  ro_logins :: "string list option"
  ro_db_users :: "string list option"
  ro_db_names :: "string list option"
  ro_kubernetes_groups :: "string list option"
  ro_can_request_roles :: "string list option"
  ro_max_session_ttl :: "string option"
  ro_rules :: "string list option"

record Whoami =
  me_user :: string
  me_email :: string
  me_roles :: "string list"
  me_traits :: labels
  me_active_elevated_roles :: "(string \<times> string) list"
  me_is_approver :: bool
  me_effective_access :: "RoleSummary list"
  me_note :: string

record RequestableRole =
  rr_role :: string
  rr_description :: "string option"
  rr_prediction :: string
  rr_rule :: "string option"
  rr_approver_roles :: "string list option"
  rr_ttl_cap :: "string option"

record Review =
  rv_author :: string
  rv_state :: string
  rv_reason :: string
  rv_created :: string

record AccessRequest =
  ar_id :: string
  ar_user :: string
  ar_roles :: "string list"
  ar_resource_ids :: "string list option"
  ar_reason :: string
  ar_state :: string
  ar_created :: string
  ar_expires :: string
  ar_resolve_reason :: "string option"
  ar_reviews :: "string list option"
  ar_reviews_detail :: "Review list option"
  ar_annotations :: "labels option"
  ar_tsh_login_command :: "string option"
  ar_tsh_status_command :: "string option"

record Prediction =
  pd_action :: string
  pd_rule :: "string option"
  pd_reason :: "string option"
  pd_ttl_cap :: "string option"
  pd_approvers :: "string list option"

record CreateResult =
  cr_created :: bool
  cr_dry_run :: "bool option"
  cr_request :: "AccessRequest option"
  cr_prediction :: "Prediction option"
  cr_tsh_command :: string
  cr_note :: "string option"
  cr_error :: "string option"
  cr_ttl_clamped_from :: "string option"
  cr_ttl :: "string option"

record Resource =
  re_kind :: string
  re_name :: string
  re_hostname :: "string option"
  re_addr :: "string option"
  re_description :: "string option"
  re_protocol :: "string option"
  re_labels :: "(string \<times> string) list"

record ApproverInfo =
  ap_role :: string
  ap_policy_action :: string
  ap_policy_rule :: string
  ap_approver_roles :: "string list"
  ap_approvers :: "string list"
  ap_suggested_reviewers :: "string list option"
  ap_how :: string
  ap_note :: "string option"

section \<open>The polling hook: useAccess\<close>

text \<open>\<open>statusOf\<close>: the numeric status an error carries, else 0.\<close>

fun statusOf :: "api_error \<Rightarrow> int" where
  "statusOf (RequestError _ st _) = st"
| "statusOf _ = 0"

record 'a access =
  ax_data :: "'a option"
  ax_error :: string
  ax_status :: int
  ax_loading :: bool
  ax_version :: nat
  ax_paths :: "(nat \<times> string) list"

definition access_init :: "'a access" where
  "access_init = \<lparr>ax_data = None, ax_error = '''', ax_status = 0, ax_loading = True, ax_version = 0, ax_paths = []\<rparr>"

definition access_reload :: "string \<Rightarrow> 'a access \<Rightarrow> 'a access" where
  "access_reload path s =
     (let i = Suc (ax_version s) in s\<lparr>ax_version := i, ax_paths := ax_paths s @ [(i, path)]\<rparr>)"

fun access_settle :: "nat \<Rightarrow> 'a outcome \<Rightarrow> 'a access \<Rightarrow> 'a access" where
  "access_settle i (Inr value) s =
     (if ax_version s = i then s\<lparr>ax_data := Some value, ax_error := '''', ax_status := 200, ax_loading := False\<rparr> else s)"
| "access_settle i (Inl e) s =
     (if ax_version s = i then s\<lparr>ax_error := errorText e, ax_status := statusOf e, ax_loading := False\<rparr> else s)"

text \<open>The moments of the hook: its effect for a path, a reload (the timer while the tab is visible, or the page), the timer while it is hidden, the cleanup.\<close>

datatype access_event = Effect string | Again string | Leave

fun access_act :: "access_event \<Rightarrow> 'a access \<Rightarrow> 'a access" where
  "access_act (Effect path) s = access_reload path (s\<lparr>ax_loading := True\<rparr>)"
| "access_act (Again path) s = access_reload path s"
| "access_act Leave s = s\<lparr>ax_version := Suc (ax_version s)\<rparr>"

definition access_tick :: "bool \<Rightarrow> string \<Rightarrow> 'a access \<Rightarrow> 'a access" where
  "access_tick hidden path s = (if hidden then s else access_act (Again path) s)"

abbreviation access_run :: "(access_event + nat \<times> 'a outcome) list \<Rightarrow> 'a access \<Rightarrow> 'a access" where
  "access_run \<equiv> run_hook access_act access_settle"

interpretation access: latest_call ax_version access_act access_settle
proof unfold_locales
  fix i and out :: "'a outcome" and s :: "'a access" and e
  show "i \<noteq> ax_version s \<Longrightarrow> access_settle i out s = s" by (cases out) auto
  show "ax_version (access_settle i out s) = ax_version s" by (cases out) auto
  show "ax_version s < ax_version (access_act e s)" by (cases e) (simp_all add: access_reload_def Let_def)
qed

lemma access_settle_paths [simp]: "ax_paths (access_settle i out s) = ax_paths s"
  by (cases out) auto

lemma foldl_access_paths: "ax_paths (foldl (\<lambda>s out. access_settle (ax_version s) out s) u outs) = ax_paths u"
  by (induction outs arbitrary: u) auto

text \<open>C17. A polled page follows its latest poll: from its last reload on, only the answer to that very call is shown. Until it arrives
  everything stays as it was (a page never blanks while it polls); its value replaces the data and clears the error; its failure shows the
  error with its status and keeps the data. An answer overtaken by a newer reload changes nothing.\<close>

theorem access_shows_latest:
  assumes "list_all (Not \<circ> isl) answers" and "s = access_run before access_init"
    and "t = access_run (before @ Inl (Again path) # answers) access_init"
  shows "ax_version t = Suc (ax_version s) \<and> last (ax_paths t) = (ax_version t, path) \<and>
    (case answers_to (ax_version t) answers of
       [] \<Rightarrow> ax_loading t = ax_loading s \<and> ax_error t = ax_error s \<and> ax_data t = ax_data s
     | [Inr value] \<Rightarrow> \<not> ax_loading t \<and> ax_error t = '''' \<and> ax_status t = 200 \<and> ax_data t = Some value
     | [Inl e] \<Rightarrow> \<not> ax_loading t \<and> ax_error t = errorText e \<and> ax_status t = statusOf e \<and> ax_data t = ax_data s
     | _ \<Rightarrow> True)"
proof -
  let ?u = "access_reload path s"
  have run: "t = access_run answers ?u"
    using assms(2,3) by (simp add: run_hook_append)
  have t: "t = foldl (\<lambda>s out. access_settle (ax_version s) out s) ?u (answers_to (ax_version ?u) answers)"
    unfolding run by (rule access.only_current_seen [OF assms(1)])
  have v: "ax_version t = ax_version ?u"
    unfolding run by (rule access.answers_keep_ver [OF assms(1)])
  have p: "ax_paths t = ax_paths ?u"
    unfolding t by (rule foldl_access_paths)
  have "case answers_to (ax_version ?u) answers of
       [] \<Rightarrow> ax_loading t = ax_loading s \<and> ax_error t = ax_error s \<and> ax_data t = ax_data s
     | [Inr value] \<Rightarrow> \<not> ax_loading t \<and> ax_error t = '''' \<and> ax_status t = 200 \<and> ax_data t = Some value
     | [Inl e] \<Rightarrow> \<not> ax_loading t \<and> ax_error t = errorText e \<and> ax_status t = statusOf e \<and> ax_data t = ax_data s
     | _ \<Rightarrow> True"
    unfolding t by (auto simp: access_reload_def Let_def split: list.split sum.split)
  with v p show ?thesis by (simp add: access_reload_def Let_def)
qed

theorem access_shows_latest_witness:
  "ax_data (access_run [Inl (Effect ''/a''), Inr (1, Inr ''old''), Inl (Again ''/a''), Inr (2, Inl (OtherError ''offline''))]
     access_init) = Some ''old''"
  using access_shows_latest [of "[Inr (2, Inl (OtherError ''offline''))]" _ "[Inl (Effect ''/a''), Inr (1, Inr ''old'')]",
      OF _ refl refl, of "''/a''"]
  by (simp add: answers_to_def access_init_def access_reload_def Let_def)

text \<open>Every reload discards the call before it. When each answer takes longer than the polling interval, no answer is ever shown: after any number of polls,
  each with the previous poll's answer arriving after it, the page is still loading and has no data.\<close>

fun slow_polls :: "nat \<Rightarrow> string \<Rightarrow> 'a \<Rightarrow> (access_event + nat \<times> 'a outcome) list" where
  "slow_polls 0 path value = [Inl (Effect path)]"
| "slow_polls (Suc n) path value = slow_polls n path value @ [Inl (Again path), Inr (Suc n, Inr value)]"

lemma slow_answers_never_shown:
  "let s = access_run (slow_polls n path value) access_init in ax_version s = Suc n \<and> ax_loading s \<and> ax_data s = None"
proof (induction n)
  case 0
  then show ?case by (simp add: access_init_def access_reload_def Let_def)
next
  case (Suc n)
  then show ?case by (simp add: run_hook_append access_reload_def Let_def)
qed

text \<open>The hook keeps its data when the path changes: after a page navigates from one request to another that cannot be read, the first one is still there,
  and nothing but the error text says so.\<close>

lemma old_path_kept:
  "ax_data (access_run [Inl (Effect ''/access/requests/1''), Inr (1, Inr v), Inl Leave, Inl (Effect ''/access/requests/2''),
     Inr (3, Inl (RequestError ''not found'' 404 None))] access_init) = Some v"
  by (simp add: access_init_def access_reload_def Let_def)

section \<open>Texts\<close>

definition stateTone :: "string \<Rightarrow> string" where
  "stateTone state = toLowerCase state"

definition predictionLabel :: "string option \<Rightarrow> string" where
  "predictionLabel p =
     (if p = Some ''auto_approve'' then ''Approved automatically''
      else if p = Some ''require_approval'' then ''Needs an approver''
      else if p = Some ''deny'' then ''Denied by policy'' else ''Not requestable'')"

definition replace_char :: "char \<Rightarrow> char \<Rightarrow> string \<Rightarrow> string" where
  "replace_char a b s = map (\<lambda>c. if c = a then b else c) s"

definition predictionTone :: "string option \<Rightarrow> string" where
  "predictionTone p = (if truthy p then replace_char (CHR ''_'') (CHR ''-'') (nullish p '''') else ''not-requestable'')"

text \<open>\<open>Math.round(ms / 60000)\<close> of a positive integer, exact for any two dates less than half a million years apart.\<close>

definition round_minutes :: "int \<Rightarrow> int" where
  "round_minutes ms = (ms + 30000) div 60000"

definition expiresIn :: "(string \<Rightarrow> int option) \<Rightarrow> int \<Rightarrow> string option \<Rightarrow> string" where
  "expiresIn dateParse now isoDate =
     (if \<not> truthy isoDate then EMDASH
      else (case dateParse (nullish isoDate '''') of
        None \<Rightarrow> EMDASH
      | Some t \<Rightarrow>
          if t - now \<le> 0 then ''expired''
          else let m = round_minutes (t - now) in
            if m < 60 then show_int m @ '' min''
            else show_int (m div 60) @ '' h '' @ show_int (m mod 60) @ '' min''))"

definition labelText :: "labels \<Rightarrow> string" where
  "labelText ls = join '' '' (map (\<lambda>(k, v). k @ ''='' @ join ''|'' v) ls)"

definition grantsOf :: "RoleSummary \<Rightarrow> string list" where
  "grantsOf r = concat (map (\<lambda>(kind, ls). case ls of None \<Rightarrow> [] | Some l \<Rightarrow> [kind @ '' '' @ labelText l])
     [(''servers'', ro_node_labels r), (''databases'', ro_db_labels r),
      (''kubernetes'', ro_kubernetes_labels r), (''apps'', ro_app_labels r)])"

definition tshLogin :: "string \<Rightarrow> string" where
  "tshLogin i = ''tsh login --request-id='' @ i"

text \<open>The remaining time a grant shows is right to half a minute.\<close>

lemma round_minutes_close: "\<bar>60000 * round_minutes ms - ms\<bar> \<le> 30000"
  unfolding round_minutes_def by (auto simp: abs_le_iff)

end
