(* ===== verification/PortalRequest.thy ===== *)
theory PortalRequest
  imports PortalAccess
begin

text \<open>
  The page that requests access (\<open>packages/portal/src/pages/access/request.tsx\<close>): a form, a review of it with the policy's preview, and the result. The page is a record
  of its state cells, its attempt ref and its \<open>useAction\<close>; the record also keeps which call the running action is waiting for and the calls made so far.
  A click or an input counts only where the rendered page offers the control. \<open>options\<close> is the list of requestable roles last loaded.
\<close>

section \<open>Time boxes\<close>

definition TTLS :: "string list" where
  "TTLS = [''30m'', ''1h'', ''2h'', ''4h'']"

text \<open>Digits followed by a unit, as an optional group of a pattern: the digits and the rest, or nothing.\<close>

definition take_unit :: "char \<Rightarrow> string \<Rightarrow> string option \<times> string" where
  "take_unit u s =
     (let ds = takeWhile is_digit s; r = dropWhile is_digit s in
      if ds \<noteq> [] \<and> r \<noteq> [] \<and> hd r = u then (Some ds, tl r) else (None, s))"

text \<open>\<open>/^(\d+)(m|h)$/\<close>\<close>

definition ttl_minutes :: "string \<Rightarrow> nat" where
  "ttl_minutes d =
     (case take_unit (CHR ''m'') d of
        (Some n, []) \<Rightarrow> read_nat n
      | _ \<Rightarrow> (case take_unit (CHR ''h'') d of (Some n, []) \<Rightarrow> read_nat n * 60 | _ \<Rightarrow> 0))"

text \<open>\<open>/^(?:(\d+)h)?(?:(\d+)m)?/\<close>; no group matched is \<open>Infinity\<close>.\<close>

definition capMinutes :: "string option \<Rightarrow> enat" where
  "capMinutes cap =
     (case take_unit (CHR ''h'') (nullish cap '''') of (h, r) \<Rightarrow>
      (case take_unit (CHR ''m'') r of (m, _) \<Rightarrow>
        if h = None \<and> m = None then \<infinity>
        else enat (read_nat (nullish h ''0'') * 60 + read_nat (nullish m ''0''))))"

definition capped_at :: "RequestableRole list \<Rightarrow> enat" where
  "capped_at chosen = foldr min (map (capMinutes \<circ> rr_ttl_cap) chosen) \<infinity>"

section \<open>The page\<close>

datatype request_step = FormStep | ReviewStep | DoneStep

datatype request_job = PreviewJob | SubmitJob

record request_page =
  rq_roles :: "string list"
  rq_reason :: string
  rq_ttl :: string
  rq_step :: request_step
  rq_preview :: "CreateResult option"
  rq_result :: "CreateResult option"
  rq_action :: action
  rq_attempts :: attempts
  rq_job :: "request_job option"
  rq_sent :: "portal_call list"

definition request_init :: "string option \<Rightarrow> request_page" where
  "request_init param =
     \<lparr>rq_roles = filter (\<lambda>r. r \<noteq> []) (split_on (CHR '','') (nullish param '''')), rq_reason = '''', rq_ttl = ''2h'',
      rq_step = FormStep, rq_preview = None, rq_result = None, rq_action = action_init, rq_attempts = attempts_init,
      rq_job = None, rq_sent = []\<rparr>"

definition rq_chosen :: "RequestableRole list \<Rightarrow> request_page \<Rightarrow> RequestableRole list" where
  "rq_chosen options s = filter (\<lambda>x. rr_role x \<in> set (rq_roles s)) options"

definition rq_trimmed :: "request_page \<Rightarrow> string" where
  "rq_trimmed s = trim (rq_reason s)"

definition rq_valid :: "request_page \<Rightarrow> bool" where
  "rq_valid s \<longleftrightarrow> 0 < length (rq_roles s) \<and> length (rq_roles s) \<le> 20 \<and> 8 \<le> length (rq_trimmed s) \<and> length (rq_trimmed s) \<le> 512"

definition rq_body :: "request_page \<Rightarrow> json" where
  "rq_body s = JObj [(''roles'', JArr (map JStr (rq_roles s))), (''reason'', JStr (rq_trimmed s)), (''ttl'', JStr (rq_ttl s))]"

text \<open>The effect that runs when the step becomes \<open>review\<close>.\<close>

definition start_preview :: "request_page \<Rightarrow> request_page" where
  "start_preview s =
     (case action_start (rq_action s) of
        None \<Rightarrow> s
      | Some a \<Rightarrow> s\<lparr>rq_action := a, rq_job := Some PreviewJob,
          rq_sent := rq_sent s @ [\<lparr>pc_path = ''/access/requests/preview'', pc_method = ''POST'', pc_body = Some (rq_body s), pc_key = None\<rparr>]\<rparr>)"

definition submit_request :: "(nat \<Rightarrow> string) \<Rightarrow> request_page \<Rightarrow> request_page" where
  "submit_request uuid s =
     (case action_start (rq_action s) of
        None \<Rightarrow> s
      | Some a \<Rightarrow>
          (let att = next_attempt uuid (stringify (rq_body s)) (rq_attempts s) in
           s\<lparr>rq_action := a, rq_job := Some SubmitJob, rq_attempts := att,
             rq_sent := rq_sent s @ [\<lparr>pc_path = ''/access/requests'', pc_method = ''POST'', pc_body = Some (rq_body s),
               pc_key = Some (attempt_key att)\<rparr>]\<rparr>))"

definition answer_request :: "CreateResult outcome \<Rightarrow> request_page \<Rightarrow> request_page" where
  "answer_request out s =
     (case (rq_job s, out) of
        (None, _) \<Rightarrow> s
      | (Some PreviewJob, Inr r) \<Rightarrow> s\<lparr>rq_preview := Some r, rq_action := action_finish None (rq_action s), rq_job := None\<rparr>
      | (Some SubmitJob, Inr r) \<Rightarrow>
          s\<lparr>rq_result := Some r, rq_step := DoneStep, rq_action := action_finish None (rq_action s), rq_job := None\<rparr>
      | (Some _, Inl e) \<Rightarrow> s\<lparr>rq_action := action_finish (Some e) (rq_action s), rq_job := None\<rparr>)"

text \<open>Which of the three screens is rendered.\<close>

datatype request_screen = FormScreen | ReviewScreen | DoneScreen AccessRequest

definition rq_screen :: "request_page \<Rightarrow> request_screen" where
  "rq_screen s =
     (case (rq_step s, rq_result s) of
        (DoneStep, Some res) \<Rightarrow> (case cr_request res of Some r \<Rightarrow> DoneScreen r | None \<Rightarrow> ReviewScreen)
      | (FormStep, _) \<Rightarrow> FormScreen
      | _ \<Rightarrow> ReviewScreen)"

definition preview_denies :: "request_page \<Rightarrow> bool" where
  "preview_denies s \<longleftrightarrow> (case rq_preview s of None \<Rightarrow> False
     | Some p \<Rightarrow> (case cr_prediction p of None \<Rightarrow> False | Some d \<Rightarrow> pd_action d = ''deny''))"

definition submit_disabled :: "request_page \<Rightarrow> bool" where
  "submit_disabled s \<longleftrightarrow> ac_busy (rq_action s) \<or> preview_denies s"

datatype request_event =
    ToggleRole string
  | TypeReason string
  | PickTtl string
  | ReviewClick
  | EditClick
  | SubmitClick
  | AnotherClick
  | RequestAnswer "CreateResult outcome"

definition toggle_role :: "string \<Rightarrow> string list \<Rightarrow> string list" where
  "toggle_role r rs = (if r \<in> set rs then filter (\<lambda>x. x \<noteq> r) rs else rs @ [r])"

fun request_do :: "(nat \<Rightarrow> string) \<Rightarrow> RequestableRole list \<Rightarrow> request_event \<Rightarrow> request_page \<Rightarrow> request_page" where
  "request_do uuid options (ToggleRole r) s =
     (if rq_screen s = FormScreen \<and> r \<in> set (map rr_role options) then s\<lparr>rq_roles := toggle_role r (rq_roles s)\<rparr> else s)"
| "request_do uuid options (TypeReason t) s = (if rq_screen s = FormScreen then s\<lparr>rq_reason := t\<rparr> else s)"
| "request_do uuid options (PickTtl t) s = (if rq_screen s = FormScreen \<and> t \<in> set TTLS then s\<lparr>rq_ttl := t\<rparr> else s)"
| "request_do uuid options ReviewClick s =
     (if rq_screen s = FormScreen \<and> rq_valid s then start_preview (s\<lparr>rq_step := ReviewStep\<rparr>) else s)"
| "request_do uuid options EditClick s =
     (if rq_screen s = ReviewScreen \<and> \<not> ac_busy (rq_action s) then s\<lparr>rq_step := FormStep\<rparr> else s)"
| "request_do uuid options SubmitClick s =
     (if rq_screen s = ReviewScreen \<and> \<not> submit_disabled s then submit_request uuid s else s)"
| "request_do uuid options AnotherClick s =
     (case rq_screen s of DoneScreen _ \<Rightarrow> s\<lparr>rq_step := FormStep, rq_result := None, rq_preview := None, rq_reason := ''''\<rparr> | _ \<Rightarrow> s)"
| "request_do uuid options (RequestAnswer out) s = answer_request out s"

text \<open>A history: each event with the options rendered when it happens.\<close>

definition request_run :: "(nat \<Rightarrow> string) \<Rightarrow> (RequestableRole list \<times> request_event) list \<Rightarrow> request_page \<Rightarrow> request_page" where
  "request_run uuid es s = foldl (\<lambda>t (options, e). request_do uuid options e t) s es"

section \<open>What is sent\<close>

definition is_submission :: "portal_call \<Rightarrow> bool" where
  "is_submission c \<longleftrightarrow> pc_path c = ''/access/requests''"

fun submission_body_ok :: "json option \<Rightarrow> bool" where
  "submission_body_ok (Some (JObj [(k1, JArr roles), (k2, JStr reason), (k3, JStr ttl)])) =
     (k1 = ''roles'' \<and> k2 = ''reason'' \<and> k3 = ''ttl'' \<and> 1 \<le> length roles \<and> length roles \<le> 20 \<and>
      8 \<le> length reason \<and> length reason \<le> 512 \<and> ttl \<in> set TTLS)"
| "submission_body_ok _ = False"

definition submission_log :: "portal_call list \<Rightarrow> (string \<times> string) list" where
  "submission_log cs = keyed_log (filter is_submission cs)"

definition request_ok :: "(nat \<Rightarrow> string) \<Rightarrow> request_page \<Rightarrow> bool" where
  "request_ok uuid s \<longleftrightarrow>
     (rq_job s \<noteq> None) = ac_lock (rq_action s) \<and> ac_busy (rq_action s) = ac_lock (rq_action s) \<and>
     (ac_lock (rq_action s) \<longrightarrow> rq_screen s = ReviewScreen) \<and>
     (rq_step s \<noteq> FormStep \<longrightarrow> rq_valid s) \<and> rq_ttl s \<in> set TTLS \<and>
     list_all (\<lambda>c. is_submission c \<longrightarrow> pc_method c = ''POST'' \<and> pc_key c \<noteq> None \<and> submission_body_ok (pc_body c)) (rq_sent s) \<and>
     attempts_ok uuid (submission_log (rq_sent s)) (rq_attempts s)"

lemma request_init_ok: "request_ok uuid (request_init param)"
  by (simp add: request_ok_def request_init_def submission_log_def keyed_log_def TTLS_def)

lemma rq_body_ok: "rq_valid s \<Longrightarrow> rq_ttl s \<in> set TTLS \<Longrightarrow> submission_body_ok (Some (rq_body s))"
  by (simp add: rq_valid_def rq_body_def Suc_leI)

lemma rq_body_ne [simp]: "stringify (rq_body s) \<noteq> []"
  by (simp add: rq_body_def)

lemma rq_screen_form: "rq_screen s = FormScreen \<longleftrightarrow> rq_step s = FormStep"
  by (auto simp: rq_screen_def split: request_step.splits option.splits)

lemma rq_frame [simp]:
  "rq_screen (s\<lparr>rq_action := a\<rparr>) = rq_screen s" "rq_screen (s\<lparr>rq_job := j\<rparr>) = rq_screen s"
  "rq_screen (s\<lparr>rq_sent := cs\<rparr>) = rq_screen s" "rq_screen (s\<lparr>rq_attempts := att\<rparr>) = rq_screen s"
  "rq_screen (s\<lparr>rq_preview := p\<rparr>) = rq_screen s" "rq_screen (s\<lparr>rq_step := FormStep\<rparr>) = FormScreen"
  "rq_screen (s\<lparr>rq_roles := rs\<rparr>) = rq_screen s" "rq_screen (s\<lparr>rq_reason := t\<rparr>) = rq_screen s"
  "rq_screen (s\<lparr>rq_ttl := t\<rparr>) = rq_screen s"
  "rq_valid (s\<lparr>rq_action := a\<rparr>) = rq_valid s" "rq_valid (s\<lparr>rq_job := j\<rparr>) = rq_valid s"
  "rq_valid (s\<lparr>rq_sent := cs\<rparr>) = rq_valid s" "rq_valid (s\<lparr>rq_attempts := att\<rparr>) = rq_valid s"
  "rq_valid (s\<lparr>rq_preview := p\<rparr>) = rq_valid s" "rq_valid (s\<lparr>rq_step := st\<rparr>) = rq_valid s"
  "rq_valid (s\<lparr>rq_result := r\<rparr>) = rq_valid s"
  by (simp_all add: rq_screen_def rq_valid_def rq_trimmed_def)

lemma start_preview_ok:
  assumes "request_ok uuid s" and "rq_screen s = FormScreen" and "rq_valid s"
  shows "request_ok uuid (start_preview (s\<lparr>rq_step := ReviewStep\<rparr>))"
proof -
  from assms have "\<not> ac_lock (rq_action s)" by (auto simp: request_ok_def)
  then show ?thesis
    using assms by (auto simp: start_preview_def action_start_def request_ok_def submission_log_def keyed_log_def is_submission_def rq_screen_def)
qed

lemma submit_request_ok:
  assumes ok: "request_ok uuid s" and "inj uuid" and scr: "rq_screen s = ReviewScreen"
  shows "request_ok uuid (submit_request uuid s)"
proof (cases "action_start (rq_action s)")
  case None
  with ok show ?thesis by (simp add: submit_request_def)
next
  case (Some a)
  let ?att = "next_attempt uuid (stringify (rq_body s)) (rq_attempts s)"
  from ok assms(2) have "attempts_ok uuid (submission_log (rq_sent s) @ [(stringify (rq_body s), attempt_key ?att)]) ?att"
    by (intro attempts_ok_next) (simp_all add: request_ok_def)
  moreover have "rq_valid s" using ok scr rq_screen_form [of s] by (auto simp: request_ok_def)
  ultimately show ?thesis
    using ok scr Some action_startD [OF Some] rq_body_ok [of s]
    by (auto simp: submit_request_def Let_def request_ok_def submission_log_def keyed_log_def is_submission_def call_text_def)
qed

lemma answer_request_ok: "request_ok uuid s \<Longrightarrow> request_ok uuid (answer_request out s)"
  using rq_screen_form [of s]
  by (auto simp: answer_request_def request_ok_def split: option.split request_job.split sum.split)

lemma request_do_ok:
  assumes "request_ok uuid s" and "inj uuid"
  shows "request_ok uuid (request_do uuid options e s)"
proof (cases e)
  case ReviewClick
  with assms start_preview_ok show ?thesis by simp
next
  case SubmitClick
  with assms submit_request_ok show ?thesis by simp
next
  case (RequestAnswer out)
  with assms answer_request_ok show ?thesis by simp
next
  case AnotherClick
  with assms show ?thesis by (auto simp: request_ok_def split: request_screen.split)
qed (use assms in \<open>auto simp: request_ok_def rq_screen_form\<close>)

lemma request_run_ok: "request_ok uuid s \<Longrightarrow> inj uuid \<Longrightarrow> request_ok uuid (request_run uuid es s)"
  by (induction es arbitrary: s) (auto simp: request_run_def request_do_ok)

text \<open>C12. Over any history of the request page, with random keys that never repeat: every request it submits has 1 to 20 roles, a trimmed reason of 8 to 512
  characters and an offered time box, and carries an idempotency key; two submissions with one key have the same text (a key is never reused for something else),
  so the server can take a repeated key for a retry; and the page is waiting for at most one answer, on the review screen.\<close>

theorem request_submissions:
  assumes "inj uuid" and "s = request_run uuid es (request_init param)"
    and "c \<in> set (rq_sent s)" and "c' \<in> set (rq_sent s)" and "is_submission c" and "is_submission c'"
  shows "pc_method c = ''POST'' \<and> pc_key c \<noteq> None \<and> submission_body_ok (pc_body c) \<and>
    (pc_key c = pc_key c' \<longrightarrow> call_text c = call_text c') \<and> (rq_job s \<noteq> None \<longrightarrow> rq_screen s = ReviewScreen)"
proof -
  have ok: "request_ok uuid s" unfolding assms(2) by (rule request_run_ok [OF request_init_ok assms(1)])
  then have "attempts_ok uuid (keyed_log (filter is_submission (rq_sent s))) (rq_attempts s)"
    by (simp add: request_ok_def submission_log_def)
  from keyed_log_same [OF this, of c c'] assms(3-6) have "pc_key c = pc_key c' \<Longrightarrow> call_text c = call_text c'" by simp
  with ok assms(3,5) show ?thesis by (auto simp: request_ok_def list_all_iff)
qed

text \<open>Trying again after a failure sends the same key.\<close>

lemma retry_same_key:
  assumes "action_start (rq_action s) \<noteq> None" and "t = submit_request uuid s"
  shows "last (rq_sent (submit_request uuid (answer_request (Inl e) t))) = last (rq_sent t)"
proof -
  obtain a where a: "action_start (rq_action s) = Some a" using assms(1) by auto
  let ?t = "answer_request (Inl e) t"
  have t: "rq_roles ?t = rq_roles s" "rq_reason ?t = rq_reason s" "rq_ttl ?t = rq_ttl s" "\<not> ac_lock (rq_action ?t)"
    "rq_attempts ?t = next_attempt uuid (stringify (rq_body s)) (rq_attempts s)"
    using assms(2) a by (simp_all add: submit_request_def answer_request_def Let_def)
  then have b: "rq_body ?t = rq_body s" by (simp add: rq_body_def rq_trimmed_def)
  from t(4) obtain a' where "action_start (rq_action ?t) = Some a'" by (metis action_start_free)
  with a b t(5) assms(2) show ?thesis
    by (simp add: submit_request_def Let_def attempt_retry)
qed

theorem request_submissions_witness:
  "let s = request_run show_nat [([], TypeReason ''on-call fix''), ([], ReviewClick), ([], RequestAnswer (Inl (OtherError ''x''))), ([], SubmitClick)]
       (request_init (Some ''dev,prod'')); c = last (rq_sent s)
   in is_submission c \<and> pc_key c \<noteq> None \<and> submission_body_ok (pc_body c) \<and> rq_screen s = ReviewScreen"
proof -
  have inj: "inj show_nat" by (rule injI) (rule show_nat_inj)
  define s where "s = request_run show_nat [([], TypeReason ''on-call fix''), ([], ReviewClick),
    ([], RequestAnswer (Inl (OtherError ''x''))), ([], SubmitClick)] (request_init (Some ''dev,prod''))"
  have e: "rq_sent s \<noteq> []" "is_submission (last (rq_sent s))" "rq_job s \<noteq> None"
    unfolding s_def request_run_def request_init_def
    by (simp_all add: rq_screen_def rq_valid_def rq_trimmed_def start_preview_def action_start_def action_init_def answer_request_def
        action_finish_def submit_disabled_def preview_denies_def submit_request_def is_submission_def trim_def is_ws_def code_of_def Let_def)
  then have "last (rq_sent s) \<in> set (rq_sent s)" by simp
  from request_submissions [OF inj s_def this this e(2) e(2)] e show ?thesis
    unfolding s_def [symmetric] by (simp add: Let_def)
qed

section \<open>What is shown\<close>

text \<open>The screen after a submission: heading, status, the line below it, then the command or the muted text.\<close>

record done_view =
  dv_title :: string
  dv_status :: string
  dv_line :: string
  dv_command :: "string option"
  dv_muted :: "string option"
  dv_link :: string

definition done_view :: "CreateResult \<Rightarrow> AccessRequest \<Rightarrow> done_view" where
  "done_view res r =
     \<lparr>dv_title = (if ar_state r = ''APPROVED'' then ''Access granted''
        else if ar_state r = ''PENDING'' then ''Request submitted'' else ''Request '' @ toLowerCase (ar_state r)),
      dv_status = toLowerCase (ar_state r),
      dv_line = join '', '' (ar_roles r) @ '' '' @ MIDDOT @ '' request '' @ take 8 (ar_id r) @
        (if truthy (cr_ttl_clamped_from res)
         then '' '' @ MIDDOT @ '' time box reduced from '' @ nullish (cr_ttl_clamped_from res) '''' @ '' to '' @ nullish (cr_ttl res) ''undefined''
         else ''''),
      dv_command = (if truthy (ar_tsh_login_command r) then ar_tsh_login_command r else None),
      dv_muted = (if truthy (ar_tsh_login_command r) then None
        else if ar_state r = ''PENDING''
        then Some ''An approver has to decide. The tsh login command appears on the request once it is approved.''
        else cr_note res),
      dv_link = ''/access/requests/'' @ ar_id r\<rparr>"

text \<open>The form: the role checkboxes, the counter under the reason, the entries of the time box and the button.\<close>

record form_view =
  fv_roles :: "(string \<times> bool \<times> string option \<times> string) list"
  fv_none :: bool
  fv_counter :: string
  fv_ttls :: "(string \<times> string) list"
  fv_review_disabled :: bool

definition ttl_label :: "RequestableRole list \<Rightarrow> string \<Rightarrow> string" where
  "ttl_label chosen t =
     t @ (if capped_at chosen < enat (ttl_minutes t)
          then '' (capped to '' @ nullish (case find truthy (map rr_ttl_cap chosen) of None \<Rightarrow> None | Some c \<Rightarrow> c) ''undefined'' @ '')''
          else '''')"

definition form_view :: "RequestableRole list \<Rightarrow> request_page \<Rightarrow> form_view" where
  "form_view options s =
     \<lparr>fv_roles = map (\<lambda>x. (rr_role x, rr_role x \<in> set (rq_roles s), rr_description x, predictionTone (Some (rr_prediction x)))) options,
      fv_none = (options = []),
      fv_counter = show_nat (length (rq_trimmed s)) @ ''/512 characters, at least 8.'',
      fv_ttls = map (\<lambda>t. (t, ttl_label (rq_chosen options s) t)) TTLS,
      fv_review_disabled = (\<not> rq_valid s)\<rparr>"

text \<open>The review: what will be requested, the policy's decision and the two buttons.\<close>

record review_view =
  wv_title :: string
  wv_reason :: string
  wv_requested_for :: string
  wv_decision :: "(string \<times> string) option"
  wv_decision_text :: string
  wv_command :: "string option"
  wv_edit_disabled :: bool
  wv_submit_disabled :: bool

definition review_view :: "request_page \<Rightarrow> review_view" where
  "review_view s =
     (let prediction = (case rq_preview s of None \<Rightarrow> None | Some p \<Rightarrow> cr_prediction p);
          clamped = (case rq_preview s of None \<Rightarrow> False | Some p \<Rightarrow> truthy (cr_ttl_clamped_from p)) in
      \<lparr>wv_title = ''Ready to request '' @ join '', '' (rq_roles s) @ ''?'',
       wv_reason = rq_trimmed s,
       wv_requested_for = rq_ttl s @
         (case rq_preview s of Some p \<Rightarrow>
            if clamped then '' '' @ MIDDOT @ '' will be capped to '' @ nullish (cr_ttl p) ''undefined'' else '''' | None \<Rightarrow> ''''),
       wv_decision = map_option (\<lambda>d. (predictionTone (Some (pd_action d)), predictionLabel (Some (pd_action d)))) prediction,
       wv_decision_text = (case prediction of
           Some d \<Rightarrow> (case pd_approvers d of Some (a # as) \<Rightarrow> '' '' @ MIDDOT @ '' approvers: '' @ join '', '' (a # as) | _ \<Rightarrow> '''')
         | None \<Rightarrow> if ac_busy (rq_action s) then ''Checking policy'' @ HELLIP else ''unknown''),
       wv_command = (case rq_preview s of None \<Rightarrow> None | Some p \<Rightarrow> if cr_tsh_command p = [] then None else Some (cr_tsh_command p)),
       wv_edit_disabled = ac_busy (rq_action s),
       wv_submit_disabled = submit_disabled s\<rparr>)"

text \<open>The label names the first cap among the chosen roles, not the one that applies: with a role capped at two hours
  and one capped at thirty minutes, the entry for one hour reads "capped to 2h".\<close>

definition cap_role :: "string \<Rightarrow> string \<Rightarrow> RequestableRole" where
  "cap_role n c = \<lparr>rr_role = n, rr_description = None, rr_prediction = ''auto_approve'', rr_rule = None, rr_approver_roles = None, rr_ttl_cap = Some c\<rparr>"

lemma capMinutes_examples:
  "capMinutes (Some ''2h'') = 120" "capMinutes (Some ''30m'') = 30" "capMinutes (Some ''1h30m'') = 90"
  "capMinutes (Some ''90s'') = \<infinity>" "capMinutes None = \<infinity>"
  by (simp_all add: capMinutes_def take_unit_def js_eval Let_def numeral_eq_enat)

lemma label_names_first_cap:
  "capped_at [cap_role ''a'' ''2h'', cap_role ''b'' ''30m''] = 30"
  "ttl_label [cap_role ''a'' ''2h'', cap_role ''b'' ''30m''] ''1h'' = ''1h (capped to 2h)''"
proof -
  show c: "capped_at [cap_role ''a'' ''2h'', cap_role ''b'' ''30m''] = 30"
    by (simp add: capped_at_def cap_role_def capMinutes_examples min_def numeral_eq_enat)
  have "ttl_minutes ''1h'' = 60" by (simp add: ttl_minutes_def take_unit_def js_eval Let_def)
  with c show "ttl_label [cap_role ''a'' ''2h'', cap_role ''b'' ''30m''] ''1h'' = ''1h (capped to 2h)''"
    by (simp add: ttl_label_def cap_role_def numeral_eq_enat)
qed

text \<open>Editing a request keeps the preview of the previous one. If the preview of the edited request fails, the old decision stays on the screen, and an old denial
  keeps the new request from being submitted.\<close>

lemma old_preview_blocks:
  assumes "rq_screen s = ReviewScreen" and "preview_denies s" and "\<not> ac_lock (rq_action s)" and "\<not> ac_busy (rq_action s)"
    and "r \<in> set (map rr_role options)" and "t = request_run uuid [(options, EditClick), (options, ToggleRole r)] s" and "rq_valid t"
  shows "request_run uuid [(options, ReviewClick), (options, RequestAnswer (Inl e)), (options, SubmitClick)] t =
         request_run uuid [(options, ReviewClick), (options, RequestAnswer (Inl e))] t"
proof -
  have t: "t = s\<lparr>rq_step := FormStep, rq_roles := toggle_role r (rq_roles s)\<rparr>"
    using assms(1,4,5,6) by (simp add: request_run_def rq_screen_form)
  have p: "preview_denies (request_run uuid [(options, ReviewClick), (options, RequestAnswer (Inl e))] t)"
    using assms(2,3,7) by (simp add: t request_run_def start_preview_def action_start_def answer_request_def preview_denies_def)
  then show ?thesis by (simp add: request_run_def submit_disabled_def)
qed

end
