(* ===== verification/PortalRequests.thy ===== *)
theory PortalRequests
  imports PortalRequest
begin

text \<open>
  The pages that list, show and decide access requests (\<open>pages/access/requests.tsx\<close>, \<open>approvals.tsx\<close>) and the frame of the access section
  (\<open>pages/access/index.tsx\<close>). A page that only shows something is a function from its hooks' state to the content of the rendered elements, one
  constructor for each alternative screen; a control's field says whether it is offered. \<open>toLocale\<close> is the browser's rendering of a date.
\<close>

section \<open>The list of requests\<close>

definition requests_path :: "search_params \<Rightarrow> string" where
  "requests_path params =
     (let state = nullish (map_of params ''state'') '''' in
      ''/access/requests'' @ (if state = [] then '''' else ''?state='' @ state))"

definition pick_state :: "string \<Rightarrow> search_params \<Rightarrow> search_params" where
  "pick_state value params = params_filter ''state'' value params"

definition newest_first :: "(string \<Rightarrow> string \<Rightarrow> int) \<Rightarrow> AccessRequest list \<Rightarrow> AccessRequest list" where
  "newest_first lc rs = js_sort (\<lambda>a b. lc (ar_created b) (ar_created a)) rs"

record request_row =
  rw_link :: string
  rw_roles :: string
  rw_id :: string
  rw_reason :: string
  rw_user :: "string option"
  rw_state :: string
  rw_requested :: string
  rw_expires :: string

definition request_row :: "(string \<Rightarrow> string) \<Rightarrow> bool \<Rightarrow> AccessRequest \<Rightarrow> request_row" where
  "request_row toLocale showUser r =
     \<lparr>rw_link = ''/access/requests/'' @ ar_id r, rw_roles = join '', '' (ar_roles r), rw_id = take 8 (ar_id r),
      rw_reason = (if 60 < length (ar_reason r) then take 60 (ar_reason r) @ HELLIP else ar_reason r),
      rw_user = (if showUser then Some (ar_user r) else None), rw_state = stateTone (ar_state r),
      rw_requested = dateTime toLocale (Some (ar_created r)), rw_expires = dateTime toLocale (Some (ar_expires r))\<rparr>"

datatype requests_body = RequestsLoading | RequestsTable "request_row list" | RequestsEmpty

definition requests_view :: "(string \<Rightarrow> string \<Rightarrow> int) \<Rightarrow> (string \<Rightarrow> string) \<Rightarrow> AccessRequest list access \<Rightarrow> string \<times> string \<times> requests_body" where
  "requests_view lc toLocale ls =
     (let requests = newest_first lc (nullish (ax_data ls) []) in
      (show_nat (length requests) @ '' requests'', ax_error ls,
       if ax_loading ls \<and> ax_data ls = None then RequestsLoading
       else if requests \<noteq> [] then RequestsTable (map (request_row toLocale False) requests) else RequestsEmpty))"

section \<open>One request\<close>

definition canDecide :: "Whoami option \<Rightarrow> AccessRequest \<Rightarrow> bool" where
  "canDecide me r \<longleftrightarrow> (case me of None \<Rightarrow> False | Some m \<Rightarrow> me_is_approver m \<and> ar_state r = ''PENDING'' \<and> ar_user r \<noteq> me_user m)"

definition or_dash :: "string \<Rightarrow> string" where
  "or_dash s = (if s = [] then EMDASH else s)"

definition decided_via :: "labels \<Rightarrow> string" where
  "decided_via as =
     or_dash (join '', '' (nullish (map_of as ''access-broker/mode'') [])) @
     (case map_of as ''access-broker/approver'' of None \<Rightarrow> '''' | Some v \<Rightarrow> '' by '' @ join '', '' v) @
     (case map_of as ''access-broker/rule'' of None \<Rightarrow> '''' | Some v \<Rightarrow> '' '' @ MIDDOT @ '' rule '' @ join '', '' v)"

record request_detail =
  rd_back :: "string \<times> string"
  rd_title :: string
  rd_state :: string
  rd_entries :: "(string \<times> string) list"
  rd_command :: "string option"
  rd_reviews :: "(string \<times> string \<times> string) list"
  rd_evidence :: AccessRequest
  rd_controls :: bool

datatype request_detail_view = RequestLoading | RequestMissing string | RequestShown request_detail

definition when_some :: "string \<Rightarrow> string option \<Rightarrow> (string \<times> string) list" where
  "when_some k v = (if truthy v then [(k, nullish v '''')] else [])"

definition request_detail :: "(string \<Rightarrow> string) \<Rightarrow> Whoami option \<Rightarrow> AccessRequest \<Rightarrow> request_detail" where
  "request_detail toLocale me r =
     (let own = (map_option me_user me = Some (ar_user r)) in
      \<lparr>rd_back = (if own then (''/access/requests'', ''My requests'') else (''/access/approvals'', ''Approvals'')),
       rd_title = join '', '' (ar_roles r), rd_state = stateTone (ar_state r),
       rd_entries =
         [(''Request'', ar_id r), (''Requester'', ar_user r), (''Reason'', ar_reason r)] @
         (case ar_resource_ids r of Some (x # xs) \<Rightarrow> [(''Resources'', join '', '' (x # xs))] | _ \<Rightarrow> []) @
         [(''Requested'', dateTime toLocale (Some (ar_created r))), (''Expires'', dateTime toLocale (Some (ar_expires r)))] @
         when_some ''Decision'' (ar_resolve_reason r) @
         (case ar_annotations r of Some (a # as) \<Rightarrow> [(''Decided via'', decided_via (a # as))] | _ \<Rightarrow> []),
       rd_command = (if truthy (ar_tsh_login_command r) then ar_tsh_login_command r else None),
       rd_reviews = map (\<lambda>v. (stateTone (rv_state v),
           rv_author v @ (if rv_reason v = [] then '''' else '' '' @ EMDASH @ '' '' @ rv_reason v),
           dateTime toLocale (Some (rv_created v)))) (nullish (ar_reviews_detail r) []),
       rd_evidence = r,
       rd_controls = canDecide me r\<rparr>)"

definition request_detail_view :: "(string \<Rightarrow> string) \<Rightarrow> Whoami option \<Rightarrow> AccessRequest access \<Rightarrow> request_detail_view" where
  "request_detail_view toLocale me req =
     (if ax_loading req \<and> ax_data req = None then RequestLoading
      else (case ax_data req of
        None \<Rightarrow> RequestMissing (str_or (ax_error req) ''This request may have expired, or you may not have access to it.'')
      | Some r \<Rightarrow> RequestShown (request_detail toLocale me r)))"

section \<open>Deciding\<close>

datatype verb = Approve | Deny

fun verb_path :: "verb \<Rightarrow> string" where
  "verb_path Approve = ''approve''"
| "verb_path Deny = ''deny''"

definition decided_message :: "verb \<Rightarrow> string" where
  "decided_message v = ''Request '' @ (if v = Approve then ''approved'' else ''denied'') @ ''.''"

text \<open>\<open>dc_done\<close> lists the messages given to \<open>onDone\<close>, \<open>dc_job\<close> is the verb of the running decision.\<close>

record decision =
  dc_verb :: "verb option"
  dc_reason :: string
  dc_action :: action
  dc_job :: "verb option"
  dc_sent :: "portal_call list"
  dc_done :: "string list"

definition decision_init :: decision where
  "decision_init = \<lparr>dc_verb = None, dc_reason = '''', dc_action = action_init, dc_job = None, dc_sent = [], dc_done = []\<rparr>"

definition decision_call :: "AccessRequest \<Rightarrow> verb \<Rightarrow> string \<Rightarrow> portal_call" where
  "decision_call r v reason =
     \<lparr>pc_path = ''/access/requests/'' @ ar_id r @ ''/'' @ verb_path v, pc_method = ''POST'',
      pc_body = Some (JObj [(''reason'', JStr (trim reason))]), pc_key = None\<rparr>"

definition confirm_disabled :: "decision \<Rightarrow> bool" where
  "confirm_disabled d \<longleftrightarrow> ac_busy (dc_action d) \<or> (dc_verb d = Some Deny \<and> trim (dc_reason d) = [])"

datatype decision_event =
    VerbClick verb
  | ReasonTyped string
  | DialogClosed
  | ConfirmClick AccessRequest
  | DecisionAnswer "json outcome"

fun decision_do :: "decision_event \<Rightarrow> decision \<Rightarrow> decision" where
  "decision_do (VerbClick v) d = (if ac_busy (dc_action d) then d else d\<lparr>dc_verb := Some v\<rparr>)"
| "decision_do (ReasonTyped t) d = (if dc_verb d = None \<or> 1024 < length t then d else d\<lparr>dc_reason := t\<rparr>)"
| "decision_do DialogClosed d = (if ac_busy (dc_action d) then d else d\<lparr>dc_verb := None\<rparr>)"
| "decision_do (ConfirmClick r) d =
     (case dc_verb d of
        None \<Rightarrow> d
      | Some v \<Rightarrow>
          if confirm_disabled d then d
          else (case action_start (dc_action d) of
              None \<Rightarrow> d
            | Some a \<Rightarrow> d\<lparr>dc_action := a, dc_job := Some v, dc_sent := dc_sent d @ [decision_call r v (dc_reason d)]\<rparr>))"
| "decision_do (DecisionAnswer out) d =
     (case dc_job d of
        None \<Rightarrow> d
      | Some v \<Rightarrow>
          (case out of
             Inl e \<Rightarrow> d\<lparr>dc_action := action_finish (Some e) (dc_action d), dc_job := None\<rparr>
           | Inr _ \<Rightarrow>
               d\<lparr>dc_action := action_finish None (action_setNotice (decided_message v) (dc_action d)), dc_job := None,
                 dc_verb := None, dc_reason := '''', dc_done := dc_done d @ [decided_message v]\<rparr>))"

definition decision_run :: "decision_event list \<Rightarrow> decision \<Rightarrow> decision" where
  "decision_run es d = foldl (\<lambda>t e. decision_do e t) d es"

text \<open>The dialog: title, the request's reason and expiry, label, whether a reason is required, placeholder and the confirming button.\<close>

record decision_dialog =
  dd_title :: string
  dd_reason_given :: string
  dd_until :: string
  dd_label :: string
  dd_required :: bool
  dd_placeholder :: string
  dd_confirm :: string
  dd_confirm_disabled :: bool
  dd_cancel_disabled :: bool

definition RSQUO :: string where "RSQUO = [CHR 0xE2, CHR 0x80, CHR 0x99]"

definition decision_dialog :: "(string \<Rightarrow> string) \<Rightarrow> AccessRequest \<Rightarrow> decision \<Rightarrow> decision_dialog option" where
  "decision_dialog toLocale r d =
     map_option (\<lambda>v.
       \<lparr>dd_title = (if v = Approve then ''Approve'' else ''Deny'') @ '' '' @ ar_user r @ RSQUO @ ''s request for '' @ join '', '' (ar_roles r) @ ''?'',
        dd_reason_given = ar_reason r, dd_until = dateTime toLocale (Some (ar_expires r)),
        dd_label = (if v = Approve then ''Note (optional)'' else ''Reason (required)''),
        dd_required = (v = Deny),
        dd_placeholder = (if v = Approve then ''Recorded on the request'' else ''Tell the requester why''),
        dd_confirm = (if ac_busy (dc_action d) then ''Working'' @ HELLIP else if v = Approve then ''Confirm approval'' else ''Confirm denial''),
        dd_confirm_disabled = confirm_disabled d, dd_cancel_disabled = ac_busy (dc_action d)\<rparr>) (dc_verb d)"

text \<open>
  The page of one request renders the controls only for a request its reader may decide; when they are not rendered the component is gone, with its state.
  A confirmation concerns the request on the screen.
\<close>

definition unmounted :: "decision \<Rightarrow> decision" where
  "unmounted d = decision_init\<lparr>dc_sent := dc_sent d, dc_done := dc_done d\<rparr>"

definition detail_do ::
  "(string \<Rightarrow> string) \<Rightarrow> Whoami option \<Rightarrow> AccessRequest access \<Rightarrow> decision_event \<Rightarrow> decision \<Rightarrow> decision" where
  "detail_do toLocale me req e d =
     (case request_detail_view toLocale me req of
        RequestShown v \<Rightarrow>
          if rd_controls v then decision_do (case e of ConfirmClick _ \<Rightarrow> ConfirmClick (rd_evidence v) | _ \<Rightarrow> e) d else unmounted d
      | _ \<Rightarrow> unmounted d)"

type_synonym detail_history = "(Whoami option \<times> AccessRequest access \<times> decision_event) list"

definition detail_run :: "(string \<Rightarrow> string) \<Rightarrow> detail_history \<Rightarrow> decision \<Rightarrow> decision" where
  "detail_run toLocale es d = foldl (\<lambda>t (me, req, e). detail_do toLocale me req e t) d es"

text \<open>What one moment can send: nothing, or one decision on the request the controls belong to.\<close>

definition explained :: "AccessRequest \<Rightarrow> portal_call \<Rightarrow> bool" where
  "explained r c \<longleftrightarrow> (\<exists>v reason. c = decision_call r v reason \<and> (v = Deny \<longrightarrow> trim reason \<noteq> []))"

lemma decision_do_sent:
  "dc_sent (decision_do e d) = dc_sent d \<or>
   (\<exists>r c. e = ConfirmClick r \<and> dc_sent (decision_do e d) = dc_sent d @ [c] \<and> explained r c \<and>
      \<not> ac_busy (dc_action d) \<and> dc_job (decision_do e d) \<noteq> None)"
proof (cases e)
  case (ConfirmClick r)
  then show ?thesis
    by (auto simp: confirm_disabled_def explained_def split: option.split)
qed (auto split: option.split sum.split)

lemma detail_do_sent:
  "dc_sent (detail_do toLocale me req e d) = dc_sent d \<or>
   (\<exists>r c. ax_data req = Some r \<and> canDecide me r \<and> dc_sent (detail_do toLocale me req e d) = dc_sent d @ [c] \<and> explained r c)"
proof (cases "request_detail_view toLocale me req")
  case (RequestShown v)
  then obtain r where r: "ax_data req = Some r" "v = request_detail toLocale me r"
    by (auto simp: request_detail_view_def split: if_splits option.splits)
  then have v: "rd_evidence v = r" "rd_controls v = canDecide me r" by (simp_all add: request_detail_def Let_def)
  show ?thesis
    using RequestShown r(1) v decision_do_sent [of "case e of ConfirmClick _ \<Rightarrow> ConfirmClick r | _ \<Rightarrow> e" d]
    by (auto simp: detail_do_def unmounted_def split: decision_event.splits)
qed (simp_all add: detail_do_def unmounted_def)

text \<open>C9. On the page of a request, whatever is clicked and however polls and answers interleave: every decision it sends is one POST for a request that was
  on the screen at that moment, pending, and made by somebody else than the reader, whom the server called an approver; its body is the trimmed
  reason alone, and a denial always has one.\<close>

theorem detail_decisions:
  assumes "c \<in> set (dc_sent (detail_run toLocale es decision_init))"
  shows "\<exists>me req e r v reason. (Some me, req, e) \<in> set es \<and> ax_data req = Some r \<and>
     me_is_approver me \<and> ar_state r = ''PENDING'' \<and> ar_user r \<noteq> me_user me \<and>
     c = decision_call r v reason \<and> (v = Deny \<longrightarrow> trim reason \<noteq> [])"
proof -
  have "\<exists>me req e r. (me, req, e) \<in> set es \<and> ax_data req = Some r \<and> canDecide me r \<and> explained r c"
    if "c \<in> set (dc_sent (detail_run toLocale es d))" "c \<notin> set (dc_sent d)" for d
    using that
  proof (induction es arbitrary: d)
    case (Cons x es)
    obtain me req e where x: "x = (me, req, e)" by (cases x)
    let ?d = "detail_do toLocale me req e d"
    show ?case
    proof (cases "c \<in> set (dc_sent ?d)")
      case True
      with Cons.prems(2) detail_do_sent [of toLocale me req e d]
      have "\<exists>r. ax_data req = Some r \<and> canDecide me r \<and> explained r c" by auto
      moreover have "(me, req, e) \<in> set (x # es)" using x by simp
      ultimately show ?thesis by blast
    next
      case False
      with Cons.IH [of ?d] Cons.prems(1) x show ?thesis by (auto simp: detail_run_def)
    qed
  qed (simp add: detail_run_def)
  then obtain me req e r where h: "(me, req, e) \<in> set es" "ax_data req = Some r" "canDecide me r" "explained r c"
    using assms by (force simp: decision_init_def)
  from h(3) obtain m where "me = Some m" by (auto simp: canDecide_def split: option.splits)
  with h(1,3) have "(Some m, req, e) \<in> set es" "me_is_approver m" "ar_state r = ''PENDING''" "ar_user r \<noteq> me_user m"
    by (simp_all add: canDecide_def)
  with h(2,4) show ?thesis unfolding explained_def by blast
qed

definition ex_me :: Whoami where
  "ex_me = \<lparr>me_user = ''ann'', me_email = '''', me_roles = [], me_traits = [], me_active_elevated_roles = [], me_is_approver = True,
     me_effective_access = [], me_note = ''''\<rparr>"

definition ex_request :: AccessRequest where
  "ex_request = \<lparr>ar_id = ''r1'', ar_user = ''bob'', ar_roles = [''dev''], ar_resource_ids = None, ar_reason = ''fix'', ar_state = ''PENDING'',
     ar_created = ''c'', ar_expires = ''e'', ar_resolve_reason = None, ar_reviews = None, ar_reviews_detail = None, ar_annotations = None,
     ar_tsh_login_command = None, ar_tsh_status_command = None\<rparr>"

theorem detail_decisions_witness:
  "let es = map (\<lambda>e. (Some ex_me, access_settle 0 (Inr ex_request) access_init, e)) [VerbClick Deny, ReasonTyped '' no '', ConfirmClick ex_request]
   in \<exists>me req e r v reason. (Some me, req, e) \<in> set es \<and> ax_data req = Some r \<and> ar_user r \<noteq> me_user me \<and>
     decision_call ex_request Deny '' no '' = decision_call r v reason"
proof -
  let ?es = "map (\<lambda>e. (Some ex_me, access_settle 0 (Inr ex_request) access_init, e)) [VerbClick Deny, ReasonTyped '' no '', ConfirmClick ex_request]"
  have "canDecide (Some ex_me) ex_request" by (simp add: canDecide_def ex_me_def ex_request_def)
  then have "decision_call ex_request Deny '' no '' \<in> set (dc_sent (detail_run (\<lambda>t. t) ?es decision_init))"
    by (simp add: detail_run_def detail_do_def request_detail_view_def request_detail_def access_init_def Let_def decision_init_def
        confirm_disabled_def action_start_def action_init_def trim_def is_ws_def code_of_def)
  from detail_decisions [OF this] show ?thesis unfolding Let_def by blast
qed

text \<open>One decision at a time: a second confirmation while one is running sends nothing.\<close>

lemma decision_exclusive:
  assumes "dc_job (decision_do (ConfirmClick r) d) \<noteq> None" and "dc_job d = None"
  shows "decision_do (ConfirmClick r') (decision_do (ConfirmClick r) d) = decision_do (ConfirmClick r) d"
  using assms by (auto simp: confirm_disabled_def split: option.splits if_splits dest: action_startD)

section \<open>The queue of approvals\<close>

definition oldest_first :: "(string \<Rightarrow> string \<Rightarrow> int) \<Rightarrow> AccessRequest list \<Rightarrow> AccessRequest list" where
  "oldest_first lc rs = js_sort (\<lambda>a b. lc (ar_created a) (ar_created b)) rs"

record approvals =
  av_open :: "string option"
  av_notice :: string

definition approvals_init :: approvals where
  "approvals_init = \<lparr>av_open = None, av_notice = ''''\<rparr>"

definition open_click :: "AccessRequest \<Rightarrow> approvals \<Rightarrow> approvals" where
  "open_click r s = s\<lparr>av_open := (if av_open s = Some (ar_id r) then None else Some (ar_id r))\<rparr>"

text \<open>\<open>onDone\<close> also reloads the queue, at once and two seconds later.\<close>

definition approvals_done :: "string \<Rightarrow> approvals \<Rightarrow> AccessRequest list access \<Rightarrow> approvals \<times> AccessRequest list access" where
  "approvals_done message s queue =
     (s\<lparr>av_notice := message, av_open := None\<rparr>, access_act (Again ''/access/approvals'') queue)"

record approval_row =
  aw_user :: string
  aw_link :: string
  aw_roles :: string
  aw_id :: string
  aw_reason :: string
  aw_requested :: string
  aw_until :: string
  aw_button :: string
  aw_controls :: "AccessRequest option"

definition approval_row :: "(string \<Rightarrow> string) \<Rightarrow> approvals \<Rightarrow> AccessRequest \<Rightarrow> approval_row" where
  "approval_row toLocale s r =
     (let opened = (av_open s = Some (ar_id r)) in
      \<lparr>aw_user = ar_user r, aw_link = ''/access/requests/'' @ ar_id r, aw_roles = join '', '' (ar_roles r), aw_id = take 8 (ar_id r),
       aw_reason = ar_reason r, aw_requested = dateTime toLocale (Some (ar_created r)), aw_until = dateTime toLocale (Some (ar_expires r)),
       aw_button = (if opened then ''Close'' else ''Decide''), aw_controls = (if opened then Some r else None)\<rparr>)"

datatype approvals_body = QueueLoading | QueueTable "approval_row list" | QueueEmpty

datatype approvals_view =
    NotApprover string
  | DecidedInTeleport
  | Queue string string string approvals_body

definition approvals_view ::
  "(string \<Rightarrow> string \<Rightarrow> int) \<Rightarrow> (string \<Rightarrow> string) \<Rightarrow> Whoami option \<Rightarrow> AccessRequest list access \<Rightarrow> approvals \<Rightarrow> approvals_view" where
  "approvals_view lc toLocale me queue s =
     (if (case me of None \<Rightarrow> False | Some m \<Rightarrow> \<not> me_is_approver m)
      then NotApprover ''You do not hold an approver role. Requests you make yourself are under My requests.''
      else if ax_status queue = 403
      then NotApprover (''Your account cannot review other people'' @ RSQUO @ ''s requests.'')
      else if ax_status queue = 501 then DecidedInTeleport
      else
        let requests = oldest_first lc (nullish (ax_data queue) []) in
        Queue (show_nat (length requests) @ '' pending'') (ax_error queue) (av_notice s)
          (if ax_loading queue \<and> ax_data queue = None then QueueLoading
           else if requests \<noteq> [] then QueueTable (map (approval_row toLocale s) requests) else QueueEmpty))"

text \<open>With distinct request ids at most one row of the queue has its controls open.\<close>

lemma one_open_row:
  assumes "distinct (map ar_id rs)"
  shows "length (filter (\<lambda>x. aw_controls x \<noteq> None) (map (approval_row toLocale s) rs)) \<le> 1"
proof -
  have c: "(\<exists>y. aw_controls (approval_row toLocale s r) = Some y) = (av_open s = Some (ar_id r))" for r
    by (simp add: approval_row_def Let_def)
  have "length (filter (\<lambda>r. av_open s = Some (ar_id r)) rs) \<le> 1" using assms
  proof (induction rs)
    case (Cons r rs)
    have "filter (\<lambda>x. av_open s = Some (ar_id x)) rs = []" if "av_open s = Some (ar_id r)"
      using that Cons.prems by (auto simp: filter_empty_conv)
    with Cons show ?case by auto
  qed simp
  then show ?thesis by (simp add: filter_map c o_def)
qed

section \<open>The frame of the access section\<close>

datatype access_page = MyAccessPage | RolesPage | RolePage string | RequestPage | RequestsPage | RequestDetailPage string | ApprovalsPage | NoSuchPage

text \<open>The routes below \<open>/access\<close>, by the segments of the path.\<close>

fun access_route :: "string list \<Rightarrow> access_page" where
  "access_route [] = MyAccessPage"
| "access_route [a] =
     (if a = ''roles'' then RolesPage else if a = ''request'' then RequestPage else if a = ''requests'' then RequestsPage
      else if a = ''approvals'' then ApprovalsPage else NoSuchPage)"
| "access_route [a, b] = (if a = ''roles'' then RolePage b else if a = ''requests'' then RequestDetailPage b else NoSuchPage)"
| "access_route _ = NoSuchPage"

datatype access_frame =
    FrameLoading
  | FrameUnavailable string string
  | FramePages "string option" "(string \<times> string) list"

definition access_tabs :: "Whoami option \<Rightarrow> (string \<times> string) list" where
  "access_tabs me =
     [('''', ''My access''), (''roles'', ''Roles''), (''request'', ''Request''), (''requests'', ''My requests'')] @
     (case me of Some m \<Rightarrow> if me_is_approver m then [(''approvals'', ''Approvals'')] else [] | None \<Rightarrow> [])"

text \<open>The first component says whether the heading offers a new request.\<close>

definition access_frame :: "Whoami access \<Rightarrow> bool \<times> access_frame" where
  "access_frame me =
     (ax_data me \<noteq> None,
      if ax_loading me \<and> ax_data me = None then FrameLoading
      else if ax_status me = 503 then FrameUnavailable ''Teleport access is not set up here''
        ''The access portal API is not configured for this workspace. Run make teleport-up and make teleport-portal-forward, then restart the backend.''
      else if ax_status me = 403 then FrameUnavailable ''No Teleport identity''
        ''Your account is not mapped to a Teleport user. Ask a platform administrator to add the mapping.''
      else FramePages (if ax_error me \<noteq> [] \<and> ax_data me = None then Some (ax_error me) else None) (access_tabs (ax_data me)))"

text \<open>The tab of the approvals is offered to approvers only, and only while their identity is known.\<close>

lemma approvals_tab: "(''approvals'', ''Approvals'') \<in> set (access_tabs me) \<longleftrightarrow> (\<exists>m. me = Some m \<and> me_is_approver m)"
  by (auto simp: access_tabs_def split: option.split)

end
