(* ===== verification/PortalRoles.thy ===== *)
theory PortalRoles
  imports PortalRequests
begin

text \<open>
  The pages that show what a person has and can ask for: \<open>pages/access/my-access.tsx\<close> and \<open>pages/access/roles.tsx\<close>. They only show what their hooks hold;
  what is modelled is the selection, the order and the texts.
\<close>

section \<open>My access\<close>

definition sorted_grants :: "(string \<Rightarrow> string \<Rightarrow> int) \<Rightarrow> Whoami \<Rightarrow> (string \<times> string) list" where
  "sorted_grants lc me = js_sort (\<lambda>a b. lc (fst a) (fst b)) (me_active_elevated_roles me)"

definition live_requests :: "AccessRequest list \<Rightarrow> AccessRequest list" where
  "live_requests rs = filter (\<lambda>r. truthy (ar_tsh_login_command r)) rs"

record access_row =
  xr_link :: string
  xr_name :: string
  xr_description :: "string option"
  xr_grants :: "string list"
  xr_logins :: string
  xr_session :: string

definition access_row :: "RoleSummary \<Rightarrow> access_row" where
  "access_row r =
     \<lparr>xr_link = ''/access/roles/'' @ encodeURIComponent (ro_name r), xr_name = ro_name r, xr_description = ro_description r,
      xr_grants = (if grantsOf r = [] then [''no infrastructure access''] else grantsOf r),
      xr_logins = or_dash (join '', '' (nullish (ro_logins r) [] @ nullish (ro_db_users r) [] @ nullish (ro_kubernetes_groups r) [])),
      xr_session = nullish (ro_max_session_ttl r) EMDASH\<rparr>"

record my_access =
  my_title :: string
  my_text :: string
  my_status :: string
  my_grants :: "(string \<times> string) list"
  my_live :: "(string \<times> string \<times> string) list"
  my_count :: string
  my_rows :: "access_row list"

text \<open>\<^const>\<open>None\<close> is the loading screen. An empty list of grants is shown as a box of its own.\<close>

definition my_access ::
  "(string \<Rightarrow> string \<Rightarrow> int) \<Rightarrow> (string \<Rightarrow> string) \<Rightarrow> (string \<Rightarrow> int option) \<Rightarrow> int \<Rightarrow> Whoami option \<Rightarrow> AccessRequest list access \<Rightarrow> my_access option" where
  "my_access lc toLocale dateParse now who approved =
     map_option (\<lambda>me.
       \<lparr>my_title = ''You are '' @ me_user me @ (if me_email me = [] then '''' else '' '' @ MIDDOT @ '' '' @ me_email me),
        my_text = ''Standing roles: '' @ str_or (join '', '' (me_roles me)) ''none'' @ ''. '' @ me_note me,
        my_status = (if me_is_approver me then ''approver'' else ''requester''),
        my_grants = map (\<lambda>(role, until). (role,
            ''Expires in '' @ expiresIn dateParse now (Some until) @ '' '' @ MIDDOT @ '' '' @ dateTime toLocale (Some until)))
          (sorted_grants lc me),
        my_live = map (\<lambda>r. (join '', '' (ar_roles r) @ '' '' @ MIDDOT @ '' until '' @ dateTime toLocale (Some (ar_expires r)),
            nullish (ar_tsh_login_command r) (tshLogin (ar_id r)), ''tsh login for '' @ join '', '' (ar_roles r)))
          (live_requests (nullish (ax_data approved) [])),
        my_count = show_nat (length (me_effective_access me)) @ '' roles'',
        my_rows = map access_row (me_effective_access me)\<rparr>) who"

text \<open>Nothing is lost by sorting, and a command is only shown for a request that has one.\<close>

lemma grants_complete: "mset (sorted_grants lc me) = mset (me_active_elevated_roles me)"
  by (simp add: sorted_grants_def)

lemma live_has_command: "r \<in> set (live_requests rs) \<longleftrightarrow> r \<in> set rs \<and> truthy (ar_tsh_login_command r)"
  by (auto simp: live_requests_def)

text \<open>A grant whose time is over but that the server still lists reads "Expires in expired".\<close>

lemma expired_grant_text:
  "dateParse t = Some d \<Longrightarrow> t \<noteq> [] \<Longrightarrow> d \<le> now \<Longrightarrow> ''Expires in '' @ expiresIn dateParse now (Some t) = ''Expires in expired''"
  by (simp add: expiresIn_def)

section \<open>The roles\<close>

text \<open>\<open>new Map(rows)\<close>: of two rows for one role the later one counts.\<close>

definition byName :: "RequestableRole list \<Rightarrow> string \<Rightarrow> RequestableRole option" where
  "byName rs n = map_of (rev (map (\<lambda>r. (rr_role r, r)) rs)) n"

definition roles_shown :: "search_params \<Rightarrow> RequestableRole list \<Rightarrow> RoleSummary list \<Rightarrow> RoleSummary list" where
  "roles_shown params requestable roles =
     (let query = nullish (map_of params ''q'') ''''; only = (map_of params ''requestable'' = Some ''1'') in
      filter (\<lambda>r. (\<not> only \<or> byName requestable (ro_name r) \<noteq> None) \<and>
          str_includes (toLowerCase query) (toLowerCase (ro_name r @ '' '' @ nullish (ro_description r) ''''))) roles)"

record role_row =
  rl_link :: string
  rl_name :: string
  rl_description :: "string option"
  rl_grants :: "string list"
  rl_tone :: string
  rl_label :: string
  rl_time_box :: string
  rl_request :: "string option"

definition request_link :: "string \<Rightarrow> string" where
  "request_link n = ''/access/request?roles='' @ encodeURIComponent n"

definition time_box :: "RequestableRole option \<Rightarrow> RoleSummary \<Rightarrow> string" where
  "time_box rr r =
     (case rr of Some x \<Rightarrow> nullish (rr_ttl_cap x) (nullish (ro_max_session_ttl r) EMDASH)
      | None \<Rightarrow> nullish (ro_max_session_ttl r) EMDASH)"

definition role_row :: "RequestableRole list \<Rightarrow> RoleSummary \<Rightarrow> role_row" where
  "role_row requestable r =
     (let rr = byName requestable (ro_name r) in
      \<lparr>rl_link = ''/access/roles/'' @ encodeURIComponent (ro_name r), rl_name = ro_name r, rl_description = ro_description r,
       rl_grants = grantsOf r, rl_tone = predictionTone (map_option rr_prediction rr), rl_label = predictionLabel (map_option rr_prediction rr),
       rl_time_box = time_box rr r, rl_request = (if rr = None then None else Some (request_link (ro_name r)))\<rparr>)"

datatype roles_body = RolesLoading | RolesTable "role_row list" | RolesEmpty

definition roles_view ::
  "search_params \<Rightarrow> RoleSummary list access \<Rightarrow> RequestableRole list access \<Rightarrow> string \<times> string \<times> roles_body" where
  "roles_view params roles requestable =
     (let rr = nullish (ax_data requestable) []; ls = roles_shown params rr (nullish (ax_data roles) []) in
      (show_nat (length ls) @ '' roles'', str_or (ax_error roles) (ax_error requestable),
       if ax_loading roles \<and> ax_data roles = None then RolesLoading
       else if ls \<noteq> [] then RolesTable (map (role_row rr) ls) else RolesEmpty))"

text \<open>What the page of one role receives.\<close>

record role_info =
  ri_role :: RoleSummary
  ri_deny :: "(string \<times> json) list option"
  ri_requestable :: bool
  ri_prediction :: "RequestableRole option"

definition role_labels :: "labels option \<Rightarrow> string" where
  "role_labels l = (case l of None \<Rightarrow> EMDASH
     | Some ls \<Rightarrow> join ('' '' @ MIDDOT @ '' '') (map (\<lambda>(k, v). k @ '': '' @ join '', '' v) ls))"

definition listed :: "string \<Rightarrow> string list option \<Rightarrow> string" where
  "listed d xs = (case xs of None \<Rightarrow> EMDASH | Some ys \<Rightarrow> or_dash (join d ys))"

record role_detail =
  rx_name :: string
  rx_description :: "string option"
  rx_tone :: string
  rx_decision :: string
  rx_entries :: "(string \<times> string) list"
  rx_request :: "string option"

definition role_detail :: "role_info \<Rightarrow> role_detail" where
  "role_detail d =
     (let r = ri_role d; p = ri_prediction d; rule = (case p of None \<Rightarrow> None | Some x \<Rightarrow> rr_rule x) in
      \<lparr>rx_name = ro_name r, rx_description = ro_description r,
       rx_tone = predictionTone (map_option rr_prediction p),
       rx_decision = predictionLabel (map_option rr_prediction p) @
         (if truthy rule then '' '' @ MIDDOT @ '' policy rule '' @ nullish rule '''' else ''''),
       rx_entries =
         [(''Time box'', time_box p r), (''Servers'', role_labels (ro_node_labels r)), (''Databases'', role_labels (ro_db_labels r)),
          (''Kubernetes'', role_labels (ro_kubernetes_labels r)), (''Apps'', role_labels (ro_app_labels r)), (''Logins'', listed '', '' (ro_logins r)),
          (''Database users'', or_dash (join '', '' (nullish (ro_db_users r) [] @ map (\<lambda>n. ''db '' @ n) (nullish (ro_db_names r) [])))),
          (''Kubernetes groups'', listed '', '' (ro_kubernetes_groups r)), (''Rules'', listed ''; '' (ro_rules r))] @
         (case nullish (ri_deny d) [] of [] \<Rightarrow> [] | kvs \<Rightarrow> [(''Deny'', stringify (JObj kvs))]),
       rx_request = (if ri_requestable d then Some (request_link (ro_name r)) else None)\<rparr>)"

datatype role_view = RoleLoading | RoleMissing string | RoleShown role_detail

definition role_view :: "role_info access \<Rightarrow> role_view" where
  "role_view role =
     (if ax_loading role \<and> ax_data role = None then RoleLoading
      else (case ax_data role of
        None \<Rightarrow> RoleMissing (str_or (ax_error role) ''This role does not exist or is internal.'')
      | Some d \<Rightarrow> RoleShown (role_detail d)))"

definition role_paths :: "string \<Rightarrow> string \<times> string" where
  "role_paths name = (''/access/roles/'' @ encodeURIComponent name, ''/access/approvers?role='' @ encodeURIComponent name)"

definition approver_entries :: "ApproverInfo \<Rightarrow> (string \<times> string) list" where
  "approver_entries a =
     [(''Policy'', str_or (ap_policy_action a) ''unknown'' @ (if ap_policy_rule a = [] then '''' else '' ('' @ ap_policy_rule a @ '')'')),
      (''Approver roles'', or_dash (join '', '' (ap_approver_roles a))),
      (''Approvers'', str_or (join '', '' (ap_approvers a)) ''nobody holds an approver role yet''),
      (''How'', ''Approvers decide from the Approvals tab, chat, or tctl.'')]"

section \<open>From a role to its request\<close>

text \<open>How \<open>URLSearchParams\<close> reads a query value: plus signs are blanks, percent triplets are bytes, the bytes are UTF-8.\<close>

fun percent_decode :: "string \<Rightarrow> string" where
  "percent_decode (c # a # b # s) =
     (if c = CHR ''%'' then
        (case (hex_val a, hex_val b) of
           (Some x, Some y) \<Rightarrow> char_of (16 * x + y) # percent_decode s
         | _ \<Rightarrow> c # percent_decode (a # b # s))
      else c # percent_decode (a # b # s))"
| "percent_decode [c, a] = [c, a]"
| "percent_decode [c] = [c]"
| "percent_decode [] = []"

definition query_decode :: "string \<Rightarrow> string" where
  "query_decode s = utf8_decode (percent_decode (map (\<lambda>c. if c = CHR ''+'' then CHR '' '' else c) s))"

lemma percent_decode_plain: "c \<noteq> CHR ''%'' \<Longrightarrow> percent_decode (c # s) = c # percent_decode s"
  by (cases s rule: percent_decode.cases) auto

lemma hex_val_upper: "n < 16 \<Longrightarrow> hex_val (upper_hex n) = Some n"
  by (auto simp: hex_val_def code_of_upper_hex Let_def)

lemma percent_decode_percent: "percent_decode (percent b @ s) = b # percent_decode s"
proof -
  have q: "code_of b div 16 < 16" "code_of b mod 16 < 16"
    using code_of_less [of b] by (simp_all add: less_mult_imp_div_less)
  have "16 * (code_of b div 16) + code_of b mod 16 = code_of b" by simp
  with q show ?thesis by (simp add: percent_def hex_val_upper del: mult_div_mod_eq)
qed

lemma percent_decode_percents: "percent_decode (concat (map percent bs) @ s) = bs @ percent_decode s"
  by (induction bs) (simp_all add: percent_decode_percent)

lemma uri_unreserved_utf8: "uri_unreserved c \<Longrightarrow> c \<noteq> CHR ''%'' \<and> utf8_char c = [c]"
  by (auto simp: uri_unreserved_def utf8_char_def is_alnum_def is_alpha_def is_digit_def is_lower_az_def is_upper_az_def code_of_def)

lemma percent_decode_encode: "percent_decode (encodeURIComponent s @ t) = utf8 s @ percent_decode t"
proof (induction s)
  case (Cons c s)
  show ?case
  proof (cases "uri_unreserved c")
    case True
    with Cons uri_unreserved_utf8 [OF True] show ?thesis
      by (simp add: encodeURIComponent_def utf8_def percent_decode_plain)
  next
    case False
    with Cons show ?thesis
      by (simp add: encodeURIComponent_def utf8_def percent_decode_percents)
  qed
qed (simp add: encodeURIComponent_def utf8_def)

lemma query_roundtrip: "query_decode (encodeURIComponent s) = s"
proof -
  have "CHR ''+'' \<notin> set (encodeURIComponent s)"
    using encodeURIComponent_safe [of "CHR ''+''" s]
    by (auto simp: uri_unreserved_def is_alnum_def is_alpha_def is_digit_def is_lower_az_def is_upper_az_def code_of_def)
  then have "map (\<lambda>c. if c = CHR ''+'' then CHR '' '' else c) (encodeURIComponent s) = encodeURIComponent s"
    by (intro map_idI) auto
  then show ?thesis
    using percent_decode_encode [of s "[]"] by (simp add: query_decode_def utf8_roundtrip)
qed

text \<open>Round trip from the list of roles to the request form: following the link of a role, whatever characters its name has, opens the form with exactly that role
  chosen, unless the name contains a comma.\<close>

theorem role_link_roundtrip:
  assumes "rl_request (role_row requestable r) = Some link" and "ro_name r \<noteq> []" and "CHR '','' \<notin> set (ro_name r)"
  shows "\<exists>q. link = ''/access/request?roles='' @ q \<and> rq_roles (request_init (Some (query_decode q))) = [ro_name r] \<and>
    set q \<inter> set ''&#=+'' = {}"
proof -
  let ?q = "encodeURIComponent (ro_name r)"
  have "link = ''/access/request?roles='' @ ?q"
    using assms(1) by (auto simp: role_row_def request_link_def Let_def split: if_splits)
  moreover have "rq_roles (request_init (Some (query_decode ?q))) = [ro_name r]"
    using assms(2,3) by (simp add: request_init_def query_roundtrip split_on_no_sep)
  moreover have "set ?q \<inter> set ''&#=+'' = {}"
  proof -
    have "c \<notin> set ?q" if "c \<in> set ''&#=+''" for c
      using that encodeURIComponent_safe [of c "ro_name r"]
      by (auto simp: uri_unreserved_def is_alnum_def is_alpha_def is_digit_def is_lower_az_def is_upper_az_def code_of_def)
    then show ?thesis by blast
  qed
  ultimately show ?thesis by blast
qed

definition ex_role :: RoleSummary where
  "ex_role = \<lparr>ro_name = ''dev+ops'', ro_description = None, ro_node_labels = None, ro_db_labels = None, ro_kubernetes_labels = None,
     ro_app_labels = None, ro_logins = None, ro_db_users = None, ro_db_names = None, ro_kubernetes_groups = None, ro_can_request_roles = None,
     ro_max_session_ttl = None, ro_rules = None\<rparr>"

theorem role_link_roundtrip_witness:
  "\<exists>q. request_link ''dev+ops'' = ''/access/request?roles='' @ q \<and> rq_roles (request_init (Some (query_decode q))) = [''dev+ops'']"
proof -
  have "rl_request (role_row [cap_role ''dev+ops'' ''1h''] ex_role) = Some (request_link ''dev+ops'')"
    by (simp add: role_row_def byName_def cap_role_def ex_role_def Let_def)
  from role_link_roundtrip [OF this] show ?thesis by (auto simp: ex_role_def)
qed

end
