(* ===== verification/PortalEnvironments.thy ===== *)
theory PortalEnvironments
  imports PortalApi PaAgent
begin

text \<open>
  The pages for preview environments (\<open>packages/portal/src/pages/environments.tsx\<close>), with the two form fields they share with the releases (\<open>DeploymentFields\<close> of
  \<open>ui.tsx\<close>) and the operation timeline. A call and the refresh that follows it are two jobs of the running action; the rows come from the provider.
\<close>

section \<open>The list\<close>

definition env_matches :: "search_params \<Rightarrow> Environment \<Rightarrow> bool" where
  "env_matches params e =
     (let query = nullish (map_of params ''q'') ''''; status = nullish (map_of params ''status'') ''all'' in
      (status = ''all'' \<or> (if status = ''attention'' then en_status e \<in> set [''failed'', ''deleting''] else en_status e = status)) \<and>
      str_includes (toLowerCase query)
        (toLowerCase (en_id e @ '' '' @ en_owner e @ '' '' @ en_provider e @ '' '' @ en_revision e)))"

definition env_filtered :: "search_params \<Rightarrow> Environment list \<Rightarrow> Environment list" where
  "env_filtered params es = filter (env_matches params) es"

definition env_filter :: "string \<Rightarrow> string \<Rightarrow> search_params \<Rightarrow> search_params" where
  "env_filter key value ps = params_filter key (if value = ''all'' then '''' else value) ps"

definition op_of :: "Operation list \<Rightarrow> Environment \<Rightarrow> Operation option" where
  "op_of ops e = find (\<lambda>o'. op_id o' = en_operationId e) ops"

definition launch_time :: "(string \<Rightarrow> int option) \<Rightarrow> string \<Rightarrow> Operation option \<Rightarrow> string" where
  "launch_time dateParse milestone o' =
     duration dateParse (Option.bind o' op_startedAt) (Option.bind o' (\<lambda>x. map_of (op_timings x) milestone))"

definition launch_kind :: "Operation \<Rightarrow> string" where
  "launch_kind x = (if op_warm x then ''Warm launch'' else ''Cold launch'')"

definition expiry :: "(string \<Rightarrow> string) \<Rightarrow> Environment \<Rightarrow> string" where
  "expiry toLocale e = (if truthy (en_expiresAt e) then dateTime toLocale (en_expiresAt e) else ''Persistent'')"

text \<open>The application is linked only when it is ready and its address is a web address.\<close>

definition open_link :: "(string \<Rightarrow> (string \<times> string) option) \<Rightarrow> Environment \<Rightarrow> string option" where
  "open_link parseUrl e =
     (case safeUrl parseUrl (Some (en_url e)) of
        Some h \<Rightarrow> if en_status e = ''ready'' \<and> h \<noteq> [] then Some h else None
      | None \<Rightarrow> None)"

record env_row =
  ew_link :: string
  ew_id :: string
  ew_line :: string
  ew_status :: string
  ew_phase :: "string option"
  ew_time :: string
  ew_kind :: string
  ew_expires :: string
  ew_open :: "string option"

definition env_row ::
  "(string \<Rightarrow> string) \<Rightarrow> (string \<Rightarrow> int option) \<Rightarrow> (string \<Rightarrow> (string \<times> string) option) \<Rightarrow> Operation list \<Rightarrow> Environment \<Rightarrow> env_row" where
  "env_row toLocale dateParse parseUrl ops e =
     (let x = op_of ops e in
      \<lparr>ew_link = ''/environments/'' @ en_id e, ew_id = en_id e,
       ew_line = en_provider e @ '' / '' @ en_profile e @ '' '' @ MIDDOT @ '' '' @ en_owner e,
       ew_status = en_status e, ew_phase = map_option op_phase x,
       ew_time = launch_time dateParse ''application-ready'' x,
       ew_kind = (case x of Some y \<Rightarrow> launch_kind y | None \<Rightarrow> ''No operation yet''),
       ew_expires = expiry toLocale e, ew_open = open_link parseUrl e\<rparr>)"

datatype env_body = EnvsLoading | EnvsTable "env_row list" | EnvsEmpty bool | EnvsNothing

definition env_list_view ::
  "(string \<Rightarrow> string) \<Rightarrow> (string \<Rightarrow> int option) \<Rightarrow> (string \<Rightarrow> (string \<times> string) option) \<Rightarrow> search_params \<Rightarrow> platform \<Rightarrow> string \<times> env_body" where
  "env_list_view toLocale dateParse parseUrl params s =
     (let shown = env_filtered params (pf_environments s) in
      (show_nat (length shown) @ '' environments'',
       if pf_loading s then EnvsLoading
       else if shown \<noteq> [] then EnvsTable (map (env_row toLocale dateParse parseUrl (pf_operations s)) shown)
       else if pf_error s = [] then EnvsEmpty (pf_environments s \<noteq> []) else EnvsNothing))"

section \<open>Fields and their patterns\<close>

definition form_name_char :: "char \<Rightarrow> bool" where
  "form_name_char c \<longleftrightarrow> is_lower_az c \<or> is_digit c \<or> c = CHR ''-''"

definition form_image_char :: "char \<Rightarrow> bool" where
  "form_image_char c \<longleftrightarrow> is_alnum c \<or> c \<in> set ''_./:-''"

definition name_pattern :: rx where
  "name_pattern = RSeq (RChr is_lower_az) (rx_upto 39 (RChr form_name_char))"

definition image_pattern :: rx where
  "image_pattern = rx_seqs [rx_plus (RChr form_image_char), rx_lit ''@sha256:'', rx_times 64 (RChr is_hex_lower)]"

definition revision_pattern :: rx where
  "revision_pattern = RSeq (rx_times 7 (RChr is_hex_lower)) (rx_upto 57 (RChr is_hex_lower))"

text \<open>A required field with a pattern: not empty, and the pattern matches all of it.\<close>

definition field_ok :: "rx \<Rightarrow> string \<Rightarrow> bool" where
  "field_ok r s \<longleftrightarrow> s \<noteq> [] \<and> rx_full r s"

lemma field_patterns:
  "field_ok name_pattern s = name_ok s" "field_ok image_pattern s = image_ok s" "field_ok revision_pattern s = revision_ok s"
proof -
  have n: "form_name_char = name_char" by (rule ext) (simp add: form_name_char_def name_char_def)
  show "field_ok name_pattern s = name_ok s"
    by (cases s) (auto simp: field_ok_def name_pattern_def rx_full_iff lang_seq_chr lang_upto_chr name_ok_def n simp del: lang.simps)
  have i: "form_image_char = image_char" by (rule ext) (simp add: form_image_char_def image_char_def)
  have ne: "\<not> rx_full image_pattern []"
    by (simp add: image_pattern_def rx_plus_def)
  then show "field_ok image_pattern s = image_ok s"
    by (auto simp: field_ok_def image_ok_def image_pattern_def i)
  have "(\<exists>a b. s = a @ b \<and> (list_all is_hex_lower a \<and> length a = 7) \<and> list_all is_hex_lower b \<and> length b \<le> 57) \<longleftrightarrow>
      7 \<le> length s \<and> length s \<le> 64 \<and> list_all is_hex_lower s" (is "?l \<longleftrightarrow> ?r")
  proof
    assume ?r
    then show ?l by (intro exI [of _ "take 7 s"] exI [of _ "drop 7 s"]) (auto simp: list_all_iff dest: in_set_takeD in_set_dropD)
  qed auto
  then have "rx_full revision_pattern s \<longleftrightarrow> 7 \<le> length s \<and> length s \<le> 64 \<and> list_all is_hex_lower s"
    by (simp add: revision_pattern_def rx_full_iff lang_upto_chr lang_times_chr)
  then show "field_ok revision_pattern s = revision_ok s"
    by (auto simp: field_ok_def revision_ok_def)
qed

text \<open>The forms of the portal accept exactly the names, image digests and revisions that the platform agent's tools accept: the patterns of the two programs,
  written separately, mean the same.\<close>

theorem form_fields_agree:
  "field_ok name_pattern s = name_ok s \<and> field_ok image_pattern s = image_ok s \<and> field_ok revision_pattern s = revision_ok s"
  by (simp add: field_patterns)

section \<open>Creating a preview\<close>

datatype create_job = CreateCall string | CreateRefresh string

record create_page =
  ce_name :: string
  ce_image :: string
  ce_revision :: string
  ce_review :: bool
  ce_action :: action
  ce_attempts :: attempts
  ce_job :: "create_job option"
  ce_sent :: "portal_call list"
  ce_navigated :: "string option"

definition create_init :: create_page where
  "create_init = \<lparr>ce_name = '''', ce_image = '''', ce_revision = '''', ce_review = False, ce_action = action_init,
     ce_attempts = attempts_init, ce_job = None, ce_sent = [], ce_navigated = None\<rparr>"

definition create_body :: "create_page \<Rightarrow> json" where
  "create_body s = JObj [(''id'', JStr (ce_name s)), (''image'', JStr (ce_image s)), (''revision'', JStr (ce_revision s)),
     (''profile'', JStr ''preview''), (''warm'', JBool True)]"

definition create_submit :: "(nat \<Rightarrow> string) \<Rightarrow> create_page \<Rightarrow> create_page" where
  "create_submit uuid s =
     (case action_start (ce_action s) of
        None \<Rightarrow> s
      | Some a \<Rightarrow>
          (let att = next_attempt uuid (stringify (create_body s)) (ce_attempts s) in
           s\<lparr>ce_action := a, ce_job := Some (CreateCall (ce_name s)), ce_attempts := att,
             ce_sent := ce_sent s @ [\<lparr>pc_path = ''/environments'', pc_method = ''POST'', pc_body = Some (create_body s),
               pc_key = Some (attempt_key att)\<rparr>]\<rparr>))"

text \<open>The form can only be submitted when the browser finds its fields valid; while a call runs the review's buttons are disabled. \<open>CreateRefreshed\<close> is the end of
  \<open>await refresh()\<close>, which does not fail.\<close>

datatype create_event =
    TypeName string
  | TypeImage string
  | TypeRevision string
  | FormSubmit
  | EditDetails
  | CreateClick
  | CreateAnswer "json outcome"
  | CreateRefreshed

fun create_do :: "(nat \<Rightarrow> string) \<Rightarrow> create_event \<Rightarrow> create_page \<Rightarrow> create_page" where
  "create_do uuid (TypeName t) s = (if ce_review s then s else s\<lparr>ce_name := t\<rparr>)"
| "create_do uuid (TypeImage t) s = (if ce_review s then s else s\<lparr>ce_image := t\<rparr>)"
| "create_do uuid (TypeRevision t) s = (if ce_review s then s else s\<lparr>ce_revision := t\<rparr>)"
| "create_do uuid FormSubmit s =
     (if \<not> ce_review s \<and> field_ok name_pattern (ce_name s) \<and> field_ok image_pattern (ce_image s) \<and> field_ok revision_pattern (ce_revision s)
      then s\<lparr>ce_review := True\<rparr> else s)"
| "create_do uuid EditDetails s = (if ce_review s \<and> \<not> ac_busy (ce_action s) then s\<lparr>ce_review := False\<rparr> else s)"
| "create_do uuid CreateClick s = (if ce_review s \<and> \<not> ac_busy (ce_action s) then create_submit uuid s else s)"
| "create_do uuid (CreateAnswer out) s =
     (case ce_job s of
        Some (CreateCall n) \<Rightarrow>
          (case out of Inr _ \<Rightarrow> s\<lparr>ce_job := Some (CreateRefresh n)\<rparr>
           | Inl e \<Rightarrow> s\<lparr>ce_job := None, ce_action := action_finish (Some e) (ce_action s)\<rparr>)
      | _ \<Rightarrow> s)"
| "create_do uuid CreateRefreshed s =
     (case ce_job s of
        Some (CreateRefresh n) \<Rightarrow>
          s\<lparr>ce_job := None, ce_action := action_finish None (ce_action s), ce_navigated := Some (''/environments/'' @ n)\<rparr>
      | _ \<Rightarrow> s)"

definition create_run :: "(nat \<Rightarrow> string) \<Rightarrow> create_event list \<Rightarrow> create_page \<Rightarrow> create_page" where
  "create_run uuid es s = foldl (\<lambda>t e. create_do uuid e t) s es"

fun create_body_ok :: "json option \<Rightarrow> bool" where
  "create_body_ok (Some (JObj [(k1, JStr n), (k2, JStr i), (k3, JStr r), (k4, JStr p), (k5, w)])) =
     (k1 = ''id'' \<and> name_ok n \<and> k2 = ''image'' \<and> image_ok i \<and> k3 = ''revision'' \<and> revision_ok r \<and>
      k4 = ''profile'' \<and> p = ''preview'' \<and> k5 = ''warm'' \<and> w = JBool True)"
| "create_body_ok _ = False"

definition create_ok :: "(nat \<Rightarrow> string) \<Rightarrow> create_page \<Rightarrow> bool" where
  "create_ok uuid s \<longleftrightarrow>
     (ce_job s \<noteq> None) = ac_lock (ce_action s) \<and> ac_busy (ce_action s) = ac_lock (ce_action s) \<and>
     (ac_lock (ce_action s) \<longrightarrow> ce_review s) \<and>
     (ce_review s \<longrightarrow> name_ok (ce_name s) \<and> image_ok (ce_image s) \<and> revision_ok (ce_revision s)) \<and>
     list_all (\<lambda>c. pc_path c = ''/environments'' \<and> pc_method c = ''POST'' \<and> pc_key c \<noteq> None \<and> create_body_ok (pc_body c)) (ce_sent s) \<and>
     attempts_ok uuid (keyed_log (ce_sent s)) (ce_attempts s)"

lemma create_init_ok: "create_ok uuid create_init"
  by (simp add: create_ok_def create_init_def keyed_log_def call_text_def)

lemma form_submit_ok: "create_ok uuid s \<Longrightarrow> create_ok uuid (create_do uuid FormSubmit s)"
  by (auto simp: create_ok_def field_patterns)

lemma create_submit_ok:
  assumes ok: "create_ok uuid s" and "inj uuid" and rev: "ce_review s"
  shows "create_ok uuid (create_submit uuid s)"
proof (cases "action_start (ce_action s)")
  case None
  with ok show ?thesis by (simp add: create_submit_def)
next
  case (Some a)
  let ?at = "next_attempt uuid (stringify (create_body s)) (ce_attempts s)"
  from ok assms(2) have "attempts_ok uuid (keyed_log (ce_sent s) @ [(stringify (create_body s), attempt_key ?at)]) ?at"
    by (intro attempts_ok_next) (simp_all add: create_ok_def create_body_def)
  then show ?thesis
    using ok rev Some action_startD [OF Some]
    by (simp add: create_submit_def Let_def create_ok_def keyed_log_def call_text_def) (simp add: create_body_def)
qed

lemma create_do_ok: "create_ok uuid s \<Longrightarrow> inj uuid \<Longrightarrow> create_ok uuid (create_do uuid e s)"
proof (cases e)
  case FormSubmit
  assume "create_ok uuid s"
  with FormSubmit form_submit_ok show ?thesis by blast
next
  case CreateClick
  assume "create_ok uuid s" "inj uuid"
  with CreateClick create_submit_ok show ?thesis by simp
qed (auto simp: create_ok_def split: create_job.split option.split sum.split)

lemma create_run_ok: "create_ok uuid s \<Longrightarrow> inj uuid \<Longrightarrow> create_ok uuid (create_run uuid es s)"
  by (induction es arbitrary: s) (auto simp: create_run_def create_do_ok)

text \<open>Over any history of the page that creates a preview, with random keys that never repeat: every creation it asks for has a name, digest and revision the platform
  accepts, asks for the preview profile, and carries an idempotency key; two of them under one key are the same request, so pressing the button again after a lost answer cannot create
  a second environment or change the first; and no call starts while one is running.\<close>

theorem create_idempotent:
  assumes "inj uuid" and "s = create_run uuid es create_init" and "c \<in> set (ce_sent s)" and "c' \<in> set (ce_sent s)"
  shows "pc_path c = ''/environments'' \<and> create_body_ok (pc_body c) \<and> pc_key c \<noteq> None \<and>
    (pc_key c = pc_key c' \<longrightarrow> call_text c = call_text c') \<and>
    (ce_job s \<noteq> None \<longrightarrow> create_do uuid CreateClick s = s)"
proof -
  have ok: "create_ok uuid s" unfolding assms(2) by (rule create_run_ok [OF create_init_ok assms(1)])
  then have "attempts_ok uuid (keyed_log (ce_sent s)) (ce_attempts s)" by (simp add: create_ok_def)
  from keyed_log_same [OF this assms(3,4)] ok assms(3) show ?thesis
    by (auto simp: create_ok_def list_all_iff)
qed

definition ex_image :: string where
  "ex_image = ''a'' @ ''@sha256:'' @ replicate 64 (CHR ''0'')"

lemma ex_image_ok: "image_ok ex_image"
proof -
  have "''a'' \<in> lang (rx_plus (RChr image_char))"
    unfolding lang_plus_chr by (simp add: image_char_def is_alnum_def is_alpha_def is_lower_az_def code_of_def)
  moreover have "replicate 64 (CHR ''0'') \<in> lang (rx_times 64 (RChr is_hex_lower))"
    unfolding lang_times_chr by (simp add: list_all_iff is_hex_lower_def is_digit_def code_of_def)
  ultimately show ?thesis
    unfolding image_ok_def rx_full_iff ex_image_def rx_seqs.simps lang.simps lang_rx_lit by blast
qed

theorem create_idempotent_witness:
  "let s = create_run show_nat [TypeName ''pr-1'', TypeImage ex_image, TypeRevision ''abcdef0'', FormSubmit, CreateClick,
        CreateAnswer (Inl (OtherError ''lost'')), CreateClick] create_init
   in length (ce_sent s) = 2 \<and> pc_key (hd (ce_sent s)) \<noteq> None \<and>
      call_text (hd (ce_sent s)) = call_text (last (ce_sent s))"
proof -
  have inj: "inj show_nat" by (rule injI) (rule show_nat_inj)
  define s where "s = create_run show_nat [TypeName ''pr-1'', TypeImage ex_image, TypeRevision ''abcdef0'', FormSubmit, CreateClick,
    CreateAnswer (Inl (OtherError ''lost'')), CreateClick] create_init"
  have f: "name_ok ''pr-1''" "revision_ok ''abcdef0''"
    by (simp_all add: name_ok_def name_char_def revision_ok_def is_hex_lower_def is_lower_az_def is_digit_def code_of_def)
  have e: "length (ce_sent s) = 2" "pc_key (hd (ce_sent s)) = pc_key (last (ce_sent s))"
    unfolding s_def create_run_def create_init_def
    by (simp_all add: field_patterns f ex_image_ok create_submit_def action_start_def action_init_def action_finish_def Let_def next_attempt_def
        create_body_def attempts_init_def attempt_key_def)
  then have "hd (ce_sent s) \<in> set (ce_sent s)" "last (ce_sent s) \<in> set (ce_sent s)" by (cases "ce_sent s"; simp)+
  from create_idempotent [OF inj s_def this] e show ?thesis unfolding s_def [symmetric] by (simp add: Let_def)
qed

section \<open>One environment: extending, retrying, deleting\<close>

datatype mutate_job = MutateCall string | MutateRefresh string

datatype delete_job = AskConfirm int | Destroy | DestroyRefresh

record detail_page =
  ed_action :: action
  ed_deletion :: action
  ed_confirmation :: "(string \<times> int) option"
  ed_show :: bool
  ed_job :: "mutate_job option"
  ed_djob :: "delete_job option"
  ed_sent :: "portal_call list"

definition detail_init :: detail_page where
  "detail_init = \<lparr>ed_action = action_init, ed_deletion = action_init, ed_confirmation = None, ed_show = False,
     ed_job = None, ed_djob = None, ed_sent = []\<rparr>"

definition post :: "string \<Rightarrow> json \<Rightarrow> portal_call" where
  "post path body = \<lparr>pc_path = path, pc_method = ''POST'', pc_body = Some body, pc_key = None\<rparr>"

definition mutate :: "Environment \<Rightarrow> string \<Rightarrow> json \<Rightarrow> string \<Rightarrow> detail_page \<Rightarrow> detail_page" where
  "mutate env path body message s =
     (case action_start (ed_action s) of
        None \<Rightarrow> s
      | Some a \<Rightarrow> s\<lparr>ed_action := a, ed_job := Some (MutateCall message),
          ed_sent := ed_sent s @ [post (''/environments/'' @ en_id env @ ''/'' @ path) body]\<rparr>)"

definition gone :: "Environment \<Rightarrow> bool" where
  "gone env \<longleftrightarrow> en_status env \<in> set [''deleted'', ''deleting'']"

definition confirm_call :: "Environment \<Rightarrow> portal_call" where
  "confirm_call env = post (''/environments/'' @ en_id env @ ''/confirm-delete'') (JObj [])"

definition destroy_call :: "Environment \<Rightarrow> string \<Rightarrow> portal_call" where
  "destroy_call env k = post (''/environments/'' @ en_id env @ ''/destroy'') (JObj [(''confirmation'', JStr k)])"

text \<open>The red button of the dialog: a first click asks for a confirmation, a click with the confirmation of the generation shown destroys.\<close>

definition deletion_click :: "Environment \<Rightarrow> detail_page \<Rightarrow> detail_page" where
  "deletion_click env s =
     (case action_start (ed_deletion s) of
        None \<Rightarrow> s
      | Some a \<Rightarrow>
          (case ed_confirmation s of
             Some (k, g) \<Rightarrow>
               if g \<noteq> en_generation env
               then s\<lparr>ed_deletion := a, ed_djob := Some (AskConfirm (en_generation env)), ed_sent := ed_sent s @ [confirm_call env]\<rparr>
               else s\<lparr>ed_deletion := a, ed_djob := Some Destroy, ed_sent := ed_sent s @ [destroy_call env k]\<rparr>
           | None \<Rightarrow> s\<lparr>ed_deletion := a, ed_djob := Some (AskConfirm (en_generation env)), ed_sent := ed_sent s @ [confirm_call env]\<rparr>))"

text \<open>The answer to the running deletion call: the id of a confirmation, or the acceptance of the deletion.\<close>

definition deletion_answer :: "string outcome \<Rightarrow> detail_page \<Rightarrow> detail_page" where
  "deletion_answer out s =
     (case (ed_djob s, out) of
        (Some (AskConfirm g), Inr k) \<Rightarrow>
          s\<lparr>ed_confirmation := Some (k, g), ed_djob := None, ed_deletion := action_finish None (ed_deletion s)\<rparr>
      | (Some (AskConfirm _), Inl e) \<Rightarrow> s\<lparr>ed_djob := None, ed_deletion := action_finish (Some e) (ed_deletion s)\<rparr>
      | (Some Destroy, Inr _) \<Rightarrow> s\<lparr>ed_show := False, ed_confirmation := None, ed_djob := Some DestroyRefresh\<rparr>
      | (Some Destroy, Inl e) \<Rightarrow>
          s\<lparr>ed_confirmation := None, ed_djob := None, ed_deletion := action_finish (Some e) (ed_deletion s)\<rparr>
      | _ \<Rightarrow> s)"

datatype detail_event =
    ExtendClick
  | RetryClick
  | DeleteClick
  | DialogDismissed
  | DangerClick
  | MutateAnswer "json outcome"
  | MutateRefreshed
  | DeletionAnswer "string outcome"
  | DeletionRefreshed

fun env_do :: "Environment \<Rightarrow> detail_event \<Rightarrow> detail_page \<Rightarrow> detail_page" where
  "env_do env ExtendClick s =
     (if ac_busy (ed_action s) \<or> gone env \<or> \<not> truthy (en_expiresAt env) then s
      else mutate env ''extend'' (JObj [(''mode'', JStr ''add''), (''minutes'', JInt 5), (''generation'', JInt (en_generation env))])
        ''Preview expiry extended by five minutes.'' s)"
| "env_do env RetryClick s =
     (if ac_busy (ed_action s) \<or> gone env then s
      else mutate env ''redeploy''
        (JObj [(''revision'', JStr (en_revision env)), (''image'', JStr (en_image env)), (''generation'', JInt (en_generation env))])
        ''Deployment retry requested.'' s)"
| "env_do env DeleteClick s =
     (if ac_busy (ed_action s) \<or> gone env then s else s\<lparr>ed_confirmation := None, ed_show := True\<rparr>)"
| "env_do env DialogDismissed s =
     (if \<not> ed_show s \<or> ac_busy (ed_deletion s) then s else s\<lparr>ed_show := False, ed_confirmation := None\<rparr>)"
| "env_do env DangerClick s = (if \<not> ed_show s \<or> ac_busy (ed_deletion s) then s else deletion_click env s)"
| "env_do env (MutateAnswer out) s =
     (case ed_job s of
        Some (MutateCall m) \<Rightarrow>
          (case out of Inr _ \<Rightarrow> s\<lparr>ed_job := Some (MutateRefresh m)\<rparr>
           | Inl e \<Rightarrow> s\<lparr>ed_job := None, ed_action := action_finish (Some e) (ed_action s)\<rparr>)
      | _ \<Rightarrow> s)"
| "env_do env MutateRefreshed s =
     (case ed_job s of
        Some (MutateRefresh m) \<Rightarrow> s\<lparr>ed_job := None, ed_action := action_finish None (action_setNotice m (ed_action s))\<rparr>
      | _ \<Rightarrow> s)"
| "env_do env (DeletionAnswer out) s = deletion_answer out s"
| "env_do env DeletionRefreshed s =
     (case ed_djob s of
        Some DestroyRefresh \<Rightarrow>
          s\<lparr>ed_djob := None, ed_deletion := action_finish None (ed_deletion s),
            ed_action := action_setNotice ''Preview deletion requested. Cleanup progress will appear here.'' (ed_action s)\<rparr>
      | _ \<Rightarrow> s)"

text \<open>A history: each event with the environment the page shows when it happens.\<close>

definition env_run :: "(Environment \<times> detail_event) list \<Rightarrow> detail_page \<Rightarrow> detail_page" where
  "env_run es s = foldl (\<lambda>t (env, e). env_do env e t) s es"

text \<open>
  The confirmation a page holds, and the one it is waiting for, were asked for by a click on the red button while it showed that generation.
\<close>

definition asked :: "(Environment \<times> detail_event) list \<Rightarrow> int \<Rightarrow> (Environment \<times> detail_event) list \<Rightarrow> bool" where
  "asked es g mid \<longleftrightarrow> (\<exists>before env. es = before @ (env, DangerClick) # mid \<and> en_generation env = g)"

definition confirmed :: "(Environment \<times> detail_event) list \<Rightarrow> string \<Rightarrow> int \<Rightarrow> bool" where
  "confirmed es k g \<longleftrightarrow> (\<exists>mid env. asked es g mid \<and> (env, DeletionAnswer (Inr k)) \<in> set mid)"

definition detail_ok :: "(Environment \<times> detail_event) list \<Rightarrow> detail_page \<Rightarrow> bool" where
  "detail_ok es s \<longleftrightarrow>
     (ed_djob s \<noteq> None) = ac_lock (ed_deletion s) \<and> ac_busy (ed_deletion s) = ac_lock (ed_deletion s) \<and>
     (\<forall>k g. ed_confirmation s = Some (k, g) \<longrightarrow> confirmed es k g) \<and>
     (\<forall>g. ed_djob s = Some (AskConfirm g) \<longrightarrow> (\<exists>mid. asked es g mid))"

lemma asked_snoc: "asked es g mid \<Longrightarrow> asked (es @ [x]) g (mid @ [x])"
  unfolding asked_def by auto

lemma asked_now: "en_generation env = g \<Longrightarrow> asked (es @ [(env, DangerClick)]) g []"
  unfolding asked_def by blast

lemma confirmed_snoc: "confirmed es k g \<Longrightarrow> confirmed (es @ [x]) k g"
  unfolding confirmed_def using asked_snoc by fastforce

lemma confirmed_now: "asked es g mid \<Longrightarrow> confirmed (es @ [(env, DeletionAnswer (Inr k))]) k g"
  unfolding confirmed_def using asked_snoc by fastforce

lemma mutate_frame [simp]:
  "ed_djob (mutate env p b m s) = ed_djob s" "ed_deletion (mutate env p b m s) = ed_deletion s"
  "ed_confirmation (mutate env p b m s) = ed_confirmation s"
  by (auto simp: mutate_def split: option.split)

lemma detail_ok_keep:
  assumes "detail_ok es s" and "ed_djob t = ed_djob s" and "ed_deletion t = ed_deletion s"
    and "ed_confirmation t = ed_confirmation s \<or> ed_confirmation t = None"
  shows "detail_ok (es @ [x]) t"
proof -
  have "\<exists>mid. asked (es @ [x]) g mid" if "ed_djob s = Some (AskConfirm g)" for g
    using assms(1) that asked_snoc unfolding detail_ok_def by blast
  with assms confirmed_snoc [of es _ _ x] show ?thesis by (auto simp: detail_ok_def)
qed

lemma deletion_click_ok:
  assumes "detail_ok es s"
  shows "detail_ok (es @ [(env, DangerClick)]) (deletion_click env s)"
proof -
  have old: "\<exists>mid. asked (es @ [(env, DangerClick)]) g mid" if "ed_djob s = Some (AskConfirm g)" for g
    using assms that asked_snoc unfolding detail_ok_def by blast
  have new: "\<exists>mid. asked (es @ [(env, DangerClick)]) (en_generation env) mid"
    using asked_now by blast
  show ?thesis
    using assms old new confirmed_snoc [of es]
    by (auto simp: detail_ok_def deletion_click_def dest!: action_startD split: option.split)
qed

lemma deletion_answer_ok:
  assumes "detail_ok es s"
  shows "detail_ok (es @ [(env, DeletionAnswer out)]) (deletion_answer out s)"
proof -
  have old: "\<exists>mid. asked (es @ [(env, DeletionAnswer out)]) g mid" if "ed_djob s = Some (AskConfirm g)" for g
    using assms that asked_snoc unfolding detail_ok_def by blast
  have new: "confirmed (es @ [(env, DeletionAnswer (Inr k))]) k g" if "ed_djob s = Some (AskConfirm g)" for g k
    using assms that confirmed_now unfolding detail_ok_def by blast
  show ?thesis
    using assms old new confirmed_snoc [of es]
    by (auto simp: detail_ok_def deletion_answer_def split: option.split delete_job.split sum.split)
qed

lemma env_do_ok:
  assumes "detail_ok es s"
  shows "detail_ok (es @ [(env, e)]) (env_do env e s)"
proof (cases e)
  case DangerClick
  with detail_ok_keep [OF assms, of s] deletion_click_ok [OF assms, of env] show ?thesis by simp
next
  case (DeletionAnswer out)
  with deletion_answer_ok [OF assms] show ?thesis by simp
next
  case DeletionRefreshed
  show ?thesis
  proof (cases "ed_djob s = Some DestroyRefresh")
    case True
    with assms DeletionRefreshed confirmed_snoc [of es] show ?thesis by (auto simp: detail_ok_def)
  next
    case False
    then have "env_do env DeletionRefreshed s = s" by (auto split: option.split delete_job.split)
    with DeletionRefreshed detail_ok_keep [OF assms, of s] show ?thesis by simp
  qed
qed (auto intro!: detail_ok_keep [OF assms] split: option.split mutate_job.split sum.split)

lemma env_run_ok: "detail_ok es (env_run es detail_init)"
proof (induction es rule: rev_induct)
  case (snoc x es)
  obtain env e where "x = (env, e)" by (cases x)
  with env_do_ok [OF snoc, of env e] show ?case by (simp add: env_run_def)
qed (simp add: env_run_def detail_ok_def detail_init_def)

lemma env_do_sent:
  "c \<in> set (ed_sent (env_do env e s)) \<Longrightarrow> c \<notin> set (ed_sent s) \<Longrightarrow>
   c = confirm_call env \<or> (\<exists>k. e = DangerClick \<and> ed_confirmation s = Some (k, en_generation env) \<and> c = destroy_call env k) \<or>
   (\<exists>b. c = post (''/environments/'' @ en_id env @ ''/extend'') b) \<or> (\<exists>b. c = post (''/environments/'' @ en_id env @ ''/redeploy'') b)"
proof (cases e)
  case DangerClick
  show "c \<in> set (ed_sent (env_do env e s)) \<Longrightarrow> c \<notin> set (ed_sent s) \<Longrightarrow> ?thesis"
    by (auto simp: DangerClick deletion_click_def split: option.splits if_splits)
qed (auto simp: mutate_def deletion_answer_def split: option.splits if_splits mutate_job.splits delete_job.splits sum.splits)

definition is_destroy :: "portal_call \<Rightarrow> bool" where
  "is_destroy c \<longleftrightarrow> ends_with ''/destroy'' (pc_path c)"

lemma not_destroy [simp]:
  "\<not> is_destroy (confirm_call env)" "\<not> is_destroy (post (p @ ''/extend'') b)" "\<not> is_destroy (post (p @ ''/redeploy'') b)"
  by (auto simp: is_destroy_def confirm_call_def post_def ends_with_def)

text \<open>C13. A preview is deleted in two steps: whatever is clicked and however answers and polls interleave, every destroy call carries a confirmation id that
  came back after an earlier click on the same button, made while the page showed the same generation of the environment, and it is sent by a second click
  on the environment shown then. A change of the environment in between needs a new confirmation.\<close>

theorem deletion_needs_two_clicks:
  assumes "c \<in> set (ed_sent (env_run es detail_init))" and "is_destroy c"
  shows "\<exists>before env1 mid env2 rest k x.
    es = before @ (env1, DangerClick) # mid @ (env2, DangerClick) # rest \<and>
    (x, DeletionAnswer (Inr k)) \<in> set mid \<and> en_generation env1 = en_generation env2 \<and> c = destroy_call env2 k"
  using assms(1)
proof (induction es rule: rev_induct)
  case (snoc y es)
  obtain env e where y: "y = (env, e)" by (cases y)
  let ?s = "env_run es detail_init"
  have s: "env_run (es @ [y]) detail_init = env_do env e ?s" by (simp add: env_run_def y)
  show ?case
  proof (cases "c \<in> set (ed_sent ?s)")
    case True
    from snoc.IH [OF this] show ?thesis by (metis append.assoc append_Cons)
  next
    case False
    have "\<not> is_destroy (post (''/environments/'' @ en_id env @ ''/extend'') b)" "\<not> is_destroy (post (''/environments/'' @ en_id env @ ''/redeploy'') b)" for b
      using not_destroy(2,3) [of "''/environments/'' @ en_id env" b] by simp_all
    with env_do_sent [of c env e ?s] snoc.prems False assms(2) not_destroy(1) [of env]
    obtain k where k: "e = DangerClick" "ed_confirmation ?s = Some (k, en_generation env)" "c = destroy_call env k"
      unfolding s by blast
    with env_run_ok [of es] have "confirmed es k (en_generation env)" by (auto simp: detail_ok_def)
    with k y show ?thesis unfolding confirmed_def asked_def by fastforce
  qed
qed (simp add: env_run_def detail_init_def)

definition ex_env :: "string \<Rightarrow> int \<Rightarrow> Environment" where
  "ex_env i g = \<lparr>en_id = i, en_owner = ''ann'', en_profile = ''preview'', en_provider = ''kind'', en_status = ''ready'', en_revision = ''abc'',
     en_image = ''i'', en_url = '''', en_expiresAt = None, en_generation = g, en_operationId = ''''\<rparr>"

theorem deletion_needs_two_clicks_witness:
  "let es = map (Pair (ex_env ''pr-1'' 4)) [DeleteClick, DangerClick, DeletionAnswer (Inr ''k''), DangerClick] in
   \<exists>before env1 mid env2 rest k x. es = before @ (env1, DangerClick) # mid @ (env2, DangerClick) # rest \<and>
     (x, DeletionAnswer (Inr k)) \<in> set mid \<and> destroy_call (ex_env ''pr-1'' 4) ''k'' = destroy_call env2 k"
proof -
  let ?es = "map (Pair (ex_env ''pr-1'' 4)) [DeleteClick, DangerClick, DeletionAnswer (Inr ''k''), DangerClick]"
  have "destroy_call (ex_env ''pr-1'' 4) ''k'' \<in> set (ed_sent (env_run ?es detail_init))"
    by (simp add: env_run_def detail_init_def gone_def ex_env_def deletion_click_def deletion_answer_def action_start_def action_init_def action_finish_def)
  moreover have "is_destroy (destroy_call (ex_env ''pr-1'' 4) ''k'')"
    by (simp add: is_destroy_def destroy_call_def post_def ex_env_def ends_with_def)
  ultimately show ?thesis using deletion_needs_two_clicks unfolding Let_def by blast
qed

text \<open>The confirmation is tied to a generation, not to an environment: the page keeps its state when the address moves to another environment, and if that one has the same
  generation the next click sends the first environment's confirmation to it.\<close>

lemma confirmation_follows_navigation:
  "last (ed_sent (env_run [(ex_env ''a'' 1, DeleteClick), (ex_env ''a'' 1, DangerClick), (ex_env ''a'' 1, DeletionAnswer (Inr ''k'')),
      (ex_env ''b'' 1, DangerClick)] detail_init)) = destroy_call (ex_env ''b'' 1) ''k''"
  by (simp add: env_run_def detail_init_def gone_def ex_env_def deletion_click_def deletion_answer_def action_start_def action_init_def action_finish_def)

text \<open>A deleted environment cannot be extended or deployed again.\<close>

lemma gone_is_final:
  "gone env \<Longrightarrow> env_do env ExtendClick s = s \<and> env_do env RetryClick s = s \<and> env_do env DeleteClick s = s"
  by simp

text \<open>The red button and the warning above it.\<close>

definition danger_label :: "Environment \<Rightarrow> detail_page \<Rightarrow> string" where
  "danger_label env s =
     (if ac_busy (ed_deletion s) then ''Working'' @ HELLIP
      else if (case ed_confirmation s of Some (k, g) \<Rightarrow> g = en_generation env | None \<Rightarrow> False) then ''Confirm deletion''
      else ''Request deletion confirmation'')"

definition changed_warning :: "Environment \<Rightarrow> detail_page \<Rightarrow> bool" where
  "changed_warning env s \<longleftrightarrow> (case ed_confirmation s of Some (k, g) \<Rightarrow> g \<noteq> en_generation env | None \<Rightarrow> False)"

lemma danger_label_true:
  assumes "\<not> ac_busy (ed_deletion s)" and "\<not> ac_lock (ed_deletion s)"
  shows "danger_label env s = ''Confirm deletion'' \<longleftrightarrow> (\<exists>k. last (ed_sent (deletion_click env s)) = destroy_call env k \<and> ed_djob (deletion_click env s) = Some Destroy)"
  using assms
  by (auto simp: danger_label_def deletion_click_def action_start_def split: option.splits)

section \<open>The progress of an operation\<close>

record stage =
  sg_label :: string
  sg_at :: "string option"

definition stages :: "Operation option \<Rightarrow> stage list" where
  "stages o' =
     (let t = (\<lambda>m. Option.bind o' (\<lambda>x. map_of (op_timings x) m)) in
      [\<lparr>sg_label = ''Queued'', sg_at = map_option op_requestedAt o'\<rparr>,
       \<lparr>sg_label = ''Provisioning'', sg_at = Option.bind o' op_startedAt\<rparr>,
       \<lparr>sg_label = ''Cluster ready'', sg_at = t ''cluster-ready''\<rparr>,
       \<lparr>sg_label = ''Platform ready'', sg_at = t ''platform-ready''\<rparr>,
       \<lparr>sg_label = ''Application ready'', sg_at = t ''application-ready''\<rparr>])"

text \<open>\<open>findIndex\<close>; \<^const>\<open>None\<close> is -1.\<close>

fun findIndex :: "('a \<Rightarrow> bool) \<Rightarrow> 'a list \<Rightarrow> nat option" where
  "findIndex P [] = None"
| "findIndex P (x # xs) = (if P x then Some 0 else map_option Suc (findIndex P xs))"

record stage_view =
  sv_class :: string
  sv_node :: "nat option"
  sv_label :: string
  sv_text :: string

definition stage_view ::
  "(string \<Rightarrow> string) \<Rightarrow> (string \<Rightarrow> int option) \<Rightarrow> Operation option \<Rightarrow> nat option \<Rightarrow> nat \<Rightarrow> stage \<Rightarrow> stage_view" where
  "stage_view toLocale dateParse o' next i sg =
     \<lparr>sv_class = (if truthy (sg_at sg) then ''complete'' else if Some i = next \<and> o' \<noteq> None then ''current'' else ''''),
      sv_node = (if truthy (sg_at sg) then None else Some (i + 1)),
      sv_label = sg_label sg,
      sv_text =
        (if truthy (sg_at sg) then
           (if i < 2 then dateTime toLocale (sg_at sg) else duration dateParse (Option.bind o' op_startedAt) (sg_at sg))
         else if Some i = next \<and> map_option op_status o' = Some ''running'' then ''In progress'' else ''Awaiting milestone'')\<rparr>"

definition timeline :: "(string \<Rightarrow> string) \<Rightarrow> (string \<Rightarrow> int option) \<Rightarrow> Operation option \<Rightarrow> stage_view list" where
  "timeline toLocale dateParse o' =
     (let ss = stages o'; next = findIndex (\<lambda>sg. \<not> truthy (sg_at sg)) ss in
      map (\<lambda>(i, sg). stage_view toLocale dateParse o' next i sg) (enumerate 0 ss))"

lemma findIndex_Some: "findIndex P xs = Some i \<Longrightarrow> i < length xs \<and> P (xs ! i) \<and> (\<forall>j < i. \<not> P (xs ! j))"
proof (induction xs arbitrary: i)
  case (Cons x xs)
  then show ?case by (auto split: if_splits simp: less_Suc_eq_0_disj)
qed simp

text \<open>At most one stage is the current one; it is the first without a time, so every stage before it is complete.\<close>

lemma timeline_current:
  assumes "i < 5" and "sv_class (timeline toLocale dateParse o' ! i) = ''current''"
  shows "\<forall>j < i. sv_class (timeline toLocale dateParse o' ! j) = ''complete''"
    and "\<And>k. k < 5 \<Longrightarrow> sv_class (timeline toLocale dateParse o' ! k) = ''current'' \<Longrightarrow> k = i"
proof -
  have l: "length (stages o') = 5" by (simp add: stages_def Let_def)
  have c: "sv_class (timeline toLocale dateParse o' ! k) =
      (if truthy (sg_at (stages o' ! k)) then ''complete''
       else if Some k = findIndex (\<lambda>sg. \<not> truthy (sg_at sg)) (stages o') \<and> o' \<noteq> None then ''current'' else '''')" if "k < 5" for k
    using that l by (simp add: timeline_def Let_def stage_view_def nth_enumerate_eq)
  from c [OF assms(1)] assms(2) have i: "findIndex (\<lambda>sg. \<not> truthy (sg_at sg)) (stages o') = Some i"
    by (auto split: if_splits)
  show "\<forall>j < i. sv_class (timeline toLocale dateParse o' ! j) = ''complete''"
    using findIndex_Some [OF i] c assms(1) by auto
  show "k = i" if "k < 5" "sv_class (timeline toLocale dateParse o' ! k) = ''current''" for k
    using c [OF that(1)] that(2) i by (auto split: if_splits)
qed

section \<open>The page of one environment\<close>

record env_detail =
  nd_title :: string
  nd_description :: string
  nd_open :: "string option"
  nd_alert :: "string \<times> string"
  nd_launch :: string
  nd_status :: string
  nd_timeline :: "stage_view list"
  nd_op_error :: "string option"
  nd_summary :: "(string \<times> string) list"
  nd_entries :: "(string \<times> string) list"
  nd_evidence :: "Operation option"
  nd_extend_disabled :: bool
  nd_retry_disabled :: bool
  nd_delete_disabled :: bool
  nd_dialog :: "(string \<times> string \<times> bool \<times> string) option"

definition env_detail ::
  "(string \<Rightarrow> string) \<Rightarrow> (string \<Rightarrow> int option) \<Rightarrow> (string \<Rightarrow> (string \<times> string) option) \<Rightarrow> Operation option \<Rightarrow> Environment \<Rightarrow> detail_page \<Rightarrow> env_detail" where
  "env_detail toLocale dateParse parseUrl o' env s =
     \<lparr>nd_title = en_id env,
      nd_description = en_provider env @ '' / '' @ en_profile env @ '' '' @ MIDDOT @ '' Owned by '' @ en_owner env,
      nd_open = open_link parseUrl env,
      nd_alert = (ac_error (ed_action s), ac_notice (ed_action s)),
      nd_launch = (case o' of
          Some x \<Rightarrow> (if op_warm x then ''Warm'' else ''Cold'') @ '' launch '' @ MIDDOT @ '' Requested '' @ dateTime toLocale (Some (op_requestedAt x))
        | None \<Rightarrow> ''Waiting for operation data''),
      nd_status = en_status env, nd_timeline = timeline toLocale dateParse o',
      nd_op_error = (case Option.bind o' op_error of Some t \<Rightarrow> if t = [] then None else Some t | None \<Rightarrow> None),
      nd_summary = [(''Cluster launch'', launch_time dateParse ''cluster-ready'' o'),
        (''Application launch'', launch_time dateParse ''application-ready'' o'), (''Expires'', expiry toLocale env)],
      nd_entries = [(''Git revision'', en_revision env), (''Image digest'', en_image env), (''Owner'', en_owner env),
        (''Generation'', show_int (en_generation env)), (''Operation'', str_or (en_operationId env) EMDASH)],
      nd_evidence = o',
      nd_extend_disabled = (ac_busy (ed_action s) \<or> gone env \<or> \<not> truthy (en_expiresAt env)),
      nd_retry_disabled = (ac_busy (ed_action s) \<or> gone env),
      nd_delete_disabled = (ac_busy (ed_action s) \<or> gone env),
      nd_dialog = (if ed_show s
        then Some (''Delete '' @ en_id env @ ''?'', ac_error (ed_deletion s), changed_warning env s, danger_label env s) else None)\<rparr>"

datatype env_detail_view = EnvLoading | EnvMissing string string | EnvShown env_detail

definition env_detail_view ::
  "(string \<Rightarrow> string) \<Rightarrow> (string \<Rightarrow> int option) \<Rightarrow> (string \<Rightarrow> (string \<times> string) option) \<Rightarrow> string \<Rightarrow> platform \<Rightarrow> detail_page \<Rightarrow> env_detail_view" where
  "env_detail_view toLocale dateParse parseUrl i p s =
     (if pf_loading p then EnvLoading
      else (case find (\<lambda>e. en_id e = i) (pf_environments p) of
        None \<Rightarrow>
          if pf_error p \<noteq> [] then EnvMissing ''Environment unavailable'' ''Restore the connection and try again.''
          else EnvMissing ''Environment not found'' ''This environment may have been removed, or you may not have access.''
      | Some env \<Rightarrow> EnvShown (env_detail toLocale dateParse parseUrl (op_of (pf_operations p) env) env s)))"

text \<open>Every link to an application, in the list and on the page, is a web address: a script or data address that the platform might report is never rendered.\<close>

lemma open_link_safe:
  "open_link parseUrl env = Some h \<Longrightarrow> en_status env = ''ready'' \<and> (\<exists>proto. parseUrl (en_url env) = Some (proto, h) \<and> proto \<in> {''https:'', ''http:''})"
  by (auto simp: open_link_def safeUrl_def split: option.splits if_splits)

end
