(* ===== verification/PortalWorkflows.thy ===== *)
theory PortalWorkflows
  imports PortalEnvironments
begin

text \<open>
  The pages for releases, tools, policies and the assistant (\<open>packages/portal/src/pages/workflows.tsx\<close>). The assistant's conversation is kept in the
  session storage, which is an option for its one item.
\<close>

section \<open>Releases\<close>

record release_page =
  rp_target :: string
  rp_image :: string
  rp_revision :: string
  rp_review :: bool
  rp_result :: "(string \<times> string) option"
  rp_action :: action
  rp_running :: bool
  rp_sent :: "portal_call list"

definition release_init :: release_page where
  "release_init = \<lparr>rp_target = ''dev'', rp_image = '''', rp_revision = '''', rp_review = False, rp_result = None, rp_action = action_init,
     rp_running = False, rp_sent = []\<rparr>"

datatype release_event =
    PickTarget string
  | ReleaseImage string
  | ReleaseRevision string
  | ReviewPromotion
  | EditRelease
  | PromoteClick
  | PromoteAnswer "(string \<times> string) outcome"
  | AnotherPromotion

definition release_call :: "release_page \<Rightarrow> portal_call" where
  "release_call s = post ''/promotions''
     (JObj [(''target'', JStr (rp_target s)), (''image'', JStr (rp_image s)), (''revision'', JStr (rp_revision s))])"

definition release_form :: "release_page \<Rightarrow> bool" where
  "release_form s \<longleftrightarrow> rp_result s = None \<and> \<not> rp_review s"

definition release_buttons :: "release_page \<Rightarrow> bool" where
  "release_buttons s \<longleftrightarrow> rp_result s = None \<and> rp_review s \<and> \<not> ac_busy (rp_action s)"

fun release_do :: "release_event \<Rightarrow> release_page \<Rightarrow> release_page" where
  "release_do (PickTarget t) s =
     (if release_form s \<and> t \<in> set [''dev'', ''staging'', ''prod''] then s\<lparr>rp_target := t\<rparr> else s)"
| "release_do (ReleaseImage t) s = (if release_form s then s\<lparr>rp_image := t\<rparr> else s)"
| "release_do (ReleaseRevision t) s = (if release_form s then s\<lparr>rp_revision := t\<rparr> else s)"
| "release_do ReviewPromotion s =
     (if release_form s \<and> field_ok image_pattern (rp_image s) \<and> field_ok revision_pattern (rp_revision s)
      then s\<lparr>rp_review := True\<rparr> else s)"
| "release_do EditRelease s = (if release_buttons s then s\<lparr>rp_review := False\<rparr> else s)"
| "release_do PromoteClick s =
     (if release_buttons s then
        (case action_start (rp_action s) of
           None \<Rightarrow> s
         | Some a \<Rightarrow> s\<lparr>rp_action := a, rp_running := True, rp_sent := rp_sent s @ [release_call s]\<rparr>)
      else s)"
| "release_do (PromoteAnswer out) s =
     (if \<not> rp_running s then s
      else (case out of
          Inr r \<Rightarrow> s\<lparr>rp_result := Some r, rp_running := False, rp_action := action_finish None (rp_action s)\<rparr>
        | Inl e \<Rightarrow> s\<lparr>rp_running := False, rp_action := action_finish (Some e) (rp_action s)\<rparr>))"
| "release_do AnotherPromotion s = (if rp_result s = None then s else s\<lparr>rp_result := None, rp_review := False\<rparr>)"

definition release_run :: "release_event list \<Rightarrow> release_page \<Rightarrow> release_page" where
  "release_run es s = foldl (\<lambda>t e. release_do e t) s es"

definition release_ok :: "release_page \<Rightarrow> bool" where
  "release_ok s \<longleftrightarrow>
     rp_running s = ac_lock (rp_action s) \<and> ac_busy (rp_action s) = ac_lock (rp_action s) \<and>
     (rp_running s \<longrightarrow> rp_review s \<and> rp_result s = None) \<and> rp_target s \<in> set [''dev'', ''staging'', ''prod''] \<and>
     (rp_review s \<longrightarrow> image_ok (rp_image s) \<and> revision_ok (rp_revision s)) \<and>
     list_all (\<lambda>c. \<exists>t i r. c = post ''/promotions'' (JObj [(''target'', JStr t), (''image'', JStr i), (''revision'', JStr r)]) \<and>
        t \<in> set [''dev'', ''staging'', ''prod''] \<and> image_ok i \<and> revision_ok r) (rp_sent s)"

lemma release_do_ok: "release_ok s \<Longrightarrow> release_ok (release_do e s)"
proof (cases e)
  case PromoteClick
  assume "release_ok s"
  with PromoteClick show ?thesis
    by (auto simp: release_ok_def release_buttons_def release_call_def dest: action_startD split: option.split)
qed (auto simp: release_ok_def release_form_def release_buttons_def field_patterns split: sum.split)

lemma release_run_ok: "release_ok s \<Longrightarrow> release_ok (release_run es s)"
  by (induction es arbitrary: s) (auto simp: release_run_def release_do_ok)

text \<open>A promotion always names an offered target, an image by digest and a revision, and it is what the person reviewed.\<close>

lemma promotions_reviewed:
  assumes "c \<in> set (rp_sent (release_run es release_init))"
  shows "\<exists>t i r. c = post ''/promotions'' (JObj [(''target'', JStr t), (''image'', JStr i), (''revision'', JStr r)]) \<and>
     t \<in> {''dev'', ''staging'', ''prod''} \<and> image_ok i \<and> revision_ok r"
proof -
  have "release_ok release_init" by (simp add: release_ok_def release_init_def)
  from release_run_ok [OF this, of es] assms show ?thesis by (auto simp: release_ok_def list_all_iff)
qed

section \<open>Tools\<close>

definition tools_filtered :: "string \<Rightarrow> Tool list \<Rightarrow> Tool list" where
  "tools_filtered query ts =
     filter (\<lambda>t. str_includes (toLowerCase query) (toLowerCase (tl_name t @ '' '' @ tl_description t))) ts"

record tool_card =
  tc_monogram :: string
  tc_status :: string
  tc_name :: string
  tc_description :: string
  tc_open :: "string option"
  tc_text :: string

definition tool_card :: "(string \<Rightarrow> (string \<times> string) option) \<Rightarrow> Tool \<Rightarrow> tool_card" where
  "tool_card parseUrl t =
     (let h = (if tl_status t = ''installed'' then (case safeUrl parseUrl (Some (tl_url t)) of Some u \<Rightarrow> if u = [] then None else Some u | None \<Rightarrow> None) else None) in
      \<lparr>tc_monogram = take 2 (tl_name t), tc_status = tl_status t, tc_name = tl_name t, tc_description = tl_description t,
       tc_open = h,
       tc_text = (case h of Some _ \<Rightarrow> ''Open '' @ tl_name t
         | None \<Rightarrow> if tl_status t = ''not-installed'' then ''Not installed in this cluster'' else ''Destination unavailable'')\<rparr>)"

text \<open>The error, the cards (\<^const>\<open>None\<close> while loading for the first time) and the empty state.\<close>

definition tools_view ::
  "(string \<Rightarrow> (string \<times> string) option) \<Rightarrow> string \<Rightarrow> Tool list resource \<Rightarrow> string \<times> tool_card list option \<times> (string \<times> string) option" where
  "tools_view parseUrl query r =
     (let shown = tools_filtered query (nullish (rs_data r) []) in
      (rs_error r,
       if rs_loading r \<and> rs_data r = None then None else Some (map (tool_card parseUrl) shown),
       if \<not> rs_loading r \<and> rs_error r = [] \<and> shown = []
       then Some (if query = [] then (''No tools configured'', ''Configured platform tools will appear here.'')
                  else (''No tools match your search'', ''Try another name or keyword.''))
       else None))"

section \<open>Policies\<close>

text \<open>\<open>toLocaleString\<close> of the minutes, with at most one fraction digit, is the browser's: an argument on the nanoseconds.\<close>

definition policy_minutes :: "(int \<Rightarrow> string) \<Rightarrow> int \<Rightarrow> string" where
  "policy_minutes minutesToLocale nanoseconds = minutesToLocale nanoseconds @ '' min''"

definition policy_cards :: "(int \<Rightarrow> string) \<Rightarrow> Lifecycle \<Rightarrow> (string \<times> string \<times> string) list" where
  "policy_cards ml l =
     [(''Default preview lifetime'', policy_minutes ml (lc_ttl l), ''How long a new preview stays available.''),
      (''Maximum preview lifetime'', policy_minutes ml (lc_maxTTL l), ''The upper limit enforced on preview expiry.''),
      (''Preview capacity'', show_int (lc_maxPreviews l), ''The configured limit on active previews.''),
      (''Warm startup target'', policy_minutes ml (lc_warmTarget l), ''A configured target, not a measured result.''),
      (''Operation timeout'', policy_minutes ml (lc_operationTimeout l), ''How long an operation may run.'')]"

record policies_view =
  pv_title :: string
  pv_notes :: string
  pv_enforcement :: string
  pv_cards :: "(string \<times> string \<times> string) list"
  pv_source :: string
  pv_cluster_error :: "string option"
  pv_evidence :: Policies

definition policies_view :: "(int \<Rightarrow> string) \<Rightarrow> (string \<Rightarrow> string) \<Rightarrow> Policies resource \<Rightarrow> string \<times> bool \<times> policies_view option" where
  "policies_view ml toLocale r =
     (rs_error r, rs_loading r \<and> rs_data r = None,
      map_option (\<lambda>d.
        \<lparr>pv_title = ''Your access is '' @ po_role d, pv_notes = po_notes d, pv_enforcement = po_enforcement d,
         pv_cards = policy_cards ml (po_lifecycle d),
         pv_source = ''Source: '' @ po_source d @ '' '' @ MIDDOT @ '' Retrieved '' @ dateTime toLocale (Some (po_retrievedAt d)),
         pv_cluster_error = po_clusterError d, pv_evidence = d\<rparr>) (rs_data r))"

section \<open>The assistant\<close>

datatype speaker = User | Assistant

fun speaker_name :: "speaker \<Rightarrow> string" where
  "speaker_name User = ''user''"
| "speaker_name Assistant = ''assistant''"

record message =
  ms_role :: speaker
  ms_text :: string

record conversation =
  cv_provider :: string
  cv_id :: string
  cv_messages :: "message list"

definition message_json :: "message \<Rightarrow> json" where
  "message_json m = JObj [(''role'', JStr (speaker_name (ms_role m))), (''text'', JStr (ms_text m))]"

definition conversation_json :: "conversation \<Rightarrow> json" where
  "conversation_json c = JObj [(''provider'', JStr (cv_provider c)), (''id'', JStr (cv_id c)), (''messages'', JArr (map message_json (cv_messages c)))]"

text \<open>What \<open>initialConversation\<close> accepts of the stored text; \<^const>\<open>None\<close> stands for every way it is refused, a throw included.\<close>

definition read_message :: "json \<Rightarrow> message option" where
  "read_message m =
     (case (jstring (jfield ''role'' m), jstring (jfield ''text'' m)) of
        (Some r, Some t) \<Rightarrow>
          if r = ''user'' then Some \<lparr>ms_role = User, ms_text = t\<rparr>
          else if r = ''assistant'' then Some \<lparr>ms_role = Assistant, ms_text = t\<rparr> else None
      | _ \<Rightarrow> None)"

fun read_messages :: "json list \<Rightarrow> message list option" where
  "read_messages [] = Some []"
| "read_messages (m # ms) =
     (case (read_message m, read_messages ms) of (Some x, Some xs) \<Rightarrow> Some (x # xs) | _ \<Rightarrow> None)"

fun jlist :: "json option \<Rightarrow> json list option" where
  "jlist (Some (JArr xs)) = Some xs"
| "jlist _ = None"

definition read_conversation :: "json \<Rightarrow> conversation option" where
  "read_conversation saved =
     (case (jstring (jfield ''provider'' saved), jstring (jfield ''id'' saved), jlist (jfield ''messages'' saved)) of
        (Some p, Some i, Some ms) \<Rightarrow>
          if p \<in> set [''bedrock'', ''vertex''] then
            map_option (\<lambda>xs. \<lparr>cv_provider = p, cv_id = i, cv_messages = xs\<rparr>) (read_messages ms)
          else None
      | _ \<Rightarrow> None)"

definition fresh_conversation :: "string \<Rightarrow> string \<Rightarrow> conversation" where
  "fresh_conversation provider uuid = \<lparr>cv_provider = provider, cv_id = uuid, cv_messages = []\<rparr>"

definition initialConversation :: "string option \<Rightarrow> string \<Rightarrow> conversation" where
  "initialConversation stored uuid =
     (case Option.bind (json_parse (nullish stored ''null'')) read_conversation of
        Some c \<Rightarrow> c
      | None \<Rightarrow> fresh_conversation ''bedrock'' uuid)"

lemma read_message_json [simp]: "read_message (message_json m) = Some m"
  by (cases m; cases "ms_role m") (auto simp: read_message_def message_json_def)

lemma read_messages_json [simp]: "read_messages (map message_json ms) = Some ms"
  by (induction ms) simp_all

lemma wf_message_json [simp]: "wf_json (message_json m)"
  by (simp add: message_json_def)

lemma wf_conversation_json [simp]: "wf_json (conversation_json c)"
  by (simp add: conversation_json_def list_all_iff)

lemma stored_conversation:
  assumes "cv_provider c \<in> {''bedrock'', ''vertex''}"
  shows "initialConversation (Some (stringify (conversation_json c))) uuid = c"
proof -
  have "json_parse (stringify (conversation_json c)) = Some (conversation_json c)"
    by (rule json_roundtrip) simp
  moreover have "read_conversation (conversation_json c) = Some c"
    using assms by (auto simp: read_conversation_def conversation_json_def)
  ultimately show ?thesis by (simp add: initialConversation_def)
qed

text \<open>Round trip of the assistant's conversation through the tab's storage: what the page writes, it reads back exactly, with every message and its speaker, for the two providers it offers; nothing of it
  is lost by a reload.\<close>

theorem conversation_roundtrip:
  assumes "cv_provider c \<in> {''bedrock'', ''vertex''}"
  shows "initialConversation (Some (stringify (conversation_json c))) uuid = c"
  by (rule stored_conversation [OF assms])

theorem conversation_roundtrip_witness:
  "initialConversation (Some (stringify (conversation_json \<lparr>cv_provider = ''vertex'', cv_id = ''c1'', cv_messages = [\<lparr>ms_role = User, ms_text = ''hi''\<rparr>]\<rparr>)))
     ''u'' = \<lparr>cv_provider = ''vertex'', cv_id = ''c1'', cv_messages = [\<lparr>ms_role = User, ms_text = ''hi''\<rparr>]\<rparr>"
  by (rule conversation_roundtrip) simp

text \<open>The page. The running call keeps the text it sent; \<open>as_uuids\<close> counts the identifiers drawn.\<close>

record assistant_page =
  as_chat :: conversation
  as_draft :: string
  as_completed :: nat
  as_action :: action
  as_job :: "string option"
  as_sent :: "portal_call list"
  as_stored :: "string option"
  as_uuids :: nat

datatype assistant_event =
    TypeDraft string
  | Suggestion string
  | SendRequest
  | AssistantAnswer "string outcome"
  | NewConversation
  | PickProvider string

definition store_chat :: "bool \<Rightarrow> assistant_page \<Rightarrow> assistant_page" where
  "store_chat fails s = (if fails then s else s\<lparr>as_stored := Some (stringify (conversation_json (as_chat s)))\<rparr>)"

definition assistant_open :: "(nat \<Rightarrow> string) \<Rightarrow> bool \<Rightarrow> string option \<Rightarrow> assistant_page" where
  "assistant_open uuid fails stored =
     store_chat fails \<lparr>as_chat = initialConversation stored (uuid 0), as_draft = '''', as_completed = 0, as_action = action_init,
       as_job = None, as_sent = [], as_stored = stored, as_uuids = 1\<rparr>"

definition reset_chat :: "(nat \<Rightarrow> string) \<Rightarrow> string \<Rightarrow> assistant_page \<Rightarrow> assistant_page" where
  "reset_chat uuid provider s =
     s\<lparr>as_action := action_clear (as_action s), as_completed := 0,
       as_chat := fresh_conversation provider (uuid (as_uuids s)), as_uuids := Suc (as_uuids s), as_draft := ''''\<rparr>"

definition agent_call :: "conversation \<Rightarrow> string \<Rightarrow> portal_call" where
  "agent_call c text = post ''/agent''
     (JObj [(''text'', JStr text), (''conversation'', JStr (cv_id c)), (''provider'', JStr (cv_provider c))])"

definition send_request :: "assistant_page \<Rightarrow> assistant_page" where
  "send_request s =
     (if trim (as_draft s) = [] then s
      else (case action_start (as_action s) of
          None \<Rightarrow> s
        | Some a \<Rightarrow> s\<lparr>as_action := a, as_job := Some (trim (as_draft s)),
            as_sent := as_sent s @ [agent_call (as_chat s) (trim (as_draft s))]\<rparr>))"

definition assistant_answer :: "string outcome \<Rightarrow> assistant_page \<Rightarrow> assistant_page" where
  "assistant_answer out s =
     (case as_job s of
        None \<Rightarrow> s
      | Some text \<Rightarrow>
          (case out of
             Inl e \<Rightarrow> s\<lparr>as_job := None, as_action := action_finish (Some e) (as_action s)\<rparr>
           | Inr answer \<Rightarrow>
               s\<lparr>as_chat := (as_chat s)\<lparr>cv_messages := cv_messages (as_chat s) @
                   [\<lparr>ms_role = User, ms_text = text\<rparr>, \<lparr>ms_role = Assistant, ms_text = answer\<rparr>]\<rparr>,
                 as_draft := '''', as_completed := Suc (as_completed s), as_job := None, as_action := action_finish None (as_action s)\<rparr>))"

definition SUGGESTIONS :: "string list" where
  "SUGGESTIONS = [''What environments need my attention?'', ''Explain the policies for my previews.'', ''How do I extend a preview?'']"

fun assistant_handle :: "(nat \<Rightarrow> string) \<Rightarrow> assistant_event \<Rightarrow> assistant_page \<Rightarrow> assistant_page" where
  "assistant_handle uuid (TypeDraft t) s = (if ac_busy (as_action s) then s else s\<lparr>as_draft := t\<rparr>)"
| "assistant_handle uuid (Suggestion p) s =
     (if cv_messages (as_chat s) = [] \<and> p \<in> set SUGGESTIONS then s\<lparr>as_draft := p\<rparr> else s)"
| "assistant_handle uuid SendRequest s = (if ac_busy (as_action s) then s else send_request s)"
| "assistant_handle uuid (AssistantAnswer out) s = assistant_answer out s"
| "assistant_handle uuid NewConversation s = (if ac_busy (as_action s) then s else reset_chat uuid (cv_provider (as_chat s)) s)"
| "assistant_handle uuid (PickProvider p) s =
     (if ac_busy (as_action s) \<or> p \<notin> set [''bedrock'', ''vertex''] then s else reset_chat uuid p s)"

text \<open>A moment of the page, and the effect that stores the conversation when it changed; writing may fail.\<close>

definition assistant_do :: "(nat \<Rightarrow> string) \<Rightarrow> bool \<Rightarrow> assistant_event \<Rightarrow> assistant_page \<Rightarrow> assistant_page" where
  "assistant_do uuid fails e s =
     (let t = assistant_handle uuid e s in if as_chat t = as_chat s then t else store_chat fails t)"

definition assistant_run :: "(nat \<Rightarrow> string) \<Rightarrow> (bool \<times> assistant_event) list \<Rightarrow> assistant_page \<Rightarrow> assistant_page" where
  "assistant_run uuid es s = foldl (\<lambda>t (fails, e). assistant_do uuid fails e t) s es"

fun turns_ok :: "message list \<Rightarrow> bool" where
  "turns_ok [] = True"
| "turns_ok (a # b # ms) = (ms_role a = User \<and> ms_role b = Assistant \<and> ms_text a \<noteq> [] \<and> turns_ok ms)"
| "turns_ok [m] = False"

lemma turns_ok_snoc: "turns_ok ms \<Longrightarrow> t \<noteq> [] \<Longrightarrow> turns_ok (ms @ [\<lparr>ms_role = User, ms_text = t\<rparr>, \<lparr>ms_role = Assistant, ms_text = a\<rparr>])"
  by (induction ms rule: turns_ok.induct) auto

definition assistant_ok :: "assistant_page \<Rightarrow> bool" where
  "assistant_ok s \<longleftrightarrow>
     (as_job s \<noteq> None) = ac_lock (as_action s) \<and> ac_busy (as_action s) = ac_lock (as_action s) \<and>
     cv_provider (as_chat s) \<in> {''bedrock'', ''vertex''} \<and>
     (\<forall>t. as_job s = Some t \<longrightarrow> t \<noteq> [] \<and> as_sent s \<noteq> [] \<and> last (as_sent s) = agent_call (as_chat s) t)"

lemma read_conversation_provider: "read_conversation j = Some c \<Longrightarrow> cv_provider c \<in> {''bedrock'', ''vertex''}"
  unfolding read_conversation_def by (auto split: option.splits if_splits)

lemma initialConversation_provider: "cv_provider (initialConversation st u) \<in> {''bedrock'', ''vertex''}"
proof (cases "Option.bind (json_parse (nullish st ''null'')) read_conversation")
  case (Some c)
  then obtain j where "read_conversation j = Some c" by (auto simp: bind_eq_Some_conv)
  from read_conversation_provider [OF this] Some show ?thesis by (simp add: initialConversation_def)
qed (simp add: initialConversation_def fresh_conversation_def)

lemma assistant_handle_ok: "assistant_ok s \<Longrightarrow> assistant_ok (assistant_handle uuid e s)"
proof (cases e)
  case SendRequest
  assume "assistant_ok s"
  with SendRequest show ?thesis
    by (auto simp: assistant_ok_def send_request_def dest: action_startD split: option.split)
next
  case (AssistantAnswer out)
  assume "assistant_ok s"
  with AssistantAnswer show ?thesis
    by (auto simp: assistant_ok_def assistant_answer_def agent_call_def split: option.split sum.split)
qed (auto simp: assistant_ok_def reset_chat_def fresh_conversation_def)

lemma store_chat_frame [simp]:
  "as_chat (store_chat f s) = as_chat s" "as_job (store_chat f s) = as_job s" "as_action (store_chat f s) = as_action s"
  "as_sent (store_chat f s) = as_sent s" "assistant_ok (store_chat f s) = assistant_ok s"
  by (simp_all add: store_chat_def assistant_ok_def)

lemma assistant_do_ok: "assistant_ok s \<Longrightarrow> assistant_ok (assistant_do uuid fails e s)"
  by (simp add: assistant_do_def Let_def assistant_handle_ok)

lemma assistant_open_ok: "assistant_ok (assistant_open uuid fails stored)"
  unfolding assistant_open_def
  using initialConversation_provider [of stored "uuid 0"] by (simp add: assistant_ok_def)

lemma assistant_run_ok: "assistant_ok s \<Longrightarrow> assistant_ok (assistant_run uuid es s)"
  by (induction es arbitrary: s) (auto simp: assistant_run_def assistant_do_ok)

text \<open>While nothing fails to be written, the storage always holds the conversation on the screen.\<close>

definition chat_stored :: "assistant_page \<Rightarrow> bool" where
  "chat_stored s \<longleftrightarrow> as_stored s = Some (stringify (conversation_json (as_chat s)))"

lemma assistant_handle_stored [simp]: "as_stored (assistant_handle uuid e s) = as_stored s"
  by (cases e) (auto simp: send_request_def assistant_answer_def reset_chat_def split: option.split sum.split)

lemma chat_stored_do: "chat_stored s \<Longrightarrow> chat_stored (assistant_do uuid False e s)"
  by (simp add: assistant_do_def chat_stored_def store_chat_def Let_def)

lemma chat_stored_run: "chat_stored s \<Longrightarrow> list_all (\<lambda>(fails, e). \<not> fails) es \<Longrightarrow> chat_stored (assistant_run uuid es s)"
  by (induction es arbitrary: s) (auto simp: assistant_run_def chat_stored_do)


lemma parse_null: "json_parse ''null'' = Some JNull"
  using json_roundtrip [of JNull] by simp

lemma nothing_stored: "initialConversation None u = fresh_conversation ''bedrock'' u"
  by (simp add: initialConversation_def read_conversation_def parse_null)


text \<open>A conversation begun on the page alternates between the two speakers, questions are never blank, and a failed call adds nothing.\<close>

lemma turns_alternate:
  assumes "turns_ok (cv_messages (as_chat s))" and "assistant_ok s"
  shows "turns_ok (cv_messages (as_chat (assistant_do uuid fails e s)))"
proof -
  have "turns_ok (cv_messages (as_chat (assistant_handle uuid e s)))"
    using assms by (cases e)
      (auto simp: send_request_def assistant_answer_def reset_chat_def fresh_conversation_def assistant_ok_def turns_ok_snoc
        split: option.split sum.split)
  with assms(1) show ?thesis by (simp add: assistant_do_def Let_def)
qed

text \<open>What is shown.\<close>

record assistant_view =
  vw_mood :: string
  vw_provider :: string
  vw_toolbar_disabled :: bool
  vw_welcome :: "string list"
  vw_messages :: "(string \<times> string \<times> string) list"
  vw_working :: bool
  vw_error :: string
  vw_draft :: string
  vw_draft_disabled :: bool
  vw_send_disabled :: bool
  vw_send_label :: string

definition assistant_view :: "assistant_page \<Rightarrow> assistant_view" where
  "assistant_view s =
     (let busy = ac_busy (as_action s) in
      \<lparr>vw_mood = (if busy then ''thinking'' else if as_completed s \<noteq> 0 \<and> ac_error (as_action s) = [] then ''success'' else ''idle''),
       vw_provider = cv_provider (as_chat s), vw_toolbar_disabled = busy,
       vw_welcome = (if cv_messages (as_chat s) = [] then SUGGESTIONS else []),
       vw_messages = map (\<lambda>m. (speaker_name (ms_role m), if ms_role m = User then ''You'' else ''Dogfood assistant'', ms_text m)) (cv_messages (as_chat s)),
       vw_working = busy, vw_error = ac_error (as_action s), vw_draft = as_draft s, vw_draft_disabled = busy,
       vw_send_disabled = (busy \<or> trim (as_draft s) = []),
       vw_send_label = (if busy then ''Working'' @ HELLIP else ''Send request'')\<rparr>)"

end
