(* ===== verification/PortalShell.thy ===== *)
theory PortalShell
  imports PortalWorkflows
begin

text \<open>
  The overview (\<open>pages/overview.tsx\<close>), the shell around the pages (\<open>platform.tsx\<close>), the small elements (\<open>ui.tsx\<close>) and the ways to sign in (\<open>auth.tsx\<close>).
\<close>

section \<open>Small elements\<close>

text \<open>\<open>Status\<close>: its class and its text.\<close>

definition status_badge :: "string \<Rightarrow> string \<times> string" where
  "status_badge value = (''status status-'' @ value, map (\<lambda>c. if c = CHR ''-'' then CHR '' '' else c) value)"

text \<open>\<open>Alert\<close>: the boxes it shows, by their role.\<close>

definition alert_boxes :: "string option \<Rightarrow> string option \<Rightarrow> (string \<times> string) list" where
  "alert_boxes error notice =
     (if truthy error then [(''alert'', nullish error '''')] else []) @ (if truthy notice then [(''status'', nullish notice '''')] else [])"

section \<open>The overview\<close>

definition active_envs :: "Environment list \<Rightarrow> Environment list" where
  "active_envs es = filter (\<lambda>e. en_status e \<noteq> ''deleted'') es"

definition ready_envs :: "Environment list \<Rightarrow> Environment list" where
  "ready_envs es = filter (\<lambda>e. en_status e = ''ready'') (active_envs es)"

definition attention_envs :: "Environment list \<Rightarrow> Environment list" where
  "attention_envs es = filter (\<lambda>e. en_status e = ''failed'' \<or> en_status e = ''deleting'') (active_envs es)"

definition padStart2 :: "string \<Rightarrow> string" where
  "padStart2 s = replicate (2 - length s) (CHR ''0'') @ s"

definition counter_text :: "platform \<Rightarrow> Environment list \<Rightarrow> string" where
  "counter_text s es = (if pf_updated s = None then EMDASH else padStart2 (show_nat (length es)))"

text \<open>The three counters, each with the address its link opens.\<close>

definition counters :: "platform \<Rightarrow> (string \<times> string \<times> string) list" where
  "counters s =
     [(''/environments'', ''Active environments'', counter_text s (active_envs (pf_environments s))),
      (''/environments?status=ready'', ''Ready to use'', counter_text s (ready_envs (pf_environments s))),
      (''/environments?status=attention'', ''Need attention'', counter_text s (attention_envs (pf_environments s)))]"

record latest_view =
  lt_environment :: string
  lt_line :: string
  lt_status :: string
  lt_timeline :: "stage_view list"

datatype latest_body = LatestLoading | LatestShown latest_view | LatestEmpty | LatestNothing

definition latest_deployment :: "(string \<Rightarrow> string) \<Rightarrow> (string \<Rightarrow> int option) \<Rightarrow> platform \<Rightarrow> latest_body" where
  "latest_deployment toLocale dateParse s =
     (if pf_loading s then LatestLoading
      else (case pf_operations s of
        op # _ \<Rightarrow> LatestShown
          \<lparr>lt_environment = op_environmentId op,
           lt_line = launch_kind op @ '' '' @ MIDDOT @ '' '' @ dateTime toLocale (Some (op_requestedAt op)),
           lt_status = op_status op, lt_timeline = timeline toLocale dateParse (Some op)\<rparr>
      | [] \<Rightarrow> if pf_error s = [] then LatestEmpty else LatestNothing))"

definition recent_activity :: "(string \<Rightarrow> string) \<Rightarrow> platform \<Rightarrow> (string \<times> string \<times> string) list" where
  "recent_activity toLocale s =
     map (\<lambda>op. (op_environmentId op, str_or (op_phase op) ''Deployment requested'' @ '' '' @ MIDDOT @ '' '' @ dateTime toLocale (Some (op_requestedAt op)),
       op_status op)) (take 5 (pf_operations s))"

definition no_activity :: "platform \<Rightarrow> string option" where
  "no_activity s =
     (if pf_operations s \<noteq> [] then None
      else Some (if pf_loading s then ''Loading activity'' @ HELLIP
        else if pf_error s \<noteq> [] then ''Activity is currently unavailable.'' else ''New deployment activity will appear here.''))"

text \<open>The counters of the overview agree with the lists their links open: following "Ready to use" or "Need attention" shows exactly the environments that were counted, in the same
  order, and "Active environments" counts those that are not deleted.\<close>

theorem counters_agree:
  "ready_envs es = env_filtered [(''status'', ''ready'')] es \<and>
   attention_envs es = env_filtered [(''status'', ''attention'')] es \<and>
   mset (active_envs es) + mset (env_filtered [(''status'', ''deleted'')] es) = mset (env_filtered [] es)"
proof -
  have q: "str_includes [] t" for t by (cases t) auto
  have "mset (filter (\<lambda>e. en_status e \<noteq> ''deleted'') es) + mset (filter (\<lambda>e. en_status e = ''deleted'') es) = mset es"
    by (metis mset_filter multiset_partition add.commute)
  then show ?thesis
    by (auto simp: ready_envs_def attention_envs_def active_envs_def env_filtered_def env_matches_def q intro!: filter_cong)
qed

section \<open>The shell\<close>

definition navigation :: "(string \<times> string \<times> string) list" where
  "navigation =
     [(''/'', ''Overview'', ''grid''), (''/environments'', ''Environments'', ''layers''), (''/releases'', ''Releases'', ''release''),
      (''/tools'', ''Tools'', ''tools''), (''/policies'', ''Policies'', ''shield''), (''/access'', ''Access'', ''key''),
      (''/assistant'', ''Assistant'', ''spark'')]"

definition page_name :: "string \<Rightarrow> string" where
  "page_name pathname =
     (case find (\<lambda>(t, _, _). t \<noteq> ''/'' \<and> starts_with t pathname) navigation of
        Some (_, label, _) \<Rightarrow> label
      | None \<Rightarrow> if pathname = ''/'' then ''Overview'' else ''Page not found'')"

definition page_title :: "string \<Rightarrow> string" where
  "page_title pathname =
     (if pathname = ''/environments/new'' then ''Create preview'' else page_name pathname) @ '' '' @ MIDDOT @ '' Dogfood''"

text \<open>The routes, by the segments of the path. \<open>/environments/new\<close> wins over the route with a parameter.\<close>

datatype route =
    OverviewR | EnvironmentsR | NewEnvironmentR | EnvironmentR string | ReleasesR | ToolsR | PoliciesR | AssistantR | AccessR "string list" | NotFoundR

fun shell_route :: "string list \<Rightarrow> route" where
  "shell_route [] = OverviewR"
| "shell_route (a # rest) =
     (if a = ''access'' then AccessR rest
      else if a = ''environments'' then
        (case rest of [] \<Rightarrow> EnvironmentsR | [b] \<Rightarrow> (if b = ''new'' then NewEnvironmentR else EnvironmentR b) | _ \<Rightarrow> NotFoundR)
      else if rest \<noteq> [] then NotFoundR
      else if a = ''releases'' then ReleasesR else if a = ''tools'' then ToolsR else if a = ''policies'' then PoliciesR
      else if a = ''assistant'' then AssistantR else NotFoundR)"

text \<open>The title is chosen by prefix, the page by segments: an address that merely begins like a section has no page but that section's title.\<close>

lemma title_of_missing_page:
  "shell_route [''environmentsX''] = NotFoundR" "page_name ''/environmentsX'' = ''Environments''"
  by (simp_all add: page_name_def navigation_def)

text \<open>Every entry of the navigation leads to a page, and that page has the entry's name as its title.\<close>

lemma navigation_titles: "list_all (\<lambda>(t, label, _). page_name t = label) navigation"
  by (simp add: navigation_def page_name_def)

definition initial_theme :: "string option \<Rightarrow> string" where
  "initial_theme stored = (if stored = Some ''dark'' then ''dark'' else ''light'')"

definition toggle_theme :: "string \<Rightarrow> string" where
  "toggle_theme t = (if t = ''light'' then ''dark'' else ''light'')"

definition connection_text :: "(int \<Rightarrow> string) \<Rightarrow> platform \<Rightarrow> string" where
  "connection_text timeToLocale s =
     (if pf_error s \<noteq> [] then ''Connection interrupted''
      else (case pf_updated s of Some u \<Rightarrow> ''Updated '' @ timeToLocale u | None \<Rightarrow> ''Connecting'' @ HELLIP))"

definition connection_alert :: "platform \<Rightarrow> string option" where
  "connection_alert s =
     (if pf_error s = [] then None
      else Some ((if pf_updated s = None then '''' else ''Showing previously loaded data. '') @ pf_error s))"

text \<open>The account dialog: the link code and signing out, with the tab's stored conversation.\<close>

datatype account_job = LinkCode | SignOut

record shell =
  sl_theme :: string
  sl_menu :: bool
  sl_accountOpen :: bool
  sl_linkCode :: string
  sl_action :: action
  sl_job :: "account_job option"
  sl_sent :: "portal_call list"
  sl_conversation :: "string option"

datatype shell_event =
    ToggleTheme
  | ToggleMenu
  | Navigated
  | AccountOpen
  | AccountClose
  | LinkClick
  | SignOutClick bool
  | AccountAnswer "string outcome"

text \<open>\<open>SignOutClick fails\<close>: removing the item from the storage may throw, which is ignored; then the outside is asked to sign out.\<close>

fun shell_do :: "shell_event \<Rightarrow> shell \<Rightarrow> shell" where
  "shell_do ToggleTheme s = s\<lparr>sl_theme := toggle_theme (sl_theme s)\<rparr>"
| "shell_do ToggleMenu s = s\<lparr>sl_menu := \<not> sl_menu s\<rparr>"
| "shell_do Navigated s = s\<lparr>sl_menu := False\<rparr>"
| "shell_do AccountOpen s = s\<lparr>sl_accountOpen := True\<rparr>"
| "shell_do AccountClose s = (if ac_busy (sl_action s) then s else s\<lparr>sl_accountOpen := False\<rparr>)"
| "shell_do LinkClick s =
     (if \<not> sl_accountOpen s \<or> ac_busy (sl_action s) then s
      else (case action_start (sl_action s) of
          None \<Rightarrow> s
        | Some a \<Rightarrow> s\<lparr>sl_action := a, sl_job := Some LinkCode, sl_sent := sl_sent s @ [post ''/link-code'' (JObj [])]\<rparr>))"
| "shell_do (SignOutClick fails) s =
     (if \<not> sl_accountOpen s \<or> ac_busy (sl_action s) then s
      else (case action_start (sl_action s) of
          None \<Rightarrow> s
        | Some a \<Rightarrow> s\<lparr>sl_action := a, sl_job := Some SignOut, sl_conversation := (if fails then sl_conversation s else None)\<rparr>))"
| "shell_do (AccountAnswer out) s =
     (case sl_job s of
        None \<Rightarrow> s
      | Some j \<Rightarrow>
          (case out of
             Inl e \<Rightarrow> s\<lparr>sl_job := None, sl_action := action_finish (Some e) (sl_action s)\<rparr>
           | Inr code \<Rightarrow> s\<lparr>sl_job := None, sl_action := action_finish None (sl_action s),
               sl_linkCode := (if j = LinkCode then code else sl_linkCode s)\<rparr>))"

text \<open>Signing out removes the conversation before anything is asked of the outside, so the next person of the tab starts with an empty one.\<close>

lemma sign_out_forgets:
  assumes "sl_accountOpen s" and "\<not> ac_busy (sl_action s)" and "\<not> ac_lock (sl_action s)"
  shows "initialConversation (sl_conversation (shell_do (SignOutClick False) s)) u = fresh_conversation ''bedrock'' u"
  using assms by (simp add: action_start_def nothing_stored)

text \<open>Unless an answer of the assistant is still out: when it arrives, the page stores the conversation again.\<close>

lemma conversation_returns_after_sign_out:
  assumes "as_job s = Some text" and "t = assistant_do uuid False (AssistantAnswer (Inr answer)) (s\<lparr>as_stored := None\<rparr>)"
  shows "as_stored t = Some (stringify (conversation_json (as_chat t)))"
proof -
  have "xs @ [a, b] \<noteq> xs" for xs and a b :: message by simp
  then have "as_chat (assistant_handle uuid (AssistantAnswer (Inr answer)) (s\<lparr>as_stored := None\<rparr>)) \<noteq> as_chat s"
    using assms(1) by (cases "as_chat s") (simp add: assistant_answer_def)
  with assms(2) show ?thesis by (simp add: assistant_do_def Let_def store_chat_def)
qed

text \<open>The name shown for the account.\<close>

definition account_name :: "(string option \<times> string option) option \<Rightarrow> string" where
  "account_name profile =
     (case profile of
        None \<Rightarrow> ''Platform account''
      | Some (displayName, email) \<Rightarrow>
          if truthy displayName then nullish displayName '''' else if truthy email then nullish email '''' else ''Platform account'')"

section \<open>Signing in\<close>

datatype sign_in_page = GuestSignIn | GithubSignIn | OidcSignIn

definition sign_in_page :: "bool \<Rightarrow> string option \<Rightarrow> sign_in_page" where
  "sign_in_page local provider =
     (if local then GuestSignIn else if provider = Some ''github'' then GithubSignIn else OidcSignIn)"

text \<open>
  The identity and the profile come from Backstage. An attempt first waits for an identity, then for the profile of that identity; the organization's page makes one attempt of its own
  when it appears, and both pages make one for each click. \<open>sn_success\<close> lists what \<open>onSignInSuccess\<close> was called with.
\<close>

datatype 'i attempt = WaitIdentity | WaitProfile 'i

record ('i, 'p) sign_in =
  sn_busy :: bool
  sn_error :: string
  sn_alive :: bool
  sn_effect :: "'i attempt option"
  sn_click :: "'i attempt option"
  sn_success :: "('i \<times> 'p) list"

definition oidc_init :: "('i, 'p) sign_in" where
  "oidc_init = \<lparr>sn_busy = True, sn_error = '''', sn_alive = True, sn_effect = Some WaitIdentity, sn_click = None, sn_success = []\<rparr>"

definition github_init :: "('i, 'p) sign_in" where
  "github_init = \<lparr>sn_busy = False, sn_error = '''', sn_alive = True, sn_effect = None, sn_click = None, sn_success = []\<rparr>"

definition not_configured :: "sign_in_page \<Rightarrow> string" where
  "not_configured p =
     (if p = GithubSignIn then ''GitHub sign-in is not configured. Contact your platform administrator.''
      else ''Your organization sign-in is not configured. Contact your platform administrator.'')"

text \<open>How the attempt of the effect ends: its \<open>catch\<close> and \<open>finally\<close> only touch a page that is still there.\<close>

definition end_effect :: "api_error option \<Rightarrow> ('i, 'p) sign_in \<Rightarrow> ('i, 'p) sign_in" where
  "end_effect thrown s =
     (let t = s\<lparr>sn_effect := None\<rparr> in
      if \<not> sn_alive s then t
      else (case thrown of None \<Rightarrow> t | Some e \<Rightarrow> t\<lparr>sn_error := errorText e\<rparr>)\<lparr>sn_busy := False\<rparr>)"

definition end_click :: "api_error option \<Rightarrow> ('i, 'p) sign_in \<Rightarrow> ('i, 'p) sign_in" where
  "end_click thrown s =
     (case thrown of None \<Rightarrow> s | Some e \<Rightarrow> s\<lparr>sn_error := errorText e\<rparr>)\<lparr>sn_click := None, sn_busy := False\<rparr>"

datatype ('i, 'p) sign_in_event =
    EffectIdentity "'i option outcome"
  | EffectProfile "'p outcome"
  | SignInClick
  | ClickIdentity "'i option outcome"
  | ClickProfile "'p outcome"
  | SignInUnmount

fun sign_in_do :: "sign_in_page \<Rightarrow> ('i, 'p) sign_in_event \<Rightarrow> ('i, 'p) sign_in \<Rightarrow> ('i, 'p) sign_in" where
  "sign_in_do pg (EffectIdentity out) s =
     (if sn_effect s \<noteq> Some WaitIdentity then s
      else (case out of
          Inl e \<Rightarrow> end_effect (Some e) s
        | Inr None \<Rightarrow> end_effect None s
        | Inr (Some i) \<Rightarrow> if sn_alive s then s\<lparr>sn_effect := Some (WaitProfile i)\<rparr> else end_effect None s))"
| "sign_in_do pg (EffectProfile out) s =
     (case sn_effect s of
        Some (WaitProfile i) \<Rightarrow>
          (case out of Inl e \<Rightarrow> end_effect (Some e) s
           | Inr p \<Rightarrow> end_effect None (s\<lparr>sn_success := sn_success s @ [(i, p)]\<rparr>))
      | _ \<Rightarrow> s)"
| "sign_in_do pg SignInClick s =
     (if sn_busy s \<or> \<not> sn_alive s then s else s\<lparr>sn_busy := True, sn_error := '''', sn_click := Some WaitIdentity\<rparr>)"
| "sign_in_do pg (ClickIdentity out) s =
     (if sn_click s \<noteq> Some WaitIdentity then s
      else (case out of
          Inl e \<Rightarrow> end_click (Some e) s
        | Inr None \<Rightarrow> end_click (Some (OtherError (not_configured pg))) s
        | Inr (Some i) \<Rightarrow> s\<lparr>sn_click := Some (WaitProfile i)\<rparr>))"
| "sign_in_do pg (ClickProfile out) s =
     (case sn_click s of
        Some (WaitProfile i) \<Rightarrow>
          (case out of Inl e \<Rightarrow> end_click (Some e) s
           | Inr p \<Rightarrow> end_click None (s\<lparr>sn_success := sn_success s @ [(i, p)]\<rparr>))
      | _ \<Rightarrow> s)"
| "sign_in_do pg SignInUnmount s = s\<lparr>sn_alive := False\<rparr>"

definition sign_in_run :: "sign_in_page \<Rightarrow> ('i, 'p) sign_in_event list \<Rightarrow> ('i, 'p) sign_in \<Rightarrow> ('i, 'p) sign_in" where
  "sign_in_run pg es s = foldl (\<lambda>t e. sign_in_do pg e t) s es"

definition given_identities :: "('i, 'p) sign_in_event list \<Rightarrow> 'i set" where
  "given_identities es = {i. EffectIdentity (Inr (Some i)) \<in> set es \<or> ClickIdentity (Inr (Some i)) \<in> set es}"

definition sign_in_ok :: "('i, 'p) sign_in_event list \<Rightarrow> ('i, 'p) sign_in \<Rightarrow> bool" where
  "sign_in_ok es s \<longleftrightarrow>
     fst ` set (sn_success s) \<subseteq> given_identities es \<and>
     (\<forall>i. sn_effect s = Some (WaitProfile i) \<or> sn_click s = Some (WaitProfile i) \<longrightarrow> i \<in> given_identities es) \<and>
     (sn_alive s \<longrightarrow> sn_busy s = (sn_effect s \<noteq> None \<or> sn_click s \<noteq> None)) \<and> (sn_effect s = None \<or> sn_click s = None)"

lemma given_snoc [simp]: "given_identities (es @ [e]) = given_identities es \<union> given_identities [e]"
  by (auto simp: given_identities_def)

lemma sign_in_do_ok: "sign_in_ok es s \<Longrightarrow> sign_in_ok (es @ [e]) (sign_in_do pg e s)"
proof (cases e)
  case (EffectIdentity out)
  assume "sign_in_ok es s"
  with EffectIdentity show ?thesis
    by (auto simp: sign_in_ok_def end_effect_def Let_def given_identities_def split: sum.split option.split)
next
  case (EffectProfile out)
  assume "sign_in_ok es s"
  with EffectProfile show ?thesis
    by (auto simp: sign_in_ok_def end_effect_def Let_def split: sum.split option.split attempt.split)
next
  case (ClickIdentity out)
  assume "sign_in_ok es s"
  with ClickIdentity show ?thesis
    by (auto simp: sign_in_ok_def end_click_def given_identities_def split: sum.split option.split)
next
  case (ClickProfile out)
  assume "sign_in_ok es s"
  with ClickProfile show ?thesis
    by (auto simp: sign_in_ok_def end_click_def split: sum.split option.split attempt.split)
qed (auto simp: sign_in_ok_def)

lemma sign_in_run_ok:
  assumes "sign_in_ok [] s"
  shows "sign_in_ok es (sign_in_run pg es s)"
proof (induction es rule: rev_induct)
  case (snoc e es)
  then show ?case using sign_in_do_ok by (simp add: sign_in_run_def)
qed (simp add: sign_in_run_def assms)

text \<open>On both sign-in pages, whatever arrives in whatever order: a person is only ever signed in under an identity the provider returned, and while the page is there its button is disabled
  exactly as long as an attempt is running, so a failed or refused attempt can always be repeated and two attempts never run side by side.\<close>

theorem sign_in_sound:
  fixes es :: "('i, 'p) sign_in_event list"
  assumes "s = sign_in_run pg es (if pg = OidcSignIn then oidc_init else github_init)"
  shows "fst ` set (sn_success s) \<subseteq> given_identities es \<and>
    (sn_alive s \<longrightarrow> sn_busy s = (sn_effect s \<noteq> None \<or> sn_click s \<noteq> None)) \<and> (sn_effect s = None \<or> sn_click s = None)"
proof -
  have "sign_in_ok [] (if pg = OidcSignIn then oidc_init else github_init :: ('i, 'p) sign_in)"
    by (simp add: sign_in_ok_def oidc_init_def github_init_def)
  from sign_in_run_ok [OF this, of es pg] have "sign_in_ok es s" by (simp only: assms)
  then show ?thesis unfolding sign_in_ok_def by (elim conjE) (intro conjI)
qed

theorem sign_in_sound_witness:
  "let s = sign_in_run OidcSignIn [EffectIdentity (Inr None), SignInClick, ClickIdentity (Inr (Some ''ann'')), ClickProfile (Inr ())] oidc_init
   in sn_success s = [(''ann'', ())] \<and> \<not> sn_busy s"
proof -
  define s where "s = sign_in_run OidcSignIn [EffectIdentity (Inr None), SignInClick, ClickIdentity (Inr (Some ''ann'')), ClickProfile (Inr ())]
    (if OidcSignIn = OidcSignIn then oidc_init else github_init)"
  have "sn_success s = [(''ann'', ())]" "sn_alive s" "sn_effect s = None" "sn_click s = None"
    by (simp_all add: s_def sign_in_run_def oidc_init_def end_effect_def end_click_def Let_def)
  with sign_in_sound [OF s_def] show ?thesis by (simp add: s_def [symmetric] s_def [simplified, symmetric])
qed

text \<open>The organization's page checks that it is still there before it asks for the profile, not after: it can report a sign-in when it is gone.\<close>

lemma sign_in_after_unmount:
  "let s = sign_in_run OidcSignIn [EffectIdentity (Inr (Some ''ann'')), SignInUnmount, EffectProfile (Inr ())] oidc_init
   in \<not> sn_alive s \<and> sn_success s = [(''ann'', ())]"
  by (simp add: sign_in_run_def oidc_init_def end_effect_def Let_def)

end
