(* ===== verification/PortalWire.thy ===== *)
theory PortalWire
  imports PortalRoles PortalShell PaServer Backend RoleRender
begin

text \<open>
  From the pages of the portal to the peers behind the backend: what a call of a page looks like when it arrives at the proxy, that every call the pages make is one
  the proxy forwards, and the way of a question from the assistant's page through the proxy to a turn of the platform agent and back. The browser and
  Backstage carry a call unchanged; express splits its address at the question mark and parses its body.
\<close>

section \<open>A call at the backend\<close>

definition arrives :: "portal_call \<Rightarrow> ProxyRequest" where
  "arrives c =
     \<lparr>pr_method' = pc_method c, pr_path = takeWhile (\<lambda>x. x \<noteq> CHR ''?'') (pc_path c), pr_search = dropWhile (\<lambda>x. x \<noteq> CHR ''?'') (pc_path c),
      pr_body = Option.bind (pc_body c) (\<lambda>b. json_parse (stringify b)),
      pr_idempotency = map_of (fq_headers (pc_request [] c)) ''Idempotency-Key''\<rparr>"

text \<open>The parser in front of the proxy, and the one in front of the platform agent, turn away a body of more than 64 kB; everything else reaches the handler.\<close>

definition PARSER_LIMIT :: nat where
  "PARSER_LIMIT = 64 * 1024"

definition small :: "json option \<Rightarrow> bool" where
  "small body \<longleftrightarrow> (case body of Some b \<Rightarrow> byteLength (stringify b) \<le> PARSER_LIMIT | None \<Rightarrow> True)"

definition at_backend :: "(string \<Rightarrow> string \<Rightarrow> string) \<Rightarrow> BackendConfig \<Rightarrow> js_error + string \<Rightarrow> portal_call \<Rightarrow> ProxyAction option" where
  "at_backend url cfg user c = (if small (pc_body c) then Some (proxy url cfg user (arrives c)) else None)"

text \<open>What the hooks and the context read.\<close>

definition page_read :: "string \<Rightarrow> portal_call" where
  "page_read path = \<lparr>pc_path = path, pc_method = ''GET'', pc_body = None, pc_key = None\<rparr>"

text \<open>A person the backend is set up for: both peers are configured and know them.\<close>

definition onboarded :: "BackendConfig \<Rightarrow> string \<Rightarrow> bool" where
  "onboarded cfg ref \<longleftrightarrow>
     truthy (bc_portalUrl cfg) \<and> truthy (bc_portalToken cfg) \<and> truthy (teleportSubject cfg ref) \<and>
     (case bc_platformIdentities cfg of Some ids \<Rightarrow> map_of ids ref \<noteq> None | None \<Rightarrow> False) \<and>
     bc_platformToken cfg \<noteq> None \<and> bc_platformApiUrl cfg \<noteq> None \<and> bc_platformAgentUrl cfg \<noteq> None"

definition platformSubject :: "BackendConfig \<Rightarrow> string \<Rightarrow> string" where
  "platformSubject cfg ref = nullish (map_of (nullish (bc_platformIdentities cfg) []) ref) ''''"

definition forwarded_as :: "string \<Rightarrow> string \<Rightarrow> portal_call \<Rightarrow> FetchRequest \<Rightarrow> bool" where
  "forwarded_as token subject c f \<longleftrightarrow>
     fq_method f = pc_method c \<and> map_of (fq_headers f) ''Authorization'' = Some (''Bearer '' @ token) \<and>
     map_of (fq_headers f) ''X-Dogfood-Subject'' = Some subject \<and> map_of (fq_headers f) ''Idempotency-Key'' = Some (nullish (pc_key c) '''')"

text \<open>What reaches a peer: the call, in the subject the backend knows the person by, with the peer's token, and with the body the page gave.\<close>

definition carried :: "(string \<Rightarrow> string \<Rightarrow> string) \<Rightarrow> BackendConfig \<Rightarrow> string \<Rightarrow> portal_call \<Rightarrow> FetchRequest \<Rightarrow> bool" where
  "carried url cfg ref c f \<longleftrightarrow>
     (let path = pr_path (arrives c) in
      if starts_with ''/access/'' path then
        forwarded_as (nullish (bc_portalToken cfg) '''') (nullish (teleportSubject cfg ref) '''') c f \<and>
        fq_url f = set_search (url (''/v1'' @ drop 7 path) (nullish (bc_portalUrl cfg) '''')) (pr_search (arrives c)) \<and>
        fq_body f = map_option stringify (pc_body c)
      else
        forwarded_as (nullish (bc_platformToken cfg) '''') (platformSubject cfg ref) c f \<and>
        (if path = ''/agent'' then
           fq_url f = url ''/internal/ask'' (nullish (bc_platformAgentUrl cfg) '''') \<and>
           fq_body f = map_option (\<lambda>b. stringify (agent_body b (platformSubject cfg ref))) (pc_body c)
         else fq_url f = url (''/v1'' @ path) (nullish (bc_platformApiUrl cfg) '''') \<and> fq_body f = map_option stringify (pc_body c)))"

section \<open>What the pages send\<close>

definition STATIC_READS :: "string list" where
  "STATIC_READS = [''/environments'', ''/operations'', ''/tools'', ''/policies'', ''/access/me'', ''/access/roles'', ''/access/requestable-roles'',
     ''/access/approvals'']"

text \<open>
  The calls of all pages: the reads of the hooks, for whatever address the page is opened at, and what any history of a page sends. The ids come from the peers: an environment's is a
  DNS label, a request's a UUID. A role's page is another matter, below.
\<close>

inductive page_call :: "portal_call \<Rightarrow> bool" where
  "p \<in> set STATIC_READS \<Longrightarrow> page_call (page_read p)"
| "page_call (page_read (requests_path params))"
| "request_id_ok i \<Longrightarrow> page_call (page_read (''/access/requests/'' @ i))"
| "page_call (page_read (snd (role_paths n)))"
| "c \<in> set (ce_sent (create_run uuid es create_init)) \<Longrightarrow> inj uuid \<Longrightarrow> page_call c"
| "c \<in> set (ed_sent (env_run es detail_init)) \<Longrightarrow> (\<And>env e. (env, e) \<in> set es \<Longrightarrow> env_name_ok (en_id env)) \<Longrightarrow> page_call c"
| "c \<in> set (rq_sent (request_run uuid es (request_init param))) \<Longrightarrow> page_call c"
| "c \<in> set (dc_sent (detail_run toLocale es decision_init)) \<Longrightarrow>
     (\<And>me req e r. (me, req, e) \<in> set es \<Longrightarrow> ax_data req = Some r \<Longrightarrow> request_id_ok (ar_id r)) \<Longrightarrow> page_call c"
| "c \<in> set (dc_sent (decision_run es decision_init)) \<Longrightarrow> (\<And>r. ConfirmClick r \<in> set es \<Longrightarrow> request_id_ok (ar_id r)) \<Longrightarrow> page_call c"
| "c \<in> set (rp_sent (release_run es release_init)) \<Longrightarrow> page_call c"
| "c \<in> set (as_sent (assistant_run uuid aes (assistant_open uuid fails stored))) \<Longrightarrow> page_call c"
| "c \<in> set (sl_sent (foldl (\<lambda>s e. shell_do e s) sh ses)) \<Longrightarrow> sl_sent sh = [] \<Longrightarrow> page_call c"

text \<open>The shape the proxy asks for.\<close>

definition listed :: "string \<Rightarrow> string \<Rightarrow> bool" where
  "listed m p \<longleftrightarrow>
     (if starts_with ''/access/'' p then (if m = ''GET'' then access_read (drop 7 p) else access_write (drop 7 p))
      else if p = ''/agent'' then m = ''POST'' else platform_path p)"

definition call_shape :: "portal_call \<Rightarrow> bool" where
  "call_shape c \<longleftrightarrow>
     (pc_method c = ''GET'' \<and> pc_body c = None \<or> pc_method c = ''POST'' \<and> (\<exists>b. pc_body c = Some b \<and> wf_json b)) \<and>
     listed (pc_method c) (pr_path (arrives c))"

lemma arrives_simps [simp]:
  "pr_method' (arrives c) = pc_method c" "pr_path (arrives c) = takeWhile (\<lambda>x. x \<noteq> CHR ''?'') (pc_path c)"
  "nullish (pr_idempotency (arrives c)) '''' = nullish (pc_key c) ''''"
  by (cases "pc_key c"; simp add: arrives_def pc_request_def client_header)+

lemma arrives_body: "call_shape c \<Longrightarrow> pr_body (arrives c) = pc_body c"
  by (auto simp: call_shape_def arrives_def json_roundtrip)

lemma onboardedD:
  assumes "onboarded cfg ref"
  obtains pt s ids ps tok api ag pu where "bc_portalUrl cfg = Some pu" "pu \<noteq> []" "bc_portalToken cfg = Some pt" "pt \<noteq> []"
    "teleportSubject cfg ref = Some s" "s \<noteq> []" "bc_platformIdentities cfg = Some ids" "map_of ids ref = Some ps"
    "bc_platformToken cfg = Some tok" "bc_platformApiUrl cfg = Some api" "bc_platformAgentUrl cfg = Some ag" "platformSubject cfg ref = ps"
  using assms by (cases "bc_platformIdentities cfg"; cases "bc_portalUrl cfg"; cases "bc_portalToken cfg"; cases "teleportSubject cfg ref")
    (auto simp: onboarded_def platformSubject_def)

lemma forwarded_as_headers:
  "map_of (fq_headers f) = map_of (proxy_headers token subject (arrives c)) \<Longrightarrow> fq_method f = pc_method c \<Longrightarrow> forwarded_as token subject c f"
  by (simp add: forwarded_as_def proxy_headers_def)

text \<open>A call of that shape is forwarded.\<close>

lemma call_carried:
  assumes "onboarded cfg ref" and c: "call_shape c"
  shows "\<exists>f. proxy url cfg (Inr ref) (arrives c) = Forward f \<and> carried url cfg ref c f"
proof -
  from assms(1) obtain pt s ids ps tok api ag pu where cfg: "bc_portalUrl cfg = Some pu" "pu \<noteq> []" "bc_portalToken cfg = Some pt" "pt \<noteq> []"
    "teleportSubject cfg ref = Some s" "s \<noteq> []" "bc_platformIdentities cfg = Some ids" "map_of ids ref = Some ps"
    "bc_platformToken cfg = Some tok" "bc_platformApiUrl cfg = Some api" "bc_platformAgentUrl cfg = Some ag" "platformSubject cfg ref = ps"
    by (rule onboardedD)
  have b: "pr_body (arrives c) = pc_body c" by (rule arrives_body [OF c])
  let ?p = "pr_path (arrives c)"
  show ?thesis
  proof (cases "starts_with ''/access/'' ?p")
    case True
    with c cfg b show ?thesis
      by (auto simp: proxy_def proxy_access_def call_shape_def listed_def carried_def Let_def intro!: forwarded_as_headers)
  next
    case False
    with c cfg b show ?thesis
      by (cases "?p = ''/agent''")
        (auto simp: proxy_def proxy_platform_def call_shape_def listed_def carried_def Let_def intro!: forwarded_as_headers)
  qed
qed

section \<open>Every call of a page has that shape\<close>

lemma plain_path: "CHR ''?'' \<notin> set p \<Longrightarrow> takeWhile (\<lambda>x. x \<noteq> CHR ''?'') p = p"
  by (simp add: takeWhile_eq_all_conv) metis

lemma env_name_plain: "env_name_ok n \<Longrightarrow> CHR ''/'' \<notin> set n \<and> CHR ''?'' \<notin> set n"
  by (auto simp: env_name_ok_def list_all_iff env_char_def is_lower_az_def is_digit_def code_of_def)

lemma request_id_plain: "request_id_ok n \<Longrightarrow> CHR ''/'' \<notin> set n \<and> CHR ''?'' \<notin> set n"
  by (auto simp: request_id_ok_def list_all_iff id_char_def is_alnum_def is_alpha_def is_upper_az_def is_lower_az_def is_digit_def code_of_def)

lemma post_shape: "listed ''POST'' p \<Longrightarrow> CHR ''?'' \<notin> set p \<Longrightarrow> wf_json b \<Longrightarrow> call_shape \<lparr>pc_path = p, pc_method = ''POST'', pc_body = Some b, pc_key = k\<rparr>"
  by (simp add: call_shape_def plain_path)

lemma read_shape: "listed ''GET'' (takeWhile (\<lambda>x. x \<noteq> CHR ''?'') p) \<Longrightarrow> call_shape (page_read p)"
  by (simp add: call_shape_def page_read_def)

lemma static_read_shape: "p \<in> set STATIC_READS \<Longrightarrow> call_shape (page_read p)"
  by (rule read_shape) (auto simp: STATIC_READS_def listed_def access_read_def platform_path_def segments_def starts_with_def)

lemma requests_read_shape: "call_shape (page_read (requests_path params))"
proof (rule read_shape)
  have "takeWhile (\<lambda>x. x \<noteq> CHR ''?'') (requests_path params) = ''/access/requests''"
    by (simp add: requests_path_def Let_def)
  then show "listed ''GET'' (takeWhile (\<lambda>x. x \<noteq> CHR ''?'') (requests_path params))"
    by (simp add: listed_def access_read_def segments_def starts_with_def)
qed

lemma approvers_read_shape: "call_shape (page_read (snd (role_paths n)))"
  by (rule read_shape) (simp add: role_paths_def listed_def access_read_def segments_def starts_with_def)

lemma request_read_shape:
  assumes "request_id_ok i"
  shows "call_shape (page_read (''/access/requests/'' @ i))"
proof (rule read_shape)
  have p: "takeWhile (\<lambda>x. x \<noteq> CHR ''?'') (''/access/requests/'' @ i) = ''/access/requests/'' @ i"
    using request_id_plain [OF assms] by (intro plain_path) simp
  show "listed ''GET'' (takeWhile (\<lambda>x. x \<noteq> CHR ''?'') (''/access/requests/'' @ i))"
    unfolding p using assms request_id_plain [OF assms]
    by (simp add: listed_def access_read_def segments_def starts_with_def split_on_no_sep)
qed

lemma decision_shape:
  assumes "request_id_ok (ar_id r)"
  shows "call_shape (decision_call r v reason)"
  using assms request_id_plain [OF assms] unfolding decision_call_def
  by (intro post_shape; cases v) (simp_all add: listed_def access_write_def segments_def starts_with_def split_on_append)

lemma env_call_shape:
  assumes "env_name_ok n" and "v \<in> {''extend'', ''redeploy'', ''confirm-delete'', ''destroy''}" and "wf_json b"
  shows "call_shape (post (''/environments/'' @ n @ ''/'' @ v) b)"
  using assms env_name_plain [OF assms(1)] unfolding post_def
  by (intro post_shape) (auto simp: listed_def platform_path_def segments_def starts_with_def split_on_append)

text \<open>The logs of the pages, call by call: \<open>P\<close> is kept by a run when every new call of a step has it.\<close>

lemma run_log_all:
  "\<forall>x \<in> set es. \<forall>s. \<forall>c \<in> set (sent (step s x)) - set (sent s). P c \<Longrightarrow> \<forall>c \<in> set (sent s). P c \<Longrightarrow>
   \<forall>c \<in> set (sent (foldl step s es)). P c"
proof (induction es arbitrary: s)
  case (Cons x es)
  then have "\<forall>c \<in> set (sent (step s x)). P c" by auto
  with Cons show ?case by simp
qed simp

lemma run_log:
  assumes "\<And>x s c. x \<in> set es \<Longrightarrow> c \<in> set (sent (step s x)) - set (sent s) \<Longrightarrow> P c" and "sent s = []"
    and "c \<in> set (sent (foldl step s es))"
  shows "P c"
proof -
  have "\<forall>x \<in> set es. \<forall>s. \<forall>c \<in> set (sent (step s x)) - set (sent s). P c" using assms(1) by (intro ballI allI)
  from run_log_all [OF this, of s] assms(2,3) show ?thesis by simp
qed

lemma create_shape:
  assumes "inj uuid" and "c \<in> set (ce_sent (create_run uuid es create_init))"
  shows "call_shape c"
proof -
  have "create_ok uuid (create_run uuid es create_init)" by (rule create_run_ok [OF create_init_ok assms(1)])
  with assms(2) have h: "pc_path c = ''/environments''" "pc_method c = ''POST''" "create_body_ok (pc_body c)"
    by (auto simp: create_ok_def list_all_iff)
  from h(3) obtain b where "pc_body c = Some b" "wf_json b" by (cases "pc_body c" rule: create_body_ok.cases) auto
  with h(1,2) show ?thesis by (simp add: call_shape_def listed_def platform_path_def segments_def starts_with_def)
qed

lemma env_do_shape:
  assumes "env_name_ok (en_id env)"
  shows "\<forall>c \<in> set (ed_sent (env_do env e s)) - set (ed_sent s). call_shape c"
proof -
  note shape = env_call_shape [OF assms, of "''extend''"] env_call_shape [OF assms, of "''redeploy''"]
    env_call_shape [OF assms, of "''confirm-delete''"] env_call_shape [OF assms, of "''destroy''"]
  show ?thesis
  proof (cases e)
    case DangerClick
    with shape show ?thesis by (auto simp: deletion_click_def confirm_call_def destroy_call_def split: option.splits)
  qed (use shape in \<open>auto simp: mutate_def deletion_answer_def split: option.splits mutate_job.splits delete_job.splits sum.splits\<close>)
qed

lemma request_do_shape: "\<forall>c \<in> set (rq_sent (request_do uuid options e s)) - set (rq_sent s). call_shape c"
proof -
  have b: "wf_json (rq_body st)" for st by (simp add: rq_body_def list_all_iff)
  have "call_shape \<lparr>pc_path = ''/access/requests/preview'', pc_method = ''POST'', pc_body = Some (rq_body st), pc_key = k\<rparr>"
    "call_shape \<lparr>pc_path = ''/access/requests'', pc_method = ''POST'', pc_body = Some (rq_body st), pc_key = k\<rparr>" for st k
    using b by (simp_all add: call_shape_def listed_def access_write_def segments_def starts_with_def)
  then show ?thesis
    by (cases e) (auto simp: start_preview_def submit_request_def answer_request_def Let_def split: option.splits sum.splits
        request_job.splits request_screen.splits)
qed

lemma decision_do_shape:
  assumes "\<And>r. e = ConfirmClick r \<Longrightarrow> request_id_ok (ar_id r)"
  shows "\<forall>c \<in> set (dc_sent (decision_do e d)) - set (dc_sent d). call_shape c"
  using decision_do_sent [of e d] assms by (auto simp: explained_def intro: decision_shape)

lemma detail_do_shape:
  assumes "\<And>r. ax_data req = Some r \<Longrightarrow> request_id_ok (ar_id r)"
  shows "\<forall>c \<in> set (dc_sent (detail_do toLocale me req e d)) - set (dc_sent d). call_shape c"
  using detail_do_sent [of toLocale me req e d] assms by (auto simp: explained_def intro: decision_shape)

lemma assistant_do_shape: "\<forall>c \<in> set (as_sent (assistant_do uuid fails e s)) - set (as_sent s). call_shape c"
proof -
  have "call_shape (agent_call chat t)" for chat t
    by (simp add: agent_call_def post_def call_shape_def listed_def starts_with_def)
  then show ?thesis
    by (cases e) (auto simp: assistant_do_def Let_def send_request_def assistant_answer_def reset_chat_def split: option.splits sum.splits)
qed

lemma shell_do_shape: "\<forall>c \<in> set (sl_sent (shell_do e s)) - set (sl_sent s). call_shape c"
proof -
  have "call_shape (post ''/link-code'' (JObj []))"
    by (simp add: post_def call_shape_def listed_def platform_path_def segments_def starts_with_def)
  then show ?thesis by (cases e) (auto split: option.splits sum.splits)
qed

lemma release_shape:
  assumes "c \<in> set (rp_sent (release_run es release_init))"
  shows "call_shape c"
proof -
  obtain t i r where "c = post ''/promotions'' (JObj [(''target'', JStr t), (''image'', JStr i), (''revision'', JStr r)])"
    using promotions_reviewed [OF assms] by blast
  then show ?thesis by (simp add: post_def call_shape_def listed_def platform_path_def segments_def starts_with_def)
qed

lemma page_call_shape: "page_call c \<Longrightarrow> call_shape c"
proof (induction rule: page_call.induct)
  case (3 i)
  then show ?case by (rule request_read_shape)
next
  case (6 c es)
  show ?case
  proof (rule run_log [where sent = ed_sent and P = call_shape, OF _ _ 6(1) [unfolded env_run_def]])
    fix x s c
    assume x: "x \<in> set es" and c: "c \<in> set (ed_sent (case x of (env, e) \<Rightarrow> env_do env e s)) - set (ed_sent s)"
    obtain env e where p: "x = (env, e)" by (cases x)
    show "call_shape c" by (rule env_do_shape [OF 6(2) [OF x [unfolded p]], THEN bspec, OF c [unfolded p prod.case]])
  qed (simp_all add: detail_init_def)
next
  case (7 c uuid es param)
  show ?case
  proof (rule run_log [where sent = rq_sent and P = call_shape, OF _ _ 7(1) [unfolded request_run_def]])
    fix x s c
    assume x: "x \<in> set es" and c: "c \<in> set (rq_sent (case x of (options, e) \<Rightarrow> request_do uuid options e s)) - set (rq_sent s)"
    obtain options e where p: "x = (options, e)" by (cases x)
    show "call_shape c" by (rule request_do_shape [THEN bspec, OF c [unfolded p prod.case]])
  qed (simp_all add: request_init_def)
next
  case (8 c toLocale es)
  show ?case
  proof (rule run_log [where sent = dc_sent and P = call_shape, OF _ _ 8(1) [unfolded detail_run_def]])
    fix x s c
    assume x: "x \<in> set es" and c: "c \<in> set (dc_sent (case x of (me, req, e) \<Rightarrow> detail_do toLocale me req e s)) - set (dc_sent s)"
    obtain me req e where p: "x = (me, req, e)" by (cases x)
    show "call_shape c" by (rule detail_do_shape [OF 8(2) [OF x [unfolded p]], THEN bspec, OF _ c [unfolded p prod.case]])
  qed (simp_all add: decision_init_def)
next
  case (9 c es)
  show ?case
  proof (rule run_log [where sent = dc_sent and P = call_shape, OF _ _ 9(1) [unfolded decision_run_def]])
    fix x s c
    assume x: "x \<in> set es" and c: "c \<in> set (dc_sent (decision_do x s)) - set (dc_sent s)"
    show "call_shape c" using decision_do_shape [of x s] 9(2) x c by blast
  qed (simp_all add: decision_init_def)
next
  case (11 c uuid aes fails stored)
  show ?case
  proof (rule run_log [where sent = as_sent and P = call_shape, OF _ _ 11(1) [unfolded assistant_run_def]])
    fix x s c
    assume x: "x \<in> set aes" and c: "c \<in> set (as_sent (case x of (f, e) \<Rightarrow> assistant_do uuid f e s)) - set (as_sent s)"
    obtain f e where p: "x = (f, e)" by (cases x)
    show "call_shape c" by (rule assistant_do_shape [THEN bspec, OF c [unfolded p prod.case]])
  qed (simp_all add: assistant_open_def store_chat_def)
next
  case (12 c sh ses)
  show ?case
  proof (rule run_log [where sent = sl_sent and P = call_shape, OF _ _ 12(1)])
    fix x s c
    assume x: "x \<in> set ses" and c: "c \<in> set (sl_sent (shell_do x s)) - set (sl_sent s)"
    show "call_shape c" by (rule shell_do_shape [THEN bspec, OF c])
  qed (simp_all add: 12(2))
qed (auto intro: static_read_shape requests_read_shape request_read_shape approvers_read_shape create_shape release_shape)

section \<open>Properties\<close>


definition ex_portal_backend :: BackendConfig where
  "ex_portal_backend = \<lparr>bc_teleportIdentities = [(''user:default/ann'', ''ann@x.io'')], bc_subjectFromEntityName = False, bc_portalUrl = Some ''http://portal'',
     bc_portalToken = Some ''pt'', bc_platformIdentities = Some [(''user:default/ann'', ''ann'')], bc_platformToken = Some ''st'',
     bc_platformApiUrl = Some ''http://api'', bc_platformAgentUrl = Some ''http://agent''\<rparr>"

lemma ex_onboarded: "onboarded ex_portal_backend ''user:default/ann''"
  by (simp add: onboarded_def ex_portal_backend_def teleportSubject_def)


text \<open>A role's page is served exactly for the names the proxy lists: up to 64 letters, digits, dots, underscores and dashes. A name that needs encoding, or that is longer, has a link
  in the catalogue but no page.\<close>

lemma seg_char_unreserved: "seg_char c \<Longrightarrow> uri_unreserved c \<and> c \<noteq> CHR ''?'' \<and> c \<noteq> CHR ''/''"
  by (auto simp: seg_char_def uri_unreserved_def is_alnum_def is_alpha_def is_upper_az_def is_lower_az_def is_digit_def code_of_def)

lemma encoded_segment: "seg_ok n (encodeURIComponent s) \<longleftrightarrow> seg_ok n s"
proof -
  have "list_all seg_char s" if "list_all seg_char (encodeURIComponent s)"
    using that
  proof (induction s)
    case (Cons c s)
    obtain b bs where u: "utf8_char c = b # bs" by (cases "utf8_char c") (auto simp: utf8_char_def split: if_splits)
    have "\<not> seg_char (CHR ''%'')" by (simp add: seg_char_def is_alnum_def is_alpha_def is_upper_az_def is_lower_az_def is_digit_def code_of_def)
    with Cons u show ?case by (auto simp: encodeURIComponent_def percent_def split: if_splits)
  qed simp
  moreover have "encodeURIComponent s = s" if "list_all seg_char s"
    using that by (intro encodeURIComponent_id) (auto simp: list_all_iff dest: seg_char_unreserved)
  ultimately show ?thesis unfolding seg_ok_def by metis
qed

lemma encoded_plain: "CHR ''?'' \<notin> set (encodeURIComponent s) \<and> CHR ''/'' \<notin> set (encodeURIComponent s)"
  using encodeURIComponent_safe [of _ s]
  by (fastforce simp: list_all_iff uri_unreserved_def is_alnum_def is_alpha_def is_upper_az_def is_lower_az_def is_digit_def code_of_def)

lemma role_page_served:
  assumes "onboarded cfg ref"
  shows "(\<exists>f. proxy url cfg (Inr ref) (arrives (page_read (fst (role_paths n)))) = Forward f) \<longleftrightarrow> seg_ok 64 n"
proof -
  let ?e = "encodeURIComponent n"
  have p: "takeWhile (\<lambda>x. x \<noteq> CHR ''?'') (''/access/roles/'' @ ?e) = ''/access/roles/'' @ ?e"
    using encoded_plain by (intro plain_path) simp
  have l: "access_read (drop 7 (''/access/roles/'' @ ?e)) \<longleftrightarrow> seg_ok 64 n"
    using encoded_plain [of n] by (simp add: access_read_def segments_def split_on_no_sep encoded_segment)
  from assms obtain pt s ids ps tok api ag pu where cfg: "bc_portalUrl cfg = Some pu" "pu \<noteq> []" "bc_portalToken cfg = Some pt" "pt \<noteq> []"
    "teleportSubject cfg ref = Some s" "s \<noteq> []" "bc_platformIdentities cfg = Some ids" "map_of ids ref = Some ps"
    "bc_platformToken cfg = Some tok" "bc_platformApiUrl cfg = Some api" "bc_platformAgentUrl cfg = Some ag" "platformSubject cfg ref = ps"
    by (rule onboardedD)
  have a: "starts_with ''/access/'' (''/access/roles/'' @ ?e)" by (simp add: starts_with_def)
  have "proxy url cfg (Inr ref) (arrives (page_read (fst (role_paths n)))) = proxy_access url cfg ref (arrives (page_read (fst (role_paths n))))"
    using a p by (simp add: proxy_def page_read_def role_paths_def)
  moreover have "takeWhile (\<lambda>x. x \<noteq> CHR ''?'') ?e = ?e" using encoded_plain by (intro plain_path) simp
  ultimately show ?thesis using cfg l by (simp add: proxy_access_def page_read_def role_paths_def Let_def)
qed

text \<open>Every role the infrastructure defines has such a name.\<close>

lemma stack_roles_have_pages: "list_all (seg_ok 64) (map rr_name (renderAllRoles ed harness mfa) @ assignableRoleNames)"
proof -
  have n: "map rr_name (renderAllRoles ed harness mfa) = catalog_names @ [ROLE_requester, ROLE_approver] @ map rr_name (renderBotRoles ed harness)"
    for ed harness mfa
    by (simp add: renderAllRoles_def Let_def catalog_names_def renderCatalogRole_def renderRequesterRole_def renderApproverRole_def o_def)
  have b: "set (map rr_name (renderBotRoles ed harness)) \<subseteq> set (map bot_role BOT_KEYS)" for ed harness
    by (auto simp: renderBotRoles_def BOT_KEYS_def renderHarnessRole_def Let_def split: if_splits)
  have k: "list_all (seg_ok 64) (catalog_names @ [ROLE_requester, ROLE_approver] @ map bot_role BOT_KEYS @ [''editor'', ''auditor'', ''access''])"
    by code_simp
  have "set (map rr_name (renderAllRoles ed harness mfa) @ assignableRoleNames) \<subseteq>
      set (catalog_names @ [ROLE_requester, ROLE_approver] @ map bot_role BOT_KEYS @ [''editor'', ''auditor'', ''access''])"
    unfolding assignableRoleNames_def n using b [of ed harness] b [of Community True] by auto
  with k show ?thesis unfolding list_all_iff by blast
qed

section \<open>A question to the assistant\<close>

definition question :: "portal_call \<Rightarrow> bool" where
  "question c \<longleftrightarrow> (\<exists>chat t. c = agent_call chat t \<and> t \<noteq> [] \<and> cv_provider chat \<in> {''bedrock'', ''vertex''})"

lemma assistant_do_questions:
  assumes "assistant_ok s" and "\<forall>c \<in> set (as_sent s). question c"
  shows "\<forall>c \<in> set (as_sent (assistant_do uuid fails e s)). question c"
proof -
  have "question (agent_call (as_chat s) (trim (as_draft s)))" if "trim (as_draft s) \<noteq> []"
    using that assms(1) by (auto simp: question_def assistant_ok_def)
  with assms(2) show ?thesis
    by (cases e) (auto simp: assistant_do_def Let_def send_request_def assistant_answer_def reset_chat_def split: option.splits sum.splits)
qed

lemma assistant_questions:
  assumes "c \<in> set (as_sent (assistant_run uuid es (assistant_open uuid fails stored)))"
  shows "question c"
proof -
  have all: "assistant_ok s \<Longrightarrow> \<forall>c \<in> set (as_sent s). question c \<Longrightarrow> \<forall>c \<in> set (as_sent (assistant_run uuid es s)). question c" for s
  proof (induction es arbitrary: s)
    case (Cons x es)
    obtain f e where x: "x = (f, e)" by (cases x)
    from Cons.IH [OF assistant_do_ok [OF Cons.prems(1)] assistant_do_questions [OF Cons.prems], of uuid f e] show ?case
      by (simp add: assistant_run_def x)
  qed (simp add: assistant_run_def)
  have "\<forall>c \<in> set (as_sent (assistant_open uuid fails stored)). question c" by (simp add: assistant_open_def store_chat_def)
  from all [OF assistant_open_ok this] assms show ?thesis by blast
qed

text \<open>What the agent's answer is when it is back at the page: the proxy relays status and text.\<close>

definition relayed :: "int \<times> json option \<Rightarrow> FetchResponse" where
  "relayed a = \<lparr>fr_status = fst a, fr_statusText = '''', fr_text = (case snd a of Some j \<Rightarrow> stringify j | None \<Rightarrow> '''')\<rparr>"

definition asked :: "BackendConfig \<Rightarrow> string \<Rightarrow> conversation \<Rightarrow> string \<Rightarrow> AskInput" where
  "asked cfg ref chat t =
     \<lparr>ai_subject = platformSubject cfg ref, ai_conversation = cv_id chat, ai_provider = cv_provider chat, ai_text = t\<rparr>"

text \<open>The agent's handler on a question with the service's token: who asks is looked up first, the turn runs in a slot, and every failure is a 400.\<close>

definition ask_outcome :: "SvOutside \<Rightarrow> Service \<Rightarrow> AskInput \<Rightarrow> SvCall list \<Rightarrow> (int \<times> json option) \<times> SvCall list" where
  "ask_outcome o' s inp h =
     (let me = platform_request (vo_url o') \<lparr>pc_base = sc_base s, pc_token = sc_token s, pc_subject = Some (ai_subject inp)\<rparr> ''/v1/me'' ''GET'' None None;
          refused = (\<lambda>e. (400, Some (err_json (err_message e))));
          h' = h @ [SvPlatform me] in
      case vo_fetch o' me h of
        Inl e \<Rightarrow> (refused e, h')
      | Inr res \<Rightarrow>
          (case platform_answer res of
             Inl e \<Rightarrow> (refused e, h')
           | Inr _ \<Rightarrow>
               (case vo_ask o' inp h' of
                  Inl e \<Rightarrow> (refused e, h' @ [SvAsk inp])
                | Inr answer \<Rightarrow> ((200, Some (JObj [(''answer'', JStr answer)])), h' @ [SvAsk inp]))))"

definition ask_turn :: "SvOutside \<Rightarrow> Service \<Rightarrow> AskInput \<Rightarrow> (int \<times> json option) sv" where
  "ask_turn o' s inp =
     bindE (request (sv_platform o') \<lparr>pc_base = sc_base s, pc_token = sc_token s, pc_subject = Some (ai_subject inp)\<rparr> ''/v1/me'' ''GET'' None None) (\<lambda>_.
     bindE (sv_ask o' inp) (\<lambda>answer. retE (200, Some (JObj [(''answer'', JStr answer)]))))"

lemma internal_ask_turn:
  assumes "serviceAuth sha256 (sc_token s) (bearer authorization)" and "\<not> at_limit (sc_max s) (sv_active (loc w))"
    and "json_parse raw = Some body" and "body \<noteq> JNull" and "portal_input s body = Some inp"
  shows "internal_ask o' s sha256 authorization raw w =
    thenE take_slot (finallyE (catchE (ask_turn o' s inp) (\<lambda>e. retE (400, Some (err_json (err_message e))))) free_slot) w"
  using assms by (cases body) (simp_all add: internal_ask_def bindE_def getE_def ask_turn_def)

lemma ask_turn_run:
  "catchE (ask_turn o' s inp) (\<lambda>e. retE (400, Some (err_json (err_message e)))) w =
     (Inr (fst (ask_outcome o' s inp (calls w))), w\<lparr>calls := snd (ask_outcome o' s inp (calls w))\<rparr>)"
proof -
  let ?me = "platform_request (vo_url o') \<lparr>pc_base = sc_base s, pc_token = sc_token s, pc_subject = Some (ai_subject inp)\<rparr> ''/v1/me'' ''GET'' None None"
  have a: "sv_ask o' inp v = (vo_ask o' inp (calls v), v\<lparr>calls := calls v @ [SvAsk inp]\<rparr>)" for v
    by (simp add: sv_ask_def perform_def)
  show ?thesis
  proof (cases "vo_fetch o' ?me (calls w)")
    case (Inr res)
    then show ?thesis
      by (cases "platform_answer res"; cases "vo_ask o' inp (calls w @ [SvPlatform ?me])")
        (simp_all add: ask_turn_def catchE_def bindE_def request_run a retE_def ask_outcome_def Let_def)
  qed (simp add: ask_turn_def catchE_def bindE_def request_run retE_def ask_outcome_def Let_def)
qed

lemma internal_ask_run:
  assumes "serviceAuth sha256 (sc_token s) (bearer authorization)" and "\<not> at_limit (sc_max s) (sv_active (loc w))"
    and "json_parse raw = Some body" and "body \<noteq> JNull" and "portal_input s body = Some inp"
  shows "internal_ask o' s sha256 authorization raw w =
    (Inr (fst (ask_outcome o' s inp (calls w))), w\<lparr>calls := snd (ask_outcome o' s inp (calls w))\<rparr>)"
  unfolding internal_ask_turn [OF assms]
  by (simp add: thenE_def bindE_def take_slot_def free_slot_def upd_loc_def modifyE_def finallyE_def ask_turn_run)

lemma relayed_ok: "wf_json j \<Longrightarrow> client_result (relayed (200, Some j)) = Inr j"
  by (simp add: client_result_def relayed_def res_ok_def json_roundtrip)

lemma relayed_refused: "client_result (relayed (400, Some (err_json m))) = Inl (RequestError m 400 None)"
proof -
  have "json_parse (stringify (err_json m)) = Some (err_json m)" by (rule json_roundtrip) (simp add: err_json_def)
  then show ?thesis by (simp add: client_result_def relayed_def res_ok_def err_json_def jnullish_def)
qed

text \<open>At the page, an answer is a turn's answer, and everything else is the error of a status 400.\<close>

lemma answer_at_page:
  "case client_result (relayed (fst (ask_outcome o' s inp h))) of
     Inr j \<Rightarrow> \<exists>a. jfield ''answer'' j = Some (JStr a) \<and> Inr a \<in> range (vo_ask o' inp)
   | Inl e \<Rightarrow> \<exists>m. e = RequestError m 400 None"
proof -
  have "Inr a \<in> range g" if "g h = Inr a" for g :: "SvCall list \<Rightarrow> js_error + string" and h a using that by (metis rangeI)
  then show ?thesis
    by (auto simp: ask_outcome_def Let_def relayed_refused relayed_ok split: sum.split)
qed

text \<open>C11. A question to the assistant, from the page to the turn and back, over three programs: what the page asks in a conversation reaches the platform agent as a question of that
  conversation, to the provider chosen on the page, in the platform identity the backend has for the person who is signed in; unless the question exceeds the limit of a parser on the way or the agent is busy, the agent
  first has the platform confirm that person, runs at most that one turn, whose requests all carry that person, gives its slot back, and what the page
  is answered is the turn's answer or an error of status 400.\<close>

theorem question_end_to_end:
  assumes "c \<in> set (as_sent (assistant_run uuid es (assistant_open uuid fails stored)))" and "onboarded cfg ref"
    and "bc_platformToken cfg = Some (sc_token s)" and "\<not> at_limit (sc_max s) (sv_active (loc w))" and "small (pc_body c)"
    and "small (map_option (\<lambda>b. agent_body b (platformSubject cfg ref)) (pc_body c))"
  shows "\<exists>f chat t. at_backend url cfg (Inr ref) c = Some (Forward f) \<and> c = agent_call chat t \<and> t \<noteq> [] \<and>
    fq_url f = url ''/internal/ask'' (nullish (bc_platformAgentUrl cfg) '''') \<and>
    (let inp = asked cfg ref chat t; (answer, h) = ask_outcome o' s inp (calls w) in
     internal_ask o' s sha256 (map_of (fq_headers f) ''Authorization'') (nullish (fq_body f) '''') w = (Inr answer, w\<lparr>calls := h\<rparr>) \<and>
     (case client_result (relayed answer) of
        Inr j \<Rightarrow> \<exists>a. jfield ''answer'' j = Some (JStr a) \<and> Inr a \<in> range (vo_ask o' inp)
      | Inl e \<Rightarrow> \<exists>m. e = RequestError m 400 None) \<and>
     (\<exists>turn. calls (snd (ask ao ag inp wa)) = calls wa @ turn \<and> list_all (ask_call_ok ao ag inp) turn))"
proof -
  from assistant_questions [OF assms(1)] obtain chat t where
    c: "c = agent_call chat t" "t \<noteq> []" "cv_provider chat \<in> {''bedrock'', ''vertex''}" by (auto simp: question_def)
  let ?inp = "asked cfg ref chat t"
  have "page_call c" using assms(1) by (rule page_call.intros(11))
  from call_carried [OF assms(2) page_call_shape [OF this], of url] obtain f where
    f: "proxy url cfg (Inr ref) (arrives c) = Forward f" "carried url cfg ref c f" by blast
  have path: "pr_path (arrives c) = ''/agent''" by (simp add: c agent_call_def post_def)
  let ?body = "agent_body (the (pc_body c)) (platformSubject cfg ref)"
  have body: "?body = JObj [(''text'', JStr t), (''conversation'', JStr (cv_id chat)), (''provider'', JStr (cv_provider chat)),
      (''subject'', JStr (platformSubject cfg ref))]"
    by (simp add: c agent_call_def post_def agent_body_def opt_member_def)
  have raw: "fq_body f = Some (stringify ?body)" "fq_url f = url ''/internal/ask'' (nullish (bc_platformAgentUrl cfg) '''')"
    "map_of (fq_headers f) ''Authorization'' = Some (''Bearer '' @ sc_token s)"
    using f(2) assms(3) path by (simp_all add: carried_def starts_with_def forwarded_as_def c agent_call_def post_def)
  have parsed: "json_parse (stringify ?body) = Some ?body" by (rule json_roundtrip) (simp add: body)
  have inp: "portal_input s ?body = Some ?inp"
    by (simp add: body portal_input_def pstr'_def asked_def jnullish_def)
  have "bearer (Some (''Bearer '' @ sc_token s)) = sc_token s" by (simp add: bearer_def starts_with_def)
  then have run: "internal_ask o' s sha256 (map_of (fq_headers f) ''Authorization'') (nullish (fq_body f) '''') w =
      (Inr (fst (ask_outcome o' s ?inp (calls w))), w\<lparr>calls := snd (ask_outcome o' s ?inp (calls w))\<rparr>)"
    using raw parsed inp assms(4) by (intro internal_ask_run [where body = ?body]) (simp_all add: serviceAuth_def body)
  show ?thesis
    using f(1) assms(5) c(1,2) raw(2) run answer_at_page ask_calls [of ao ag ?inp wa]
    by (intro exI [of _ f] exI [of _ chat] exI [of _ t]) (simp add: Let_def case_prod_beta at_backend_def)
qed

definition ex_portal_service :: Service where
  "ex_portal_service = \<lparr>sc_base = ''http://api'', sc_token = ''st'', sc_stateDir = ''/state'', sc_default = ''bedrock'', sc_max = Some (4, 0)\<rparr>"

definition ex_portal_outside :: SvOutside where
  "ex_portal_outside = \<lparr>vo_create = \<lambda>_ _. Inr True, vo_handled = \<lambda>_ _. Inr (), vo_send = \<lambda>_ _ _ _. Inr (),
     vo_fetch = \<lambda>_ _. Inr \<lparr>fr_status = 200, fr_statusText = '''', fr_text = ''null''\<rparr>, vo_ask = \<lambda>_ _. Inr ''hi'',
     vo_url = \<lambda>p b. b @ p, vo_sha256hex = \<lambda>s. s\<rparr>"

theorem question_end_to_end_witness:
  "let chat = fresh_conversation ''bedrock'' (show_nat 0); inp = asked ex_portal_backend ''user:default/ann'' chat ''hello'';
       w = \<lparr>calls = [], loc = \<lparr>sv_active = 3, sv_notifying = False\<rparr>\<rparr> in
   \<exists>f. at_backend (\<lambda>p b. b @ p) ex_portal_backend (Inr ''user:default/ann'') (agent_call chat ''hello'') = Some (Forward f) \<and>
     fq_url f = ''http://agent/internal/ask'' \<and>
     fst (internal_ask ex_portal_outside ex_portal_service (\<lambda>s. s) (map_of (fq_headers f) ''Authorization'') (nullish (fq_body f) '''') w) =
       Inr (fst (ask_outcome ex_portal_outside ex_portal_service inp []))"
proof -
  let ?es = "[(False, TypeDraft ''hello''), (False, SendRequest)]"
  let ?chat = "fresh_conversation ''bedrock'' (show_nat 0)"
  let ?w = "\<lparr>calls = [], loc = \<lparr>sv_active = 3, sv_notifying = False\<rparr>\<rparr> :: (SvCall, SvState) world"
  have sent: "as_sent (assistant_run show_nat ?es (assistant_open show_nat False None)) = [agent_call ?chat ''hello'']"
    unfolding assistant_run_def assistant_open_def
    by (simp add: nothing_stored assistant_do_def send_request_def action_start_def action_init_def fresh_conversation_def trim_def is_ws_def
        code_of_def Let_def store_chat_def)
  have ok: "bc_platformToken ex_portal_backend = Some (sc_token ex_portal_service)" "\<not> at_limit (sc_max ex_portal_service) (sv_active (loc ?w))"
    by (simp_all add: ex_portal_backend_def ex_portal_service_def at_limit_def)
  have "agent_call ?chat ''hello'' \<in> set (as_sent (assistant_run show_nat ?es (assistant_open show_nat False None)))" by (simp add: sent)
  moreover have "small (pc_body (agent_call ?chat ''hello''))" by code_simp
  moreover have "small (map_option (\<lambda>b. agent_body b (platformSubject ex_portal_backend ''user:default/ann'')) (pc_body (agent_call ?chat ''hello'')))"
    by code_simp
  ultimately have small: "agent_call ?chat ''hello'' \<in> set (as_sent (assistant_run show_nat ?es (assistant_open show_nat False None)))"
    "small (pc_body (agent_call ?chat ''hello''))"
    "small (map_option (\<lambda>b. agent_body b (platformSubject ex_portal_backend ''user:default/ann'')) (pc_body (agent_call ?chat ''hello'')))" by blast+
  from question_end_to_end [OF small(1) ex_onboarded ok small(2,3), of "\<lambda>p b. b @ p" ex_portal_outside "\<lambda>s. s" "ex_ag FileMissing" ex_agent undefined]
  obtain f chat t where f: "at_backend (\<lambda>p b. b @ p) ex_portal_backend (Inr ''user:default/ann'') (agent_call ?chat ''hello'') = Some (Forward f)"
    "agent_call ?chat ''hello'' = agent_call chat t" "fq_url f = ''http://agent'' @ ''/internal/ask''"
    "fst (internal_ask ex_portal_outside ex_portal_service (\<lambda>s. s) (map_of (fq_headers f) ''Authorization'') (nullish (fq_body f) '''') ?w) =
       Inr (fst (ask_outcome ex_portal_outside ex_portal_service (asked ex_portal_backend ''user:default/ann'' chat t) []))"
    by (auto simp: Let_def case_prod_beta ex_portal_backend_def)
  from f(2) have "asked ex_portal_backend ''user:default/ann'' chat t = asked ex_portal_backend ''user:default/ann'' ?chat ''hello''"
    by (simp add: agent_call_def post_def asked_def)
  with f show ?thesis by (simp add: Let_def)
qed

end
