(* ===== verification/EndToEnd.thy ===== *)
theory EndToEnd
  imports SlackAdapter Notifications
begin

text \<open>
  A decision in Slack, from the card in the channel to the request at the broker: the card's button, the modal, its submission, the notification service with the identity resolver, and
  the assertion the broker checks. The Slack adapter is the directory the service asks about a clicker; the service sees it in whatever state
  it is at that moment (\<open>sl_at\<close>), since its other handlers run in between.
\<close>

section \<open>Slack behind the service\<close>

definition with_slack :: "SlackCfg \<Rightarrow> SlOutside \<Rightarrow> (OutCall list \<Rightarrow> (SlCall, SlState) world) \<Rightarrow> Outside \<Rightarrow> Outside" where
  "with_slack cfg so sl_at out = out\<lparr>o_resolveUser := \<lambda>a uid ctx h.
     if a = ''slack'' then fst (slack_resolveUser cfg so uid ctx (sl_at h)) else o_resolveUser out a uid ctx h\<rparr>"

lemma with_slack_simps [simp]:
  "o_broker (with_slack cfg so sl_at out) = o_broker out"
  "o_resolveUser (with_slack cfg so sl_at out) ''slack'' uid ctx h = fst (slack_resolveUser cfg so uid ctx (sl_at h))"
  by (simp_all add: with_slack_def)

text \<open>An account of an allowed workspace that is a person's and in use, by what \<open>users.info\<close> says.\<close>

definition live_account :: "SlackCfg \<Rightarrow> SlackUserInfo \<Rightarrow> bool" where
  "live_account cfg i \<longleftrightarrow> (case su_team_id i of Some t \<Rightarrow> t \<noteq> [] \<and> t \<in> set (sk_allowedTeams cfg) | None \<Rightarrow> False) \<and>
     \<not> su_deleted i \<and> \<not> su_is_bot i \<and> \<not> su_is_app_user i \<and> su_id i \<noteq> Some ''USLACKBOT'' \<and> \<not> su_is_stranger i \<and>
     \<not> su_is_restricted i \<and> \<not> su_is_ultra_restricted i"

lemma vetted_live:
  assumes "vetSlackUser r uid (sk_allowedTeams cfg) = Inr u"
  shows "\<exists>i. r = Some i \<and> live_account cfg i \<and> cu_platform u = Slack \<and> cu_platformUserId u = uid \<and> cu_email u = su_email i"
  using vetSlackUser_Inr [OF assms] by (auto simp: live_account_def slack_vetted_def)

lemma fresh_resolve:
  assumes "fst (slack_resolveUser cfg so uid (CtxSlack True) w) = Inr u"
  shows "\<exists>i. so_info so uid (calls w) = Inr (Some i) \<and> live_account cfg i \<and> cu_platform u = Slack \<and> cu_platformUserId u = uid \<and>
    cu_email u = su_email i"
  using assms by (auto simp: slack_resolve_cases Let_def dest: vetted_live split: sum.splits)

section \<open>What an accepted assertion says\<close>

lemma accepted_minted:
  assumes "mintAssertion hmac key p aud now jti = Inr h" and "verifyAssertion hmac key h aud' now' = Inr j"
  shows "aud' = aud \<and> (\<exists>pl. buildPayload p aud now jti = Inr pl \<and> j = payload_json pl)"
proof -
  from mintAssertion_Inr [OF assms(1)] obtain pl where pl: "buildPayload p aud now jti = Inr pl"
    and h: "h = b64url (stringify (payload_json pl)) @ ''.'' @ sign hmac key (b64url (stringify (payload_json pl)))" by blast
  have "check_claims aud' now' (payload_json pl) = Inr j"
    using assms(2) unfolding verifyAssertion_def h split_header by (auto simp: b64url_json_roundtrip Let_def split: if_splits)
  with check_claims_minted [OF pl] pl show ?thesis by (auto split: if_splits)
qed

text \<open>The claims a verifier reads from it are the principal's.\<close>

definition speaks_for :: "json \<Rightarrow> Principal \<Rightarrow> bool" where
  "speaks_for j p \<longleftrightarrow> jfield ''sub'' j = Some (JStr (pr_teleportUser p)) \<and> jfield ''email'' j = Some (JStr (nullish (pr_email p) '''')) \<and>
     jfield ''platform'' j = Some (JStr (platform_name (pr_platform p))) \<and> jfield ''platform_user_id'' j = Some (JStr (pr_platformUserId p))"

lemma accepted_speaks:
  assumes "mintAssertion hmac key p aud now jti = Inr h" and "verifyAssertion hmac key h aud' now' = Inr j"
  shows "aud' = aud \<and> speaks_for j p"
  using accepted_minted [OF assms] by (auto simp: payload_json_def speaks_for_def dest!: buildPayload_Inr)

section \<open>From the button to the click\<close>

text \<open>What a click of the adapter hands on: its button, request and nonce, and the account \<open>users.info\<close> answered for.\<close>

definition click_of :: "ButtonId \<Rightarrow> string \<Rightarrow> string \<Rightarrow> SlCall \<Rightarrow> bool" where
  "click_of b r n k \<longleftrightarrow> (case k of HandClick c \<Rightarrow> bc_button c = b \<and> bc_requestId c = r \<and> bc_nonce c = n | OpenModal _ \<Rightarrow> False | _ \<Rightarrow> True)"

lemma appends_slack_click:
  assumes "\<And>t. appends (click_of b r n) (respond' t)"
  shows "appends (click_of b r n) (slack_click cfg so uid b r n ct reason respond')"
proof -
  have u: "appends (click_of b r n) (slack_resolveUser cfg so uid ctx)" for ctx
    unfolding slack_resolveUser_def Let_def by (auto intro!: appends_intros simp: click_of_def split: option.split)
  have w: "appends (click_of b r n) (refuse_with respond' why)" for why
    unfolding refuse_with_def by (auto intro!: appends_intros assms)
  show ?thesis
    unfolding slack_click_def
    by (auto intro!: appends_intros appends_sl_send u w simp: click_of_def split: js_error.split option.split)
qed

lemma appends_ephemeral_click: "appends (click_of b r n) (ephemeral_reply so uid t)"
  unfolding ephemeral_reply_def by (auto intro!: appends_intros appends_sl_send simp: click_of_def)

lemma appends_view_reply: "appends (click_of b r n) (if q then catchE (ephemeral_reply so uid t) (\<lambda>_. retE ()) else retE ())"
  by (auto intro!: appends_intros appends_ephemeral_click)

text \<open>A modal opened from a card's button carries the card's request and nonce; who submits it is who clicks.\<close>

lemma slack_submission:
  assumes b: "card_button crd b a"
    and opened: "calls (snd (slack_action cfg so a w0)) = calls w0 @ opened" "OpenModal meta \<in> set opened"
    and sent: "calls (snd (slack_view cfg so \<lparr>sv_userId = uid, sv_metadata = Some (stringify meta), sv_reason = reason\<rparr> sw)) = calls sw @ cs"
      "HandClick c \<in> set cs"
  shows "b \<noteq> Details \<and> bc_button c = b \<and> bc_requestId c = rc_requestId crd \<and> bc_nonce c = rc_nonce crd \<and> bc_ctx c = CtxSlack True \<and>
    cu_platform (bc_user c) = Slack \<and> cu_platformUserId (bc_user c) = uid"
proof -
  have nd: "b \<noteq> Details"
  proof
    assume d: "b = Details"
    let ?m = "slack_click cfg so (sa_userId a) Details (rc_requestId crd) (rc_nonce crd) (nullish (sa_channel a) '''', nullish (sa_ts a) '''')
      None (ephemeral_reply so (sa_userId a))"
    have "slack_action cfg so a = ?m" using slack_action_card [OF b] d by simp
    moreover obtain ds where "calls (snd (?m w0)) = calls w0 @ ds" "list_all (click_of Details (rc_requestId crd) (rc_nonce crd)) ds"
      using appendsD [OF appends_slack_click, of _ _ _ "ephemeral_reply so (sa_userId a)"] appends_ephemeral_click by blast
    ultimately show False using opened by (auto simp: list_all_iff click_of_def)
  qed
  then have "slack_action cfg so a = bindE (sl_send so (OpenModal (card_meta crd b a))) (\<lambda>_. retE ())"
    using slack_action_card [OF b] by simp
  with opened have meta: "meta = card_meta crd b a"
    by (auto simp: bindE_def sl_send_def perform_def retE_def split: sum.splits)
  note view = slack_view_card [OF nd, where crd = crd and a = a and uid = uid and reason = reason and cfg = cfg and o' = so, folded meta]
  have "appends (click_of b (rc_requestId crd) (rc_nonce crd)) (slack_view cfg so \<lparr>sv_userId = uid, sv_metadata = Some (stringify meta), sv_reason = reason\<rparr>)"
    unfolding view by (rule appends_slack_click appends_view_reply)+
  from appendsD [OF this, of sw] obtain ds where
    "calls (snd (slack_view cfg so \<lparr>sv_userId = uid, sv_metadata = Some (stringify meta), sv_reason = reason\<rparr> sw)) = calls sw @ ds"
    "list_all (click_of b (rc_requestId crd) (rc_nonce crd)) ds" by blast
  then have h: "bc_button c = b" "bc_requestId c = rc_requestId crd" "bc_nonce c = rc_nonce crd"
    using sent by (auto simp: list_all_iff click_of_def)
  have "clicks_vetted cfg so uid (calls sw) cs"
    using slack_clicks_fresh [of cfg so a sw "\<lparr>sv_userId = uid, sv_metadata = Some (stringify meta), sv_reason = reason\<rparr>"] sent(1)
    by auto
  with sent(2) have "fresh_click cfg so uid (calls sw) c" by (auto simp: clicks_vetted_def list_all_iff)
  then obtain r where "bc_ctx c = CtxSlack True" "vetSlackUser r uid (sk_allowedTeams cfg) = Inr (bc_user c)"
    by (auto simp: fresh_click_def split: sum.splits)
  with vetted_live [OF this(2)] h nd show ?thesis by auto
qed

section \<open>The decision\<close>

text \<open>C1. A decision made in Slack, end to end. Suppose one of the buttons rendered for a card opens a modal, somebody submits it, and handling the click that the adapter hands on makes the service
  send the broker anything but a lookup. Then the card's request is tracked under the card's nonce; Slack said, at that moment, that whoever submitted is a live member of an allowed
  workspace, with an e-mail address of an allowed domain; and what is sent is the decision of the pressed button, on the card's request, with an assertion from which every
  verifier that accepts it reads the Teleport name, address and Slack account of that very person, and which only the broker accepts.\<close>

theorem slack_decision_end_to_end:
  assumes tag: "be_inj (o_broker out) = BrokerHttp" and shown: "pressed crd b a"
    and opened: "calls (snd (slack_action cfg so a w0)) = calls w0 @ opened" "OpenModal meta \<in> set opened"
    and sent: "calls (snd (slack_view cfg so \<lparr>sv_userId = uid, sv_metadata = Some (stringify meta), sv_reason = reason\<rparr> sw)) = calls sw @ cs"
      "HandClick c \<in> set cs"
    and posted: "calls (snd (onClick sv (with_slack cfg so sl_at out) c w)) = calls w @ ds" "BrokerHttp rq \<in> set ds" "fq_method rq \<noteq> ''GET''"
  shows "\<exists>t i e p h. tracked_of (rc_requestId crd) w = Some t \<and> tr_nonce t = rc_nonce crd \<and>
    so_info so uid (calls (sl_at (calls w))) = Inr (Some i) \<and> live_account cfg i \<and>
    su_email i = Some e \<and> email_domain (toLowerCase e) \<in> set (ir_allowedDomains (sv_identity sv)) \<and>
    pr_email p = Some (toLowerCase e) \<and> pr_platform p = Slack \<and> pr_platformUserId p = uid \<and>
    rq = broker_request (sv_broker sv) ''POST''
      (''/v1/requests/'' @ encodeURIComponent (rc_requestId crd) @ ''/'' @ (if b = Approve then ''approve'' else ''deny''))
      (Some (JObj [(''reason'', JStr (decision_reason c p))])) [(ASSERTION_HEADER, h)] \<and>
    (\<forall>aud now j. verifyAssertion (be_hmac (o_broker out)) (bk_signingKey (sv_broker sv)) h aud now = Inr j \<longrightarrow>
       aud = AudBroker \<and> speaks_for j p)"
proof -
  let ?out = "with_slack cfg so sl_at out"
  from pressed_card_button [OF shown] have crd: "card_button crd b a" by simp
  from slack_submission [OF crd opened sent] have c: "b \<noteq> Details" "bc_button c = b" "bc_requestId c = rc_requestId crd"
    "bc_nonce c = rc_nonce crd" "bc_ctx c = CtxSlack True" "cu_platform (bc_user c) = Slack" "cu_platformUserId (bc_user c) = uid" by simp_all
  have "be_inj (o_broker ?out) = BrokerHttp" using tag by simp
  from onClick_post [OF this posted] obtain t p w1 where live: "live_click (tracked_of (bc_requestId c) w) c = Some t"
    and pr: "click_principal sv ?out c w = (Inr (Some p), w1)" and sg: "signed_for sv ?out c p rq" by blast
  from click_principal_Some [OF pr] obtain fresh s1 where f:
    "fst (slack_resolveUser cfg so uid (CtxSlack True) (sl_at (calls w))) = Inr fresh"
    "resolve (Some (userByEmail (o_broker ?out) (sv_broker sv))) (sv_identity sv) fresh s1 = (Inr p, w1)"
    by (auto simp: c)
  from fresh_resolve [OF f(1)] obtain i where i: "so_info so uid (calls (sl_at (calls w))) = Inr (Some i)" "live_account cfg i"
    "cu_platform fresh = Slack" "cu_platformUserId fresh = uid" "cu_email fresh = su_email i" by blast
  from resolve_cases [OF f(2)] i(3-5) obtain e where e: "su_email i = Some e" "pr_email p = Some (toLowerCase e)"
    "email_domain (toLowerCase e) \<in> set (ir_allowedDomains (sv_identity sv))" "pr_platform p = Slack" "pr_platformUserId p = uid" by auto
  from sg obtain h now jti where h: "mintAssertion (be_hmac (o_broker out)) (bk_signingKey (sv_broker sv)) p AudBroker now jti = Inr h"
    "rq = broker_request (sv_broker sv) ''POST''
      (''/v1/requests/'' @ encodeURIComponent (rc_requestId crd) @ ''/'' @ (if b = Approve then ''approve'' else ''deny''))
      (Some (JObj [(''reason'', JStr (decision_reason c p))])) [(ASSERTION_HEADER, h)]"
    by (auto simp: signed_for_def button_decision_def c)
  from live have t: "tracked_of (rc_requestId crd) w = Some t" "tr_nonce t = rc_nonce crd" by (simp_all add: live_click_iff c)
  show ?thesis
    by (intro exI [of _ t] exI [of _ i] exI [of _ e] exI [of _ p] exI [of _ h] conjI allI impI)
      (use t i(1,2) e h accepted_speaks [OF h(1)] in blast)+
qed

definition ex_info :: SlackUserInfo where
  "ex_info = \<lparr>su_id = Some ''U1'', su_team_id = Some ''T1'', su_name = None, su_real_name = Some ''A'', su_deleted = False, su_is_bot = False,
     su_is_app_user = False, su_is_restricted = False, su_is_ultra_restricted = False, su_is_stranger = False, su_email = Some ''Al@Example.com''\<rparr>"

definition ex_so :: SlOutside where
  "ex_so = ex_sl_out\<lparr>so_info := \<lambda>_ _. Inr (Some ex_info)\<rparr>"

definition ex_sw :: "(SlCall, SlState) world" where
  "ex_sw = \<lparr>calls = [], loc = \<lparr>sl_botUserId = '''', sl_userCache = [], sl_channelIds = []\<rparr>\<rparr>"

definition ex_denial :: ButtonClick where
  "ex_denial = \<lparr>bc_user = \<lparr>cu_platform = Slack, cu_platformUserId = ''U1'', cu_displayName = ''A'', cu_email = Some ''Al@Example.com'',
       cu_emailVerified = True, cu_tenantId = Some ''T1''\<rparr>, bc_button = Deny, bc_requestId = ''r1'', bc_nonce = ''n1'',
     bc_message = \<lparr>pm_conversation = \<lparr>cr_platform = Slack, cr_channelId = ''C1'', cr_threadId = None, cr_raw = None\<rparr>, pm_messageId = ''''\<rparr>,
     bc_reason = Some ''no'', bc_ctx = CtxSlack True\<rparr>"

abbreviation "ex_slack_out \<equiv> with_slack ex_sl_cfg ex_so (\<lambda>_. ex_sw) ex_out"

lemma ex_vetted: "vetSlackUser (Some ex_info) ''U1'' (sk_allowedTeams ex_sl_cfg) = Inr (bc_user ex_denial)"
  by (simp add: vetSlackUser_def ex_info_def ex_sl_cfg_def ex_denial_def)

lemma ex_denial_principal:
  "\<exists>w. click_principal ex_service ex_slack_out ex_denial ex_w1 =
     (Inr (Some \<lparr>pr_teleportUser = ''alice'', pr_email = Some ''al@example.com'', pr_platform = Slack, pr_platformUserId = ''U1''\<rparr>), w)"
proof -
  have "fst (slack_resolveUser ex_sl_cfg ex_so ''U1'' (CtxSlack True) ex_sw) = Inr (bc_user ex_denial)"
    by (simp add: slack_resolve_cases ex_so_def ex_vetted Let_def)
  then show ?thesis
    by (simp add: click_principal_def verifyClicker_def Let_def ex_denial_def ex_service_def
        eff_defs perform_def resolve_def ex_user_email mapped_user_def)
qed

lemma ex_denial_posts:
  "\<exists>ds rq. calls (snd (onClick ex_service ex_slack_out ex_denial ex_w1)) = calls ex_w1 @ ds \<and> BrokerHttp rq \<in> set ds \<and> fq_method rq = ''POST''"
proof -
  have "\<exists>t. live_click (tracked_of (bc_requestId ex_denial) ex_w1) ex_denial = Some t" "bc_button ex_denial \<noteq> Details"
    "be_inj (o_broker ex_slack_out) = BrokerHttp"
    by (simp_all add: live_click_iff ex_denial_def ex_w1 ex_tag)
  moreover have "\<exists>h. mintAssertion (be_hmac (o_broker ex_slack_out)) (bk_signingKey (sv_broker ex_service))
      \<lparr>pr_teleportUser = ''alice'', pr_email = Some ''al@example.com'', pr_platform = Slack, pr_platformUserId = ''U1''\<rparr> AudBroker now jti = Inr h" for now jti
    using ex_mint_alice by (simp add: ex_env)
  ultimately show ?thesis using ex_denial_principal click_posts by blast
qed

theorem slack_decision_end_to_end_witness:
  "\<exists>(rq :: FetchRequest) p h. pr_platformUserId p = ''U1'' \<and> live_account ex_sl_cfg ex_info \<and>
     fq_url rq = ''http://b/v1/requests/'' @ encodeURIComponent ''r1'' @ ''/deny'' \<and>
     (\<forall>aud now j. verifyAssertion ex_hmac ex_key h aud now = Inr j \<longrightarrow> aud = AudBroker \<and> speaks_for j p)"
proof -
  let ?meta = "card_meta ex_slack_card Deny ex_action"
  let ?v = "\<lparr>sv_userId = ''U1'', sv_metadata = Some (stringify ?meta), sv_reason = Some ''no''\<rparr>"
  have crd: "card_button ex_slack_card Deny ex_action" using pressed_card_button [OF ex_pressed] by simp
  have opened: "calls (snd (slack_action ex_sl_cfg ex_so ex_action ex_sw)) = calls ex_sw @ [OpenModal ?meta]"
    by (simp add: slack_action_card [OF crd] bindE_def sl_send_def perform_def ex_so_def ex_sl_out_def retE_def)
  have ch: "sa_channel ex_action = Some ''C1''" "sa_ts ex_action = None" "rc_requestId ex_slack_card = ''r1''" "rc_nonce ex_slack_card = ''n1''"
    by (simp_all add: ex_action_def ex_slack_card_def)
  have "calls (snd (slack_view ex_sl_cfg ex_so ?v ex_sw)) = calls ex_sw @ [UsersInfo ''U1'', HandClick ex_denial]"
    by (simp add: slack_view_card ch slack_click_def bindE_def catchE_def slack_resolve_cases Let_def ex_so_def ex_vetted retE_def sl_send_def perform_def
        ex_sl_out_def ex_sw_def) (simp add: ex_denial_def)
  moreover obtain ds rq where "calls (snd (onClick ex_service ex_slack_out ex_denial ex_w1)) = calls ex_w1 @ ds" "BrokerHttp rq \<in> set ds"
    "fq_method rq \<noteq> ''GET''" using ex_denial_posts by fastforce
  ultimately obtain i p h where h: "so_info ex_so ''U1'' (calls ex_sw) = Inr (Some i)" "live_account ex_sl_cfg i" "pr_platformUserId p = ''U1''"
    "rq = broker_request ex_broker ''POST'' (''/v1/requests/'' @ encodeURIComponent ''r1'' @ ''/deny'')
       (Some (JObj [(''reason'', JStr (decision_reason ex_denial p))])) [(ASSERTION_HEADER, h)]"
    "\<forall>aud now j. verifyAssertion ex_hmac ex_key h aud now = Inr j \<longrightarrow> aud = AudBroker \<and> speaks_for j p"
    using slack_decision_end_to_end [OF ex_tag ex_pressed opened _ _ _, where uid = "''U1''" and reason = "Some ''no''" and sw = ex_sw and w = ex_w1
        and sv = ex_service and c = ex_denial and sl_at = "\<lambda>_. ex_sw" and rq = rq]
    by (fastforce simp: ch ex_service_def ex_broker_def ex_out_def)
  from h(1) have "i = ex_info" by (simp add: ex_so_def)
  moreover have "fq_url rq = ''http://b/v1/requests/'' @ encodeURIComponent ''r1'' @ ''/deny''" by (simp add: h(4) broker_request_def ex_broker_def)
  ultimately show ?thesis using h(2,3,5) by (intro exI [of _ rq] exI [of _ p] exI [of _ h]) simp
qed

section \<open>A message\<close>

text \<open>The proxy a turn starts for its principal: the settings come from the configuration, host and path from the MCP address.\<close>

definition turn_proxy :: "hmac \<Rightarrow> (string \<Rightarrow> string \<times> string) \<Rightarrow> Config \<Rightarrow> string \<Rightarrow> Principal \<Rightarrow> ProxyOptions" where
  "turn_proxy hmac parse cfg token p =
     \<lparr>po_signer = \<lparr>sg_hmac = hmac, sg_sharedToken = MCP_SHARED_TOKEN cfg, sg_signingKey = IDENTITY_SIGNING_KEY cfg, sg_principal = p\<rparr>,
      po_host = fst (parse (MCP_URL cfg)), po_pathname = snd (parse (MCP_URL cfg)), po_token = token\<rparr>"

section \<open>The application\<close>

text \<open>
  \<open>buildApp\<close>: one signing key for the sessions of the pool, for the broker client and (\<open>turn_proxy\<close>) for a turn's proxy, one resolver and one approver hint for
  messages and clicks. The stores of the backends never throw; the pool's and the broker client's constructors check the key, the resolver reads the identity map.
\<close>

record BuiltApp =
  app_url :: string
  app_signer :: "Principal \<Rightarrow> Signer"
  app_broker :: BrokerClient
  app_backend :: BackendKind
  app_notifications :: NotificationService
  app_webhook :: WebhookVerifier

definition buildApp ::
  "hmac \<Rightarrow> (string \<Rightarrow> bool) \<Rightarrow> (string \<Rightarrow> string) \<Rightarrow> Config \<Rightarrow> Platform list \<Rightarrow> js_error + BuiltApp" where
  "buildApp hmac existsSync readFileSync cfg adapters =
     (case assertSigningKey (IDENTITY_SIGNING_KEY cfg) of
        Inl e \<Rightarrow> Inl e
      | Inr _ \<Rightarrow>
          (case new_BrokerClient (BROKER_URL cfg) (BROKER_API_TOKEN cfg) (IDENTITY_SIGNING_KEY cfg) of
             Inl e \<Rightarrow> Inl e
           | Inr broker \<Rightarrow>
               (case new_IdentityResolver existsSync readFileSync cfg of
                  Inl e \<Rightarrow> Inl e
                | Inr identity \<Rightarrow>
                    Inr \<lparr>app_url = MCP_URL cfg,
                      app_signer = (\<lambda>p. \<lparr>sg_hmac = hmac, sg_sharedToken = MCP_SHARED_TOKEN cfg, sg_signingKey = IDENTITY_SIGNING_KEY cfg,
                        sg_principal = p\<rparr>),
                      app_broker = broker, app_backend = choose_backend cfg,
                      app_notifications = \<lparr>sv_adapters = map platform_name adapters, sv_broker = broker, sv_identity = identity,
                        sv_approvers = new_ApproverCheck cfg\<rparr>,
                      app_webhook = new_WebhookVerifier (BROKER_WEBHOOK_SECRET cfg)\<rparr>)))"

text \<open>A configuration that loads builds, unless the identity map is not JSON.\<close>

lemma loaded_app_builds:
  assumes "loadConfig is_url readFile env = Inr cfg"
  shows "(\<exists>app. buildApp hmac existsSync readFileSync cfg adapters = Inr app) \<longleftrightarrow>
    (\<forall>f. IDENTITY_MAP_FILE cfg = Some f \<longrightarrow> f \<noteq> [] \<longrightarrow> existsSync f \<longrightarrow> json_parse (readFileSync f) \<noteq> None)"
  using loadConfig_key_ok [OF assms]
  by (auto simp: buildApp_def new_BrokerClient_def new_IdentityResolver_def Let_def split: option.splits)

text \<open>Whatever it signs, it signs with the configured key; and the people it serves are those of the configured domains.\<close>

lemma built_app:
  assumes "buildApp hmac existsSync readFileSync cfg adapters = Inr app"
  shows "bk_signingKey (sv_broker (app_notifications app)) = IDENTITY_SIGNING_KEY cfg \<and> sv_broker (app_notifications app) = app_broker app \<and>
    ir_allowedDomains (sv_identity (app_notifications app)) = map toLowerCase (csv (ALLOWED_EMAIL_DOMAINS cfg)) \<and>
    ir_cfg (sv_identity (app_notifications app)) = cfg \<and>
    app_signer app p = po_signer (turn_proxy hmac parse cfg token p) \<and> wv_secret (app_webhook app) = BROKER_WEBHOOK_SECRET cfg \<and>
    32 \<le> byteLength (IDENTITY_SIGNING_KEY cfg)"
  using assms
  by (auto simp: buildApp_def new_BrokerClient_def new_IdentityResolver_def new_WebhookVerifier_def turn_proxy_def assertSigningKey_def
      MIN_SIGNING_KEY_BYTES_def Let_def split: sum.splits option.splits if_splits)

section \<open>From a message to the MCP server\<close>

text \<open>The message handler wired as \<open>buildApp\<close> does it; only the runs are in the history.\<close>

definition wired :: "(TurnInput, 's) world app_ops \<Rightarrow> (string \<Rightarrow> ((TurnInput, 's) world, js_error, string option) eff) option \<Rightarrow> IdentityResolver \<Rightarrow> bool" where
  "wired ops lookup ir \<longleftrightarrow> op_resolve ops = resolve lookup ir \<and> (\<exists>ans. op_run ops = (\<lambda>inp. perform inp (ans inp))) \<and>
     (\<forall>u. silent (resolve lookup ir u)) \<and> (\<forall>p. silent (op_isApprover ops p)) \<and> (\<forall>t. silent (op_replyText ops t)) \<and>
     silent (op_startStream ops) \<and> (\<forall>t. silent (op_finish ops t))"

text \<open>C2. A message in Slack, end to end. Suppose the adapter hands on a message for an event, handling it starts a turn, the turn starts a proxy, and the proxy sends a request of
  the child process to the MCP server. Then the event's sender is a member of an allowed workspace whom Slack vouched for and whose address is in an allowed domain; and whatever the
  child put into its request, the server receives the shared token and an assertion from which every verifier that accepts it reads the
  Teleport name, address and Slack account of that sender, and which only the MCP server accepts.\<close>

theorem slack_turn_end_to_end:
  assumes cache: "sl_cache_ok (sk_allowedTeams cfg) (loc sw)"
    and handed: "calls (snd (slack_handle cfg so ev sw)) = calls sw @ cs" "HandMessage m \<in> set cs"
    and wires: "wired ops lookup ir" and turn: "calls (snd (handleMessage ops m w)) = calls w @ ts" "inp \<in> set ts"
    and cc: "calls (snd (cc_run b o' inp cw)) = calls cw @ ds" "StartProxy p \<in> set ds"
    and up: "proxy_request (turn_proxy hmac parse (cb_cfg b) token p) now jti meth inc = Upstream meth' h"
  shows "\<exists>e a. slack_vetted (sk_allowedTeams cfg) (nullish (se_user ev) '''') (im_user m) \<and>
    cu_email (im_user m) = Some e \<and> email_domain (toLowerCase e) \<in> set (ir_allowedDomains ir) \<and>
    pr_email p = Some (toLowerCase e) \<and> pr_platform p = Slack \<and> pr_platformUserId p = nullish (se_user ev) '''' \<and>
    map_of h ''authorization'' = Some (''Bearer '' @ MCP_SHARED_TOKEN (cb_cfg b)) \<and> map_of h ASSERTION_HEADER_LC = Some a \<and>
    (\<forall>aud t j. verifyAssertion hmac (IDENTITY_SIGNING_KEY (cb_cfg b)) a aud t = Inr j \<longrightarrow> aud = AudMcp \<and> speaks_for j p)"
proof -
  from slack_message_vetted [OF cache, of so ev] handed have v: "slack_vetted (sk_allowedTeams cfg) (nullish (se_user ev) '''') (im_user m)"
    by (auto simp: list_all_iff message_ok_def)
  from wires obtain ans where ans: "op_run ops = (\<lambda>inp. perform inp (ans inp))" unfolding wired_def by blast
  have "fst (resolve lookup ir (im_user m) w) = Inr (ti_principal inp)"
    using message_turn_bound [of ops lookup ir ans m w] wires ans turn unfolding wired_def list_all_iff by fastforce
  then obtain w1 where r: "resolve lookup ir (im_user m) w = (Inr (ti_principal inp), w1)" by (metis prod.collapse)
  have "appends (turn_call b (ti_principal inp)) (cc_run b o' inp)" by (rule appends_cc_run)
  from appendsD [OF this, of cw] cc have p: "p = ti_principal inp" by (auto simp: list_all_iff turn_call_def)
  from resolve_cases [OF r] v obtain e where e: "cu_email (im_user m) = Some e" "pr_email p = Some (toLowerCase e)"
    "email_domain (toLowerCase e) \<in> set (ir_allowedDomains ir)" "pr_platform p = Slack" "pr_platformUserId p = nullish (se_user ev) ''''"
    by (auto simp: p slack_vetted_def)
  have "proxy_headers (turn_proxy hmac parse (cb_cfg b) token p) now jti inc = Inr h"
    using up by (auto simp: proxy_request_def split: if_splits sum.splits)
  from proxy_headers_Inr [OF this] obtain a where a: "map_of h ''authorization'' = Some (''Bearer '' @ MCP_SHARED_TOKEN (cb_cfg b))"
    "mintAssertion hmac (IDENTITY_SIGNING_KEY (cb_cfg b)) p AudMcp now jti = Inr a" "map_of h ASSERTION_HEADER_LC = Some a"
    by (auto simp: turn_proxy_def)
  show ?thesis
    by (intro exI [of _ e] exI [of _ a] conjI allI impI) (use v e a accepted_speaks [OF a(2)] in blast)+
qed

definition ex_slack_event :: SlackEvent where
  "ex_slack_event = ex_sl_event\<lparr>se_text := Some ''hello''\<rparr>"

definition ex_alice :: Principal where
  "ex_alice = \<lparr>pr_teleportUser = ''alice'', pr_email = Some ''al@example.com'', pr_platform = Slack, pr_platformUserId = ''U1''\<rparr>"

definition ex_slack_turn :: TurnInput where
  "ex_slack_turn = \<lparr>ti_sessionKey = ''slack:C:1:U1'', ti_principal = ex_alice, ti_platform = ''slack'', ti_isApprover = False, ti_text = ''hello''\<rparr>"

abbreviation "ex_proxy \<equiv> turn_proxy ex_hmac (\<lambda>_. (''mcp:8080'', ''/mcp'')) ex_config ''s3'' ex_alice"

lemma ex_so_sends: "so_send ex_so k h = Inr ([], [])"
  by (simp add: ex_so_def ex_sl_out_def)

lemma ex_handled:
  "calls (snd (slack_handle ex_sl_cfg ex_so ex_slack_event ex_sw)) =
     calls ex_sw @ [UsersInfo ''U1'', HandMessage (slack_incoming ex_slack_event '''' (bc_user ex_denial))]"
proof -
  have e: "se_user ex_slack_event = Some ''U1''" "se_bot_id ex_slack_event = None" "se_subtype ex_slack_event = None" "se_team ex_slack_event = None"
    by (simp_all add: ex_slack_event_def ex_sl_event_def)
  have r: "slack_resolveUser ex_sl_cfg ex_so ''U1'' CtxNone ex_sw =
      (Inr (bc_user ex_denial), ex_sw\<lparr>calls := [UsersInfo ''U1''], loc := (loc ex_sw)\<lparr>sl_userCache := [(''U1'', (0, bc_user ex_denial))]\<rparr>\<rparr>)"
    by (simp add: slack_resolve_cases sl_cached_def ex_so_def ex_vetted Let_def ex_sw_def ex_sl_out_def)
  show ?thesis
    by (simp add: slack_handle_def e Let_def bindE_def catchE_def retE_def r getE_def sl_send_def perform_def ex_so_sends) (simp add: ex_sw_def)
qed

lemma ex_message_turn:
  "calls (snd (handleMessage ex_ops (slack_incoming ex_slack_event '''' (bc_user ex_denial)) \<lparr>calls = [], loc = ()\<rparr>)) = [ex_slack_turn]"
proof -
  let ?m = "slack_incoming ex_slack_event '''' (bc_user ex_denial)"
  have m: "im_user ?m = bc_user ex_denial" "message_key ?m = Inr ''slack:C:1:U1''" "im_text ?m = ''hello''"
    "platform_name (cr_platform (im_conversation ?m)) = ''slack''"
    by (simp_all add: slack_incoming_def Let_def ex_slack_event_def ex_sl_event_def message_key_def sessionKey_def ex_denial_def mention_of_def
        trim_def is_ws_def code_of_def)
  have r: "resolve None (sv_identity ex_service) (bc_user ex_denial) w = (Inr ex_alice, w)" for w :: "(TurnInput, unit) world"
    by (simp add: resolve_def Let_def ex_denial_def ex_service_def ex_user_email mapped_user_def retE_def ex_alice_def)
  show ?thesis
    by (simp add: handleMessage_def run_turn_def ex_ops_def bindE_def catchE_def retE_def thenE_def liftE_def perform_def m r ex_slack_turn_def)
qed

lemma ex_turn_run: "StartProxy ex_alice \<in> set (calls (snd (cc_run ex_backend ex_cc ex_slack_turn ex_cc0)))"
  by (simp add: cc_run_def once_def attempt_def ex_cc_def thenE_def bindE_def perform_def read_clock_def getE_def finallyE_def Let_def ex_slack_turn_def)

lemma ex_signing_key: "IDENTITY_SIGNING_KEY ex_config = ex_key"
  by (simp add: ex_config_def parse_config_def Let_def ex_env_def z_min_def ex_key_def MIN_SIGNING_KEY_BYTES_def)

lemma ex_proxied: "\<exists>h. proxy_request ex_proxy 5000 ex_jti ''POST'' [(''authorization'', ''Bearer s3'')] = Upstream ''POST'' h"
proof -
  have "bearerMatches (map_of [(''authorization'', ''Bearer s3'')] ''authorization'') ''s3''" by code_simp
  moreover obtain a where "mintAssertion ex_hmac ex_key ex_alice AudMcp 5000 ex_jti = Inr a"
    using ex_mint_alice [of AudMcp 5000 ex_jti] by (auto simp: ex_alice_def)
  ultimately show ?thesis by (simp add: proxy_request_def proxy_headers_def turn_proxy_def ex_signing_key Let_def)
qed

lemma ex_wired: "wired ex_ops None (sv_identity ex_service)"
  unfolding wired_def
proof (intro conjI allI)
  show "\<exists>ans. op_run ex_ops = (\<lambda>inp. perform inp (ans inp))"
    by (intro exI [of _ "\<lambda>_ _. Inr \<lparr>tn_text = ''hi'', tn_stopReason = JNull, tn_sessionId = None, tn_costUsd = None, tn_resumeFailed = False\<rparr>"])
      (simp add: ex_ops_def)
qed (simp_all add: ex_ops_def silent_ret silent_resolve)

theorem slack_turn_end_to_end_witness:
  "\<exists>h a. proxy_request ex_proxy 5000 ex_jti ''POST'' [(''authorization'', ''Bearer s3'')] = Upstream ''POST'' h \<and>
     map_of h ASSERTION_HEADER_LC = Some a \<and>
     (\<forall>aud t j. verifyAssertion ex_hmac ex_key a aud t = Inr j \<longrightarrow> aud = AudMcp \<and> speaks_for j ex_alice)"
proof -
  obtain h where h: "proxy_request ex_proxy 5000 ex_jti ''POST'' [(''authorization'', ''Bearer s3'')] = Upstream ''POST'' h"
    using ex_proxied by blast
  obtain ds where ds: "calls (snd (cc_run ex_backend ex_cc ex_slack_turn ex_cc0)) = calls ex_cc0 @ ds" "StartProxy ex_alice \<in> set ds"
    using ex_turn_run by simp
  have "sl_cache_ok (sk_allowedTeams ex_sl_cfg) (loc ex_sw)" by (simp add: sl_cache_ok_def ex_sw_def)
  moreover have "calls (snd (handleMessage ex_ops (slack_incoming ex_slack_event '''' (bc_user ex_denial)) \<lparr>calls = [], loc = ()\<rparr>)) =
      calls \<lparr>calls = [], loc = ()\<rparr> @ [ex_slack_turn]" using ex_message_turn by simp
  ultimately show ?thesis
    using slack_turn_end_to_end [OF _ ex_handled _ ex_wired _ _ ds, where ts = "[ex_slack_turn]"] h
    by (fastforce simp: ex_backend_def ex_signing_key)
qed

end
