(* ===== verification/PublicHttp.thy ===== *)
theory PublicHttp
  imports GchatAdapter TeamsAdapter PortalRoles
begin

text \<open>
  A request at the access agent's server (\<open>services/access-agent/src/http/server.ts\<close>), from the listener to the one handler that gets it: the surface the
  listener serves, the content type parsers, the limit on the body and the broker's webhook. What the server hands on are its calls: an event, a request to an
  adapter's route, the question whether the agent is ready.
\<close>

section \<open>Requests\<close>

text \<open>The path is what precedes the question mark; the headers are those of Node, whose names are in lower case.\<close>

record WebRequest =
  wr_method :: HttpMethod
  wr_path :: string
  wr_contentType :: "string option"
  wr_headers :: Headers
  wr_raw :: string

datatype SrvCall =
    SrvReady
  | SrvEvent json
  | SrvRoute HttpRoute Headers "json option"

text \<open>
  The outside: the parsers the framework itself has for other content types (\<open>sr_other\<close>, with the status of a refusal), the application, the handlers of the
  adapters, and the clock.
\<close>

record SrvOutside =
  sr_other :: "string option \<Rightarrow> string \<Rightarrow> int + json option"
  sr_hmac :: hmac
  sr_now :: "SrvCall list \<Rightarrow> int"
  sr_ready :: "SrvCall list \<Rightarrow> js_error + bool"
  sr_event :: "json \<Rightarrow> SrvCall list \<Rightarrow> js_error + unit"
  sr_route :: "HttpRoute \<Rightarrow> Headers \<Rightarrow> json option \<Rightarrow> SrvCall list \<Rightarrow> js_error + (int \<times> json option)"

type_synonym 'a srv = "((SrvCall, WebhookVerifier) world, js_error, 'a) eff"

section \<open>Bodies\<close>

text \<open>\<open>Object.fromEntries(new URLSearchParams(body))\<close>: pairs split at the first equals sign, empty pieces left out, and of a repeated name the last value.\<close>

definition form_pairs :: "string \<Rightarrow> (string \<times> string) list" where
  "form_pairs s = map (\<lambda>p. (query_decode (takeWhile (\<lambda>c. c \<noteq> CHR ''='') p), query_decode (drop 1 (dropWhile (\<lambda>c. c \<noteq> CHR ''='') p))))
     (filter (\<lambda>p. p \<noteq> []) (split_on (CHR ''&'') s))"

definition from_entries :: "(string \<times> string) list \<Rightarrow> json" where
  "from_entries kvs = JObj (foldl (\<lambda>m kv. AList.update (fst kv) (JStr (snd kv)) m) [] kvs)"

definition form_body :: "string \<Rightarrow> json" where
  "form_body raw = JObj [(''__raw'', JStr raw), (''__form'', from_entries (form_pairs raw))]"

definition parse_body :: "SrvOutside \<Rightarrow> WebRequest \<Rightarrow> int + json option" where
  "parse_body o' rq =
     (if wr_method rq = GET then Inr None
      else if BODY_LIMIT < byteLength (wr_raw rq) then Inl 413
      else if wr_contentType rq = Some ''application/json'' then
        (case parse_json_body (wr_raw rq) of None \<Rightarrow> Inl 400 | Some b \<Rightarrow> Inr (Some b))
      else if wr_contentType rq = Some ''application/x-www-form-urlencoded'' then Inr (Some (form_body (wr_raw rq)))
      else sr_other o' (wr_contentType rq) (wr_raw rq))"

text \<open>What an adapter's handler is given: \<open>body?.__form ?? body\<close>.\<close>

definition adapter_body :: "json option \<Rightarrow> json option" where
  "adapter_body body = (case Option.bind body (jfield ''__form'') of Some f \<Rightarrow> if f = JNull then body else Some f | None \<Rightarrow> body)"

section \<open>The server\<close>

definition verify_event :: "SrvOutside \<Rightarrow> Headers \<Rightarrow> string \<Rightarrow> string option srv" where
  "verify_event o' headers raw =
     bindE (read_clock (sr_now o')) (\<lambda>now.
     bindE (getE (\<lambda>w. fst (verify (sr_hmac o') now headers raw (loc w)))) (\<lambda>err.
     thenE (upd_loc (\<lambda>v. snd (verify (sr_hmac o') now headers raw v))) (retE err)))"

definition event_route :: "SrvOutside \<Rightarrow> Headers \<Rightarrow> json option \<Rightarrow> (int \<times> json option) srv" where
  "event_route o' headers body =
     (case body of
        None \<Rightarrow> throwE (PlainError ''Cannot read properties of undefined'')
      | Some b \<Rightarrow>
          bindE (verify_event o' headers (body_raw b)) (\<lambda>err.
          case err of
            Some e \<Rightarrow> retE (401, Some (JObj [(''error'', JStr e)]))
          | None \<Rightarrow> thenE (perform (SrvEvent (drop_raw b)) (sr_event o' (drop_raw b))) (retE (200, Some (JObj [(''ok'', JBool True)])))))"

definition ready_route :: "SrvOutside \<Rightarrow> (int \<times> json option) srv" where
  "ready_route o' =
     bindE (catchE (perform SrvReady (sr_ready o')) (\<lambda>_. retE False))
       (\<lambda>ok. retE (if ok then (200, Some (JObj [(''status'', JStr ''ready'')])) else (503, Some (JObj [(''status'', JStr ''not-ready'')]))))"

definition adapter_route :: "SrvOutside \<Rightarrow> HttpRoute \<Rightarrow> Headers \<Rightarrow> json option \<Rightarrow> (int \<times> json option) srv" where
  "adapter_route o' r headers body =
     bindE (perform (SrvRoute r headers (adapter_body body)) (sr_route o' r headers (adapter_body body)))
       (\<lambda>res. retE (fst res, Some (case snd res of None \<Rightarrow> JStr '''' | Some JNull \<Rightarrow> JStr '''' | Some b \<Rightarrow> b)))"

text \<open>The handler of a route; \<open>/healthz\<close> is on every surface.\<close>

definition route_handler :: "SrvOutside \<Rightarrow> HttpRoute \<Rightarrow> Headers \<Rightarrow> json option \<Rightarrow> (int \<times> json option) srv" where
  "route_handler o' r headers body =
     (if r = \<lparr>hr_method = GET, hr_path = ''/healthz''\<rparr> then retE (200, Some (JObj [(''status'', JStr ''ok'')]))
      else if r = \<lparr>hr_method = GET, hr_path = ''/readyz''\<rparr> then ready_route o'
      else if r = \<lparr>hr_method = POST, hr_path = ''/v1/broker/events''\<rparr> then event_route o' headers body
      else adapter_route o' r headers body)"

text \<open>An unknown route is a 404, a thrown error a 500.\<close>

definition serve :: "SrvOutside \<Rightarrow> HttpSurface \<Rightarrow> HttpRoute list list \<Rightarrow> WebRequest \<Rightarrow> (int \<times> json option) srv" where
  "serve o' surface adapterRoutes rq =
     (let r = \<lparr>hr_method = wr_method rq, hr_path = wr_path rq\<rparr> in
      if r \<notin> set (server_routes surface adapterRoutes) then retE (404, None)
      else
        (case parse_body o' rq of
           Inl st \<Rightarrow> retE (st, None)
         | Inr body \<Rightarrow> catchE (route_handler o' r (wr_headers rq) body) (\<lambda>_. retE (500, None))))"

text \<open>The routes of an adapter: Slack speaks over a socket, the terminal over its streams.\<close>

definition httpRoutes :: "Config \<Rightarrow> Platform \<Rightarrow> HttpRoute list" where
  "httpRoutes cfg p = (case p of Slack \<Rightarrow> [] | Teams \<Rightarrow> teams_httpRoutes | Gchat \<Rightarrow> gchat_httpRoutes cfg | Cli \<Rightarrow> [])"

lemma httpRoutes_post:
  "r \<in> set (httpRoutes cfg p) \<Longrightarrow> hr_method r = POST \<and> hr_path r \<in> {''/api/messages'', ''/gchat/events''}"
  by (auto simp: httpRoutes_def teams_httpRoutes_def gchat_httpRoutes_def split: Platform.splits if_splits)

section \<open>What a request may cause\<close>

text \<open>An event that the broker signed, by the headers and the text of the request.\<close>

definition event_signed :: "SrvOutside \<Rightarrow> WebRequest \<Rightarrow> (SrvCall, WebhookVerifier) world \<Rightarrow> json \<Rightarrow> bool" where
  "event_signed o' rq w ev \<longleftrightarrow>
     (\<exists>b. parse_body o' rq = Inr (Some b) \<and> ev = drop_raw b \<and>
        fst (verify (sr_hmac o') (sr_now o' (calls w)) (wr_headers rq) (body_raw b) (loc w)) = None)"

definition call_admitted :: "SrvOutside \<Rightarrow> HttpSurface \<Rightarrow> HttpRoute list \<Rightarrow> WebRequest \<Rightarrow> (SrvCall, WebhookVerifier) world \<Rightarrow> SrvCall \<Rightarrow> bool" where
  "call_admitted o' surface routes rq w c \<longleftrightarrow>
     (case c of
        SrvReady \<Rightarrow> surface \<noteq> SurfacePublic \<and> wr_method rq = GET \<and> wr_path rq = ''/readyz''
      | SrvEvent ev \<Rightarrow> surface \<noteq> SurfacePublic \<and> wr_method rq = POST \<and> wr_path rq = ''/v1/broker/events'' \<and>
          byteLength (wr_raw rq) \<le> BODY_LIMIT \<and> event_signed o' rq w ev
      | SrvRoute r h b \<Rightarrow> surface \<noteq> SurfaceInternal \<and> r \<in> set routes \<and> wr_method rq = hr_method r \<and> wr_path rq = hr_path r \<and>
          byteLength (wr_raw rq) \<le> BODY_LIMIT \<and> h = wr_headers rq \<and> (\<exists>x. parse_body o' rq = Inr x \<and> b = adapter_body x))"

lemma event_route_run:
  "\<exists>cs. calls (snd (event_route o' h body w)) = calls w @ cs \<and> length cs \<le> 1 \<and>
     (\<forall>c \<in> set cs. \<exists>b. body = Some b \<and> c = SrvEvent (drop_raw b) \<and>
        fst (verify (sr_hmac o') (sr_now o' (calls w)) h (body_raw b) (loc w)) = None) \<and>
     (cs = [] \<longrightarrow> loc (snd (event_route o' h body w)) = loc w)"
proof (cases body)
  case (Some b)
  let ?v = "verify (sr_hmac o') (sr_now o' (calls w)) h (body_raw b) (loc w)"
  have keep: "fst ?v \<noteq> None \<Longrightarrow> snd ?v = loc w" by (auto simp: verify_def Let_def split: option.splits if_splits)
  show ?thesis
  proof (cases "fst ?v")
    case None
    then show ?thesis
      by (intro exI [of _ "[SrvEvent (drop_raw b)]"])
        (simp add: Some event_route_def verify_event_def bindE_def read_clock_def getE_def thenE_def upd_loc_def modifyE_def retE_def perform_def
          split: sum.split)
  next
    case (Some e)
    with keep show ?thesis
      by (intro exI [of _ "[]"])
        (simp add: \<open>body = _\<close> event_route_def verify_event_def bindE_def read_clock_def getE_def thenE_def upd_loc_def modifyE_def retE_def)
  qed
qed (simp add: event_route_def throwE_def)

lemma ready_route_run: "calls (snd (ready_route o' w)) = calls w @ [SrvReady] \<and> loc (snd (ready_route o' w)) = loc w"
  by (simp add: ready_route_def bindE_def catchE_def perform_def retE_def split: sum.split)

lemma adapter_route_run:
  "calls (snd (adapter_route o' r h b w)) = calls w @ [SrvRoute r h (adapter_body b)] \<and> loc (snd (adapter_route o' r h b w)) = loc w"
  by (simp add: adapter_route_def bindE_def perform_def retE_def split: sum.split)

lemma catch_500: "snd (catchE m (\<lambda>_. retE (500, None)) w) = snd (m w)"
  by (simp add: catchE_def retE_def split: sum.split prod.split)

text \<open>The handler of a route that the surface serves.\<close>

lemma route_handler_run:
  assumes r: "r = \<lparr>hr_method = wr_method rq, hr_path = wr_path rq\<rparr>" "r \<in> set (server_routes surface (map (httpRoutes cfg) adapters))"
    and b: "parse_body o' rq = Inr body"
  shows "\<exists>cs. calls (snd (route_handler o' r (wr_headers rq) body w)) = calls w @ cs \<and> length cs \<le> 1 \<and>
    list_all (call_admitted o' surface (concat (map (httpRoutes cfg) adapters)) rq w) cs \<and>
    (list_ex (\<lambda>c. \<exists>ev. c = SrvEvent ev) cs \<or> loc (snd (route_handler o' r (wr_headers rq) body w)) = loc w)"
proof -
  have small: "byteLength (wr_raw rq) \<le> BODY_LIMIT" if "wr_method rq = POST"
    using b that by (auto simp: parse_body_def split: if_splits)
  consider (health) "r = \<lparr>hr_method = GET, hr_path = ''/healthz''\<rparr>"
    | (ready) "r = \<lparr>hr_method = GET, hr_path = ''/readyz''\<rparr>" "surface \<noteq> SurfacePublic"
    | (event) "r = \<lparr>hr_method = POST, hr_path = ''/v1/broker/events''\<rparr>" "surface \<noteq> SurfacePublic"
    | (adapter) p where "r \<in> set (httpRoutes cfg p)" "p \<in> set adapters" "surface \<noteq> SurfaceInternal"
    using r(2) by (auto simp: server_routes_def internal_routes_def split: if_splits)
  then show ?thesis
  proof cases
    case health
    then show ?thesis by (intro exI [of _ "[]"]) (simp add: route_handler_def retE_def)
  next
    case ready
    then show ?thesis using ready_route_run [of o' w] r(1)
      by (intro exI [of _ "[SrvReady]"]) (simp add: route_handler_def call_admitted_def)
  next
    case event
    from event_route_run [of o' "wr_headers rq" body w] obtain cs where
      cs: "calls (snd (event_route o' (wr_headers rq) body w)) = calls w @ cs" "length cs \<le> 1"
      "\<forall>c \<in> set cs. \<exists>b. body = Some b \<and> c = SrvEvent (drop_raw b) \<and>
        fst (verify (sr_hmac o') (sr_now o' (calls w)) (wr_headers rq) (body_raw b) (loc w)) = None"
      "cs = [] \<longrightarrow> loc (snd (event_route o' (wr_headers rq) body w)) = loc w" by blast
    moreover have "route_handler o' r (wr_headers rq) body = event_route o' (wr_headers rq) body" using event by (simp add: route_handler_def)
    moreover have "list_all (call_admitted o' surface (concat (map (httpRoutes cfg) adapters)) rq w) cs"
      using cs(3) event r(1) small b by (auto simp: list_all_iff call_admitted_def event_signed_def)
    moreover have "cs \<noteq> [] \<Longrightarrow> list_ex (\<lambda>c. \<exists>ev. c = SrvEvent ev) cs" using cs(3) by (cases cs) auto
    ultimately show ?thesis by (intro exI [of _ cs]) auto
  next
    case adapter
    with httpRoutes_post [OF adapter(1)] have m: "hr_method r = POST" "hr_path r \<in> {''/api/messages'', ''/gchat/events''}" by blast+
    then have "route_handler o' r (wr_headers rq) body = adapter_route o' r (wr_headers rq) body" by (auto simp: route_handler_def)
    then show ?thesis using adapter_route_run [of o' r "wr_headers rq" body w] adapter m small b r(1)
      by (intro exI [of _ "[SrvRoute r (wr_headers rq) (adapter_body body)]"]) (auto simp: call_admitted_def)
  qed
qed

section \<open>Properties\<close>


definition ex_web :: SrvOutside where
  "ex_web = \<lparr>sr_other = \<lambda>_ _. Inl 415, sr_hmac = ex_hmac, sr_now = \<lambda>_. 5000, sr_ready = \<lambda>_. Inr True, sr_event = \<lambda>_ _. Inr (),
     sr_route = \<lambda>_ _ _ _. Inr (200, None)\<rparr>"

definition ex_post :: WebRequest where
  "ex_post = \<lparr>wr_method = POST, wr_path = ''/v1/broker/events'', wr_contentType = Some ''application/json'', wr_headers = ex_headers ''e1'',
     wr_raw = ''{}''\<rparr>"

definition ex_web_world :: "(SrvCall, WebhookVerifier) world" where
  "ex_web_world = \<lparr>calls = [], loc = new_WebhookVerifier ex_key\<rparr>"


end
