(* ===== verification/ProxyRelay.thy ===== *)
theory ProxyRelay
  imports McpClient "HOL-Library.Sublist"
begin

text \<open>
  One connection of the loopback proxy (\<open>services/access-agent/src/mcp/assertion-proxy.ts\<close>) once it has let a request through: the request of the child is piped to
  the MCP server and the answer is piped back, while either side may end, fail or go away at any moment. The handlers are those the callback registers; the
  events are Node's, in any order Node emits them in.
\<close>

section \<open>The handlers\<close>

datatype relay_event =
    ReqData string
  | ReqEnd
  | ReqClose
  | ResClose
  | UpResponse "int option" HttpHeaders
  | UpData string
  | UpEnd
  | UpResError
  | UpError

record Relay =
  rl_sent :: string
  rl_upEnded :: bool
  rl_upDestroyed :: bool
  rl_head :: "(int \<times> HttpHeaders) option"
  rl_body :: string
  rl_ended :: bool
  rl_destroyed :: bool

definition relay_init :: Relay where
  "relay_init = \<lparr>rl_sent = '''', rl_upEnded = False, rl_upDestroyed = False, rl_head = None, rl_body = '''', rl_ended = False, rl_destroyed = False\<rparr>"

definition unavailable :: string where
  "unavailable = stringify (JObj [(''error'', JStr ''upstream unavailable'')])"

text \<open>A write to a stream that is ended or destroyed is lost.\<close>

definition res_write :: "string \<Rightarrow> Relay \<Rightarrow> Relay" where
  "res_write c s = (if rl_ended s \<or> rl_destroyed s then s else s\<lparr>rl_body := rl_body s @ c\<rparr>)"

definition destroy_up :: "Relay \<Rightarrow> Relay" where
  "destroy_up s = s\<lparr>rl_upDestroyed := True\<rparr>"

fun relay_do :: "relay_event \<Rightarrow> Relay \<Rightarrow> Relay" where
  "relay_do (ReqData c) s = (if rl_upEnded s \<or> rl_upDestroyed s then s else s\<lparr>rl_sent := rl_sent s @ c\<rparr>)"
| "relay_do ReqEnd s = (if rl_upDestroyed s then s else s\<lparr>rl_upEnded := True\<rparr>)"
| "relay_do ReqClose s = (if \<not> rl_upDestroyed s \<and> \<not> rl_upEnded s then destroy_up s else s)"
| "relay_do ResClose s = (if \<not> rl_upDestroyed s then destroy_up s else s)"
| "relay_do (UpResponse st h) s = s\<lparr>rl_head := Some (nullish st 502, filter (keep_header STRIP_RESPONSE_HEADERS) h)\<rparr>"
| "relay_do (UpData c) s = res_write c s"
| "relay_do UpEnd s = s\<lparr>rl_ended := True\<rparr>"
| "relay_do UpResError s = s\<lparr>rl_destroyed := True\<rparr>"
| "relay_do UpError s =
     (res_write unavailable (if rl_head s = None then s\<lparr>rl_head := Some (502, [(''content-type'', ''application/json'')])\<rparr> else s))
       \<lparr>rl_ended := True\<rparr>"

section \<open>Runs\<close>

text \<open>
  The order of Node's events: a request's data precede its end; there is one response, and none after the request to the server failed; the
  response's events follow it, and its end is the last of its data.
\<close>

definition upstream_failed :: "relay_event list \<Rightarrow> bool" where
  "upstream_failed es \<longleftrightarrow> UpError \<in> set es"

definition is_response :: "relay_event \<Rightarrow> bool" where
  "is_response e \<longleftrightarrow> (case e of UpResponse _ _ \<Rightarrow> True | _ \<Rightarrow> False)"

fun relay_can :: "relay_event list \<Rightarrow> relay_event \<Rightarrow> bool" where
  "relay_can es (ReqData c) \<longleftrightarrow> ReqEnd \<notin> set es \<and> ReqClose \<notin> set es"
| "relay_can es ReqEnd \<longleftrightarrow> ReqEnd \<notin> set es \<and> ReqClose \<notin> set es"
| "relay_can es ReqClose \<longleftrightarrow> ReqClose \<notin> set es"
| "relay_can es ResClose \<longleftrightarrow> ResClose \<notin> set es"
| "relay_can es (UpResponse st h) \<longleftrightarrow> \<not> upstream_failed es \<and> \<not> list_ex is_response es"
| "relay_can es (UpData c) \<longleftrightarrow> list_ex is_response es \<and> UpEnd \<notin> set es \<and> UpResError \<notin> set es"
| "relay_can es UpEnd \<longleftrightarrow> list_ex is_response es \<and> UpEnd \<notin> set es \<and> UpResError \<notin> set es"
| "relay_can es UpResError \<longleftrightarrow> list_ex is_response es \<and> UpEnd \<notin> set es \<and> UpResError \<notin> set es"
| "relay_can es UpError \<longleftrightarrow> \<not> upstream_failed es"

inductive relay_run :: "relay_event list \<Rightarrow> Relay \<Rightarrow> bool" where
  begin_run: "relay_run [] relay_init"
| next_event: "relay_run es s \<Longrightarrow> relay_can es e \<Longrightarrow> relay_run (es @ [e]) (relay_do e s)"

inductive_cases relay_runE: "relay_run es s"

definition req_text :: "relay_event list \<Rightarrow> string" where
  "req_text es = concat (map (\<lambda>e. case e of ReqData c \<Rightarrow> c | _ \<Rightarrow> '''') es)"

definition up_text :: "relay_event list \<Rightarrow> string" where
  "up_text es = concat (map (\<lambda>e. case e of UpData c \<Rightarrow> c | _ \<Rightarrow> '''') es)"

lemma texts_snoc [simp]:
  "req_text (es @ [e]) = req_text es @ (case e of ReqData c \<Rightarrow> c | _ \<Rightarrow> '''')"
  "up_text (es @ [e]) = up_text es @ (case e of UpData c \<Rightarrow> c | _ \<Rightarrow> '''')"
  "req_text [] = ''''" "up_text [] = ''''"
  by (simp_all add: req_text_def up_text_def)

lemma relay_do_simps [simp]:
  "rl_upDestroyed (res_write c s) = rl_upDestroyed s" "rl_upEnded (res_write c s) = rl_upEnded s" "rl_sent (res_write c s) = rl_sent s"
  "rl_head (res_write c s) = rl_head s" "rl_ended (res_write c s) = rl_ended s" "rl_destroyed (res_write c s) = rl_destroyed s"
  "rl_upDestroyed (destroy_up s)" "rl_upEnded (destroy_up s) = rl_upEnded s" "rl_sent (destroy_up s) = rl_sent s"
  "rl_head (destroy_up s) = rl_head s" "rl_body (destroy_up s) = rl_body s" "rl_ended (destroy_up s) = rl_ended s"
  "rl_destroyed (destroy_up s) = rl_destroyed s"
  by (simp_all add: res_write_def destroy_up_def)

section \<open>What holds of every run\<close>

text \<open>When the child is gone, so is the request to the server: nothing is left running for it.\<close>

lemma no_orphan: "relay_run es s \<Longrightarrow> ResClose \<in> set es \<Longrightarrow> rl_upDestroyed s"
proof (induction rule: relay_run.induct)
  case (next_event es s e)
  then show ?case by (cases e) auto
qed simp

text \<open>
  The server never takes a part of the child's request for the whole: what it gets is a prefix, and a request it sees the end of is the complete one. A child that goes away in the middle
  has its request cut off.
\<close>

lemma whole_request:
  "relay_run es s \<Longrightarrow> prefix (rl_sent s) (req_text es) \<and> (rl_upEnded s \<longrightarrow> ReqEnd \<in> set es \<and> rl_sent s = req_text es) \<and>
     (\<not> rl_upDestroyed s \<longrightarrow> rl_sent s = req_text es \<and> (ReqEnd \<in> set es \<longrightarrow> rl_upEnded s)) \<and>
     (ReqClose \<in> set es \<longrightarrow> rl_upEnded s \<or> rl_upDestroyed s)"
proof (induction rule: relay_run.induct)
  case (next_event es s e)
  then show ?case by (cases e) (auto intro: prefix_order.trans)
qed (simp add: relay_init_def)

text \<open>What the child reads: the head of the server's answer without the hop-by-hop headers and the data of the answer in order; or, when the server could not be reached,
  the error with status 502.\<close>

definition up_head :: "relay_event list \<Rightarrow> (int \<times> HttpHeaders) \<Rightarrow> bool" where
  "up_head es hs \<longleftrightarrow> (\<exists>st h. UpResponse st h \<in> set es \<and> hs = (nullish st 502, filter (keep_header STRIP_RESPONSE_HEADERS) h))"

lemma answer_relayed:
  assumes "relay_run es s" and "\<not> upstream_failed es"
  shows "(case rl_head s of None \<Rightarrow> \<not> list_ex is_response es | Some hs \<Rightarrow> up_head es hs \<and> list_ex is_response es) \<and>
    rl_body s = up_text es \<and> (rl_ended s \<longleftrightarrow> UpEnd \<in> set es) \<and> (rl_destroyed s \<longleftrightarrow> UpResError \<in> set es)"
  using assms
proof (induction rule: relay_run.induct)
  case (next_event es s e)
  have "\<not> upstream_failed es" using next_event.prems by (simp add: upstream_failed_def)
  note IH = next_event.IH [OF this]
  have none: "\<not> list_ex is_response es \<Longrightarrow> rl_head s = None" using IH by (auto split: option.splits)
  show ?case
    using IH next_event.hyps(2) next_event.prems none
    by (cases e) (auto simp: up_head_def is_response_def upstream_failed_def res_write_def list_ex_iff split: option.splits)
qed (simp add: relay_init_def)

lemma unreachable_answer:
  assumes "relay_run es s" and "\<not> list_ex is_response es" and "upstream_failed es"
  shows "rl_head s = Some (502, [(''content-type'', ''application/json'')]) \<and> rl_body s = unavailable \<and> rl_ended s"
  using assms
proof (induction rule: relay_run.induct)
  case (next_event es s e)
  have quiet: "rl_body s = '''' \<and> rl_head s = None \<and> \<not> rl_ended s \<and> \<not> rl_destroyed s" if "\<not> upstream_failed es" "\<not> list_ex is_response es"
  proof -
    have "up_text es = '''' \<and> UpEnd \<notin> set es \<and> UpResError \<notin> set es"
      using next_event.hyps(1) that(2) by (induction rule: relay_run.induct) (auto simp: list_ex_iff split: relay_event.splits)
    then show ?thesis using answer_relayed [OF next_event.hyps(1) that(1)] that(2) by (auto split: option.splits)
  qed
  show ?case
  proof (cases "upstream_failed es")
    case True
    with next_event show ?thesis by (cases e) (auto simp: upstream_failed_def is_response_def res_write_def)
  next
    case False
    with next_event.prems have "e = UpError" by (auto simp: upstream_failed_def)
    with quiet False next_event.prems show ?thesis by (simp add: res_write_def)
  qed
qed (simp add: upstream_failed_def)

text \<open>
  A connection that breaks in the middle of an answer is the exception: the error text is appended to what has been relayed, and the answer is ended in good order, so
  the child reads it as complete.
\<close>

lemma broken_answer_completed:
  "\<exists>s. relay_run [ReqEnd, UpResponse (Some 200) [], UpData ''data'', UpError] s \<and>
     rl_head s = Some (200, []) \<and> rl_body s = ''data'' @ unavailable \<and> rl_ended s \<and> \<not> rl_destroyed s"
proof -
  let ?s = "relay_do UpError (relay_do (UpData ''data'') (relay_do (UpResponse (Some 200) []) (relay_do ReqEnd relay_init)))"
  have "relay_run ((([] @ [ReqEnd]) @ [UpResponse (Some 200) []]) @ [UpData ''data'']) (relay_do (UpData ''data'') (relay_do (UpResponse (Some 200) []) (relay_do ReqEnd relay_init)))"
    by (intro relay_run.intros) (simp_all add: upstream_failed_def is_response_def)
  from relay_run.next_event [OF this, of UpError] have "relay_run [ReqEnd, UpResponse (Some 200) [], UpData ''data'', UpError] ?s"
    by (simp add: upstream_failed_def)
  moreover have "rl_head ?s = Some (200, []) \<and> rl_body ?s = ''data'' @ unavailable \<and> rl_ended ?s \<and> \<not> rl_destroyed ?s"
    by (simp add: relay_init_def res_write_def)
  ultimately show ?thesis by blast
qed

end
