(* ===== verification/PortalElements.thy ===== *)
theory PortalElements
  imports PortalAccess
begin

text \<open>
  Two elements of the portal that keep a state of their own, the modal dialog (\<open>packages/portal/src/ui.tsx\<close>, \<open>Dialog\<close>) and the command with its copy button
  (\<open>pages/access/index.tsx\<close>, \<open>Command\<close>), and the two reloads after a decision (\<open>pages/access/requests.tsx\<close>, \<open>approvals.tsx\<close>).
\<close>

section \<open>The dialog\<close>

text \<open>
  The element is rendered while its page wants it (\<open>dg_previous\<close> holds what the effect of the mounted dialog remembers), shown by the browser (\<open>dg_shown\<close>), and the focus is where
  the person put it. A page's \<open>onClose\<close> may decline, as it does while an action runs. The browser closes a modal dialog on Escape by itself, unless the handler of
  \<open>cancel\<close> prevents it.
\<close>

record dialog =
  dg_previous :: "string option"
  dg_shown :: bool
  dg_focus :: string

datatype dialog_event =
    OpenDialog
  | EscapeKey bool
  | CloseButton bool
  | MoveFocus string

definition dialog_mount :: "dialog \<Rightarrow> dialog" where
  "dialog_mount d = d\<lparr>dg_previous := Some (dg_focus d), dg_shown := True, dg_focus := ''dialog''\<rparr>"

definition dialog_unmount :: "dialog \<Rightarrow> dialog" where
  "dialog_unmount d = (case dg_previous d of None \<Rightarrow> d | Some e \<Rightarrow> d\<lparr>dg_previous := None, dg_shown := False, dg_focus := e\<rparr>)"

fun dialog_do :: "dialog_event \<Rightarrow> dialog \<Rightarrow> dialog" where
  "dialog_do OpenDialog d = (if dg_previous d = None then dialog_mount d else d)"
| "dialog_do (EscapeKey closes) d = (if dg_previous d \<noteq> None \<and> closes then dialog_unmount d else d)"
| "dialog_do (CloseButton closes) d = (if dg_previous d \<noteq> None \<and> closes then dialog_unmount d else d)"
| "dialog_do (MoveFocus e) d = d\<lparr>dg_focus := e\<rparr>"

text \<open>What is shown is what the page renders: no key closes a dialog behind the page's back.\<close>

lemma dialog_shown_rendered:
  "(dg_shown d \<longleftrightarrow> dg_previous d \<noteq> None) \<Longrightarrow> (dg_shown (fold dialog_do es d) \<longleftrightarrow> dg_previous (fold dialog_do es d) \<noteq> None)"
proof (induction es arbitrary: d)
  case (Cons e es)
  then have "dg_shown (dialog_do e d) \<longleftrightarrow> dg_previous (dialog_do e d) \<noteq> None"
    by (cases e) (auto simp: dialog_mount_def dialog_unmount_def split: option.splits)
  from Cons.IH [OF this] show ?case by simp
qed simp

text \<open>When it closes, the focus is back where it was when it opened, wherever it went in between.\<close>

lemma dialog_returns_focus:
  assumes "dg_previous d = None" and "list_all (\<lambda>e. e \<noteq> EscapeKey True \<and> e \<noteq> CloseButton True) es"
    and "e \<in> {EscapeKey True, CloseButton True}"
  shows "dg_focus (fold dialog_do (OpenDialog # es @ [e]) d) = dg_focus d \<and> dg_previous (fold dialog_do (OpenDialog # es @ [e]) d) = None"
proof -
  have "dg_previous (fold dialog_do es x) = dg_previous x" if "dg_previous x \<noteq> None" for x
    using assms(2) that
  proof (induction es arbitrary: x)
    case (Cons e es)
    then have "dg_previous (dialog_do e x) = dg_previous x" by (cases e) auto
    with Cons show ?case by simp
  qed simp
  from this [of "dialog_mount d"] assms(1,3) show ?thesis by (auto simp: dialog_mount_def dialog_unmount_def)
qed

section \<open>The copy button\<close>

text \<open>
  A click asks the clipboard, if there is one; each text that was copied shows the check mark and sets a timer of 1.5 seconds that takes it away. Times are in
  milliseconds.
\<close>

record command =
  cp_copied :: bool
  cp_writing :: nat
  cp_timers :: "int list"

definition command_init :: command where
  "command_init = \<lparr>cp_copied = False, cp_writing = 0, cp_timers = []\<rparr>"

datatype command_event =
    CopyClick bool
  | CopyDone int
  | CopyFailed
  | TimerFires int

fun command_do :: "command_event \<Rightarrow> command \<Rightarrow> command" where
  "command_do (CopyClick clipboard) s = (if clipboard then s\<lparr>cp_writing := cp_writing s + 1\<rparr> else s)"
| "command_do (CopyDone now) s =
     (if cp_writing s = 0 then s
      else s\<lparr>cp_writing := cp_writing s - 1, cp_copied := True, cp_timers := cp_timers s @ [now + 1500]\<rparr>)"
| "command_do CopyFailed s = s\<lparr>cp_writing := cp_writing s - 1\<rparr>"
| "command_do (TimerFires t) s = (if t \<in> set (cp_timers s) then s\<lparr>cp_timers := remove1 t (cp_timers s), cp_copied := False\<rparr> else s)"

definition command_icon :: "command \<Rightarrow> string" where
  "command_icon s = (if cp_copied s then ''check'' else ''copy'')"

text \<open>A check mark always has a timer to come, so once the timers have fired the button is as it was.\<close>

lemma check_mark_ends:
  assumes "cp_timers (fold command_do es command_init) = []"
  shows "command_icon (fold command_do es command_init) = ''copy''"
proof -
  have "cp_timers (fold command_do es s) = [] \<Longrightarrow> (cp_copied s \<longrightarrow> cp_timers s \<noteq> []) \<Longrightarrow> \<not> cp_copied (fold command_do es s)" for s
  proof (induction es arbitrary: s)
    case (Cons e es)
    have "cp_copied (command_do e s) \<longrightarrow> cp_timers (command_do e s) \<noteq> []" using Cons.prems(2) by (cases e) auto
    with Cons show ?case by simp
  qed simp
  from this [OF assms] show ?thesis by (simp add: command_init_def command_icon_def)
qed

text \<open>A second copy within the time of the first loses its check mark early: the first timer takes it away.\<close>

lemma second_mark_cut:
  "command_icon (fold command_do [CopyClick True, CopyDone 0, CopyClick True, CopyDone 1400, TimerFires 1500] command_init) = ''copy''"
  by (simp add: command_init_def command_icon_def)

section \<open>The reloads after a decision\<close>

text \<open>At once and two seconds later, each with the path the page had when the decision was made.\<close>

definition decision_reloads :: "string \<Rightarrow> (int \<times> access_event) list" where
  "decision_reloads path = [(0, Again path), (2000, Again path)]"

text \<open>Whatever the two calls answer and in which order, the page that stays open shows the answer of the second.\<close>

lemma second_reload_wins:
  assumes "map snd (decision_reloads path) = [e1, e2]" and "ax_version s = n"
    and "answers \<in> {[Inr (Suc n, a), Inr (Suc (Suc n), Inr b)], [Inr (Suc (Suc n), Inr b), Inr (Suc n, a)]}"
  shows "ax_data (access_run ([Inl e1, Inl e2] @ answers) s) = Some b"
  using assms by (cases a) (auto simp: decision_reloads_def access_reload_def Let_def)

text \<open>
  The timer is not stopped when the page moves on to another request without being taken down, as going back in the browser does: the late reload then counts as the newest
  call, and the page of the other request shows the first one until its next poll.
\<close>

lemma late_reload_shows_first:
  "ax_data (access_run [Inl (Effect ''/access/requests/a''), Inr (1, Inr ''a''), Inl (Again ''/access/requests/a''), Inr (2, Inr ''a''),
     Inl Leave, Inl (Effect ''/access/requests/b''), Inr (4, Inr ''b''), Inl (Again ''/access/requests/a''), Inr (5, Inr ''a'')] access_init) = Some ''a''"
  by (simp add: access_reload_def access_init_def Let_def)

end
