(* ===== verification/Spec2Isabelle.thy ===== *)
theory Spec2Isabelle
  imports SlackStream AgentMain GchatAdapter TeamsAdapter CliAdapter ApiKey ClaudeCode PaChannels PaServer Backend NetPolicies AccessCrs AgentDeploy StackMain PortalRoles PortalShell PortalWire EndToEnd PublicHttp ProxyRelay PortalElements
begin

text \<open>
  A model of the TypeScript part of the repository and what is proved of it. This theory imports every other one; each of them opens with a
  paragraph on what it holds.

  \<^bold>\<open>The program.\<close> The repository gives developers just-in-time access through Teleport. Its TypeScript consists of five programs:

  \<^item> the access agent (\<open>services/access-agent\<close>), which people talk to in Slack, Teams, Google Chat or a terminal. It maps a chat account to a
    Teleport user, runs the language model with tools that act for that user only, and posts request cards whose buttons approve or deny;
  \<^item> the platform agent (\<open>services/agent\<close>), a chat bot and HTTP service for preview environments;
  \<^item> the Backstage backend (\<open>packages/backend\<close>), which forwards a signed-in person's calls to the access portal and the platform;
  \<^item> the portal (\<open>packages/portal\<close>), the browser application in front of it;
  \<^item> the Teleport infrastructure program (\<open>infra/teleport\<close>), which renders roles, policies, workloads and chart values for a stack.

  The Go services they talk to (the broker, the MCP server, the portal API) are other programs: their answers are arguments of the model.

  \<^bold>\<open>Groups of theories.\<close>

  \<^item> \<open>JsBase\<close>, \<open>Effects\<close>, \<open>Regex\<close>, \<open>Bytes\<close>, \<open>Json\<close>: what all components share of the language. \<open>Effects\<close> has the one shape of stateful
    code: a function of the state that returns a thrown error or a value and, in both cases, the state; calls to the outside are appended to a
    history, and the answers are functions of the history, so every theorem holds for any outside. \<open>JsBase\<close> holds the named collections
    \<open>js_eval\<close>, \<open>keeps_intros\<close> and \<open>appends_intros\<close> and the locale of keyed stores, interpreted on the insertion-ordered maps of the code.
  \<^item> the access agent: \<open>AdapterTypes\<close> (\<open>adapters/types.ts\<close>), \<open>Assertion\<close> (\<open>identity/assertion.ts\<close>), \<open>AgentConfig\<close> (\<open>config/schema.ts\<close>),
    \<open>Identity\<close> (\<open>identity/resolver.ts\<close>, \<open>approver.ts\<close>), \<open>BrokerClient\<close> and \<open>Webhook\<close> (\<open>broker/\<close>), \<open>Notifications\<close> (\<open>notifications/service.ts\<close>),
    \<open>Sessions\<close>, \<open>StreamJson\<close>, \<open>ClaudeCode\<close>, \<open>ApiKey\<close> (\<open>agent/\<close>), \<open>McpClient\<close> and \<open>ProxyRelay\<close> (\<open>mcp/\<close>), \<open>HttpApp\<close> and \<open>PublicHttp\<close> (\<open>http/server.ts\<close>, \<open>app.ts\<close>),
    \<open>SlackAdapter\<close> and \<open>SlackStream\<close>, \<open>TeamsAdapter\<close>, \<open>GchatAdapter\<close>, \<open>CliAdapter\<close> (\<open>adapters/\<close>), \<open>AgentMain\<close> (\<open>index.ts\<close>, \<open>cli.ts\<close>). \<open>AdapterContract\<close> states what the service relies on of an
    adapter as a locale that every adapter interprets.
  \<^item> the platform agent: \<open>PaConfig\<close>, \<open>PaChannels\<close>, \<open>PaAgent\<close>, \<open>PaServer\<close>; the Backstage backend: \<open>Backend\<close>.
  \<^item> the infrastructure: \<open>Catalog\<close> and \<open>RoleRender\<close> (\<open>policy/\<close>), \<open>DeepMerge\<close>, \<open>PlatformDefaults\<close>, \<open>StackSchema\<close>, \<open>StackProfile\<close> (\<open>config/\<close>,
    \<open>lib/merge.ts\<close>), \<open>AccessCrs\<close>, \<open>NetPolicies\<close>, \<open>Hardening\<close>, \<open>AccessWorkloads\<close>, \<open>ClusterValues\<close>, \<open>DummyWorkloads\<close>, \<open>Enterprise\<close>
    (\<open>components/\<close>, \<open>lib/\<close>), \<open>StackMain\<close> (\<open>index.ts\<close>). \<open>Wiring\<close> and \<open>AgentDeploy\<close> have no code of their own: they put components together.
  \<^item> the portal: \<open>PortalApi\<close> (\<open>api.tsx\<close>: client, provider, the hooks \<open>useResource\<close> and \<open>useAction\<close>), \<open>PortalAccess\<close> (\<open>access-api.tsx\<close>:
    \<open>useAccess\<close>), \<open>PortalRequest\<close>, \<open>PortalRequests\<close>, \<open>PortalRoles\<close> (\<open>pages/access/\<close>), \<open>PortalEnvironments\<close>, \<open>PortalWorkflows\<close> (\<open>pages/\<close>),
    \<open>PortalShell\<close> (\<open>pages/overview.tsx\<close>, \<open>platform.tsx\<close>, \<open>auth.tsx\<close>, elements of \<open>ui.tsx\<close>), \<open>PortalElements\<close> (dialog, copy button, the reloads after a decision). A component is the record of its state and ref cells; what
    can happen to it (clicks, inputs, effects, answers) is a datatype of events with one function that performs an event, where a click counts only if the rendered
    control is there and enabled. A theorem quantifies over all lists of events, so over every interleaving with late answers. The locale \<open>latest_call\<close> states
    what a versioned request promises; both loading hooks interpret it. What is rendered is a function to the contents of the page.
  \<^item> between programs: \<open>PortalWire\<close> (the pages' calls at the Backstage backend and at the platform agent) and \<open>EndToEnd\<close> (Slack, the notification service, a turn and
    its proxy, as \<open>buildApp\<close> in \<open>app.ts\<close> puts them together).

  \<^bold>\<open>What the lemmas show.\<close>

  \<^item> Identity. A chat account reaches a Teleport name only through a verified address of an allowed domain; an assertion is accepted exactly for its
    audience and lifetime and carries what was minted (round trip); every decision sent to the broker is signed for the person who clicked, on a
    card whose nonce the service still tracks; every adapter re-verifies the clicker.
  \<^item> Authenticity. A request at a listener causes one call at most, and only one its surface is for (\<open>PublicHttp\<close>); an event reaches the notification service
    only under a valid signature on its text and never twice under one id and time; Google Chat tokens and events pass the gates in order.
  \<^item> Confinement. The child of a turn has the expected arguments and environment, its tools go through a proxy that fixes the identity, and the proxy
    and its configuration file are gone when the turn is over; the platform agent and the Backstage backend forward only what is listed.
  \<^item> Invariants over all interleavings: at most one turn per conversation, limits of concurrent turns, caches that only hold vetted users.
  \<^item> The portal. A page shows the answer to its latest call and no other; who asks for fresh data gets it; actions of a page do not overlap; an
    idempotency key never stands for two requests; a decision sent is one on another person's pending request that was on the screen; an
    environment is only destroyed by a second click with a confirmation of the generation shown; the assistant's conversation and the link of a role
    survive their round trips; the forms accept what the platform agent accepts.
  \<^item> Infrastructure. Who may write which Teleport resource; which pod reaches which; that pods satisfy the level their namespace enforces and fit its
    quota; that profiles fail closed; that a stack's components are built in an order that can succeed; that merging refines the layering of settings; that the rules of an Enterprise stack decide as the broker does.
  \<^item> Across programs. The environment and files the infrastructure mounts load as a configuration of the agent (\<open>AgentDeploy\<close>), and every address
    a deployed pod dials is served and let through (\<open>Wiring\<close>). From the button rendered in Slack to the request at the broker, and from a message in Slack to the
    request at the MCP server, the person named is the one Slack vouched for (\<open>EndToEnd\<close>). Every call of every page of the portal is one the backend forwards, and a
    question to the assistant is answered by one turn in the name of who asked (\<open>PortalWire\<close>).

  \<^bold>\<open>Conventions.\<close> A class with private state is a record and its methods return the new state; a thrown error is \<^const>\<open>Inl\<close>; an optional member is
  an option and \<open>??\<close> is \<^const>\<open>nullish\<close>. Strings are lists of characters below 256, one for each code unit: texts outside Latin-1 are not modelled,
  and the few such literals of the code stand as their UTF-8 bytes. Numbers that are integers in the code are \<^typ>\<open>int\<close>; a number that may be NaN or
  a fraction is an option or a pair of mantissa and decimal exponent. Cryptography (HMAC, SHA-256, JWT verification), URL parsing, clocks, random
  identifiers, the file system, the browser's locale and every peer are arguments. Hypotheses on them are named where they are used: random identifiers that do not
  repeat for the portal's keys, and for the assertions a signature function whose values are well formed.

  \<^bold>\<open>Loops.\<close> Recursion over text is structural or ends by a measure on its length. The JSON parser takes fuel, twice the length of the text plus two, and
  the round trip shows that this is enough for every value the code prints. The trimming loop of the session store is written with a while combinator
  and shown to return. The digits of a duration are computed through the rounding to a double that the language makes; the search for the exponent has
  fuel 62, enough for every positive number of milliseconds.

  \<^bold>\<open>Not modelled.\<close> The Go services (\<open>internal/\<close>, \<open>cmd/\<close>), Helm charts, Terraform and scripts are not TypeScript. Of the TypeScript: loggers, the web framework's routing and rate limiter,
  the start of the platform agent's server and its signal handlers, the tests, \<open>infra/teleport/scripts/render-crs.ts\<close> (a dump of what is modelled),
  the portal's entry point, artwork and layout, the Slack, Teams, Google and Anthropic client libraries and zod's wording of messages. Pulumi's ordering of resource creation is modelled where
  a property needs it (\<open>AccessCrs\<close>, and between components in \<open>StackMain\<close>) and left out elsewhere.
\<close>

end
